(* ===== verification/Ratify_Prelude.thy ===== *)
theory Ratify_Prelude
  imports Main "HOL-Library.Word" "HOL-Library.Sublist" "HOL-Library.Char_ord"
    "HOL-Library.List_Lexorder" "HOL-Library.AList"
begin

text \<open>
  Shared vocabulary of the development: the Rust types the SDK computes with (byte strings,
  \<open>Vec<u8>\<close>, \<open>i64\<close>, \<open>Result\<close>), the pieces of the Rust standard library it calls (decimal
  formatting, \<open>str::split\<close>, \<open>strip_suffix\<close>, big-endian integers), and the combinators that
  express "return at the first failing check", with the lemmas the component theories share.

  A Rust \<open>String\<close> is a sequence of UTF-8 bytes and is modelled as \<open>string\<close>, one \<open>char\<close> per
  byte, so \<open>len()\<close> is \<open>length\<close> and the derived order is \<open>Ord for str\<close> (bytewise
  lexicographic, \<open>List_Lexorder\<close> over \<open>Char_ord\<close>).  An \<open>i64\<close> is an \<open>int\<close>; every addition or
  subtraction that can leave the range wraps explicitly (\<open>i64_add\<close>, \<open>i64_sub\<close>), which is the
  behaviour of a release build.
\<close>

section \<open>Collections of facts\<close>

named_theorems check_simps \<open>characterisations of "no check failed"\<close>
named_theorems record_simps \<open>facts about result constructors\<close>

section \<open>Basic types\<close>

type_synonym byte = "8 word"
type_synonym bytes = "byte list"
type_synonym 'a rresult = "string + 'a"

abbreviation Err :: "'e \<Rightarrow> 'e + 'a" where "Err \<equiv> Inl"
abbreviation Ok :: "'a \<Rightarrow> 'e + 'a" where "Ok \<equiv> Inr"

definition is_err :: "'e + 'a \<Rightarrow> bool" where
  "is_err r = (case r of Err _ \<Rightarrow> True | Ok _ \<Rightarrow> False)"

definition is_ok :: "'e + 'a \<Rightarrow> bool" where
  "is_ok r = (case r of Err _ \<Rightarrow> False | Ok _ \<Rightarrow> True)"

lemma is_err_simps [simp]: "is_err (Err e)" "\<not> is_err (Ok x)"
  by (simp_all add: is_err_def)

lemma is_ok_simps [simp]: "\<not> is_ok (Err e)" "is_ok (Ok x)"
  by (simp_all add: is_ok_def)

lemma is_ok_iff: "is_ok r \<longleftrightarrow> \<not> is_err r"
  by (cases r) simp_all

lemma is_ok_unit_iff: "is_ok (r :: 'e + unit) \<longleftrightarrow> r = Ok ()"
  by (cases r) simp_all

text \<open>\<open>Result::map_err\<close>.\<close>

definition map_err :: "('e \<Rightarrow> 'f) \<Rightarrow> 'e + 'a \<Rightarrow> 'f + 'a" where
  "map_err f r = (case r of Err e \<Rightarrow> Err (f e) | Ok x \<Rightarrow> Ok x)"

lemma map_err_simps [simp]: "map_err f (Err e) = Err (f e)" "map_err f (Ok x) = Ok x"
  by (simp_all add: map_err_def)

lemma map_err_Ok_iff [simp]: "map_err f r = Ok x \<longleftrightarrow> r = Ok x"
  by (cases r) simp_all

text \<open>A failing check of a function that returns \<open>Result<(), String>\<close>.\<close>

definition err_opt :: "'e + 'a \<Rightarrow> 'e option" where
  "err_opt r = (case r of Err e \<Rightarrow> Some e | Ok _ \<Rightarrow> None)"

lemma err_opt_simps [simp]: "err_opt (Err e) = Some e" "err_opt (Ok x) = None"
  by (simp_all add: err_opt_def)

lemma err_opt_None_iff: "err_opt r = None \<longleftrightarrow> is_ok r"
  by (cases r) simp_all

lemma err_opt_Some_iff: "err_opt r = Some e \<longleftrightarrow> r = Err e"
  by (cases r) simp_all

section \<open>Returning at the first failing check\<close>

fun first_failure :: "'e option list \<Rightarrow> 'e option" where
  "first_failure [] = None"
| "first_failure (c # cs) = (case c of Some e \<Rightarrow> Some e | None \<Rightarrow> first_failure cs)"

lemma first_failure_None [check_simps]: "first_failure cs = None \<longleftrightarrow> (\<forall>c\<in>set cs. c = None)"
  by (induction cs) (auto split: option.splits)

lemma first_failure_Some_mem: "first_failure cs = Some e \<Longrightarrow> Some e \<in> set cs"
  by (induction cs) (auto split: option.splits)

lemma first_failure_append:
  "first_failure (cs @ ds) =
     (case first_failure cs of Some e \<Rightarrow> Some e | None \<Rightarrow> first_failure ds)"
  by (induction cs) (auto split: option.splits)

text \<open>A loop over \<open>xs.iter().enumerate()\<close> whose body may return an error.\<close>

fun find_failure :: "(nat \<Rightarrow> 'a \<Rightarrow> 'e option) \<Rightarrow> nat \<Rightarrow> 'a list \<Rightarrow> 'e option" where
  "find_failure f i [] = None"
| "find_failure f i (x # xs) =
     (case f i x of Some e \<Rightarrow> Some e | None \<Rightarrow> find_failure f (Suc i) xs)"

lemma find_failure_None:
  "find_failure f i xs = None \<longleftrightarrow> (\<forall>j < length xs. f (i + j) (xs ! j) = None)"
proof (induction xs arbitrary: i)
  case Nil
  then show ?case by simp
next
  case (Cons x xs)
  have "(\<forall>j < length (x # xs). f (i + j) ((x # xs) ! j) = None)
     \<longleftrightarrow> f i x = None \<and> (\<forall>j < length xs. f (Suc i + j) (xs ! j) = None)"
    by (simp add: All_less_Suc2)
  with Cons.IH [of "Suc i"] show ?case by (simp split: option.split)
qed

lemma find_failure_Some:
  "find_failure f i xs = Some e \<Longrightarrow> \<exists>j < length xs. f (i + j) (xs ! j) = Some e"
proof (induction xs arbitrary: i)
  case (Cons x xs)
  show ?case
  proof (cases "f i x")
    case None
    with Cons.prems have "find_failure f (Suc i) xs = Some e" by simp
    then obtain j where "j < length xs" "f (Suc i + j) (xs ! j) = Some e"
      using Cons.IH by blast
    then have "Suc j < length (x # xs) \<and> f (i + Suc j) ((x # xs) ! Suc j) = Some e" by simp
    then show ?thesis by blast
  next
    case (Some a)
    with Cons.prems have "0 < length (x # xs) \<and> f (i + 0) ((x # xs) ! 0) = Some e" by simp
    then show ?thesis by blast
  qed
qed simp

lemma find_failure_const_None [check_simps]:
  "find_failure (\<lambda>_. g) i xs = None \<longleftrightarrow> (\<forall>x\<in>set xs. g x = None)"
  by (simp add: find_failure_None all_set_conv_all_nth)

section \<open>Machine integers\<close>

definition i64_range :: "int \<Rightarrow> bool" where
  "i64_range x \<longleftrightarrow> - (2 ^ 63) \<le> x \<and> x < 2 ^ 63"

definition i64_wrap :: "int \<Rightarrow> int" where
  "i64_wrap x = (x + 2 ^ 63) mod 2 ^ 64 - 2 ^ 63"

definition i64_add :: "int \<Rightarrow> int \<Rightarrow> int" where
  "i64_add a b = i64_wrap (a + b)"

definition i64_sub :: "int \<Rightarrow> int \<Rightarrow> int" where
  "i64_sub a b = i64_wrap (a - b)"

lemma i64_wrap_range: "i64_range (i64_wrap x)"
  by (simp add: i64_range_def i64_wrap_def)

lemma i64_wrap_id: "i64_range x \<Longrightarrow> i64_wrap x = x"
  by (simp add: i64_range_def i64_wrap_def)

lemma i64_wrap_cong_mod: "i64_wrap x mod 2 ^ 64 = x mod 2 ^ 64"
  by (simp add: i64_wrap_def mod_diff_left_eq)

text \<open>\<open>(x as u64).to_be_bytes()\<close>.\<close>

definition be64 :: "int \<Rightarrow> bytes" where
  "be64 x = map (\<lambda>k. word_of_int (x div 256 ^ k)) [7, 6, 5, 4, 3, 2, 1, 0]"

lemma length_be64 [simp]: "length (be64 x) = 8"
  by (simp add: be64_def)

fun be_value :: "bytes \<Rightarrow> int" where
  "be_value [] = 0"
| "be_value (b # bs) = uint b * 256 ^ length bs + be_value bs"

lemma uint_byte: "uint (word_of_int x :: byte) = x mod 256"
  by (simp add: uint_word_of_int)

lemma be_value_digits:
  "be_value (map (\<lambda>k. word_of_int (x div 256 ^ k)) (rev [0..<n])) = x mod 256 ^ n"
proof (induction n)
  case 0
  then show ?case by simp
next
  case (Suc n)
  have "x mod (256 ^ n * 256) = 256 ^ n * (x div 256 ^ n mod 256) + x mod 256 ^ n"
    by (rule zmod_zmult2_eq) simp
  with Suc.IH show ?case
    by (simp add: uint_byte mult.commute)
qed

lemma be64_value: "be_value (be64 x) = x mod 2 ^ 64"
proof -
  have "[7, 6, 5, 4, 3, 2, 1, 0] = rev [0..<8]"
    by (simp add: upt_rec)
  then show ?thesis
    using be_value_digits [of x 8] by (simp only: be64_def) simp
qed

lemma be64_inj:
  assumes "be64 x = be64 y" "i64_range x" "i64_range y"
  shows "x = y"
proof -
  from assms(1) have "x mod 2 ^ 64 = y mod 2 ^ 64"
    by (metis be64_value)
  then have "i64_wrap x = i64_wrap y"
    unfolding i64_wrap_def by (metis mod_add_left_eq)
  with assms(2,3) show ?thesis by (simp add: i64_wrap_id)
qed

section \<open>Strings\<close>

definition char_byte :: "char \<Rightarrow> byte" where
  "char_byte c = word_of_nat (of_char c)"

definition str_bytes :: "string \<Rightarrow> bytes" where
  "str_bytes s = map char_byte s"

lemma length_str_bytes [simp]: "length (str_bytes s) = length s"
  by (simp add: str_bytes_def)

lemma unat_char_byte: "unat (char_byte c) = of_char c"
proof -
  have "(of_char c :: nat) < 256" by simp
  then show ?thesis
    by (simp only: char_byte_def unat_of_nat) simp
qed

lemma char_byte_inj: "char_byte c = char_byte d \<longleftrightarrow> c = d"
  by (metis unat_char_byte of_char_eq_iff)

lemma str_bytes_inj: "str_bytes s = str_bytes t \<longleftrightarrow> s = t"
  unfolding str_bytes_def
  by (rule inj_map_eq_map) (auto intro: injI simp: char_byte_inj)

lemma str_bytes_append [simp]: "str_bytes (s @ t) = str_bytes s @ str_bytes t"
  by (simp add: str_bytes_def)

text \<open>Decimal text of \<open>usize\<close> and \<open>i64\<close> values (\<open>to_string\<close>, \<open>format!("{}")\<close>).\<close>

definition digit_char :: "int \<Rightarrow> char" where
  "digit_char d = char_of (48 + d)"

function dec_pos :: "int \<Rightarrow> string" where
  "dec_pos n = (if n < 10 then [digit_char n] else dec_pos (n div 10) @ [digit_char (n mod 10)])"
  by pat_completeness auto
termination
  by (relation "measure nat") auto

declare dec_pos.simps [simp del]

definition dec_nat :: "nat \<Rightarrow> string" where
  "dec_nat n = dec_pos (int n)"

definition dec_int :: "int \<Rightarrow> string" where
  "dec_int i = (if i < 0 then CHR ''-'' # dec_pos (- i) else dec_pos i)"

definition is_digit :: "char \<Rightarrow> bool" where
  "is_digit c \<longleftrightarrow> 48 \<le> (of_char c :: nat) \<and> (of_char c :: nat) \<le> 57"

text \<open>Double quotes around a value, as in the literal \<open>\"{}\"\<close>.\<close>

definition quoted :: "string \<Rightarrow> string" where
  "quoted s = CHR 0x22 # s @ [CHR 0x22]"

text \<open>\<open>str::split(char)\<close>: always at least one segment.\<close>

fun split_on :: "char \<Rightarrow> string \<Rightarrow> string list" where
  "split_on c [] = [[]]"
| "split_on c (x # xs) =
     (if x = c then [] # split_on c xs
      else (case split_on c xs of w # ws \<Rightarrow> (x # w) # ws | [] \<Rightarrow> [[x]]))"

fun join_on :: "char \<Rightarrow> string list \<Rightarrow> string" where
  "join_on c [] = []"
| "join_on c [w] = w"
| "join_on c (w # ws) = w @ c # join_on c ws"

definition strip_suffix_char :: "char \<Rightarrow> string \<Rightarrow> string option" where
  "strip_suffix_char c s = (if s \<noteq> [] \<and> last s = c then Some (butlast s) else None)"

text \<open>\<open>s.starts_with(p)\<close> and \<open>s.contains(p)\<close>.\<close>

definition starts_with :: "string \<Rightarrow> string \<Rightarrow> bool" where
  "starts_with s p = prefix p s"

definition str_contains :: "string \<Rightarrow> string \<Rightarrow> bool" where
  "str_contains s p = sublist p s"

text \<open>\<open>Option::unwrap_or\<close>.\<close>

definition unwrap_or :: "'a option \<Rightarrow> 'a \<Rightarrow> 'a" where
  "unwrap_or x d = (case x of Some y \<Rightarrow> y | None \<Rightarrow> d)"

lemma unwrap_or_simps [simp]: "unwrap_or None d = d" "unwrap_or (Some x) d = x"
  by (simp_all add: unwrap_or_def)

lemma split_on_not_Nil [simp]: "split_on c s \<noteq> []"
  by (cases s) (auto split: list.split)

lemma join_split: "join_on c (split_on c s) = s"
proof (induction s)
  case Nil
  then show ?case by simp
next
  case (Cons x xs)
  obtain w ws where eq: "split_on c xs = w # ws"
    by (cases "split_on c xs") auto
  with Cons.IH have "join_on c (w # ws) = xs" by simp
  then show ?case
    using eq by (cases ws) auto
qed

lemma split_on_no_sep: "\<forall>w\<in>set (split_on c s). c \<notin> set w"
  by (induction s) (auto split: list.splits)

lemma split_on_append_sep:
  "split_on c (s @ c # t) = split_on c s @ split_on c t"
  by (induction s) (auto split: list.splits)

lemma split_on_word: "c \<notin> set w \<Longrightarrow> split_on c w = [w]"
  by (induction w) auto

lemma split_join:
  "ws \<noteq> [] \<Longrightarrow> \<forall>w\<in>set ws. c \<notin> set w \<Longrightarrow> split_on c (join_on c ws) = ws"
proof (induction ws rule: join_on.induct)
  case (3 c w v vs)
  then have "split_on c (w @ c # join_on c (v # vs)) = [w] @ (v # vs)"
    by (simp add: split_on_append_sep split_on_word)
  then show ?case by simp
qed (auto simp: split_on_word)

lemma split_on_inj: "split_on c s = split_on c t \<longleftrightarrow> s = t"
  by (metis join_split)

end
