(* ===== verification/Float64.thy ===== *)
theory Float64
  imports Complex_Main Ratify_Prelude
begin

text \<open>
  IEEE-754 binary64, the Rust \<open>f64\<close> of the geographic, speed and amount constraints.  A value
  is its 64-bit pattern, so \<open>NaN\<close>, the two zeros and the infinities are the ones the program
  sees.  Comparisons, the four arithmetic operations (round to nearest, ties to even) and the
  fixed-precision formatting \<open>{:.n}\<close> are defined exactly over rationals.  The functions Rust
  leaves to the platform (\<open>sin\<close>, \<open>cos\<close>, \<open>asin\<close>, \<open>sqrt\<close>, \<open>powi\<close>) and the shortest round-trip
  printer behind \<open>f64::to_string\<close> are parameters, collected in the record \<open>libm\<close>.
\<close>

type_synonym f64 = "64 word"

section \<open>Bit patterns\<close>

definition f64_sign :: "f64 \<Rightarrow> bool" where
  "f64_sign w \<longleftrightarrow> 2 ^ 63 \<le> uint w"

definition f64_mag :: "f64 \<Rightarrow> int" where
  "f64_mag w = uint w mod 2 ^ 63"

definition f64_exp :: "f64 \<Rightarrow> int" where
  "f64_exp w = f64_mag w div 2 ^ 52"

definition f64_frac :: "f64 \<Rightarrow> int" where
  "f64_frac w = f64_mag w mod 2 ^ 52"

definition f64_is_nan :: "f64 \<Rightarrow> bool" where
  "f64_is_nan w \<longleftrightarrow> f64_exp w = 2047 \<and> f64_frac w \<noteq> 0"

definition f64_is_inf :: "f64 \<Rightarrow> bool" where
  "f64_is_inf w \<longleftrightarrow> f64_exp w = 2047 \<and> f64_frac w = 0"

definition f64_is_finite :: "f64 \<Rightarrow> bool" where
  "f64_is_finite w \<longleftrightarrow> f64_exp w \<noteq> 2047"

definition f64_nan :: f64 where "f64_nan = 0x7FF8000000000000"
definition f64_inf :: "bool \<Rightarrow> f64" where
  "f64_inf neg = (if neg then 0xFFF0000000000000 else 0x7FF0000000000000)"
definition f64_zero :: "bool \<Rightarrow> f64" where
  "f64_zero neg = (if neg then 0x8000000000000000 else 0)"

section \<open>Comparisons\<close>

text \<open>Sign and magnitude order the non-NaN patterns; both zeros have key 0.\<close>

definition f64_key :: "f64 \<Rightarrow> int" where
  "f64_key w = (if f64_sign w then - f64_mag w else f64_mag w)"

definition f64_lt :: "f64 \<Rightarrow> f64 \<Rightarrow> bool" where
  "f64_lt a b \<longleftrightarrow> \<not> f64_is_nan a \<and> \<not> f64_is_nan b \<and> f64_key a < f64_key b"

definition f64_le :: "f64 \<Rightarrow> f64 \<Rightarrow> bool" where
  "f64_le a b \<longleftrightarrow> \<not> f64_is_nan a \<and> \<not> f64_is_nan b \<and> f64_key a \<le> f64_key b"

definition f64_eq :: "f64 \<Rightarrow> f64 \<Rightarrow> bool" where
  "f64_eq a b \<longleftrightarrow> \<not> f64_is_nan a \<and> \<not> f64_is_nan b \<and> f64_key a = f64_key b"

abbreviation f64_gt :: "f64 \<Rightarrow> f64 \<Rightarrow> bool" where "f64_gt a b \<equiv> f64_lt b a"
abbreviation f64_ge :: "f64 \<Rightarrow> f64 \<Rightarrow> bool" where "f64_ge a b \<equiv> f64_le b a"

text \<open>\<open>f64::min\<close>: the other operand when one is NaN.\<close>

definition f64_min :: "f64 \<Rightarrow> f64 \<Rightarrow> f64" where
  "f64_min a b = (if f64_is_nan a then b else if f64_is_nan b then a
     else if f64_lt b a then b else a)"

section \<open>Values and rounding\<close>

definition pow2 :: "int \<Rightarrow> rat" where
  "pow2 k = (if 0 \<le> k then 2 ^ nat k else 1 / 2 ^ nat (- k))"

definition f64_abs_val :: "f64 \<Rightarrow> rat" where
  "f64_abs_val w = (if f64_exp w = 0 then of_int (f64_frac w) * pow2 (- 1074)
     else of_int (2 ^ 52 + f64_frac w) * pow2 (f64_exp w - 1075))"

definition f64_val :: "f64 \<Rightarrow> rat" where
  "f64_val w = (if f64_sign w then - f64_abs_val w else f64_abs_val w)"

definition round_half_even :: "rat \<Rightarrow> int" where
  "round_half_even q = (let f = \<lfloor>q\<rfloor>; r = q - of_int f in
     if r < 1 / 2 then f else if r > 1 / 2 then f + 1 else if even f then f else f + 1)"

function bit_len :: "int \<Rightarrow> int" where
  "bit_len n = (if n \<le> 0 then 0 else 1 + bit_len (n div 2))"
  by pat_completeness auto
termination
  by (relation "measure nat") auto

declare bit_len.simps [simp del]

definition ilog2 :: "rat \<Rightarrow> int" where
  "ilog2 q = (let (n, d) = quotient_of q; k = bit_len n - bit_len d in
     if q < pow2 k then k - 1 else k)"

text \<open>The pattern nearest to \<open>\<plusminus>q\<close>; \<open>neg\<close> is the sign of the result, also of a zero.\<close>

definition f64_round :: "bool \<Rightarrow> rat \<Rightarrow> f64" where
  "f64_round neg q = (if q = 0 then f64_zero neg else
     let e = max (ilog2 q - 52) (- 1074);
         m = round_half_even (q / pow2 e);
         bits = m + (e + 1074) * 2 ^ 52
     in if 2047 * 2 ^ 52 \<le> bits then f64_inf neg else f64_zero neg + word_of_int bits)"

definition f64_of_rat :: "bool \<Rightarrow> rat \<Rightarrow> f64" where
  "f64_of_rat zero_neg q = (if q = 0 then f64_zero zero_neg else f64_round (q < 0) \<bar>q\<bar>)"

definition f64_neg :: "f64 \<Rightarrow> f64" where
  "f64_neg a = (if f64_sign a then a - 2 ^ 63 else a + 2 ^ 63)"

definition f64_add :: "f64 \<Rightarrow> f64 \<Rightarrow> f64" where
  "f64_add a b = (if f64_is_nan a \<or> f64_is_nan b then f64_nan
     else if f64_is_inf a then (if f64_is_inf b \<and> f64_sign a \<noteq> f64_sign b then f64_nan else a)
     else if f64_is_inf b then b
     else f64_of_rat (f64_sign a \<and> f64_sign b) (f64_val a + f64_val b))"

definition f64_sub :: "f64 \<Rightarrow> f64 \<Rightarrow> f64" where
  "f64_sub a b = f64_add a (f64_neg b)"

definition f64_mul :: "f64 \<Rightarrow> f64 \<Rightarrow> f64" where
  "f64_mul a b = (let s = (f64_sign a \<noteq> f64_sign b) in
     if f64_is_nan a \<or> f64_is_nan b then f64_nan
     else if f64_is_inf a \<or> f64_is_inf b
       then (if f64_mag a = 0 \<or> f64_mag b = 0 then f64_nan else f64_inf s)
     else f64_round s (f64_abs_val a * f64_abs_val b))"

definition f64_div :: "f64 \<Rightarrow> f64 \<Rightarrow> f64" where
  "f64_div a b = (let s = (f64_sign a \<noteq> f64_sign b) in
     if f64_is_nan a \<or> f64_is_nan b then f64_nan
     else if f64_is_inf a then (if f64_is_inf b then f64_nan else f64_inf s)
     else if f64_is_inf b then f64_zero s
     else if f64_mag b = 0 then (if f64_mag a = 0 then f64_nan else f64_inf s)
     else f64_round s (f64_abs_val a / f64_abs_val b))"

section \<open>Text\<close>

text \<open>\<open>format!("{:.n}", x)\<close>.\<close>

definition fmt_fixed :: "nat \<Rightarrow> f64 \<Rightarrow> string" where
  "fmt_fixed n w = (if f64_is_nan w then ''NaN''
     else (if f64_sign w then ''-'' else '''') @
       (if f64_is_inf w then ''inf''
        else let m = round_half_even (f64_abs_val w * 10 ^ n);
                 f = dec_pos (m mod 10 ^ n)
             in dec_pos (m div 10 ^ n) @
                (if n = 0 then '''' else ''.'' @ replicate (n - length f) (CHR ''0'') @ f)))"

text \<open>\<open>x.is_finite() && x.fract() == 0.0 && x.abs() < 1e15\<close> and the cast \<open>x as i64\<close> there.\<close>

definition f64_small_integer :: "f64 \<Rightarrow> bool" where
  "f64_small_integer w \<longleftrightarrow>
     f64_is_finite w \<and> f64_abs_val w = of_int \<lfloor>f64_abs_val w\<rfloor> \<and> f64_abs_val w < 10 ^ 15"

definition f64_trunc :: "f64 \<Rightarrow> int" where
  "f64_trunc w = (if f64_sign w then - \<lfloor>f64_abs_val w\<rfloor> else \<lfloor>f64_abs_val w\<rfloor>)"

text \<open>What the platform supplies.\<close>

record libm =
  lm_sin :: "f64 \<Rightarrow> f64"
  lm_cos :: "f64 \<Rightarrow> f64"
  lm_asin :: "f64 \<Rightarrow> f64"
  lm_sqrt :: "f64 \<Rightarrow> f64"
  lm_powi2 :: "f64 \<Rightarrow> f64"
  lm_display :: "f64 \<Rightarrow> string"

section \<open>Facts about the order\<close>

lemma f64_lt_irrefl [simp]: "\<not> f64_lt a a"
  by (simp add: f64_lt_def)

lemma f64_lt_trans: "f64_lt a b \<Longrightarrow> f64_lt b c \<Longrightarrow> f64_lt a c"
  by (simp add: f64_lt_def)

lemma f64_le_lt_trans: "f64_le a b \<Longrightarrow> f64_lt b c \<Longrightarrow> f64_lt a c"
  by (simp add: f64_le_def f64_lt_def)

lemma f64_not_lt:
  "\<not> f64_is_nan a \<Longrightarrow> \<not> f64_is_nan b \<Longrightarrow> \<not> f64_lt a b \<longleftrightarrow> f64_le b a"
  by (auto simp: f64_lt_def f64_le_def)

lemma f64_nan_unordered:
  assumes "f64_is_nan a"
  shows "\<not> f64_lt a b" "\<not> f64_lt b a" "\<not> f64_le a b" "\<not> f64_le b a"
  using assms by (simp_all add: f64_lt_def f64_le_def)

lemma f64_nan_is_nan: "f64_is_nan f64_nan"
  by (simp add: f64_is_nan_def f64_nan_def f64_exp_def f64_frac_def f64_mag_def)

end
