(* ===== verification/V1_Types.thy ===== *)
theory V1_Types
  imports Float64
begin

text \<open>
  The data model of Protocol v1 (\<open>sdks/rust/src/types.rs\<close>): protocol constants, the signed
  objects, the verifier's context and options, and the verification result.  Record fields carry
  a short prefix naming their struct, since Isabelle fields are global.  A \<open>BTreeMap\<close> is an
  association list in key order.  A trait object (\<open>RevocationProvider\<close>, \<open>PolicyProvider\<close>,
  \<open>AnchorResolver\<close>, \<open>ConstraintEvaluator\<close>, \<open>ChallengeStore\<close>) is a function, or a record of
  functions, supplied by the caller.
\<close>

section \<open>Constants\<close>

definition PROTOCOL_VERSION :: int where "PROTOCOL_VERSION = 1"
definition NO_EXPIRY_SENTINEL :: int where "NO_EXPIRY_SENTINEL = 4070908799"
definition MAX_DELEGATION_CHAIN_DEPTH :: nat where "MAX_DELEGATION_CHAIN_DEPTH = 8"
definition CHALLENGE_WINDOW_SECONDS :: int where "CHALLENGE_WINDOW_SECONDS = 300"
definition MAX_PROOF_BUNDLE_BYTES :: nat where "MAX_PROOF_BUNDLE_BYTES = 131072"
definition MAX_SCOPES_PER_CERT :: nat where "MAX_SCOPES_PER_CERT = 128"
definition MAX_CONSTRAINTS_PER_CERT :: nat where "MAX_CONSTRAINTS_PER_CERT = 32"
definition MAX_SCOPE_LENGTH_BYTES :: nat where "MAX_SCOPE_LENGTH_BYTES = 256"
definition MAX_IDENTIFIER_LENGTH_BYTES :: nat where "MAX_IDENTIFIER_LENGTH_BYTES = 512"
definition MAX_AGENT_NAME_LENGTH_BYTES :: nat where "MAX_AGENT_NAME_LENGTH_BYTES = 256"
definition MAX_JSON_NESTING_DEPTH :: nat where "MAX_JSON_NESTING_DEPTH = 16"
definition ED25519_PUBLIC_KEY_SIZE :: nat where "ED25519_PUBLIC_KEY_SIZE = 32"
definition ED25519_SIGNATURE_SIZE :: nat where "ED25519_SIGNATURE_SIZE = 64"
definition MLDSA65_PUBLIC_KEY_SIZE :: nat where "MLDSA65_PUBLIC_KEY_SIZE = 1952"
definition MLDSA65_SIGNATURE_SIZE :: nat where "MLDSA65_SIGNATURE_SIZE = 3309"
definition MAX_SAFE_INTEGER :: int where "MAX_SAFE_INTEGER = 2 ^ 53 - 1"

section \<open>Keys, signatures, anchors\<close>

record hybrid_public_key =
  pk_ed25519 :: bytes
  pk_ml_dsa_65 :: bytes

record hybrid_signature =
  sig_ed25519 :: bytes
  sig_ml_dsa_65 :: bytes

record hybrid_private_key =
  sk_ed25519 :: bytes
  sk_ml_dsa_65 :: bytes

record anchor =
  an_type :: string
  an_provider :: string
  an_reference :: string
  an_verified_at :: int

section \<open>Constraints and certificates\<close>

datatype params_value =
    PNull
  | PBool bool
  | PInt int
  | PStr string
  | PArray "params_value list"
  | PObject "(string \<times> params_value) list"

record constraint =
  c_count :: int
  c_currency :: string
  c_end :: string
  c_lat :: f64
  c_lon :: f64
  c_max_alt_m :: f64
  c_max_amount :: f64
  c_max_lat :: f64
  c_max_lon :: f64
  c_max_mps :: f64
  c_min_alt_m :: f64
  c_min_lat :: f64
  c_min_lon :: f64
  c_params :: "(string \<times> params_value) list option"
  c_path_prefix :: "string option"
  c_points :: "(f64 \<times> f64) list"
  c_radius_m :: f64
  c_resource_id :: string
  c_start :: string
  c_tz :: string
  c_kind :: string
  c_window_s :: int

text \<open>\<open>Constraint::default()\<close>.\<close>

definition default_constraint :: constraint where
  "default_constraint = \<lparr>c_count = 0, c_currency = '''', c_end = '''', c_lat = 0, c_lon = 0,
     c_max_alt_m = 0, c_max_amount = 0, c_max_lat = 0, c_max_lon = 0, c_max_mps = 0,
     c_min_alt_m = 0, c_min_lat = 0, c_min_lon = 0, c_params = None, c_path_prefix = None,
     c_points = [], c_radius_m = 0, c_resource_id = '''', c_start = '''', c_tz = '''',
     c_kind = '''', c_window_s = 0\<rparr>"

definition is_canonical_constraint_type :: "string \<Rightarrow> bool" where
  "is_canonical_constraint_type t \<longleftrightarrow>
     t \<in> set [''geo_circle'', ''geo_polygon'', ''geo_bbox'', ''time_window'', ''max_speed_mps'',
       ''max_amount'', ''max_rate'', ''resource_path'']"

text \<open>The cross-field rule of the wire form (\<open>TryFrom<ConstraintWire>\<close>).\<close>

definition constraint_try_from :: "constraint \<Rightarrow> constraint rresult" where
  "constraint_try_from w =
     (if c_kind w = ''resource_path'' \<and> c_resource_id w = ''''
      then Err ''resource_path constraint requires a non-empty resource_id'' else Ok w)"

record delegation_cert =
  dc_cert_id :: string
  dc_version :: int
  dc_issuer_id :: string
  dc_issuer_pub_key :: hybrid_public_key
  dc_subject_id :: string
  dc_subject_pub_key :: hybrid_public_key
  dc_scope :: "string list"
  dc_constraints :: "constraint list"
  dc_issued_at :: int
  dc_expires_at :: int
  dc_signature :: hybrid_signature

definition is_no_expiry :: "delegation_cert \<Rightarrow> bool" where
  "is_no_expiry c \<longleftrightarrow> dc_expires_at c = NO_EXPIRY_SENTINEL"

section \<open>The presentation and the verifier's context\<close>

record proof_bundle =
  pb_agent_id :: string
  pb_agent_pub_key :: hybrid_public_key
  pb_delegations :: "delegation_cert list"
  pb_challenge :: bytes
  pb_challenge_at :: int
  pb_challenge_sig :: hybrid_signature
  pb_session_context :: bytes
  pb_stream_id :: bytes
  pb_stream_seq :: int

record verifier_context =
  vc_current_lat :: "f64 option"
  vc_current_lon :: "f64 option"
  vc_current_alt_m :: "f64 option"
  vc_current_speed_mps :: "f64 option"
  vc_requested_amount :: "f64 option"
  vc_requested_currency :: "string option"
  vc_invocations_in_window :: "(string \<Rightarrow> int \<Rightarrow> int) option"
  vc_requested_resource_id :: "string option"
  vc_requested_path :: "string option"

definition default_context :: verifier_context where
  "default_context = \<lparr>vc_current_lat = None, vc_current_lon = None, vc_current_alt_m = None,
     vc_current_speed_mps = None, vc_requested_amount = None, vc_requested_currency = None,
     vc_invocations_in_window = None, vc_requested_resource_id = None,
     vc_requested_path = None\<rparr>"

section \<open>Results\<close>

datatype identity_status =
    VerifiedHuman | AuthorizedAgent | Expired | Revoked | ScopeDenied | ConstraintDenied
  | ConstraintUnverifiable | ConstraintUnknown | DelegationNotAuthorized | InvalidScope
  | Invalid | Unauthorized

fun as_str :: "identity_status \<Rightarrow> string" where
  "as_str VerifiedHuman = ''verified_human''"
| "as_str AuthorizedAgent = ''authorized_agent''"
| "as_str Expired = ''expired''"
| "as_str Revoked = ''revoked''"
| "as_str ScopeDenied = ''scope_denied''"
| "as_str ConstraintDenied = ''constraint_denied''"
| "as_str ConstraintUnverifiable = ''constraint_unverifiable''"
| "as_str ConstraintUnknown = ''constraint_unknown''"
| "as_str DelegationNotAuthorized = ''delegation_not_authorized''"
| "as_str InvalidScope = ''invalid_scope''"
| "as_str Invalid = ''invalid''"
| "as_str Unauthorized = ''unauthorized''"

definition from_wire :: "string \<Rightarrow> identity_status option" where
  "from_wire s =
     (if s = ''verified_human'' then Some VerifiedHuman
      else if s = ''authorized_agent'' then Some AuthorizedAgent
      else if s = ''expired'' then Some Expired
      else if s = ''revoked'' then Some Revoked
      else if s = ''scope_denied'' then Some ScopeDenied
      else if s = ''constraint_denied'' then Some ConstraintDenied
      else if s = ''constraint_unverifiable'' then Some ConstraintUnverifiable
      else if s = ''constraint_unknown'' then Some ConstraintUnknown
      else if s = ''delegation_not_authorized'' then Some DelegationNotAuthorized
      else if s = ''invalid_scope'' then Some InvalidScope
      else if s = ''invalid'' then Some Invalid
      else if s = ''unauthorized'' then Some Unauthorized
      else None)"

record verify_result =
  vr_valid :: bool
  vr_identity_status :: identity_status
  vr_human_id :: string
  vr_agent_id :: string
  vr_agent_name :: string
  vr_agent_type :: string
  vr_granted_scope :: "string list"
  vr_error_reason :: string
  vr_anchor :: "anchor option"

section \<open>Other signed objects\<close>

record revocation_list =
  rl_issuer_id :: string
  rl_updated_at :: int
  rl_revoked_certs :: "string list"
  rl_signature :: hybrid_signature

record revocation_push =
  rp_issuer_id :: string
  rp_seq_no :: int
  rp_entries :: "string list"
  rp_pushed_at :: int
  rp_signature :: hybrid_signature

record witness_entry =
  we_prev_hash :: bytes
  we_entry_data :: bytes
  we_timestamp :: int
  we_witness_id :: string
  we_signature :: hybrid_signature

record session_token =
  st_version :: int
  st_session_id :: string
  st_agent_id :: string
  st_agent_pub_key :: hybrid_public_key
  st_human_id :: string
  st_granted_scope :: "string list"
  st_issued_at :: int
  st_valid_until :: int
  st_chain_hash :: bytes
  st_mac :: bytes

record receipt_party =
  py_party_id :: string
  py_role :: string
  py_agent_id :: string
  py_agent_pub_key :: hybrid_public_key
  py_proof_bundle :: proof_bundle

record receipt_party_signature =
  ps_party_id :: string
  ps_signature :: hybrid_signature

record transaction_receipt =
  tr_version :: int
  tr_transaction_id :: string
  tr_created_at :: int
  tr_terms_schema_uri :: string
  tr_terms_canonical_json :: bytes
  tr_parties :: "receipt_party list"
  tr_party_signatures :: "receipt_party_signature list"

record transaction_receipt_result =
  trr_valid :: bool
  trr_error_reason :: string
  trr_party_results :: "verify_result list"

record key_rotation_statement =
  kr_version :: int
  kr_old_id :: string
  kr_old_pub_key :: hybrid_public_key
  kr_new_id :: string
  kr_new_pub_key :: hybrid_public_key
  kr_rotated_at :: int
  kr_reason :: string
  kr_signature_old :: hybrid_signature
  kr_signature_new :: hybrid_signature

record stream_context =
  sc_stream_id :: bytes
  sc_last_seen_seq :: int

record policy_verdict =
  pv_version :: int
  pv_verdict_id :: string
  pv_agent_id :: string
  pv_scope :: string
  pv_allow :: bool
  pv_context_hash :: bytes
  pv_issued_at :: int
  pv_valid_until :: int
  pv_mac :: bytes

record verification_receipt =
  vrc_version :: int
  vrc_verifier_id :: string
  vrc_verifier_pub :: hybrid_public_key
  vrc_bundle_hash :: bytes
  vrc_decision :: string
  vrc_human_id :: string
  vrc_agent_id :: string
  vrc_granted_scope :: "string list"
  vrc_error_reason :: string
  vrc_verified_at :: int
  vrc_prev_hash :: bytes
  vrc_signature :: hybrid_signature

section \<open>Options\<close>

text \<open>
  The \<open>ChallengeStore\<close> trait as operations over a store state \<open>'s\<close>.  A call may change the
  state, and returns the new one.
\<close>

record 's challenge_store =
  cs_validate :: "bytes \<Rightarrow> bytes \<Rightarrow> int \<Rightarrow> 's \<Rightarrow> unit rresult \<times> 's"
  cs_consume :: "bytes \<Rightarrow> bytes \<Rightarrow> int \<Rightarrow> 's \<Rightarrow> unit rresult \<times> 's"

type_synonym constraint_evaluator =
  "constraint \<Rightarrow> string \<Rightarrow> verifier_context \<Rightarrow> int \<Rightarrow> unit rresult"

record 's verify_options =
  vo_required_scope :: string
  vo_is_revoked :: "(string \<Rightarrow> bool) option"
  vo_revocation :: "(string \<Rightarrow> bool rresult) option"
  vo_force_revocation_check :: bool
  vo_now :: "int option"
  vo_session_context :: bytes
  vo_stream :: "stream_context option"
  vo_context :: verifier_context
  vo_policy :: "(proof_bundle \<Rightarrow> verifier_context \<Rightarrow> bool rresult) option"
  vo_audit :: bool
  vo_constraint_evaluators :: "(string \<times> constraint_evaluator) list option"
  vo_policy_verdict :: "policy_verdict option"
  vo_policy_secret :: "bytes option"
  vo_anchor_resolver :: "(string \<Rightarrow> anchor option rresult) option"
  vo_challenge_store :: "'s challenge_store option"

definition default_options :: "'s verify_options" where
  "default_options = \<lparr>vo_required_scope = '''', vo_is_revoked = None, vo_revocation = None,
     vo_force_revocation_check = False, vo_now = None, vo_session_context = [],
     vo_stream = None, vo_context = default_context, vo_policy = None, vo_audit = False,
     vo_constraint_evaluators = None, vo_policy_verdict = None, vo_policy_secret = None,
     vo_anchor_resolver = None, vo_challenge_store = None\<rparr>"

section \<open>Facts\<close>

lemma from_wire_as_str: "from_wire (as_str st) = Some st"
  by (cases st) (simp_all add: from_wire_def)

lemma from_wire_Some: "from_wire s = Some st \<Longrightarrow> as_str st = s"
  by (auto simp: from_wire_def split: if_splits)

end
