(* ===== verification/Ratify_Platform.thy ===== *)
theory Ratify_Platform
  imports Float64
begin

text \<open>
  The third-party crates the v1 code calls, as parameters of the model: \<open>base64\<close>, \<open>hex\<close>,
  \<open>sha2\<close>, \<open>hmac\<close>, \<open>ed25519-dalek\<close>, \<open>fips204\<close>, \<open>chrono\<close>/\<open>chrono-tz\<close>, and the platform's
  mathematical functions.  What a theorem needs of them is a named hypothesis of that theorem;
  the hypotheses used are \<open>base64_injective\<close> (decoding inverts encoding, so distinct byte strings
  have distinct encodings), \<open>base64_plain\<close> (the output alphabet is letters, digits, \<open>+\<close>, \<open>/\<close> and
  \<open>=\<close>) and the sign/verify round trip \<open>signing_correct\<close>.
\<close>

record prims =
  p_libm :: libm
  p_base64 :: "bytes \<Rightarrow> string"
  p_hex :: "bytes \<Rightarrow> string"
  p_sha256 :: "bytes \<Rightarrow> bytes"
  p_hmac_sha256 :: "bytes \<Rightarrow> bytes \<Rightarrow> bytes"
  p_ed_key_ok :: "bytes \<Rightarrow> bool"
  p_ed_sig_ok :: "bytes \<Rightarrow> bool"
  p_ed_verify :: "bytes \<Rightarrow> bytes \<Rightarrow> bytes \<Rightarrow> bool"
  p_ed_sign :: "bytes \<Rightarrow> bytes \<Rightarrow> bytes"
  p_ml_key_ok :: "bytes \<Rightarrow> bool"
  p_ml_verify :: "bytes \<Rightarrow> bytes \<Rightarrow> bytes \<Rightarrow> bool"
  p_ml_secret_len :: nat
  p_ml_secret_ok :: "bytes \<Rightarrow> bool"
  p_ml_sign :: "bytes \<Rightarrow> bytes \<Rightarrow> bytes"
  p_timestamp_ok :: "int \<Rightarrow> bool"
  p_timezone :: "string \<Rightarrow> (int \<Rightarrow> int \<times> int) option"
  p_debug_char :: "string \<Rightarrow> string"

text \<open>
  \<open>p_ed_verify key msg sig\<close>, \<open>p_ml_verify key msg sig\<close>: the component signature checks;
  \<open>p_timezone name\<close>: \<open>None\<close> for an unknown zone, otherwise the local hour and minute of a Unix
  time in that zone; \<open>p_debug_char\<close>: what \<open>{:?}\<close> prints for one non-ASCII character, given as its
  UTF-8 bytes (the standard library consults the Unicode tables there).
\<close>

definition base64_injective :: "prims \<Rightarrow> bool" where
  "base64_injective P \<longleftrightarrow> (\<forall>a b. p_base64 P a = p_base64 P b \<longrightarrow> a = b)"

definition base64_char :: "char \<Rightarrow> bool" where
  "base64_char c \<longleftrightarrow> is_digit c \<or> (65 \<le> (of_char c :: nat) \<and> (of_char c :: nat) \<le> 90)
     \<or> (97 \<le> (of_char c :: nat) \<and> (of_char c :: nat) \<le> 122)
     \<or> c = CHR ''+'' \<or> c = CHR ''/'' \<or> c = CHR ''=''"

definition base64_plain :: "prims \<Rightarrow> bool" where
  "base64_plain P \<longleftrightarrow> (\<forall>a. \<forall>c\<in>set (p_base64 P a). base64_char c)"

end
