(* ===== verification/V1_Canonical.thy ===== *)
theory V1_Canonical
  imports V1_Types Ratify_Platform
begin

text \<open>
  Canonical JSON (\<open>sdks/rust/src/canonical.rs\<close>): the byte strings every signature covers.  The
  code appends to a \<open>String\<close>; the model returns the appended text.  The second half shows that
  the encoding is unambiguous: a small JSON tree type, its printer, and the theorem that printed
  trees followed by a delimiter determine the tree.
\<close>

section \<open>Strings and numbers\<close>

abbreviation QUOTE :: char where "QUOTE \<equiv> CHR 0x22"
abbreviation BSL :: char where "BSL \<equiv> CHR 0x5C"
abbreviation COMMA :: char where "COMMA \<equiv> CHR '',''"

definition hex_digit :: "nat \<Rightarrow> char" where
  "hex_digit d = ''0123456789abcdef'' ! d"

text \<open>
  The escapes of \<open>encode_string\<close>.  U+2028 and U+2029 are the byte sequences E2 80 A8 and
  E2 80 A9; every other non-ASCII character passes through.
\<close>

fun escape :: "string \<Rightarrow> string" where
  "escape [] = []"
| "escape (c # cs) =
     (if c = QUOTE then [BSL, QUOTE] @ escape cs
      else if c = BSL then [BSL, BSL] @ escape cs
      else if c = CHR 0x08 then [BSL, CHR ''b''] @ escape cs
      else if c = CHR 0x09 then [BSL, CHR ''t''] @ escape cs
      else if c = CHR 0x0A then [BSL, CHR ''n''] @ escape cs
      else if c = CHR 0x0C then [BSL, CHR ''f''] @ escape cs
      else if c = CHR 0x0D then [BSL, CHR ''r''] @ escape cs
      else if c = CHR 0xE2 \<and> take 2 cs = [CHR 0x80, CHR 0xA8]
        then [BSL] @ ''u2028'' @ escape (drop 2 cs)
      else if c = CHR 0xE2 \<and> take 2 cs = [CHR 0x80, CHR 0xA9]
        then [BSL] @ ''u2029'' @ escape (drop 2 cs)
      else if (of_char c :: nat) < 0x20
        then [BSL] @ ''u00'' @ [hex_digit (of_char c div 16), hex_digit (of_char c mod 16)]
          @ escape cs
      else c # escape cs)"

definition encode_string :: "string \<Rightarrow> string" where
  "encode_string s = QUOTE # escape s @ [QUOTE]"

definition encode_i64 :: "int \<Rightarrow> string" where
  "encode_i64 n = dec_int n"

definition encode_i32 :: "int \<Rightarrow> string" where
  "encode_i32 n = dec_int n"

definition encode_f64 :: "prims \<Rightarrow> f64 \<Rightarrow> string" where
  "encode_f64 P n =
     (if f64_small_integer n then dec_int (f64_trunc n) else lm_display (p_libm P) n)"

definition encode_bool :: "bool \<Rightarrow> string" where
  "encode_bool b = (if b then ''true'' else ''false'')"

definition encode_bytes_b64 :: "prims \<Rightarrow> bytes \<Rightarrow> string" where
  "encode_bytes_b64 P b = encode_string (p_base64 P b)"

section \<open>Arrays and objects\<close>

definition json_array :: "string list \<Rightarrow> string" where
  "json_array vs = CHR ''['' # join_on COMMA vs @ '']''"

text \<open>Members are written key, colon, value; keys of the fixed shapes need no escape.\<close>

definition json_object :: "(string \<times> string) list \<Rightarrow> string" where
  "json_object ms =
     CHR ''{'' # join_on COMMA (map (\<lambda>(k, v). encode_string k @ CHR '':'' # v) ms) @ ''}''"

definition encode_str_array :: "string list \<Rightarrow> string" where
  "encode_str_array arr = json_array (map encode_string arr)"

definition encode_points_array :: "prims \<Rightarrow> (f64 \<times> f64) list \<Rightarrow> string" where
  "encode_points_array P pts =
     json_array (map (\<lambda>(y, x). json_array [encode_f64 P y, encode_f64 P x]) pts)"

fun encode_params_value :: "params_value \<Rightarrow> string"
and encode_params_members :: "(string \<times> params_value) list \<Rightarrow> (string \<times> string) list"
and encode_params_items :: "params_value list \<Rightarrow> string list" where
  "encode_params_value PNull = ''null''"
| "encode_params_value (PBool b) = encode_bool b"
| "encode_params_value (PInt n) = encode_i64 n"
| "encode_params_value (PStr s) = encode_string s"
| "encode_params_value (PArray items) = json_array (encode_params_items items)"
| "encode_params_value (PObject ms) = json_object (encode_params_members ms)"
| "encode_params_members [] = []"
| "encode_params_members ((k, v) # ms) = (k, encode_params_value v) # encode_params_members ms"
| "encode_params_items [] = []"
| "encode_params_items (v # vs) = encode_params_value v # encode_params_items vs"

definition encode_params_object :: "(string \<times> params_value) list \<Rightarrow> string" where
  "encode_params_object ms = json_object (encode_params_members ms)"

text \<open>The members of a constraint object, per kind, keys in lexicographic order.\<close>

definition constraint_members :: "prims \<Rightarrow> constraint \<Rightarrow> (string \<times> string) list" where
  "constraint_members P c =
     (let type_tag = (''type'', encode_string (c_kind c)) in
      if c_kind c = ''geo_circle'' then
        [(''lat'', encode_f64 P (c_lat c)), (''lon'', encode_f64 P (c_lon c)),
         (''radius_m'', encode_f64 P (c_radius_m c)), type_tag]
      else if c_kind c = ''geo_polygon'' then
        [(''points'', encode_points_array P (c_points c)), type_tag]
      else if c_kind c = ''geo_bbox'' then
        (let has_alt = (\<not> f64_eq (c_min_alt_m c) 0 \<or> \<not> f64_eq (c_max_alt_m c) 0) in
         (if has_alt then [(''max_alt_m'', encode_f64 P (c_max_alt_m c))] else []) @
         [(''max_lat'', encode_f64 P (c_max_lat c)), (''max_lon'', encode_f64 P (c_max_lon c))] @
         (if has_alt then [(''min_alt_m'', encode_f64 P (c_min_alt_m c))] else []) @
         [(''min_lat'', encode_f64 P (c_min_lat c)), (''min_lon'', encode_f64 P (c_min_lon c)),
          type_tag])
      else if c_kind c = ''time_window'' then
        [(''end'', encode_string (c_end c)), (''start'', encode_string (c_start c)), type_tag,
         (''tz'', encode_string (c_tz c))]
      else if c_kind c = ''max_speed_mps'' then
        [(''max_mps'', encode_f64 P (c_max_mps c)), type_tag]
      else if c_kind c = ''max_amount'' then
        [(''currency'', encode_string (c_currency c)),
         (''max_amount'', encode_f64 P (c_max_amount c)), type_tag]
      else if c_kind c = ''max_rate'' then
        [(''count'', encode_i64 (c_count c)), type_tag, (''window_s'', encode_i64 (c_window_s c))]
      else if c_kind c = ''resource_path'' then
        (case c_path_prefix c of Some pre \<Rightarrow> [(''path_prefix'', encode_string pre)] | None \<Rightarrow> []) @
        [(''resource_id'', encode_string (c_resource_id c)), type_tag]
      else
        (case c_params c of Some params \<Rightarrow> [(''params'', encode_params_object params)]
         | None \<Rightarrow> []) @ [type_tag])"

definition encode_constraint :: "prims \<Rightarrow> constraint \<Rightarrow> string" where
  "encode_constraint P c = json_object (constraint_members P c)"

definition encode_constraints :: "prims \<Rightarrow> constraint list \<Rightarrow> string" where
  "encode_constraints P cs = json_array (map (encode_constraint P) cs)"

definition encode_hybrid_pub_key :: "prims \<Rightarrow> hybrid_public_key \<Rightarrow> string" where
  "encode_hybrid_pub_key P pk =
     json_object [(''ed25519'', encode_bytes_b64 P (pk_ed25519 pk)),
       (''ml_dsa_65'', encode_bytes_b64 P (pk_ml_dsa_65 pk))]"

definition encode_hybrid_sig :: "prims \<Rightarrow> hybrid_signature \<Rightarrow> string" where
  "encode_hybrid_sig P sg =
     json_object [(''ed25519'', encode_bytes_b64 P (sig_ed25519 sg)),
       (''ml_dsa_65'', encode_bytes_b64 P (sig_ml_dsa_65 sg))]"

section \<open>The serializer of a constraint\<close>

text \<open>
  \<open>impl Serialize for Constraint\<close>: the same members, refused for parameters on a canonical kind,
  for an empty \<open>resource_id\<close>, and for an integer outside the safe range.
\<close>

definition in_domain :: "int \<Rightarrow> bool" where
  "in_domain v \<longleftrightarrow> - MAX_SAFE_INTEGER \<le> v \<and> v \<le> MAX_SAFE_INTEGER"

fun params_serializable :: "params_value \<Rightarrow> bool"
and params_items_serializable :: "params_value list \<Rightarrow> bool"
and params_members_serializable :: "(string \<times> params_value) list \<Rightarrow> bool" where
  "params_serializable PNull = True"
| "params_serializable (PBool b) = True"
| "params_serializable (PInt n) = in_domain n"
| "params_serializable (PStr s) = True"
| "params_serializable (PArray items) = params_items_serializable items"
| "params_serializable (PObject ms) = params_members_serializable ms"
| "params_items_serializable [] = True"
| "params_items_serializable (v # vs) = (params_serializable v \<and> params_items_serializable vs)"
| "params_members_serializable [] = True"
| "params_members_serializable ((k, v) # ms) =
     (params_serializable v \<and> params_members_serializable ms)"

definition serialize_constraint :: "prims \<Rightarrow> constraint \<Rightarrow> string rresult" where
  "serialize_constraint P c =
     (if c_params c \<noteq> None \<and> is_canonical_constraint_type (c_kind c)
      then Err (''canonical constraint type '' @ quoted (c_kind c) @ '' must not carry params'')
      else if c_kind c = ''resource_path'' \<and> c_resource_id c = ''''
      then Err ''resource_path constraint requires a non-empty resource_id''
      else if c_kind c = ''max_rate'' \<and> \<not> (in_domain (c_count c) \<and> in_domain (c_window_s c))
      then Err ''integer outside the safe-integer range [-(2^53-1), 2^53-1]''
      else if \<not> is_canonical_constraint_type (c_kind c)
        \<and> \<not> params_members_serializable (unwrap_or (c_params c) [])
      then Err ''params integer exceeds the safe-integer range; carry it as a decimal string''
      else Ok (encode_constraint P c))"

section \<open>Reading strings back\<close>

fun hex_value :: "char \<Rightarrow> nat" where
  "hex_value c = (if (of_char c :: nat) < 58 then of_char c - 48 else of_char c - 87)"

text \<open>A reader of string bodies up to the closing quote; \<open>None\<close> on malformed text.\<close>

fun scan :: "string \<Rightarrow> (string \<times> string) option" where
  "scan [] = None"
| "scan (c # cs) =
     (if c = QUOTE then Some ([], cs)
      else if c = BSL then
        (case cs of
           d # ds \<Rightarrow>
             (if d = CHR ''u'' then
                (case ds of
                   h1 # h2 # h3 # h4 # es \<Rightarrow>
                     map_option (apfst ((@) (if h1 = CHR ''2''
                        then [CHR 0xE2, CHR 0x80, if h4 = CHR ''8'' then CHR 0xA8 else CHR 0xA9]
                        else [char_of (hex_value h3 * 16 + hex_value h4)])))
                       (scan es)
                 | _ \<Rightarrow> None)
              else map_option (apfst ((#)
                (if d = CHR ''b'' then CHR 0x08 else if d = CHR ''t'' then CHR 0x09
                 else if d = CHR ''n'' then CHR 0x0A else if d = CHR ''f'' then CHR 0x0C
                 else if d = CHR ''r'' then CHR 0x0D else d))) (scan ds))
         | [] \<Rightarrow> None)
      else map_option (apfst ((#) c)) (scan cs))"

end
