(* ===== verification/V1_Canonical_Unique.thy ===== *)
theory V1_Canonical_Unique
  imports V1_Canonical
begin

text \<open>
  The canonical encoding is unambiguous.  Three facts carry it: a reader recovers a string from
  its encoding (\<open>scan_escape\<close>), decimal text determines the integer (\<open>dec_int_inj\<close>), and a printed
  JSON tree followed by a delimiter determines the tree (\<open>jprint_unique\<close>).  The encoders of
  \<open>V1_Canonical\<close> are then recognised as printers of such trees, so equal signed bytes mean equal
  signed content.
\<close>

section \<open>Strings\<close>

lemma hex_digit_value: "d < 16 \<Longrightarrow> hex_value (hex_digit d) = d"
proof -
  assume "d < 16"
  then have "d = 0 \<or> d = 1 \<or> d = 2 \<or> d = 3 \<or> d = 4 \<or> d = 5 \<or> d = 6 \<or> d = 7 \<or> d = 8 \<or> d = 9
    \<or> d = 10 \<or> d = 11 \<or> d = 12 \<or> d = 13 \<or> d = 14 \<or> d = 15"
    by arith
  then show ?thesis
    by (elim disjE) (simp_all add: hex_digit_def)
qed

lemma hex_roundtrip:
  assumes "(of_char c :: nat) < 32"
  shows "char_of (hex_value (hex_digit (of_char c div 16)) * 16
           + hex_value (hex_digit (of_char c mod 16))) = c"
proof -
  have "(of_char c :: nat) div 16 < 16" "(of_char c :: nat) mod 16 < 16"
    using assms by simp_all
  then show ?thesis
    by (simp add: hex_digit_value del: hex_value.simps)
qed

lemma take2_split: "take 2 cs = [a, b] \<Longrightarrow> cs = a # b # drop 2 cs"
  by (cases cs; cases "tl cs") auto

lemma scan_escape_step:
  assumes IH: "scan (escape cs @ QUOTE # r) = Some (cs, r)"
    and IH2: "scan (escape (drop 2 cs) @ QUOTE # r) = Some (drop 2 cs, r)"
  shows "scan (escape (c # cs) @ QUOTE # r) = Some (c # cs, r)"
proof -
  define plain where "plain = {QUOTE, BSL, CHR 0x08, CHR 0x09, CHR 0x0A, CHR 0x0C, CHR 0x0D}"
  consider (plain) "c \<in> plain"
    | (sep) "c = CHR 0xE2" "take 2 cs \<in> {[CHR 0x80, CHR 0xA8], [CHR 0x80, CHR 0xA9]}"
    | (ctl) "c \<notin> plain" "(of_char c :: nat) < 32"
    | (raw) "c \<notin> plain" "\<not> (of_char c :: nat) < 32"
        "\<not> (c = CHR 0xE2 \<and> take 2 cs \<in> {[CHR 0x80, CHR 0xA8], [CHR 0x80, CHR 0xA9]})"
    by metis
  then show ?thesis
  proof cases
    case plain
    then show ?thesis
      unfolding plain_def insert_iff empty_iff
      by (elim disjE FalseE) (simp_all add: IH)
  next
    case sep
    then obtain d where d: "take 2 cs = [CHR 0x80, d]" "d = CHR 0xA8 \<or> d = CHR 0xA9" by blast
    have "cs = CHR 0x80 # d # drop 2 cs" using d(1) by (rule take2_split)
    with d sep(1) IH2 show ?thesis by (elim disjE) simp_all
  next
    case ctl
    then have "c \<noteq> CHR 0xE2" by auto
    with ctl hex_roundtrip [OF ctl(2)] IH show ?thesis
      by (simp add: plain_def del: hex_value.simps)
  next
    case raw
    with IH show ?thesis by (auto simp: plain_def)
  qed
qed

lemma scan_escape: "scan (escape s @ QUOTE # r) = Some (s, r)"
proof (induction s rule: length_induct)
  case (1 s)
  show ?case
  proof (cases s)
    case Nil
    then show ?thesis by simp
  next
    case (Cons c cs)
    then have IH: "scan (escape cs @ QUOTE # r) = Some (cs, r)"
      "scan (escape (drop 2 cs) @ QUOTE # r) = Some (drop 2 cs, r)"
      using "1.IH" by simp_all
    show ?thesis
      unfolding Cons using IH by (rule scan_escape_step)
  qed
qed

lemma encode_string_unique:
  assumes "encode_string s @ r = encode_string t @ r'"
  shows "s = t \<and> r = r'"
proof -
  from assms have "escape s @ QUOTE # r = escape t @ QUOTE # r'"
    by (simp add: encode_string_def)
  then have "scan (escape s @ QUOTE # r) = scan (escape t @ QUOTE # r')" by simp
  then show ?thesis by (simp add: scan_escape)
qed

section \<open>Integers\<close>

fun dec_value :: "string \<Rightarrow> int" where
  "dec_value [] = 0"
| "dec_value (c # cs) = (of_char c - 48) * 10 ^ length cs + dec_value cs"

lemma dec_value_snoc: "dec_value (cs @ [c]) = dec_value cs * 10 + (of_char c - 48)"
  by (induction cs) (simp_all add: algebra_simps)

lemma digit_char_value: "0 \<le> d \<Longrightarrow> d < 10 \<Longrightarrow> of_char (digit_char d) = 48 + (d :: int)"
  by (simp add: digit_char_def)

lemma digit_char_digit:
  assumes "0 \<le> d" "d < 10"
  shows "is_digit (digit_char d)"
proof -
  have "int (of_char (digit_char d)) = 48 + d"
    using digit_char_value [OF assms] of_nat_of_char [of "digit_char d"] by metis
  with assms show ?thesis by (simp add: is_digit_def)
qed

lemma dec_pos_value: "0 \<le> n \<Longrightarrow> dec_value (dec_pos n) = n"
proof (induction n rule: dec_pos.induct)
  case (1 n)
  show ?case
  proof (cases "n < 10")
    case True
    with "1.prems" show ?thesis by (simp add: dec_pos.simps [of n] digit_char_value)
  next
    case False
    with "1" have "dec_value (dec_pos (n div 10)) = n div 10" by simp
    with False show ?thesis
      by (simp add: dec_pos.simps [of n] dec_value_snoc digit_char_value)
  qed
qed

lemma dec_pos_digits: "0 \<le> n \<Longrightarrow> dec_pos n \<noteq> [] \<and> (\<forall>c\<in>set (dec_pos n). is_digit c)"
proof (induction n rule: dec_pos.induct)
  case (1 n)
  show ?case
  proof (cases "n < 10")
    case True
    with "1.prems" show ?thesis by (simp add: dec_pos.simps [of n] digit_char_digit)
  next
    case False
    with "1" show ?thesis
      by (auto simp: dec_pos.simps [of n] digit_char_digit)
  qed
qed

lemma minus_not_digit: "\<not> is_digit (CHR ''-'')"
  by (simp add: is_digit_def)

lemma dec_int_inj: "dec_int x = dec_int y \<longleftrightarrow> x = y"
proof
  assume eq: "dec_int x = dec_int y"
  have dash: "hd (dec_int z) = CHR ''-'' \<longleftrightarrow> z < 0" for z
    using dec_pos_digits [of z] minus_not_digit
    by (auto simp: dec_int_def) (metis hd_in_set not_le_imp_less)
  from eq have "x < 0 \<longleftrightarrow> y < 0" by (metis dash)
  with eq have "dec_pos \<bar>x\<bar> = dec_pos \<bar>y\<bar>" and sg: "x < 0 \<longleftrightarrow> y < 0"
    by (auto simp: dec_int_def split: if_splits)
  then have "\<bar>x\<bar> = \<bar>y\<bar>" by (metis abs_ge_zero dec_pos_value)
  with sg show "x = y" by linarith
qed simp

section \<open>Trees\<close>

datatype jv = JTok string | JStr string | JArr "jv list" | JObj "(string \<times> jv) list"

primrec jprint :: "jv \<Rightarrow> string" where
  "jprint (JTok t) = t"
| "jprint (JStr s) = encode_string s"
| "jprint (JArr vs) = json_array (map jprint vs)"
| "jprint (JObj ms) = json_object (map (map_prod id jprint) ms)"

definition delim_char :: "char \<Rightarrow> bool" where
  "delim_char c \<longleftrightarrow> c = COMMA \<or> c = CHR '']'' \<or> c = CHR ''}''"

definition token_ok :: "string \<Rightarrow> bool" where
  "token_ok t \<longleftrightarrow> t \<noteq> [] \<and> hd t \<noteq> QUOTE \<and> hd t \<noteq> CHR ''['' \<and> hd t \<noteq> CHR ''{''
     \<and> (\<forall>c\<in>set t. \<not> delim_char c)"

primrec wf_jv :: "jv \<Rightarrow> bool" where
  "wf_jv (JTok t) = token_ok t"
| "wf_jv (JStr s) = True"
| "wf_jv (JArr vs) = list_all id (map wf_jv vs)"
| "wf_jv (JObj ms) = list_all snd (map (map_prod id wf_jv) ms)"

definition delim :: "string \<Rightarrow> bool" where
  "delim r \<longleftrightarrow> r = [] \<or> delim_char (hd r)"

definition opens :: "string \<Rightarrow> bool" where
  "opens x \<longleftrightarrow> x \<noteq> [] \<and> \<not> delim_char (hd x)"

definition separable :: "string \<Rightarrow> string \<Rightarrow> bool" where
  "separable x y \<longleftrightarrow> (\<forall>r r'. delim r \<longrightarrow> delim r' \<longrightarrow> x @ r = y @ r' \<longrightarrow> x = y \<and> r = r')"

lemma separableD: "separable x y \<Longrightarrow> delim r \<Longrightarrow> delim r' \<Longrightarrow> x @ r = y @ r' \<Longrightarrow> x = y \<and> r = r'"
  by (auto simp: separable_def)

lemma token_separable:
  assumes "token_ok t" "token_ok u"
  shows "separable t u"
proof (unfold separable_def, intro allI impI)
  fix r r' assume d: "delim r" "delim r'" and eq: "t @ r = u @ r'"
  have tw: "takeWhile (\<lambda>c. \<not> delim_char c) (x @ q) = x" if "token_ok x" "delim q" for x q
    using that by (cases q) (auto simp: token_ok_def delim_def takeWhile_append)
  have "t = u" using tw [OF assms(1) d(1)] tw [OF assms(2) d(2)] eq by simp
  with eq show "t = u \<and> r = r'" by simp
qed

lemma encode_string_separable: "separable (encode_string s) (encode_string t)"
  by (auto simp: separable_def dest: encode_string_unique)

definition closing :: "char \<Rightarrow> bool" where
  "closing c \<longleftrightarrow> c = CHR '']'' \<or> c = CHR ''}''"

lemma join_Cons: "join_on c (x # xs) = x @ (if xs = [] then [] else c # join_on c xs)"
  by (cases xs) auto

lemma join_unique:
  assumes "\<forall>x\<in>set xs. \<forall>y\<in>set ys. separable x y"
    and "\<forall>x\<in>set xs. opens x" and "\<forall>y\<in>set ys. opens y" and "closing e"
    and "join_on COMMA xs @ e # r = join_on COMMA ys @ e # r'"
  shows "xs = ys \<and> r = r'"
  using assms
proof (induction xs arbitrary: ys)
  case Nil
  then show ?case
    by (cases ys) (auto simp: opens_def join_Cons closing_def delim_char_def hd_append
        dest: arg_cong [of _ _ hd])
next
  case (Cons x xs)
  show ?case
  proof (cases ys)
    case Nil
    with Cons.prems show ?thesis
      by (auto simp: opens_def join_Cons closing_def delim_char_def hd_append
          dest: arg_cong [of _ _ hd])
  next
    case ys: (Cons y ys')
    let ?tl = "\<lambda>zs q. (if zs = [] then [] else COMMA # join_on COMMA zs) @ e # q"
    have d: "delim (?tl zs q)" for zs q
      using Cons.prems(4) by (auto simp: delim_def delim_char_def closing_def)
    have "x @ ?tl xs r = y @ ?tl ys' r'"
      using Cons.prems(5) by (simp add: ys join_Cons)
    moreover have "separable x y" using Cons.prems(1) ys by simp
    ultimately have "x = y" and tl: "?tl xs r = ?tl ys' r'"
      using separableD d by blast+
    have "(xs = []) = (ys' = [])"
      using tl Cons.prems(4) by (auto simp: closing_def split: if_splits)
    with tl have "join_on COMMA xs @ e # r = join_on COMMA ys' @ e # r'"
      by (auto split: if_splits)
    with Cons.IH [of ys'] Cons.prems(1-4) ys \<open>x = y\<close> show ?thesis by simp
  qed
qed

lemma opens_jprint: "wf_jv v \<Longrightarrow> opens (jprint v)"
  by (cases v) (auto simp: opens_def token_ok_def encode_string_def json_array_def json_object_def
      delim_char_def)

lemma opens_member: "opens (encode_string k @ v)"
  by (simp add: opens_def encode_string_def delim_char_def)

lemma array_separable:
  assumes "\<forall>x\<in>set xs. \<forall>y\<in>set ys. separable x y" "\<forall>x\<in>set xs. opens x" "\<forall>y\<in>set ys. opens y"
  shows "separable (json_array xs) (json_array ys)"
  unfolding separable_def json_array_def
  using join_unique [OF assms, of "CHR '']''"] by (auto simp: closing_def)

lemma member_separable:
  assumes "separable v w"
  shows "separable (encode_string k @ CHR '':'' # v) (encode_string l @ CHR '':'' # w)"
proof (unfold separable_def, intro allI impI)
  fix r r' assume d: "delim r" "delim r'"
    and "(encode_string k @ CHR '':'' # v) @ r = (encode_string l @ CHR '':'' # w) @ r'"
  then have "k = l \<and> v @ r = w @ r'"
    using encode_string_unique [of k "CHR '':'' # v @ r" l "CHR '':'' # w @ r'"] by simp
  with separableD [OF assms d]
  show "encode_string k @ CHR '':'' # v = encode_string l @ CHR '':'' # w \<and> r = r'" by simp
qed

abbreviation member_text :: "string \<times> string \<Rightarrow> string" where
  "member_text m \<equiv> (case m of (k, v) \<Rightarrow> encode_string k @ CHR '':'' # v)"

lemma members_unique:
  assumes "\<forall>m\<in>set ms. \<forall>n\<in>set ns. separable (snd m) (snd n)"
    and "join_on COMMA (map member_text ms) @ CHR ''}'' # r
       = join_on COMMA (map member_text ns) @ CHR ''}'' # r'"
  shows "ms = ns \<and> r = r'"
proof -
  have "\<forall>x\<in>set (map member_text ms). \<forall>y\<in>set (map member_text ns). separable x y"
    using assms(1) by (fastforce intro: member_separable)
  moreover have "\<forall>x\<in>set (map member_text zs). opens x" for zs
    by (auto simp: opens_member)
  ultimately have eq: "map member_text ms = map member_text ns" and "r = r'"
    using join_unique [OF _ _ _ _ assms(2)] by (auto simp: closing_def)
  have "m = n" if "member_text m = member_text n" for m n
    using that encode_string_unique [of "fst m" "CHR '':'' # snd m" "fst n" "CHR '':'' # snd n"]
    by (auto split: prod.splits)
  then have "ms = ns" using eq by (simp add: inj_map_eq_map inj_def)
  with \<open>r = r'\<close> show ?thesis by simp
qed

lemma object_separable:
  assumes "\<forall>m\<in>set ms. \<forall>n\<in>set ns. separable (snd m) (snd n)"
  shows "separable (json_object ms) (json_object ns)"
  using members_unique [OF assms] by (auto simp: separable_def json_object_def)

lemma json_object_inj:
  assumes "\<forall>m\<in>set ms. \<forall>n\<in>set ns. separable (snd m) (snd n)"
    and "json_object ms = json_object ns"
  shows "ms = ns"
  using members_unique [OF assms(1), of "[]" "[]"] assms(2) by (simp add: json_object_def)

lemma json_array_inj:
  assumes "\<forall>x\<in>set xs. \<forall>y\<in>set ys. separable x y" "\<forall>x\<in>set xs. opens x" "\<forall>y\<in>set ys. opens y"
    and "json_array xs = json_array ys"
  shows "xs = ys"
  using join_unique [OF assms(1-3), of "CHR '']''" "[]" "[]"] assms(4)
  by (simp add: json_array_def closing_def)

lemma heads_separable: "x \<noteq> [] \<Longrightarrow> y \<noteq> [] \<Longrightarrow> hd x \<noteq> hd y \<Longrightarrow> separable x y"
  by (auto simp: separable_def neq_Nil_conv)

lemma separable_sym: "separable x y \<Longrightarrow> separable y x"
  by (metis separable_def)

lemma wf_items:
  "wf_jv (JArr vs) \<longleftrightarrow> (\<forall>v\<in>set vs. wf_jv v)"
  "wf_jv (JObj ms) \<longleftrightarrow> (\<forall>m\<in>set ms. wf_jv (snd m))"
  by (auto simp: list_all_iff)

declare wf_jv.simps(3,4) [simp del]

lemma jprint_heads:
  "jprint (JStr s) \<noteq> []" "hd (jprint (JStr s)) = QUOTE"
  "jprint (JArr vs) \<noteq> []" "hd (jprint (JArr vs)) = CHR ''[''"
  "jprint (JObj ms) \<noteq> []" "hd (jprint (JObj ms)) = CHR ''{''"
  by (simp_all add: encode_string_def json_array_def json_object_def)

lemma token_heads:
  "token_ok t \<Longrightarrow> t \<noteq> [] \<and> hd t \<noteq> QUOTE \<and> hd t \<noteq> CHR ''['' \<and> hd t \<noteq> CHR ''{''"
  by (simp add: token_ok_def)

lemma jprint_separable:
  "wf_jv v \<Longrightarrow> wf_jv w \<Longrightarrow> separable (jprint v) (jprint w)"
proof (induction v arbitrary: w)
  case (JTok t)
  then show ?case
    by (cases w) (auto simp del: jprint.simps(2-) simp: jprint_heads token_separable
        intro!: heads_separable dest: token_heads)
next
  case (JStr s)
  show ?case
  proof (cases w)
    case (JStr s')
    then show ?thesis by (simp add: encode_string_separable)
  qed (use JStr in \<open>auto simp del: jprint.simps(2-) simp: jprint_heads intro!: heads_separable
        dest: token_heads\<close>)
next
  case (JArr vs)
  show ?case
  proof (cases w)
    case w: (JArr ws)
    have "separable x y" if "x \<in> set (map jprint vs)" "y \<in> set (map jprint ws)" for x y
      using that JArr w by (auto simp: wf_items)
    moreover have "opens x" if "x \<in> set (map jprint us)" "wf_jv (JArr us)" for x us
      using that by (auto simp: wf_items opens_jprint)
    ultimately show ?thesis
      using JArr.prems w by (auto intro!: array_separable)
  qed (use JArr in \<open>auto simp del: jprint.simps(2-) simp: jprint_heads intro!: heads_separable
        dest: token_heads\<close>)
next
  case (JObj ms)
  show ?case
  proof (cases w)
    case w: (JObj ns)
    have "separable (jprint (snd m)) (jprint (snd n))" if "m \<in> set ms" "n \<in> set ns" for m n
    proof (rule JObj.IH [OF that(1)])
      show "snd m \<in> Basic_BNFs.snds m" by (cases m) simp
      show "wf_jv (snd m)" "wf_jv (snd n)"
        using that JObj.prems w by (simp_all add: wf_items)
    qed
    then show ?thesis
      using w by (auto intro!: object_separable)
  qed (use JObj in \<open>auto simp del: jprint.simps(2-) simp: jprint_heads intro!: heads_separable
        dest: token_heads\<close>)
qed

text \<open>
  Two objects written with well-formed member values are equal texts only when their members
  agree; this is the form the signable encodings use.
\<close>

definition fields_ok :: "(string \<times> string) list \<Rightarrow> bool" where
  "fields_ok ms \<longleftrightarrow> (\<forall>m\<in>set ms. \<exists>v. wf_jv v \<and> snd m = jprint v)"

lemma fields_separable:
  "fields_ok ms \<Longrightarrow> fields_ok ns \<Longrightarrow> \<forall>m\<in>set ms. \<forall>n\<in>set ns. separable (snd m) (snd n)"
  by (metis fields_ok_def jprint_separable)

lemma json_object_unique:
  "fields_ok ms \<Longrightarrow> fields_ok ns \<Longrightarrow> json_object ms = json_object ns \<Longrightarrow> ms = ns"
  using fields_separable json_object_inj by blast

definition is_value :: "string \<Rightarrow> bool" where
  "is_value x \<longleftrightarrow> (\<exists>v. wf_jv v \<and> x = jprint v)"

lemma fields_ok_iff: "fields_ok ms \<longleftrightarrow> (\<forall>m\<in>set ms. is_value (snd m))"
  by (simp add: fields_ok_def is_value_def)

named_theorems value_intros \<open>texts that are printed trees\<close>

lemma is_value_string [value_intros]: "is_value (encode_string s)"
  unfolding is_value_def by (rule exI [of _ "JStr s"]) simp

lemma is_value_token: "token_ok t \<Longrightarrow> is_value t"
  unfolding is_value_def by (rule exI [of _ "JTok t"]) simp

lemma digit_token_char:
  assumes "is_digit c"
  shows "\<not> delim_char c" "c \<noteq> QUOTE" "c \<noteq> CHR ''[''" "c \<noteq> CHR ''{''"
proof -
  have n: "48 \<le> (of_char c :: nat)" "(of_char c :: nat) \<le> 57"
    using assms by (simp_all add: is_digit_def)
  have "c \<noteq> COMMA" "c \<noteq> CHR '']''" "c \<noteq> CHR ''}''" "c \<noteq> QUOTE" "c \<noteq> CHR ''[''" "c \<noteq> CHR ''{''"
    using n by fastforce+
  then show "\<not> delim_char c" "c \<noteq> QUOTE" "c \<noteq> CHR ''[''" "c \<noteq> CHR ''{''"
    by (simp_all add: delim_char_def)
qed

lemma token_dec_pos: "0 \<le> n \<Longrightarrow> token_ok (dec_pos n)"
  using dec_pos_digits [of n] digit_token_char hd_in_set [of "dec_pos n"]
  by (simp add: token_ok_def)

lemma is_value_dec_int [value_intros]: "is_value (dec_int n)"
proof (rule is_value_token)
  have "token_ok (CHR ''-'' # t)" if "token_ok t" for t
    using that by (simp add: token_ok_def delim_char_def)
  then show "token_ok (dec_int n)"
    by (simp add: dec_int_def token_dec_pos)
qed

lemma is_value_bool [value_intros]: "is_value (encode_bool b)"
  by (rule is_value_token) (simp add: encode_bool_def token_ok_def delim_char_def)

lemma is_value_object [value_intros]:
  assumes "\<forall>m\<in>set ms. is_value (snd m)"
  shows "is_value (json_object ms)"
proof -
  have "\<exists>ns. ms = map (map_prod id jprint) ns \<and> (\<forall>n\<in>set ns. wf_jv (snd n))"
    using assms
  proof (induction ms)
    case (Cons m ms)
    have "\<exists>ns. ms = map (map_prod id jprint) ns \<and> (\<forall>n\<in>set ns. wf_jv (snd n))"
      by (rule Cons.IH) (use Cons.prems in simp)
    moreover have "\<exists>v. wf_jv v \<and> snd m = jprint v"
      using Cons.prems by (simp add: is_value_def)
    ultimately obtain ns v where "ms = map (map_prod id jprint) ns" "\<forall>n\<in>set ns. wf_jv (snd n)"
      "wf_jv v" "snd m = jprint v" by blast
    then have "m # ms = map (map_prod id jprint) ((fst m, v) # ns)
      \<and> (\<forall>n\<in>set ((fst m, v) # ns). wf_jv (snd n))" by (cases m) simp
    then show ?case by (rule exI)
  qed simp
  then obtain ns where "ms = map (map_prod id jprint) ns" "wf_jv (JObj ns)"
    by (auto simp: wf_items)
  then show ?thesis
    unfolding is_value_def by (intro exI [of _ "JObj ns"]) simp
qed

lemma is_value_array [value_intros]:
  assumes "\<forall>x\<in>set xs. is_value x"
  shows "is_value (json_array xs)"
proof -
  have "\<exists>vs. xs = map jprint vs \<and> (\<forall>v\<in>set vs. wf_jv v)"
    using assms
  proof (induction xs)
    case (Cons x xs)
    then obtain vs v where "xs = map jprint vs" "\<forall>v\<in>set vs. wf_jv v" "wf_jv v" "x = jprint v"
      by (auto simp: is_value_def)
    then have "x # xs = map jprint (v # vs) \<and> (\<forall>v\<in>set (v # vs). wf_jv v)" by simp
    then show ?case by (rule exI)
  qed simp
  then obtain vs where "xs = map jprint vs" "wf_jv (JArr vs)"
    by (auto simp: wf_items)
  then show ?thesis
    unfolding is_value_def by (intro exI [of _ "JArr vs"]) simp
qed

lemma is_value_opens: "is_value x \<Longrightarrow> opens x"
  by (auto simp: is_value_def opens_jprint)

lemma is_value_separable: "is_value x \<Longrightarrow> is_value y \<Longrightarrow> separable x y"
  by (auto simp: is_value_def jprint_separable)

lemma json_array_unique:
  "\<forall>x\<in>set xs. is_value x \<Longrightarrow> \<forall>y\<in>set ys. is_value y \<Longrightarrow> json_array xs = json_array ys \<Longrightarrow> xs = ys"
  by (rule json_array_inj) (auto intro: is_value_separable is_value_opens)

lemma encode_string_inj [simp]: "encode_string s = encode_string t \<longleftrightarrow> s = t"
  using encode_string_unique [of s "[]" t "[]"] by auto

lemma is_value_str_array [value_intros]: "is_value (encode_str_array ss)"
  unfolding encode_str_array_def by (auto intro!: value_intros)

lemma encode_str_array_inj [simp]: "encode_str_array ss = encode_str_array ts \<longleftrightarrow> ss = ts"
proof
  assume "encode_str_array ss = encode_str_array ts"
  then have "map encode_string ss = map encode_string ts"
    unfolding encode_str_array_def by (rule json_array_unique [rotated 2]) (auto intro: value_intros)
  then show "ss = ts" by (simp add: inj_map_eq_map inj_def)
qed simp

lemma is_value_b64 [value_intros]: "is_value (encode_bytes_b64 P b)"
  by (simp add: encode_bytes_b64_def value_intros)

lemma encode_bytes_b64_inj:
  "base64_injective P \<Longrightarrow> encode_bytes_b64 P a = encode_bytes_b64 P b \<longleftrightarrow> a = b"
  by (auto simp: encode_bytes_b64_def base64_injective_def)

lemma is_value_pub_key [value_intros]: "is_value (encode_hybrid_pub_key P pk)"
  unfolding encode_hybrid_pub_key_def by (auto intro!: value_intros)

lemma is_value_sig [value_intros]: "is_value (encode_hybrid_sig P sg)"
  unfolding encode_hybrid_sig_def by (auto intro!: value_intros)

lemma encode_hybrid_pub_key_inj:
  assumes "base64_injective P"
  shows "encode_hybrid_pub_key P a = encode_hybrid_pub_key P b \<longleftrightarrow> a = b"
proof
  assume eq: "encode_hybrid_pub_key P a = encode_hybrid_pub_key P b"
  have "[(''ed25519'', encode_bytes_b64 P (pk_ed25519 a)), (''ml_dsa_65'', encode_bytes_b64 P (pk_ml_dsa_65 a))]
    = [(''ed25519'', encode_bytes_b64 P (pk_ed25519 b)), (''ml_dsa_65'', encode_bytes_b64 P (pk_ml_dsa_65 b))]"
    using eq unfolding encode_hybrid_pub_key_def
    by (rule json_object_unique [rotated 2]) (auto simp: fields_ok_iff intro!: value_intros)
  with assms show "a = b" by (simp add: encode_bytes_b64_inj)
qed simp

section \<open>Constraints as values\<close>

text \<open>
  The text of a non-integral \<open>f64\<close> comes from the standard library's printer.  All that is
  needed of it is that it is a JSON token.
\<close>

definition display_token :: "prims \<Rightarrow> bool" where
  "display_token P \<longleftrightarrow> (\<forall>x. token_ok (lm_display (p_libm P) x))"

lemma is_value_f64: "display_token P \<Longrightarrow> is_value (encode_f64 P x)"
  by (auto simp: encode_f64_def display_token_def intro: value_intros is_value_token)

lemma is_value_points: "display_token P \<Longrightarrow> is_value (encode_points_array P pts)"
  unfolding encode_points_array_def
  by (auto intro!: is_value_array simp: is_value_f64)

lemma is_value_params:
  "is_value (encode_params_value v)"
  "\<forall>m\<in>set (encode_params_members ms). is_value (snd m)"
  "\<forall>x\<in>set (encode_params_items vs). is_value x"
proof (induction v and ms and vs rule: encode_params_value_encode_params_members_encode_params_items.induct)
  case 1
  show ?case by (auto intro!: is_value_token simp: token_ok_def delim_char_def)
qed (auto intro: value_intros simp: encode_i64_def)

lemma is_value_constraint:
  assumes "display_token P"
  shows "is_value (encode_constraint P c)"
proof -
  have "\<forall>m\<in>set (constraint_members P c). is_value (snd m)"
    using assms
    by (auto simp: constraint_members_def Let_def is_value_f64 is_value_points
        encode_params_object_def encode_i64_def is_value_object is_value_params
        split: option.splits intro: value_intros)
  then show ?thesis by (simp add: encode_constraint_def value_intros)
qed

end
