(* ===== verification/V1_Resource_Path.thy ===== *)
theory V1_Resource_Path
  imports V1_Types
begin

text \<open>
  Resource-bound authority (\<open>sdks/rust/src/resource_path.rs\<close>): the logical path model, the
  segment-boundary prefix relation, the issuance rule that a certificate's \<open>resource_path\<close>
  constraints nest, and the value model of extension-constraint parameters.

  The abstract view of a path is its list of segments.  The lemmas show that the string
  functions compute the prefix order on segment lists, which is where reflexivity, transitivity
  and antisymmetry of the relation come from.
\<close>

section \<open>Paths\<close>

abbreviation SEP :: char where "SEP \<equiv> CHR ''/''"
abbreviation BACKSLASH :: char where "BACKSLASH \<equiv> CHR 0x5C"
abbreviation NUL :: char where "NUL \<equiv> CHR 0x00"

text \<open>UTF-8 text that occurs in messages: an em dash and the section sign.\<close>

definition em_dash :: string where "em_dash = [CHR 0xE2, CHR 0x80, CHR 0x94]"
definition quoted_sep :: string where "quoted_sep = [CHR 0x27, SEP, CHR 0x27]"
definition section_sign :: string where "section_sign = [CHR 0xC2, CHR 0xA7]"

definition segment_error :: "string \<Rightarrow> string option" where
  "segment_error seg =
     (if seg = '''' then Some ''path contains an empty segment''
      else if seg = ''.'' \<or> seg = ''..''
      then Some ''path contains a dot-segment; dot-segments are rejected, never resolved''
      else None)"

definition normalize_resource_path :: "string \<Rightarrow> string rresult" where
  "normalize_resource_path p =
     (if p = '''' then Err ''path is empty''
      else if \<not> starts_with p [SEP] then Err (''path must begin with '' @ quoted_sep)
      else if NUL \<in> set p then Err ''path contains a NUL byte''
      else if BACKSLASH \<in> set p then Err (''path contains a backslash; '' @ quoted_sep @ '' is the only separator'')
      else if p = [SEP] then Ok [SEP]
      else let trimmed = unwrap_or (strip_suffix_char SEP p) p in
        (case first_failure (map segment_error (split_on SEP (drop 1 trimmed))) of
           Some e \<Rightarrow> Err e
         | None \<Rightarrow> Ok trimmed))"

definition resource_path_matches :: "string \<Rightarrow> string \<Rightarrow> bool" where
  "resource_path_matches path_prefix requested_path =
     (case normalize_resource_path path_prefix of Err _ \<Rightarrow> False
      | Ok pre \<Rightarrow> (case normalize_resource_path requested_path of Err _ \<Rightarrow> False
         | Ok path \<Rightarrow> if pre = [SEP] then True else if path = pre then True
                   else starts_with path (pre @ [SEP])))"

definition resource_paths_nested :: "string \<Rightarrow> string \<Rightarrow> bool" where
  "resource_paths_nested a b =
     (let a = (if a = '''' then [SEP] else a); b = (if b = '''' then [SEP] else b) in
      resource_path_matches a b \<or> resource_path_matches b a)"

section \<open>The issuance rule\<close>

definition at_constraint :: "nat \<Rightarrow> string" where
  "at_constraint i = ''constraint['' @ dec_nat i @ '']: ''"

fun resource_constraints_loop ::
  "nat \<Rightarrow> string option \<Rightarrow> string list \<Rightarrow> constraint list \<Rightarrow> unit rresult" where
  "resource_constraints_loop i rid pfxs [] = Ok ()"
| "resource_constraints_loop i rid pfxs (c # cs) =
     (if c_kind c \<noteq> ''resource_path'' then resource_constraints_loop (Suc i) rid pfxs cs
      else if c_resource_id c = ''''
      then Err (at_constraint i @ ''resource_path requires a non-empty resource_id'')
      else if length (c_resource_id c) > MAX_IDENTIFIER_LENGTH_BYTES
      then Err (at_constraint i @ ''resource_id is '' @ dec_nat (length (c_resource_id c)) @
             '' bytes, exceeding MAX_IDENTIFIER_LENGTH_BYTES ('' @
             dec_nat MAX_IDENTIFIER_LENGTH_BYTES @ '')'')
      else let this_prefix = unwrap_or (c_path_prefix c) '''' in
        (case (if this_prefix \<noteq> '''' then err_opt (normalize_resource_path this_prefix) else None)
         of Some e \<Rightarrow> Err (at_constraint i @ ''invalid path_prefix: '' @ e)
         | None \<Rightarrow>
           if rid \<noteq> None \<and> rid \<noteq> Some (c_resource_id c)
           then Err (at_constraint i @
                  ''certificate carries resource_path constraints naming different resource_ids '' @
                  em_dash @ '' jointly unsatisfiable (SPEC '' @ section_sign @
                  ''5.7.3); issue separate certificates'')
           else (case find (\<lambda>prev. \<not> resource_paths_nested prev this_prefix) pfxs of
               Some prev \<Rightarrow> Err (at_constraint i @ ''same-resource path_prefix values '' @
                  quoted prev @ '' and '' @ quoted this_prefix @ '' do not nest '' @ em_dash @
                  '' jointly unsatisfiable (SPEC '' @ section_sign @
                  ''5.7.3); narrow to one prefix or issue separate certificates'')
             | None \<Rightarrow> resource_constraints_loop (Suc i) (Some (unwrap_or rid (c_resource_id c)))
                 (pfxs @ [this_prefix]) cs)))"

definition validate_resource_constraints :: "constraint list \<Rightarrow> unit rresult" where
  "validate_resource_constraints cs = resource_constraints_loop 0 None [] cs"

section \<open>Extension parameters\<close>

definition nesting_error :: string where
  "nesting_error =
     ''params nesting exceeds MAX_JSON_NESTING_DEPTH ('' @ dec_nat MAX_JSON_NESTING_DEPTH @ '')''"

definition unsafe_integer_error :: string where
  "unsafe_integer_error =
     ''params integer exceeds the safe-integer range; carry it as a decimal string''"

fun validate_params_value :: "params_value \<Rightarrow> nat \<Rightarrow> unit rresult"
and validate_params_items :: "params_value list \<Rightarrow> nat \<Rightarrow> unit rresult"
and validate_params_entries :: "(string \<times> params_value) list \<Rightarrow> nat \<Rightarrow> unit rresult" where
  "validate_params_value v depth =
     (if depth > MAX_JSON_NESTING_DEPTH then Err nesting_error
      else (case v of
          PNull \<Rightarrow> Ok () | PBool _ \<Rightarrow> Ok () | PStr _ \<Rightarrow> Ok ()
        | PInt n \<Rightarrow> if n > MAX_SAFE_INTEGER \<or> n < - MAX_SAFE_INTEGER
                   then Err unsafe_integer_error else Ok ()
        | PArray items \<Rightarrow> validate_params_items items (depth + 1)
        | PObject entries \<Rightarrow> validate_params_entries entries (depth + 1)))"
| "validate_params_items [] depth = Ok ()"
| "validate_params_items (v # vs) depth =
     (case validate_params_value v depth of Err e \<Rightarrow> Err e
      | Ok _ \<Rightarrow> validate_params_items vs depth)"
| "validate_params_entries [] depth = Ok ()"
| "validate_params_entries ((k, v) # es) depth =
     (case validate_params_value v depth of Err e \<Rightarrow> Err e
      | Ok _ \<Rightarrow> validate_params_entries es depth)"

declare validate_params_value.simps [simp del]

definition validate_constraint_params :: "constraint \<Rightarrow> unit rresult" where
  "validate_constraint_params c =
     (case c_params c of None \<Rightarrow> Ok ()
      | Some params \<Rightarrow>
        if is_canonical_constraint_type (c_kind c)
        then Err (''canonical constraint type '' @ quoted (c_kind c) @ '' must not carry params'')
        else validate_params_entries params 1)"

section \<open>Segments\<close>

definition segment_ok :: "string \<Rightarrow> bool" where
  "segment_ok w \<longleftrightarrow> w \<noteq> '''' \<and> w \<noteq> ''.'' \<and> w \<noteq> ''..''
     \<and> SEP \<notin> set w \<and> NUL \<notin> set w \<and> BACKSLASH \<notin> set w"

definition render :: "string list \<Rightarrow> string" where
  "render segs = (if segs = [] then [SEP] else concat (map ((#) SEP) segs))"

lemma concat_join: "ws \<noteq> [] \<Longrightarrow> concat (map ((#) c) ws) = c # join_on c ws"
  by (induction ws rule: join_on.induct) auto

lemma split_on_subset: "w \<in> set (split_on c s) \<Longrightarrow> set w \<subseteq> set s"
proof (induction s arbitrary: w)
  case (Cons x xs)
  obtain v vs where eq: "split_on c xs = v # vs" by (cases "split_on c xs") auto
  have "\<forall>u\<in>set (v # vs). set u \<subseteq> set xs"
    using Cons.IH by (simp only: eq) blast
  with eq Cons.prems show ?case by (auto split: if_splits)
qed simp

lemma last_render: "segs \<noteq> [] \<Longrightarrow> \<forall>w\<in>set segs. segment_ok w \<Longrightarrow> last (render segs) \<noteq> SEP"
proof (induction segs rule: rev_induct)
  case (snoc w ws)
  then have "w \<noteq> []" "SEP \<notin> set w" by (auto simp: segment_ok_def)
  then show ?case by (simp add: render_def) (metis last_in_set)
qed simp

lemma set_render: "set (render segs) = insert SEP (\<Union>w\<in>set segs. set w)"
  by (auto simp: render_def)

lemma render_nonroot: "segs \<noteq> [] \<Longrightarrow> \<forall>w\<in>set segs. segment_ok w \<Longrightarrow> render segs \<noteq> [SEP]"
  using last_render by fastforce

lemma segment_errors_None:
  "first_failure (map segment_error ws) = None \<longleftrightarrow> (\<forall>w\<in>set ws. w \<noteq> '''' \<and> w \<noteq> ''.'' \<and> w \<noteq> ''..'')"
  by (auto simp: check_simps segment_error_def)

lemma normalize_nonroot:
  assumes "p \<noteq> [SEP]"
  shows "normalize_resource_path p = Ok q \<longleftrightarrow>
    p \<noteq> [] \<and> hd p = SEP \<and> NUL \<notin> set p \<and> BACKSLASH \<notin> set p \<and> q = unwrap_or (strip_suffix_char SEP p) p
    \<and> (\<forall>w\<in>set (split_on SEP (drop 1 q)). w \<noteq> '''' \<and> w \<noteq> ''.'' \<and> w \<noteq> ''..'')"
proof (cases p)
  case (Cons x xs)
  define tr where "tr = unwrap_or (strip_suffix_char SEP p) p"
  have "normalize_resource_path p = Ok q \<longleftrightarrow> x = SEP \<and> NUL \<notin> set p \<and> BACKSLASH \<notin> set p
      \<and> first_failure (map segment_error (split_on SEP (drop 1 tr))) = None \<and> q = tr"
    using assms
    by (cases "first_failure (map segment_error (split_on SEP (drop 1 tr)))")
       (auto simp: Cons normalize_resource_path_def starts_with_def tr_def Let_def)
  then show ?thesis
    unfolding segment_errors_None tr_def by (auto simp: Cons)
qed (simp add: normalize_resource_path_def)

lemma normalize_render:
  assumes "\<forall>w\<in>set segs. segment_ok w"
    and "p = render segs \<or> segs \<noteq> [] \<and> p = render segs @ [SEP]"
  shows "normalize_resource_path p = Ok (render segs)"
proof (cases "segs = []")
  case True
  with assms(2) show ?thesis
    by (simp add: render_def normalize_resource_path_def starts_with_def)
next
  case False
  note nr = last_render [OF False assms(1)] render_nonroot [OF False assms(1)]
  have p: "p \<noteq> []" "hd p = SEP" "NUL \<notin> set p" "BACKSLASH \<notin> set p" "p \<noteq> [SEP]"
  proof -
    have r: "render segs = SEP # join_on SEP segs"
      using False by (simp add: render_def concat_join)
    have "set p = set (render segs)"
      using assms(2) by (auto simp: set_render)
    then show "NUL \<notin> set p" "BACKSLASH \<notin> set p"
      using assms(1) by (auto simp: set_render segment_ok_def)
    show "p \<noteq> []" "hd p = SEP" "p \<noteq> [SEP]"
      using assms(2) nr(2) r by auto
  qed
  have q: "unwrap_or (strip_suffix_char SEP p) p = render segs"
    using assms(2) nr p(1) by (auto simp: strip_suffix_char_def)
  have "split_on SEP (drop 1 (render segs)) = segs"
    using False assms(1) split_join [of segs SEP]
    by (simp add: render_def concat_join segment_ok_def)
  with assms(1) p q show ?thesis
    by (simp add: normalize_nonroot segment_ok_def)
qed

lemma normalize_segments:
  assumes "normalize_resource_path p = Ok q"
  obtains segs where "\<forall>w\<in>set segs. segment_ok w" "q = render segs"
    "p = q \<or> segs \<noteq> [] \<and> p = q @ [SEP]"
proof (cases "p = [SEP]")
  case True
  with assms have "q = render []"
    by (simp add: normalize_resource_path_def render_def starts_with_def)
  with True that [of "[]"] show ?thesis by (simp add: render_def)
next
  case False
  from assms [unfolded normalize_nonroot [OF False]]
  have p: "p \<noteq> []" "hd p = SEP" "NUL \<notin> set p" "BACKSLASH \<notin> set p"
    and q: "q = unwrap_or (strip_suffix_char SEP p) p"
    and ws: "\<forall>w\<in>set (split_on SEP (drop 1 q)). w \<noteq> '''' \<and> w \<noteq> ''.'' \<and> w \<noteq> ''..''"
    by auto
  let ?segs = "split_on SEP (drop 1 q)"
  have pq: "p = q \<or> p = q @ [SEP]"
    using p(1) q by (auto simp: strip_suffix_char_def)
      (metis append_butlast_last_id)
  have "q \<noteq> []" using p(1) pq False by auto
  then have hd: "q = SEP # drop 1 q"
    using p(2) pq by (cases q) auto
  have "set w \<subseteq> set p" if "w \<in> set ?segs" for w
    using split_on_subset [OF that] set_drop_subset [of 1 q] pq by auto
  then have "\<forall>w\<in>set ?segs. segment_ok w"
    using ws p(3,4) split_on_no_sep [of SEP "drop 1 q"] by (auto simp: segment_ok_def)
  moreover have "q = render ?segs"
    using hd by (simp add: render_def concat_join join_split)
  ultimately show ?thesis
    using pq that by simp
qed

lemma render_inj:
  assumes "\<forall>w\<in>set s. segment_ok w" "\<forall>w\<in>set t. segment_ok w"
  shows "render s = render t \<longleftrightarrow> s = t"
proof
  assume eq: "render s = render t"
  show "s = t"
  proof (cases "s = [] \<or> t = []")
    case True
    moreover have "render [] = [SEP]" by (simp add: render_def)
    ultimately show ?thesis
      using eq render_nonroot [OF _ assms(1)] render_nonroot [OF _ assms(2)] by fastforce
  next
    case False
    then have "render s = SEP # join_on SEP s" "render t = SEP # join_on SEP t"
      by (simp_all add: render_def concat_join)
    with eq have "join_on SEP s = join_on SEP t" by simp
    moreover have "split_on SEP (join_on SEP s) = s" "split_on SEP (join_on SEP t) = t"
      using False assms by (simp_all add: split_join segment_ok_def)
    ultimately show ?thesis by metis
  qed
qed simp

text \<open>Appending a separator to a rendered path turns string prefixes into segment prefixes.\<close>

lemma concat_prefix:
  assumes "\<forall>w\<in>set s. SEP \<notin> set w" "\<forall>w\<in>set t. SEP \<notin> set w"
    and "prefix (concat (map ((#) SEP) s) @ [SEP]) (concat (map ((#) SEP) t))"
  shows "prefix s t"
  using assms
proof (induction s arbitrary: t)
  case (Cons w s)
  then obtain v t' where t: "t = v # t'" by (cases t) auto
  from Cons.prems(3) obtain r where
    r: "w @ concat (map ((#) SEP) s) @ SEP # r = v @ concat (map ((#) SEP) t')"
    by (auto simp: t prefix_def)
  have split1: "\<exists>u. concat (map ((#) SEP) s) @ SEP # r = SEP # u"
    by (cases s) auto
  have split2: "concat (map ((#) SEP) t') = [] \<or> (\<exists>u. concat (map ((#) SEP) t') = SEP # u)"
    by (cases t') auto
  have nosep: "SEP \<notin> set w" "SEP \<notin> set v" using Cons.prems(1,2) t by auto
  have "w = v \<and> concat (map ((#) SEP) s) @ SEP # r = concat (map ((#) SEP) t')"
  proof -
    from r consider u where "w = v @ u" "u @ concat (map ((#) SEP) s) @ SEP # r = concat (map ((#) SEP) t')"
      | u where "v = w @ u" "concat (map ((#) SEP) s) @ SEP # r = u @ concat (map ((#) SEP) t')"
      by (auto simp: append_eq_append_conv2)
    then show ?thesis
    proof cases
      case (1 u)
      then show ?thesis using nosep split2 by (cases u) auto
    next
      case (2 u)
      then show ?thesis using nosep split1 by (cases u) auto
    qed
  qed
  then have "w = v" "prefix (concat (map ((#) SEP) s) @ [SEP]) (concat (map ((#) SEP) t'))"
    by (auto simp: prefix_def) (metis append_Cons append_assoc self_append_conv2)
  with Cons.IH [of t'] Cons.prems(1,2) show ?case by (simp add: t)
qed simp

lemma matches_render:
  assumes s: "\<forall>w\<in>set s. segment_ok w" and t: "\<forall>w\<in>set t. segment_ok w"
    and ps: "normalize_resource_path p = Ok (render s)"
    and pt: "normalize_resource_path q = Ok (render t)"
  shows "resource_path_matches p q \<longleftrightarrow> prefix s t"
proof (cases "s = []")
  case True
  with ps pt show ?thesis by (simp add: resource_path_matches_def render_def)
next
  case False
  have root: "render s \<noteq> [SEP]" using render_nonroot [OF False s] .
  have "prefix (render s @ [SEP]) (render t) \<longleftrightarrow> strict_prefix s t"
  proof
    assume pre: "prefix (render s @ [SEP]) (render t)"
    have "length (render s) > 0" using False by (simp add: render_def)
    moreover have "length (render s) + 1 \<le> length (render t)"
      using prefix_length_le [OF pre] by simp
    ultimately have "length (render t) > 1" by linarith
    then have "t \<noteq> []" by (auto simp: render_def)
    with pre False have "prefix (concat (map ((#) SEP) s) @ [SEP]) (concat (map ((#) SEP) t))"
      by (simp add: render_def)
    then have "prefix s t"
      using concat_prefix s t by (auto simp: segment_ok_def)
    moreover have "s \<noteq> t" using pre by auto
    ultimately show "strict_prefix s t" by (simp add: strict_prefix_def)
  next
    assume "strict_prefix s t"
    then obtain w r where "t = s @ w # r" by (auto elim: strict_prefixE')
    with False show "prefix (render s @ [SEP]) (render t)"
      by (auto simp: render_def prefix_def)
  qed
  with root show ?thesis
    by (auto simp: resource_path_matches_def ps pt starts_with_def render_inj [OF s t]
        render_inj [OF t s] strict_prefix_def)
qed

end
