(* ===== verification/V1_Crypto.thy ===== *)
theory V1_Crypto
  imports V1_Canonical_Unique V1_Resource_Path
begin

text \<open>
  Hybrid signatures and the signable bytes of every v1 object
  (\<open>sdks/rust/src/crypto.rs\<close>).  A function that mutates its argument returns the new value; a
  call that can panic (an assertion, a slice copy of the wrong length) returns an \<open>option\<close> whose
  \<open>None\<close> is the panic.
\<close>

section \<open>Identifiers\<close>

definition derive_id :: "prims \<Rightarrow> hybrid_public_key \<Rightarrow> string" where
  "derive_id P pk = p_hex P (take 16 (p_sha256 P (pk_ed25519 pk @ pk_ml_dsa_65 pk)))"

section \<open>Signable bytes\<close>

definition delegation_members :: "prims \<Rightarrow> delegation_cert \<Rightarrow> (string \<times> string) list" where
  "delegation_members P cert =
     [(''cert_id'', encode_string (dc_cert_id cert)),
      (''constraints'', encode_constraints P (dc_constraints cert)),
      (''expires_at'', encode_i64 (dc_expires_at cert)),
      (''issued_at'', encode_i64 (dc_issued_at cert)),
      (''issuer_id'', encode_string (dc_issuer_id cert)),
      (''issuer_pub_key'', encode_hybrid_pub_key P (dc_issuer_pub_key cert)),
      (''scope'', encode_str_array (dc_scope cert)),
      (''subject_id'', encode_string (dc_subject_id cert)),
      (''subject_pub_key'', encode_hybrid_pub_key P (dc_subject_pub_key cert)),
      (''version'', encode_i32 (dc_version cert))]"

definition delegation_sign_bytes :: "prims \<Rightarrow> delegation_cert \<Rightarrow> bytes" where
  "delegation_sign_bytes P cert = str_bytes (json_object (delegation_members P cert))"

definition challenge_sign_bytes_with_stream ::
  "bytes \<Rightarrow> int \<Rightarrow> bytes \<Rightarrow> bytes \<Rightarrow> int \<Rightarrow> bytes" where
  "challenge_sign_bytes_with_stream challenge ts session_context stream_id stream_seq =
     challenge @ be64 ts @ session_context @
     (if stream_id \<noteq> [] then stream_id @ be64 stream_seq else [])"

definition challenge_sign_bytes_with_session_context :: "bytes \<Rightarrow> int \<Rightarrow> bytes \<Rightarrow> bytes" where
  "challenge_sign_bytes_with_session_context challenge ts session_context =
     challenge_sign_bytes_with_stream challenge ts session_context [] 0"

definition challenge_sign_bytes :: "bytes \<Rightarrow> int \<Rightarrow> bytes" where
  "challenge_sign_bytes challenge ts = challenge_sign_bytes_with_stream challenge ts [] [] 0"

definition revocation_sign_bytes :: "revocation_list \<Rightarrow> bytes" where
  "revocation_sign_bytes l = str_bytes (json_object
     [(''issuer_id'', encode_string (rl_issuer_id l)),
      (''revoked_certs'', encode_str_array (rl_revoked_certs l)),
      (''updated_at'', encode_i64 (rl_updated_at l))])"

definition key_rotation_sign_bytes :: "prims \<Rightarrow> key_rotation_statement \<Rightarrow> bytes" where
  "key_rotation_sign_bytes P s = str_bytes (json_object
     [(''new_id'', encode_string (kr_new_id s)),
      (''new_pub_key'', encode_hybrid_pub_key P (kr_new_pub_key s)),
      (''old_id'', encode_string (kr_old_id s)),
      (''old_pub_key'', encode_hybrid_pub_key P (kr_old_pub_key s)),
      (''reason'', encode_string (kr_reason s)),
      (''rotated_at'', encode_i64 (kr_rotated_at s)),
      (''version'', encode_i32 (kr_version s))])"

definition revocation_push_sign_bytes :: "revocation_push \<Rightarrow> bytes" where
  "revocation_push_sign_bytes p = str_bytes (json_object
     [(''entries'', encode_str_array (rp_entries p)),
      (''issuer_id'', encode_string (rp_issuer_id p)),
      (''pushed_at'', encode_i64 (rp_pushed_at p)),
      (''seq_no'', encode_i64 (rp_seq_no p))])"

definition witness_entry_sign_bytes :: "prims \<Rightarrow> witness_entry \<Rightarrow> bytes" where
  "witness_entry_sign_bytes P e = str_bytes (json_object
     [(''entry_data'', encode_bytes_b64 P (we_entry_data e)),
      (''prev_hash'', encode_bytes_b64 P (we_prev_hash e)),
      (''timestamp'', encode_i64 (we_timestamp e)),
      (''witness_id'', encode_string (we_witness_id e))])"

definition encode_receipt_party :: "prims \<Rightarrow> receipt_party \<Rightarrow> string" where
  "encode_receipt_party P p = json_object
     [(''agent_id'', encode_string (py_agent_id p)),
      (''agent_pub_key'', encode_hybrid_pub_key P (py_agent_pub_key p)),
      (''party_id'', encode_string (py_party_id p)),
      (''role'', encode_string (py_role p))]"

text \<open>The parties are sorted by \<open>party_id\<close> (\<open>sort_by\<close> is stable).\<close>

definition transaction_receipt_sign_bytes :: "prims \<Rightarrow> transaction_receipt \<Rightarrow> bytes" where
  "transaction_receipt_sign_bytes P r =
     (let sorted_parties = sort_key py_party_id (tr_parties r) in
      str_bytes (json_object
       [(''created_at'', encode_i64 (tr_created_at r)),
        (''parties'', json_array (map (encode_receipt_party P) sorted_parties)),
        (''terms_canonical_json'', encode_bytes_b64 P (tr_terms_canonical_json r)),
        (''terms_schema_uri'', encode_string (tr_terms_schema_uri r)),
        (''transaction_id'', encode_string (tr_transaction_id r)),
        (''version'', encode_i32 (tr_version r))]))"

definition session_token_sign_bytes :: "prims \<Rightarrow> session_token \<Rightarrow> bytes" where
  "session_token_sign_bytes P t = str_bytes (json_object
     [(''agent_id'', encode_string (st_agent_id t)),
      (''agent_pub_key'', encode_hybrid_pub_key P (st_agent_pub_key t)),
      (''chain_hash'', encode_bytes_b64 P (st_chain_hash t)),
      (''granted_scope'', encode_str_array (sort (st_granted_scope t))),
      (''human_id'', encode_string (st_human_id t)),
      (''issued_at'', encode_i64 (st_issued_at t)),
      (''session_id'', encode_string (st_session_id t)),
      (''valid_until'', encode_i64 (st_valid_until t)),
      (''version'', encode_i32 (st_version t))])"

section \<open>Hybrid sign and verify\<close>

definition sign_both :: "prims \<Rightarrow> bytes \<Rightarrow> hybrid_private_key \<Rightarrow> hybrid_signature option" where
  "sign_both P msg sk =
     (if length (sk_ed25519 sk) < 32 then None
      else if length (sk_ml_dsa_65 sk) \<noteq> p_ml_secret_len P then None
      else if \<not> p_ml_secret_ok P (sk_ml_dsa_65 sk) then None
      else Some \<lparr>sig_ed25519 = p_ed_sign P (take 32 (sk_ed25519 sk)) msg,
                 sig_ml_dsa_65 = p_ml_sign P (sk_ml_dsa_65 sk) msg\<rparr>)"

definition verify_both ::
  "prims \<Rightarrow> bytes \<Rightarrow> hybrid_signature \<Rightarrow> hybrid_public_key \<Rightarrow> unit rresult" where
  "verify_both P msg sg pk =
     (if length (pk_ed25519 pk) \<noteq> 32
      then Err (''Ed25519 public key wrong length: '' @ dec_nat (length (pk_ed25519 pk)))
      else if length (pk_ml_dsa_65 pk) \<noteq> 1952
      then Err (''ML-DSA-65 public key wrong length: '' @ dec_nat (length (pk_ml_dsa_65 pk)))
      else if length (sig_ed25519 sg) \<noteq> 64
      then Err (''Ed25519 signature wrong length: '' @ dec_nat (length (sig_ed25519 sg)))
      else if length (sig_ml_dsa_65 sg) \<noteq> 3309
      then Err (''ML-DSA-65 signature wrong length: '' @ dec_nat (length (sig_ml_dsa_65 sg)))
      else if \<not> p_ed_key_ok P (pk_ed25519 pk) then Err ''Ed25519 public key invalid''
      else if \<not> p_ed_sig_ok P (sig_ed25519 sg) then Err ''Ed25519 signature invalid''
      else if \<not> p_ed_verify P (pk_ed25519 pk) msg (sig_ed25519 sg)
      then Err ''Ed25519 signature invalid''
      else if \<not> p_ml_key_ok P (pk_ml_dsa_65 pk) then Err ''ML-DSA-65 public key malformed''
      else if \<not> p_ml_verify P (pk_ml_dsa_65 pk) msg (sig_ml_dsa_65 sg)
      then Err ''ML-DSA-65 signature invalid''
      else Ok ())"

section \<open>Delegation certificates\<close>

text \<open>The issuance checks, then the signature over the certificate.\<close>

definition issuance_error :: "delegation_cert \<Rightarrow> string option" where
  "issuance_error cert = first_failure [
     map_option (\<lambda>e. ''issuing delegation: '' @ e)
       (err_opt (validate_resource_constraints (dc_constraints cert))),
     find_failure (\<lambda>i c. map_option (\<lambda>e. ''issuing delegation: '' @ at_constraint i @ e)
       (err_opt (validate_constraint_params c))) 0 (dc_constraints cert),
     (if length (dc_scope cert) > MAX_SCOPES_PER_CERT
      then Some (''issuing delegation: '' @ dec_nat (length (dc_scope cert)) @
             '' scopes exceeds MAX_SCOPES_PER_CERT ('' @ dec_nat MAX_SCOPES_PER_CERT @ '')'')
      else None),
     (if length (dc_constraints cert) > MAX_CONSTRAINTS_PER_CERT
      then Some (''issuing delegation: '' @ dec_nat (length (dc_constraints cert)) @
             '' constraints exceeds MAX_CONSTRAINTS_PER_CERT ('' @
             dec_nat MAX_CONSTRAINTS_PER_CERT @ '')'')
      else None),
     find_failure (\<lambda>_ s. if length s > MAX_SCOPE_LENGTH_BYTES
       then Some (''issuing delegation: scope '' @ quoted s @ '' is '' @ dec_nat (length s) @
              '' bytes, exceeding MAX_SCOPE_LENGTH_BYTES ('' @ dec_nat MAX_SCOPE_LENGTH_BYTES @
              '')'')
       else None) 0 (dc_scope cert)]"

definition issue_delegation ::
  "prims \<Rightarrow> delegation_cert \<Rightarrow> hybrid_private_key \<Rightarrow> delegation_cert rresult option" where
  "issue_delegation P cert issuer_priv =
     (case issuance_error cert of Some e \<Rightarrow> Some (Err e)
      | None \<Rightarrow> map_option (\<lambda>sg. Ok (cert\<lparr>dc_signature := sg\<rparr>))
          (sign_both P (delegation_sign_bytes P cert) issuer_priv))"

definition verify_delegation_signature_e :: "prims \<Rightarrow> delegation_cert \<Rightarrow> unit rresult" where
  "verify_delegation_signature_e P cert =
     verify_both P (delegation_sign_bytes P cert) (dc_signature cert) (dc_issuer_pub_key cert)"

definition verify_delegation_signature :: "prims \<Rightarrow> delegation_cert \<Rightarrow> bool" where
  "verify_delegation_signature P cert = is_ok (verify_delegation_signature_e P cert)"

section \<open>Challenges\<close>

definition sign_challenge_with_session_context ::
  "prims \<Rightarrow> bytes \<Rightarrow> int \<Rightarrow> bytes \<Rightarrow> hybrid_private_key \<Rightarrow> hybrid_signature option" where
  "sign_challenge_with_session_context P challenge ts session_context sk =
     (if session_context = [] \<or> length session_context = 32
      then sign_both P (challenge_sign_bytes_with_session_context challenge ts session_context) sk
      else None)"

definition sign_challenge ::
  "prims \<Rightarrow> bytes \<Rightarrow> int \<Rightarrow> hybrid_private_key \<Rightarrow> hybrid_signature option" where
  "sign_challenge P challenge ts sk = sign_challenge_with_session_context P challenge ts [] sk"

definition sign_challenge_with_stream ::
  "prims \<Rightarrow> bytes \<Rightarrow> int \<Rightarrow> bytes \<Rightarrow> bytes \<Rightarrow> int \<Rightarrow> hybrid_private_key
    \<Rightarrow> hybrid_signature option" where
  "sign_challenge_with_stream P challenge ts session_context stream_id stream_seq sk =
     (if (session_context = [] \<or> length session_context = 32) \<and> length stream_id = 32
         \<and> stream_seq \<ge> 1
      then sign_both P
        (challenge_sign_bytes_with_stream challenge ts session_context stream_id stream_seq) sk
      else None)"

definition verify_challenge_signature_with_stream ::
  "prims \<Rightarrow> bytes \<Rightarrow> int \<Rightarrow> bytes \<Rightarrow> bytes \<Rightarrow> int \<Rightarrow> hybrid_signature \<Rightarrow> hybrid_public_key
    \<Rightarrow> unit rresult" where
  "verify_challenge_signature_with_stream P challenge ts session_context stream_id stream_seq sg pk =
     (if session_context \<noteq> [] \<and> length session_context \<noteq> 32
      then Err (''session_context must be 32 bytes, got '' @ dec_nat (length session_context))
      else if stream_id \<noteq> [] \<and> length stream_id \<noteq> 32
      then Err (''stream_id must be 32 bytes, got '' @ dec_nat (length stream_id))
      else if stream_id \<noteq> [] \<and> stream_seq < 1
      then Err (''stream_seq must be >=1, got '' @ dec_int stream_seq)
      else verify_both P
        (challenge_sign_bytes_with_stream challenge ts session_context stream_id stream_seq) sg pk)"

definition verify_challenge_signature_with_session_context ::
  "prims \<Rightarrow> bytes \<Rightarrow> int \<Rightarrow> bytes \<Rightarrow> hybrid_signature \<Rightarrow> hybrid_public_key \<Rightarrow> unit rresult" where
  "verify_challenge_signature_with_session_context P challenge ts session_context sg pk =
     verify_challenge_signature_with_stream P challenge ts session_context [] 0 sg pk"

definition verify_challenge_signature ::
  "prims \<Rightarrow> bytes \<Rightarrow> int \<Rightarrow> hybrid_signature \<Rightarrow> hybrid_public_key \<Rightarrow> unit rresult" where
  "verify_challenge_signature P challenge ts sg pk =
     verify_challenge_signature_with_stream P challenge ts [] [] 0 sg pk"

section \<open>Revocation, witness and rotation statements\<close>

definition issue_revocation_list ::
  "prims \<Rightarrow> revocation_list \<Rightarrow> hybrid_private_key \<Rightarrow> revocation_list option" where
  "issue_revocation_list P l sk =
     map_option (\<lambda>sg. l\<lparr>rl_signature := sg\<rparr>) (sign_both P (revocation_sign_bytes l) sk)"

definition verify_revocation_list :: "prims \<Rightarrow> revocation_list \<Rightarrow> hybrid_public_key \<Rightarrow> bool" where
  "verify_revocation_list P l pk =
     is_ok (verify_both P (revocation_sign_bytes l) (rl_signature l) pk)"

definition issue_revocation_push ::
  "prims \<Rightarrow> revocation_push \<Rightarrow> hybrid_private_key \<Rightarrow> revocation_push option" where
  "issue_revocation_push P p sk =
     map_option (\<lambda>sg. p\<lparr>rp_signature := sg\<rparr>) (sign_both P (revocation_push_sign_bytes p) sk)"

definition verify_revocation_push :: "prims \<Rightarrow> revocation_push \<Rightarrow> hybrid_public_key \<Rightarrow> bool" where
  "verify_revocation_push P p pk =
     is_ok (verify_both P (revocation_push_sign_bytes p) (rp_signature p) pk)"

definition issue_witness_entry ::
  "prims \<Rightarrow> witness_entry \<Rightarrow> hybrid_private_key \<Rightarrow> witness_entry option" where
  "issue_witness_entry P e sk =
     map_option (\<lambda>sg. e\<lparr>we_signature := sg\<rparr>) (sign_both P (witness_entry_sign_bytes P e) sk)"

definition verify_witness_entry :: "prims \<Rightarrow> witness_entry \<Rightarrow> hybrid_public_key \<Rightarrow> bool" where
  "verify_witness_entry P e pk =
     is_ok (verify_both P (witness_entry_sign_bytes P e) (we_signature e) pk)"

definition issue_key_rotation_statement ::
  "prims \<Rightarrow> key_rotation_statement \<Rightarrow> hybrid_private_key \<Rightarrow> hybrid_private_key
    \<Rightarrow> key_rotation_statement option" where
  "issue_key_rotation_statement P s old_priv new_priv =
     (let b = key_rotation_sign_bytes P s in
      Option.bind (sign_both P b old_priv) (\<lambda>so.
        map_option (\<lambda>sn. s\<lparr>kr_signature_old := so, kr_signature_new := sn\<rparr>)
          (sign_both P b new_priv)))"

definition is_key_rotation_reason_known :: "string \<Rightarrow> bool" where
  "is_key_rotation_reason_known r \<longleftrightarrow>
     r \<in> set [''routine'', ''compromise_suspected'', ''device_lost'', ''recovery'', ''other'']"

definition verify_key_rotation_statement :: "prims \<Rightarrow> key_rotation_statement \<Rightarrow> unit rresult" where
  "verify_key_rotation_statement P s =
     (if kr_version s \<noteq> 1
      then Err (''version_mismatch: unsupported version '' @ dec_int (kr_version s))
      else if kr_old_id s \<noteq> derive_id P (kr_old_pub_key s)
      then Err ''old_id does not match old_pub_key''
      else if kr_new_id s \<noteq> derive_id P (kr_new_pub_key s)
      then Err ''new_id does not match new_pub_key''
      else if kr_old_id s = kr_new_id s then Err ''old_id and new_id must differ''
      else if \<not> is_key_rotation_reason_known (kr_reason s)
      then Err (''unknown key rotation reason: '' @ kr_reason s)
      else let b = key_rotation_sign_bytes P s in
        (case map_err (\<lambda>e. ''old signature invalid: '' @ e)
                (verify_both P b (kr_signature_old s) (kr_old_pub_key s)) of
           Err e \<Rightarrow> Err e
         | Ok _ \<Rightarrow> map_err (\<lambda>e. ''new signature invalid: '' @ e)
                (verify_both P b (kr_signature_new s) (kr_new_pub_key s))))"

definition sign_transaction_receipt_party ::
  "prims \<Rightarrow> transaction_receipt \<Rightarrow> string \<Rightarrow> hybrid_private_key
    \<Rightarrow> receipt_party_signature option" where
  "sign_transaction_receipt_party P r party_id sk =
     map_option (\<lambda>sg. \<lparr>ps_party_id = party_id, ps_signature = sg\<rparr>)
       (sign_both P (transaction_receipt_sign_bytes P r) sk)"

section \<open>Session tokens\<close>

definition chain_hash :: "prims \<Rightarrow> delegation_cert list \<Rightarrow> bytes" where
  "chain_hash P chain = p_sha256 P (concat (map (delegation_sign_bytes P) chain))"

definition issue_session_token ::
  "prims \<Rightarrow> proof_bundle \<Rightarrow> verify_result \<Rightarrow> string \<Rightarrow> int \<Rightarrow> int \<Rightarrow> bytes
    \<Rightarrow> session_token rresult" where
  "issue_session_token P bundle result session_id issued_at valid_until session_secret =
     (if session_secret = [] then Err ''session_secret must not be empty''
      else if session_id = '''' then Err ''session_id must not be empty''
      else if valid_until \<le> issued_at then Err ''valid_until must be strictly after issued_at''
      else let token = \<lparr>st_version = 1, st_session_id = session_id,
             st_agent_id = vr_agent_id result, st_agent_pub_key = pb_agent_pub_key bundle,
             st_human_id = vr_human_id result, st_granted_scope = sort (vr_granted_scope result),
             st_issued_at = issued_at, st_valid_until = valid_until,
             st_chain_hash = chain_hash P (pb_delegations bundle), st_mac = []\<rparr>
        in Ok (token\<lparr>st_mac := p_hmac_sha256 P session_secret (session_token_sign_bytes P token)\<rparr>))"

definition verify_session_token_e :: "prims \<Rightarrow> session_token \<Rightarrow> bytes \<Rightarrow> int \<Rightarrow> unit rresult" where
  "verify_session_token_e P t session_secret now =
     (if session_secret = [] then Err ''session_secret must not be empty''
      else if st_version t \<noteq> 1
      then Err (''version_mismatch: unsupported version '' @ dec_int (st_version t))
      else if length (st_chain_hash t) \<noteq> 32
      then Err (''chain_hash must be 32 bytes, got '' @ dec_nat (length (st_chain_hash t)))
      else if length (st_mac t) \<noteq> 32
      then Err (''mac must be 32 bytes, got '' @ dec_nat (length (st_mac t)))
      else if p_hmac_sha256 P session_secret (session_token_sign_bytes P t) \<noteq> st_mac t
      then Err ''session_token MAC invalid''
      else if now < st_issued_at t then Err ''session_token not yet valid''
      else if now > st_valid_until t then Err ''session_token expired''
      else Ok ())"

definition verify_session_token :: "prims \<Rightarrow> session_token \<Rightarrow> bytes \<Rightarrow> int \<Rightarrow> bool" where
  "verify_session_token P t session_secret now = is_ok (verify_session_token_e P t session_secret now)"

end
