(* ===== verification/V1_Receipts.thy ===== *)
theory V1_Receipts
  imports V1_Crypto
begin

text \<open>
  Verification receipts and cached policy verdicts (\<open>sdks/rust/src/receipts.rs\<close>).  The functions
  that return \<open>Result\<close> but cannot fail keep their result type.
\<close>

section \<open>Verification receipts\<close>

definition encode_delegation_for_hash :: "prims \<Rightarrow> delegation_cert \<Rightarrow> string" where
  "encode_delegation_for_hash P d = json_object
     [(''cert_id'', encode_string (dc_cert_id d)),
      (''constraints'', encode_constraints P (dc_constraints d)),
      (''expires_at'', encode_i64 (dc_expires_at d)),
      (''issued_at'', encode_i64 (dc_issued_at d)),
      (''issuer_id'', encode_string (dc_issuer_id d)),
      (''issuer_pub_key'', encode_hybrid_pub_key P (dc_issuer_pub_key d)),
      (''scope'', encode_str_array (dc_scope d)),
      (''signature'', encode_hybrid_sig P (dc_signature d)),
      (''subject_id'', encode_string (dc_subject_id d)),
      (''subject_pub_key'', encode_hybrid_pub_key P (dc_subject_pub_key d)),
      (''version'', encode_i32 (dc_version d))]"

text \<open>The text \<open>bundle_hash\<close> digests.\<close>

definition bundle_text :: "prims \<Rightarrow> proof_bundle \<Rightarrow> string" where
  "bundle_text P b = json_object
     [(''agent_id'', encode_string (pb_agent_id b)),
      (''agent_pub_key'', encode_hybrid_pub_key P (pb_agent_pub_key b)),
      (''challenge'', encode_bytes_b64 P (pb_challenge b)),
      (''challenge_at'', encode_i64 (pb_challenge_at b)),
      (''challenge_sig'', encode_hybrid_sig P (pb_challenge_sig b)),
      (''delegations'', json_array (map (encode_delegation_for_hash P) (pb_delegations b))),
      (''session_context'', encode_bytes_b64 P (pb_session_context b)),
      (''stream_id'', encode_bytes_b64 P (pb_stream_id b)),
      (''stream_seq'', encode_i64 (pb_stream_seq b))]"

definition bundle_hash :: "prims \<Rightarrow> proof_bundle \<Rightarrow> bytes rresult" where
  "bundle_hash P b = Ok (p_sha256 P (str_bytes (bundle_text P b)))"

text \<open>Members that are empty are left out.\<close>

definition verification_receipt_members :: "prims \<Rightarrow> verification_receipt \<Rightarrow> (string \<times> string) list" where
  "verification_receipt_members P r =
     (if vrc_agent_id r = '''' then [] else [(''agent_id'', encode_string (vrc_agent_id r))]) @
     [(''bundle_hash'', encode_bytes_b64 P (vrc_bundle_hash r)),
      (''decision'', encode_string (vrc_decision r))] @
     (if vrc_error_reason r = '''' then []
      else [(''error_reason'', encode_string (vrc_error_reason r))]) @
     (if vrc_granted_scope r = [] then []
      else [(''granted_scope'', encode_str_array (sort (vrc_granted_scope r)))]) @
     (if vrc_human_id r = '''' then [] else [(''human_id'', encode_string (vrc_human_id r))]) @
     [(''prev_hash'', encode_bytes_b64 P (vrc_prev_hash r)),
      (''verified_at'', encode_i64 (vrc_verified_at r)),
      (''verifier_id'', encode_string (vrc_verifier_id r)),
      (''verifier_pub'', encode_hybrid_pub_key P (vrc_verifier_pub r)),
      (''version'', encode_i32 (vrc_version r))]"

definition verification_receipt_sign_bytes :: "prims \<Rightarrow> verification_receipt \<Rightarrow> bytes rresult" where
  "verification_receipt_sign_bytes P r =
     Ok (str_bytes (json_object (verification_receipt_members P r)))"

definition issue_verification_receipt ::
  "prims \<Rightarrow> proof_bundle \<Rightarrow> verify_result \<Rightarrow> string \<Rightarrow> hybrid_public_key \<Rightarrow> hybrid_private_key
    \<Rightarrow> bytes option \<Rightarrow> int \<Rightarrow> verification_receipt rresult option" where
  "issue_verification_receipt P bundle result verifier_id verifier_pub verifier_priv prev_hash verified_at =
     (case (case prev_hash of
              Some p \<Rightarrow> if length p = 32 then Ok p
                        else Err (''prev_hash must be 32 bytes, got '' @ dec_nat (length p))
            | None \<Rightarrow> Ok (replicate 32 0)) of
        Err e \<Rightarrow> Some (Err e)
      | Ok prev \<Rightarrow>
          (case bundle_hash P bundle of
             Err e \<Rightarrow> Some (Err e)
           | Ok h \<Rightarrow>
               (let r = \<lparr>vrc_version = 1, vrc_verifier_id = verifier_id,
                      vrc_verifier_pub = verifier_pub, vrc_bundle_hash = h,
                      vrc_decision = as_str (vr_identity_status result),
                      vrc_human_id = vr_human_id result, vrc_agent_id = vr_agent_id result,
                      vrc_granted_scope = vr_granted_scope result,
                      vrc_error_reason = vr_error_reason result, vrc_verified_at = verified_at,
                      vrc_prev_hash = prev,
                      vrc_signature = \<lparr>sig_ed25519 = [], sig_ml_dsa_65 = []\<rparr>\<rparr>
                in case verification_receipt_sign_bytes P r of
                     Err e \<Rightarrow> Some (Err e)
                   | Ok signable \<Rightarrow> map_option (\<lambda>sg. Ok (r\<lparr>vrc_signature := sg\<rparr>))
                       (sign_both P signable verifier_priv))))"

definition verify_verification_receipt :: "prims \<Rightarrow> verification_receipt \<Rightarrow> unit rresult" where
  "verify_verification_receipt P r =
     (if vrc_version r \<noteq> 1 then Err (''unsupported version '' @ dec_int (vrc_version r))
      else if length (vrc_bundle_hash r) \<noteq> 32
      then Err (''bundle_hash must be 32 bytes, got '' @ dec_nat (length (vrc_bundle_hash r)))
      else if length (vrc_prev_hash r) \<noteq> 32
      then Err (''prev_hash must be 32 bytes, got '' @ dec_nat (length (vrc_prev_hash r)))
      else case verification_receipt_sign_bytes P r of
        Err e \<Rightarrow> Err e
      | Ok signable \<Rightarrow> verify_both P signable (vrc_signature r) (vrc_verifier_pub r))"

definition receipt_hash :: "prims \<Rightarrow> verification_receipt \<Rightarrow> bytes rresult" where
  "receipt_hash P r =
     (case verification_receipt_sign_bytes P r of
        Err e \<Rightarrow> Err e | Ok signable \<Rightarrow> Ok (p_sha256 P signable))"

section \<open>Policy verdicts\<close>

text \<open>The text \<open>verifier_context_hash\<close> digests.\<close>

definition context_text :: "prims \<Rightarrow> verifier_context \<Rightarrow> string" where
  "context_text P ctx = json_object
     [(''current_alt_m'', encode_f64 P (unwrap_or (vc_current_alt_m ctx) 0)),
      (''current_lat'', encode_f64 P (unwrap_or (vc_current_lat ctx) 0)),
      (''current_lon'', encode_f64 P (unwrap_or (vc_current_lon ctx) 0)),
      (''current_speed_mps'', encode_f64 P (unwrap_or (vc_current_speed_mps ctx) 0)),
      (''has_amount'', encode_bool (vc_requested_amount ctx \<noteq> None)),
      (''has_location'', encode_bool (vc_current_lat ctx \<noteq> None \<and> vc_current_lon ctx \<noteq> None)),
      (''has_speed'', encode_bool (vc_current_speed_mps ctx \<noteq> None)),
      (''requested_amount'', encode_f64 P (unwrap_or (vc_requested_amount ctx) 0)),
      (''requested_currency'', encode_string (unwrap_or (vc_requested_currency ctx) ''''))]"

definition verifier_context_hash :: "prims \<Rightarrow> verifier_context \<Rightarrow> bytes rresult" where
  "verifier_context_hash P ctx = Ok (p_sha256 P (str_bytes (context_text P ctx)))"

definition policy_verdict_sign_bytes :: "prims \<Rightarrow> policy_verdict \<Rightarrow> bytes rresult" where
  "policy_verdict_sign_bytes P v = Ok (str_bytes (json_object
     [(''agent_id'', encode_string (pv_agent_id v)),
      (''allow'', encode_bool (pv_allow v)),
      (''context_hash'', encode_bytes_b64 P (pv_context_hash v)),
      (''issued_at'', encode_i64 (pv_issued_at v)),
      (''scope'', encode_string (pv_scope v)),
      (''valid_until'', encode_i64 (pv_valid_until v)),
      (''verdict_id'', encode_string (pv_verdict_id v)),
      (''version'', encode_i32 (pv_version v))]))"

text \<open>\<open>HmacSha256::new_from_slice\<close> accepts keys of every length.\<close>

definition issue_policy_verdict ::
  "prims \<Rightarrow> string \<Rightarrow> string \<Rightarrow> string \<Rightarrow> bool \<Rightarrow> bytes \<Rightarrow> int \<Rightarrow> int \<Rightarrow> bytes
    \<Rightarrow> policy_verdict rresult" where
  "issue_policy_verdict P verdict_id agent_id scope allow context_hash issued_at valid_until policy_secret =
     (if policy_secret = [] then Err ''policy_secret must not be empty''
      else if verdict_id = '''' then Err ''verdict_id must not be empty''
      else if agent_id = '''' then Err ''agent_id must not be empty''
      else if scope = '''' then Err ''scope must not be empty''
      else if length context_hash \<noteq> 32
      then Err (''context_hash must be 32 bytes, got '' @ dec_nat (length context_hash))
      else if valid_until \<le> issued_at then Err ''valid_until must be strictly after issued_at''
      else let v = \<lparr>pv_version = 1, pv_verdict_id = verdict_id, pv_agent_id = agent_id,
                 pv_scope = scope, pv_allow = allow, pv_context_hash = context_hash,
                 pv_issued_at = issued_at, pv_valid_until = valid_until, pv_mac = []\<rparr>
        in case policy_verdict_sign_bytes P v of
             Err e \<Rightarrow> Err e
           | Ok signable \<Rightarrow> Ok (v\<lparr>pv_mac := p_hmac_sha256 P policy_secret signable\<rparr>))"

definition verify_policy_verdict ::
  "prims \<Rightarrow> policy_verdict \<Rightarrow> bytes \<Rightarrow> string \<Rightarrow> string \<Rightarrow> bytes \<Rightarrow> int \<Rightarrow> unit rresult" where
  "verify_policy_verdict P v policy_secret expected_agent_id expected_scope expected_context_hash now =
     (if policy_secret = [] then Err ''policy_secret must not be empty''
      else if pv_version v \<noteq> 1 then Err (''unsupported version '' @ dec_int (pv_version v))
      else if length (pv_context_hash v) \<noteq> 32
      then Err (''context_hash must be 32 bytes, got '' @ dec_nat (length (pv_context_hash v)))
      else if length (pv_mac v) \<noteq> 32
      then Err (''mac must be 32 bytes, got '' @ dec_nat (length (pv_mac v)))
      else case policy_verdict_sign_bytes P v of
        Err e \<Rightarrow> Err e
      | Ok signable \<Rightarrow>
          if p_hmac_sha256 P policy_secret signable \<noteq> pv_mac v
          then Err ''policy_verdict MAC invalid''
          else if now < pv_issued_at v then Err ''policy_verdict not yet valid''
          else if now > pv_valid_until v then Err ''policy_verdict expired''
          else if pv_agent_id v \<noteq> expected_agent_id then Err ''policy_verdict agent_id mismatch''
          else if pv_scope v \<noteq> expected_scope then Err ''policy_verdict scope mismatch''
          else if pv_context_hash v \<noteq> expected_context_hash
          then Err ''policy_verdict context_hash mismatch''
          else if \<not> pv_allow v
          then Err (''policy_verdict_denied: cached deny for scope '' @ quoted (pv_scope v))
          else Ok ())"

end
