(* ===== verification/V1_Signing.thy ===== *)
theory V1_Signing
  imports V1_Receipts
begin

text \<open>
  What the signatures cover and when they verify.  The locale \<open>signer\<close> is the interface between
  the objects and the hybrid scheme: an object is issued by signing its bytes and attaching the
  signature, and verified by recomputing the bytes; the round trip is proved once.  The second
  half shows that equal signable bytes mean equal signed content.
\<close>

section \<open>Key pairs\<close>

text \<open>
  What the signature crates document of a generated key pair: the components have the right
  lengths, and a signature made with the secret verifies under the public key.
\<close>

definition hybrid_key_pair :: "prims \<Rightarrow> hybrid_private_key \<Rightarrow> hybrid_public_key \<Rightarrow> bool" where
  "hybrid_key_pair P sk pk \<longleftrightarrow>
     32 \<le> length (sk_ed25519 sk) \<and> length (sk_ml_dsa_65 sk) = p_ml_secret_len P
     \<and> p_ml_secret_ok P (sk_ml_dsa_65 sk)
     \<and> length (pk_ed25519 pk) = 32 \<and> length (pk_ml_dsa_65 pk) = 1952
     \<and> p_ed_key_ok P (pk_ed25519 pk) \<and> p_ml_key_ok P (pk_ml_dsa_65 pk)
     \<and> (\<forall>msg. let e = p_ed_sign P (take 32 (sk_ed25519 sk)) msg; m = p_ml_sign P (sk_ml_dsa_65 sk) msg in
          length e = 64 \<and> length m = 3309 \<and> p_ed_sig_ok P e
          \<and> p_ed_verify P (pk_ed25519 pk) msg e \<and> p_ml_verify P (pk_ml_dsa_65 pk) msg m)"

lemma sign_verify_both:
  "hybrid_key_pair P sk pk \<Longrightarrow>
   \<exists>sg. sign_both P msg sk = Some sg \<and> verify_both P msg sg pk = Ok ()"
  by (auto simp: hybrid_key_pair_def sign_both_def verify_both_def Let_def)

text \<open>Acceptance needs both components.\<close>

lemma verify_both_iff:
  "verify_both P msg sg pk = Ok () \<longleftrightarrow>
     length (pk_ed25519 pk) = 32 \<and> length (pk_ml_dsa_65 pk) = 1952
     \<and> length (sig_ed25519 sg) = 64 \<and> length (sig_ml_dsa_65 sg) = 3309
     \<and> p_ed_key_ok P (pk_ed25519 pk) \<and> p_ed_sig_ok P (sig_ed25519 sg)
     \<and> p_ed_verify P (pk_ed25519 pk) msg (sig_ed25519 sg)
     \<and> p_ml_key_ok P (pk_ml_dsa_65 pk) \<and> p_ml_verify P (pk_ml_dsa_65 pk) msg (sig_ml_dsa_65 sg)"
  by (auto simp: verify_both_def)

locale signer =
  fixes sign :: "'m \<Rightarrow> 'sk \<Rightarrow> 'sg option"
    and verify :: "'m \<Rightarrow> 'sg \<Rightarrow> 'pk \<Rightarrow> unit rresult"
    and key_pair :: "'sk \<Rightarrow> 'pk \<Rightarrow> bool"
  assumes correct: "key_pair sk pk \<Longrightarrow> \<exists>sg. sign m sk = Some sg \<and> verify m sg pk = Ok ()"
begin

text \<open>An object whose signable bytes ignore the signature verifies once it is signed.\<close>

lemma issued_verifies:
  assumes "key_pair sk pk" and "\<And>sg. body (attach sg x) = body x"
    and "\<And>sg. signature_of (attach sg x) = sg"
  shows "\<exists>y. map_option (\<lambda>sg. attach sg x) (sign (body x) sk) = Some y
    \<and> verify (body y) (signature_of y) pk = Ok ()"
  using correct [OF assms(1), of "body x"] assms(2,3) by auto

end

interpretation hybrid: signer "sign_both P" "verify_both P" "hybrid_key_pair P" for P
  by unfold_locales (rule sign_verify_both)

section \<open>Issue, then verify\<close>

lemma delegation_bytes_unsigned [simp]:
  "delegation_sign_bytes P (cert\<lparr>dc_signature := sg\<rparr>) = delegation_sign_bytes P cert"
  by (simp add: delegation_sign_bytes_def delegation_members_def)

lemma issue_delegation_verifies:
  assumes "hybrid_key_pair P sk (dc_issuer_pub_key cert)" and "issuance_error cert = None"
  shows "\<exists>c. issue_delegation P cert sk = Some (Ok c) \<and> verify_delegation_signature P c
    \<and> c = cert\<lparr>dc_signature := dc_signature c\<rparr>"
  using hybrid.correct [OF assms(1), of "delegation_sign_bytes P cert"] assms(2)
  by (auto simp: issue_delegation_def verify_delegation_signature_def
      verify_delegation_signature_e_def)

lemma revocation_bytes_unsigned [simp]:
  "revocation_sign_bytes (l\<lparr>rl_signature := sg\<rparr>) = revocation_sign_bytes l"
  "revocation_push_sign_bytes (p\<lparr>rp_signature := sg\<rparr>) = revocation_push_sign_bytes p"
  "witness_entry_sign_bytes P (e\<lparr>we_signature := sg\<rparr>) = witness_entry_sign_bytes P e"
  by (simp_all add: revocation_sign_bytes_def revocation_push_sign_bytes_def
      witness_entry_sign_bytes_def)

lemma issue_revocation_list_verifies:
  "hybrid_key_pair P sk pk \<Longrightarrow> \<exists>y. issue_revocation_list P l sk = Some y \<and> verify_revocation_list P y pk"
  using hybrid.issued_verifies [of P sk pk revocation_sign_bytes "\<lambda>sg l. l\<lparr>rl_signature := sg\<rparr>" l
      rl_signature]
  by (auto simp: issue_revocation_list_def verify_revocation_list_def)

lemma issue_revocation_push_verifies:
  "hybrid_key_pair P sk pk \<Longrightarrow> \<exists>y. issue_revocation_push P p sk = Some y \<and> verify_revocation_push P y pk"
  using hybrid.issued_verifies [of P sk pk revocation_push_sign_bytes
      "\<lambda>sg p. p\<lparr>rp_signature := sg\<rparr>" p rp_signature]
  by (auto simp: issue_revocation_push_def verify_revocation_push_def)

lemma issue_witness_entry_verifies:
  "hybrid_key_pair P sk pk \<Longrightarrow> \<exists>y. issue_witness_entry P e sk = Some y \<and> verify_witness_entry P y pk"
  using hybrid.issued_verifies [of P sk pk "witness_entry_sign_bytes P"
      "\<lambda>sg e. e\<lparr>we_signature := sg\<rparr>" e we_signature]
  by (auto simp: issue_witness_entry_def verify_witness_entry_def)

lemma rotation_bytes_unsigned [simp]:
  "key_rotation_sign_bytes P (s\<lparr>kr_signature_old := a, kr_signature_new := b\<rparr>) =
   key_rotation_sign_bytes P s"
  by (simp add: key_rotation_sign_bytes_def)

lemma issue_key_rotation_verifies:
  assumes "hybrid_key_pair P old_sk (kr_old_pub_key s)" "hybrid_key_pair P new_sk (kr_new_pub_key s)"
    and "kr_version s = 1" "kr_old_id s = derive_id P (kr_old_pub_key s)"
    and "kr_new_id s = derive_id P (kr_new_pub_key s)" "kr_old_id s \<noteq> kr_new_id s"
    and "is_key_rotation_reason_known (kr_reason s)"
  shows "\<exists>y. issue_key_rotation_statement P s old_sk new_sk = Some y
    \<and> verify_key_rotation_statement P y = Ok ()"
proof -
  obtain so sn where so: "sign_both P (key_rotation_sign_bytes P s) old_sk = Some so"
      "verify_both P (key_rotation_sign_bytes P s) so (kr_old_pub_key s) = Ok ()"
    and sn: "sign_both P (key_rotation_sign_bytes P s) new_sk = Some sn"
      "verify_both P (key_rotation_sign_bytes P s) sn (kr_new_pub_key s) = Ok ()"
    using hybrid.correct assms(1,2) by metis
  then show ?thesis
    using assms(3-)
    by (simp add: issue_key_rotation_statement_def verify_key_rotation_statement_def Let_def)
qed

section \<open>Bearer tokens\<close>

definition digest_lengths :: "prims \<Rightarrow> bool" where
  "digest_lengths P \<longleftrightarrow> (\<forall>m. length (p_sha256 P m) = 32) \<and> (\<forall>k m. length (p_hmac_sha256 P k m) = 32)"

lemma session_token_bytes_unsigned [simp]:
  "session_token_sign_bytes P (t\<lparr>st_mac := m\<rparr>) = session_token_sign_bytes P t"
  by (simp add: session_token_sign_bytes_def)

lemma verify_session_token_iff:
  "verify_session_token P t secret now \<longleftrightarrow>
     secret \<noteq> [] \<and> st_version t = 1 \<and> length (st_chain_hash t) = 32 \<and> length (st_mac t) = 32
     \<and> st_mac t = p_hmac_sha256 P secret (session_token_sign_bytes P t)
     \<and> st_issued_at t \<le> now \<and> now \<le> st_valid_until t"
  by (auto simp: verify_session_token_def verify_session_token_e_def)

lemma session_token_round_trip:
  assumes "digest_lengths P"
    and "issue_session_token P bundle result session_id issued_at valid_until secret = Ok t"
  shows "verify_session_token P t secret now \<longleftrightarrow> issued_at \<le> now \<and> now \<le> valid_until"
    and "issued_at < valid_until" and "st_granted_scope t = sort (vr_granted_scope result)"
    and "st_agent_pub_key t = pb_agent_pub_key bundle" and "st_human_id t = vr_human_id result"
    and "st_chain_hash t = chain_hash P (pb_delegations bundle)"
proof -
  define u where "u = \<lparr>st_version = 1, st_session_id = session_id,
     st_agent_id = vr_agent_id result, st_agent_pub_key = pb_agent_pub_key bundle,
     st_human_id = vr_human_id result, st_granted_scope = sort (vr_granted_scope result),
     st_issued_at = issued_at, st_valid_until = valid_until,
     st_chain_hash = chain_hash P (pb_delegations bundle), st_mac = []\<rparr>"
  have t: "t = u\<lparr>st_mac := p_hmac_sha256 P secret (session_token_sign_bytes P u)\<rparr>"
    and ok: "secret \<noteq> []"
    using assms(2) unfolding issue_session_token_def Let_def u_def [symmetric]
    by (simp_all split: if_splits)
  have u: "st_version u = 1" "st_issued_at u = issued_at" "st_valid_until u = valid_until"
    "st_chain_hash u = chain_hash P (pb_delegations bundle)" by (simp_all add: u_def)
  have "length (st_chain_hash u) = 32" using assms(1) u by (simp add: digest_lengths_def chain_hash_def)
  then show "verify_session_token P t secret now \<longleftrightarrow> issued_at \<le> now \<and> now \<le> valid_until"
    using u ok assms(1) by (simp add: t verify_session_token_iff digest_lengths_def)
qed (use assms(2) in \<open>auto simp: issue_session_token_def Let_def split: if_splits\<close>)

definition verdict_bytes :: "prims \<Rightarrow> policy_verdict \<Rightarrow> bytes" where
  "verdict_bytes P v = (case policy_verdict_sign_bytes P v of Ok b \<Rightarrow> b | Err _ \<Rightarrow> [])"

lemma policy_verdict_sign_bytes_Ok: "policy_verdict_sign_bytes P v = Ok (verdict_bytes P v)"
  by (simp add: verdict_bytes_def policy_verdict_sign_bytes_def)

lemma verdict_bytes_unsigned [simp]: "verdict_bytes P (v\<lparr>pv_mac := m\<rparr>) = verdict_bytes P v"
  by (simp add: verdict_bytes_def policy_verdict_sign_bytes_def)

lemma verify_policy_verdict_iff:
  "is_ok (verify_policy_verdict P v secret agent scope ctx now) \<longleftrightarrow>
     secret \<noteq> [] \<and> pv_version v = 1 \<and> length (pv_context_hash v) = 32 \<and> length (pv_mac v) = 32
     \<and> pv_mac v = p_hmac_sha256 P secret (verdict_bytes P v)
     \<and> pv_issued_at v \<le> now \<and> now \<le> pv_valid_until v
     \<and> pv_agent_id v = agent \<and> pv_scope v = scope \<and> pv_context_hash v = ctx \<and> pv_allow v"
  by (auto simp: verify_policy_verdict_def policy_verdict_sign_bytes_Ok)

lemma policy_verdict_round_trip:
  assumes "digest_lengths P"
    and "issue_policy_verdict P verdict_id agent_id scope allow ctx_hash issued_at valid_until secret = Ok v"
  shows "is_ok (verify_policy_verdict P v secret agent_id' scope' ctx_hash' now) \<longleftrightarrow>
    allow \<and> agent_id' = agent_id \<and> scope' = scope \<and> ctx_hash' = ctx_hash
    \<and> issued_at \<le> now \<and> now \<le> valid_until"
proof -
  define u where "u = \<lparr>pv_version = 1, pv_verdict_id = verdict_id, pv_agent_id = agent_id,
     pv_scope = scope, pv_allow = allow, pv_context_hash = ctx_hash,
     pv_issued_at = issued_at, pv_valid_until = valid_until, pv_mac = []\<rparr>"
  have v: "v = u\<lparr>pv_mac := p_hmac_sha256 P secret (verdict_bytes P u)\<rparr>"
    and ok: "secret \<noteq> []" "length ctx_hash = 32"
    using assms(2)
    unfolding issue_policy_verdict_def Let_def policy_verdict_sign_bytes_Ok u_def [symmetric]
    by (simp_all split: if_splits)
  have "pv_version u = 1" "pv_issued_at u = issued_at" "pv_valid_until u = valid_until"
    "pv_agent_id u = agent_id" "pv_scope u = scope" "pv_context_hash u = ctx_hash"
    "pv_allow u = allow" by (simp_all add: u_def)
  then show ?thesis
    using ok assms(1) by (auto simp: v verify_policy_verdict_iff digest_lengths_def)
qed

section \<open>Equal bytes, equal content\<close>

lemma is_value_i64 [value_intros]: "is_value (encode_i64 n)" "is_value (encode_i32 n)"
  by (simp_all add: encode_i64_def encode_i32_def value_intros)

lemma encode_i64_inj [simp]: "encode_i64 m = encode_i64 n \<longleftrightarrow> m = n"
  "encode_i32 m = encode_i32 n \<longleftrightarrow> m = n"
  using dec_int_inj by (auto simp: encode_i64_def encode_i32_def)

lemma encode_bool_inj [simp]: "encode_bool a = encode_bool b \<longleftrightarrow> a = b"
  by (simp add: encode_bool_def)

lemma encode_hybrid_sig_inj:
  assumes "base64_injective P"
  shows "encode_hybrid_sig P a = encode_hybrid_sig P b \<longleftrightarrow> a = b"
proof
  assume eq: "encode_hybrid_sig P a = encode_hybrid_sig P b"
  have "[(''ed25519'', encode_bytes_b64 P (sig_ed25519 a)), (''ml_dsa_65'', encode_bytes_b64 P (sig_ml_dsa_65 a))]
    = [(''ed25519'', encode_bytes_b64 P (sig_ed25519 b)), (''ml_dsa_65'', encode_bytes_b64 P (sig_ml_dsa_65 b))]"
    using eq unfolding encode_hybrid_sig_def
    by (rule json_object_unique [rotated 2]) (auto simp: fields_ok_iff intro!: value_intros)
  with assms show "a = b" by (simp add: encode_bytes_b64_inj)
qed simp

lemma object_bytes_unique:
  "str_bytes (json_object ms) = str_bytes (json_object ns) \<Longrightarrow> \<forall>m\<in>set ms. is_value (snd m)
   \<Longrightarrow> \<forall>n\<in>set ns. is_value (snd n) \<Longrightarrow> ms = ns"
  by (simp add: str_bytes_inj json_object_unique fields_ok_iff)

lemma is_value_constraints: "display_token P \<Longrightarrow> is_value (encode_constraints P cs)"
  unfolding encode_constraints_def
  by (auto intro!: is_value_array simp: is_value_constraint)

lemma constraint_members_values:
  "display_token P \<Longrightarrow> \<forall>m\<in>set (constraint_members P c). is_value (snd m)"
  by (auto simp: constraint_members_def Let_def is_value_f64 is_value_points
      encode_params_object_def is_value_object is_value_params
      split: option.splits intro: value_intros)

lemma encode_constraints_members:
  assumes "display_token P" "encode_constraints P cs = encode_constraints P ds"
  shows "map (constraint_members P) cs = map (constraint_members P) ds"
proof -
  have "map (encode_constraint P) cs = map (encode_constraint P) ds"
    using assms(2) unfolding encode_constraints_def
    by (rule json_array_unique [rotated 2]) (auto simp: is_value_constraint assms(1))
  moreover have "constraint_members P c = constraint_members P d"
    if "encode_constraint P c = encode_constraint P d" for c d
    using that constraint_members_values [OF assms(1)]
    by (simp add: encode_constraint_def json_object_unique fields_ok_iff)
  ultimately show ?thesis by (auto simp: list_eq_iff_nth_eq)
qed

lemma constraint_members_kind:
  "constraint_members P c = constraint_members P d \<Longrightarrow> c_kind c = c_kind d"
proof -
  have "(''type'', encode_string (c_kind c)) \<in> set (constraint_members P c)" for c
    by (auto simp: constraint_members_def Let_def)
  moreover have "(''type'', v) \<in> set (constraint_members P c) \<Longrightarrow> v = encode_string (c_kind c)" for v c
    by (auto simp: constraint_members_def Let_def split: if_splits option.splits)
  moreover assume "constraint_members P c = constraint_members P d"
  ultimately show ?thesis by (metis encode_string_inj)
qed

definition same_signed_cert :: "prims \<Rightarrow> delegation_cert \<Rightarrow> delegation_cert \<Rightarrow> bool" where
  "same_signed_cert P a b \<longleftrightarrow>
     dc_cert_id a = dc_cert_id b \<and> dc_version a = dc_version b
     \<and> dc_issuer_id a = dc_issuer_id b \<and> dc_issuer_pub_key a = dc_issuer_pub_key b
     \<and> dc_subject_id a = dc_subject_id b \<and> dc_subject_pub_key a = dc_subject_pub_key b
     \<and> dc_scope a = dc_scope b \<and> dc_issued_at a = dc_issued_at b
     \<and> dc_expires_at a = dc_expires_at b
     \<and> map (constraint_members P) (dc_constraints a) = map (constraint_members P) (dc_constraints b)"

lemma delegation_sign_bytes_unique:
  assumes "base64_injective P" "display_token P"
    and "delegation_sign_bytes P a = delegation_sign_bytes P b"
  shows "same_signed_cert P a b"
proof -
  have vals: "\<forall>m\<in>set (delegation_members P c). is_value (snd m)" for c
    by (auto simp: delegation_members_def is_value_constraints [OF assms(2)] intro: value_intros)
  have "delegation_members P a = delegation_members P b"
    using assms(3) unfolding delegation_sign_bytes_def by (rule object_bytes_unique [OF _ vals vals])
  then have eqs: "dc_cert_id a = dc_cert_id b \<and> dc_version a = dc_version b
     \<and> dc_issuer_id a = dc_issuer_id b \<and> dc_issuer_pub_key a = dc_issuer_pub_key b
     \<and> dc_subject_id a = dc_subject_id b \<and> dc_subject_pub_key a = dc_subject_pub_key b
     \<and> dc_scope a = dc_scope b \<and> dc_issued_at a = dc_issued_at b
     \<and> dc_expires_at a = dc_expires_at b"
    and "encode_constraints P (dc_constraints a) = encode_constraints P (dc_constraints b)"
    by (simp_all add: delegation_members_def encode_hybrid_pub_key_inj [OF assms(1)])
  from encode_constraints_members [OF assms(2) this(2)] eqs show ?thesis
    unfolding same_signed_cert_def by blast
qed

text \<open>
  The challenge encoding is not self-delimiting.  It is unique once the challenge length is fixed,
  as the binding fields are empty or 32 bytes.
\<close>

definition binding :: "bytes \<Rightarrow> bool" where
  "binding x \<longleftrightarrow> x = [] \<or> length x = 32"

lemma challenge_bytes_unique:
  assumes "challenge_sign_bytes_with_stream c t x sid n = challenge_sign_bytes_with_stream c' t' x' sid' n'"
    and "length c = length c'" "binding x" "binding x'" "binding sid" "binding sid'"
    and "i64_range t" "i64_range t'" "i64_range n" "i64_range n'"
  shows "c = c' \<and> t = t' \<and> x = x' \<and> sid = sid' \<and> (sid \<noteq> [] \<longrightarrow> n = n')"
proof -
  let ?s = "\<lambda>sid n. if sid \<noteq> [] then sid @ be64 n else []"
  have "c = c' \<and> be64 t @ x @ ?s sid n = be64 t' @ x' @ ?s sid' n'"
    using assms(1,2) by (simp add: challenge_sign_bytes_with_stream_def)
  then have c: "c = c'" "be64 t = be64 t'" and rest: "x @ ?s sid n = x' @ ?s sid' n'"
    by simp_all
  from rest have "length x + length (?s sid n) = length x' + length (?s sid' n')"
    by (metis length_append)
  then have "length x = length x'" "sid = [] \<longleftrightarrow> sid' = []"
    using assms(3-6) by (auto simp: binding_def split: if_splits)
  with rest have "x = x'" "?s sid n = ?s sid' n'" by simp_all
  with \<open>sid = [] \<longleftrightarrow> sid' = []\<close> assms(5,6) have "sid = sid' \<and> (sid \<noteq> [] \<longrightarrow> be64 n = be64 n')"
    by (cases "sid = []") (auto simp: binding_def)
  with c \<open>x = x'\<close> show ?thesis using be64_inj assms(7-) by blast
qed

section \<open>Receipt chains\<close>

abbreviation receipt_bytes :: "prims \<Rightarrow> verification_receipt \<Rightarrow> bytes" where
  "receipt_bytes P r \<equiv> str_bytes (json_object (verification_receipt_members P r))"

text \<open>Newest first: each receipt carries the hash of the one before, the oldest a zero hash.\<close>

fun receipt_chain :: "prims \<Rightarrow> verification_receipt list \<Rightarrow> bool" where
  "receipt_chain P [] = True"
| "receipt_chain P [r] = (vrc_prev_hash r = replicate 32 0)"
| "receipt_chain P (r # q # rs) = (Ok (vrc_prev_hash r) = receipt_hash P q \<and> receipt_chain P (q # rs))"

lemma receipt_member_values: "\<forall>m\<in>set (verification_receipt_members P r). is_value (snd m)"
  by (auto simp: verification_receipt_members_def intro: value_intros)

lemma receipt_prev_hash:
  assumes "base64_injective P" "receipt_bytes P a = receipt_bytes P b"
  shows "vrc_prev_hash a = vrc_prev_hash b"
proof -
  have eq: "verification_receipt_members P a = verification_receipt_members P b"
    using assms(2) by (rule object_bytes_unique [OF _ receipt_member_values receipt_member_values])
  have "map_of (verification_receipt_members P r) ''prev_hash'' = Some (encode_bytes_b64 P (vrc_prev_hash r))" for r
    by (simp add: verification_receipt_members_def)
  with eq have "encode_bytes_b64 P (vrc_prev_hash a) = encode_bytes_b64 P (vrc_prev_hash b)" by (metis option.inject)
  then show ?thesis using assms(1) by (simp add: encode_bytes_b64_inj)
qed

lemma receipt_chain_tamper_evident:
  assumes "base64_injective P" "receipt_chain P xs" "receipt_chain P ys" "length xs = length ys"
    and "inj_on (p_sha256 P) (receipt_bytes P ` (set xs \<union> set ys))"
    and "xs \<noteq> []" "receipt_hash P (hd xs) = receipt_hash P (hd ys)"
  shows "map (receipt_bytes P) xs = map (receipt_bytes P) ys"
  using assms(4,2,3,5,6,7)
proof (induction xs ys rule: list_induct2)
  case (Cons x xs y ys)
  have head: "receipt_bytes P x = receipt_bytes P y"
    using Cons.prems(5) inj_onD [OF Cons.prems(3), of "receipt_bytes P x" "receipt_bytes P y"]
    by (simp add: receipt_hash_def verification_receipt_sign_bytes_def)
  then have prev: "vrc_prev_hash x = vrc_prev_hash y"
    using receipt_prev_hash [OF assms(1)] by blast
  show ?case
  proof (cases xs)
    case Nil
    with Cons.hyps head show ?thesis by simp
  next
    case (Cons q qs)
    with Cons.hyps obtain r rs where ys: "ys = r # rs" by (cases ys) auto
    have "map (receipt_bytes P) xs = map (receipt_bytes P) ys"
    proof (rule Cons.IH)
      show "receipt_chain P xs" "receipt_chain P ys" "xs \<noteq> []"
        using Cons.prems(1,2) Cons ys by simp_all
      show "inj_on (p_sha256 P) (receipt_bytes P ` (set xs \<union> set ys))"
        by (rule inj_on_subset [OF Cons.prems(3)]) auto
      show "receipt_hash P (hd xs) = receipt_hash P (hd ys)"
        using Cons.prems(1,2) Cons ys prev by (simp del: receipt_hash_def)
    qed
    with head show ?thesis by simp
  qed
qed simp

end
