(* ===== verification/V1_Constraints.thy ===== *)
theory V1_Constraints
  imports V1_Resource_Path Ratify_Platform
begin

text \<open>
  Constraint evaluation (\<open>sdks/rust/src/constraints.rs\<close>): one definition per arm of the match on
  the constraint kind, the geometric helpers over exact \<open>f64\<close> patterns, and the loop over a
  certificate's constraints with its fall-through to registered extension evaluators.
\<close>

section \<open>Helpers\<close>

abbreviation F64_180 :: f64 where "F64_180 \<equiv> 0x4066800000000000"
abbreviation F64_1 :: f64 where "F64_1 \<equiv> 0x3FF0000000000000"
abbreviation F64_2 :: f64 where "F64_2 \<equiv> 0x4000000000000000"
abbreviation F64_EARTH_RADIUS_M :: f64 where "F64_EARTH_RADIUS_M \<equiv> 0x41584DAE00000000"
abbreviation F64_PI :: f64 where "F64_PI \<equiv> 0x400921FB54442D18"

definition haversine_meters :: "prims \<Rightarrow> f64 \<Rightarrow> f64 \<Rightarrow> f64 \<Rightarrow> f64 \<Rightarrow> f64" where
  "haversine_meters P lat1 lon1 lat2 lon2 =
     (let L = p_libm P;
          rad = f64_div F64_PI F64_180;
          d_lat = f64_mul (f64_sub lat2 lat1) rad;
          d_lon = f64_mul (f64_sub lon2 lon1) rad;
          a = f64_add (lm_powi2 L (lm_sin L (f64_div d_lat F64_2)))
                (f64_mul (f64_mul (lm_cos L (f64_mul lat1 rad)) (lm_cos L (f64_mul lat2 rad)))
                  (lm_powi2 L (lm_sin L (f64_div d_lon F64_2))))
      in f64_mul (f64_mul F64_2 F64_EARTH_RADIUS_M) (lm_asin L (f64_min (lm_sqrt L a) F64_1)))"

text \<open>The running minimum and maximum of the longitudes.\<close>

fun lon_extent :: "f64 \<Rightarrow> f64 \<Rightarrow> (f64 \<times> f64) list \<Rightarrow> f64 \<times> f64" where
  "lon_extent min_lon max_lon [] = (min_lon, max_lon)"
| "lon_extent min_lon max_lon ((y, x) # ps) =
     lon_extent (if f64_lt x min_lon then x else min_lon)
       (if f64_gt x max_lon then x else max_lon) ps"

definition polygon_spans_antimeridian :: "(f64 \<times> f64) list \<Rightarrow> bool" where
  "polygon_spans_antimeridian points =
     (if length points < 3 then False
      else case lon_extent (snd (hd points)) (snd (hd points)) points of
        (min_lon, max_lon) \<Rightarrow> f64_gt (f64_sub max_lon min_lon) F64_180)"

text \<open>Ray casting; \<open>(yj, xj)\<close> is the previous vertex, initially the last one.\<close>

definition edge_crosses :: "f64 \<Rightarrow> f64 \<Rightarrow> f64 \<times> f64 \<Rightarrow> f64 \<times> f64 \<Rightarrow> bool" where
  "edge_crosses lat lon vi vj =
     (case (vi, vj) of ((yi, xi), (yj, xj)) \<Rightarrow>
        (f64_gt yi lat \<noteq> f64_gt yj lat)
        \<and> f64_lt lon (f64_add (f64_div (f64_mul (f64_sub xj xi) (f64_sub lat yi)) (f64_sub yj yi)) xi))"

fun ray_cast :: "f64 \<Rightarrow> f64 \<Rightarrow> f64 \<times> f64 \<Rightarrow> bool \<Rightarrow> (f64 \<times> f64) list \<Rightarrow> bool" where
  "ray_cast lat lon vj inside [] = inside"
| "ray_cast lat lon vj inside (vi # vs) =
     ray_cast lat lon vi (if edge_crosses lat lon vi vj then \<not> inside else inside) vs"

definition point_in_polygon :: "f64 \<Rightarrow> f64 \<Rightarrow> (f64 \<times> f64) list \<Rightarrow> bool" where
  "point_in_polygon lat lon poly = ray_cast lat lon (last poly) False poly"

text \<open>\<open>str::parse::<i32>\<close>: an optional sign, then at least one digit, within 32 bits.\<close>

definition digits_value :: "string \<Rightarrow> int" where
  "digits_value s = foldl (\<lambda>v c. v * 10 + (of_char c - 48)) 0 s"

definition parse_i32 :: "string \<Rightarrow> int option" where
  "parse_i32 s =
     (let (neg, ds) = (case s of c # cs \<Rightarrow> if c = CHR ''-'' then (True, cs)
                          else if c = CHR ''+'' then (False, cs) else (False, s)
                       | [] \<Rightarrow> (False, s));
          v = (if neg then - digits_value ds else digits_value ds)
      in if ds \<noteq> [] \<and> list_all is_digit ds \<and> - (2 ^ 31) \<le> v \<and> v < 2 ^ 31 then Some v else None)"

definition parse_hhmm :: "string \<Rightarrow> int option" where
  "parse_hhmm s =
     (if length s \<noteq> 5 \<or> s ! 2 \<noteq> CHR '':'' then None
      else case (parse_i32 (take 2 s), parse_i32 (drop 3 s)) of
        (Some h, Some m) \<Rightarrow>
          if 0 \<le> h \<and> h \<le> 23 \<and> 0 \<le> m \<and> m \<le> 59 then Some (h * 60 + m) else None
      | _ \<Rightarrow> None)"

text \<open>\<open>%H:%M\<close>.\<close>

definition two_digits :: "int \<Rightarrow> string" where
  "two_digits n = (if n < 10 then CHR ''0'' # dec_int n else dec_int n)"

definition fmt_hm :: "int \<times> int \<Rightarrow> string" where
  "fmt_hm hm = two_digits (fst hm) @ '':'' @ two_digits (snd hm)"

section \<open>The kinds\<close>

definition eval_resource_path :: "constraint \<Rightarrow> verifier_context \<Rightarrow> unit rresult" where
  "eval_resource_path c ctx =
     (if vc_requested_resource_id ctx = None \<or> vc_requested_resource_id ctx = Some ''''
      then Err ''constraint_unverifiable: no requested resource in context''
      else if c_resource_id c = ''''
      then Err ''malformed resource_path: resource_id is required''
      else if length (c_resource_id c) > MAX_IDENTIFIER_LENGTH_BYTES
      then Err ''malformed resource_path: resource_id exceeds MAX_IDENTIFIER_LENGTH_BYTES''
      else if vc_requested_resource_id ctx \<noteq> Some (c_resource_id c)
      then Err ''requested resource does not match the authorized resource''
      else case c_path_prefix c of
        None \<Rightarrow> Ok ()
      | Some pre \<Rightarrow>
          (case normalize_resource_path pre of
             Err e \<Rightarrow> Err (''malformed path_prefix: '' @ e)
           | Ok _ \<Rightarrow>
               (let requested_path = unwrap_or (vc_requested_path ctx) '''' in
                if requested_path = ''''
                then Err ''constraint_unverifiable: no requested path in context''
                else case normalize_resource_path requested_path of
                  Err e \<Rightarrow> Err (''invalid requested path: '' @ e)
                | Ok _ \<Rightarrow>
                    if \<not> resource_path_matches pre requested_path
                    then Err (''requested path '' @ quoted requested_path @
                           '' is outside the authorized prefix '' @ quoted pre)
                    else Ok ())))"

definition NO_LOCATION :: string where
  "NO_LOCATION = ''constraint_unverifiable: no current location in context''"

definition current_location :: "verifier_context \<Rightarrow> (f64 \<times> f64) option" where
  "current_location ctx =
     (case (vc_current_lat ctx, vc_current_lon ctx) of
        (Some a, Some b) \<Rightarrow> Some (a, b) | _ \<Rightarrow> None)"

definition eval_geo_circle :: "prims \<Rightarrow> constraint \<Rightarrow> verifier_context \<Rightarrow> unit rresult" where
  "eval_geo_circle P c ctx =
     (case current_location ctx of
        None \<Rightarrow> Err NO_LOCATION
      | Some (lat, lon) \<Rightarrow>
          (let d = haversine_meters P lat lon (c_lat c) (c_lon c) in
           if f64_gt d (c_radius_m c)
           then Err (''outside allowed radius: '' @ fmt_fixed 1 d @ ''m > '' @
                  fmt_fixed 1 (c_radius_m c) @ ''m'')
           else Ok ()))"

definition eval_geo_polygon :: "constraint \<Rightarrow> verifier_context \<Rightarrow> unit rresult" where
  "eval_geo_polygon c ctx =
     (case current_location ctx of
        None \<Rightarrow> Err NO_LOCATION
      | Some (lat, lon) \<Rightarrow>
          if length (c_points c) < 3 then Err ''polygon has fewer than 3 points''
          else if polygon_spans_antimeridian (c_points c)
          then Err (''geo_polygon spans >180'' @ [CHR 0xC2, CHR 0xB0] @ '' longitude '' @ em_dash @
                 '' v1 semantics are undefined for anti-meridian-crossing polygons (see SPEC '' @
                 section_sign @ ''5.7.2)'')
          else if \<not> point_in_polygon lat lon (c_points c) then Err ''outside allowed polygon''
          else Ok ())"

definition bounds_text :: "nat \<Rightarrow> string \<Rightarrow> f64 \<Rightarrow> f64 \<Rightarrow> string" where
  "bounds_text n unit_text lo hi =
     ''['' @ fmt_fixed n lo @ unit_text @ '', '' @ fmt_fixed n hi @ unit_text @ '']''"

definition eval_geo_bbox :: "constraint \<Rightarrow> verifier_context \<Rightarrow> unit rresult" where
  "eval_geo_bbox c ctx =
     (case current_location ctx of
        None \<Rightarrow> Err NO_LOCATION
      | Some (lat, lon) \<Rightarrow>
          if f64_lt lat (c_min_lat c) \<or> f64_gt lat (c_max_lat c)
          then Err (''latitude '' @ fmt_fixed 6 lat @ '' outside '' @
                 bounds_text 6 '''' (c_min_lat c) (c_max_lat c))
          else if f64_le (c_min_lon c) (c_max_lon c)
            \<and> (f64_lt lon (c_min_lon c) \<or> f64_gt lon (c_max_lon c))
          then Err (''longitude '' @ fmt_fixed 6 lon @ '' outside '' @
                 bounds_text 6 '''' (c_min_lon c) (c_max_lon c))
          else if \<not> f64_le (c_min_lon c) (c_max_lon c)
            \<and> f64_lt lon (c_min_lon c) \<and> f64_gt lon (c_max_lon c)
          then Err (''longitude '' @ fmt_fixed 6 lon @ '' outside wrapped '' @
                 bounds_text 6 '''' (c_min_lon c) (c_max_lon c))
          else if \<not> f64_eq (c_min_alt_m c) 0 \<or> \<not> f64_eq (c_max_alt_m c) 0
          then (case vc_current_alt_m ctx of
                  None \<Rightarrow>
                    Err ''constraint_unverifiable: no altitude in context but bbox has altitude bounds''
                | Some alt \<Rightarrow>
                    if f64_lt alt (c_min_alt_m c) \<or> f64_gt alt (c_max_alt_m c)
                    then Err (''altitude '' @ fmt_fixed 1 alt @ ''m outside '' @
                           bounds_text 1 ''m'' (c_min_alt_m c) (c_max_alt_m c))
                    else Ok ())
          else Ok ())"

definition eval_time_window :: "prims \<Rightarrow> constraint \<Rightarrow> int \<Rightarrow> unit rresult" where
  "eval_time_window P c now_sec =
     (if c_tz c = '''' \<or> c_start c = '''' \<or> c_end c = ''''
      then Err ''malformed time_window: tz/start/end required''
      else case parse_hhmm (c_start c) of
        None \<Rightarrow> Err (''bad start time: '' @ c_start c)
      | Some start \<Rightarrow>
          (case parse_hhmm (c_end c) of
             None \<Rightarrow> Err (''bad end time: '' @ c_end c)
           | Some end_m \<Rightarrow>
               (case p_timezone P (c_tz c) of
                  None \<Rightarrow> Err (''unknown timezone '' @ quoted (c_tz c))
                | Some local_hm \<Rightarrow>
                    if \<not> p_timestamp_ok P now_sec then Err ''time_window: invalid now_sec''
                    else let hm = local_hm now_sec; cur = fst hm * 60 + snd hm;
                             bounds = ''['' @ c_start c @ '', '' @ c_end c @ ''] '' @ c_tz c in
                      if start \<le> end_m \<and> (cur < start \<or> cur > end_m)
                      then Err (''current '' @ fmt_hm hm @ '' outside '' @ bounds)
                      else if \<not> start \<le> end_m \<and> cur < start \<and> cur > end_m
                      then Err (''current '' @ fmt_hm hm @ '' outside wrapped '' @ bounds)
                      else Ok ())))"

definition eval_max_speed :: "constraint \<Rightarrow> verifier_context \<Rightarrow> unit rresult" where
  "eval_max_speed c ctx =
     (case vc_current_speed_mps ctx of
        None \<Rightarrow> Err ''constraint_unverifiable: no current speed in context''
      | Some speed \<Rightarrow>
          if f64_gt speed (c_max_mps c)
          then Err (''speed '' @ fmt_fixed 2 speed @ ''mps exceeds max '' @
                 fmt_fixed 2 (c_max_mps c) @ ''mps'')
          else Ok ())"

definition eval_max_amount :: "constraint \<Rightarrow> verifier_context \<Rightarrow> unit rresult" where
  "eval_max_amount c ctx =
     (case vc_requested_amount ctx of
        None \<Rightarrow> Err ''constraint_unverifiable: no requested amount in context''
      | Some amount \<Rightarrow>
          (case vc_requested_currency ctx of
             None \<Rightarrow> Err ''constraint_unverifiable: no requested currency in context''
           | Some req_ccy \<Rightarrow>
               if req_ccy \<noteq> c_currency c
               then Err (''currency mismatch: requested '' @ quoted req_ccy @ '', constraint '' @
                      quoted (c_currency c))
               else if f64_gt amount (c_max_amount c)
               then Err (''amount '' @ fmt_fixed 2 amount @ '' '' @ req_ccy @ '' exceeds max '' @
                      fmt_fixed 2 (c_max_amount c) @ '' '' @ c_currency c)
               else Ok ()))"

definition eval_max_rate :: "constraint \<Rightarrow> string \<Rightarrow> verifier_context \<Rightarrow> unit rresult" where
  "eval_max_rate c cert_id ctx =
     (case vc_invocations_in_window ctx of
        None \<Rightarrow> Err ''constraint_unverifiable: no rate counter in context''
      | Some counter \<Rightarrow>
          if c_count c \<le> 0 \<or> c_window_s c \<le> 0
          then Err ''malformed max_rate: count and window_s must be positive''
          else let got = counter cert_id (c_window_s c) in
            if got < 0
            then Err (''constraint_unverifiable: rate counter returned negative count '' @
                   dec_int got)
            else if got \<ge> c_count c
            then Err (''rate limit exceeded: '' @ dec_int got @ '' invocations in last '' @
                   dec_int (c_window_s c) @ ''s (max '' @ dec_int (c_count c) @ '')'')
            else Ok ())"

definition evaluate_constraint ::
  "prims \<Rightarrow> constraint \<Rightarrow> string \<Rightarrow> verifier_context \<Rightarrow> int \<Rightarrow> unit rresult" where
  "evaluate_constraint P c cert_id ctx now_sec =
     (if c_kind c = ''resource_path'' then eval_resource_path c ctx
      else if c_kind c = ''geo_circle'' then eval_geo_circle P c ctx
      else if c_kind c = ''geo_polygon'' then eval_geo_polygon c ctx
      else if c_kind c = ''geo_bbox'' then eval_geo_bbox c ctx
      else if c_kind c = ''time_window'' then eval_time_window P c now_sec
      else if c_kind c = ''max_speed_mps'' then eval_max_speed c ctx
      else if c_kind c = ''max_amount'' then eval_max_amount c ctx
      else if c_kind c = ''max_rate'' then eval_max_rate c cert_id ctx
      else Err (''constraint_unknown: unknown constraint type '' @ quoted (c_kind c)))"

text \<open>One iteration of the loop: the built-in verdict, or an extension's for an unknown kind.\<close>

definition constraint_outcome ::
  "prims \<Rightarrow> constraint \<Rightarrow> string \<Rightarrow> verifier_context \<Rightarrow> int
    \<Rightarrow> (string \<times> constraint_evaluator) list option \<Rightarrow> unit rresult" where
  "constraint_outcome P c cert_id ctx now_sec ext_evaluators =
     (case evaluate_constraint P c cert_id ctx now_sec of
        Ok u \<Rightarrow> Ok u
      | Err msg \<Rightarrow>
          if starts_with msg ''constraint_unknown:''
          then (case ext_evaluators of
                  None \<Rightarrow> Err msg
                | Some m \<Rightarrow> (case map_of m (c_kind c) of
                     None \<Rightarrow> Err msg
                   | Some ev \<Rightarrow> ev c cert_id ctx now_sec))
          else Err msg)"

definition evaluate_constraints ::
  "prims \<Rightarrow> delegation_cert \<Rightarrow> verifier_context \<Rightarrow> int
    \<Rightarrow> (string \<times> constraint_evaluator) list option \<Rightarrow> unit rresult" where
  "evaluate_constraints P cert ctx now_sec ext_evaluators =
     (case find_failure (\<lambda>i c. map_option
          (\<lambda>e. ''constraint['' @ dec_nat i @ ''] ('' @ c_kind c @ ''): '' @ e)
          (err_opt (constraint_outcome P c (dc_cert_id cert) ctx now_sec ext_evaluators)))
        0 (dc_constraints cert) of
        Some e \<Rightarrow> Err e | None \<Rightarrow> Ok ())"

section \<open>Which verdict decides\<close>

text \<open>
  The loop recognises "unknown kind" by the text of the error.  No built-in arm can produce that
  prefix, so an extension evaluator never overrides a built-in denial.
\<close>

lemmas eval_defs = eval_resource_path_def eval_geo_circle_def eval_geo_polygon_def
  eval_geo_bbox_def eval_time_window_def eval_max_speed_def eval_max_amount_def eval_max_rate_def
  NO_LOCATION_def

lemma builtin_error_prefix:
  "eval_resource_path c ctx = Err e \<Longrightarrow> \<not> starts_with e ''constraint_unknown:''"
  "eval_geo_circle P c ctx = Err e \<Longrightarrow> \<not> starts_with e ''constraint_unknown:''"
  "eval_geo_polygon c ctx = Err e \<Longrightarrow> \<not> starts_with e ''constraint_unknown:''"
  "eval_geo_bbox c ctx = Err e \<Longrightarrow> \<not> starts_with e ''constraint_unknown:''"
  "eval_time_window P c now = Err e \<Longrightarrow> \<not> starts_with e ''constraint_unknown:''"
  "eval_max_speed c ctx = Err e \<Longrightarrow> \<not> starts_with e ''constraint_unknown:''"
  "eval_max_amount c ctx = Err e \<Longrightarrow> \<not> starts_with e ''constraint_unknown:''"
  "eval_max_rate c cert_id ctx = Err e \<Longrightarrow> \<not> starts_with e ''constraint_unknown:''"
  by (auto simp: eval_defs starts_with_def Let_def split: if_splits option.splits sum.splits)

lemma builtin_not_unknown:
  assumes "is_canonical_constraint_type (c_kind c)" and "evaluate_constraint P c cert_id ctx now = Err e"
  shows "\<not> starts_with e ''constraint_unknown:''"
proof -
  from assms(1) consider "c_kind c = ''geo_circle''" | "c_kind c = ''geo_polygon''"
    | "c_kind c = ''geo_bbox''" | "c_kind c = ''time_window''" | "c_kind c = ''max_speed_mps''"
    | "c_kind c = ''max_amount''" | "c_kind c = ''max_rate''" | "c_kind c = ''resource_path''"
    by (auto simp: is_canonical_constraint_type_def)
  then show ?thesis
    using assms(2) by cases (simp_all add: evaluate_constraint_def builtin_error_prefix)
qed

lemma constraint_outcome_builtin:
  assumes "is_canonical_constraint_type (c_kind c)"
  shows "constraint_outcome P c cert_id ctx now ext = evaluate_constraint P c cert_id ctx now"
  using builtin_not_unknown [OF assms, of P cert_id ctx now]
  by (cases "evaluate_constraint P c cert_id ctx now") (simp_all add: constraint_outcome_def)

lemma evaluate_constraint_unknown:
  assumes "\<not> is_canonical_constraint_type (c_kind c)"
  shows "evaluate_constraint P c cert_id ctx now =
    Err (''constraint_unknown: unknown constraint type '' @ quoted (c_kind c))"
  using assms by (auto simp: evaluate_constraint_def is_canonical_constraint_type_def)

lemma constraint_outcome_extension:
  assumes "\<not> is_canonical_constraint_type (c_kind c)"
  shows "constraint_outcome P c cert_id ctx now ext =
    (case Option.bind ext (\<lambda>m. map_of m (c_kind c)) of
       Some ev \<Rightarrow> ev c cert_id ctx now
     | None \<Rightarrow> Err (''constraint_unknown: unknown constraint type '' @ quoted (c_kind c)))"
  by (cases ext)
    (simp_all add: constraint_outcome_def evaluate_constraint_unknown [OF assms] starts_with_def
      split: option.split)

lemma evaluate_constraints_ok:
  "is_ok (evaluate_constraints P cert ctx now ext) \<longleftrightarrow>
   (\<forall>c\<in>set (dc_constraints cert). is_ok (constraint_outcome P c (dc_cert_id cert) ctx now ext))"
proof -
  have "is_ok (evaluate_constraints P cert ctx now ext) \<longleftrightarrow>
    find_failure (\<lambda>i c. map_option
          (\<lambda>e. ''constraint['' @ dec_nat i @ ''] ('' @ c_kind c @ ''): '' @ e)
          (err_opt (constraint_outcome P c (dc_cert_id cert) ctx now ext)))
        0 (dc_constraints cert) = None"
    unfolding evaluate_constraints_def by (simp split: option.split)
  then show ?thesis
    by (simp add: find_failure_None err_opt_None_iff all_set_conv_all_nth)
qed

section \<open>Acceptance of each kind\<close>

lemma eval_resource_path_ok:
  "is_ok (eval_resource_path c ctx) \<longleftrightarrow>
     c_resource_id c \<noteq> '''' \<and> length (c_resource_id c) \<le> MAX_IDENTIFIER_LENGTH_BYTES
     \<and> vc_requested_resource_id ctx = Some (c_resource_id c)
     \<and> (\<forall>pre. c_path_prefix c = Some pre \<longrightarrow>
          (\<exists>path. vc_requested_path ctx = Some path \<and> path \<noteq> ''''
             \<and> is_ok (normalize_resource_path pre) \<and> is_ok (normalize_resource_path path)
             \<and> resource_path_matches pre path))"
  by (cases "vc_requested_path ctx")
    (auto simp: eval_resource_path_def Let_def split: if_splits option.splits sum.splits)

lemma eval_max_rate_ok:
  "is_ok (eval_max_rate c cert_id ctx) \<longleftrightarrow>
     (\<exists>counter. vc_invocations_in_window ctx = Some counter \<and> 0 < c_count c \<and> 0 < c_window_s c
        \<and> 0 \<le> counter cert_id (c_window_s c) \<and> counter cert_id (c_window_s c) < c_count c)"
  by (auto simp: eval_max_rate_def Let_def split: option.splits)

lemma eval_max_amount_ok:
  "is_ok (eval_max_amount c ctx) \<longleftrightarrow>
     (\<exists>amount. vc_requested_amount ctx = Some amount
        \<and> vc_requested_currency ctx = Some (c_currency c) \<and> \<not> f64_gt amount (c_max_amount c))"
  by (auto simp: eval_max_amount_def split: option.splits)

lemma eval_max_speed_ok:
  "is_ok (eval_max_speed c ctx) \<longleftrightarrow>
     (\<exists>speed. vc_current_speed_mps ctx = Some speed \<and> \<not> f64_gt speed (c_max_mps c))"
  by (auto simp: eval_max_speed_def split: option.splits)

text \<open>Minutes of the day inside a window that may wrap midnight.\<close>

definition in_window :: "int \<Rightarrow> int \<Rightarrow> int \<Rightarrow> bool" where
  "in_window start end_m cur \<longleftrightarrow>
     (if start \<le> end_m then start \<le> cur \<and> cur \<le> end_m else start \<le> cur \<or> cur \<le> end_m)"

lemma eval_time_window_ok:
  "is_ok (eval_time_window P c now) \<longleftrightarrow>
     c_tz c \<noteq> '''' \<and> p_timestamp_ok P now
     \<and> (\<exists>start end_m local_hm. parse_hhmm (c_start c) = Some start
          \<and> parse_hhmm (c_end c) = Some end_m \<and> p_timezone P (c_tz c) = Some local_hm
          \<and> in_window start end_m (fst (local_hm now) * 60 + snd (local_hm now)))"
proof -
  have "parse_hhmm '''' = None" by (simp add: parse_hhmm_def)
  then show ?thesis
    by (auto simp: eval_time_window_def in_window_def Let_def split: option.splits if_splits)
qed

lemma parse_hhmm_range: "parse_hhmm s = Some m \<Longrightarrow> 0 \<le> m \<and> m < 24 * 60"
  by (auto simp: parse_hhmm_def split: if_splits option.splits)

section \<open>Geometry\<close>

text \<open>A point whose latitude no edge straddles is outside.\<close>

lemma ray_cast_no_edge:
  assumes "\<forall>v\<in>set vs. f64_gt (fst v) lat = b" and "f64_gt (fst vj) lat = b"
  shows "ray_cast lat lon vj inside vs = inside"
  using assms
  by (induction vs arbitrary: vj) (auto simp: edge_crosses_def split: prod.splits)

lemma point_in_polygon_band:
  assumes "point_in_polygon lat lon poly"
  shows "\<exists>v\<in>set poly. \<exists>w\<in>set poly. f64_gt (fst v) lat \<and> \<not> f64_gt (fst w) lat"
proof (rule ccontr)
  assume none: "\<not> ?thesis"
  have "poly \<noteq> []" using assms by (auto simp: point_in_polygon_def)
  then have mem: "last poly \<in> set poly" by simp
  with none have "\<forall>v\<in>set poly. f64_gt (fst v) lat = f64_gt (fst (last poly)) lat" by blast
  then have "\<not> point_in_polygon lat lon poly"
    unfolding point_in_polygon_def by (subst ray_cast_no_edge) auto
  with assms show False by simp
qed

lemma lon_extent_bounds:
  assumes "lon_extent lo hi ps = (lo', hi')" and "\<not> f64_is_nan lo" "\<not> f64_is_nan hi"
    and "\<forall>p\<in>set ps. \<not> f64_is_nan (snd p)"
  shows "f64_le lo' lo \<and> f64_le hi hi' \<and> (\<forall>p\<in>set ps. f64_le lo' (snd p) \<and> f64_le (snd p) hi')"
  using assms
proof (induction ps arbitrary: lo hi)
  case Nil
  then show ?case by (simp add: f64_le_def)
next
  case (Cons p ps)
  obtain y x where p: "p = (y, x)" by (cases p)
  let ?lo = "if f64_lt x lo then x else lo" and ?hi = "if f64_gt x hi then x else hi"
  have nn: "\<not> f64_is_nan ?lo" "\<not> f64_is_nan ?hi" using Cons.prems p by auto
  have "f64_le lo' ?lo \<and> f64_le ?hi hi'
      \<and> (\<forall>q\<in>set ps. f64_le lo' (snd q) \<and> f64_le (snd q) hi')"
    using Cons.IH [of ?lo ?hi] Cons.prems p nn by simp
  with Cons.prems p show ?case
    by (auto simp: f64_le_def f64_lt_def split: if_splits)
qed

end
