(* ===== verification/V1_Scope.thy ===== *)
theory V1_Scope
  imports V1_Types
begin

text \<open>
  The scope vocabulary (\<open>sdks/rust/src/scope.rs\<close>): the canonical scopes, the sensitive ones,
  the wildcard table, validation, expansion and the intersection along a delegation chain.  A
  \<open>BTreeSet<String>\<close> is a set whose iteration is the sorted list of its elements.
\<close>

section \<open>Vocabulary\<close>

abbreviation SCOPE_MEETING_ATTEND :: string where "SCOPE_MEETING_ATTEND \<equiv> ''meeting:attend''"
abbreviation SCOPE_MEETING_SPEAK :: string where "SCOPE_MEETING_SPEAK \<equiv> ''meeting:speak''"
abbreviation SCOPE_MEETING_VIDEO :: string where "SCOPE_MEETING_VIDEO \<equiv> ''meeting:video''"
abbreviation SCOPE_MEETING_CHAT :: string where "SCOPE_MEETING_CHAT \<equiv> ''meeting:chat''"
abbreviation SCOPE_MEETING_SHARE_SCREEN :: string where "SCOPE_MEETING_SHARE_SCREEN \<equiv> ''meeting:share_screen''"
abbreviation SCOPE_MEETING_RECORD :: string where "SCOPE_MEETING_RECORD \<equiv> ''meeting:record''"
abbreviation SCOPE_COMMS_MESSAGE_READ :: string where "SCOPE_COMMS_MESSAGE_READ \<equiv> ''comms:message:read''"
abbreviation SCOPE_COMMS_MESSAGE_SEND :: string where "SCOPE_COMMS_MESSAGE_SEND \<equiv> ''comms:message:send''"
abbreviation SCOPE_COMMS_MESSAGE_DELETE :: string where "SCOPE_COMMS_MESSAGE_DELETE \<equiv> ''comms:message:delete''"
abbreviation SCOPE_COMMS_EMAIL_READ :: string where "SCOPE_COMMS_EMAIL_READ \<equiv> ''comms:email:read''"
abbreviation SCOPE_COMMS_EMAIL_SEND :: string where "SCOPE_COMMS_EMAIL_SEND \<equiv> ''comms:email:send''"
abbreviation SCOPE_COMMS_EMAIL_DELETE :: string where "SCOPE_COMMS_EMAIL_DELETE \<equiv> ''comms:email:delete''"
abbreviation SCOPE_COMMS_CALENDAR_READ :: string where "SCOPE_COMMS_CALENDAR_READ \<equiv> ''comms:calendar:read''"
abbreviation SCOPE_COMMS_CALENDAR_WRITE :: string where "SCOPE_COMMS_CALENDAR_WRITE \<equiv> ''comms:calendar:write''"
abbreviation SCOPE_FILES_READ :: string where "SCOPE_FILES_READ \<equiv> ''files:read''"
abbreviation SCOPE_FILES_WRITE :: string where "SCOPE_FILES_WRITE \<equiv> ''files:write''"
abbreviation SCOPE_IDENTITY_PROVE :: string where "SCOPE_IDENTITY_PROVE \<equiv> ''identity:prove''"
abbreviation SCOPE_IDENTITY_DELEGATE :: string where "SCOPE_IDENTITY_DELEGATE \<equiv> ''identity:delegate''"
abbreviation SCOPE_PRESENCE_REPRESENT :: string where "SCOPE_PRESENCE_REPRESENT \<equiv> ''presence:represent''"
abbreviation SCOPE_TRANSACT_PURCHASE :: string where "SCOPE_TRANSACT_PURCHASE \<equiv> ''transact:purchase''"
abbreviation SCOPE_TRANSACT_SELL :: string where "SCOPE_TRANSACT_SELL \<equiv> ''transact:sell''"
abbreviation SCOPE_PAYMENTS_SEND :: string where "SCOPE_PAYMENTS_SEND \<equiv> ''payments:send''"
abbreviation SCOPE_PAYMENTS_RECEIVE :: string where "SCOPE_PAYMENTS_RECEIVE \<equiv> ''payments:receive''"
abbreviation SCOPE_PAYMENTS_AUTHORIZE :: string where "SCOPE_PAYMENTS_AUTHORIZE \<equiv> ''payments:authorize''"
abbreviation SCOPE_CONTRACT_READ :: string where "SCOPE_CONTRACT_READ \<equiv> ''contract:read''"
abbreviation SCOPE_CONTRACT_SIGN :: string where "SCOPE_CONTRACT_SIGN \<equiv> ''contract:sign''"
abbreviation SCOPE_DATA_READ :: string where "SCOPE_DATA_READ \<equiv> ''data:read''"
abbreviation SCOPE_DATA_WRITE :: string where "SCOPE_DATA_WRITE \<equiv> ''data:write''"
abbreviation SCOPE_DATA_DELETE :: string where "SCOPE_DATA_DELETE \<equiv> ''data:delete''"
abbreviation SCOPE_DATA_EXPORT :: string where "SCOPE_DATA_EXPORT \<equiv> ''data:export''"
abbreviation SCOPE_DATA_SHARE :: string where "SCOPE_DATA_SHARE \<equiv> ''data:share''"
abbreviation SCOPE_EXECUTE_TOOL :: string where "SCOPE_EXECUTE_TOOL \<equiv> ''execute:tool''"
abbreviation SCOPE_EXECUTE_CODE :: string where "SCOPE_EXECUTE_CODE \<equiv> ''execute:code''"
abbreviation SCOPE_GENERATE_CONTENT :: string where "SCOPE_GENERATE_CONTENT \<equiv> ''generate:content''"
abbreviation SCOPE_GENERATE_DEEPFAKE :: string where "SCOPE_GENERATE_DEEPFAKE \<equiv> ''generate:deepfake''"
abbreviation SCOPE_PHYSICAL_ENTER :: string where "SCOPE_PHYSICAL_ENTER \<equiv> ''physical:enter''"
abbreviation SCOPE_PHYSICAL_EXIT :: string where "SCOPE_PHYSICAL_EXIT \<equiv> ''physical:exit''"
abbreviation SCOPE_PHYSICAL_ACTUATE :: string where "SCOPE_PHYSICAL_ACTUATE \<equiv> ''physical:actuate''"
abbreviation SCOPE_PHYSICAL_MANIPULATE :: string where "SCOPE_PHYSICAL_MANIPULATE \<equiv> ''physical:manipulate''"
abbreviation SCOPE_ROBOT_OPERATE :: string where "SCOPE_ROBOT_OPERATE \<equiv> ''robot:operate''"
abbreviation SCOPE_ROBOT_MOVE :: string where "SCOPE_ROBOT_MOVE \<equiv> ''robot:move''"
abbreviation SCOPE_ROBOT_INTERACT :: string where "SCOPE_ROBOT_INTERACT \<equiv> ''robot:interact''"
abbreviation SCOPE_DRONE_FLY :: string where "SCOPE_DRONE_FLY \<equiv> ''drone:fly''"
abbreviation SCOPE_DRONE_DELIVER :: string where "SCOPE_DRONE_DELIVER \<equiv> ''drone:deliver''"
abbreviation SCOPE_DRONE_CAPTURE :: string where "SCOPE_DRONE_CAPTURE \<equiv> ''drone:capture''"
abbreviation SCOPE_VEHICLE_OPERATE :: string where "SCOPE_VEHICLE_OPERATE \<equiv> ''vehicle:operate''"
abbreviation SCOPE_VEHICLE_TRANSPORT :: string where "SCOPE_VEHICLE_TRANSPORT \<equiv> ''vehicle:transport''"
abbreviation SCOPE_VEHICLE_CHARGE :: string where "SCOPE_VEHICLE_CHARGE \<equiv> ''vehicle:charge''"
abbreviation SCOPE_INFRASTRUCTURE_MONITOR :: string where "SCOPE_INFRASTRUCTURE_MONITOR \<equiv> ''infrastructure:monitor''"
abbreviation SCOPE_INFRASTRUCTURE_CONTROL :: string where "SCOPE_INFRASTRUCTURE_CONTROL \<equiv> ''infrastructure:control''"
abbreviation SCOPE_INFRASTRUCTURE_ACCESS :: string where "SCOPE_INFRASTRUCTURE_ACCESS \<equiv> ''infrastructure:access''"
abbreviation SCOPE_ACTUATE_VALVE :: string where "SCOPE_ACTUATE_VALVE \<equiv> ''actuate:valve''"
abbreviation SCOPE_ACTUATE_MOTOR :: string where "SCOPE_ACTUATE_MOTOR \<equiv> ''actuate:motor''"
abbreviation SCOPE_ACTUATE_SWITCH :: string where "SCOPE_ACTUATE_SWITCH \<equiv> ''actuate:switch''"

definition CUSTOM_SCOPE_PREFIX :: string where "CUSTOM_SCOPE_PREFIX = ''custom:''"

definition sensitive_scopes :: "string list" where
  "sensitive_scopes = [
     SCOPE_MEETING_RECORD, SCOPE_COMMS_MESSAGE_DELETE, SCOPE_COMMS_EMAIL_DELETE,
     SCOPE_FILES_WRITE, SCOPE_IDENTITY_DELEGATE, SCOPE_PRESENCE_REPRESENT,
     SCOPE_PAYMENTS_AUTHORIZE, SCOPE_CONTRACT_SIGN, SCOPE_DATA_WRITE, SCOPE_DATA_DELETE,
     SCOPE_DATA_EXPORT, SCOPE_EXECUTE_CODE, SCOPE_GENERATE_DEEPFAKE, SCOPE_PHYSICAL_ACTUATE,
     SCOPE_PHYSICAL_MANIPULATE, SCOPE_DRONE_FLY, SCOPE_VEHICLE_OPERATE,
     SCOPE_INFRASTRUCTURE_CONTROL, SCOPE_INFRASTRUCTURE_ACCESS, SCOPE_ACTUATE_VALVE,
     SCOPE_ACTUATE_MOTOR, SCOPE_ACTUATE_SWITCH]"

definition valid_scopes :: "string list" where
  "valid_scopes = [
     SCOPE_MEETING_ATTEND, SCOPE_MEETING_SPEAK, SCOPE_MEETING_VIDEO, SCOPE_MEETING_CHAT,
     SCOPE_MEETING_SHARE_SCREEN, SCOPE_MEETING_RECORD, SCOPE_COMMS_MESSAGE_READ,
     SCOPE_COMMS_MESSAGE_SEND, SCOPE_COMMS_MESSAGE_DELETE, SCOPE_COMMS_EMAIL_READ,
     SCOPE_COMMS_EMAIL_SEND, SCOPE_COMMS_EMAIL_DELETE, SCOPE_COMMS_CALENDAR_READ,
     SCOPE_COMMS_CALENDAR_WRITE, SCOPE_FILES_READ, SCOPE_FILES_WRITE, SCOPE_IDENTITY_PROVE,
     SCOPE_IDENTITY_DELEGATE, SCOPE_PRESENCE_REPRESENT, SCOPE_TRANSACT_PURCHASE,
     SCOPE_TRANSACT_SELL, SCOPE_PAYMENTS_SEND, SCOPE_PAYMENTS_RECEIVE,
     SCOPE_PAYMENTS_AUTHORIZE, SCOPE_CONTRACT_READ, SCOPE_CONTRACT_SIGN, SCOPE_DATA_READ,
     SCOPE_DATA_WRITE, SCOPE_DATA_DELETE, SCOPE_DATA_EXPORT, SCOPE_DATA_SHARE,
     SCOPE_EXECUTE_TOOL, SCOPE_EXECUTE_CODE, SCOPE_GENERATE_CONTENT, SCOPE_GENERATE_DEEPFAKE,
     SCOPE_PHYSICAL_ENTER, SCOPE_PHYSICAL_EXIT, SCOPE_PHYSICAL_ACTUATE,
     SCOPE_PHYSICAL_MANIPULATE, SCOPE_ROBOT_OPERATE, SCOPE_ROBOT_MOVE, SCOPE_ROBOT_INTERACT,
     SCOPE_DRONE_FLY, SCOPE_DRONE_DELIVER, SCOPE_DRONE_CAPTURE, SCOPE_VEHICLE_OPERATE,
     SCOPE_VEHICLE_TRANSPORT, SCOPE_VEHICLE_CHARGE, SCOPE_INFRASTRUCTURE_MONITOR,
     SCOPE_INFRASTRUCTURE_CONTROL, SCOPE_INFRASTRUCTURE_ACCESS, SCOPE_ACTUATE_VALVE,
     SCOPE_ACTUATE_MOTOR, SCOPE_ACTUATE_SWITCH]"

definition WILDCARD_SCOPES :: "string list" where
  "WILDCARD_SCOPES = [
     ''comms:*'', ''comms:email:*'', ''comms:message:*'', ''data:*'', ''drone:*'', ''execute:*'',
     ''generate:*'', ''infrastructure:*'', ''meeting:*'', ''payments:*'', ''physical:*'',
     ''robot:*'', ''transact:*'', ''vehicle:*'']"

definition wildcard_expansion :: "string \<Rightarrow> string list option" where
  "wildcard_expansion w =
     (if w = ''meeting:*'' then Some
          [SCOPE_MEETING_ATTEND, SCOPE_MEETING_SPEAK, SCOPE_MEETING_VIDEO, SCOPE_MEETING_CHAT,
           SCOPE_MEETING_SHARE_SCREEN]
      else if w = ''comms:message:*'' then Some
          [SCOPE_COMMS_MESSAGE_READ, SCOPE_COMMS_MESSAGE_SEND]
      else if w = ''comms:email:*'' then Some
          [SCOPE_COMMS_EMAIL_READ, SCOPE_COMMS_EMAIL_SEND]
      else if w = ''comms:*'' then Some
          [SCOPE_COMMS_MESSAGE_READ, SCOPE_COMMS_MESSAGE_SEND, SCOPE_COMMS_EMAIL_READ,
           SCOPE_COMMS_EMAIL_SEND, SCOPE_COMMS_CALENDAR_READ, SCOPE_COMMS_CALENDAR_WRITE]
      else if w = ''transact:*'' then Some
          [SCOPE_TRANSACT_PURCHASE, SCOPE_TRANSACT_SELL]
      else if w = ''payments:*'' then Some
          [SCOPE_PAYMENTS_SEND, SCOPE_PAYMENTS_RECEIVE]
      else if w = ''data:*'' then Some
          [SCOPE_DATA_READ, SCOPE_DATA_SHARE]
      else if w = ''execute:*'' then Some
          [SCOPE_EXECUTE_TOOL]
      else if w = ''generate:*'' then Some
          [SCOPE_GENERATE_CONTENT]
      else if w = ''physical:*'' then Some
          [SCOPE_PHYSICAL_ENTER, SCOPE_PHYSICAL_EXIT]
      else if w = ''robot:*'' then Some
          [SCOPE_ROBOT_OPERATE, SCOPE_ROBOT_MOVE, SCOPE_ROBOT_INTERACT]
      else if w = ''drone:*'' then Some
          [SCOPE_DRONE_DELIVER, SCOPE_DRONE_CAPTURE]
      else if w = ''vehicle:*'' then Some
          [SCOPE_VEHICLE_TRANSPORT, SCOPE_VEHICLE_CHARGE]
      else if w = ''infrastructure:*'' then Some
          [SCOPE_INFRASTRUCTURE_MONITOR]
      else None)"

section \<open>Operations\<close>

definition vocabulary :: "string list" where
  "vocabulary = sort valid_scopes"

text \<open>The map returned by \<open>scope_wildcards\<close>, in key order.\<close>

definition scope_wildcards :: "(string \<times> string list) list" where
  "scope_wildcards =
     List.map_filter (\<lambda>w. map_option (\<lambda>children. (w, children)) (wildcard_expansion w))
       WILDCARD_SCOPES"

definition is_custom_scope :: "string \<Rightarrow> bool" where
  "is_custom_scope s \<longleftrightarrow>
     starts_with s CUSTOM_SCOPE_PREFIX \<and> length s > length CUSTOM_SCOPE_PREFIX"

definition valid_scope :: "string \<Rightarrow> bool" where
  "valid_scope s \<longleftrightarrow> s \<in> set valid_scopes \<or> wildcard_expansion s \<noteq> None \<or> is_custom_scope s"

text \<open>\<open>None\<close> when every scope is known, otherwise the message for the first unknown one.\<close>

fun validate_scopes :: "string list \<Rightarrow> string option" where
  "validate_scopes [] = None"
| "validate_scopes (s # ss) =
     (if s \<in> set valid_scopes then validate_scopes ss
      else if wildcard_expansion s \<noteq> None then validate_scopes ss
      else if is_custom_scope s then validate_scopes ss
      else Some (''unknown scope '' @ quoted s @
             '': not in canonical vocabulary and not a custom: extension''))"

definition is_sensitive :: "string \<Rightarrow> bool" where
  "is_sensitive s \<longleftrightarrow> s \<in> set sensitive_scopes"

definition expand_into :: "string \<Rightarrow> string set \<Rightarrow> string set" where
  "expand_into s seen =
     (case wildcard_expansion s of Some children \<Rightarrow> seen \<union> set children
      | None \<Rightarrow> insert s seen)"

definition expand_scopes :: "string list \<Rightarrow> string list" where
  "expand_scopes scopes = sorted_list_of_set (fold expand_into scopes {})"

definition has_scope :: "string list \<Rightarrow> string \<Rightarrow> bool" where
  "has_scope granted required \<longleftrightarrow> list_ex (\<lambda>s. s = required) (expand_scopes granted)"

definition intersect_scopes :: "string list list \<Rightarrow> string list" where
  "intersect_scopes ls0 =
     (case ls0 of [] \<Rightarrow> []
      | l # ls \<Rightarrow> sorted_list_of_set
          (fold (\<lambda>l' effective. effective \<inter> set (expand_scopes l')) ls (set (expand_scopes l))))"

section \<open>The wildcard table\<close>

lemma wildcard_expansion_keys:
  "wildcard_expansion w = Some cs \<Longrightarrow> w \<in> set WILDCARD_SCOPES"
  by (auto simp: wildcard_expansion_def WILDCARD_SCOPES_def split: if_splits)

lemma wildcard_table:
  "list_all (\<lambda>w. case wildcard_expansion w of None \<Rightarrow> False
      | Some cs \<Rightarrow> list_all (\<lambda>c. c \<in> set valid_scopes \<and> \<not> is_sensitive c
           \<and> wildcard_expansion c = None) cs) WILDCARD_SCOPES"
  by code_simp

lemma wildcard_children:
  assumes "wildcard_expansion w = Some cs" and "c \<in> set cs"
  shows "c \<in> set valid_scopes" "\<not> is_sensitive c" "wildcard_expansion c = None"
proof -
  from assms(1) have "w \<in> set WILDCARD_SCOPES" by (rule wildcard_expansion_keys)
  with wildcard_table assms(1)
  have "list_all (\<lambda>c. c \<in> set valid_scopes \<and> \<not> is_sensitive c \<and> wildcard_expansion c = None) cs"
    by (auto simp: list_all_iff split: option.splits)
  with assms(2) show "c \<in> set valid_scopes" "\<not> is_sensitive c" "wildcard_expansion c = None"
    by (auto simp: list_all_iff)
qed

lemma sensitive_scopes_table:
  "list_all (\<lambda>s. s \<in> set valid_scopes \<and> wildcard_expansion s = None) sensitive_scopes"
  by code_simp

lemma sensitive_not_wildcard: "is_sensitive s \<Longrightarrow> wildcard_expansion s = None"
  using sensitive_scopes_table by (auto simp: is_sensitive_def list_all_iff)

lemma set_map_filter: "set (List.map_filter f xs) = {y. \<exists>x\<in>set xs. f x = Some y}"
  by (induction xs) (auto simp: List.map_filter_def split: option.splits)

lemma scope_wildcards_entries:
  "(w, cs) \<in> set scope_wildcards \<longleftrightarrow> wildcard_expansion w = Some cs"
  by (auto simp: scope_wildcards_def set_map_filter intro: wildcard_expansion_keys)

section \<open>Expansion and intersection as sets\<close>

text \<open>The scopes a list grants, without the wildcard shorthand.\<close>

definition granted_set :: "string list \<Rightarrow> string set" where
  "granted_set scopes = {s. wildcard_expansion s = None \<and> s \<in> set scopes
     \<or> (\<exists>w cs. w \<in> set scopes \<and> wildcard_expansion w = Some cs \<and> s \<in> set cs)}"

lemma fold_expand_into:
  "fold expand_into scopes S = S \<union> granted_set scopes"
proof (induction scopes arbitrary: S)
  case Nil
  then show ?case by (simp add: granted_set_def)
next
  case (Cons x xs)
  have "granted_set (x # xs) = expand_into x {} \<union> granted_set xs"
    by (auto simp: granted_set_def expand_into_def split: option.splits)
  moreover have "expand_into x S = S \<union> expand_into x {}"
    by (auto simp: expand_into_def split: option.splits)
  ultimately show ?case
    using Cons.IH by (simp add: Un_assoc)
qed

lemma finite_granted_set: "finite (granted_set scopes)"
proof -
  have "finite (fold expand_into scopes S)" if "finite S" for S
    using that by (induction scopes arbitrary: S)
      (auto simp: expand_into_def split: option.splits)
  from this [of "{}"] show ?thesis by (simp add: fold_expand_into)
qed

lemma set_expand_scopes [simp]: "set (expand_scopes scopes) = granted_set scopes"
  by (simp add: expand_scopes_def fold_expand_into finite_granted_set)

lemma sorted_expand_scopes: "sorted_wrt (<) (expand_scopes scopes)"
  by (simp add: expand_scopes_def)

lemma has_scope_iff: "has_scope granted s \<longleftrightarrow> s \<in> granted_set granted"
  by (simp add: has_scope_def list_ex_iff)

lemma granted_set_no_wildcard: "s \<in> granted_set scopes \<Longrightarrow> wildcard_expansion s = None"
  by (auto simp: granted_set_def dest: wildcard_children(3))

lemma granted_set_expand: "granted_set (expand_scopes scopes) = granted_set scopes"
  by (auto simp: granted_set_def [of "expand_scopes scopes"] granted_set_no_wildcard
      dest: granted_set_no_wildcard)

lemma sensitive_granted: "is_sensitive s \<Longrightarrow> s \<in> granted_set scopes \<longleftrightarrow> s \<in> set scopes"
  using sensitive_not_wildcard by (auto simp: granted_set_def dest: wildcard_children(2))

lemma validate_scopes_None: "validate_scopes ss = None \<longleftrightarrow> (\<forall>s\<in>set ss. valid_scope s)"
  by (induction ss) (auto simp: valid_scope_def)

lemma valid_scope_granted:
  "validate_scopes ss = None \<Longrightarrow> s \<in> granted_set ss
    \<Longrightarrow> s \<in> set valid_scopes \<or> is_custom_scope s"
  by (auto simp: granted_set_def validate_scopes_None valid_scope_def
      dest: wildcard_children(1))

lemma fold_inter_granted:
  "fold (\<lambda>l' effective. effective \<inter> granted_set l') ls S
     = S \<inter> (\<Inter>l\<in>set ls. granted_set l)"
  by (induction ls arbitrary: S) auto

lemma set_intersect_scopes:
  "ls \<noteq> [] \<Longrightarrow> set (intersect_scopes ls) = (\<Inter>l\<in>set ls. granted_set l)"
  by (cases ls) (auto simp: intersect_scopes_def fold_inter_granted finite_granted_set)

lemma sorted_intersect_scopes: "sorted_wrt (<) (intersect_scopes ls)"
  by (cases ls) (simp_all add: intersect_scopes_def)

end
