(* ===== verification/V1_Challenge_Store.thy ===== *)
theory V1_Challenge_Store
  imports V1_Types Ratify_Platform
begin

text \<open>
  Single-use challenges (\<open>sdks/rust/src/challenge_store.rs\<close>): the in-memory store, and the
  interface the verifier relies on.  The operations of the \<open>ChallengeStore\<close> trait are the
  parameters of the locale \<open>challenge_store_laws\<close>; its assumptions are what the trait's
  documentation promises, stated over an abstract view of the store, the map from a challenge key
  to the session binding and expiry it was issued with.  The client facts (a consumed challenge
  is spent, an expired or mismatched presentation burns nothing, a history consumes each issuance
  at most once) are proved in the locale and hold for the in-memory store by interpretation.

  The store's mutex makes each call atomic, so a concurrent execution is a sequence of calls; a
  history below is any such sequence.
\<close>

section \<open>The in-memory store\<close>

record store_record =
  sr_session_context :: bytes
  sr_expires_at :: int

record memory_store =
  ms_records :: "(string \<times> store_record) list"
  ms_max_size :: nat

definition UNKNOWN_CHALLENGE :: string where
  "UNKNOWN_CHALLENGE = ''challenge was not issued by this verifier or has already been used''"

text \<open>\<open>new\<close> panics on a zero capacity.\<close>

definition memory_new :: "nat \<Rightarrow> memory_store option" where
  "memory_new max_size =
     (if max_size > 0 then Some \<lparr>ms_records = [], ms_max_size = max_size\<rparr> else None)"

definition expire :: "(string \<times> store_record) list \<Rightarrow> int \<Rightarrow> (string \<times> store_record) list" where
  "expire records now = filter (\<lambda>(k, r). sr_expires_at r \<ge> now) records"

definition lookup ::
  "prims \<Rightarrow> (string \<times> store_record) list \<Rightarrow> bytes \<Rightarrow> bytes \<Rightarrow> int
    \<Rightarrow> string option \<times> (string \<times> store_record) list" where
  "lookup P records challenge session_context now =
     (let records = expire records now; key = p_base64 P challenge in
      (case map_of records key of
         Some r \<Rightarrow> if sr_session_context r = session_context then (Some key, records)
                   else (None, records)
       | None \<Rightarrow> (None, records)))"

text \<open>
  \<open>issue\<close> reads the clock and draws 32 random bytes; both are arguments here.
\<close>

definition memory_issue ::
  "prims \<Rightarrow> bytes \<Rightarrow> int \<Rightarrow> int \<Rightarrow> bytes \<Rightarrow> memory_store
    \<Rightarrow> (bytes \<times> int) rresult \<times> memory_store" where
  "memory_issue P session_context ttl_seconds now challenge s =
     (if session_context \<noteq> [] \<and> length session_context \<noteq> 32
      then (Err (''session context must be empty or 32 bytes, got '' @
              dec_nat (length session_context)), s)
      else if ttl_seconds \<le> 0
      then (Err (''challenge ttl must be positive, got '' @ dec_int ttl_seconds), s)
      else let expires_at = i64_add now ttl_seconds;
               records = expire (ms_records s) now in
        if length records \<ge> ms_max_size s
        then (Err (''challenge store full '' @ [CHR 0xE2, CHR 0x80, CHR 0x94] @
                '' too many pending challenges''), s\<lparr>ms_records := records\<rparr>)
        else (Ok (challenge, expires_at),
              s\<lparr>ms_records := AList.update (p_base64 P challenge)
                 \<lparr>sr_session_context = session_context, sr_expires_at = expires_at\<rparr> records\<rparr>))"

definition memory_validate ::
  "prims \<Rightarrow> bytes \<Rightarrow> bytes \<Rightarrow> int \<Rightarrow> memory_store \<Rightarrow> unit rresult \<times> memory_store" where
  "memory_validate P challenge session_context now s =
     (case lookup P (ms_records s) challenge session_context now of
        (Some _, records) \<Rightarrow> (Ok (), s\<lparr>ms_records := records\<rparr>)
      | (None, records) \<Rightarrow> (Err UNKNOWN_CHALLENGE, s\<lparr>ms_records := records\<rparr>))"

definition memory_consume ::
  "prims \<Rightarrow> bytes \<Rightarrow> bytes \<Rightarrow> int \<Rightarrow> memory_store \<Rightarrow> unit rresult \<times> memory_store" where
  "memory_consume P challenge session_context now s =
     (case lookup P (ms_records s) challenge session_context now of
        (Some key, records) \<Rightarrow> (Ok (), s\<lparr>ms_records := AList.delete key records\<rparr>)
      | (None, records) \<Rightarrow> (Err UNKNOWN_CHALLENGE, s\<lparr>ms_records := records\<rparr>))"

definition memory_challenge_store :: "prims \<Rightarrow> memory_store challenge_store" where
  "memory_challenge_store P =
     \<lparr>cs_validate = memory_validate P, cs_consume = memory_consume P\<rparr>"

section \<open>Abstract view and histories\<close>

type_synonym pending_map = "string \<rightharpoonup> bytes \<times> int"

definition memory_pending :: "memory_store \<Rightarrow> pending_map" where
  "memory_pending s k =
     map_option (\<lambda>r. (sr_session_context r, sr_expires_at r)) (map_of (ms_records s) k)"

definition memory_inv :: "memory_store \<Rightarrow> bool" where
  "memory_inv s \<longleftrightarrow> distinct (map fst (ms_records s)) \<and> length (ms_records s) \<le> ms_max_size s
     \<and> ms_max_size s > 0"

datatype store_op =
    OpIssue bytes int int bytes
  | OpValidate bytes bytes int
  | OpConsume bytes bytes int

definition store_step ::
  "(bytes \<Rightarrow> int \<Rightarrow> int \<Rightarrow> bytes \<Rightarrow> 's \<Rightarrow> (bytes \<times> int) rresult \<times> 's)
   \<Rightarrow> (bytes \<Rightarrow> bytes \<Rightarrow> int \<Rightarrow> 's \<Rightarrow> unit rresult \<times> 's)
   \<Rightarrow> (bytes \<Rightarrow> bytes \<Rightarrow> int \<Rightarrow> 's \<Rightarrow> unit rresult \<times> 's)
   \<Rightarrow> 's \<Rightarrow> store_op \<Rightarrow> bool \<times> 's" where
  "store_step issue validate consume s op =
     (case op of
        OpIssue x ttl now c \<Rightarrow> apfst is_ok (issue x ttl now c s)
      | OpValidate c x now \<Rightarrow> apfst is_ok (validate c x now s)
      | OpConsume c x now \<Rightarrow> apfst is_ok (consume c x now s))"

text \<open>The operations that succeeded, in order, and the final state.\<close>

fun store_history ::
  "('s \<Rightarrow> 'op \<Rightarrow> bool \<times> 's) \<Rightarrow> 's \<Rightarrow> 'op list \<Rightarrow> 'op list \<times> 's" where
  "store_history step s [] = ([], s)"
| "store_history step s (op # ops) =
     (case step s op of (ok, s') \<Rightarrow>
        apfst (\<lambda>done. if ok then op # done else done) (store_history step s' ops))"

definition consumes_key :: "(bytes \<Rightarrow> string) \<Rightarrow> string \<Rightarrow> store_op \<Rightarrow> bool" where
  "consumes_key key k op = (case op of OpConsume c x now \<Rightarrow> key c = k | _ \<Rightarrow> False)"

definition issues_key :: "(bytes \<Rightarrow> string) \<Rightarrow> string \<Rightarrow> store_op \<Rightarrow> bool" where
  "issues_key key k op = (case op of OpIssue x ttl now c \<Rightarrow> key c = k | _ \<Rightarrow> False)"

section \<open>Single use\<close>

text \<open>
  Operations on tokens: some create one, some use one up.  Whatever the operations are, if a
  token is live only after its creation and dead after its use, then every history uses each
  token at most as often as it was created.
\<close>

locale single_use =
  fixes step :: "'s \<Rightarrow> 'op \<Rightarrow> bool \<times> 's"
    and inv :: "'s \<Rightarrow> bool"
    and live_token :: "'s \<Rightarrow> 'k \<Rightarrow> bool"
    and uses :: "'k \<Rightarrow> 'op \<Rightarrow> bool"
    and creates :: "'k \<Rightarrow> 'op \<Rightarrow> bool"
  assumes inv_step: "inv s \<Longrightarrow> inv (snd (step s op))"
    and created: "inv s \<Longrightarrow> live_token (snd (step s op)) k
          \<Longrightarrow> live_token s k \<or> creates k op \<and> fst (step s op)"
    and used: "inv s \<Longrightarrow> uses k op \<Longrightarrow> fst (step s op)
          \<Longrightarrow> live_token s k \<and> \<not> live_token (snd (step s op)) k"
    and exclusive: "\<not> (uses k op \<and> creates k op)"
begin

lemma history_bound:
  "inv s \<Longrightarrow>
   length (filter (uses k) (fst (store_history step s ops)))
     + (if live_token (snd (store_history step s ops)) k then 1 else 0)
   \<le> length (filter (creates k) (fst (store_history step s ops)))
     + (if live_token s k then 1 else 0)"
proof (induction ops arbitrary: s)
  case (Cons op ops)
  let ?s' = "snd (step s op)"
  have IH: "length (filter (uses k) (fst (store_history step ?s' ops)))
       + (if live_token (snd (store_history step ?s' ops)) k then 1 else 0)
     \<le> length (filter (creates k) (fst (store_history step ?s' ops)))
       + (if live_token ?s' k then 1 else 0)"
    using Cons.IH Cons.prems inv_step by blast
  have one: "(if uses k op \<and> fst (step s op) then 1 else 0) + (if live_token ?s' k then 1 else 0)
     \<le> (if creates k op \<and> fst (step s op) then 1 else 0) + (if live_token s k then 1 else (0::nat))"
    using used [OF Cons.prems, of k op] created [OF Cons.prems, of op k] exclusive [of k op] by auto
  from IH one show ?case
    by (cases "step s op") (auto split: if_splits)
qed simp

end

section \<open>The interface\<close>

locale challenge_store_laws =
  fixes issue :: "bytes \<Rightarrow> int \<Rightarrow> int \<Rightarrow> bytes \<Rightarrow> 's \<Rightarrow> (bytes \<times> int) rresult \<times> 's"
    and validate :: "bytes \<Rightarrow> bytes \<Rightarrow> int \<Rightarrow> 's \<Rightarrow> unit rresult \<times> 's"
    and consume :: "bytes \<Rightarrow> bytes \<Rightarrow> int \<Rightarrow> 's \<Rightarrow> unit rresult \<times> 's"
    and key :: "bytes \<Rightarrow> string"
    and pending :: "'s \<Rightarrow> pending_map"
    and inv :: "'s \<Rightarrow> bool"
  assumes inv_issue: "inv s \<Longrightarrow> inv (snd (issue x ttl now c s))"
    and inv_validate: "inv s \<Longrightarrow> inv (snd (validate c x now s))"
    and inv_consume: "inv s \<Longrightarrow> inv (snd (consume c x now s))"
    and issue_only: "inv s \<Longrightarrow> pending (snd (issue x ttl now c s)) k = Some v
          \<Longrightarrow> pending s k = Some v \<or> k = key c \<and> is_ok (fst (issue x ttl now c s))"
    and validate_iff: "inv s \<Longrightarrow> is_ok (fst (validate c x now s)) \<longleftrightarrow>
          (\<exists>e. pending s (key c) = Some (x, e) \<and> now \<le> e)"
    and validate_only: "inv s \<Longrightarrow> pending (snd (validate c x now s)) \<subseteq>\<^sub>m pending s"
    and validate_keeps: "inv s \<Longrightarrow> pending s k = Some (y, e) \<Longrightarrow> now \<le> e
          \<Longrightarrow> pending (snd (validate c x now s)) k = Some (y, e)"
    and consume_iff: "inv s \<Longrightarrow> is_ok (fst (consume c x now s)) \<longleftrightarrow>
          (\<exists>e. pending s (key c) = Some (x, e) \<and> now \<le> e)"
    and consume_only: "inv s \<Longrightarrow> pending (snd (consume c x now s)) \<subseteq>\<^sub>m pending s"
    and consume_removes: "inv s \<Longrightarrow> is_ok (fst (consume c x now s))
          \<Longrightarrow> pending (snd (consume c x now s)) (key c) = None"
    and consume_keeps: "inv s \<Longrightarrow> pending s k = Some (y, e) \<Longrightarrow> now \<le> e
          \<Longrightarrow> k \<noteq> key c \<or> is_err (fst (consume c x now s))
          \<Longrightarrow> pending (snd (consume c x now s)) k = Some (y, e)"
begin

abbreviation "step \<equiv> store_step issue validate consume"

lemma inv_step: "inv s \<Longrightarrow> inv (snd (step s op))"
  by (cases op) (auto simp: store_step_def inv_issue inv_validate inv_consume)

text \<open>A successful \<open>consume\<close> makes every later presentation of the challenge fail.\<close>

lemma spent:
  assumes "inv s" and "is_ok (fst (consume c x now s))"
  shows "\<not> is_ok (fst (consume c y later (snd (consume c x now s))))"
    and "\<not> is_ok (fst (validate c y later (snd (consume c x now s))))"
  using assms consume_removes inv_consume by (simp_all add: consume_iff validate_iff)

text \<open>What one step does to the record of a key.\<close>

lemma step_pending:
  assumes "inv s" and "pending (snd (step s op)) k \<noteq> None"
  shows "pending s k \<noteq> None \<or> issues_key key k op \<and> fst (step s op)"
proof (cases op)
  case (OpIssue x ttl now c)
  with assms issue_only [of s x ttl now c k] show ?thesis
    by (auto simp: store_step_def issues_key_def)
next
  case (OpValidate c x now)
  with assms validate_only [of s c x now] show ?thesis
    by (auto simp: store_step_def map_le_def dom_def)
next
  case (OpConsume c x now)
  with assms consume_only [of s c x now] show ?thesis
    by (auto simp: store_step_def map_le_def dom_def)
qed

lemma step_consume:
  assumes "inv s" and "consumes_key key k op" and "fst (step s op)"
  shows "pending s k \<noteq> None" and "pending (snd (step s op)) k = None"
  using assms consume_removes consume_iff
  by (auto simp: consumes_key_def store_step_def split: store_op.splits)

text \<open>
  In every history of store calls, hence in every interleaving of concurrent verifiers, the
  successful uses of a key are bounded by its issuances.
\<close>

sublocale calls: single_use step inv "\<lambda>s k. pending s k \<noteq> None" "consumes_key key" "issues_key key"
proof
  fix s k op assume inv: "inv s"
  show "inv (snd (step s op))" using inv by (rule inv_step)
  show "pending (snd (step s op)) k \<noteq> None
      \<Longrightarrow> pending s k \<noteq> None \<or> issues_key key k op \<and> fst (step s op)"
    using inv by (rule step_pending)
  show "pending s k \<noteq> None \<and> \<not> pending (snd (step s op)) k \<noteq> None"
    if "consumes_key key k op" "fst (step s op)"
    using step_consume [OF inv that] by simp
next
  fix k op show "\<not> (consumes_key key k op \<and> issues_key key k op)"
    by (cases op) (simp_all add: consumes_key_def issues_key_def)
qed

end

section \<open>The in-memory store keeps the laws\<close>

lemma expire_subset: "set (expire rs now) \<subseteq> set rs"
  by (auto simp: expire_def)

lemma distinct_expire: "distinct (map fst rs) \<Longrightarrow> distinct (map fst (expire rs now))"
  by (auto simp: expire_def intro: distinct_map_filter)

lemma length_expire: "length (expire rs now) \<le> length rs"
  by (simp add: expire_def)

lemma map_of_expire:
  assumes "distinct (map fst rs)"
  shows "map_of (expire rs now) k =
    (case map_of rs k of Some r \<Rightarrow> if now \<le> sr_expires_at r then Some r else None | None \<Rightarrow> None)"
  using assms
proof (induction rs)
  case (Cons a rs)
  then have "fst a \<notin> fst ` set rs" by simp
  then have "map_of rs (fst a) = None" by (simp add: map_of_eq_None_iff)
  with Cons show ?case by (cases a) (auto simp: expire_def split: option.splits)
qed (simp add: expire_def)

lemma lookup_result:
  "lookup P rs c x now = (if \<exists>r. map_of (expire rs now) (p_base64 P c) = Some r
       \<and> sr_session_context r = x then Some (p_base64 P c) else None, expire rs now)"
  by (auto simp: lookup_def Let_def split: option.splits)

definition live :: "int \<Rightarrow> pending_map \<Rightarrow> pending_map" where
  "live now m k = (case m k of Some (x, e) \<Rightarrow> if now \<le> e then Some (x, e) else None
     | None \<Rightarrow> None)"

lemma pending_expire:
  "memory_inv s \<Longrightarrow>
   memory_pending (s\<lparr>ms_records := expire (ms_records s) now\<rparr>) = live now (memory_pending s)"
  by (rule ext) (auto simp: memory_pending_def memory_inv_def live_def map_of_expire
      split: option.splits)

lemma live_le: "live now m \<subseteq>\<^sub>m m"
  by (auto simp: map_le_def live_def split: option.splits if_splits)

lemma live_keeps: "m k = Some (y, e) \<Longrightarrow> now \<le> e \<Longrightarrow> live now m k = Some (y, e)"
  by (simp add: live_def)

lemma memory_inv_expire:
  "memory_inv s \<Longrightarrow> memory_inv (s\<lparr>ms_records := expire (ms_records s) now\<rparr>)"
  by (auto simp: memory_inv_def distinct_expire intro: le_trans [OF length_expire])

text \<open>The operations in terms of the abstract map.\<close>

definition presentable :: "pending_map \<Rightarrow> string \<Rightarrow> bytes \<Rightarrow> int \<Rightarrow> bool" where
  "presentable m k x now \<longleftrightarrow> (\<exists>e. m k = Some (x, e) \<and> now \<le> e)"

lemma lookup_presentable:
  assumes "memory_inv s"
  shows "lookup P (ms_records s) c x now =
    (if presentable (memory_pending s) (p_base64 P c) x now then Some (p_base64 P c) else None,
     expire (ms_records s) now)"
proof -
  have "(\<exists>r. map_of (expire (ms_records s) now) (p_base64 P c) = Some r \<and> sr_session_context r = x)
    \<longleftrightarrow> presentable (memory_pending s) (p_base64 P c) x now"
    using assms
    by (cases "map_of (ms_records s) (p_base64 P c)")
      (simp_all add: map_of_expire memory_inv_def presentable_def memory_pending_def conj_commute)
  then show ?thesis by (simp add: lookup_result)
qed

lemma memory_validate_eq:
  assumes "memory_inv s"
  shows "memory_validate P c x now s =
    (if presentable (memory_pending s) (p_base64 P c) x now then Ok () else Err UNKNOWN_CHALLENGE,
     s\<lparr>ms_records := expire (ms_records s) now\<rparr>)"
  by (simp add: memory_validate_def lookup_presentable [OF assms])

lemma memory_consume_eq:
  assumes "memory_inv s"
  shows "memory_consume P c x now s =
    (if presentable (memory_pending s) (p_base64 P c) x now
     then (Ok (), s\<lparr>ms_records := AList.delete (p_base64 P c) (expire (ms_records s) now)\<rparr>)
     else (Err UNKNOWN_CHALLENGE, s\<lparr>ms_records := expire (ms_records s) now\<rparr>))"
  by (simp add: memory_consume_def lookup_presentable [OF assms])

lemma pending_delete:
  "memory_inv s \<Longrightarrow>
   memory_pending (s\<lparr>ms_records := AList.delete k (expire (ms_records s) now)\<rparr>)
     = (live now (memory_pending s))(k := None)"
  using pending_expire [of s now]
  by (auto simp: memory_pending_def fun_eq_iff delete_conv')

lemma memory_inv_delete:
  "memory_inv s \<Longrightarrow>
   memory_inv (s\<lparr>ms_records := AList.delete k (expire (ms_records s) now)\<rparr>)"
  using memory_inv_expire [of s now]
  by (auto simp: memory_inv_def distinct_delete intro: le_trans [OF length_delete_le])

lemma memory_inv_issue:
  assumes "memory_inv s"
  shows "memory_inv (snd (memory_issue P x ttl now c s))"
proof -
  have "length (AList.update k v rs) \<le> Suc (length rs)" for k :: string and v :: store_record and rs
    by (induction rs) auto
  then show ?thesis
    using assms memory_inv_expire [OF assms, of now]
    by (auto simp: memory_issue_def Let_def memory_inv_def distinct_update
        intro: le_trans [of _ "Suc (length (expire (ms_records s) now))"])
qed

lemma memory_issue_pending:
  assumes "memory_inv s"
  shows "memory_pending (snd (memory_issue P x ttl now c s)) =
    (if x \<noteq> [] \<and> length x \<noteq> 32 \<or> ttl \<le> 0 then memory_pending s
     else if is_ok (fst (memory_issue P x ttl now c s))
     then (live now (memory_pending s))(p_base64 P c \<mapsto> (x, i64_add now ttl))
     else live now (memory_pending s))"
  using pending_expire [OF assms, of now]
  by (auto simp: memory_issue_def Let_def memory_pending_def fun_eq_iff update_conv')

interpretation memory: challenge_store_laws "memory_issue P" "memory_validate P" "memory_consume P"
  "p_base64 P" memory_pending memory_inv for P
proof unfold_locales
  fix s :: memory_store and x :: bytes and ttl now :: int and c :: bytes and k :: string
    and v y e
  assume inv: "memory_inv s"
  note le = live_le [of now "memory_pending s", unfolded map_le_def]
  show "memory_inv (snd (memory_issue P x ttl now c s))"
    using inv by (rule memory_inv_issue)
  show "memory_inv (snd (memory_validate P c x now s))"
    using inv by (simp add: memory_validate_eq memory_inv_expire)
  show "memory_inv (snd (memory_consume P c x now s))"
    using inv by (simp add: memory_consume_eq memory_inv_expire memory_inv_delete)
  show "memory_pending s k = Some v \<or> k = p_base64 P c \<and> is_ok (fst (memory_issue P x ttl now c s))"
    if "memory_pending (snd (memory_issue P x ttl now c s)) k = Some v"
    using that le inv by (auto simp: memory_issue_pending dom_def split: if_splits)
  show "is_ok (fst (memory_validate P c x now s)) \<longleftrightarrow>
      (\<exists>e. memory_pending s (p_base64 P c) = Some (x, e) \<and> now \<le> e)"
    using inv by (simp add: memory_validate_eq presentable_def)
  show "memory_pending (snd (memory_validate P c x now s)) \<subseteq>\<^sub>m memory_pending s"
    using inv by (simp add: memory_validate_eq pending_expire live_le)
  show "memory_pending (snd (memory_validate P c x now s)) k = Some (y, e)"
    if "memory_pending s k = Some (y, e)" "now \<le> e"
    using that inv by (simp add: memory_validate_eq pending_expire live_keeps)
  show "is_ok (fst (memory_consume P c x now s)) \<longleftrightarrow>
      (\<exists>e. memory_pending s (p_base64 P c) = Some (x, e) \<and> now \<le> e)"
    using inv by (simp add: memory_consume_eq presentable_def)
  show "memory_pending (snd (memory_consume P c x now s)) \<subseteq>\<^sub>m memory_pending s"
    using inv le by (auto simp: memory_consume_eq pending_expire pending_delete map_le_def dom_def)
  show "memory_pending (snd (memory_consume P c x now s)) (p_base64 P c) = None"
    if "is_ok (fst (memory_consume P c x now s))"
    using that inv by (auto simp: memory_consume_eq pending_delete split: if_splits)
  show "memory_pending (snd (memory_consume P c x now s)) k = Some (y, e)"
    if "memory_pending s k = Some (y, e)" "now \<le> e"
      "k \<noteq> p_base64 P c \<or> is_err (fst (memory_consume P c x now s))"
    using that inv
    by (auto simp: memory_consume_eq pending_delete pending_expire live_keeps)
qed

end
