(* ===== verification/V1_Verify.thy ===== *)
theory V1_Verify
  imports V1_Constraints V1_Receipts V1_Scope V1_Challenge_Store
begin

text \<open>
  The v1 verifier (\<open>sdks/rust/src/verify.rs\<close>).  Each section of \<open>verify_bundle_inner\<close> is one
  definition that yields \<open>Some result\<close> where the code returns early and \<open>None\<close> where it falls
  through; the sections are composed in the code's order.  The challenge store is the only state:
  the two calls \<open>validate\<close> and \<open>consume\<close> thread it.  The system clock is an argument, used when
  the options carry no time.
\<close>

section \<open>Results\<close>

definition failure_result :: "identity_status \<Rightarrow> string \<Rightarrow> string \<Rightarrow> string \<Rightarrow> verify_result" where
  "failure_result st human_id agent_id reason =
     \<lparr>vr_valid = False, vr_identity_status = st, vr_human_id = human_id, vr_agent_id = agent_id,
      vr_agent_name = '''', vr_agent_type = '''', vr_granted_scope = [],
      vr_error_reason = reason, vr_anchor = None\<rparr>"

definition invalid :: "string \<Rightarrow> string \<Rightarrow> verify_result" where
  "invalid reason msg = failure_result Invalid '''' '''' (reason @ '': '' @ msg)"

definition fail_with_status :: "string \<Rightarrow> string \<Rightarrow> verify_result" where
  "fail_with_status status msg =
     failure_result (unwrap_or (from_wire status) Invalid) '''' '''' (status @ '': '' @ msg)"

definition expired :: "string \<Rightarrow> string \<Rightarrow> verify_result" where
  "expired human_id agent_id =
     failure_result Expired human_id agent_id ''delegation certificate has expired''"

definition revoked :: "string \<Rightarrow> string \<Rightarrow> verify_result" where
  "revoked human_id agent_id =
     failure_result Revoked human_id agent_id ''delegation certificate has been revoked''"

text \<open>\<open>if cond { return ... }\<close>.\<close>

definition fail_if :: "bool \<Rightarrow> 'e \<Rightarrow> 'e option" where
  "fail_if b r = (if b then Some r else None)"

lemma fail_if_None [simp]: "fail_if b r = None \<longleftrightarrow> \<not> b"
  by (simp add: fail_if_def)

lemma fail_if_Some [simp]: "fail_if b r = Some q \<longleftrightarrow> b \<and> q = r"
  by (auto simp: fail_if_def)

section \<open>Helpers\<close>

definition hybrid_pub_key_equal :: "hybrid_public_key \<Rightarrow> hybrid_public_key \<Rightarrow> bool" where
  "hybrid_pub_key_equal a b \<longleftrightarrow> pk_ed25519 a = pk_ed25519 b \<and> pk_ml_dsa_65 a = pk_ml_dsa_65 b"

definition validate_hybrid_pubkey_lens :: "hybrid_public_key \<Rightarrow> string \<Rightarrow> string option" where
  "validate_hybrid_pubkey_lens pub_key label = first_failure [
     fail_if (length (pk_ed25519 pub_key) \<noteq> ED25519_PUBLIC_KEY_SIZE)
       (label @ '' Ed25519 public key has wrong length: '' @ dec_nat (length (pk_ed25519 pub_key))),
     fail_if (length (pk_ml_dsa_65 pub_key) \<noteq> MLDSA65_PUBLIC_KEY_SIZE)
       (label @ '' ML-DSA-65 public key has wrong length: '' @
         dec_nat (length (pk_ml_dsa_65 pub_key)))]"

definition constraint_failure_status :: "string \<Rightarrow> string" where
  "constraint_failure_status constraint_err =
     (if str_contains constraint_err ''constraint_unverifiable'' then ''constraint_unverifiable''
      else if str_contains constraint_err ''constraint_unknown'' then ''constraint_unknown''
      else ''constraint_denied'')"

definition evaluate_cert_constraints ::
  "prims \<Rightarrow> 's verify_options \<Rightarrow> int \<Rightarrow> nat \<Rightarrow> delegation_cert \<Rightarrow> verify_result option" where
  "evaluate_cert_constraints P opts now i cert =
     map_option (\<lambda>e. fail_with_status (constraint_failure_status e) (''cert '' @ dec_nat i @ '': '' @ e))
       (err_opt (evaluate_constraints P cert (vo_context opts) now (vo_constraint_evaluators opts)))"

section \<open>Structure and bounds\<close>

definition structure_failure :: "proof_bundle \<Rightarrow> verify_result option" where
  "structure_failure bundle = first_failure [
     fail_if (pb_delegations bundle = [])
       (invalid ''no_delegations'' ''proof bundle contains no delegation certificates''),
     fail_if (length (pb_delegations bundle) > MAX_DELEGATION_CHAIN_DEPTH)
       (invalid ''chain_too_deep'' ''delegation chain exceeds maximum depth''),
     fail_if (pb_challenge bundle = [])
       (invalid ''no_challenge'' ''proof bundle contains no challenge'')]"

definition cert_bounds_failure :: "nat \<Rightarrow> delegation_cert \<Rightarrow> verify_result option" where
  "cert_bounds_failure i cert = first_failure [
     fail_if (length (dc_scope cert) > MAX_SCOPES_PER_CERT)
       (invalid ''invalid'' (''cert '' @ dec_nat i @ '' carries '' @ dec_nat (length (dc_scope cert)) @
          '' scopes, exceeding MAX_SCOPES_PER_CERT ('' @ dec_nat MAX_SCOPES_PER_CERT @ '')'')),
     fail_if (length (dc_constraints cert) > MAX_CONSTRAINTS_PER_CERT)
       (invalid ''invalid'' (''cert '' @ dec_nat i @ '' carries '' @
          dec_nat (length (dc_constraints cert)) @
          '' constraints, exceeding MAX_CONSTRAINTS_PER_CERT ('' @
          dec_nat MAX_CONSTRAINTS_PER_CERT @ '')'')),
     find_failure (\<lambda>_ s. fail_if (length s > MAX_SCOPE_LENGTH_BYTES)
       (invalid ''invalid'' (''cert '' @ dec_nat i @ '' carries a scope of '' @ dec_nat (length s) @
          '' bytes, exceeding MAX_SCOPE_LENGTH_BYTES ('' @ dec_nat MAX_SCOPE_LENGTH_BYTES @ '')'')))
       0 (dc_scope cert),
     find_failure (\<lambda>j c. fail_if (length (c_resource_id c) > MAX_IDENTIFIER_LENGTH_BYTES)
       (invalid ''invalid'' (''cert '' @ dec_nat i @ '' constraint '' @ dec_nat j @
          '' resource_id is '' @ dec_nat (length (c_resource_id c)) @
          '' bytes, exceeding MAX_IDENTIFIER_LENGTH_BYTES ('' @
          dec_nat MAX_IDENTIFIER_LENGTH_BYTES @ '')'')))
       0 (dc_constraints cert)]"

definition bounds_failure :: "proof_bundle \<Rightarrow> verify_result option" where
  "bounds_failure bundle = find_failure cert_bounds_failure 0 (pb_delegations bundle)"

section \<open>Session and stream binding\<close>

text \<open>
  The checks are the same for a bundle and for a streamed turn up to the noun in the messages.
\<close>

definition session_failure :: "string \<Rightarrow> bytes \<Rightarrow> bytes \<Rightarrow> verify_result option" where
  "session_failure noun presented expected = first_failure [
     fail_if (presented \<noteq> [] \<and> length presented \<noteq> 32)
       (invalid ''invalid_session_context''
         (''session_context must be 32 bytes, got '' @ dec_nat (length presented))),
     fail_if (expected \<noteq> [] \<and> length expected \<noteq> 32)
       (invalid ''invalid_session_context''
         (''verify option session_context must be 32 bytes, got '' @ dec_nat (length expected))),
     fail_if (expected \<noteq> [] \<and> presented = [])
       (invalid ''missing_session_context''
         (''verifier requires a session-bound challenge but '' @ noun @ '' has no session_context'')),
     fail_if (expected \<noteq> [] \<and> presented \<noteq> expected)
       (invalid ''session_context_mismatch''
         (noun @ '' session_context does not match verifier context'')),
     fail_if (expected = [] \<and> presented \<noteq> [])
       (invalid ''session_context_unverifiable''
         (noun @ '' has session_context but verifier did not provide one''))]"

definition stream_context_failure ::
  "string \<Rightarrow> bytes \<Rightarrow> int \<Rightarrow> stream_context \<Rightarrow> verify_result option" where
  "stream_context_failure noun stream_id stream_seq stream =
     (let expected = i64_add (sc_last_seen_seq stream) 1 in
      first_failure [
       fail_if (length (sc_stream_id stream) \<noteq> 32)
         (invalid ''invalid_stream_id'' (''verify option stream_id must be 32 bytes, got '' @
            dec_nat (length (sc_stream_id stream)))),
       fail_if (stream_id = [])
         (invalid ''missing_stream_context'' (''verifier requires a stream-bound challenge but '' @
            noun @ '' has no stream_id'')),
       fail_if (stream_id \<noteq> sc_stream_id stream)
         (invalid ''stream_id_mismatch''
            (noun @ '' stream_id does not match verifier stream context'')),
       fail_if (stream_seq \<le> sc_last_seen_seq stream)
         (invalid ''stream_seq_replay'' (''stream_seq '' @ dec_int stream_seq @
            '' already seen (last='' @ dec_int (sc_last_seen_seq stream) @ '')'')),
       fail_if (stream_seq \<noteq> expected)
         (invalid ''stream_seq_skip'' (''stream_seq '' @ dec_int stream_seq @
            '' skips expected '' @ dec_int expected))])"

definition stream_failure ::
  "string \<Rightarrow> bytes \<Rightarrow> int \<Rightarrow> stream_context option \<Rightarrow> verify_result option" where
  "stream_failure noun stream_id stream_seq ctx = first_failure [
     fail_if (stream_id \<noteq> [] \<and> length stream_id \<noteq> 32)
       (invalid ''invalid_stream_id''
         (''stream_id must be 32 bytes, got '' @ dec_nat (length stream_id))),
     fail_if (stream_id = [] \<and> stream_seq \<noteq> 0)
       (invalid ''invalid_stream_seq'' ''stream_seq set without stream_id''),
     fail_if (stream_id \<noteq> [] \<and> stream_seq < 1)
       (invalid ''invalid_stream_seq'' (''stream_seq must be >=1, got '' @ dec_int stream_seq)),
     (case ctx of
        Some stream \<Rightarrow> stream_context_failure noun stream_id stream_seq stream
      | None \<Rightarrow> fail_if (stream_id \<noteq> [])
          (invalid ''stream_context_unverifiable''
            (noun @ '' has stream_id but verifier did not provide a stream context'')))]"

section \<open>The challenge store\<close>

definition unknown_challenge :: verify_result where
  "unknown_challenge = invalid ''unknown_challenge'' UNKNOWN_CHALLENGE"

definition store_call ::
  "'s challenge_store option \<Rightarrow> ('s challenge_store \<Rightarrow> 's \<Rightarrow> unit rresult \<times> 's) \<Rightarrow> 's
    \<Rightarrow> verify_result option \<times> 's" where
  "store_call store call s =
     (case store of
        None \<Rightarrow> (None, s)
      | Some cs \<Rightarrow> (case call cs s of (r, s') \<Rightarrow> (fail_if (is_err r) unknown_challenge, s')))"

definition locate_challenge ::
  "'s challenge_store option \<Rightarrow> bytes \<Rightarrow> bytes \<Rightarrow> int \<Rightarrow> 's \<Rightarrow> verify_result option \<times> 's" where
  "locate_challenge store challenge session_context now =
     store_call store (\<lambda>cs. cs_validate cs challenge session_context now)"

definition consume_challenge ::
  "'s challenge_store option \<Rightarrow> bytes \<Rightarrow> bytes \<Rightarrow> int \<Rightarrow> 's \<Rightarrow> verify_result option \<times> 's" where
  "consume_challenge store challenge session_context now =
     store_call store (\<lambda>cs. cs_consume cs challenge session_context now)"

section \<open>The chain\<close>

definition identity_failure :: "proof_bundle \<Rightarrow> verify_result option" where
  "identity_failure bundle = first_failure [
     map_option (invalid ''invalid_agent_key'')
       (validate_hybrid_pubkey_lens (pb_agent_pub_key bundle) ''agent''),
     fail_if (\<not> hybrid_pub_key_equal (pb_agent_pub_key bundle)
         (dc_subject_pub_key (hd (pb_delegations bundle))))
       (invalid ''key_mismatch'' ''agent public key does not match delegation subject''),
     fail_if (pb_agent_id bundle \<noteq> dc_subject_id (hd (pb_delegations bundle)))
       (invalid ''id_mismatch'' ''agent ID does not match delegation subject ID'')]"

definition revocation_config_failure :: "'s verify_options \<Rightarrow> verify_result option" where
  "revocation_config_failure opts =
     fail_if (vo_force_revocation_check opts \<and> vo_is_revoked opts = None \<and> vo_revocation opts = None)
       (invalid ''force_revocation_no_callback''
         ''force_revocation_check is true but neither is_revoked nor revocation provider is set'')"

definition human_id :: "proof_bundle \<Rightarrow> string" where
  "human_id bundle = dc_issuer_id (last (pb_delegations bundle))"

definition revocation_failure ::
  "'s verify_options \<Rightarrow> proof_bundle \<Rightarrow> nat \<Rightarrow> delegation_cert \<Rightarrow> verify_result option" where
  "revocation_failure opts bundle i cert =
     (case vo_revocation opts of
        Some provider \<Rightarrow>
          (case provider (dc_cert_id cert) of
             Err e \<Rightarrow> Some (invalid ''revocation_error''
               (''cert '' @ dec_nat i @ '': revocation lookup failed: '' @ e))
           | Ok True \<Rightarrow> Some (revoked (human_id bundle) (pb_agent_id bundle))
           | Ok False \<Rightarrow> None)
      | None \<Rightarrow>
          (case vo_is_revoked opts of
             Some check \<Rightarrow> fail_if (check (dc_cert_id cert))
               (revoked (human_id bundle) (pb_agent_id bundle))
           | None \<Rightarrow> None))"

definition linkage_failure :: "proof_bundle \<Rightarrow> nat \<Rightarrow> delegation_cert \<Rightarrow> verify_result option" where
  "linkage_failure bundle i cert =
     (if i + 1 < length (pb_delegations bundle) then
        (let parent = pb_delegations bundle ! (i + 1) in first_failure [
           fail_if (dc_issuer_id cert \<noteq> dc_subject_id parent)
             (invalid ''broken_chain'' (''cert '' @ dec_nat i @ '' issuer does not match cert '' @
                dec_nat (i + 1) @ '' subject'')),
           fail_if (\<not> hybrid_pub_key_equal (dc_issuer_pub_key cert) (dc_subject_pub_key parent))
             (invalid ''broken_chain_keys'' (''cert '' @ dec_nat i @
                '' issuer key does not match cert '' @ dec_nat (i + 1) @ '' subject key'')),
           fail_if (SCOPE_IDENTITY_DELEGATE \<notin> set (dc_scope parent))
             (fail_with_status ''delegation_not_authorized'' (''cert '' @ dec_nat i @
                '' issued by a subject whose parent cert '' @ dec_nat (i + 1) @
                '' did not grant '' @ quoted SCOPE_IDENTITY_DELEGATE))])
      else None)"

definition cert_failure ::
  "prims \<Rightarrow> 's verify_options \<Rightarrow> int \<Rightarrow> proof_bundle \<Rightarrow> nat \<Rightarrow> delegation_cert
    \<Rightarrow> verify_result option" where
  "cert_failure P opts now bundle i cert = first_failure [
     fail_if (dc_version cert \<noteq> PROTOCOL_VERSION)
       (invalid ''version_mismatch'' (''cert '' @ dec_nat i @ '' has unsupported version '' @
          dec_int (dc_version cert))),
     map_option (\<lambda>e. fail_with_status ''invalid_scope'' (''cert '' @ dec_nat i @ '': '' @ e))
       (validate_scopes (dc_scope cert)),
     fail_if (now > dc_expires_at cert) (expired (human_id bundle) (pb_agent_id bundle)),
     fail_if (now < dc_issued_at cert)
       (invalid ''not_yet_valid'' (''cert '' @ dec_nat i @ '' is not yet valid'')),
     revocation_failure opts bundle i cert,
     map_option (\<lambda>e. invalid ''bad_signature'' (''cert '' @ dec_nat i @ '': '' @ e))
       (err_opt (verify_delegation_signature_e P cert)),
     (case vo_challenge_store opts of
        None \<Rightarrow> evaluate_cert_constraints P opts now i cert | Some _ \<Rightarrow> None),
     linkage_failure bundle i cert]"

definition chain_failure ::
  "prims \<Rightarrow> 's verify_options \<Rightarrow> int \<Rightarrow> proof_bundle \<Rightarrow> verify_result option" where
  "chain_failure P opts now bundle =
     find_failure (cert_failure P opts now bundle) 0 (pb_delegations bundle)"

section \<open>Liveness\<close>

definition liveness_failure ::
  "prims \<Rightarrow> int \<Rightarrow> bytes \<Rightarrow> int \<Rightarrow> bytes \<Rightarrow> bytes \<Rightarrow> int \<Rightarrow> hybrid_signature \<Rightarrow> hybrid_public_key
    \<Rightarrow> verify_result option" where
  "liveness_failure P now challenge challenge_at session_context stream_id stream_seq sg pk =
     (let challenge_age = i64_sub now challenge_at in
      first_failure [
       fail_if (\<not> (0 \<le> challenge_age \<and> challenge_age \<le> CHALLENGE_WINDOW_SECONDS))
         (invalid ''stale_challenge'' (''challenge is '' @ dec_int challenge_age @
            '' seconds old (max '' @ dec_int CHALLENGE_WINDOW_SECONDS @ '')'')),
       map_option (\<lambda>e. invalid ''bad_challenge_sig''
           (''challenge signature verification failed: '' @ e))
         (err_opt (verify_challenge_signature_with_stream P challenge challenge_at session_context
            stream_id stream_seq sg pk))])"

definition bundle_liveness_failure :: "prims \<Rightarrow> int \<Rightarrow> proof_bundle \<Rightarrow> verify_result option" where
  "bundle_liveness_failure P now b =
     liveness_failure P now (pb_challenge b) (pb_challenge_at b) (pb_session_context b)
       (pb_stream_id b) (pb_stream_seq b) (pb_challenge_sig b) (pb_agent_pub_key b)"

section \<open>Authorization\<close>

definition deferred_constraint_failure ::
  "prims \<Rightarrow> 's verify_options \<Rightarrow> int \<Rightarrow> proof_bundle \<Rightarrow> verify_result option" where
  "deferred_constraint_failure P opts now bundle =
     (case vo_challenge_store opts of
        None \<Rightarrow> None
      | Some _ \<Rightarrow> find_failure (evaluate_cert_constraints P opts now) 0 (pb_delegations bundle))"

definition effective_scope :: "proof_bundle \<Rightarrow> string list" where
  "effective_scope bundle = intersect_scopes (map dc_scope (pb_delegations bundle))"

definition scope_failure :: "'s verify_options \<Rightarrow> proof_bundle \<Rightarrow> verify_result option" where
  "scope_failure opts bundle =
     fail_if (vo_required_scope opts \<noteq> '''' \<and> vo_required_scope opts \<notin> set (effective_scope bundle))
       (fail_with_status ''scope_denied'' (''required scope '' @ quoted (vo_required_scope opts) @
          '' not in effective delegation scope''))"

definition resolve_anchor :: "'s verify_options \<Rightarrow> string \<Rightarrow> anchor option" where
  "resolve_anchor opts h =
     (case vo_anchor_resolver opts of
        None \<Rightarrow> None
      | Some resolver \<Rightarrow> (case resolver h of Ok (Some a) \<Rightarrow> Some a | _ \<Rightarrow> None))"

definition success_result :: "'s verify_options \<Rightarrow> proof_bundle \<Rightarrow> verify_result" where
  "success_result opts bundle =
     \<lparr>vr_valid = True, vr_identity_status = AuthorizedAgent, vr_human_id = human_id bundle,
      vr_agent_id = pb_agent_id bundle, vr_agent_name = '''', vr_agent_type = '''',
      vr_granted_scope = effective_scope bundle, vr_error_reason = '''',
      vr_anchor = resolve_anchor opts (human_id bundle)\<rparr>"

text \<open>The cached verdict decides (\<open>Some\<close>), or is unusable and the live policy is asked.\<close>

definition cached_policy ::
  "prims \<Rightarrow> 's verify_options \<Rightarrow> int \<Rightarrow> proof_bundle \<Rightarrow> verify_result option" where
  "cached_policy P opts now bundle =
     (case (vo_policy_verdict opts, vo_policy_secret opts) of
        (Some verdict, Some secret) \<Rightarrow>
          if vo_required_scope opts \<noteq> '''' then
            (case verifier_context_hash P (vo_context opts) of
               Err e \<Rightarrow> Some (invalid ''policy_error'' (''verifier context hash failed: '' @ e))
             | Ok ctx_hash \<Rightarrow>
                 (case verify_policy_verdict P verdict secret (pb_agent_id bundle)
                     (vo_required_scope opts) ctx_hash now of
                    Ok _ \<Rightarrow> Some (success_result opts bundle)
                  | Err e \<Rightarrow>
                      if starts_with e ''policy_verdict_denied''
                      then Some (fail_with_status ''scope_denied''
                             ''policy verdict (cached) denied access'')
                      else None))
          else None
      | _ \<Rightarrow> None)"

definition live_policy :: "'s verify_options \<Rightarrow> proof_bundle \<Rightarrow> verify_result option" where
  "live_policy opts bundle =
     (case vo_policy opts of
        None \<Rightarrow> None
      | Some policy \<Rightarrow>
          (case policy bundle (vo_context opts) of
             Err e \<Rightarrow> Some (invalid ''policy_error'' (''advanced policy evaluation failed: '' @ e))
           | Ok False \<Rightarrow> Some (fail_with_status ''scope_denied''
               ''advanced policy evaluation denied access'')
           | Ok True \<Rightarrow> None))"

definition authorize :: "prims \<Rightarrow> 's verify_options \<Rightarrow> int \<Rightarrow> proof_bundle \<Rightarrow> verify_result" where
  "authorize P opts now bundle =
     unwrap_or (first_failure [deferred_constraint_failure P opts now bundle,
        scope_failure opts bundle, cached_policy P opts now bundle, live_policy opts bundle])
       (success_result opts bundle)"

section \<open>The verifier\<close>

text \<open>The checks between the two store calls.\<close>

definition presentation_failure ::
  "prims \<Rightarrow> 's verify_options \<Rightarrow> int \<Rightarrow> proof_bundle \<Rightarrow> verify_result option" where
  "presentation_failure P opts now bundle = first_failure [
     stream_failure ''bundle'' (pb_stream_id bundle) (pb_stream_seq bundle) (vo_stream opts),
     identity_failure bundle,
     revocation_config_failure opts,
     chain_failure P opts now bundle,
     bundle_liveness_failure P now bundle]"

definition preliminary_failure :: "'s verify_options \<Rightarrow> proof_bundle \<Rightarrow> verify_result option" where
  "preliminary_failure opts bundle = first_failure [
     structure_failure bundle,
     bounds_failure bundle,
     session_failure ''bundle'' (pb_session_context bundle) (vo_session_context opts)]"

definition verify_bundle_inner ::
  "prims \<Rightarrow> proof_bundle \<Rightarrow> 's verify_options \<Rightarrow> int \<Rightarrow> 's \<Rightarrow> verify_result \<times> 's" where
  "verify_bundle_inner P bundle opts clock s =
     (let now = unwrap_or (vo_now opts) clock in
      case preliminary_failure opts bundle of
        Some r \<Rightarrow> (r, s)
      | None \<Rightarrow>
          (case locate_challenge (vo_challenge_store opts) (pb_challenge bundle)
              (vo_session_context opts) now s of
             (Some r, s1) \<Rightarrow> (r, s1)
           | (None, s1) \<Rightarrow>
               (case presentation_failure P opts now bundle of
                  Some r \<Rightarrow> (r, s1)
                | None \<Rightarrow>
                    (case consume_challenge (vo_challenge_store opts) (pb_challenge bundle)
                        (vo_session_context opts) now s1 of
                       (Some r, s2) \<Rightarrow> (r, s2)
                     | (None, s2) \<Rightarrow> (authorize P opts now bundle, s2)))))"

text \<open>The audit hook receives every result; it returns nothing to the caller.\<close>

definition verify_bundle ::
  "prims \<Rightarrow> proof_bundle \<Rightarrow> 's verify_options \<Rightarrow> int \<Rightarrow> 's
    \<Rightarrow> verify_result \<times> 's \<times> (verify_result \<times> proof_bundle) list" where
  "verify_bundle P bundle opts clock s =
     (case verify_bundle_inner P bundle opts clock s of
        (res, s') \<Rightarrow> (res, s', if vo_audit opts then [(res, bundle)] else []))"

end
