(* ===== verification/V1_Transaction.thy ===== *)
theory V1_Transaction
  imports V1_Verify
begin

text \<open>
  Transaction receipts (\<open>verify_transaction_receipt\<close> in \<open>sdks/rust/src/verify.rs\<close>): envelope
  checks, the pairing of parties and signatures, then the verification of every party's bundle and
  of every party's signature over the same bytes.
\<close>

section \<open>Debug text\<close>

text \<open>
  \<open>{:?}\<close> on a string.  ASCII follows \<open>char::escape_debug_ext\<close>; a non-ASCII character is taken
  with its continuation bytes.
\<close>

function hex_text :: "nat \<Rightarrow> string" where
  "hex_text n = (if n < 16 then [hex_digit n] else hex_text (n div 16) @ [hex_digit (n mod 16)])"
  by pat_completeness auto
termination
  by (relation "measure id") auto

declare hex_text.simps [simp del]

definition debug_ascii :: "char \<Rightarrow> string" where
  "debug_ascii c =
     (if c = CHR 0x00 then [BSL, CHR ''0'']
      else if c = CHR 0x09 then [BSL, CHR ''t'']
      else if c = CHR 0x0D then [BSL, CHR ''r'']
      else if c = CHR 0x0A then [BSL, CHR ''n'']
      else if c = QUOTE then [BSL, QUOTE]
      else if c = BSL then [BSL, BSL]
      else if (of_char c :: nat) < 0x20 \<or> c = CHR 0x7F
        then BSL # ''u{'' @ hex_text (of_char c) @ ''}''
      else [c])"

definition utf8_len :: "char \<Rightarrow> nat" where
  "utf8_len c = (if (of_char c :: nat) < 0x80 then 1 else if (of_char c :: nat) < 0xE0 then 2
     else if (of_char c :: nat) < 0xF0 then 3 else 4)"

function debug_chars :: "prims \<Rightarrow> string \<Rightarrow> string" where
  "debug_chars P [] = []"
| "debug_chars P (c # cs) =
     (if utf8_len c = 1 then debug_ascii c @ debug_chars P cs
      else p_debug_char P (take (utf8_len c) (c # cs)) @ debug_chars P (drop (utf8_len c - 1) cs))"
  by pat_completeness auto
termination
  by (relation "measure (\<lambda>(P, s). length s)") auto

definition debug_str :: "prims \<Rightarrow> string \<Rightarrow> string" where
  "debug_str P s = quoted (debug_chars P s)"

section \<open>The verifier\<close>

definition receipt_fail :: "string \<Rightarrow> transaction_receipt_result" where
  "receipt_fail reason = \<lparr>trr_valid = False, trr_error_reason = reason, trr_party_results = []\<rparr>"

definition receipt_fail_with_results ::
  "string \<Rightarrow> verify_result list \<Rightarrow> transaction_receipt_result" where
  "receipt_fail_with_results reason party_results =
     \<lparr>trr_valid = False, trr_error_reason = reason, trr_party_results = party_results\<rparr>"

definition envelope_error :: "transaction_receipt \<Rightarrow> string option" where
  "envelope_error r = first_failure [
     fail_if (tr_version r \<noteq> PROTOCOL_VERSION)
       (''version_mismatch: unsupported version '' @ dec_int (tr_version r)),
     fail_if (tr_transaction_id r = '''')
       ''missing_transaction_id: transaction_id must not be empty'',
     fail_if (tr_terms_schema_uri r = '''')
       ''missing_terms_schema_uri: terms_schema_uri must not be empty'',
     fail_if (tr_terms_canonical_json r = [])
       ''missing_terms_canonical_json: terms_canonical_json must not be empty'',
     fail_if (tr_parties r = []) ''no_parties: receipt must list at least one party'']"

text \<open>\<open>seen\<close> holds the keys of \<open>party_idx\<close>.\<close>

fun party_id_error :: "prims \<Rightarrow> nat \<Rightarrow> string list \<Rightarrow> receipt_party list \<Rightarrow> string option" where
  "party_id_error P i seen [] = None"
| "party_id_error P i seen (p # ps) =
     (if py_party_id p = '''' then Some (''empty_party_id: party '' @ dec_nat i @ '' has no party_id'')
      else if py_party_id p \<in> set seen
      then Some (''duplicate_party_id: '' @ debug_str P (py_party_id p) @ '' listed more than once'')
      else party_id_error P (i + 1) (py_party_id p # seen) ps)"

text \<open>\<open>sig_by_party\<close>: from a party to the index of its signature.\<close>

fun index_signatures ::
  "prims \<Rightarrow> string list \<Rightarrow> nat \<Rightarrow> (string \<times> nat) list \<Rightarrow> receipt_party_signature list
    \<Rightarrow> (string \<times> nat) list rresult" where
  "index_signatures P party_ids i sig_by_party [] = Ok sig_by_party"
| "index_signatures P party_ids i sig_by_party (s # ss) =
     (if ps_party_id s \<notin> set party_ids
      then Err (''unknown_party_signature: signature '' @ dec_nat i @
             '' references unknown party_id '' @ debug_str P (ps_party_id s))
      else if ps_party_id s \<in> fst ` set sig_by_party
      then Err (''duplicate_party_signature: party '' @ debug_str P (ps_party_id s) @
             '' has multiple signatures'')
      else index_signatures P party_ids (i + 1) ((ps_party_id s, i) # sig_by_party) ss)"

definition missing_signature_error ::
  "prims \<Rightarrow> (string \<times> nat) list \<Rightarrow> receipt_party list \<Rightarrow> string option" where
  "missing_signature_error P sig_by_party parties =
     find_failure (\<lambda>_ p. fail_if (py_party_id p \<notin> fst ` set sig_by_party)
       (''missing_party_signature: party '' @ debug_str P (py_party_id p) @ '' has no signature''))
       0 parties"

definition party_mismatch :: "prims \<Rightarrow> receipt_party \<Rightarrow> string option" where
  "party_mismatch P p = first_failure [
     fail_if (pb_agent_id (py_proof_bundle p) \<noteq> py_agent_id p)
       (''party_agent_id_mismatch: party '' @ debug_str P (py_party_id p) @
        '' proof_bundle.agent_id='' @ debug_str P (pb_agent_id (py_proof_bundle p)) @
        '' != party.agent_id='' @ debug_str P (py_agent_id p)),
     fail_if (\<not> hybrid_pub_key_equal (pb_agent_pub_key (py_proof_bundle p)) (py_agent_pub_key p))
       (''party_agent_key_mismatch: party '' @ debug_str P (py_party_id p) @
        '' proof_bundle.agent_pub_key != party.agent_pub_key'')]"

definition verify_party_bundle :: "prims \<Rightarrow> int \<Rightarrow> proof_bundle \<Rightarrow> verify_result" where
  "verify_party_bundle P now bundle =
     fst (verify_bundle P bundle ((default_options :: unit verify_options)\<lparr>vo_now := Some now\<rparr>) now ())"

text \<open>The loop over the parties; \<open>done\<close> is \<open>party_results\<close> so far.\<close>

fun check_parties ::
  "prims \<Rightarrow> int \<Rightarrow> bytes \<Rightarrow> (string \<times> nat) list \<Rightarrow> receipt_party_signature list
    \<Rightarrow> verify_result list \<Rightarrow> receipt_party list \<Rightarrow> transaction_receipt_result" where
  "check_parties P now signable sig_by_party sigs party_results [] =
     \<lparr>trr_valid = True, trr_error_reason = '''', trr_party_results = party_results\<rparr>"
| "check_parties P now signable sig_by_party sigs party_results (p # ps) =
     (case party_mismatch P p of
        Some e \<Rightarrow> receipt_fail_with_results e party_results
      | None \<Rightarrow>
          (let r = verify_party_bundle P now (py_proof_bundle p);
               party_results = party_results @ [r] in
           if \<not> vr_valid r
           then receipt_fail_with_results
                  (''party_bundle_invalid: party '' @ debug_str P (py_party_id p) @ '' status='' @
                   as_str (vr_identity_status r) @ '' reason='' @ vr_error_reason r) party_results
           else case verify_both P signable
               (ps_signature (sigs ! the (map_of sig_by_party (py_party_id p))))
               (py_agent_pub_key p) of
             Err e \<Rightarrow> receipt_fail_with_results
                 (''party_signature_invalid: party '' @ debug_str P (py_party_id p) @ '': '' @ e)
                 party_results
           | Ok _ \<Rightarrow> check_parties P now signable sig_by_party sigs party_results ps))"

definition verify_transaction_receipt ::
  "prims \<Rightarrow> transaction_receipt \<Rightarrow> int \<Rightarrow> transaction_receipt_result" where
  "verify_transaction_receipt P receipt now =
     (case envelope_error receipt of
        Some e \<Rightarrow> receipt_fail e
      | None \<Rightarrow>
      (case party_id_error P 0 [] (tr_parties receipt) of
        Some e \<Rightarrow> receipt_fail e
      | None \<Rightarrow>
      (case index_signatures P (map py_party_id (tr_parties receipt)) 0 []
          (tr_party_signatures receipt) of
        Err e \<Rightarrow> receipt_fail e
      | Ok sig_by_party \<Rightarrow>
      (case missing_signature_error P sig_by_party (tr_parties receipt) of
        Some e \<Rightarrow> receipt_fail e
      | None \<Rightarrow>
          check_parties P now (transaction_receipt_sign_bytes P receipt) sig_by_party
            (tr_party_signatures receipt) [] (tr_parties receipt)))))"

section \<open>Facts\<close>

lemma party_id_error_None:
  "party_id_error P i seen ps = None \<longleftrightarrow>
     distinct (map py_party_id ps) \<and> (\<forall>p\<in>set ps. py_party_id p \<noteq> '''' \<and> py_party_id p \<notin> set seen)"
  by (induction ps arbitrary: i seen) (auto simp: image_iff)

text \<open>The index built by the signature loop: every entry points at the signature it names.\<close>

lemma index_signatures_Ok:
  "index_signatures P ids i acc ss = Ok m \<longleftrightarrow>
     set (map ps_party_id ss) \<subseteq> set ids \<and> distinct (map ps_party_id ss)
     \<and> fst ` set acc \<inter> set (map ps_party_id ss) = {}
     \<and> m = rev (zip (map ps_party_id ss) [i..<i + length ss]) @ acc"
proof (induction ss arbitrary: i acc)
  case (Cons s ss)
  have "[i..<i + length (s # ss)] = i # [Suc i..<Suc i + length ss]"
    by (simp add: upt_conv_Cons del: upt_Suc)
  with Cons.IH show ?case by (auto simp del: upt_Suc)
qed auto

lemma indexed_signature:
  assumes "distinct (map ps_party_id ss)" and "j < length ss"
  shows "map_of (rev (zip (map ps_party_id ss) [0..<length ss])) (ps_party_id (ss ! j)) = Some j"
proof (rule map_of_is_SomeI)
  show "distinct (map fst (rev (zip (map ps_party_id ss) [0..<length ss])))"
    using assms(1) by (simp add: rev_map [symmetric])
  show "(ps_party_id (ss ! j), j) \<in> set (rev (zip (map ps_party_id ss) [0..<length ss]))"
    using assms(2) by (auto simp: set_zip intro!: exI [of _ j])
qed

text \<open>What the loop over the parties establishes.\<close>

lemma party_mismatch_None:
  "party_mismatch P p = None \<longleftrightarrow> pb_agent_id (py_proof_bundle p) = py_agent_id p
     \<and> hybrid_pub_key_equal (pb_agent_pub_key (py_proof_bundle p)) (py_agent_pub_key p)"
  unfolding party_mismatch_def first_failure_None by auto

lemma check_parties_valid:
  "trr_valid (check_parties P now signable idx sigs acc ps) \<longleftrightarrow>
     (\<forall>p\<in>set ps. party_mismatch P p = None
        \<and> vr_valid (verify_party_bundle P now (py_proof_bundle p))
        \<and> is_ok (verify_both P signable (ps_signature (sigs ! the (map_of idx (py_party_id p))))
            (py_agent_pub_key p)))"
  by (induction ps arbitrary: acc)
    (auto simp: receipt_fail_with_results_def Let_def split: option.splits sum.splits)

lemma check_parties_results:
  "trr_valid (check_parties P now signable idx sigs acc ps) \<Longrightarrow>
   trr_party_results (check_parties P now signable idx sigs acc ps) =
     acc @ map (\<lambda>p. verify_party_bundle P now (py_proof_bundle p)) ps"
  by (induction ps arbitrary: acc)
    (auto simp: receipt_fail_with_results_def Let_def split: option.splits sum.splits if_splits)

lemma missing_signature_None:
  "missing_signature_error P idx ps = None \<longleftrightarrow> (\<forall>p\<in>set ps. py_party_id p \<in> fst ` set idx)"
  by (auto simp: missing_signature_error_def find_failure_const_None)

definition party_signed :: "prims \<Rightarrow> transaction_receipt \<Rightarrow> receipt_party \<Rightarrow> bool" where
  "party_signed P r p \<longleftrightarrow> (\<exists>s\<in>set (tr_party_signatures r). ps_party_id s = py_party_id p
     \<and> is_ok (verify_both P (transaction_receipt_sign_bytes P r) (ps_signature s) (py_agent_pub_key p)))"

lemma indexed_party_signed:
  assumes "distinct (map ps_party_id ss)" and "k \<in> set (map ps_party_id ss)"
  shows "Q (ss ! the (map_of (rev (zip (map ps_party_id ss) [0..<length ss])) k)) \<longleftrightarrow>
    (\<exists>s\<in>set ss. ps_party_id s = k \<and> Q s)"
proof -
  obtain j where j: "j < length ss" "ps_party_id (ss ! j) = k"
    using assms(2) by (auto simp: in_set_conv_nth)
  have idx: "map_of (rev (zip (map ps_party_id ss) [0..<length ss])) k = Some j"
    using indexed_signature [OF assms(1) j(1)] j(2) by simp
  have "s = ss ! j" if "s \<in> set ss" "ps_party_id s = k" for s
    using that j assms(1) by (auto simp: in_set_conv_nth distinct_conv_nth)
  with j idx show ?thesis by auto
qed

lemma fst_set_index: "fst ` set (rev (zip (map ps_party_id ss) [0..<length ss])) = ps_party_id ` set ss"
proof -
  have "map fst (zip (map ps_party_id ss) [0..<length ss]) = map ps_party_id ss" by simp
  then show ?thesis by (metis set_map set_rev)
qed

lemma envelope_error_None:
  "envelope_error r = None \<longleftrightarrow> tr_version r = PROTOCOL_VERSION \<and> tr_transaction_id r \<noteq> []
     \<and> tr_terms_schema_uri r \<noteq> [] \<and> tr_terms_canonical_json r \<noteq> [] \<and> tr_parties r \<noteq> []"
  unfolding envelope_error_def first_failure_None by auto

lemma transaction_receipt_valid_iff:
  "trr_valid (verify_transaction_receipt P r now) \<longleftrightarrow>
     envelope_error r = None
     \<and> distinct (map py_party_id (tr_parties r)) \<and> [] \<notin> py_party_id ` set (tr_parties r)
     \<and> distinct (map ps_party_id (tr_party_signatures r))
     \<and> ps_party_id ` set (tr_party_signatures r) = py_party_id ` set (tr_parties r)
     \<and> (\<forall>p\<in>set (tr_parties r). party_mismatch P p = None \<and> party_signed P r p
          \<and> vr_valid (verify_party_bundle P now (py_proof_bundle p)))"
proof -
  let ?ss = "tr_party_signatures r" and ?ps = "tr_parties r"
  let ?m = "rev (zip (map ps_party_id ?ss) [0..<length ?ss])"
  let ?ids = "distinct (map py_party_id ?ps) \<and> [] \<notin> py_party_id ` set ?ps"
  let ?sigs = "set (map ps_party_id ?ss) \<subseteq> set (map py_party_id ?ps)
    \<and> distinct (map ps_party_id ?ss)"
  let ?all = "py_party_id ` set ?ps \<subseteq> ps_party_id ` set ?ss"
  have ids: "party_id_error P 0 [] ?ps = None \<longleftrightarrow> ?ids"
    by (auto simp: party_id_error_None image_iff)
  have sigs: "index_signatures P (map py_party_id ?ps) 0 [] ?ss = Ok m \<longleftrightarrow> ?sigs \<and> m = ?m" for m
    by (simp add: index_signatures_Ok)
  have all: "missing_signature_error P ?m ?ps = None \<longleftrightarrow> ?all"
    unfolding missing_signature_None fst_set_index by blast
  have loop: "trr_valid (check_parties P now (transaction_receipt_sign_bytes P r) ?m ?ss [] ?ps) \<longleftrightarrow>
      (\<forall>p\<in>set ?ps. party_mismatch P p = None \<and> party_signed P r p
         \<and> vr_valid (verify_party_bundle P now (py_proof_bundle p)))"
    if "?sigs" "?all"
  proof -
    have "is_ok (verify_both P (transaction_receipt_sign_bytes P r)
        (ps_signature (?ss ! the (map_of ?m (py_party_id p)))) (py_agent_pub_key p))
        \<longleftrightarrow> party_signed P r p" if "p \<in> set ?ps" for p
      unfolding party_signed_def
      using indexed_party_signed [of ?ss "py_party_id p" "\<lambda>s. is_ok (verify_both P
          (transaction_receipt_sign_bytes P r) (ps_signature s) (py_agent_pub_key p))"]
        \<open>?sigs\<close> \<open>?all\<close> that by auto
    then show ?thesis unfolding check_parties_valid by blast
  qed
  have "trr_valid (verify_transaction_receipt P r now) \<longleftrightarrow> envelope_error r = None \<and> ?ids \<and> ?sigs
      \<and> ?all \<and> trr_valid (check_parties P now (transaction_receipt_sign_bytes P r) ?m ?ss [] ?ps)"
  proof (cases "index_signatures P (map py_party_id ?ps) 0 [] ?ss")
    case (Inl e)
    then have "\<not> ?sigs" using sigs [of ?m] by simp
    with Inl show ?thesis
      by (auto simp: verify_transaction_receipt_def receipt_fail_def split: option.splits)
  next
    case (Inr m)
    then have m: "?sigs" "m = ?m" using sigs [of m] by simp_all
    show ?thesis
      unfolding verify_transaction_receipt_def Inr ids [symmetric] all [symmetric] m(2)
      using m(1) by (auto simp: receipt_fail_def split: option.splits)
  qed
  with loop show ?thesis by auto
qed

end
