(* ===== verification/V1_Verify_Spec.thy ===== *)
theory V1_Verify_Spec
  imports V1_Verify
begin

text \<open>
  What a verified presentation promises, stated without the verifier's control flow, and the
  characterisation of every section of \<open>V1_Verify\<close> in those terms.  The main lemma,
  \<open>verify_bundle_inner_valid\<close>, says that the verifier accepts exactly the presentations the
  specification admits.
\<close>

section \<open>Specification\<close>

definition cert_within_bounds :: "delegation_cert \<Rightarrow> bool" where
  "cert_within_bounds cert \<longleftrightarrow>
     length (dc_scope cert) \<le> MAX_SCOPES_PER_CERT
     \<and> length (dc_constraints cert) \<le> MAX_CONSTRAINTS_PER_CERT
     \<and> (\<forall>s\<in>set (dc_scope cert). length s \<le> MAX_SCOPE_LENGTH_BYTES)
     \<and> (\<forall>c\<in>set (dc_constraints cert). length (c_resource_id c) \<le> MAX_IDENTIFIER_LENGTH_BYTES)"

definition not_revoked :: "'s verify_options \<Rightarrow> string \<Rightarrow> bool" where
  "not_revoked opts cert_id =
     (case vo_revocation opts of
        Some provider \<Rightarrow> provider cert_id = Ok False
      | None \<Rightarrow> (case vo_is_revoked opts of Some check \<Rightarrow> \<not> check cert_id | None \<Rightarrow> True))"

text \<open>Version, vocabulary, validity period, revocation and both signature components.\<close>

definition cert_valid :: "prims \<Rightarrow> 's verify_options \<Rightarrow> int \<Rightarrow> delegation_cert \<Rightarrow> bool" where
  "cert_valid P opts now cert \<longleftrightarrow>
     dc_version cert = PROTOCOL_VERSION
     \<and> (\<forall>s\<in>set (dc_scope cert). valid_scope s)
     \<and> dc_issued_at cert \<le> now \<and> now \<le> dc_expires_at cert
     \<and> not_revoked opts (dc_cert_id cert)
     \<and> verify_delegation_signature P cert"

definition constraints_hold :: "prims \<Rightarrow> 's verify_options \<Rightarrow> int \<Rightarrow> delegation_cert \<Rightarrow> bool" where
  "constraints_hold P opts now cert \<longleftrightarrow>
     (\<forall>c\<in>set (dc_constraints cert). is_ok (constraint_outcome P c (dc_cert_id cert)
        (vo_context opts) now (vo_constraint_evaluators opts)))"

text \<open>Certificate \<open>i\<close> is issued by the subject of certificate \<open>i + 1\<close>, which may delegate.\<close>

definition linked :: "delegation_cert \<Rightarrow> delegation_cert \<Rightarrow> bool" where
  "linked cert parent \<longleftrightarrow> dc_issuer_id cert = dc_subject_id parent
     \<and> dc_issuer_pub_key cert = dc_subject_pub_key parent
     \<and> SCOPE_IDENTITY_DELEGATE \<in> set (dc_scope parent)"

definition chain_linked :: "delegation_cert list \<Rightarrow> bool" where
  "chain_linked certs \<longleftrightarrow> (\<forall>i. Suc i < length certs \<longrightarrow> linked (certs ! i) (certs ! Suc i))"

definition stream_bound :: "bytes \<Rightarrow> int \<Rightarrow> stream_context option \<Rightarrow> bool" where
  "stream_bound stream_id stream_seq ctx =
     (case ctx of
        None \<Rightarrow> stream_id = [] \<and> stream_seq = 0
      | Some stream \<Rightarrow> length stream_id = 32 \<and> stream_id = sc_stream_id stream
          \<and> 1 \<le> stream_seq \<and> sc_last_seen_seq stream < stream_seq
          \<and> stream_seq = i64_add (sc_last_seen_seq stream) 1)"

definition fresh :: "int \<Rightarrow> int \<Rightarrow> bool" where
  "fresh now challenge_at \<longleftrightarrow>
     0 \<le> i64_sub now challenge_at \<and> i64_sub now challenge_at \<le> CHALLENGE_WINDOW_SECONDS"

definition well_formed_bundle :: "'s verify_options \<Rightarrow> proof_bundle \<Rightarrow> bool" where
  "well_formed_bundle opts b \<longleftrightarrow>
     pb_delegations b \<noteq> [] \<and> length (pb_delegations b) \<le> MAX_DELEGATION_CHAIN_DEPTH
     \<and> pb_challenge b \<noteq> [] \<and> (\<forall>cert\<in>set (pb_delegations b). cert_within_bounds cert)
     \<and> pb_session_context b = vo_session_context opts
     \<and> (vo_session_context opts = [] \<or> length (vo_session_context opts) = 32)"

text \<open>A presentation that is cryptographically the agent's, under an unbroken chain.\<close>

definition authentic_bundle :: "prims \<Rightarrow> 's verify_options \<Rightarrow> int \<Rightarrow> proof_bundle \<Rightarrow> bool" where
  "authentic_bundle P opts now b \<longleftrightarrow>
     stream_bound (pb_stream_id b) (pb_stream_seq b) (vo_stream opts)
     \<and> length (pk_ed25519 (pb_agent_pub_key b)) = ED25519_PUBLIC_KEY_SIZE
     \<and> length (pk_ml_dsa_65 (pb_agent_pub_key b)) = MLDSA65_PUBLIC_KEY_SIZE
     \<and> pb_agent_pub_key b = dc_subject_pub_key (hd (pb_delegations b))
     \<and> pb_agent_id b = dc_subject_id (hd (pb_delegations b))
     \<and> (vo_force_revocation_check opts \<longrightarrow> vo_is_revoked opts \<noteq> None \<or> vo_revocation opts \<noteq> None)
     \<and> (\<forall>cert\<in>set (pb_delegations b). cert_valid P opts now cert)
     \<and> chain_linked (pb_delegations b)
     \<and> fresh now (pb_challenge_at b)
     \<and> is_ok (verify_both P (challenge_sign_bytes_with_stream (pb_challenge b) (pb_challenge_at b)
           (pb_session_context b) (pb_stream_id b) (pb_stream_seq b))
         (pb_challenge_sig b) (pb_agent_pub_key b))"

text \<open>The policy gate: a usable cached verdict decides, otherwise the live policy.\<close>

definition cached_verdict :: "prims \<Rightarrow> 's verify_options \<Rightarrow> int \<Rightarrow> proof_bundle \<Rightarrow> unit rresult option" where
  "cached_verdict P opts now b =
     (case (vo_policy_verdict opts, vo_policy_secret opts) of
        (Some v, Some secret) \<Rightarrow>
          if vo_required_scope opts = '''' then None
          else Some (verify_policy_verdict P v secret (pb_agent_id b) (vo_required_scope opts)
                 (p_sha256 P (str_bytes (context_text P (vo_context opts)))) now)
      | _ \<Rightarrow> None)"

definition cached_deny :: "unit rresult \<Rightarrow> bool" where
  "cached_deny r = (case r of Err e \<Rightarrow> starts_with e ''policy_verdict_denied'' | Ok _ \<Rightarrow> False)"

definition live_policy_allows :: "'s verify_options \<Rightarrow> proof_bundle \<Rightarrow> bool" where
  "live_policy_allows opts b =
     (case vo_policy opts of None \<Rightarrow> True | Some policy \<Rightarrow> policy b (vo_context opts) = Ok True)"

definition policy_allows :: "prims \<Rightarrow> 's verify_options \<Rightarrow> int \<Rightarrow> proof_bundle \<Rightarrow> bool" where
  "policy_allows P opts now b =
     (case cached_verdict P opts now b of
        None \<Rightarrow> live_policy_allows opts b
      | Some r \<Rightarrow> is_ok r \<or> \<not> cached_deny r \<and> live_policy_allows opts b)"

definition authorized_bundle :: "prims \<Rightarrow> 's verify_options \<Rightarrow> int \<Rightarrow> proof_bundle \<Rightarrow> bool" where
  "authorized_bundle P opts now b \<longleftrightarrow>
     (\<forall>cert\<in>set (pb_delegations b). constraints_hold P opts now cert)
     \<and> (vo_required_scope opts = '''' \<or> vo_required_scope opts \<in> set (effective_scope b))
     \<and> policy_allows P opts now b"

section \<open>The sections in terms of the specification\<close>

named_theorems section_simps \<open>when a section of the verifier falls through\<close>

lemma hybrid_pub_key_equal_iff [simp]: "hybrid_pub_key_equal a b \<longleftrightarrow> a = b"
  by (cases a; cases b) (simp add: hybrid_pub_key_equal_def)

lemma structure_failure_None [section_simps]:
  "structure_failure b = None \<longleftrightarrow> pb_delegations b \<noteq> []
     \<and> length (pb_delegations b) \<le> MAX_DELEGATION_CHAIN_DEPTH \<and> pb_challenge b \<noteq> []"
  unfolding structure_failure_def first_failure_None by auto

lemma cert_bounds_failure_None:
  "cert_bounds_failure i cert = None \<longleftrightarrow> cert_within_bounds cert"
  unfolding cert_bounds_failure_def cert_within_bounds_def first_failure_None
  by (auto simp: find_failure_None all_set_conv_all_nth not_less)

lemma bounds_failure_None [section_simps]:
  "bounds_failure b = None \<longleftrightarrow> (\<forall>cert\<in>set (pb_delegations b). cert_within_bounds cert)"
  by (simp add: bounds_failure_def find_failure_None cert_bounds_failure_None all_set_conv_all_nth)

lemma session_failure_None [section_simps]:
  "session_failure noun x y = None \<longleftrightarrow> x = y \<and> (y = [] \<or> length y = 32)"
  unfolding session_failure_def first_failure_None by auto

lemma stream_failure_None [section_simps]:
  "stream_failure noun stream_id stream_seq ctx = None \<longleftrightarrow> stream_bound stream_id stream_seq ctx"
  unfolding stream_failure_def stream_context_failure_def stream_bound_def Let_def
    first_failure_None
  by (cases ctx) (auto simp: first_failure_None simp del: first_failure.simps)

lemma identity_failure_None [section_simps]:
  "identity_failure b = None \<longleftrightarrow>
     length (pk_ed25519 (pb_agent_pub_key b)) = ED25519_PUBLIC_KEY_SIZE
     \<and> length (pk_ml_dsa_65 (pb_agent_pub_key b)) = MLDSA65_PUBLIC_KEY_SIZE
     \<and> pb_agent_pub_key b = dc_subject_pub_key (hd (pb_delegations b))
     \<and> pb_agent_id b = dc_subject_id (hd (pb_delegations b))"
  unfolding identity_failure_def validate_hybrid_pubkey_lens_def first_failure_None
  by (auto simp: first_failure_None simp del: first_failure.simps)

lemma revocation_failure_None:
  "revocation_failure opts b i cert = None \<longleftrightarrow> not_revoked opts (dc_cert_id cert)"
  by (auto simp: revocation_failure_def not_revoked_def split: option.splits sum.splits bool.splits)

lemma evaluate_cert_constraints_None:
  "evaluate_cert_constraints P opts now i cert = None \<longleftrightarrow> constraints_hold P opts now cert"
  by (simp add: evaluate_cert_constraints_def err_opt_None_iff evaluate_constraints_ok
      constraints_hold_def)

lemma linkage_failure_None:
  "linkage_failure b i cert = None \<longleftrightarrow>
     (Suc i < length (pb_delegations b) \<longrightarrow> linked cert (pb_delegations b ! Suc i))"
  unfolding linkage_failure_def linked_def Let_def first_failure_None
  by (auto simp: first_failure_None simp del: first_failure.simps)

lemma cert_failure_None:
  "cert_failure P opts now b i cert = None \<longleftrightarrow>
     cert_valid P opts now cert
     \<and> (vo_challenge_store opts = None \<longrightarrow> constraints_hold P opts now cert)
     \<and> (Suc i < length (pb_delegations b) \<longrightarrow> linked cert (pb_delegations b ! Suc i))"
  unfolding cert_failure_def first_failure_None cert_valid_def
  by (auto simp: validate_scopes_None revocation_failure_None evaluate_cert_constraints_None
      linkage_failure_None verify_delegation_signature_def err_opt_None_iff not_less
      split: option.splits)

lemma chain_failure_None [section_simps]:
  "chain_failure P opts now b = None \<longleftrightarrow>
     (\<forall>cert\<in>set (pb_delegations b). cert_valid P opts now cert)
     \<and> (vo_challenge_store opts = None
          \<longrightarrow> (\<forall>cert\<in>set (pb_delegations b). constraints_hold P opts now cert))
     \<and> chain_linked (pb_delegations b)"
  unfolding chain_failure_def find_failure_None cert_failure_None chain_linked_def
  by (auto simp: all_set_conv_all_nth)

lemma revocation_config_None [section_simps]:
  "revocation_config_failure opts = None \<longleftrightarrow>
     (vo_force_revocation_check opts \<longrightarrow> vo_is_revoked opts \<noteq> None \<or> vo_revocation opts \<noteq> None)"
  by (auto simp: revocation_config_failure_def)

lemma challenge_signature_ok:
  "is_ok (verify_challenge_signature_with_stream P c t x sid n sg pk) \<longleftrightarrow>
     (x = [] \<or> length x = 32) \<and> (sid = [] \<or> length sid = 32 \<and> 1 \<le> n)
     \<and> is_ok (verify_both P (challenge_sign_bytes_with_stream c t x sid n) sg pk)"
  by (auto simp: verify_challenge_signature_with_stream_def)

lemma liveness_failure_None [section_simps]:
  "liveness_failure P now c t x sid n sg pk = None \<longleftrightarrow>
     fresh now t \<and> is_ok (verify_challenge_signature_with_stream P c t x sid n sg pk)"
  unfolding liveness_failure_def fresh_def Let_def first_failure_None
  by (auto simp: err_opt_None_iff)

lemma presentation_failure_None:
  assumes "pb_session_context b = [] \<or> length (pb_session_context b) = 32"
  shows "presentation_failure P opts now b = None \<longleftrightarrow>
     authentic_bundle P opts now b
     \<and> (vo_challenge_store opts = None
          \<longrightarrow> (\<forall>cert\<in>set (pb_delegations b). constraints_hold P opts now cert))"
  using assms
  unfolding presentation_failure_def first_failure_None authentic_bundle_def
  by (auto simp: section_simps bundle_liveness_failure_def challenge_signature_ok stream_bound_def
      split: option.splits)

lemma preliminary_failure_None:
  "preliminary_failure opts b = None \<longleftrightarrow> well_formed_bundle opts b"
  unfolding preliminary_failure_def first_failure_None well_formed_bundle_def
  by (auto simp: section_simps)

section \<open>Failures grant nothing\<close>

definition denial :: "verify_result \<Rightarrow> bool" where
  "denial r \<longleftrightarrow> \<not> vr_valid r \<and> vr_granted_scope r = [] \<and> vr_anchor r = None"

lemma denial_failures:
  "denial (invalid q m)" "denial (fail_with_status q m)" "denial (expired h a)"
  "denial (revoked h a)" "denial unknown_challenge"
  by (simp_all add: denial_def invalid_def fail_with_status_def expired_def revoked_def
      failure_result_def unknown_challenge_def)

lemma denial_not_valid: "denial r \<Longrightarrow> \<not> vr_valid r"
  by (simp add: denial_def)

text \<open>A list of checks and a loop fail only with one of their failures.\<close>

definition rejects :: "verify_result option \<Rightarrow> bool" where
  "rejects x \<longleftrightarrow> (\<forall>r. x = Some r \<longrightarrow> denial r)"

lemma rejectsD: "rejects x \<Longrightarrow> x = Some r \<Longrightarrow> denial r"
  by (simp add: rejects_def)

lemma rejects_Nil: "rejects (first_failure [])"
  by (simp add: rejects_def)

lemma rejects_Cons: "rejects x \<Longrightarrow> rejects (first_failure xs) \<Longrightarrow> rejects (first_failure (x # xs))"
  by (auto simp: rejects_def split: option.splits)

lemma rejects_None: "rejects None"
  by (simp add: rejects_def)

lemma rejects_Some: "denial r \<Longrightarrow> rejects (Some r)"
  by (simp add: rejects_def)

lemma rejects_fail_if: "denial r \<Longrightarrow> rejects (fail_if b r)"
  by (simp add: rejects_def)

lemma rejects_map: "(\<And>e. denial (f e)) \<Longrightarrow> rejects (map_option f x)"
  by (auto simp: rejects_def)

lemma rejects_find: "(\<And>i x. rejects (f i x)) \<Longrightarrow> rejects (find_failure f k xs)"
  by (auto simp: rejects_def dest: find_failure_Some)

lemmas rejects_rules =
  rejects_Nil rejects_Cons rejects_None rejects_Some rejects_fail_if rejects_map rejects_find
  denial_failures

lemma rejects_evaluate: "rejects (evaluate_cert_constraints P opts now i cert)"
  unfolding evaluate_cert_constraints_def by (intro rejects_rules)

lemma rejects_preliminary: "rejects (preliminary_failure opts b)"
  unfolding preliminary_failure_def structure_failure_def bounds_failure_def session_failure_def
    cert_bounds_failure_def
  by (intro rejects_rules)

lemma rejects_stream: "rejects (stream_failure noun sid n ctx)"
proof -
  have "rejects (stream_context_failure noun sid n st)" for st
    unfolding stream_context_failure_def Let_def by (intro rejects_rules)
  then show ?thesis
    unfolding stream_failure_def
    by (intro rejects_rules) (simp split: option.split add: rejects_fail_if denial_failures)
qed

lemma rejects_cert: "rejects (cert_failure P opts now b i cert)"
proof -
  have "rejects (revocation_failure opts b i cert)"
    by (auto simp: revocation_failure_def intro: rejects_rules
        split: option.split sum.split bool.split)
  moreover have "rejects (linkage_failure b i cert)"
  proof (cases "i + 1 < length (pb_delegations b)")
    case True
    then show ?thesis
      unfolding linkage_failure_def Let_def by (simp only: if_True) (intro rejects_rules)
  qed (simp add: linkage_failure_def rejects_None)
  moreover have "rejects (case vo_challenge_store opts of
      None \<Rightarrow> evaluate_cert_constraints P opts now i cert | Some _ \<Rightarrow> None)"
    by (simp add: rejects_evaluate rejects_None split: option.split)
  ultimately show ?thesis
    unfolding cert_failure_def by (intro rejects_rules)
qed

lemma rejects_liveness: "rejects (liveness_failure P now c t x sid n sg pk)"
  unfolding liveness_failure_def Let_def by (intro rejects_rules)

lemma rejects_presentation: "rejects (presentation_failure P opts now b)"
  unfolding presentation_failure_def identity_failure_def revocation_config_failure_def
    chain_failure_def bundle_liveness_failure_def
  by (intro rejects_rules rejects_stream rejects_cert rejects_liveness)

section \<open>Authorization\<close>

lemma success_valid [simp]: "vr_valid (success_result opts b)"
  by (simp add: success_result_def)

lemma deferred_None:
  "deferred_constraint_failure P opts now b = None \<longleftrightarrow>
     (vo_challenge_store opts \<noteq> None \<longrightarrow> (\<forall>cert\<in>set (pb_delegations b). constraints_hold P opts now cert))"
  by (auto simp: deferred_constraint_failure_def find_failure_None evaluate_cert_constraints_None
      all_set_conv_all_nth split: option.split)

lemma scope_failure_None:
  "scope_failure opts b = None \<longleftrightarrow>
     vo_required_scope opts = '''' \<or> vo_required_scope opts \<in> set (effective_scope b)"
  by (auto simp: scope_failure_def)

lemma cached_policy_eq:
  "cached_policy P opts now b =
    (case cached_verdict P opts now b of
       None \<Rightarrow> None
     | Some r \<Rightarrow> if is_ok r then Some (success_result opts b)
         else if cached_deny r then Some (fail_with_status ''scope_denied''
           ''policy verdict (cached) denied access'') else None)"
  by (auto simp: cached_policy_def cached_verdict_def cached_deny_def verifier_context_hash_def
      split: option.split sum.split)

lemma rejects_live_policy: "rejects (live_policy opts b)"
  by (auto simp: live_policy_def intro: rejects_rules split: option.split sum.split bool.split)

lemma live_policy_None: "live_policy opts b = None \<longleftrightarrow> live_policy_allows opts b"
  by (auto simp: live_policy_def live_policy_allows_def split: option.split sum.split bool.split)

lemma policy_gate:
  fixes P :: prims and opts :: "'s verify_options" and now :: int and b :: proof_bundle
  defines "r \<equiv> unwrap_or (first_failure [cached_policy P opts now b, live_policy opts b])
    (success_result opts b)"
  shows "vr_valid r \<longleftrightarrow> policy_allows P opts now b" and "r = success_result opts b \<or> denial r"
proof -
  have live: "live_policy opts b = Some y \<Longrightarrow> \<not> vr_valid y" for y
    using rejects_live_policy rejectsD denial_not_valid by blast
  show "vr_valid r \<longleftrightarrow> policy_allows P opts now b"
    using live live_policy_None [of opts b] denial_failures(2) [THEN denial_not_valid]
    unfolding r_def
    by (cases "live_policy opts b"; cases "cached_verdict P opts now b")
      (auto simp: cached_policy_eq policy_allows_def)
  show "r = success_result opts b \<or> denial r"
    using rejects_live_policy [of opts b]
    unfolding r_def
    by (auto simp: cached_policy_eq denial_failures split: option.splits dest: rejectsD)
qed

lemma authorize_eq:
  "authorize P opts now b =
     (case first_failure [deferred_constraint_failure P opts now b, scope_failure opts b] of
        Some r \<Rightarrow> r
      | None \<Rightarrow> unwrap_or (first_failure [cached_policy P opts now b, live_policy opts b])
          (success_result opts b))"
  by (auto simp: authorize_def split: option.split)

lemma rejects_gate:
  "rejects (first_failure [deferred_constraint_failure P opts now b, scope_failure opts b])"
  unfolding scope_failure_def deferred_constraint_failure_def
  by (intro rejects_rules) (simp add: rejects_find rejects_evaluate rejects_None split: option.split)

lemma authorize_valid:
  assumes "vo_challenge_store opts = None \<longrightarrow> (\<forall>cert\<in>set (pb_delegations b). constraints_hold P opts now cert)"
  shows "vr_valid (authorize P opts now b) \<longleftrightarrow> authorized_bundle P opts now b"
proof -
  let ?pre = "first_failure [deferred_constraint_failure P opts now b, scope_failure opts b]"
  have "?pre = None \<longleftrightarrow> (\<forall>cert\<in>set (pb_delegations b). constraints_hold P opts now cert)
      \<and> (vo_required_scope opts = '''' \<or> vo_required_scope opts \<in> set (effective_scope b))"
    using assms unfolding first_failure_None
    by (auto simp: deferred_None scope_failure_None)
  with rejects_gate [of P opts now b] policy_gate [of P opts now b] show ?thesis
    unfolding authorize_eq authorized_bundle_def
    by (cases ?pre) (auto simp del: first_failure.simps dest: rejectsD denial_not_valid)
qed

text \<open>A valid result is the success result: identity of the chain, intersection of the scopes.\<close>

lemma authorize_result:
  "authorize P opts now b = success_result opts b \<or> denial (authorize P opts now b)"
  using rejects_gate [of P opts now b] policy_gate(2) [of P opts now b]
  unfolding authorize_eq
  by (cases "first_failure [deferred_constraint_failure P opts now b, scope_failure opts b]")
    (auto simp del: first_failure.simps dest: rejectsD)

section \<open>The verifier meets the specification\<close>

definition challenge_accepted ::
  "'s challenge_store option \<Rightarrow> bytes \<Rightarrow> bytes \<Rightarrow> int \<Rightarrow> 's \<Rightarrow> bool" where
  "challenge_accepted store challenge session_context now s =
     (case store of
        None \<Rightarrow> True
      | Some cs \<Rightarrow>
          is_ok (fst (cs_validate cs challenge session_context now s))
          \<and> is_ok (fst (cs_consume cs challenge session_context now
              (snd (cs_validate cs challenge session_context now s)))))"

definition store_accepts :: "'s verify_options \<Rightarrow> int \<Rightarrow> proof_bundle \<Rightarrow> 's \<Rightarrow> bool" where
  "store_accepts opts now b s =
     challenge_accepted (vo_challenge_store opts) (pb_challenge b) (vo_session_context opts) now s"

lemma challenge_accepted_iff:
  assumes "locate_challenge store c x now s = (r1, s1)"
    and "consume_challenge store c x now s1 = (r2, s2)"
  shows "r1 = None \<and> r2 = None \<longleftrightarrow> challenge_accepted store c x now s"
    and "rejects r1" "rejects r2"
  using assms denial_failures(5)
  by (auto simp: locate_challenge_def consume_challenge_def store_call_def challenge_accepted_def
      rejects_def is_ok_iff split: option.splits prod.splits)

abbreviation verify_time :: "'s verify_options \<Rightarrow> int \<Rightarrow> int" where
  "verify_time opts clock \<equiv> unwrap_or (vo_now opts) clock"

lemma store_call_None:
  "store_call store call s = (None, s') \<longleftrightarrow>
     (case store of None \<Rightarrow> s' = s | Some cs \<Rightarrow> is_ok (fst (call cs s)) \<and> s' = snd (call cs s))"
  by (auto simp: store_call_def is_ok_iff split: option.splits prod.splits)

lemma store_call_Some: "store_call store call s = (Some r, s') \<Longrightarrow> r = unknown_challenge"
  by (auto simp: store_call_def split: option.splits prod.splits)

lemma verify_bundle_inner_valid:
  "vr_valid (fst (verify_bundle_inner P b opts clock s)) \<longleftrightarrow>
     well_formed_bundle opts b \<and> authentic_bundle P opts (verify_time opts clock) b
     \<and> authorized_bundle P opts (verify_time opts clock) b
     \<and> store_accepts opts (verify_time opts clock) b s"
proof (cases "preliminary_failure opts b")
  case (Some r)
  with rejects_preliminary [of opts b] preliminary_failure_None [of opts b] show ?thesis
    by (auto simp: verify_bundle_inner_def dest: rejectsD denial_not_valid)
next
  case None
  let ?now = "verify_time opts clock"
  have wf: "well_formed_bundle opts b" using None preliminary_failure_None by blast
  then have ctx: "pb_session_context b = [] \<or> length (pb_session_context b) = 32"
    by (auto simp: well_formed_bundle_def)
  note pres = presentation_failure_None [OF ctx, of P opts ?now]
  obtain x s1 where loc: "locate_challenge (vo_challenge_store opts) (pb_challenge b)
      (vo_session_context opts) ?now s = (x, s1)" by fastforce
  obtain y s2 where con: "consume_challenge (vo_challenge_store opts) (pb_challenge b)
      (vo_session_context opts) ?now s1 = (y, s2)" by fastforce
  have store: "x = None \<and> y = None \<longleftrightarrow> store_accepts opts ?now b s"
    unfolding store_accepts_def by (rule challenge_accepted_iff [OF loc con])
  have "rejects x" "rejects y" using challenge_accepted_iff [OF loc con] by simp_all
  then have "vr_valid (fst (verify_bundle_inner P b opts clock s)) \<longleftrightarrow>
      x = None \<and> y = None \<and> presentation_failure P opts ?now b = None
      \<and> vr_valid (authorize P opts ?now b)"
    using None loc con rejects_presentation [of P opts ?now b]
    by (auto simp: verify_bundle_inner_def Let_def split: option.splits
        dest: rejectsD denial_not_valid)
  with wf store pres authorize_valid [of opts b P ?now] show ?thesis
    by (auto simp: authorized_bundle_def)
qed

text \<open>The result is the success result, with everything it carries, or it grants nothing.\<close>

lemma verify_bundle_inner_result:
  "fst (verify_bundle_inner P b opts clock s) = success_result opts b
     \<or> denial (fst (verify_bundle_inner P b opts clock s))"
  using rejects_preliminary [of opts b] rejects_presentation [of P opts "verify_time opts clock" b]
    authorize_result [of P opts "verify_time opts clock" b] denial_failures(5)
  by (auto simp: verify_bundle_inner_def Let_def locate_challenge_def consume_challenge_def
      split: option.split prod.split dest: rejectsD store_call_Some)

lemma verify_bundle_eq:
  "fst (verify_bundle P b opts clock s) = fst (verify_bundle_inner P b opts clock s)"
  "fst (snd (verify_bundle P b opts clock s)) = snd (verify_bundle_inner P b opts clock s)"
  "snd (snd (verify_bundle P b opts clock s)) =
     (if vo_audit opts then [(fst (verify_bundle P b opts clock s), b)] else [])"
  by (simp_all add: verify_bundle_def split: prod.split)

text \<open>No section looks at the audit hook.\<close>

lemma context_text_resource:
  "context_text P (ctx\<lparr>vc_requested_resource_id := rid, vc_requested_path := path\<rparr>) = context_text P ctx"
  by (cases ctx) (simp add: context_text_def)

lemmas options_convs = verify_options.select_convs verify_options.update_convs

lemma audit_ignored:
  "preliminary_failure (opts\<lparr>vo_audit := a\<rparr>) b = preliminary_failure opts b"
  "success_result (opts\<lparr>vo_audit := a\<rparr>) b = success_result opts b"
  "evaluate_cert_constraints P (opts\<lparr>vo_audit := a\<rparr>) now i c = evaluate_cert_constraints P opts now i c"
  "revocation_failure (opts\<lparr>vo_audit := a\<rparr>) b i c = revocation_failure opts b i c"
  "revocation_config_failure (opts\<lparr>vo_audit := a\<rparr>) = revocation_config_failure opts"
  by (cases opts, hypsubst, unfold preliminary_failure_def success_result_def resolve_anchor_def
      evaluate_cert_constraints_def revocation_failure_def revocation_config_failure_def
      options_convs, rule refl)+

lemma audit_ignored_chain:
  "cert_failure P (opts\<lparr>vo_audit := a\<rparr>) now b i c = cert_failure P opts now b i c"
  unfolding cert_failure_def audit_ignored
  by (cases opts, hypsubst, unfold options_convs, rule refl)

lemma audit_ignored_presentation:
  "presentation_failure P (opts\<lparr>vo_audit := a\<rparr>) now b = presentation_failure P opts now b"
proof -
  have "cert_failure P (opts\<lparr>vo_audit := a\<rparr>) now b = cert_failure P opts now b"
    by (simp add: fun_eq_iff audit_ignored_chain)
  then show ?thesis
    unfolding presentation_failure_def chain_failure_def audit_ignored
    by (cases opts, hypsubst, unfold options_convs, simp)
qed

lemma audit_ignored_authorize:
  "authorize P (opts\<lparr>vo_audit := a\<rparr>) now b = authorize P opts now b"
proof -
  have "evaluate_cert_constraints P (opts\<lparr>vo_audit := a\<rparr>) now = evaluate_cert_constraints P opts now"
    by (simp add: fun_eq_iff audit_ignored)
  then show ?thesis
    unfolding authorize_def deferred_constraint_failure_def scope_failure_def cached_policy_def
      live_policy_def audit_ignored
    by (cases opts, hypsubst, unfold options_convs, simp)
qed

lemma verify_bundle_inner_audit:
  "verify_bundle_inner P b (opts\<lparr>vo_audit := a\<rparr>) clock s = verify_bundle_inner P b opts clock s"
  unfolding verify_bundle_inner_def audit_ignored audit_ignored_presentation
    audit_ignored_authorize
  by (cases opts, hypsubst, unfold options_convs, rule refl)

section \<open>Machine arithmetic\<close>

lemma fresh_iff:
  assumes "0 \<le> now" "i64_range now" "i64_range t"
  shows "fresh now t \<longleftrightarrow> 0 \<le> now - t \<and> now - t \<le> CHALLENGE_WINDOW_SECONDS"
proof (cases "i64_range (now - t)")
  case True
  then show ?thesis by (simp add: fresh_def i64_sub_def i64_wrap_id)
next
  case False
  with assms have "2 ^ 63 \<le> now - t" "now - t < 2 ^ 64" by (auto simp: i64_range_def)
  moreover have "(now - t + 2 ^ 63) mod 2 ^ 64 = (now - t - 2 ^ 63) mod 2 ^ 64"
    using mod_add_self2 [of "now - t - 2 ^ 63" "2 ^ 64"] by (simp add: algebra_simps)
  moreover have "(now - t - 2 ^ 63) mod 2 ^ 64 = now - t - 2 ^ 63"
    using calculation(1,2) by (intro mod_pos_pos_trivial) simp_all
  ultimately show ?thesis
    by (simp add: fresh_def i64_sub_def i64_wrap_def CHALLENGE_WINDOW_SECONDS_def)
qed

lemma stream_bound_next:
  assumes "stream_bound sid n (Some st)" "i64_range (sc_last_seen_seq st)"
  shows "n = sc_last_seen_seq st + 1"
proof (cases "i64_range (sc_last_seen_seq st + 1)")
  case True
  with assms show ?thesis by (simp add: stream_bound_def i64_add_def i64_wrap_id)
next
  case False
  with assms(2) have "sc_last_seen_seq st = 2 ^ 63 - 1" by (auto simp: i64_range_def)
  with assms(1) show ?thesis by (simp add: stream_bound_def i64_add_def i64_wrap_def)
qed

end
