(* ===== verification/V1_Streamed.thy ===== *)
theory V1_Streamed
  imports V1_Verify_Spec
begin

text \<open>
  Streamed turns (\<open>verify_streamed_turn_with_options\<close> and the deprecated
  \<open>verify_streamed_turn\<close> in \<open>sdks/rust/src/verify.rs\<close>): one turn against a session token, with
  the verifier-side controls of \<open>StreamedVerifyOptions\<close>.
\<close>

section \<open>The verifier\<close>

record streamed_turn =
  tu_challenge :: bytes
  tu_challenge_at :: int
  tu_challenge_sig :: hybrid_signature
  tu_session_context :: bytes
  tu_stream_id :: bytes
  tu_stream_seq :: int

record 's streamed_verify_options =
  so_required_scope :: string
  so_challenge_store :: "'s challenge_store option"
  so_session_context :: bytes
  so_stream :: "stream_context option"
  so_now :: "int option"

definition token_failure :: "prims \<Rightarrow> session_token \<Rightarrow> bytes \<Rightarrow> int \<Rightarrow> verify_result option" where
  "token_failure P token session_secret now =
     map_option (invalid ''session_token_invalid'')
       (err_opt (verify_session_token_e P token session_secret now))"

definition turn_challenge_failure :: "bytes \<Rightarrow> verify_result option" where
  "turn_challenge_failure challenge =
     fail_if (challenge = []) (invalid ''no_challenge'' ''streamed turn contains no challenge'')"

definition turn_session_failure ::
  "streamed_turn \<Rightarrow> 's streamed_verify_options \<Rightarrow> verify_result option" where
  "turn_session_failure turn opts =
     session_failure ''turn'' (tu_session_context turn) (so_session_context opts)"

definition turn_stream_failure ::
  "streamed_turn \<Rightarrow> 's streamed_verify_options \<Rightarrow> verify_result option" where
  "turn_stream_failure turn opts =
     stream_failure ''turn'' (tu_stream_id turn) (tu_stream_seq turn) (so_stream opts)"

definition turn_liveness_failure ::
  "prims \<Rightarrow> session_token \<Rightarrow> int \<Rightarrow> streamed_turn \<Rightarrow> verify_result option" where
  "turn_liveness_failure P token now turn =
     liveness_failure P now (tu_challenge turn) (tu_challenge_at turn) (tu_session_context turn)
       (tu_stream_id turn) (tu_stream_seq turn) (tu_challenge_sig turn) (st_agent_pub_key token)"

definition turn_scope_failure ::
  "session_token \<Rightarrow> 's streamed_verify_options \<Rightarrow> verify_result option" where
  "turn_scope_failure token opts =
     fail_if (so_required_scope opts \<noteq> '''' \<and> so_required_scope opts \<notin> set (st_granted_scope token))
       (fail_with_status ''scope_denied'' (''required scope '' @ quoted (so_required_scope opts) @
          '' not in session token granted scope''))"

definition turn_success :: "session_token \<Rightarrow> verify_result" where
  "turn_success token =
     \<lparr>vr_valid = True, vr_identity_status = AuthorizedAgent, vr_human_id = st_human_id token,
      vr_agent_id = st_agent_id token, vr_agent_name = '''', vr_agent_type = '''',
      vr_granted_scope = st_granted_scope token, vr_error_reason = '''', vr_anchor = None\<rparr>"

definition verify_streamed_turn_with_options ::
  "prims \<Rightarrow> session_token \<Rightarrow> bytes \<Rightarrow> streamed_turn \<Rightarrow> 's streamed_verify_options \<Rightarrow> int \<Rightarrow> 's
    \<Rightarrow> verify_result \<times> 's" where
  "verify_streamed_turn_with_options P token session_secret turn opts clock s =
     (let now = unwrap_or (so_now opts) clock in
      case first_failure [token_failure P token session_secret now,
          turn_challenge_failure (tu_challenge turn), turn_session_failure turn opts] of
        Some r \<Rightarrow> (r, s)
      | None \<Rightarrow>
          (case locate_challenge (so_challenge_store opts) (tu_challenge turn)
              (so_session_context opts) now s of
             (Some r, s1) \<Rightarrow> (r, s1)
           | (None, s1) \<Rightarrow>
               (case first_failure [turn_stream_failure turn opts,
                    turn_liveness_failure P token now turn] of
                  Some r \<Rightarrow> (r, s1)
                | None \<Rightarrow>
                    (case consume_challenge (so_challenge_store opts) (tu_challenge turn)
                        (so_session_context opts) now s1 of
                       (Some r, s2) \<Rightarrow> (r, s2)
                     | (None, s2) \<Rightarrow>
                         (unwrap_or (turn_scope_failure token opts) (turn_success token), s2)))))"

definition verify_streamed_turn ::
  "prims \<Rightarrow> session_token \<Rightarrow> bytes \<Rightarrow> bytes \<Rightarrow> int \<Rightarrow> hybrid_signature \<Rightarrow> bytes \<Rightarrow> bytes \<Rightarrow> int \<Rightarrow> int
    \<Rightarrow> verify_result" where
  "verify_streamed_turn P token session_secret challenge challenge_at challenge_sig
       session_context stream_id stream_seq now =
     unwrap_or (first_failure [
       token_failure P token session_secret now,
       turn_challenge_failure challenge,
       fail_if (session_context \<noteq> [] \<and> length session_context \<noteq> 32)
         (invalid ''invalid_session_context''
           (''session_context must be 32 bytes, got '' @ dec_nat (length session_context))),
       fail_if (stream_id \<noteq> [] \<and> length stream_id \<noteq> 32)
         (invalid ''invalid_stream_id''
           (''stream_id must be 32 bytes, got '' @ dec_nat (length stream_id))),
       fail_if (stream_id \<noteq> [] \<and> stream_seq < 1)
         (invalid ''invalid_stream_seq'' (''stream_seq must be >=1, got '' @ dec_int stream_seq)),
       liveness_failure P now challenge challenge_at session_context stream_id stream_seq
         challenge_sig (st_agent_pub_key token)])
     (turn_success token)"

section \<open>What an accepted turn establishes\<close>

definition turn_authentic ::
  "prims \<Rightarrow> session_token \<Rightarrow> bytes \<Rightarrow> 's streamed_verify_options \<Rightarrow> int \<Rightarrow> streamed_turn \<Rightarrow> bool" where
  "turn_authentic P token session_secret opts now turn \<longleftrightarrow>
     verify_session_token P token session_secret now
     \<and> tu_challenge turn \<noteq> []
     \<and> tu_session_context turn = so_session_context opts
     \<and> (so_session_context opts = [] \<or> length (so_session_context opts) = 32)
     \<and> stream_bound (tu_stream_id turn) (tu_stream_seq turn) (so_stream opts)
     \<and> fresh now (tu_challenge_at turn)
     \<and> is_ok (verify_both P (challenge_sign_bytes_with_stream (tu_challenge turn)
           (tu_challenge_at turn) (tu_session_context turn) (tu_stream_id turn) (tu_stream_seq turn))
         (tu_challenge_sig turn) (st_agent_pub_key token))"

definition turn_in_scope :: "session_token \<Rightarrow> 's streamed_verify_options \<Rightarrow> bool" where
  "turn_in_scope token opts \<longleftrightarrow>
     so_required_scope opts = [] \<or> so_required_scope opts \<in> set (st_granted_scope token)"

abbreviation turn_time :: "'s streamed_verify_options \<Rightarrow> int \<Rightarrow> int" where
  "turn_time opts clock \<equiv> unwrap_or (so_now opts) clock"

lemma rejects_turn:
  "rejects (first_failure [token_failure P token secret now,
     turn_challenge_failure c, turn_session_failure turn opts])"
  "rejects (first_failure [turn_stream_failure turn opts, turn_liveness_failure P token now turn])"
  "rejects (turn_scope_failure token opts)"
  unfolding token_failure_def turn_challenge_failure_def turn_session_failure_def
    session_failure_def turn_stream_failure_def turn_liveness_failure_def turn_scope_failure_def
  by (intro rejects_rules rejects_stream rejects_liveness)+

lemma turn_checks_None:
  "first_failure [token_failure P token secret now, turn_challenge_failure (tu_challenge turn),
      turn_session_failure turn opts] = None
    \<and> first_failure [turn_stream_failure turn opts, turn_liveness_failure P token now turn] = None
   \<longleftrightarrow> turn_authentic P token secret opts now turn"
  unfolding first_failure_None turn_authentic_def
  by (auto simp: token_failure_def turn_challenge_failure_def turn_session_failure_def
      turn_stream_failure_def turn_liveness_failure_def section_simps challenge_signature_ok
      verify_session_token_def err_opt_None_iff stream_bound_def split: option.splits)

lemma verify_streamed_valid:
  "vr_valid (fst (verify_streamed_turn_with_options P token secret turn opts clock s)) \<longleftrightarrow>
     turn_authentic P token secret opts (turn_time opts clock) turn \<and> turn_in_scope token opts
     \<and> challenge_accepted (so_challenge_store opts) (tu_challenge turn) (so_session_context opts)
         (turn_time opts clock) s"
proof -
  let ?now = "turn_time opts clock"
  let ?pre = "first_failure [token_failure P token secret ?now,
      turn_challenge_failure (tu_challenge turn), turn_session_failure turn opts]"
  let ?mid = "first_failure [turn_stream_failure turn opts, turn_liveness_failure P token ?now turn]"
  obtain x s1 where loc: "locate_challenge (so_challenge_store opts) (tu_challenge turn)
      (so_session_context opts) ?now s = (x, s1)" by fastforce
  obtain y s2 where con: "consume_challenge (so_challenge_store opts) (tu_challenge turn)
      (so_session_context opts) ?now s1 = (y, s2)" by fastforce
  have scope: "vr_valid (unwrap_or (turn_scope_failure token opts) (turn_success token))
      \<longleftrightarrow> turn_in_scope token opts"
    using denial_failures(2) [THEN denial_not_valid]
    by (auto simp: turn_scope_failure_def turn_in_scope_def fail_if_def turn_success_def)
  have "vr_valid (fst (verify_streamed_turn_with_options P token secret turn opts clock s)) \<longleftrightarrow>
      ?pre = None \<and> ?mid = None \<and> x = None \<and> y = None \<and> turn_in_scope token opts"
    unfolding verify_streamed_turn_with_options_def Let_def loc scope [symmetric]
    using con rejects_turn(1) [of P token secret ?now "tu_challenge turn" turn opts]
      rejects_turn(2) [of turn opts P token ?now] challenge_accepted_iff(2,3) [OF loc con]
    by (cases ?pre; cases ?mid; cases x; cases y)
      (auto simp del: first_failure.simps dest: rejectsD denial_not_valid)
  with turn_checks_None [of P token secret ?now turn opts] challenge_accepted_iff(1) [OF loc con]
  show ?thesis by blast
qed

lemma verify_streamed_result:
  "fst (verify_streamed_turn_with_options P token secret turn opts clock s) = turn_success token
     \<or> denial (fst (verify_streamed_turn_with_options P token secret turn opts clock s))"
proof -
  let ?now = "turn_time opts clock"
  obtain x s1 where loc: "locate_challenge (so_challenge_store opts) (tu_challenge turn)
      (so_session_context opts) ?now s = (x, s1)" by fastforce
  obtain y s2 where con: "consume_challenge (so_challenge_store opts) (tu_challenge turn)
      (so_session_context opts) ?now s1 = (y, s2)" by fastforce
  show ?thesis
    unfolding verify_streamed_turn_with_options_def Let_def loc
    using con rejects_turn(1) [of P token secret ?now "tu_challenge turn" turn opts]
      rejects_turn(2) [of turn opts P token ?now] rejects_turn(3) [of token opts]
      challenge_accepted_iff(2,3) [OF loc con]
    by (cases "turn_scope_failure token opts")
      (auto simp del: first_failure.simps split: option.split dest: rejectsD)
qed

end
