(* ===== verification/V1_Verify_Store.thy ===== *)
theory V1_Verify_Store
  imports V1_Streamed
begin

text \<open>
  The verifier as a client of the challenge store.  The lemmas are proved once for every store
  that keeps \<open>challenge_store_laws\<close>, and hold for the in-memory store through its interpretation.
\<close>

section \<open>Runs\<close>

text \<open>A verifier's run: challenges are issued, presentations are verified, in any order.\<close>

datatype 's verifier_event =
    EvIssue bytes int int bytes
  | EvPresent proof_bundle "'s verify_options" int
  | EvTurn session_token bytes streamed_turn "'s streamed_verify_options" int

definition event_step ::
  "(bytes \<Rightarrow> int \<Rightarrow> int \<Rightarrow> bytes \<Rightarrow> 's \<Rightarrow> (bytes \<times> int) rresult \<times> 's) \<Rightarrow> 's challenge_store \<Rightarrow> prims
    \<Rightarrow> 's \<Rightarrow> 's verifier_event \<Rightarrow> bool \<times> 's" where
  "event_step issue store P s ev =
     (case ev of
        EvIssue x ttl now c \<Rightarrow> apfst is_ok (issue x ttl now c s)
      | EvPresent b opts clock \<Rightarrow>
          (case verify_bundle P b (opts\<lparr>vo_challenge_store := Some store\<rparr>) clock s of
             (r, s', _) \<Rightarrow> (vr_valid r, s'))
      | EvTurn token secret turn opts clock \<Rightarrow>
          apfst vr_valid (verify_streamed_turn_with_options P token secret turn
            (opts\<lparr>so_challenge_store := Some store\<rparr>) clock s))"

definition presents_key :: "(bytes \<Rightarrow> string) \<Rightarrow> string \<Rightarrow> 's verifier_event \<Rightarrow> bool" where
  "presents_key key k ev = 
     (case ev of EvPresent b opts clock \<Rightarrow> key (pb_challenge b) = k
      | EvTurn token secret turn opts clock \<Rightarrow> key (tu_challenge turn) = k | _ \<Rightarrow> False)"

definition event_issues_key :: "(bytes \<Rightarrow> string) \<Rightarrow> string \<Rightarrow> 's verifier_event \<Rightarrow> bool" where
  "event_issues_key key k ev = (case ev of EvIssue x ttl now c \<Rightarrow> key c = k | _ \<Rightarrow> False)"

section \<open>What one verification does to the store\<close>

lemma store_call_state:
  "snd (store_call (Some cs) call s) = snd (call cs s)"
  "fst (store_call (Some cs) call s) = None \<longleftrightarrow> is_ok (fst (call cs s))"
  by (simp_all add: store_call_def is_ok_iff split: prod.split)

lemma verify_state:
  fixes b opts clock s P
  defines "now \<equiv> verify_time opts clock"
  assumes "vo_challenge_store opts = Some cs"
  defines "s1 \<equiv> snd (cs_validate cs (pb_challenge b) (vo_session_context opts) now s)"
    and "s2 \<equiv> snd (cs_consume cs (pb_challenge b) (vo_session_context opts) now
          (snd (cs_validate cs (pb_challenge b) (vo_session_context opts) now s)))"
  shows "snd (verify_bundle_inner P b opts clock s) =
    (if preliminary_failure opts b \<noteq> None then s
     else if is_err (fst (cs_validate cs (pb_challenge b) (vo_session_context opts) now s))
       \<or> presentation_failure P opts now b \<noteq> None then s1
     else s2)"
  using assms(2)
  by (auto simp: verify_bundle_inner_def Let_def locate_challenge_def consume_challenge_def
      store_call_def s1_def s2_def now_def is_ok_iff split: option.split prod.split)

lemma turn_state:
  fixes turn opts clock s P token secret
  defines "now \<equiv> turn_time opts clock"
  assumes "so_challenge_store opts = Some cs"
  shows "snd (verify_streamed_turn_with_options P token secret turn opts clock s) \<in>
      {s, snd (cs_validate cs (tu_challenge turn) (so_session_context opts) now s),
       snd (cs_consume cs (tu_challenge turn) (so_session_context opts) now
          (snd (cs_validate cs (tu_challenge turn) (so_session_context opts) now s)))}"
    and "vr_valid (fst (verify_streamed_turn_with_options P token secret turn opts clock s)) \<Longrightarrow>
      snd (verify_streamed_turn_with_options P token secret turn opts clock s) =
       snd (cs_consume cs (tu_challenge turn) (so_session_context opts) now
          (snd (cs_validate cs (tu_challenge turn) (so_session_context opts) now s)))"
proof -
  let ?pre = "first_failure [token_failure P token secret now,
      turn_challenge_failure (tu_challenge turn), turn_session_failure turn opts]"
  let ?mid = "first_failure [turn_stream_failure turn opts, turn_liveness_failure P token now turn]"
  obtain r1 s1 where v: "cs_validate cs (tu_challenge turn) (so_session_context opts) now s = (r1, s1)"
    by fastforce
  obtain r2 s2 where c: "cs_consume cs (tu_challenge turn) (so_session_context opts) now s1 = (r2, s2)"
    by fastforce
  note eqs = verify_streamed_turn_with_options_def Let_def locate_challenge_def
    consume_challenge_def store_call_def assms(2) now_def [symmetric] v c
  show "snd (verify_streamed_turn_with_options P token secret turn opts clock s) \<in>
      {s, snd (cs_validate cs (tu_challenge turn) (so_session_context opts) now s),
       snd (cs_consume cs (tu_challenge turn) (so_session_context opts) now
          (snd (cs_validate cs (tu_challenge turn) (so_session_context opts) now s)))}"
    by (cases ?pre; cases ?mid)
      (auto simp: eqs simp del: first_failure.simps split: option.split)
  assume "vr_valid (fst (verify_streamed_turn_with_options P token secret turn opts clock s))"
  then have "turn_authentic P token secret opts now turn" "is_ok r1"
    by (simp_all add: verify_streamed_valid challenge_accepted_def assms(2) now_def [symmetric] v)
  then show "snd (verify_streamed_turn_with_options P token secret turn opts clock s) =
       snd (cs_consume cs (tu_challenge turn) (so_session_context opts) now
          (snd (cs_validate cs (tu_challenge turn) (so_session_context opts) now s)))"
    using turn_checks_None [of P token secret now turn opts]
    by (auto simp: eqs fail_if_def is_ok_iff simp del: first_failure.simps split: option.split)
qed

context challenge_store_laws
begin

abbreviation store :: "'s challenge_store" where
  "store \<equiv> \<lparr>cs_validate = validate, cs_consume = consume\<rparr>"

lemma verify_cases:
  assumes "vo_challenge_store opts = Some store"
  obtains "snd (verify_bundle_inner P b opts clock s) = s"
  | "snd (verify_bundle_inner P b opts clock s) =
      snd (validate (pb_challenge b) (vo_session_context opts) (verify_time opts clock) s)"
  | "snd (verify_bundle_inner P b opts clock s) =
      snd (consume (pb_challenge b) (vo_session_context opts) (verify_time opts clock)
        (snd (validate (pb_challenge b) (vo_session_context opts) (verify_time opts clock) s)))"
      and "presentation_failure P opts (verify_time opts clock) b = None"
  using verify_state [OF assms, of P b clock s] that by (auto split: if_splits)

lemma inv_verify:
  assumes "vo_challenge_store opts = Some store" "inv s"
  shows "inv (snd (verify_bundle_inner P b opts clock s))"
  by (rule verify_cases [OF assms(1), of P b clock s])
    (simp_all add: assms(2) inv_validate inv_consume)

text \<open>Verification never adds a pending challenge.\<close>

lemma verify_only:
  assumes "vo_challenge_store opts = Some store" "inv s"
  shows "pending (snd (verify_bundle_inner P b opts clock s)) \<subseteq>\<^sub>m pending s"
proof (rule verify_cases [OF assms(1), of P b clock s])
  assume "snd (verify_bundle_inner P b opts clock s) =
      snd (consume (pb_challenge b) (vo_session_context opts) (verify_time opts clock)
        (snd (validate (pb_challenge b) (vo_session_context opts) (verify_time opts clock) s)))"
  then show ?thesis
    using consume_only [OF inv_validate [OF assms(2)]] validate_only [OF assms(2)]
    by (metis map_le_trans)
qed (simp_all add: validate_only assms(2))

text \<open>An accepted presentation had a pending challenge, and has spent it.\<close>

lemma verify_spends:
  assumes "vo_challenge_store opts = Some store" "inv s"
    and "vr_valid (fst (verify_bundle_inner P b opts clock s))"
  shows "pending s (key (pb_challenge b)) \<noteq> None"
    and "pending (snd (verify_bundle_inner P b opts clock s)) (key (pb_challenge b)) = None"
proof -
  let ?now = "verify_time opts clock" and ?c = "pb_challenge b" and ?x = "vo_session_context opts"
  let ?s1 = "snd (validate ?c ?x ?now s)"
  have acc: "is_ok (fst (validate ?c ?x ?now s))" "is_ok (fst (consume ?c ?x ?now ?s1))"
    and wf: "well_formed_bundle opts b" "authentic_bundle P opts ?now b"
      "authorized_bundle P opts ?now b"
    using assms(3) by (simp_all add: verify_bundle_inner_valid store_accepts_def challenge_accepted_def assms(1))
  show "pending s (key ?c) \<noteq> None" using acc(1) validate_iff [OF assms(2)] by auto
  have "preliminary_failure opts b = None" using wf(1) preliminary_failure_None by blast
  moreover have "presentation_failure P opts ?now b = None"
    using presentation_failure_None [of b P opts ?now] wf
    by (auto simp: well_formed_bundle_def assms(1))
  ultimately have "snd (verify_bundle_inner P b opts clock s) = snd (consume ?c ?x ?now ?s1)"
    using verify_state [OF assms(1), of P b clock s] acc(1) by (simp add: is_ok_iff)
  then show "pending (snd (verify_bundle_inner P b opts clock s)) (key ?c) = None"
    using consume_removes [OF inv_validate [OF assms(2)] acc(2)] by simp
qed

text \<open>
  A presentation that is not authentic, whatever is wrong with it, leaves every unexpired pending
  challenge in place.
\<close>

lemma forged_keeps:
  assumes "vo_challenge_store opts = Some store" "inv s"
    and "\<not> authentic_bundle P opts (verify_time opts clock) b"
    and "pending s k = Some (x, e)" "verify_time opts clock \<le> e"
  shows "pending (snd (verify_bundle_inner P b opts clock s)) k = Some (x, e)"
proof -
  let ?now = "verify_time opts clock"
  have "preliminary_failure opts b \<noteq> None \<or> presentation_failure P opts ?now b \<noteq> None"
  proof (cases "preliminary_failure opts b")
    case None
    then have "pb_session_context b = [] \<or> length (pb_session_context b) = 32"
      using preliminary_failure_None [of opts b] by (auto simp: well_formed_bundle_def)
    with assms(3) show ?thesis by (simp add: presentation_failure_None)
  qed simp
  then show ?thesis
    using verify_state [OF assms(1), of P b clock s] assms(4,5) validate_keeps [OF assms(2,4,5)]
    by (auto split: if_splits)
qed

text \<open>Other challenges are never touched.\<close>

lemma verify_keeps_others:
  assumes "vo_challenge_store opts = Some store" "inv s"
    and "pending s k = Some (x, e)" "verify_time opts clock \<le> e" "k \<noteq> key (pb_challenge b)"
  shows "pending (snd (verify_bundle_inner P b opts clock s)) k = Some (x, e)"
  using assms(3) validate_keeps [OF assms(2,3,4)]
    consume_keeps [OF inv_validate [OF assms(2)] validate_keeps [OF assms(2,3,4)] assms(4)] assms(5)
  by (rule_tac verify_cases [OF assms(1), of P b clock s]) simp_all

text \<open>The same for streamed turns.\<close>

lemma turn_effect:
  assumes "so_challenge_store opts = Some store" "inv s"
  shows "inv (snd (verify_streamed_turn_with_options P token secret turn opts clock s))"
    and "pending (snd (verify_streamed_turn_with_options P token secret turn opts clock s))
      \<subseteq>\<^sub>m pending s"
proof -
  let ?c = "tu_challenge turn" and ?x = "so_session_context opts" and ?now = "turn_time opts clock"
  let ?s1 = "snd (validate ?c ?x ?now s)"
  have i1: "inv ?s1" using assms(2) by (rule inv_validate)
  have "pending (snd (consume ?c ?x ?now ?s1)) \<subseteq>\<^sub>m pending s"
    using consume_only [OF i1] validate_only [OF assms(2)] by (rule map_le_trans)
  then show "inv (snd (verify_streamed_turn_with_options P token secret turn opts clock s))"
    and "pending (snd (verify_streamed_turn_with_options P token secret turn opts clock s))
      \<subseteq>\<^sub>m pending s"
    using turn_state(1) [OF assms(1), of P token secret turn clock s] i1 inv_consume [OF i1]
      validate_only [OF assms(2)] assms(2) by auto
qed

lemma turn_spends:
  assumes "so_challenge_store opts = Some store" "inv s"
    and "vr_valid (fst (verify_streamed_turn_with_options P token secret turn opts clock s))"
  shows "pending s (key (tu_challenge turn)) \<noteq> None"
    and "pending (snd (verify_streamed_turn_with_options P token secret turn opts clock s))
      (key (tu_challenge turn)) = None"
proof -
  let ?c = "tu_challenge turn" and ?x = "so_session_context opts" and ?now = "turn_time opts clock"
  have acc: "is_ok (fst (validate ?c ?x ?now s))"
    "is_ok (fst (consume ?c ?x ?now (snd (validate ?c ?x ?now s))))"
    using assms(3) by (simp_all add: verify_streamed_valid challenge_accepted_def assms(1))
  then show "pending s (key ?c) \<noteq> None" using validate_iff [OF assms(2)] by auto
  show "pending (snd (verify_streamed_turn_with_options P token secret turn opts clock s))
      (key ?c) = None"
    using turn_state(2) [OF assms(1,3)] consume_removes [OF inv_validate [OF assms(2)] acc(2)]
    by simp
qed

text \<open>In every run each issued challenge is accepted at most once.\<close>

sublocale presentations: single_use "event_step issue store P" inv "\<lambda>s k. pending s k \<noteq> None"
  "presents_key key" "event_issues_key key" for P
proof
  fix s k and ev :: "'s verifier_event"
  assume inv: "inv s"
  let ?o = "\<lambda>opts. opts\<lparr>vo_challenge_store := Some store\<rparr>"
  let ?t = "\<lambda>opts. opts\<lparr>so_challenge_store := Some store\<rparr>"
  have present: "event_step issue store P s (EvPresent b opts clock) =
      (vr_valid (fst (verify_bundle_inner P b (?o opts) clock s)),
       snd (verify_bundle_inner P b (?o opts) clock s))" for b opts clock
    by (simp add: event_step_def verify_bundle_def split: prod.split)
  show "inv (snd (event_step issue store P s ev))"
  proof (cases ev)
    case (EvPresent b opts clock)
    then show ?thesis using inv_verify [OF _ inv] by (simp add: present)
  qed (simp_all add: event_step_def inv inv_issue turn_effect)
  show "pending s k \<noteq> None \<or> event_issues_key key k ev \<and> fst (event_step issue store P s ev)"
    if "pending (snd (event_step issue store P s ev)) k \<noteq> None"
  proof (cases ev)
    case (EvIssue x ttl now c)
    with that inv issue_only [of s x ttl now c k] show ?thesis
      by (auto simp: event_step_def event_issues_key_def)
  next
    case (EvPresent b opts clock)
    with that verify_only [of "?o opts" s P b clock] inv show ?thesis
      by (auto simp: present map_le_def dom_def)
  next
    case (EvTurn token secret turn opts clock)
    with that turn_effect(2) [of "?t opts" s P token secret turn clock] inv show ?thesis
      by (auto simp: event_step_def map_le_def dom_def)
  qed
  show "pending s k \<noteq> None \<and> \<not> pending (snd (event_step issue store P s ev)) k \<noteq> None"
    if "presents_key key k ev" "fst (event_step issue store P s ev)"
  proof (cases ev)
    case (EvPresent b opts clock)
    with that verify_spends [of "?o opts" s P b clock] inv show ?thesis
      by (auto simp: presents_key_def present)
  next
    case (EvTurn token secret turn opts clock)
    with that turn_spends [of "?t opts" s P token secret turn clock] inv show ?thesis
      by (auto simp: presents_key_def event_step_def)
  qed (use that in \<open>simp add: presents_key_def\<close>)
next
  fix k and ev :: "'s verifier_event"
  show "\<not> (presents_key key k ev \<and> event_issues_key key k ev)"
    by (cases ev) (simp_all add: presents_key_def event_issues_key_def)
qed

end

end
