(* ===== verification/V1_Wire.thy ===== *)
theory V1_Wire
  imports V1_Receipts
begin

text \<open>
  The wire decoders and the receipt codec (\<open>sdks/rust/src/wire.rs\<close>).  The JSON parser
  (\<open>serde_json::from_slice\<close> with the derived \<open>Deserialize\<close> instances) is a parameter of the
  decoders; the checks the code runs before and after it are modelled in full.
\<close>

section \<open>Nesting depth\<close>

definition NESTING_ERROR :: string where
  "NESTING_ERROR = ''wire: JSON nesting exceeds MAX_JSON_NESTING_DEPTH ('' @
     dec_nat MAX_JSON_NESTING_DEPTH @ '')''"

fun nest_scan :: "nat \<Rightarrow> bool \<Rightarrow> bool \<Rightarrow> bytes \<Rightarrow> unit rresult" where
  "nest_scan depth in_string escaped [] = Ok ()"
| "nest_scan depth in_string escaped (b # data) =
     (if in_string then
        (if escaped then nest_scan depth True False data
         else if b = char_byte BSL then nest_scan depth True True data
         else if b = char_byte QUOTE then nest_scan depth False False data
         else nest_scan depth True False data)
      else if b = char_byte QUOTE then nest_scan depth True escaped data
      else if b = char_byte (CHR ''{'') \<or> b = char_byte (CHR ''['') then
        (if depth \<ge> MAX_JSON_NESTING_DEPTH then Err NESTING_ERROR
         else nest_scan (depth + 1) False escaped data)
      else if b = char_byte (CHR ''}'') \<or> b = char_byte (CHR '']'')
        then nest_scan (depth - 1) False escaped data
      else nest_scan depth False escaped data)"

definition check_json_nesting_depth :: "bytes \<Rightarrow> unit rresult" where
  "check_json_nesting_depth data = nest_scan 0 False False data"

section \<open>Bounds\<close>

definition cert_constraint_error :: "constraint \<Rightarrow> string option" where
  "cert_constraint_error c =
     (if length (c_resource_id c) > MAX_IDENTIFIER_LENGTH_BYTES
      then Some (''wire: resource_id of '' @ dec_nat (length (c_resource_id c)) @
             '' bytes exceeds MAX_IDENTIFIER_LENGTH_BYTES ('' @
             dec_nat MAX_IDENTIFIER_LENGTH_BYTES @ '')'')
      else if c_params c \<noteq> None then
        (if is_canonical_constraint_type (c_kind c)
         then Some (''wire: canonical constraint type '' @ quoted (c_kind c) @
                '' must not carry params'')
         else map_option (\<lambda>e. ''wire: constraint params: '' @ e)
                (err_opt (validate_constraint_params c)))
      else None)"

definition check_cert_bounds :: "delegation_cert \<Rightarrow> unit rresult" where
  "check_cert_bounds cert =
     (case first_failure [
        (if length (dc_scope cert) > MAX_SCOPES_PER_CERT
         then Some (''wire: '' @ dec_nat (length (dc_scope cert)) @
                '' scopes exceeds MAX_SCOPES_PER_CERT ('' @ dec_nat MAX_SCOPES_PER_CERT @ '')'')
         else None),
        (if length (dc_constraints cert) > MAX_CONSTRAINTS_PER_CERT
         then Some (''wire: '' @ dec_nat (length (dc_constraints cert)) @
                '' constraints exceeds MAX_CONSTRAINTS_PER_CERT ('' @
                dec_nat MAX_CONSTRAINTS_PER_CERT @ '')'')
         else None),
        find_failure (\<lambda>_ s. if length s > MAX_SCOPE_LENGTH_BYTES
          then Some (''wire: scope of '' @ dec_nat (length s) @
                 '' bytes exceeds MAX_SCOPE_LENGTH_BYTES ('' @ dec_nat MAX_SCOPE_LENGTH_BYTES @
                 '')'')
          else None) 0 (dc_scope cert),
        find_failure (\<lambda>_. cert_constraint_error) 0 (dc_constraints cert)] of
        Some e \<Rightarrow> Err e | None \<Rightarrow> Ok ())"

definition check_receipt_structure :: "verification_receipt \<Rightarrow> unit rresult" where
  "check_receipt_structure r =
     (if vrc_version r \<noteq> PROTOCOL_VERSION
      then Err (''wire: receipt version '' @ dec_int (vrc_version r) @
             '' is not PROTOCOL_VERSION ('' @ dec_int PROTOCOL_VERSION @ '')'')
      else if vrc_verifier_id r = '''' then Err ''wire: receipt verifier_id must be non-empty''
      else if from_wire (vrc_decision r) = None
      then Err (''wire: receipt decision '' @ quoted (vrc_decision r) @
             '' is not a known identity_status'')
      else if length (vrc_bundle_hash r) \<noteq> 32
      then Err (''wire: bundle_hash must be 32 bytes, got '' @ dec_nat (length (vrc_bundle_hash r)))
      else if length (vrc_prev_hash r) \<noteq> 32
      then Err (''wire: prev_hash must be 32 bytes, got '' @ dec_nat (length (vrc_prev_hash r)))
      else if length (pk_ed25519 (vrc_verifier_pub r)) \<noteq> 32
      then Err (''wire: verifier_pub.ed25519 must be 32 bytes, got '' @
             dec_nat (length (pk_ed25519 (vrc_verifier_pub r))))
      else if length (pk_ml_dsa_65 (vrc_verifier_pub r)) \<noteq> 1952
      then Err (''wire: verifier_pub.ml_dsa_65 must be 1952 bytes, got '' @
             dec_nat (length (pk_ml_dsa_65 (vrc_verifier_pub r))))
      else if length (sig_ed25519 (vrc_signature r)) \<noteq> 64
      then Err (''wire: signature.ed25519 must be 64 bytes, got '' @
             dec_nat (length (sig_ed25519 (vrc_signature r))))
      else if length (sig_ml_dsa_65 (vrc_signature r)) \<noteq> 3309
      then Err (''wire: signature.ml_dsa_65 must be 3309 bytes, got '' @
             dec_nat (length (sig_ml_dsa_65 (vrc_signature r))))
      else Ok ())"

section \<open>Codecs\<close>

definition receipt_wire_members :: "prims \<Rightarrow> verification_receipt \<Rightarrow> (string \<times> string) list" where
  "receipt_wire_members P r =
     (if vrc_agent_id r = '''' then [] else [(''agent_id'', encode_string (vrc_agent_id r))]) @
     [(''bundle_hash'', encode_bytes_b64 P (vrc_bundle_hash r)),
      (''decision'', encode_string (vrc_decision r))] @
     (if vrc_error_reason r = '''' then []
      else [(''error_reason'', encode_string (vrc_error_reason r))]) @
     (if vrc_granted_scope r = [] then []
      else [(''granted_scope'', encode_str_array (vrc_granted_scope r))]) @
     (if vrc_human_id r = '''' then [] else [(''human_id'', encode_string (vrc_human_id r))]) @
     [(''prev_hash'', encode_bytes_b64 P (vrc_prev_hash r)),
      (''signature'', encode_hybrid_sig P (vrc_signature r)),
      (''verified_at'', encode_i64 (vrc_verified_at r)),
      (''verifier_id'', encode_string (vrc_verifier_id r)),
      (''verifier_pub'', encode_hybrid_pub_key P (vrc_verifier_pub r)),
      (''version'', dec_int (vrc_version r))]"

definition encode_verification_receipt :: "prims \<Rightarrow> verification_receipt \<Rightarrow> bytes rresult" where
  "encode_verification_receipt P r =
     (case check_receipt_structure r of
        Err e \<Rightarrow> Err e
      | Ok _ \<Rightarrow> Ok (str_bytes (json_object (receipt_wire_members P r))))"

definition decode_delegation_cert ::
  "(bytes \<Rightarrow> delegation_cert rresult) \<Rightarrow> bytes \<Rightarrow> delegation_cert rresult" where
  "decode_delegation_cert from_slice data =
     (case check_json_nesting_depth data of
        Err e \<Rightarrow> Err e
      | Ok _ \<Rightarrow>
          (case from_slice data of
             Err e \<Rightarrow> Err (''wire: '' @ e)
           | Ok cert \<Rightarrow>
               (case check_cert_bounds cert of Err e \<Rightarrow> Err e | Ok _ \<Rightarrow> Ok cert)))"

definition decode_proof_bundle ::
  "(bytes \<Rightarrow> proof_bundle rresult) \<Rightarrow> bytes \<Rightarrow> proof_bundle rresult" where
  "decode_proof_bundle from_slice data =
     (if length data > MAX_PROOF_BUNDLE_BYTES
      then Err (''wire: proof bundle of '' @ dec_nat (length data) @
             '' bytes exceeds MAX_PROOF_BUNDLE_BYTES ('' @ dec_nat MAX_PROOF_BUNDLE_BYTES @ '')'')
      else case check_json_nesting_depth data of
        Err e \<Rightarrow> Err e
      | Ok _ \<Rightarrow>
          (case from_slice data of
             Err e \<Rightarrow> Err (''wire: '' @ e)
           | Ok bundle \<Rightarrow>
               (case find_failure (\<lambda>_ cert. err_opt (check_cert_bounds cert)) 0
                   (pb_delegations bundle) of
                  Some e \<Rightarrow> Err e | None \<Rightarrow> Ok bundle)))"

text \<open>The parser yields the wire mirror, whose fields are those of the receipt.\<close>

definition decode_verification_receipt ::
  "(bytes \<Rightarrow> verification_receipt rresult) \<Rightarrow> bytes \<Rightarrow> verification_receipt rresult" where
  "decode_verification_receipt from_slice data =
     (case check_json_nesting_depth data of
        Err e \<Rightarrow> Err e
      | Ok _ \<Rightarrow>
          (case from_slice data of
             Err e \<Rightarrow> Err (''wire: '' @ e)
           | Ok r \<Rightarrow>
               (case check_receipt_structure r of Err e \<Rightarrow> Err e | Ok _ \<Rightarrow> Ok r)))"

section \<open>What the nesting check accepts\<close>

text \<open>
  The unlimited scanner, as a fold over the bytes: depth, inside a string, after a backslash.  The
  check accepts exactly the inputs in which it never exceeds the limit.
\<close>

type_synonym scan_state = "nat \<times> bool \<times> bool"

fun nest_step :: "scan_state \<Rightarrow> byte \<Rightarrow> scan_state" where
  "nest_step (depth, in_string, escaped) b =
     (if in_string then
        (depth, escaped \<or> b \<noteq> char_byte QUOTE, \<not> escaped \<and> b = char_byte BSL)
      else if b = char_byte QUOTE then (depth, True, escaped)
      else if b = char_byte (CHR ''{'') \<or> b = char_byte (CHR ''['') then (depth + 1, False, escaped)
      else if b = char_byte (CHR ''}'') \<or> b = char_byte (CHR '']'') then (depth - 1, False, escaped)
      else (depth, False, escaped))"

definition nest_depth :: "scan_state \<Rightarrow> bytes \<Rightarrow> nat" where
  "nest_depth st data = fst (foldl nest_step st data)"

lemma nest_depth_Cons: "nest_depth st (b # data) = nest_depth (nest_step st b) data"
  by (simp add: nest_depth_def)

lemma all_prefix_Cons:
  "(\<forall>p. prefix p (x # xs) \<longrightarrow> Q p) \<longleftrightarrow> Q [] \<and> (\<forall>p. prefix p xs \<longrightarrow> Q (x # p))"
  by (auto simp: prefix_Cons)

lemma nest_scan_iff:
  assumes "depth \<le> MAX_JSON_NESTING_DEPTH"
  shows "is_ok (nest_scan depth in_string escaped data) \<longleftrightarrow>
    (\<forall>p. prefix p data \<longrightarrow> nest_depth (depth, in_string, escaped) p \<le> MAX_JSON_NESTING_DEPTH)"
  using assms
proof (induction data arbitrary: depth in_string escaped)
  case Nil
  then show ?case by (simp add: nest_depth_def)
next
  case (Cons b data)
  have base: "nest_depth (depth, in_string, escaped) [] \<le> MAX_JSON_NESTING_DEPTH"
    using Cons.prems by (simp add: nest_depth_def)
  have over: "\<not> (\<forall>p. prefix p data \<longrightarrow> nest_depth (d, s, e) p \<le> MAX_JSON_NESTING_DEPTH)"
    if "d > MAX_JSON_NESTING_DEPTH" for d s e
    using that by (auto simp: nest_depth_def intro!: exI [of _ "[]"])
  have bsl: "char_byte BSL \<noteq> char_byte QUOTE" by (simp add: char_byte_inj)
  show ?case
    unfolding all_prefix_Cons nest_depth_Cons
    using Cons base over bsl
    by (cases "depth < MAX_JSON_NESTING_DEPTH") (simp_all add: not_less)
qed

section \<open>Encoders stay below the limit\<close>

text \<open>
  \<open>passes k x\<close>: the scanner, outside strings and with room for \<open>k\<close> more levels, passes over
  the text \<open>x\<close> and is left as it was.
\<close>

definition passes :: "nat \<Rightarrow> string \<Rightarrow> bool" where
  "passes k x \<longleftrightarrow> (\<forall>d rest. d + k \<le> MAX_JSON_NESTING_DEPTH
     \<longrightarrow> nest_scan d False False (str_bytes x @ rest) = nest_scan d False False rest)"

named_theorems passes_intros \<open>texts the nesting scanner passes over\<close>

lemma str_bytes_Cons: "str_bytes (x # xs) = char_byte x # str_bytes xs"
  by (simp add: str_bytes_def)

lemma nest_scan_steps:
  "nest_scan d False False (char_byte QUOTE # r) = nest_scan d True False r"
  "nest_scan d True False (char_byte QUOTE # r) = nest_scan d False False r"
  "nest_scan d True False (char_byte BSL # b # r) = nest_scan d True False r"
  "c \<noteq> QUOTE \<Longrightarrow> c \<noteq> BSL \<Longrightarrow> nest_scan d True False (char_byte c # r) = nest_scan d True False r"
  "c \<noteq> QUOTE \<Longrightarrow> c \<notin> set ''{[]}''
     \<Longrightarrow> nest_scan d False False (char_byte c # r) = nest_scan d False False r"
  "c \<in> set ''{['' \<Longrightarrow> d < MAX_JSON_NESTING_DEPTH
     \<Longrightarrow> nest_scan d False False (char_byte c # r) = nest_scan (Suc d) False False r"
  "c \<in> set ''}]'' \<Longrightarrow> nest_scan d False False (char_byte c # r) = nest_scan (d - 1) False False r"
  by (auto simp: char_byte_inj)

declare nest_scan.simps(2) [simp del]

lemma passes_append [passes_intros]: "passes k x \<Longrightarrow> passes k y \<Longrightarrow> passes k (x @ y)"
  by (simp add: passes_def)

lemma passes_Nil [passes_intros]: "passes k []"
  by (simp add: passes_def str_bytes_def)

lemma passes_char:
  "c \<noteq> QUOTE \<Longrightarrow> c \<notin> set ''{[]}'' \<Longrightarrow> passes k [c]"
  by (simp add: passes_def str_bytes_def nest_scan_steps(5))

lemma passes_Cons: "c \<noteq> QUOTE \<Longrightarrow> c \<notin> set ''{[]}'' \<Longrightarrow> passes k x \<Longrightarrow> passes k (c # x)"
  using passes_append [of k "[c]" x] passes_char [of c k] by simp

lemma passes_plain: "\<forall>c\<in>set x. c \<noteq> QUOTE \<and> c \<notin> set ''{[]}'' \<Longrightarrow> passes k x"
proof (induction x)
  case (Cons c x)
  then show ?case by (intro passes_Cons) simp_all
qed (rule passes_Nil)

lemma passes_dec_int [passes_intros]: "passes k (dec_int n)"
proof (rule passes_plain)
  have digit: "c \<noteq> QUOTE \<and> c \<notin> set ''{[]}''" if "is_digit c" for c
    using that digit_token_char [OF that] by (simp add: delim_char_def)
  have minus: "CHR ''-'' \<noteq> QUOTE \<and> CHR ''-'' \<notin> set ''{[]}''" by simp
  have "\<forall>c\<in>set (dec_int n). c = CHR ''-'' \<or> is_digit c"
    using dec_pos_digits [of n] dec_pos_digits [of "- n"] by (auto simp: dec_int_def)
  with digit minus show "\<forall>c\<in>set (dec_int n). c \<noteq> QUOTE \<and> c \<notin> set ''{[]}''" by metis
qed

text \<open>Inside a string the scanner skips every escaped body and stops at the closing quote.\<close>

definition skips :: "string \<Rightarrow> bool" where
  "skips x \<longleftrightarrow> (\<forall>d rest. nest_scan d True False (str_bytes x @ rest) = nest_scan d True False rest)"

lemma skips_pair: "skips y \<Longrightarrow> skips (BSL # x # y)"
  by (simp add: skips_def str_bytes_Cons nest_scan_steps(3))

lemma skips_raw: "c \<noteq> QUOTE \<Longrightarrow> c \<noteq> BSL \<Longrightarrow> skips y \<Longrightarrow> skips (c # y)"
  by (simp add: skips_def str_bytes_Cons nest_scan_steps(4))

lemma hex_digit_plain:
  assumes "n < 16"
  shows "hex_digit n \<noteq> QUOTE" "hex_digit n \<noteq> BSL"
proof -
  have "hex_digit n \<in> set ''0123456789abcdef''"
    unfolding hex_digit_def by (rule nth_mem) (use assms in simp)
  then show "hex_digit n \<noteq> QUOTE" "hex_digit n \<noteq> BSL" by auto
qed

lemma skips_if: "(b \<Longrightarrow> skips x) \<Longrightarrow> (\<not> b \<Longrightarrow> skips y) \<Longrightarrow> skips (if b then x else y)"
  by simp

lemma skips_escape_step:
  assumes "skips (escape cs)" "skips (escape (drop 2 cs))"
  shows "skips (escape (c # cs))"
proof -
  have "(of_char c :: nat) div 16 < 16" by (rule less_mult_imp_div_less) simp
  then show ?thesis
    unfolding escape.simps append.simps
    by (intro skips_if skips_pair assms skips_raw hex_digit_plain) simp_all
qed

lemma skips_escape: "skips (escape s)"
proof (induction s rule: length_induct)
  case (1 s)
  then show ?case
    by (cases s) (simp_all add: skips_def [of "[]"] str_bytes_def [of "[]"] skips_escape_step
        del: escape.simps(2))
qed

lemma passes_string [passes_intros]: "passes k (encode_string s)"
  using skips_escape [of s]
  by (simp add: passes_def skips_def encode_string_def str_bytes_Cons nest_scan_steps(1,2)
      str_bytes_def [of "[]"])

lemma passes_join:
  "\<forall>x\<in>set xs. passes k x \<Longrightarrow> passes k (join_on COMMA xs)"
proof (induction COMMA xs rule: join_on.induct)
  case (3 w v vs)
  then have "passes k (w @ COMMA # join_on COMMA (v # vs))"
    by (intro passes_append passes_Cons) simp_all
  then show ?case by simp
qed (simp_all add: passes_Nil)

lemma passes_bracket:
  assumes "passes k x" "opn \<in> set ''{[''" "cls \<in> set ''}]''"
  shows "passes (Suc k) (opn # x @ [cls])"
  unfolding passes_def
proof (intro allI impI)
  fix d rest assume "d + Suc k \<le> MAX_JSON_NESTING_DEPTH"
  then have d: "d < MAX_JSON_NESTING_DEPTH" "Suc d + k \<le> MAX_JSON_NESTING_DEPTH" by simp_all
  have "nest_scan d False False (str_bytes (opn # x @ [cls]) @ rest)
      = nest_scan (Suc d) False False (str_bytes x @ char_byte cls # rest)"
    using nest_scan_steps(6) [OF assms(2) d(1)] by (simp add: str_bytes_Cons str_bytes_def [of "[]"])
  also have "\<dots> = nest_scan (Suc d) False False (char_byte cls # rest)"
    using assms(1) d(2) unfolding passes_def by blast
  also have "\<dots> = nest_scan d False False rest"
    using nest_scan_steps(7) [OF assms(3)] by simp
  finally show "nest_scan d False False (str_bytes (opn # x @ [cls]) @ rest)
      = nest_scan d False False rest" .
qed

lemma passes_array: "\<forall>x\<in>set xs. passes k x \<Longrightarrow> passes (Suc k) (json_array xs)"
  unfolding json_array_def by (rule passes_bracket) (auto intro: passes_join)

lemma passes_object:
  assumes "\<forall>m\<in>set ms. passes k (snd m)"
  shows "passes (Suc k) (json_object ms)"
proof -
  have "passes k (encode_string (fst m) @ CHR '':'' # snd m)" if "m \<in> set ms" for m
    using that assms by (intro passes_append passes_Cons passes_string) simp_all
  then have "\<forall>x\<in>set (map (\<lambda>(a, v). encode_string a @ CHR '':'' # v) ms). passes k x"
    by auto
  then show ?thesis
    unfolding json_object_def by (intro passes_bracket passes_join) auto
qed

lemma passes_check: "passes k x \<Longrightarrow> k \<le> MAX_JSON_NESTING_DEPTH \<Longrightarrow>
    check_json_nesting_depth (str_bytes x) = Ok ()"
  unfolding check_json_nesting_depth_def passes_def
  by (metis add_0 append_Nil2 nest_scan.simps(1))

lemma passes_one:
  "passes (Suc 0) (encode_bytes_b64 P b)" "passes (Suc 0) (encode_str_array ss)"
  "passes (Suc 0) (encode_hybrid_pub_key P pk)" "passes (Suc 0) (encode_hybrid_sig P sg)"
  unfolding encode_bytes_b64_def encode_str_array_def encode_hybrid_pub_key_def
    encode_hybrid_sig_def
  by (auto intro!: passes_string passes_array passes_object)

lemma passes_receipt: "passes 2 (json_object (receipt_wire_members P r))"
proof -
  have "\<forall>m\<in>set (receipt_wire_members P r). passes (Suc 0) (snd m)"
    by (auto simp: receipt_wire_members_def encode_i64_def passes_one passes_string passes_dec_int)
  from passes_object [OF this] show ?thesis by (simp add: numeral_2_eq_2)
qed

section \<open>What the bounds checks accept\<close>

lemma is_ok_option: "is_ok (case x of Some e \<Rightarrow> Err e | None \<Rightarrow> Ok y) \<longleftrightarrow> x = None"
  by (cases x) simp_all

lemma check_cert_bounds_ok:
  "is_ok (check_cert_bounds cert) \<longleftrightarrow>
     length (dc_scope cert) \<le> MAX_SCOPES_PER_CERT
     \<and> length (dc_constraints cert) \<le> MAX_CONSTRAINTS_PER_CERT
     \<and> (\<forall>s\<in>set (dc_scope cert). length s \<le> MAX_SCOPE_LENGTH_BYTES)
     \<and> (\<forall>c\<in>set (dc_constraints cert). cert_constraint_error c = None)"
  unfolding check_cert_bounds_def is_ok_option first_failure_None
  by (auto simp: find_failure_const_None split: if_splits)

lemma cert_constraint_error_None:
  "cert_constraint_error c = None \<Longrightarrow> length (c_resource_id c) \<le> MAX_IDENTIFIER_LENGTH_BYTES"
  by (auto simp: cert_constraint_error_def split: if_splits)

lemma decode_proof_bundle_ok:
  "decode_proof_bundle from_slice data = Ok b \<Longrightarrow>
     length data \<le> MAX_PROOF_BUNDLE_BYTES \<and> is_ok (check_json_nesting_depth data)
     \<and> from_slice data = Ok b \<and> (\<forall>cert\<in>set (pb_delegations b). is_ok (check_cert_bounds cert))"
  by (auto simp: decode_proof_bundle_def find_failure_const_None err_opt_None_iff
      split: if_splits sum.splits option.splits)

lemma receipt_structure_ok:
  "is_ok (check_receipt_structure r) \<longleftrightarrow>
     vrc_version r = PROTOCOL_VERSION \<and> vrc_verifier_id r \<noteq> '''' \<and> from_wire (vrc_decision r) \<noteq> None
     \<and> length (vrc_bundle_hash r) = 32 \<and> length (vrc_prev_hash r) = 32
     \<and> length (pk_ed25519 (vrc_verifier_pub r)) = 32
     \<and> length (pk_ml_dsa_65 (vrc_verifier_pub r)) = 1952
     \<and> length (sig_ed25519 (vrc_signature r)) = 64
     \<and> length (sig_ml_dsa_65 (vrc_signature r)) = 3309"
  by (auto simp: check_receipt_structure_def)

end
