(* ===== verification/V1_Issuance.thy ===== *)
theory V1_Issuance
  imports V1_Constraints
begin

text \<open>
  The issuance rule for \<open>resource_path\<close> constraints against their evaluation: a set the issuer
  accepts is satisfiable by one request, when no constraint spells its prefix as the empty string.
\<close>

section \<open>What the issuance loop establishes\<close>

definition path_constraints :: "constraint list \<Rightarrow> constraint list" where
  "path_constraints cs = filter (\<lambda>c. c_kind c = ''resource_path'') cs"

definition prefix_text :: "constraint \<Rightarrow> string" where
  "prefix_text c = unwrap_or (c_path_prefix c) ''''"

definition path_constraint_ok :: "constraint \<Rightarrow> bool" where
  "path_constraint_ok c \<longleftrightarrow> c_resource_id c \<noteq> '''' \<and> length (c_resource_id c) \<le> MAX_IDENTIFIER_LENGTH_BYTES
     \<and> (prefix_text c \<noteq> '''' \<longrightarrow> is_ok (normalize_resource_path (prefix_text c)))"

lemma resource_constraints_loop_step:
  assumes "c_kind c = ''resource_path''"
  shows "resource_constraints_loop i rid pfxs (c # cs) = Ok () \<longleftrightarrow>
     path_constraint_ok c \<and> (rid = None \<or> rid = Some (c_resource_id c))
     \<and> (\<forall>p\<in>set pfxs. resource_paths_nested p (prefix_text c))
     \<and> resource_constraints_loop (Suc i) (Some (c_resource_id c)) (pfxs @ [prefix_text c]) cs = Ok ()"
proof -
  have "(case find P xs of Some y \<Rightarrow> Err (f y) | None \<Rightarrow> r) = Ok () \<longleftrightarrow> (\<forall>x\<in>set xs. \<not> P x) \<and> r = Ok ()"
    for P :: "string \<Rightarrow> bool" and xs and f :: "string \<Rightarrow> string" and r
    by (auto simp: find_None_iff split: option.split dest: find_Some_iff [THEN iffD1])
  note found = this
  have "(case err_opt x of Some e \<Rightarrow> Err (f e) | None \<Rightarrow> r) = Ok () \<longleftrightarrow> is_ok x \<and> r = Ok ()"
    for x :: "string rresult" and f :: "string \<Rightarrow> string" and r
    by (cases x) auto
  note checked = this
  show ?thesis
    using assms
    by (cases "prefix_text c = []"; cases rid)
      (auto simp: path_constraint_ok_def prefix_text_def [symmetric] Let_def found checked)
qed

lemma resource_constraints_loop_Ok:
  assumes "resource_constraints_loop i rid pfxs cs = Ok ()"
  shows "(\<forall>c\<in>set (path_constraints cs). path_constraint_ok c
        \<and> (\<forall>r. rid = Some r \<longrightarrow> c_resource_id c = r)
        \<and> (\<forall>p\<in>set pfxs. resource_paths_nested p (prefix_text c)))
    \<and> (\<forall>c\<in>set (path_constraints cs). \<forall>d\<in>set (path_constraints cs). c_resource_id c = c_resource_id d)
    \<and> sorted_wrt resource_paths_nested (map prefix_text (path_constraints cs))"
  using assms
proof (induction cs arbitrary: i rid pfxs)
  case Nil
  then show ?case by (simp add: path_constraints_def)
next
  case (Cons c cs)
  show ?case
  proof (cases "c_kind c = ''resource_path''")
    case False
    then have split: "path_constraints (c # cs) = path_constraints cs"
      and "resource_constraints_loop (Suc i) rid pfxs cs = Ok ()"
      using Cons.prems by (simp_all add: path_constraints_def)
    from Cons.IH [OF this(2)] show ?thesis unfolding split .
  next
    case True
    then have split: "path_constraints (c # cs) = c # path_constraints cs"
      by (simp add: path_constraints_def)
    note step = Cons.prems [unfolded resource_constraints_loop_step [OF True]]
    then have "resource_constraints_loop (Suc i) (Some (c_resource_id c)) (pfxs @ [prefix_text c]) cs = Ok ()"
      by blast
    from Cons.IH [OF this] step show ?thesis
      unfolding split by auto
  qed
qed

section \<open>Nested prefixes have a common point\<close>

definition root_or :: "string \<Rightarrow> string" where
  "root_or p = (if p = '''' then [SEP] else p)"

lemma nested_iff:
  "resource_paths_nested p q \<longleftrightarrow>
   resource_path_matches (root_or p) (root_or q) \<or> resource_path_matches (root_or q) (root_or p)"
  by (simp add: resource_paths_nested_def root_or_def Let_def)

lemma normalize_root: "is_ok (normalize_resource_path [SEP])"
  by (simp add: normalize_resource_path_def starts_with_def)

lemma normalize_segs:
  assumes "is_ok (normalize_resource_path p)"
  obtains segs where "\<forall>w\<in>set segs. segment_ok w" "normalize_resource_path p = Ok (render segs)"
proof -
  obtain q where q: "normalize_resource_path p = Ok q"
    using assms by (cases "normalize_resource_path p") auto
  from normalize_segments [OF q] q that show ?thesis by metis
qed

lemma matches_refl: "is_ok (normalize_resource_path p) \<Longrightarrow> resource_path_matches p p"
  by (erule normalize_segs) (simp add: matches_render)

lemma matches_normal:
  "resource_path_matches p q \<Longrightarrow> is_ok (normalize_resource_path p) \<and> is_ok (normalize_resource_path q)"
  by (auto simp: resource_path_matches_def split: sum.splits)

lemma matches_trans:
  assumes "resource_path_matches p q" "resource_path_matches q r"
  shows "resource_path_matches p r"
proof -
  have "is_ok (normalize_resource_path p)" "is_ok (normalize_resource_path q)"
    "is_ok (normalize_resource_path r)" using assms matches_normal by blast+
  then obtain s t u where "\<forall>w\<in>set s. segment_ok w" "normalize_resource_path p = Ok (render s)"
    "\<forall>w\<in>set t. segment_ok w" "normalize_resource_path q = Ok (render t)"
    "\<forall>w\<in>set u. segment_ok w" "normalize_resource_path r = Ok (render u)"
    by (metis normalize_segs)
  with assms show ?thesis by (auto simp: matches_render intro: prefix_order.trans)
qed

text \<open>A chain of pairwise nested paths has a deepest one, which every member contains.\<close>

lemma nested_deepest:
  assumes "sorted_wrt (\<lambda>p q. resource_path_matches p q \<or> resource_path_matches q p) ps"
    and "\<forall>p\<in>set ps. is_ok (normalize_resource_path p)" and "ps \<noteq> []"
  shows "\<exists>q\<in>set ps. \<forall>p\<in>set ps. resource_path_matches p q"
  using assms
proof (induction ps)
  case (Cons a ps)
  show ?case
  proof (cases "ps = []")
    case True
    with Cons.prems show ?thesis by (simp add: matches_refl)
  next
    case False
    with Cons obtain q where q: "q \<in> set ps" "\<forall>p\<in>set ps. resource_path_matches p q" by auto
    show ?thesis
    proof (cases "resource_path_matches a q")
      case True
      with q show ?thesis by auto
    next
      case False
      with Cons.prems(1) q(1) have "resource_path_matches q a" by auto
      moreover have "resource_path_matches a a" using Cons.prems(2) by (simp add: matches_refl)
      ultimately show ?thesis using q matches_trans by (metis set_ConsD list.set_intros(1))
    qed
  qed
qed simp

lemma issuance_satisfiable:
  assumes ok: "validate_resource_constraints cs = Ok ()"
    and noempty: "\<forall>c\<in>set cs. c_path_prefix c \<noteq> Some ''''"
  shows "\<exists>ctx. \<forall>c\<in>set (path_constraints cs). eval_resource_path c ctx = Ok ()"
proof (cases "path_constraints cs = []")
  case False
  let ?pcs = "path_constraints cs"
  note facts = resource_constraints_loop_Ok [OF ok [unfolded validate_resource_constraints_def]]
  let ?ps = "map (root_or \<circ> prefix_text) ?pcs"
  have normal: "\<forall>p\<in>set ?ps. is_ok (normalize_resource_path p)"
    using facts normalize_root by (auto simp: root_or_def path_constraint_ok_def)
  have "sorted_wrt (\<lambda>p q. resource_path_matches p q \<or> resource_path_matches q p) ?ps"
    using facts by (simp add: sorted_wrt_map nested_iff)
  then obtain q where q: "q \<in> set ?ps" "\<forall>p\<in>set ?ps. resource_path_matches p q"
    using nested_deepest [OF _ normal] False by auto
  have q_ok: "is_ok (normalize_resource_path q)" using q(1) normal by blast
  then have "q \<noteq> ''''" by (auto simp: normalize_resource_path_def)
  note q_ok = q_ok this
  define ctx where "ctx = default_context\<lparr>vc_requested_resource_id := Some (c_resource_id (hd ?pcs)),
     vc_requested_path := Some q\<rparr>"
  have "eval_resource_path c ctx = Ok ()" if c: "c \<in> set ?pcs" for c
  proof -
    have "c_resource_id c = c_resource_id (hd ?pcs)" using facts c False hd_in_set by blast
    moreover have "path_constraint_ok c" using facts c by blast
    moreover have "resource_path_matches pre q" "is_ok (normalize_resource_path pre)"
      if "c_path_prefix c = Some pre" for pre
    proof -
      have "pre \<noteq> ''''" using noempty that c by (auto simp: path_constraints_def)
      then have "pre \<in> set ?ps" using that c by (force simp: prefix_text_def root_or_def)
      with q normal show "resource_path_matches pre q" "is_ok (normalize_resource_path pre)" by auto
    qed
    ultimately have "is_ok (eval_resource_path c ctx)"
      using q_ok by (auto simp: eval_resource_path_ok ctx_def path_constraint_ok_def)
    then show ?thesis by (simp add: is_ok_unit_iff)
  qed
  then show ?thesis by blast
qed simp

end
