(* ===== verification/V1_Operation_Context.thy ===== *)
theory V1_Operation_Context
  imports V1_Types Ratify_Platform
begin

text \<open>
  The operation-context and session-context preimages
  (\<open>sdks/rust/src/operation_context.rs\<close>): length-prefixed binary encodings under two domain tags.
  The lemmas show that the framing is injective and that the two constructions never collide.
\<close>

section \<open>The encodings\<close>

definition OPERATION_CONTEXT_DOMAIN_TAG :: bytes where
  "OPERATION_CONTEXT_DOMAIN_TAG = str_bytes ''ratify/operation-context/v1''"

definition SESSION_CONTEXT_DOMAIN_TAG :: bytes where
  "SESSION_CONTEXT_DOMAIN_TAG = str_bytes ''ratify/session-context/v1''"

record operation_context =
  oc_required_scope :: string
  oc_operation :: string
  oc_resource_id :: string
  oc_requested_path :: string
  oc_payload_digest :: bytes

record session_context_inputs =
  sci_verifier_id :: string
  sci_workspace_id :: string
  sci_agent_id :: string
  sci_session_id :: string
  sci_invocation_id :: string
  sci_request_hash :: bytes

definition length_prefixed :: "bytes \<Rightarrow> bytes \<Rightarrow> bytes" where
  "length_prefixed buf field = buf @ be64 (int (length field)) @ field"

definition operation_context_bytes :: "operation_context \<Rightarrow> bytes rresult" where
  "operation_context_bytes ctx =
     (if oc_payload_digest ctx \<noteq> [] \<and> length (oc_payload_digest ctx) \<noteq> 32
      then Err (''payload digest must be empty or 32 bytes, got '' @
             dec_nat (length (oc_payload_digest ctx)))
      else let buf = OPERATION_CONTEXT_DOMAIN_TAG;
               buf = length_prefixed buf (str_bytes (oc_required_scope ctx));
               buf = length_prefixed buf (str_bytes (oc_operation ctx));
               buf = length_prefixed buf (str_bytes (oc_resource_id ctx));
               buf = length_prefixed buf (str_bytes (oc_requested_path ctx));
               buf = length_prefixed buf (oc_payload_digest ctx)
           in Ok buf)"

definition operation_context_hash :: "prims \<Rightarrow> operation_context \<Rightarrow> bytes rresult" where
  "operation_context_hash P ctx =
     (case operation_context_bytes ctx of Err e \<Rightarrow> Err e | Ok b \<Rightarrow> Ok (p_sha256 P b))"

definition session_context_bytes :: "session_context_inputs \<Rightarrow> bytes rresult" where
  "session_context_bytes inputs =
     (if length (sci_request_hash inputs) \<noteq> 32
      then Err (''request hash must be exactly 32 bytes, got '' @
             dec_nat (length (sci_request_hash inputs)))
      else let buf = SESSION_CONTEXT_DOMAIN_TAG;
               buf = length_prefixed buf (str_bytes (sci_verifier_id inputs));
               buf = length_prefixed buf (str_bytes (sci_workspace_id inputs));
               buf = length_prefixed buf (str_bytes (sci_agent_id inputs));
               buf = length_prefixed buf (str_bytes (sci_session_id inputs));
               buf = length_prefixed buf (str_bytes (sci_invocation_id inputs));
               buf = length_prefixed buf (sci_request_hash inputs)
           in Ok buf)"

definition build_session_context :: "prims \<Rightarrow> session_context_inputs \<Rightarrow> bytes rresult" where
  "build_session_context P inputs =
     (case session_context_bytes inputs of Err e \<Rightarrow> Err e | Ok b \<Rightarrow> Ok (p_sha256 P b))"

section \<open>Framing\<close>

text \<open>
  The fields written one after the other.  A Rust allocation never exceeds \<open>isize::MAX\<close> bytes,
  so every field length is below \<open>2^63\<close> and its prefix is exact.
\<close>

definition frame :: "bytes list \<Rightarrow> bytes" where
  "frame fs = concat (map (\<lambda>f. be64 (int (length f)) @ f) fs)"

definition rust_sized :: "'a list \<Rightarrow> bool" where
  "rust_sized xs \<longleftrightarrow> length xs < 2 ^ 63"

lemma length_prefixed_frame: "length_prefixed (buf @ frame fs) f = buf @ frame (fs @ [f])"
  by (simp add: length_prefixed_def frame_def)

lemma be64_length_inj:
  assumes "be64 (int (length f)) @ r = be64 (int (length g)) @ s" "rust_sized f" "rust_sized g"
  shows "length f = length g \<and> r = s"
proof -
  from assms(1) have "be64 (int (length f)) = be64 (int (length g)) \<and> r = s" by simp
  moreover have "i64_range (int (length f))" "i64_range (int (length g))"
    using assms(2,3) by (simp_all add: rust_sized_def i64_range_def)
  ultimately show ?thesis
    using be64_inj [of "int (length f)" "int (length g)"] by simp
qed

lemma frame_inj:
  assumes "frame fs = frame gs" "length fs = length gs"
    and "\<forall>f\<in>set fs. rust_sized f" "\<forall>g\<in>set gs. rust_sized g"
  shows "fs = gs"
  using assms(2,1,3,4)
proof (induction fs gs rule: list_induct2)
  case (Cons f fs g gs)
  then have "be64 (int (length f)) @ f @ frame fs = be64 (int (length g)) @ g @ frame gs"
    by (simp add: frame_def)
  with Cons.prems have "length f = length g \<and> f @ frame fs = g @ frame gs"
    using be64_length_inj by auto
  with Cons show ?case by auto
qed simp

definition operation_fields :: "operation_context \<Rightarrow> bytes list" where
  "operation_fields ctx = [str_bytes (oc_required_scope ctx), str_bytes (oc_operation ctx),
     str_bytes (oc_resource_id ctx), str_bytes (oc_requested_path ctx), oc_payload_digest ctx]"

definition session_fields :: "session_context_inputs \<Rightarrow> bytes list" where
  "session_fields s = [str_bytes (sci_verifier_id s), str_bytes (sci_workspace_id s),
     str_bytes (sci_agent_id s), str_bytes (sci_session_id s), str_bytes (sci_invocation_id s),
     sci_request_hash s]"

lemma operation_context_bytes_frame:
  "operation_context_bytes ctx = Ok b \<Longrightarrow>
   b = OPERATION_CONTEXT_DOMAIN_TAG @ frame (operation_fields ctx)"
  by (simp add: operation_context_bytes_def operation_fields_def frame_def length_prefixed_def
      split: if_splits)

lemma session_context_bytes_frame:
  "session_context_bytes s = Ok b \<Longrightarrow> b = SESSION_CONTEXT_DOMAIN_TAG @ frame (session_fields s)"
  by (simp add: session_context_bytes_def session_fields_def frame_def length_prefixed_def
      split: if_splits)

lemma operation_fields_inj: "operation_fields a = operation_fields b \<Longrightarrow> a = b"
  by (simp add: operation_fields_def str_bytes_inj)

lemma session_fields_inj: "session_fields a = session_fields b \<Longrightarrow> a = b"
  by (simp add: session_fields_def str_bytes_inj)

lemma domain_tags_differ:
  "OPERATION_CONTEXT_DOMAIN_TAG @ x \<noteq> SESSION_CONTEXT_DOMAIN_TAG @ y"
  by (simp add: OPERATION_CONTEXT_DOMAIN_TAG_def SESSION_CONTEXT_DOMAIN_TAG_def str_bytes_def
      char_byte_inj)

end
