(* ===== verification/Ratify_Samples.thy ===== *)
theory Ratify_Samples
  imports V1_Signing V1_Transaction V1_Verify_Store V1_Wire V1_Issuance V1_Operation_Context
begin

text \<open>
  A concrete platform and concrete objects.  The platform is deliberately simple (hexadecimal in
  place of base64, a signature that only repeats the key's first byte); it exists to show that the
  hypotheses the theorems make about the third-party crates can hold together, and to evaluate
  the model on inputs.
\<close>

section \<open>A platform\<close>

definition hex_bytes :: "bytes \<Rightarrow> string" where
  "hex_bytes bs = concat (map (\<lambda>b. [hex_digit (unat b div 16), hex_digit (unat b mod 16)]) bs)"

definition pad32 :: "bytes \<Rightarrow> bytes" where
  "pad32 b = take 32 (b @ replicate 32 0)"

definition sample_libm :: libm where
  "sample_libm = \<lparr>lm_sin = id, lm_cos = id, lm_asin = id, lm_sqrt = id, lm_powi2 = id,
     lm_display = (\<lambda>_. ''0.5'')\<rparr>"

definition sample_prims :: prims where
  "sample_prims = \<lparr>p_libm = sample_libm, p_base64 = hex_bytes, p_hex = hex_bytes,
     p_sha256 = pad32, p_hmac_sha256 = (\<lambda>k m. pad32 (k @ m)),
     p_ed_key_ok = (\<lambda>_. True), p_ed_sig_ok = (\<lambda>_. True),
     p_ed_verify = (\<lambda>k m s. s = replicate 64 (hd k)), p_ed_sign = (\<lambda>k m. replicate 64 (hd k)),
     p_ml_key_ok = (\<lambda>_. True), p_ml_verify = (\<lambda>k m s. s = replicate 3309 (hd k)),
     p_ml_secret_len = 4032, p_ml_secret_ok = (\<lambda>_. True),
     p_ml_sign = (\<lambda>k m. replicate 3309 (hd k)), p_timestamp_ok = (\<lambda>_. True),
     p_timezone = (\<lambda>z. if z = ''UTC'' then Some (\<lambda>t. (t div 3600 mod 24, t div 60 mod 60)) else None),
     p_debug_char = id\<rparr>"

lemma hex_digit_inj: "m < 16 \<Longrightarrow> n < 16 \<Longrightarrow> hex_digit m = hex_digit n \<longleftrightarrow> m = n"
  by (metis hex_digit_value)

lemma hex_bytes_inj: "hex_bytes a = hex_bytes b \<Longrightarrow> a = b"
proof (induction a arbitrary: b)
  case Nil
  then show ?case by (cases b) (simp_all add: hex_bytes_def)
next
  case (Cons x xs)
  then obtain y ys where b: "b = y # ys" by (cases b) (simp_all add: hex_bytes_def)
  have lt: "unat w div 16 < 16" for w :: byte
  proof -
    have "unat w < 256" using unsigned_less [of w, where ?'a = nat] by simp
    then show ?thesis by (simp add: less_mult_imp_div_less)
  qed
  have "unat x div 16 = unat y div 16" "unat x mod 16 = unat y mod 16" "hex_bytes xs = hex_bytes ys"
    using Cons.prems b lt by (simp_all add: hex_bytes_def hex_digit_inj)
  then have "unat x = unat y" by (metis div_mult_mod_eq)
  then have "x = y" by (simp add: word_unat_eq_iff)
  with Cons.IH [OF \<open>hex_bytes xs = hex_bytes ys\<close>] b show ?case by simp
qed

lemma sample_base64 [simp]: "base64_injective sample_prims"
  by (auto simp: base64_injective_def sample_prims_def intro: hex_bytes_inj)

lemma sample_display [simp]: "display_token sample_prims"
  by (simp add: display_token_def sample_prims_def sample_libm_def token_ok_def delim_char_def)

lemma length_pad32 [simp]: "length (pad32 b) = 32"
  by (simp add: pad32_def min_def)

lemma sample_digests [simp]: "digest_lengths sample_prims"
  by (simp add: digest_lengths_def sample_prims_def)

section \<open>Keys\<close>

definition sample_pk :: "byte \<Rightarrow> hybrid_public_key" where
  "sample_pk b = \<lparr>pk_ed25519 = replicate 32 b, pk_ml_dsa_65 = replicate 1952 b\<rparr>"

definition sample_sk :: "byte \<Rightarrow> hybrid_private_key" where
  "sample_sk b = \<lparr>sk_ed25519 = replicate 32 b, sk_ml_dsa_65 = replicate 4032 b\<rparr>"

definition sample_sig :: "byte \<Rightarrow> hybrid_signature" where
  "sample_sig b = \<lparr>sig_ed25519 = replicate 64 b, sig_ml_dsa_65 = replicate 3309 b\<rparr>"

lemma hd_replicate_numeral [simp]: "hd (replicate (numeral n) x) = x"
  by (simp add: numeral_eq_Suc)

lemma sample_key_pair [simp]: "hybrid_key_pair sample_prims (sample_sk b) (sample_pk b)"
  by (simp add: hybrid_key_pair_def sample_prims_def sample_sk_def sample_pk_def)

lemma sample_verify [simp]: "verify_both sample_prims msg (sample_sig b) (sample_pk b) = Ok ()"
  by (simp add: verify_both_iff sample_prims_def sample_sig_def sample_pk_def)

section \<open>Objects\<close>

definition sample_cert :: delegation_cert where
  "sample_cert = \<lparr>dc_cert_id = ''cert-1'', dc_version = 1, dc_issuer_id = ''root'',
     dc_issuer_pub_key = sample_pk 1, dc_subject_id = ''agent'', dc_subject_pub_key = sample_pk 2,
     dc_scope = [''meeting:attend''], dc_constraints = [], dc_issued_at = 1000,
     dc_expires_at = 2000, dc_signature = sample_sig 1\<rparr>"

definition sample_bundle :: proof_bundle where
  "sample_bundle = \<lparr>pb_agent_id = ''agent'', pb_agent_pub_key = sample_pk 2,
     pb_delegations = [sample_cert], pb_challenge = [7, 8, 9], pb_challenge_at = 1500,
     pb_challenge_sig = sample_sig 2, pb_session_context = [], pb_stream_id = [],
     pb_stream_seq = 0\<rparr>"

definition sample_opts :: "'s verify_options" where
  "sample_opts = default_options\<lparr>vo_required_scope := ''meeting:attend'', vo_now := Some 1600\<rparr>"

definition sample_store :: memory_store where
  "sample_store = \<lparr>ms_records = [(hex_bytes [7, 8, 9], \<lparr>sr_session_context = [], sr_expires_at = 1800\<rparr>)],
     ms_max_size = 5\<rparr>"

lemma sample_store_inv [simp]: "memory_inv sample_store"
  by (simp add: memory_inv_def sample_store_def)

definition sample_receipt :: verification_receipt where
  "sample_receipt = \<lparr>vrc_version = 1, vrc_verifier_id = ''verifier'', vrc_verifier_pub = sample_pk 3,
     vrc_bundle_hash = replicate 32 5, vrc_decision = ''authorized_agent'', vrc_human_id = ''root'',
     vrc_agent_id = ''agent'', vrc_granted_scope = [''meeting:attend''], vrc_error_reason = '''',
     vrc_verified_at = 1600, vrc_prev_hash = replicate 32 0, vrc_signature = sample_sig 3\<rparr>"

definition sample_result :: verify_result where
  "sample_result = \<lparr>vr_valid = True, vr_identity_status = AuthorizedAgent, vr_human_id = ''root'',
     vr_agent_id = ''agent'', vr_agent_name = '''', vr_agent_type = '''',
     vr_granted_scope = [''meeting:attend''], vr_error_reason = '''', vr_anchor = None\<rparr>"

definition sample_token :: session_token where
  "sample_token = \<lparr>st_version = 1, st_session_id = ''s-1'', st_agent_id = ''agent'',
     st_agent_pub_key = sample_pk 2, st_human_id = ''root'', st_granted_scope = [''meeting:attend''],
     st_issued_at = 1600, st_valid_until = 1900, st_chain_hash = chain_hash sample_prims [sample_cert],
     st_mac = []\<rparr>"

definition sample_path_constraint :: constraint where
  "sample_path_constraint = default_constraint\<lparr>c_kind := ''resource_path'',
     c_resource_id := ''repo'', c_path_prefix := Some ''/src''\<rparr>"

end
