(* ===== verification/V1_Properties.thy ===== *)
theory V1_Properties
  imports Ratify_Samples
begin

text \<open>
  The properties of the v1 protocol core.  Each follows from the lemmas of its component; a
  property with hypotheses is followed by an instance on the sample platform.
\<close>

section \<open>The verifier\<close>

text \<open>
  C1: \<open>verify_bundle\<close> reports a presentation valid exactly when the bundle is well formed, it is
  authentic (every certificate valid, unrevoked and signed with both schemes, the chain linked and
  allowed to delegate, the challenge fresh and signed by the agent), the verifier's authorization
  holds (constraints, required scope, policy), and the challenge store located and consumed the
  challenge.
\<close>

theorem verify_bundle_meets_spec:
  "vr_valid (fst (verify_bundle P b opts clock s)) \<longleftrightarrow>
     well_formed_bundle opts b \<and> authentic_bundle P opts (verify_time opts clock) b
     \<and> authorized_bundle P opts (verify_time opts clock) b
     \<and> store_accepts opts (verify_time opts clock) b s"
  by (simp add: verify_bundle_eq verify_bundle_inner_valid)

text \<open>
  C26: Whatever the input, the verifier returns either the success result (the chain's root as
  human, the bundle's agent, the intersection of the scopes) or a result that is not valid, grants
  no scope and carries no anchor.
\<close>

theorem verify_bundle_fails_closed:
  "fst (verify_bundle P b opts clock s) = success_result opts b
     \<or> denial (fst (verify_bundle P b opts clock s))"
  by (simp add: verify_bundle_eq verify_bundle_inner_result)

text \<open>
  C2: No verification grants a scope that some certificate of the chain does not grant, and a
  sensitive scope is granted only where every certificate names it literally, never through a
  wildcard.
\<close>

theorem granted_scope_attenuates:
  "set (vr_granted_scope (fst (verify_bundle P b opts clock s)))
     \<subseteq> (\<Inter>cert\<in>set (pb_delegations b). granted_set (dc_scope cert))
   \<and> {x. is_sensitive x} \<inter> set (vr_granted_scope (fst (verify_bundle P b opts clock s)))
     \<subseteq> (\<Inter>cert\<in>set (pb_delegations b). set (dc_scope cert))"
proof -
  have "set (vr_granted_scope (fst (verify_bundle P b opts clock s)))
      \<subseteq> (\<Inter>cert\<in>set (pb_delegations b). granted_set (dc_scope cert))"
    using verify_bundle_inner_result [of P b opts clock s]
      set_intersect_scopes [of "map dc_scope (pb_delegations b)"]
    by (cases "pb_delegations b")
      (auto simp: verify_bundle_eq success_result_def effective_scope_def denial_def)
  then show ?thesis using sensitive_granted by blast
qed

text \<open>
  Auditing never alters the verdict or the store: with the audit hook on or off the result and
  the state are the same, and the hook receives exactly the returned result.
\<close>

theorem audit_transparent:
  "fst (verify_bundle P b (opts\<lparr>vo_audit := True\<rparr>) clock s)
     = fst (verify_bundle P b (opts\<lparr>vo_audit := False\<rparr>) clock s)
   \<and> fst (snd (verify_bundle P b (opts\<lparr>vo_audit := True\<rparr>) clock s))
     = fst (snd (verify_bundle P b (opts\<lparr>vo_audit := False\<rparr>) clock s))
   \<and> snd (snd (verify_bundle P b (opts\<lparr>vo_audit := True\<rparr>) clock s))
     = [(fst (verify_bundle P b (opts\<lparr>vo_audit := True\<rparr>) clock s), b)]"
  by (simp add: verify_bundle_eq verify_bundle_inner_audit)

section \<open>Single-use challenges\<close>

text \<open>
  In every run of a verifier over the in-memory store, in which challenges are issued and
  bundles and streamed turns are verified in any order, the number of accepted presentations of a
  challenge is at most the number of times it was issued (plus one if it was already pending).
\<close>

theorem challenge_single_use:
  assumes "memory_inv s"
  shows "length (filter (presents_key (p_base64 P) k)
       (fst (store_history (event_step (memory_issue P) (memory_challenge_store P) P) s evs)))
     \<le> length (filter (event_issues_key (p_base64 P) k)
       (fst (store_history (event_step (memory_issue P) (memory_challenge_store P) P) s evs)))
       + (if memory_pending s k = None then 0 else 1)"
  using memory.presentations.history_bound [OF assms, of P k P evs]
  unfolding memory_challenge_store_def by (auto split: if_splits)

theorem challenge_single_use_witness:
  "length (filter (presents_key (p_base64 sample_prims) (hex_bytes [7, 8, 9]))
       (fst (store_history (event_step (memory_issue sample_prims)
          (memory_challenge_store sample_prims) sample_prims) sample_store
          [EvPresent sample_bundle sample_opts 0, EvPresent sample_bundle sample_opts 0])))
     \<le> length (filter (event_issues_key (p_base64 sample_prims) (hex_bytes [7, 8, 9]))
       (fst (store_history (event_step (memory_issue sample_prims)
          (memory_challenge_store sample_prims) sample_prims) sample_store
          [EvPresent sample_bundle sample_opts 0, EvPresent sample_bundle sample_opts 0])))
       + (if memory_pending sample_store (hex_bytes [7, 8, 9]) = None then 0 else 1)"
  by (rule challenge_single_use [OF sample_store_inv])

text \<open>
  C3: At the granularity of single store calls, hence under every interleaving of concurrent
  verifiers, the successful consumptions of a challenge never exceed its issuances.
\<close>

theorem store_calls_single_use:
  assumes "memory_inv s"
  shows "length (filter (consumes_key (p_base64 P) k) (fst (store_history
       (store_step (memory_issue P) (memory_validate P) (memory_consume P)) s ops)))
     \<le> length (filter (issues_key (p_base64 P) k) (fst (store_history
       (store_step (memory_issue P) (memory_validate P) (memory_consume P)) s ops)))
       + (if memory_pending s k = None then 0 else 1)"
  using memory.calls.history_bound [OF assms, of P k ops] by (auto split: if_splits)

theorem store_calls_single_use_witness:
  "length (filter (consumes_key (p_base64 sample_prims) (hex_bytes [7, 8, 9])) (fst (store_history
       (store_step (memory_issue sample_prims) (memory_validate sample_prims)
         (memory_consume sample_prims)) sample_store
       [OpConsume [7, 8, 9] [] 1600, OpConsume [7, 8, 9] [] 1600])))
     \<le> length (filter (issues_key (p_base64 sample_prims) (hex_bytes [7, 8, 9])) (fst (store_history
       (store_step (memory_issue sample_prims) (memory_validate sample_prims)
         (memory_consume sample_prims)) sample_store
       [OpConsume [7, 8, 9] [] 1600, OpConsume [7, 8, 9] [] 1600])))
       + (if memory_pending sample_store (hex_bytes [7, 8, 9]) = None then 0 else 1)"
  by (rule store_calls_single_use [OF sample_store_inv])

text \<open>
  C4: A presentation that is not authentic cannot burn a challenge: every pending, unexpired
  challenge is still pending after it.
\<close>

theorem forged_presentation_burns_nothing:
  assumes "memory_inv s"
    and "\<not> authentic_bundle P opts (verify_time opts clock) b"
    and "vo_challenge_store opts = Some (memory_challenge_store P)"
    and "memory_pending s k = Some (x, e)" "verify_time opts clock \<le> e"
  shows "memory_pending (fst (snd (verify_bundle P b opts clock s))) k = Some (x, e)"
  unfolding verify_bundle_eq
  by (rule memory.forged_keeps [OF _ assms(1,2,4,5)]) (simp add: assms(3) memory_challenge_store_def)

theorem forged_presentation_burns_nothing_witness:
  "memory_pending (fst (snd (verify_bundle sample_prims (sample_bundle\<lparr>pb_agent_id := ''other''\<rparr>)
     (sample_opts\<lparr>vo_challenge_store := Some (memory_challenge_store sample_prims)\<rparr>) 0 sample_store)))
     (hex_bytes [7, 8, 9]) = Some ([], 1800)"
  by (rule forged_presentation_burns_nothing)
    (simp_all add: authentic_bundle_def sample_bundle_def sample_cert_def sample_opts_def
      default_options_def memory_pending_def sample_store_def memory_inv_def)

text \<open>
  An accepted presentation leaves the store without the challenge it used, and keeps every
  other unexpired challenge.
\<close>

theorem accepted_presentation_spends:
  assumes "memory_inv s"
    and "vo_challenge_store opts = Some (memory_challenge_store P)"
    and "vr_valid (fst (verify_bundle P b opts clock s))"
  shows "memory_pending (fst (snd (verify_bundle P b opts clock s))) (p_base64 P (pb_challenge b)) = None
    \<and> memory_pending s (p_base64 P (pb_challenge b)) \<noteq> None
    \<and> memory_inv (fst (snd (verify_bundle P b opts clock s)))"
proof -
  have store: "vo_challenge_store opts = Some \<lparr>cs_validate = memory_validate P, cs_consume = memory_consume P\<rparr>"
    using assms(2) by (simp add: memory_challenge_store_def)
  show ?thesis
    using memory.verify_spends [OF store assms(1), of P b clock] memory.inv_verify [OF store assms(1)]
      assms(3) by (simp add: verify_bundle_eq)
qed

lemma sample_bundle_accepted:
  "vr_valid (fst (verify_bundle sample_prims sample_bundle
     (sample_opts\<lparr>vo_challenge_store := Some (memory_challenge_store sample_prims)\<rparr>) 0 sample_store))"
proof -
  let ?opts = "sample_opts\<lparr>vo_challenge_store := Some (memory_challenge_store sample_prims)\<rparr>"
  have scope: "effective_scope sample_bundle = [''meeting:attend'']"
    by (simp add: effective_scope_def sample_bundle_def sample_cert_def intersect_scopes_def
        expand_scopes_def expand_into_def wildcard_expansion_def)
  have "well_formed_bundle ?opts sample_bundle"
    by (simp add: well_formed_bundle_def sample_bundle_def sample_cert_def sample_opts_def
        default_options_def cert_within_bounds_def MAX_DELEGATION_CHAIN_DEPTH_def
        MAX_SCOPES_PER_CERT_def MAX_CONSTRAINTS_PER_CERT_def MAX_SCOPE_LENGTH_BYTES_def)
  moreover have "authentic_bundle sample_prims ?opts 1600 sample_bundle"
    by (simp add: authentic_bundle_def sample_bundle_def sample_cert_def sample_opts_def
        default_options_def stream_bound_def cert_valid_def PROTOCOL_VERSION_def valid_scope_def
        valid_scopes_def not_revoked_def verify_delegation_signature_def
        verify_delegation_signature_e_def chain_linked_def fresh_def i64_sub_def i64_wrap_def
        CHALLENGE_WINDOW_SECONDS_def ED25519_PUBLIC_KEY_SIZE_def MLDSA65_PUBLIC_KEY_SIZE_def
        sample_pk_def [of 2] sample_verify [of _ 2, unfolded sample_pk_def])
  moreover have "authorized_bundle sample_prims ?opts 1600 sample_bundle"
    by (simp add: authorized_bundle_def scope, simp add: sample_bundle_def sample_cert_def
        sample_opts_def default_options_def constraints_hold_def policy_allows_def
        cached_verdict_def live_policy_allows_def)
  moreover have "store_accepts ?opts 1600 sample_bundle sample_store"
    by (simp add: store_accepts_def challenge_accepted_def memory_challenge_store_def
        memory_validate_eq memory_consume_eq memory_inv_expire presentable_def sample_opts_def
        default_options_def sample_bundle_def,
        simp add: memory_pending_def sample_store_def sample_prims_def expire_def)
  ultimately show ?thesis
    by (simp add: verify_bundle_eq verify_bundle_inner_valid, simp add: sample_opts_def)
qed

theorem accepted_presentation_spends_witness:
  "memory_pending (fst (snd (verify_bundle sample_prims sample_bundle
     (sample_opts\<lparr>vo_challenge_store := Some (memory_challenge_store sample_prims)\<rparr>) 0 sample_store)))
     (hex_bytes [7, 8, 9]) = None"
  using accepted_presentation_spends [OF sample_store_inv _ sample_bundle_accepted]
  by (simp add: sample_bundle_def sample_prims_def)

section \<open>Liveness and streams\<close>

text \<open>
  C27: The freshness test is exact despite the wrapping subtraction: for a clock at or after the
  epoch, the liveness check passes exactly when the challenge is between zero and 300 seconds old
  and its signature verifies.  A challenge time chosen to overflow the subtraction is refused.
\<close>

theorem liveness_exact:
  assumes "0 \<le> now" "i64_range now" "i64_range t"
  shows "liveness_failure P now c t x sid n sg pk = None \<longleftrightarrow>
    0 \<le> now - t \<and> now - t \<le> 300
    \<and> is_ok (verify_challenge_signature_with_stream P c t x sid n sg pk)"
  using fresh_iff [OF assms] by (simp add: liveness_failure_None CHALLENGE_WINDOW_SECONDS_def)

theorem liveness_exact_witness:
  "liveness_failure sample_prims 1600 [7] (- (2 ^ 63)) [] [] 0 (sample_sig 2) (sample_pk 2) \<noteq> None"
  using liveness_exact [of 1600 "- (2 ^ 63)" sample_prims "[7]" "[]" "[]" 0 "sample_sig 2" "sample_pk 2"]
  by (simp add: i64_range_def)

text \<open>
  A stream-bound presentation is accepted only with the stream's own identifier and exactly
  the next sequence number; a verifier that tracks no stream accepts only unbound presentations.
\<close>

theorem stream_sequence_exact:
  assumes "i64_range (sc_last_seen_seq st)"
  shows "(stream_failure noun sid n (Some st) = None \<longleftrightarrow>
      sid = sc_stream_id st \<and> length sid = 32 \<and> n = sc_last_seen_seq st + 1 \<and> 1 \<le> n
      \<and> sc_last_seen_seq st < 2 ^ 63 - 1)
    \<and> (stream_failure noun sid n None = None \<longleftrightarrow> sid = [] \<and> n = 0)"
proof
  show "stream_failure noun sid n (Some st) = None \<longleftrightarrow>
      sid = sc_stream_id st \<and> length sid = 32 \<and> n = sc_last_seen_seq st + 1 \<and> 1 \<le> n
      \<and> sc_last_seen_seq st < 2 ^ 63 - 1"
  proof (cases "sc_last_seen_seq st = 2 ^ 63 - 1")
    case True
    then show ?thesis by (simp add: stream_failure_None stream_bound_def i64_add_def i64_wrap_def)
  next
    case False
    with assms have "i64_add (sc_last_seen_seq st) 1 = sc_last_seen_seq st + 1"
      by (simp add: i64_add_def i64_wrap_id i64_range_def)
    with False assms show ?thesis
      by (auto simp: stream_failure_None stream_bound_def i64_range_def)
  qed
qed (simp add: stream_failure_None stream_bound_def)

theorem stream_sequence_exact_witness:
  "stream_failure ''bundle'' (replicate 32 1) 8 (Some \<lparr>sc_stream_id = replicate 32 1, sc_last_seen_seq = 7\<rparr>) = None
   \<and> stream_failure ''bundle'' (replicate 32 1) 9 (Some \<lparr>sc_stream_id = replicate 32 1, sc_last_seen_seq = 7\<rparr>) \<noteq> None"
  by (subst (1 2) stream_sequence_exact [THEN conjunct1]) (simp_all add: i64_range_def)

text \<open>
  C28: A streamed turn is valid exactly when the session token verifies under the verifier's secret
  and is current, the turn carries a challenge bound to the expected session and stream, fresh and
  signed by the token's agent key, the required scope is in the token, and the store located and
  consumed the challenge.
\<close>

theorem streamed_turn_meets_spec:
  "vr_valid (fst (verify_streamed_turn_with_options P token secret turn opts clock s)) \<longleftrightarrow>
     turn_authentic P token secret opts (turn_time opts clock) turn \<and> turn_in_scope token opts
     \<and> challenge_accepted (so_challenge_store opts) (tu_challenge turn) (so_session_context opts)
         (turn_time opts clock) s"
  by (rule verify_streamed_valid)

section \<open>Transaction receipts\<close>

text \<open>
  C29: A transaction receipt is valid exactly when its envelope is complete, the parties are
  distinct and named, the signatures are for exactly those parties and one each, and every
  party's bundle is for that party's agent, verifies on its own, and the party signed the
  receipt's canonical bytes.
\<close>

theorem transaction_receipt_meets_spec:
  "trr_valid (verify_transaction_receipt P r now) \<longleftrightarrow>
     envelope_error r = None
     \<and> distinct (map py_party_id (tr_parties r)) \<and> [] \<notin> py_party_id ` set (tr_parties r)
     \<and> distinct (map ps_party_id (tr_party_signatures r))
     \<and> ps_party_id ` set (tr_party_signatures r) = py_party_id ` set (tr_parties r)
     \<and> list_all (\<lambda>p. pb_agent_id (py_proof_bundle p) = py_agent_id p
          \<and> pb_agent_pub_key (py_proof_bundle p) = py_agent_pub_key p \<and> party_signed P r p
          \<and> vr_valid (verify_party_bundle P now (py_proof_bundle p))) (tr_parties r)"
  by (simp add: transaction_receipt_valid_iff party_mismatch_None list_all_iff conj_ac)

section \<open>Signatures and encodings\<close>

text \<open>
  A hybrid signature is accepted only when both the Ed25519 and the ML-DSA-65 component verify
  over the message under keys and signatures of the protocol's sizes.
\<close>

theorem hybrid_needs_both:
  "verify_both P msg sg pk = Ok () \<longleftrightarrow>
     length (pk_ed25519 pk) = ED25519_PUBLIC_KEY_SIZE \<and> length (pk_ml_dsa_65 pk) = MLDSA65_PUBLIC_KEY_SIZE
     \<and> length (sig_ed25519 sg) = ED25519_SIGNATURE_SIZE \<and> length (sig_ml_dsa_65 sg) = MLDSA65_SIGNATURE_SIZE
     \<and> p_ed_key_ok P (pk_ed25519 pk) \<and> p_ed_sig_ok P (sig_ed25519 sg)
     \<and> p_ed_verify P (pk_ed25519 pk) msg (sig_ed25519 sg)
     \<and> p_ml_key_ok P (pk_ml_dsa_65 pk) \<and> p_ml_verify P (pk_ml_dsa_65 pk) msg (sig_ml_dsa_65 sg)"
  by (simp add: verify_both_iff ED25519_PUBLIC_KEY_SIZE_def MLDSA65_PUBLIC_KEY_SIZE_def
      ED25519_SIGNATURE_SIZE_def MLDSA65_SIGNATURE_SIZE_def)



text \<open>
  For challenges of one length, the signed challenge bytes determine the challenge, its time,
  the session binding, the stream and the sequence number: a signature made for one binding is not
  valid for another.
\<close>

theorem challenge_bytes_unambiguous:
  assumes "challenge_sign_bytes_with_stream c t x sid n = challenge_sign_bytes_with_stream c' t' x' sid' n'"
    and "length c = length c'" "binding x" "binding x'" "binding sid" "binding sid'"
    and "i64_range t" "i64_range t'" "i64_range n" "i64_range n'"
  shows "c = c' \<and> t = t' \<and> x = x' \<and> sid = sid' \<and> (sid = [] \<or> n = n')"
  using challenge_bytes_unique [OF assms] by blast

theorem challenge_bytes_unambiguous_witness:
  "challenge_sign_bytes_with_stream [7] 1500 [] (replicate 32 1) 3
     \<noteq> challenge_sign_bytes_with_stream [7] 1500 (replicate 32 1) [] 0"
proof
  assume "challenge_sign_bytes_with_stream [7] 1500 [] (replicate 32 1) 3
     = challenge_sign_bytes_with_stream [7] 1500 (replicate 32 1) [] 0"
  from challenge_bytes_unambiguous [OF this] show False
    by (simp add: binding_def i64_range_def)
qed

text \<open>
  C31: A certificate the issuer accepts and signs with a genuine key pair verifies, and signing
  changes nothing but the signature.
\<close>

theorem issued_delegation_verifies:
  assumes "hybrid_key_pair P sk (dc_issuer_pub_key cert)" and "issuance_error cert = None"
  shows "\<exists>c. issue_delegation P cert sk = Some (Ok c) \<and> verify_delegation_signature P c
    \<and> c = cert\<lparr>dc_signature := dc_signature c\<rparr>"
  using assms by (rule issue_delegation_verifies)

theorem issued_delegation_verifies_witness:
  "\<exists>c. issue_delegation sample_prims sample_cert (sample_sk 1) = Some (Ok c)
    \<and> verify_delegation_signature sample_prims c \<and> c = sample_cert\<lparr>dc_signature := dc_signature c\<rparr>"
  by (rule issued_delegation_verifies)
    (simp_all add: sample_cert_def issuance_error_def validate_resource_constraints_def
      MAX_SCOPES_PER_CERT_def MAX_SCOPE_LENGTH_BYTES_def)

text \<open>
  A session token verifies under its secret exactly from its issue time to its expiry, both
  included, and carries the sorted granted scope, the agent key and the human of the verification
  it was issued for.
\<close>

theorem session_token_window:
  assumes "digest_lengths P"
    and "issue_session_token P bundle result session_id issued_at valid_until secret = Ok t"
  shows "(verify_session_token P t secret now \<longleftrightarrow> issued_at \<le> now \<and> now \<le> valid_until)
    \<and> issued_at < valid_until \<and> st_granted_scope t = sort (vr_granted_scope result)
    \<and> st_agent_pub_key t = pb_agent_pub_key bundle \<and> st_human_id t = vr_human_id result"
  using session_token_round_trip [OF assms] by blast

theorem session_token_window_witness:
  "\<exists>t. issue_session_token sample_prims sample_bundle sample_result ''s-1'' 1600 1900 [1] = Ok t
    \<and> verify_session_token sample_prims t [1] 1900 \<and> \<not> verify_session_token sample_prims t [1] 1901"
proof -
  obtain t where t: "issue_session_token sample_prims sample_bundle sample_result ''s-1'' 1600 1900 [1] = Ok t"
    by (simp add: issue_session_token_def Let_def)
  with session_token_window [OF sample_digests t, of 1900] session_token_window [OF sample_digests t, of 1901]
  show ?thesis by simp
qed

text \<open>
  C32: A cached policy verdict is honoured exactly for the agent, the scope and the context hash it
  was issued for, within its validity period, and only if it allows.
\<close>

theorem policy_verdict_exact:
  assumes "digest_lengths P"
    and "issue_policy_verdict P verdict_id agent_id scope allow ctx_hash issued_at valid_until secret = Ok v"
  shows "is_ok (verify_policy_verdict P v secret agent_id' scope' ctx_hash' now) \<longleftrightarrow>
    allow \<and> agent_id' = agent_id \<and> scope' = scope \<and> ctx_hash' = ctx_hash
    \<and> issued_at \<le> now \<and> now \<le> valid_until"
  using assms by (rule policy_verdict_round_trip)

theorem policy_verdict_exact_witness:
  "\<exists>v. issue_policy_verdict sample_prims ''v'' ''agent'' ''files:write'' True (replicate 32 0) 10 20 [1] = Ok v
    \<and> is_ok (verify_policy_verdict sample_prims v [1] ''agent'' ''files:write'' (replicate 32 0) 20)
    \<and> \<not> is_ok (verify_policy_verdict sample_prims v [1] ''agent'' ''files:read'' (replicate 32 0) 20)"
proof -
  obtain v where v: "issue_policy_verdict sample_prims ''v'' ''agent'' ''files:write'' True (replicate 32 0) 10 20 [1] = Ok v"
    by (simp add: issue_policy_verdict_def policy_verdict_sign_bytes_Ok Let_def)
  show ?thesis
    by (rule exI [of _ v]) (simp add: v policy_verdict_exact [OF sample_digests v])
qed

text \<open>
  C33: A chain of verification receipts is tamper evident: if no two of the receipts involved
  collide under SHA-256, two chains of one length with the same newest hash have the same signed
  bytes throughout.
\<close>

theorem receipt_chain_binds_history:
  assumes "base64_injective P" "receipt_chain P xs" "receipt_chain P ys" "length xs = length ys"
    and "inj_on (p_sha256 P) (receipt_bytes P ` (set xs \<union> set ys))"
    and "xs \<noteq> []" "receipt_hash P (hd xs) = receipt_hash P (hd ys)"
  shows "map (receipt_bytes P) xs = map (receipt_bytes P) ys"
  using assms by (rule receipt_chain_tamper_evident)

theorem receipt_chain_binds_history_witness:
  "map (receipt_bytes sample_prims) [sample_receipt]
     = map (receipt_bytes sample_prims) [sample_receipt\<lparr>vrc_signature := sample_sig 9\<rparr>]"
proof (rule receipt_chain_binds_history)
  have "verification_receipt_members sample_prims (sample_receipt\<lparr>vrc_signature := sample_sig 9\<rparr>)
      = verification_receipt_members sample_prims sample_receipt"
    by (simp add: verification_receipt_members_def)
  then show "inj_on (p_sha256 sample_prims) (receipt_bytes sample_prims
      ` (set [sample_receipt] \<union> set [sample_receipt\<lparr>vrc_signature := sample_sig 9\<rparr>]))"
    and "receipt_hash sample_prims (hd [sample_receipt])
      = receipt_hash sample_prims (hd [sample_receipt\<lparr>vrc_signature := sample_sig 9\<rparr>])"
    by (simp_all add: receipt_hash_def verification_receipt_sign_bytes_def)
qed (simp_all add: sample_receipt_def)

text \<open>
  The operation-context and session-context preimages are injective in all their fields, and
  no operation context has the bytes of a session context.
\<close>

theorem context_bytes_injective:
  assumes "operation_context_bytes a = Ok x" "operation_context_bytes b = Ok y"
    and "session_context_bytes s = Ok u" "session_context_bytes t = Ok v"
    and "\<forall>f\<in>set (operation_fields a @ operation_fields b). rust_sized f"
    and "\<forall>f\<in>set (session_fields s @ session_fields t). rust_sized f"
  shows "(x = y \<longleftrightarrow> a = b) \<and> (u = v \<longleftrightarrow> s = t) \<and> x \<noteq> u"
proof -
  have x: "x = OPERATION_CONTEXT_DOMAIN_TAG @ frame (operation_fields a)"
    "y = OPERATION_CONTEXT_DOMAIN_TAG @ frame (operation_fields b)"
    using assms(1,2) operation_context_bytes_frame by blast+
  have u: "u = SESSION_CONTEXT_DOMAIN_TAG @ frame (session_fields s)"
    "v = SESSION_CONTEXT_DOMAIN_TAG @ frame (session_fields t)"
    using assms(3,4) session_context_bytes_frame by blast+
  have "x = y \<Longrightarrow> a = b"
    using frame_inj [of "operation_fields a" "operation_fields b"] assms(5) x operation_fields_inj
    by (simp add: operation_fields_def)
  moreover have "u = v \<Longrightarrow> s = t"
    using frame_inj [of "session_fields s" "session_fields t"] assms(6) u session_fields_inj
    by (simp add: session_fields_def)
  ultimately show ?thesis using assms(1-4) x u domain_tags_differ by auto
qed

theorem context_bytes_injective_witness:
  "\<exists>x u. operation_context_bytes \<lparr>oc_required_scope = ''ab'', oc_operation = ''c'', oc_resource_id = '''',
       oc_requested_path = '''', oc_payload_digest = []\<rparr> = Ok x
     \<and> session_context_bytes \<lparr>sci_verifier_id = ''v'', sci_workspace_id = '''', sci_agent_id = ''a'',
       sci_session_id = '''', sci_invocation_id = '''', sci_request_hash = replicate 32 0\<rparr> = Ok u
     \<and> x \<noteq> u"
proof -
  let ?a = "\<lparr>oc_required_scope = ''ab'', oc_operation = ''c'', oc_resource_id = '''',
       oc_requested_path = '''', oc_payload_digest = []\<rparr>"
  let ?s = "\<lparr>sci_verifier_id = ''v'', sci_workspace_id = '''', sci_agent_id = ''a'',
       sci_session_id = '''', sci_invocation_id = '''', sci_request_hash = replicate 32 0\<rparr>"
  obtain x u where xu: "operation_context_bytes ?a = Ok x" "session_context_bytes ?s = Ok u"
    by (simp add: operation_context_bytes_def session_context_bytes_def Let_def)
  have "(x = x \<longleftrightarrow> ?a = ?a) \<and> (u = u \<longleftrightarrow> ?s = ?s) \<and> x \<noteq> u"
    by (rule context_bytes_injective [OF xu(1) xu(1) xu(2) xu(2)])
      (simp_all add: operation_fields_def session_fields_def rust_sized_def)
  with xu show ?thesis by blast
qed

section \<open>Wire forms\<close>

text \<open>
  The nesting check accepts exactly the inputs in which the container depth, counted outside
  string literals, never exceeds 16 in any prefix; brackets inside strings do not count.
\<close>

theorem nesting_check_exact:
  "is_ok (check_json_nesting_depth data) \<longleftrightarrow>
     {p. prefix p data} \<subseteq> {p. nest_depth (0, False, False) p \<le> MAX_JSON_NESTING_DEPTH}"
  using nest_scan_iff [of 0 False False data]
  by (auto simp: check_json_nesting_depth_def)



text \<open>
  A bundle the wire decoder returns was at most 128 KiB of JSON nested at most 16 deep, and
  never fails the verifier's own input-bounds section.
\<close>

theorem decoded_bundle_within_bounds:
  assumes "decode_proof_bundle from_slice data = Ok b"
  shows "length data \<le> 131072 \<and> is_ok (check_json_nesting_depth data) \<and> bounds_failure b = None"
  using decode_proof_bundle_ok [OF assms] cert_constraint_error_None
  by (auto simp: bounds_failure_None check_cert_bounds_ok cert_within_bounds_def
      MAX_PROOF_BUNDLE_BYTES_def)

theorem decoded_bundle_within_bounds_witness:
  "bounds_failure sample_bundle = None"
proof -
  have "decode_proof_bundle (\<lambda>_. Ok sample_bundle) [] = Ok sample_bundle"
    by (simp add: decode_proof_bundle_def check_json_nesting_depth_def sample_bundle_def
        sample_cert_def check_cert_bounds_def MAX_SCOPES_PER_CERT_def MAX_CONSTRAINTS_PER_CERT_def
        MAX_SCOPE_LENGTH_BYTES_def)
  from decoded_bundle_within_bounds [OF this] show ?thesis by simp
qed

section \<open>Resource paths and constraints\<close>

text \<open>
  A path is accepted exactly when it is the slash-separated rendering of segments that are
  non-empty, no dot segment and free of separators, backslashes and NUL, with at most one trailing
  slash; the normal form is the rendering, so normalizing twice changes nothing.
\<close>

theorem normalize_characterised:
  "(normalize_resource_path p = Ok q \<longleftrightarrow>
     (\<exists>segs. list_all segment_ok segs \<and> q = render segs \<and> (p = q \<or> segs \<noteq> [] \<and> p = q @ [SEP])))
   \<and> (case normalize_resource_path p of Ok q' \<Rightarrow> normalize_resource_path q' = Ok q' | Err _ \<Rightarrow> True)"
proof -
  have 1: "\<exists>segs. list_all segment_ok segs \<and> q = render segs \<and> (p = q \<or> segs \<noteq> [] \<and> p = q @ [SEP])"
    if "normalize_resource_path p = Ok q" for p q
    using normalize_segments [OF that] by (metis list_all_iff)
  have 2: "normalize_resource_path p = Ok q"
    if "list_all segment_ok segs \<and> q = render segs \<and> (p = q \<or> segs \<noteq> [] \<and> p = q @ [SEP])" for segs p q
    using that normalize_render [of segs p] by (auto simp: list_all_iff)
  have "normalize_resource_path q' = Ok q'" if "normalize_resource_path p = Ok q'" for q'
    using 1 [OF that] 2 by blast
  then have "case normalize_resource_path p of Ok q' \<Rightarrow> normalize_resource_path q' = Ok q' | Err _ \<Rightarrow> True"
    by (simp split: sum.split)
  with 1 2 show ?thesis by blast
qed

text \<open>
  A prefix authorizes a path exactly when its segments are a prefix of the path's segments:
  the prefix \<open>/a\<close> covers \<open>/a/b\<close> and never \<open>/ab\<close>.
\<close>

theorem path_match_is_segment_prefix:
  assumes "list_all segment_ok s" "list_all segment_ok t"
  shows "resource_path_matches (render s) (render t) \<longleftrightarrow> prefix s t"
  using assms matches_render [of s t "render s" "render t"] normalize_render [of s "render s"]
    normalize_render [of t "render t"]
  by (simp add: list_all_iff)

theorem path_match_is_segment_prefix_witness:
  "resource_path_matches ''/a'' ''/a/b'' \<and> \<not> resource_path_matches ''/a'' ''/ab''"
proof -
  have "list_all segment_ok [''a'']" "list_all segment_ok [''a'', ''b'']" "list_all segment_ok [''ab'']"
    by (simp_all add: segment_ok_def)
  then have "resource_path_matches (render [''a'']) (render [''a'', ''b''])"
    "\<not> resource_path_matches (render [''a'']) (render [''ab''])"
    by (simp_all add: path_match_is_segment_prefix)
  then show ?thesis by (simp add: render_def)
qed

text \<open>
  Constraint sets the issuer accepts are jointly satisfiable: if no constraint writes its
  prefix as the empty string, one request satisfies every \<open>resource_path\<close> constraint of the
  certificate.
\<close>

theorem issued_paths_satisfiable:
  assumes "validate_resource_constraints cs = Ok ()" "Some '''' \<notin> c_path_prefix ` set cs"
  shows "\<exists>ctx. list_all (\<lambda>c. eval_resource_path c ctx = Ok ()) (path_constraints cs)"
  using issuance_satisfiable [of cs] assms by (force simp: list_all_iff)

theorem issued_paths_satisfiable_witness:
  "\<exists>ctx. list_all (\<lambda>c. eval_resource_path c ctx = Ok ())
     (path_constraints [sample_path_constraint, sample_path_constraint\<lparr>c_path_prefix := None\<rparr>])"
  by (rule issued_paths_satisfiable)
    (code_simp | simp add: sample_path_constraint_def)+

text \<open>
  C35: The issuance check lets through a constraint that nothing can satisfy: with the prefix
  written as the empty string it validates, yet evaluation refuses every request.
\<close>

theorem empty_prefix_unsatisfiable:
  "validate_resource_constraints [sample_path_constraint\<lparr>c_path_prefix := Some ''''\<rparr>] = Ok ()
   \<and> \<not> is_ok (eval_resource_path (sample_path_constraint\<lparr>c_path_prefix := Some ''''\<rparr>) ctx)"
proof
  show "validate_resource_constraints [sample_path_constraint\<lparr>c_path_prefix := Some ''''\<rparr>] = Ok ()"
    by code_simp
  show "\<not> is_ok (eval_resource_path (sample_path_constraint\<lparr>c_path_prefix := Some ''''\<rparr>) ctx)"
    by (simp add: eval_resource_path_ok normalize_resource_path_def)
qed

text \<open>
  A registered extension evaluator never decides a built-in constraint kind; for any other
  kind it decides alone, and without one the constraint fails closed.
\<close>

theorem extensions_cannot_override:
  "constraint_outcome P c cert_id ctx now ext =
    (if is_canonical_constraint_type (c_kind c) then evaluate_constraint P c cert_id ctx now
     else case Option.bind ext (\<lambda>m. map_of m (c_kind c)) of
       Some ev \<Rightarrow> ev c cert_id ctx now
     | None \<Rightarrow> Err (''constraint_unknown: unknown constraint type '' @ quoted (c_kind c)))"
  using constraint_outcome_builtin [of c P cert_id ctx now ext]
    constraint_outcome_extension [of c P cert_id ctx now ext]
  by simp

text \<open>
  A time-window constraint holds exactly when both ends parse to minutes of the day, the zone
  is known, the time is representable and the local minute lies in the window, which wraps
  midnight when it starts later than it ends.
\<close>

theorem time_window_exact:
  "is_ok (eval_time_window P c now) \<longleftrightarrow>
     c_tz c \<noteq> '''' \<and> p_timestamp_ok P now
     \<and> (\<exists>start end_m local_hm. parse_hhmm (c_start c) = Some start
          \<and> parse_hhmm (c_end c) = Some end_m \<and> p_timezone P (c_tz c) = Some local_hm
          \<and> 0 \<le> start \<and> start < 1440 \<and> 0 \<le> end_m \<and> end_m < 1440
          \<and> (let cur = fst (local_hm now) * 60 + snd (local_hm now) in
             if start \<le> end_m then start \<le> cur \<and> cur \<le> end_m else start \<le> cur \<or> cur \<le> end_m))"
  unfolding eval_time_window_ok in_window_def Let_def
  using parse_hhmm_range by fastforce

text \<open>
  C36: Context values that are not numbers pass the numeric limits: with NaN as speed, amount or
  location the speed, amount and bounding-box constraints report success.
\<close>

theorem nan_context_accepted:
  "eval_max_speed c (ctx\<lparr>vc_current_speed_mps := Some f64_nan\<rparr>) = Ok ()
   \<and> eval_max_amount c (ctx\<lparr>vc_requested_amount := Some f64_nan,
        vc_requested_currency := Some (c_currency c)\<rparr>) = Ok ()
   \<and> eval_geo_bbox c (ctx\<lparr>vc_current_lat := Some f64_nan, vc_current_lon := Some f64_nan,
        vc_current_alt_m := Some f64_nan\<rparr>) = Ok ()"
  using f64_nan_unordered [OF f64_nan_is_nan]
  by (simp add: eval_max_speed_def eval_max_amount_def eval_geo_bbox_def current_location_def)

text \<open>
  C37: The context hash of a policy verdict does not cover the requested resource and path, so a
  verdict cached for one path is honoured for every other.
\<close>

theorem verdict_ignores_resource:
  "cached_policy P (opts\<lparr>vo_context := (vo_context opts)\<lparr>vc_requested_resource_id := rid,
       vc_requested_path := path\<rparr>\<rparr>) now b = cached_policy P opts now b"
  unfolding cached_policy_eq cached_verdict_def success_result_def resolve_anchor_def
  by (cases opts, hypsubst, unfold options_convs context_text_resource, rule refl)

end
