(* ===== verification/V2_Errors.thy ===== *)
theory V2_Errors
  imports V1_Types
begin

text \<open>
  Protocol v2 failure classes, classified errors and signing errors
  (\<open>sdks/rust/src/v2/errors.rs\<close>), the wire and clock bounds (\<open>v2/limits.rs\<close>) and the
  stream-sequence rule (\<open>v2/stream_sequence.rs\<close>).  Results of v2 operations are sums with a
  \<open>v2_error\<close> on the left; \<open>err\<close> fixes a class, \<open>plain\<close> leaves it provisional until \<open>classify\<close>.
\<close>

section \<open>Failure classes\<close>

datatype v2_error_class =
    Malformed | UnsupportedObjectType | KeyIdMismatch | DelegationDigestMismatch
  | ChainLinkageMismatch | DuplicateCertificateRef | InvalidSignature | InvalidRequiredScope
  | ConfigurationInvalid | ExpectedChallengeUnavailable | NamespaceMismatch | StaleReplayEpoch
  | VerifierIdMismatch | ChallengeMismatch | ChallengeNotFresh | ExpectedAgentMismatch
  | SessionContextMismatch | ReceiverAudienceRequired | ReceiverAudienceMismatch
  | ReceiverBindingRejected | ClaimReplay | StreamSequenceMismatch | ClaimStoreUnavailable
  | ReceiptAbandoned | EvaluationCancelled | ClockRegressed | AllowHorizonPassed
  | ClaimLeaseLive | ClaimLeaseLost | ClaimAlreadyTerminal | ClaimNotFound
  | StatusKeyBindingMismatch | StatusObjectRejected | ReceiptBundleMismatch | BundleHashMismatch
  | TransactionPartyMismatch | TransactionContextMismatch | TransactionSignatureSetInvalid
  | RotationStateMismatch | RotationKeyReused | RotationFutureDated | RotationFork
  | RotationFrozen | RotationRecoveryInvalid | LogStateMismatch | LogGap | LogOrphan | LogFork
  | LogFrozen

definition ALL_CLASSES :: "v2_error_class list" where
  "ALL_CLASSES =
     [Malformed, UnsupportedObjectType, KeyIdMismatch, DelegationDigestMismatch,
      ChainLinkageMismatch, DuplicateCertificateRef, InvalidSignature, InvalidRequiredScope,
      ConfigurationInvalid, ExpectedChallengeUnavailable, NamespaceMismatch, StaleReplayEpoch,
      VerifierIdMismatch, ChallengeMismatch, ChallengeNotFresh, ExpectedAgentMismatch,
      SessionContextMismatch, ReceiverAudienceRequired, ReceiverAudienceMismatch,
      ReceiverBindingRejected, ClaimReplay, StreamSequenceMismatch, ClaimStoreUnavailable,
      ReceiptAbandoned, EvaluationCancelled, ClockRegressed, AllowHorizonPassed, ClaimLeaseLive,
      ClaimLeaseLost, ClaimAlreadyTerminal, ClaimNotFound, StatusKeyBindingMismatch,
      StatusObjectRejected, ReceiptBundleMismatch, BundleHashMismatch, TransactionPartyMismatch,
      TransactionContextMismatch, TransactionSignatureSetInvalid, RotationStateMismatch,
      RotationKeyReused, RotationFutureDated, RotationFork, RotationFrozen,
      RotationRecoveryInvalid, LogStateMismatch, LogGap, LogOrphan, LogFork, LogFrozen]"

primrec class_str :: "v2_error_class \<Rightarrow> string" where
  "class_str Malformed = ''malformed''"
| "class_str UnsupportedObjectType = ''unsupported_object_type''"
| "class_str KeyIdMismatch = ''key_id_mismatch''"
| "class_str DelegationDigestMismatch = ''delegation_digest_mismatch''"
| "class_str ChainLinkageMismatch = ''chain_linkage_mismatch''"
| "class_str DuplicateCertificateRef = ''duplicate_certificate_ref''"
| "class_str InvalidSignature = ''invalid_signature''"
| "class_str InvalidRequiredScope = ''invalid_required_scope''"
| "class_str ConfigurationInvalid = ''configuration_invalid''"
| "class_str ExpectedChallengeUnavailable = ''expected_challenge_unavailable''"
| "class_str NamespaceMismatch = ''namespace_mismatch''"
| "class_str StaleReplayEpoch = ''stale_replay_epoch''"
| "class_str VerifierIdMismatch = ''verifier_id_mismatch''"
| "class_str ChallengeMismatch = ''challenge_mismatch''"
| "class_str ChallengeNotFresh = ''challenge_not_fresh''"
| "class_str ExpectedAgentMismatch = ''expected_agent_mismatch''"
| "class_str SessionContextMismatch = ''session_context_mismatch''"
| "class_str ReceiverAudienceRequired = ''receiver_audience_required''"
| "class_str ReceiverAudienceMismatch = ''receiver_audience_mismatch''"
| "class_str ReceiverBindingRejected = ''receiver_binding_rejected''"
| "class_str ClaimReplay = ''claim_replay''"
| "class_str StreamSequenceMismatch = ''stream_sequence_mismatch''"
| "class_str ClaimStoreUnavailable = ''claim_store_unavailable''"
| "class_str ReceiptAbandoned = ''receipt_abandoned''"
| "class_str EvaluationCancelled = ''evaluation_cancelled''"
| "class_str ClockRegressed = ''clock_regressed''"
| "class_str AllowHorizonPassed = ''allow_horizon_passed''"
| "class_str ClaimLeaseLive = ''claim_lease_live''"
| "class_str ClaimLeaseLost = ''claim_lease_lost''"
| "class_str ClaimAlreadyTerminal = ''claim_already_terminal''"
| "class_str ClaimNotFound = ''claim_not_found''"
| "class_str StatusKeyBindingMismatch = ''status_key_binding_mismatch''"
| "class_str StatusObjectRejected = ''status_object_rejected''"
| "class_str ReceiptBundleMismatch = ''receipt_bundle_mismatch''"
| "class_str BundleHashMismatch = ''bundle_hash_mismatch''"
| "class_str TransactionPartyMismatch = ''transaction_party_mismatch''"
| "class_str TransactionContextMismatch = ''transaction_context_mismatch''"
| "class_str TransactionSignatureSetInvalid = ''transaction_signature_set_invalid''"
| "class_str RotationStateMismatch = ''rotation_state_mismatch''"
| "class_str RotationKeyReused = ''rotation_key_reused''"
| "class_str RotationFutureDated = ''rotation_future_dated''"
| "class_str RotationFork = ''rotation_fork''"
| "class_str RotationFrozen = ''rotation_frozen''"
| "class_str RotationRecoveryInvalid = ''rotation_recovery_invalid''"
| "class_str LogStateMismatch = ''log_state_mismatch''"
| "class_str LogGap = ''log_gap''"
| "class_str LogOrphan = ''log_orphan''"
| "class_str LogFork = ''log_fork''"
| "class_str LogFrozen = ''log_frozen''"

text \<open>\<open>parse\<close>: the class whose spelling the text is.\<close>

definition class_parse :: "string \<Rightarrow> v2_error_class option" where
  "class_parse text = find (\<lambda>c. class_str c = text) ALL_CLASSES"

section \<open>Classified errors\<close>

record v2_error =
  e_class :: v2_error_class
  e_message :: string
  e_explicit :: bool

type_synonym 'a v2_result = "v2_error + 'a"

definition v2_new :: "v2_error_class \<Rightarrow> string \<Rightarrow> v2_error" where
  "v2_new c m = \<lparr>e_class = c, e_message = m, e_explicit = True\<rparr>"

definition v2_plain :: "string \<Rightarrow> v2_error" where
  "v2_plain m = \<lparr>e_class = Malformed, e_message = m, e_explicit = False\<rparr>"

definition classify :: "v2_error_class \<Rightarrow> v2_error \<Rightarrow> v2_error" where
  "classify c e = (if \<not> e_explicit e then e\<lparr>e_class := c, e_explicit := True\<rparr> else e)"

definition is_classified :: "v2_error \<Rightarrow> bool" where
  "is_classified e = e_explicit e"

definition with_context :: "string \<Rightarrow> v2_error \<Rightarrow> v2_error" where
  "with_context pre e = e\<lparr>e_message := pre @ '': '' @ e_message e\<rparr>"

definition v2_display :: "v2_error \<Rightarrow> string" where
  "v2_display e = e_message e @ '' ('' @ class_str (e_class e) @ '')''"

definition err :: "v2_error_class \<Rightarrow> string \<Rightarrow> 'a v2_result" where
  "err c m = Err (v2_new c m)"

definition plain :: "string \<Rightarrow> 'a v2_result" where
  "plain m = Err (v2_plain m)"

definition classify_result :: "v2_error_class \<Rightarrow> 'a v2_result \<Rightarrow> 'a v2_result" where
  "classify_result c r = map_err (classify c) r"

definition v2_error_class_of :: "'a v2_result \<Rightarrow> v2_error_class option" where
  "v2_error_class_of r = map_option e_class (err_opt r)"

text \<open>Sequencing with \<open>?\<close>.\<close>

definition bind_ok :: "'e + 'a \<Rightarrow> ('a \<Rightarrow> 'e + 'b) \<Rightarrow> 'e + 'b" where
  "bind_ok r f = (case r of Err e \<Rightarrow> Err e | Ok x \<Rightarrow> f x)"

text \<open>\<open>if cond { return plain(..) }\<close> and the like, before the rest of the function.\<close>

definition require_ok :: "bool \<Rightarrow> 'e \<Rightarrow> 'e + unit" where
  "require_ok ok e = (if ok then Ok () else Err e)"

definition reject :: "bool \<Rightarrow> string \<Rightarrow> 'a v2_result \<Rightarrow> 'a v2_result" where
  "reject bad m rest = (if bad then plain m else rest)"

definition reject_as :: "bool \<Rightarrow> v2_error_class \<Rightarrow> string \<Rightarrow> 'a v2_result \<Rightarrow> 'a v2_result" where
  "reject_as bad c m rest = (if bad then err c m else rest)"

section \<open>Signing errors\<close>

datatype v2_sign_error =
    InvalidObject v2_error | IssuerDuty string | KeyBinding string | InvalidSignerKey string
  | UnsupportedMode | Provider string | Cancelled | SignatureRejected v2_error

type_synonym 'a v2_sign_result = "v2_sign_error + 'a"

fun sign_error_class :: "v2_sign_error \<Rightarrow> v2_error_class" where
  "sign_error_class (InvalidObject e) = e_class e"
| "sign_error_class (IssuerDuty m) = Malformed"
| "sign_error_class (KeyBinding m) = KeyIdMismatch"
| "sign_error_class (InvalidSignerKey m) = ConfigurationInvalid"
| "sign_error_class UnsupportedMode = ConfigurationInvalid"
| "sign_error_class (Provider m) = ConfigurationInvalid"
| "sign_error_class Cancelled = EvaluationCancelled"
| "sign_error_class (SignatureRejected e) = InvalidSignature"

fun sign_error_display :: "v2_sign_error \<Rightarrow> string" where
  "sign_error_display (InvalidObject e) = ''v2 signing refused: '' @ v2_display e"
| "sign_error_display (IssuerDuty m) = ''v2 issuer duty: '' @ m"
| "sign_error_display (KeyBinding m) = ''v2 signer key binding: '' @ m"
| "sign_error_display (InvalidSignerKey m) = ''v2 signer key: '' @ m"
| "sign_error_display UnsupportedMode = ''v2 signer reports an unsupported mode''"
| "sign_error_display (Provider m) = ''v2 signer: '' @ m"
| "sign_error_display Cancelled = ''v2 signing cancelled''"
| "sign_error_display (SignatureRejected e) =
     ''v2 signer returned a signature that does not verify: '' @ v2_display e"

section \<open>Limits\<close>

definition MAX_DELEGATION_CERT_BYTES_V2 :: nat where "MAX_DELEGATION_CERT_BYTES_V2 = 32 * 2 ^ 10"
definition MAX_PROOF_BUNDLE_BYTES_V2 :: nat where "MAX_PROOF_BUNDLE_BYTES_V2 = 128 * 2 ^ 10"
definition MAX_KEY_ROTATION_STATEMENT_BYTES_V2 :: nat where
  "MAX_KEY_ROTATION_STATEMENT_BYTES_V2 = 32 * 2 ^ 10"
definition MAX_REVOCATION_PUSH_BYTES_V2 :: nat where "MAX_REVOCATION_PUSH_BYTES_V2 = 256 * 2 ^ 10"
definition MAX_REVOCATION_PUSH_REFS_V2 :: nat where "MAX_REVOCATION_PUSH_REFS_V2 = 512"
definition MAX_REVOCATION_LIST_BYTES_V2 :: nat where "MAX_REVOCATION_LIST_BYTES_V2 = 4 * 2 ^ 20"
definition MAX_REVOCATION_LIST_REFS_V2 :: nat where "MAX_REVOCATION_LIST_REFS_V2 = 10000"
definition MAX_WITNESS_ENTRY_BYTES_V2 :: nat where "MAX_WITNESS_ENTRY_BYTES_V2 = 64 * 2 ^ 10"
definition MAX_WITNESS_ENTRY_DATA_BYTES_V2 :: nat where "MAX_WITNESS_ENTRY_DATA_BYTES_V2 = 16 * 2 ^ 10"
definition MAX_VERIFICATION_RECEIPT_BYTES_V2 :: nat where
  "MAX_VERIFICATION_RECEIPT_BYTES_V2 = 64 * 2 ^ 10"
definition MAX_VERIFICATION_RECEIPT_BODY_BYTES_V2 :: nat where
  "MAX_VERIFICATION_RECEIPT_BODY_BYTES_V2 = 64 * 2 ^ 10"
definition MAX_STATUS_EVIDENCE_BATCH_BYTES_V2 :: nat where
  "MAX_STATUS_EVIDENCE_BATCH_BYTES_V2 = 8 * 2 ^ 20"
definition MAX_STATUS_EVIDENCE_BATCH_OBJECTS_V2 :: nat where
  "MAX_STATUS_EVIDENCE_BATCH_OBJECTS_V2 = 64"
definition MAX_TRANSACTION_RECEIPT_BYTES_V2 :: nat where
  "MAX_TRANSACTION_RECEIPT_BYTES_V2 = 5 * 2 ^ 20"
definition MAX_TRANSACTION_PARTIES_V2 :: nat where "MAX_TRANSACTION_PARTIES_V2 = 32"
definition MAX_CHECKPOINT_ACKNOWLEDGEMENT_BYTES_V2 :: nat where
  "MAX_CHECKPOINT_ACKNOWLEDGEMENT_BYTES_V2 = 1024"

definition V2_MAX_TIMESTAMP_SECONDS :: int where "V2_MAX_TIMESTAMP_SECONDS = 253402300799"
definition V2_MAX_FUTURE_SKEW_SECONDS :: int where "V2_MAX_FUTURE_SKEW_SECONDS = 300"
definition V2_MAX_CHALLENGE_AGE_SECONDS :: int where "V2_MAX_CHALLENGE_AGE_SECONDS = 300"
definition V2_MAX_STATUS_LIFETIME_SECONDS :: int where "V2_MAX_STATUS_LIFETIME_SECONDS = 86400"
definition V2_MAX_AUDIENCE_MEMBERSHIP_AGE_SECONDS :: int where
  "V2_MAX_AUDIENCE_MEMBERSHIP_AGE_SECONDS = 86400"
definition V2_MAX_RATE_WINDOW_SECONDS :: int where "V2_MAX_RATE_WINDOW_SECONDS = 86400"
definition V2_MAX_DELEGATION_LIFETIME_SECONDS :: int where
  "V2_MAX_DELEGATION_LIFETIME_SECONDS = 315360000"
definition V2_MAX_SAFE_INTEGER :: int where "V2_MAX_SAFE_INTEGER = 9007199254740991"

definition check_v2_wire_size :: "bytes \<Rightarrow> string \<Rightarrow> string \<Rightarrow> nat \<Rightarrow> unit v2_result" where
  "check_v2_wire_size data object limit_name limit =
     (if length data > limit then plain (''wire v2: '' @ object @ '' exceeds '' @ limit_name @ '' ('' @
        dec_nat limit @ '' bytes); rejected before parsing'')
      else Ok ())"

section \<open>Times\<close>

definition valid_v2_timestamp :: "int \<Rightarrow> bool" where
  "valid_v2_timestamp t \<longleftrightarrow> 0 \<le> t \<and> t \<le> V2_MAX_TIMESTAMP_SECONDS"

text \<open>\<open>i64::checked_add\<close>.\<close>

definition checked_add :: "int \<Rightarrow> int \<Rightarrow> int option" where
  "checked_add a b = (if i64_range (a + b) then Some (a + b) else None)"

definition checked_add_v2 :: "int \<Rightarrow> int \<Rightarrow> int option" where
  "checked_add_v2 a b =
     (if \<not> (0 \<le> a \<and> a \<le> V2_MAX_TIMESTAMP_SECONDS) \<or> \<not> (0 \<le> b \<and> b \<le> V2_MAX_TIMESTAMP_SECONDS)
      then None else checked_add a b)"

definition v2_challenge_time_current :: "int \<Rightarrow> int \<Rightarrow> int \<Rightarrow> int \<Rightarrow> int \<Rightarrow> bool" where
  "v2_challenge_time_current now issued_at expires_at max_age future_skew =
     (if \<not> valid_v2_timestamp now \<or> \<not> valid_v2_timestamp issued_at \<or> \<not> valid_v2_timestamp expires_at
      then False
      else if issued_at > now \<and> i64_sub issued_at now > future_skew then False
      else case checked_add_v2 issued_at max_age of
        Some age_deadline \<Rightarrow> now < expires_at \<and> now < age_deadline
      | None \<Rightarrow> False)"

definition validate_v2_freshness_configuration :: "int \<Rightarrow> int \<Rightarrow> int \<Rightarrow> unit v2_result" where
  "validate_v2_freshness_configuration now max_age_seconds future_skew_seconds =
     (if \<not> valid_v2_timestamp now
      then err ConfigurationInvalid
        (''v2 verifier time is outside 0..'' @ dec_int V2_MAX_TIMESTAMP_SECONDS)
      else if \<not> (1 \<le> max_age_seconds \<and> max_age_seconds \<le> V2_MAX_CHALLENGE_AGE_SECONDS)
      then err ConfigurationInvalid (''v2 challenge maximum age must be 1..'' @
        dec_int V2_MAX_CHALLENGE_AGE_SECONDS @ '' seconds'')
      else if \<not> (0 \<le> future_skew_seconds \<and> future_skew_seconds \<le> V2_MAX_FUTURE_SKEW_SECONDS)
      then err ConfigurationInvalid (''v2 future skew must be 0..'' @
        dec_int V2_MAX_FUTURE_SKEW_SECONDS @ '' seconds'')
      else Ok ())"

section \<open>Stream sequence\<close>

definition check_v2_stream_sequence :: "bool \<Rightarrow> int \<Rightarrow> int \<Rightarrow> unit v2_result" where
  "check_v2_stream_sequence has_last last_seq seq =
     (if \<not> (1 \<le> seq \<and> seq \<le> MAX_SAFE_INTEGER)
         \<or> has_last \<and> \<not> (1 \<le> last_seq \<and> last_seq \<le> MAX_SAFE_INTEGER)
      then err Malformed ''v2 stream sequence is outside 1..2^53-1''
      else if has_last \<and> last_seq = MAX_SAFE_INTEGER
      then err StreamSequenceMismatch ''v2 stream sequence is exhausted''
      else let expected = (if has_last then i64_add last_seq 1 else 1) in
        if seq = expected then Ok ()
        else if seq > expected
        then err StreamSequenceMismatch (''v2 stream sequence '' @ dec_int seq @ '' skips expected '' @
          dec_int expected)
        else if seq = last_seq
        then err StreamSequenceMismatch (''v2 stream sequence '' @ dec_int seq @ '' was already accepted'')
        else err StreamSequenceMismatch (''v2 stream sequence '' @ dec_int seq @ '' precedes accepted '' @
          dec_int last_seq))"

section \<open>Facts\<close>

lemma bind_ok_simps [simp]: "bind_ok (Err e) f = Err e" "bind_ok (Ok x) f = f x"
  by (simp_all add: bind_ok_def)

lemma bind_ok_Ok: "bind_ok r f = Ok y \<longleftrightarrow> (\<exists>x. r = Ok x \<and> f x = Ok y)"
  by (cases r) simp_all

lemma require_ok_Ok [simp]: "require_ok b e = Ok u \<longleftrightarrow> b"
  by (simp add: require_ok_def)

lemma err_not_Ok [simp]: "err c m \<noteq> Ok x" "plain m \<noteq> Ok x"
  by (simp_all add: err_def plain_def)

lemma reject_Ok: "reject bad m rest = Ok x \<longleftrightarrow> \<not> bad \<and> rest = Ok x"
  "reject_as bad c m rest = Ok x \<longleftrightarrow> \<not> bad \<and> rest = Ok x"
  by (simp_all add: reject_def reject_as_def)

lemma is_ok_err [simp]: "\<not> is_ok (err c m)" "\<not> is_ok (plain m)"
  by (simp_all add: err_def plain_def)

lemma classify_result_Ok [simp]: "classify_result c r = Ok x \<longleftrightarrow> r = Ok x"
  by (simp add: classify_result_def)

lemma classify_result_Ok2 [simp]: "classify_result c (Ok x) = Ok x"
  by (simp add: classify_result_def)

lemma classify_classified: "is_classified (classify c e)"
  by (simp add: classify_def is_classified_def)

lemma classify_keeps: "is_classified e \<Longrightarrow> classify c e = e"
  by (simp add: classify_def is_classified_def)

lemma classify_result_classified: "classify_result c r = Err e \<Longrightarrow> is_classified e"
  by (cases r) (auto simp: classify_result_def classify_classified)

lemma ALL_CLASSES_complete: "c \<in> set ALL_CLASSES"
  by (cases c) (simp_all add: ALL_CLASSES_def)

lemma valid_timestamp_i64: "valid_v2_timestamp t \<Longrightarrow> i64_range t"
  by (simp add: valid_v2_timestamp_def V2_MAX_TIMESTAMP_SECONDS_def i64_range_def)

lemma checked_add_v2_eq:
  "checked_add_v2 a b = (if valid_v2_timestamp a \<and> valid_v2_timestamp b then Some (a + b) else None)"
  by (simp add: checked_add_v2_def checked_add_def valid_v2_timestamp_def
      V2_MAX_TIMESTAMP_SECONDS_def i64_range_def)

lemma challenge_time_current_iff:
  "v2_challenge_time_current now i e m k \<longleftrightarrow>
     valid_v2_timestamp now \<and> valid_v2_timestamp i \<and> valid_v2_timestamp e \<and> valid_v2_timestamp m
     \<and> (now < i \<longrightarrow> i - now \<le> k) \<and> now < e \<and> now < i + m"
proof -
  have "i64_sub i now = i - now" if "valid_v2_timestamp i" "valid_v2_timestamp now"
    using that by (simp add: i64_sub_def i64_wrap_id i64_range_def valid_v2_timestamp_def
        V2_MAX_TIMESTAMP_SECONDS_def)
  then show ?thesis
    by (auto simp: v2_challenge_time_current_def checked_add_v2_eq split: option.splits if_splits)
qed

lemma stream_sequence_ok_iff:
  "check_v2_stream_sequence (x \<noteq> None) (unwrap_or x 0) seq = Ok () \<longleftrightarrow>
     1 \<le> seq \<and> seq \<le> MAX_SAFE_INTEGER
     \<and> (case x of None \<Rightarrow> seq = 1 | Some l \<Rightarrow> 1 \<le> l \<and> seq = l + 1)"
proof (cases x)
  case None
  then show ?thesis
    by (auto simp: check_v2_stream_sequence_def Let_def MAX_SAFE_INTEGER_def)
next
  case (Some l)
  have "i64_add l 1 = l + 1" if "1 \<le> l" "l \<le> MAX_SAFE_INTEGER"
    using that by (simp add: i64_add_def i64_wrap_id i64_range_def MAX_SAFE_INTEGER_def)
  with Some show ?thesis
    by (auto simp: check_v2_stream_sequence_def Let_def)
qed

end
