(* ===== verification/V2_Platform.thy ===== *)
theory V2_Platform
  imports Ratify_Platform
begin

text \<open>
  What Protocol v2 calls in third-party crates beyond the v1 platform: base64 and hexadecimal
  decoding, SHA-384, SHAKE256, Edwards point decompression, strict Ed25519 verification, and ML-DSA-65 with a
  context string.
\<close>

text \<open>
  The observations the code makes of a decompressed point: its compressed form, whether it is the
  identity, whether it is torsion-free.
\<close>

record ed_point =
  ep_compress :: bytes
  ep_is_identity :: bool
  ep_is_torsion_free :: bool

record v2_prims =
  v_base :: prims
  v_b64_decode :: "string \<Rightarrow> bytes option"
  v_hex_decode :: "string \<Rightarrow> bytes option"
  v_sha384 :: "bytes \<Rightarrow> bytes"
  v_shake256 :: "bytes \<Rightarrow> nat \<Rightarrow> bytes"
  v_ed_public :: "bytes \<Rightarrow> bytes"
  v_ed_decompress :: "bytes \<Rightarrow> ed_point option"
  v_ed_verify_strict :: "bytes \<Rightarrow> bytes \<Rightarrow> bytes \<Rightarrow> bool"
  v_ml_public :: "bytes \<Rightarrow> bytes"
  v_ml_sign_ctx :: "bytes \<Rightarrow> bytes \<Rightarrow> bytes \<Rightarrow> bytes \<Rightarrow> string + bytes"
  v_ml_verify_ctx :: "bytes \<Rightarrow> bytes \<Rightarrow> bytes \<Rightarrow> bytes \<Rightarrow> bool"

text \<open>
  \<open>v_ed_verify_strict key msg sig\<close>, \<open>v_ml_verify_ctx key msg sig context\<close> check a signature;
  \<open>v_ml_sign_ctx secret randomness msg context\<close> signs or gives the crate's error text.
  The digest lengths are what the theorems use of the hash functions.
\<close>

definition sha384_sized :: "v2_prims \<Rightarrow> bool" where
  "sha384_sized V \<longleftrightarrow> (\<forall>b. length (v_sha384 V b) = 48)"

definition sha256_sized :: "v2_prims \<Rightarrow> bool" where
  "sha256_sized V \<longleftrightarrow> (\<forall>b. length (p_sha256 (v_base V) b) = 32)"

end
