(* ===== verification/V2_Crypto.thy ===== *)
theory V2_Crypto
  imports V1_Canonical V2_Errors V2_Platform
begin

text \<open>
  Typed v2 signatures (\<open>sdks/rust/src/v2/crypto.rs\<close>) and the older delegation-only helpers
  (\<open>sdks/rust/src/crypto_v2.rs\<close>): the object registry, key identifiers, the signing transcript, and
  strict verification of both signature components.  The lemmas show that the registry codes are
  distinct, that transcripts and contexts separate the object types, and that the delegation
  helper accepts exactly what the typed verifier accepts for a delegation certificate.
\<close>

section \<open>The object registry\<close>

datatype v2_object_type =
    DelegationCertificate | ChallengePresentation | RevocationList | KeyRotationAuthorization
  | RevocationPush | WitnessEntry | TransactionPartyStatement | VerificationReceipt
  | KeyRotationProofOfPossession

fun object_code :: "v2_object_type \<Rightarrow> int" where
  "object_code DelegationCertificate = 0x0001"
| "object_code ChallengePresentation = 0x0002"
| "object_code RevocationList = 0x0003"
| "object_code KeyRotationAuthorization = 0x0004"
| "object_code RevocationPush = 0x0005"
| "object_code WitnessEntry = 0x0006"
| "object_code TransactionPartyStatement = 0x0007"
| "object_code VerificationReceipt = 0x0008"
| "object_code KeyRotationProofOfPossession = 0x0009"

definition from_code :: "int \<Rightarrow> v2_object_type option" where
  "from_code code =
     (if code = 0x0001 then Some DelegationCertificate
      else if code = 0x0002 then Some ChallengePresentation
      else if code = 0x0003 then Some RevocationList
      else if code = 0x0004 then Some KeyRotationAuthorization
      else if code = 0x0005 then Some RevocationPush
      else if code = 0x0006 then Some WitnessEntry
      else if code = 0x0007 then Some TransactionPartyStatement
      else if code = 0x0008 then Some VerificationReceipt
      else if code = 0x0009 then Some KeyRotationProofOfPossession
      else None)"

text \<open>\<open>u16::to_be_bytes\<close> and \<open>{:04x}\<close>.\<close>

definition be16 :: "int \<Rightarrow> bytes" where
  "be16 n = [word_of_int (n div 256), word_of_int n]"

definition hex04 :: "int \<Rightarrow> string" where
  "hex04 n = map (\<lambda>k. hex_digit (nat n div 16 ^ k mod 16)) [3, 2, 1, 0]"

section \<open>Key identifiers\<close>

definition ML_PK_LEN :: nat where "ML_PK_LEN = 1952"
definition ML_SIG_LEN :: nat where "ML_SIG_LEN = 3309"

definition NUL_BYTE :: string where "NUL_BYTE = [CHR 0x00]"

definition sha384 :: "v2_prims \<Rightarrow> bytes list \<Rightarrow> bytes" where
  "sha384 V parts = v_sha384 V (concat parts)"

definition sha256 :: "v2_prims \<Rightarrow> bytes list \<Rightarrow> bytes" where
  "sha256 V parts = p_sha256 (v_base V) (concat parts)"

definition KEY_ID_PREFIX :: bytes where
  "KEY_ID_PREFIX = str_bytes (''ratify-key-id-v2'' @ NUL_BYTE)"

definition key_id_v2 :: "v2_prims \<Rightarrow> hybrid_public_key \<Rightarrow> string v2_result" where
  "key_id_v2 V key =
     (if length (pk_ed25519 key) \<noteq> 32
      then err Malformed (''Ed25519 public key wrong length: '' @ dec_nat (length (pk_ed25519 key)))
      else if length (pk_ml_dsa_65 key) \<noteq> ML_PK_LEN
      then err Malformed (''ML-DSA-65 public key wrong length: '' @ dec_nat (length (pk_ml_dsa_65 key)))
      else Ok (p_hex (v_base V) (sha256 V [KEY_ID_PREFIX, pk_ed25519 key, pk_ml_dsa_65 key])))"

definition derive_key_id_v2 :: "v2_prims \<Rightarrow> hybrid_public_key \<Rightarrow> string rresult" where
  "derive_key_id_v2 V key =
     (if length (pk_ed25519 key) \<noteq> 32 \<or> length (pk_ml_dsa_65 key) \<noteq> ML_PK_LEN
      then Err ''v2 hybrid public key has a component with the wrong length''
      else Ok (p_hex (v_base V) (sha256 V [KEY_ID_PREFIX, pk_ed25519 key, pk_ml_dsa_65 key])))"

definition equal_keys :: "hybrid_public_key \<Rightarrow> hybrid_public_key \<Rightarrow> bool" where
  "equal_keys a b \<longleftrightarrow> pk_ed25519 a = pk_ed25519 b \<and> pk_ml_dsa_65 a = pk_ml_dsa_65 b"

definition hex_lower_char :: "char \<Rightarrow> bool" where
  "hex_lower_char c \<longleftrightarrow> is_digit c \<or> 97 \<le> (of_char c :: nat) \<and> (of_char c :: nat) \<le> 102"

definition lower_hex :: "string \<Rightarrow> bool" where
  "lower_hex s \<longleftrightarrow> list_all hex_lower_char s"

definition valid_v2_id :: "string \<Rightarrow> bool" where
  "valid_v2_id s \<longleftrightarrow> length s = 64 \<and> lower_hex s"

definition strip_prefix :: "string \<Rightarrow> string \<Rightarrow> string option" where
  "strip_prefix p s = (if prefix p s then Some (drop (length p) s) else None)"

definition valid_prefixed_digest :: "string \<Rightarrow> bool" where
  "valid_prefixed_digest s =
     (case strip_prefix ''sha384:'' s of
        Some h \<Rightarrow> length h = 96 \<and> lower_hex h
      | None \<Rightarrow> False)"

definition lp :: "bytes \<Rightarrow> bytes" where
  "lp b = be64 (int (length b)) @ b"

section \<open>The signing transcript\<close>

definition SIGNATURE_PREFIX :: bytes where
  "SIGNATURE_PREFIX = str_bytes (''ratify-protocol-signature'' @ NUL_BYTE @ [CHR 0x02])"

definition v2_signing_message :: "v2_prims \<Rightarrow> v2_object_type \<Rightarrow> bytes \<Rightarrow> bytes" where
  "v2_signing_message V ty signable =
     SIGNATURE_PREFIX @ be16 (object_code ty) @ v_sha384 V signable"

definition v2_mldsa_context :: "v2_object_type \<Rightarrow> bytes" where
  "v2_mldsa_context ty = str_bytes (''ratify-protocol/2/'' @ hex04 (object_code ty))"

definition DELEGATION_CODE :: int where "DELEGATION_CODE = 0x0001"

definition ML_DSA_CONTEXT :: bytes where
  "ML_DSA_CONTEXT = str_bytes ''ratify-protocol/2/0001''"

definition signature_message :: "v2_prims \<Rightarrow> int \<Rightarrow> bytes \<Rightarrow> bytes" where
  "signature_message V code signable = SIGNATURE_PREFIX @ be16 code @ v_sha384 V signable"

definition delegation_signature_message_v2 :: "v2_prims \<Rightarrow> bytes \<Rightarrow> bytes" where
  "delegation_signature_message_v2 V signable = signature_message V DELEGATION_CODE signable"

section \<open>Private keys and signing\<close>

definition ed_seed :: "v2_prims \<Rightarrow> hybrid_private_key \<Rightarrow> bytes v2_result" where
  "ed_seed V sk =
     (let ed = sk_ed25519 sk; seed = take 32 ed in
      if length ed \<noteq> 32 \<and> length ed \<noteq> 64 then plain ''incomplete hybrid private key''
      else if length ed = 64 \<and> v_ed_public V seed \<noteq> drop 32 ed
      then plain ''Ed25519 private key seed and public component do not match''
      else Ok seed)"

definition ml_secret :: "v2_prims \<Rightarrow> hybrid_private_key \<Rightarrow> bytes v2_result" where
  "ml_secret V sk =
     (if length (sk_ml_dsa_65 sk) \<noteq> p_ml_secret_len (v_base V)
      then plain ''incomplete hybrid private key''
      else if \<not> p_ml_secret_ok (v_base V) (sk_ml_dsa_65 sk)
      then plain ''ML-DSA-65 secret key malformed''
      else Ok (sk_ml_dsa_65 sk))"

definition public_key_v2 :: "v2_prims \<Rightarrow> hybrid_private_key \<Rightarrow> hybrid_public_key v2_result" where
  "public_key_v2 V sk =
     bind_ok (classify_result Malformed (ed_seed V sk)) (\<lambda>seed.
     bind_ok (classify_result Malformed (ml_secret V sk)) (\<lambda>ml.
       Ok \<lparr>pk_ed25519 = v_ed_public V seed, pk_ml_dsa_65 = v_ml_public V ml\<rparr>))"

text \<open>
  \<open>rnd\<close> is the randomness of the hedged ML-DSA-65 signature; \<open>None\<close> asks for the deterministic one.
\<close>

definition sign_v2_message ::
  "v2_prims \<Rightarrow> bytes \<Rightarrow> bytes \<Rightarrow> bytes \<Rightarrow> bytes \<Rightarrow> bytes option \<Rightarrow> hybrid_signature v2_result" where
  "sign_v2_message V seed ml message context rnd =
     (let ed = p_ed_sign (v_base V) seed message in
      case v_ml_sign_ctx V ml (unwrap_or rnd (replicate 32 0)) message context of
        Err e \<Rightarrow> plain (''ML-DSA-65 v2 sign: '' @ e)
      | Ok sg \<Rightarrow> Ok \<lparr>sig_ed25519 = ed, sig_ml_dsa_65 = sg\<rparr>)"

section \<open>Point and scalar encodings\<close>

text \<open>\<open>Ord\<close> on byte sequences.\<close>

fun bytes_ge :: "bytes \<Rightarrow> bytes \<Rightarrow> bool" where
  "bytes_ge l [] = True"
| "bytes_ge [] (b # bs) = False"
| "bytes_ge (a # as) (b # bs) = (b < a \<or> a = b \<and> bytes_ge as bs)"

definition little_endian_ge :: "bytes \<Rightarrow> bytes \<Rightarrow> bool" where
  "little_endian_ge l r = bytes_ge (rev l) (rev r)"

definition FIELD_MODULUS_LE :: bytes where
  "FIELD_MODULUS_LE = 0xed # replicate 30 0xff @ [0x7f]"

definition ED25519_ORDER_LE :: bytes where
  "ED25519_ORDER_LE = [0xed, 0xd3, 0xf5, 0x5c, 0x1a, 0x63, 0x12, 0x58, 0xd6, 0x9c, 0xf7, 0xa2, 0xde,
     0xf9, 0xde, 0x14] @ replicate 15 0 @ [0x10]"

definition validate_ed_public_key :: "v2_prims \<Rightarrow> bytes \<Rightarrow> unit rresult" where
  "validate_ed_public_key V encoded =
     (if length encoded \<noteq> 32 then Err ''v2 Ed25519 public key must be 32 bytes''
      else if little_endian_ge (encoded[31 := and (encoded ! 31) 0x7f]) FIELD_MODULUS_LE
      then Err ''v2 Ed25519 point encoding is non-canonical''
      else case v_ed_decompress V encoded of
        None \<Rightarrow> Err ''v2 Ed25519 point is not on curve''
      | Some point \<Rightarrow>
          if ep_compress point \<noteq> encoded \<or> ep_is_identity point \<or> \<not> ep_is_torsion_free point
          then Err ''v2 Ed25519 point must be canonical, non-identity, and prime-order''
          else Ok ())"

definition validate_ed_signature :: "v2_prims \<Rightarrow> bytes \<Rightarrow> unit rresult" where
  "validate_ed_signature V encoded =
     (if length encoded \<noteq> 64 then Err ''v2 Ed25519 signature must be 64 bytes''
      else if \<not> is_ok (validate_ed_public_key V (take 32 encoded))
      then Err ''v2 Ed25519 R point is invalid''
      else if little_endian_ge (drop 32 encoded) ED25519_ORDER_LE
      then Err ''v2 Ed25519 scalar S is non-canonical''
      else Ok ())"

section \<open>Verification\<close>

definition verify_message_unclassified ::
  "v2_prims \<Rightarrow> v2_object_type \<Rightarrow> bytes \<Rightarrow> hybrid_signature \<Rightarrow> hybrid_public_key \<Rightarrow> unit rresult" where
  "verify_message_unclassified V ty message sg pk =
     bind_ok (require_ok (length message = 77 \<and> prefix SIGNATURE_PREFIX message
         \<and> take 2 (drop (length SIGNATURE_PREFIX) message) = be16 (object_code ty))
       ''message is not the v2 signing transcript for this object type'') (\<lambda>_.
     bind_ok (require_ok (length (pk_ed25519 pk) = 32 \<and> length (pk_ml_dsa_65 pk) = ML_PK_LEN)
       ''hybrid public key has invalid component length'') (\<lambda>_.
     bind_ok (require_ok (length (sig_ed25519 sg) = 64 \<and> length (sig_ml_dsa_65 sg) = ML_SIG_LEN)
       ''hybrid signature has invalid component length'') (\<lambda>_.
     bind_ok (validate_ed_public_key V (pk_ed25519 pk)) (\<lambda>_.
     bind_ok (validate_ed_signature V (sig_ed25519 sg)) (\<lambda>_.
     bind_ok (require_ok (p_ed_key_ok (v_base V) (pk_ed25519 pk))
       ''Ed25519 v2 public key malformed'') (\<lambda>_.
     bind_ok (require_ok (p_ed_sig_ok (v_base V) (sig_ed25519 sg))
       ''Ed25519 v2 signature malformed'') (\<lambda>_.
     bind_ok (require_ok (v_ed_verify_strict V (pk_ed25519 pk) message (sig_ed25519 sg))
       ''Ed25519 v2 signature invalid'') (\<lambda>_.
     bind_ok (require_ok (p_ml_key_ok (v_base V) (pk_ml_dsa_65 pk))
       ''ML-DSA-65 public key malformed'') (\<lambda>_.
     require_ok (v_ml_verify_ctx V (pk_ml_dsa_65 pk) message (sig_ml_dsa_65 sg) (v2_mldsa_context ty))
       ''ML-DSA-65 v2 signature invalid'')))))))))"

definition verify_unclassified ::
  "v2_prims \<Rightarrow> v2_object_type \<Rightarrow> bytes \<Rightarrow> hybrid_signature \<Rightarrow> hybrid_public_key \<Rightarrow> unit rresult" where
  "verify_unclassified V ty signable sg pk =
     verify_message_unclassified V ty (v2_signing_message V ty signable) sg pk"

definition verify_v2_statement ::
  "v2_prims \<Rightarrow> v2_object_type \<Rightarrow> bytes \<Rightarrow> hybrid_signature \<Rightarrow> hybrid_public_key \<Rightarrow> unit v2_result" where
  "verify_v2_statement V ty signable sg pk =
     map_err (v2_new InvalidSignature) (verify_unclassified V ty signable sg pk)"

definition verify_v2_message ::
  "v2_prims \<Rightarrow> v2_object_type \<Rightarrow> bytes \<Rightarrow> hybrid_signature \<Rightarrow> hybrid_public_key \<Rightarrow> unit v2_result" where
  "verify_v2_message V ty message sg pk =
     map_err (v2_new InvalidSignature) (verify_message_unclassified V ty message sg pk)"

definition verify_v2_statement_code ::
  "v2_prims \<Rightarrow> int \<Rightarrow> bytes \<Rightarrow> hybrid_signature \<Rightarrow> hybrid_public_key \<Rightarrow> unit v2_result" where
  "verify_v2_statement_code V code signable sg pk =
     (case from_code code of
        None \<Rightarrow> err UnsupportedObjectType (''unsupported v2 object type: '' @ hex04 code)
      | Some ty \<Rightarrow> verify_v2_statement V ty signable sg pk)"

definition verify_delegation_v2 ::
  "v2_prims \<Rightarrow> bytes \<Rightarrow> hybrid_signature \<Rightarrow> hybrid_public_key \<Rightarrow> unit rresult" where
  "verify_delegation_v2 V signable sg pk =
     bind_ok (require_ok (length (pk_ed25519 pk) = 32 \<and> length (sig_ed25519 sg) = 64)
       ''v2 Ed25519 key or signature has wrong length'') (\<lambda>_.
     bind_ok (require_ok (length (pk_ml_dsa_65 pk) = ML_PK_LEN \<and> length (sig_ml_dsa_65 sg) = ML_SIG_LEN)
       ''v2 ML-DSA-65 key or signature has wrong length'') (\<lambda>_.
     bind_ok (validate_ed_public_key V (pk_ed25519 pk)) (\<lambda>_.
     bind_ok (validate_ed_signature V (sig_ed25519 sg)) (\<lambda>_.
     bind_ok (require_ok (p_ed_key_ok (v_base V) (pk_ed25519 pk))
       ''v2 Ed25519 public key malformed'') (\<lambda>_.
     bind_ok (require_ok (p_ed_sig_ok (v_base V) (sig_ed25519 sg))
       ''v2 Ed25519 signature malformed'') (\<lambda>_.
     let message = signature_message V DELEGATION_CODE signable in
     bind_ok (require_ok (v_ed_verify_strict V (pk_ed25519 pk) message (sig_ed25519 sg))
       ''v2 Ed25519 signature invalid'') (\<lambda>_.
     bind_ok (require_ok (p_ml_key_ok (v_base V) (pk_ml_dsa_65 pk))
       ''v2 ML-DSA-65 public key malformed'') (\<lambda>_.
     require_ok (v_ml_verify_ctx V (pk_ml_dsa_65 pk) message (sig_ml_dsa_65 sg) ML_DSA_CONTEXT)
       ''v2 ML-DSA-65 signature invalid''))))))))"

section \<open>The registry separates the object types\<close>

lemma from_code_object_code [simp]: "from_code (object_code ty) = Some ty"
  by (cases ty) (simp_all add: from_code_def)

lemma from_code_Some: "from_code code = Some ty \<longleftrightarrow> code = object_code ty"
proof
  show "from_code code = Some ty \<Longrightarrow> code = object_code ty"
    by (auto simp: from_code_def split: if_splits)
qed simp

lemma object_code_inj: "object_code a = object_code b \<longleftrightarrow> a = b"
  by (metis from_code_object_code option.inject)

lemma object_code_bounds: "1 \<le> object_code ty \<and> object_code ty \<le> 9"
  by (cases ty) simp_all

lemma be16_object_code_inj: "be16 (object_code a) = be16 (object_code b) \<longleftrightarrow> a = b"
  using object_code_bounds [of a] object_code_bounds [of b]
  by (auto simp: be16_def object_code_inj [symmetric] dest!: arg_cong [where f = uint])
    (simp add: uint_byte)

lemma length_be16 [simp]: "length (be16 n) = 2"
  by (simp add: be16_def)

lemma signing_message_inj:
  "v2_signing_message V a x = v2_signing_message V b y \<longleftrightarrow> a = b \<and> v_sha384 V x = v_sha384 V y"
  by (auto simp: v2_signing_message_def be16_object_code_inj)

lemma length_SIGNATURE_PREFIX: "length SIGNATURE_PREFIX = 27"
  by (simp add: SIGNATURE_PREFIX_def NUL_BYTE_def)

lemma length_signing_message: "sha384_sized V \<Longrightarrow> length (v2_signing_message V ty x) = 77"
  by (simp add: v2_signing_message_def sha384_sized_def length_SIGNATURE_PREFIX)

lemma hex04_object_code_inj: "hex04 (object_code a) = hex04 (object_code b) \<longleftrightarrow> a = b"
  by (cases a; cases b) (simp_all add: hex04_def hex_digit_def)

lemma mldsa_context_inj: "v2_mldsa_context a = v2_mldsa_context b \<longleftrightarrow> a = b"
  by (simp add: v2_mldsa_context_def str_bytes_inj hex04_object_code_inj)

section \<open>What verification establishes\<close>

text \<open>Both components, over one message and under one context string.\<close>

definition components_ok ::
  "v2_prims \<Rightarrow> bytes \<Rightarrow> bytes \<Rightarrow> hybrid_signature \<Rightarrow> hybrid_public_key \<Rightarrow> bool" where
  "components_ok V message context sg pk \<longleftrightarrow>
     length (pk_ed25519 pk) = 32 \<and> length (pk_ml_dsa_65 pk) = ML_PK_LEN
     \<and> length (sig_ed25519 sg) = 64 \<and> length (sig_ml_dsa_65 sg) = ML_SIG_LEN
     \<and> is_ok (validate_ed_public_key V (pk_ed25519 pk)) \<and> is_ok (validate_ed_signature V (sig_ed25519 sg))
     \<and> p_ed_key_ok (v_base V) (pk_ed25519 pk) \<and> p_ed_sig_ok (v_base V) (sig_ed25519 sg)
     \<and> p_ml_key_ok (v_base V) (pk_ml_dsa_65 pk)
     \<and> v_ed_verify_strict V (pk_ed25519 pk) message (sig_ed25519 sg)
     \<and> v_ml_verify_ctx V (pk_ml_dsa_65 pk) message (sig_ml_dsa_65 sg) context"

lemma is_ok_unit: "is_ok (r :: 'e + unit) \<longleftrightarrow> r = Ok ()"
  by (cases r) (simp_all add: is_ok_def)

lemma map_err_Ok: "map_err f r = Ok x \<longleftrightarrow> r = Ok x"
  by (cases r) (simp_all add: map_err_def)

lemma verify_v2_message_iff:
  "verify_v2_message V ty message sg pk = Ok () \<longleftrightarrow>
     length message = 77 \<and> prefix SIGNATURE_PREFIX message
     \<and> take 2 (drop (length SIGNATURE_PREFIX) message) = be16 (object_code ty)
     \<and> components_ok V message (v2_mldsa_context ty) sg pk"
  unfolding verify_v2_message_def map_err_Ok verify_message_unclassified_def components_ok_def
  by (auto simp: bind_ok_Ok require_ok_Ok is_ok_unit)

lemma verify_v2_statement_message:
  "verify_v2_statement V ty signable sg pk = verify_v2_message V ty (v2_signing_message V ty signable) sg pk"
  by (simp add: verify_v2_statement_def verify_v2_message_def verify_unclassified_def)

lemma verify_v2_statement_iff:
  assumes "sha384_sized V"
  shows "verify_v2_statement V ty signable sg pk = Ok () \<longleftrightarrow>
     components_ok V (v2_signing_message V ty signable) (v2_mldsa_context ty) sg pk"
  unfolding verify_v2_statement_message verify_v2_message_iff
  using length_signing_message [OF assms] by (simp add: v2_signing_message_def)

lemma verify_delegation_v2_iff:
  "verify_delegation_v2 V signable sg pk = Ok () \<longleftrightarrow>
     components_ok V (signature_message V DELEGATION_CODE signable) ML_DSA_CONTEXT sg pk"
  unfolding verify_delegation_v2_def components_ok_def Let_def
  by (auto simp: bind_ok_Ok require_ok_Ok is_ok_unit)

lemma delegation_message: "signature_message V DELEGATION_CODE x = v2_signing_message V DelegationCertificate x"
  by (simp add: signature_message_def v2_signing_message_def DELEGATION_CODE_def)

lemma delegation_context: "ML_DSA_CONTEXT = v2_mldsa_context DelegationCertificate"
  by (simp add: ML_DSA_CONTEXT_def v2_mldsa_context_def hex04_def hex_digit_def)

lemma key_id_v2_Ok:
  "key_id_v2 V key = Ok i \<longleftrightarrow> length (pk_ed25519 key) = 32 \<and> length (pk_ml_dsa_65 key) = ML_PK_LEN
     \<and> i = p_hex (v_base V) (sha256 V [KEY_ID_PREFIX, pk_ed25519 key, pk_ml_dsa_65 key])"
  by (auto simp: key_id_v2_def)

end
