(* ===== verification/V2_Json.thy ===== *)
theory V2_Json
  imports V2_Errors V2_Platform V1_Canonical_Unique V1_Transaction
begin

text \<open>
  Strict wire JSON of Protocol v2 (\<open>sdks/rust/src/v2/json.rs\<close>): the parser, the byte-field and
  null rules, the object accessors, and the canonical writer.

  The Rust parser walks a byte slice by index; here a parsing function takes the text that is
  left and returns what remains, and a node's span is computed from the lengths (\<open>doc_len\<close> is the
  length of the whole document).  Nesting is bounded by \<open>MAX_JSON_NESTING_DEPTH\<close>, so \<open>value\<close>
  recurses on the number of levels left.  The two \<open>loop\<close>s over members and items take a number of
  rounds one larger than the text that is left; \<open>sep_loop_rounds\<close> shows that a larger number
  never changes the result, so the bound is never what ends the loop.
\<close>

section \<open>UTF-8\<close>

definition bytes_str :: "bytes \<Rightarrow> string" where
  "bytes_str bs = map (\<lambda>b. char_of (unat b)) bs"

abbreviation code :: "char \<Rightarrow> nat" where "code c \<equiv> of_char c"

definition in_range :: "nat \<Rightarrow> nat \<Rightarrow> char \<Rightarrow> bool" where
  "in_range a b c \<longleftrightarrow> a \<le> code c \<and> code c \<le> b"

abbreviation cont :: "char \<Rightarrow> bool" where "cont \<equiv> in_range 0x80 0xBF"

text \<open>
  \<open>std::str::from_utf8\<close>: the length of a well-formed encoded character at the start of the text,
  \<open>0\<close> if there is none.
\<close>

definition scalar2 :: "char \<Rightarrow> char \<Rightarrow> bool" where
  "scalar2 a b \<longleftrightarrow> in_range 0xC2 0xDF a \<and> cont b"

definition scalar3 :: "char \<Rightarrow> char \<Rightarrow> char \<Rightarrow> bool" where
  "scalar3 a b c \<longleftrightarrow> in_range 0xE0 0xEF a \<and> cont c
     \<and> (if code a = 0xE0 then in_range 0xA0 0xBF b
        else if code a = 0xED then in_range 0x80 0x9F b else cont b)"

definition scalar4 :: "char \<Rightarrow> char \<Rightarrow> char \<Rightarrow> char \<Rightarrow> bool" where
  "scalar4 a b c d \<longleftrightarrow> in_range 0xF0 0xF4 a \<and> cont c \<and> cont d
     \<and> (if code a = 0xF0 then in_range 0x90 0xBF b
        else if code a = 0xF4 then in_range 0x80 0x8F b else cont b)"

definition scalar_len :: "string \<Rightarrow> nat" where
  "scalar_len s =
     (if s = [] then 0
      else if code (s ! 0) < 0x80 then 1
      else if 2 \<le> length s \<and> scalar2 (s ! 0) (s ! 1) then 2
      else if 3 \<le> length s \<and> scalar3 (s ! 0) (s ! 1) (s ! 2) then 3
      else if 4 \<le> length s \<and> scalar4 (s ! 0) (s ! 1) (s ! 2) (s ! 3) then 4
      else 0)"

function utf8_valid :: "string \<Rightarrow> bool" where
  "utf8_valid s =
     (if s = [] then True else if scalar_len s = 0 then False
      else utf8_valid (drop (scalar_len s) s))"
  by pat_completeness auto
termination
  by (relation "measure length") auto

declare utf8_valid.simps [simp del]

text \<open>\<open>String::push\<close> of a character given by its code point.\<close>

definition utf8_encode :: "nat \<Rightarrow> string" where
  "utf8_encode n =
     (if n < 0x80 then [char_of n]
      else if n < 0x800 then [char_of (0xC0 + n div 64), char_of (0x80 + n mod 64)]
      else if n < 0x10000 then
        [char_of (0xE0 + n div 4096), char_of (0x80 + n div 64 mod 64), char_of (0x80 + n mod 64)]
      else
        [char_of (0xF0 + n div 262144), char_of (0x80 + n div 4096 mod 64),
         char_of (0x80 + n div 64 mod 64), char_of (0x80 + n mod 64)])"

section \<open>Values and nodes\<close>

datatype jval = VNull | VBool bool | VNum string | VStr string | VArr "jnode list"
  | VObj "(string \<times> jnode) list"
and jnode = Node (jn_v: jval) (jn_start: nat) (jn_end: nat)

definition is_null :: "jnode \<Rightarrow> bool" where
  "is_null n \<longleftrightarrow> jn_v n = VNull"

type_synonym 'a parsed = "('a \<times> string) v2_result"

section \<open>Tokens\<close>

definition is_ws :: "char \<Rightarrow> bool" where
  "is_ws c \<longleftrightarrow> c = CHR '' '' \<or> c = CHR 0x09 \<or> c = CHR 0x0A \<or> c = CHR 0x0D"

definition ws :: "string \<Rightarrow> string" where
  "ws s = dropWhile is_ws s"

definition literal :: "string \<Rightarrow> jval \<Rightarrow> string \<Rightarrow> jval parsed" where
  "literal text v s =
     (if prefix text s then Ok (v, drop (length text) s) else plain ''wire: invalid JSON literal'')"

definition digits :: "string \<Rightarrow> nat" where
  "digits s = length (takeWhile is_digit s)"

text \<open>\<open>if s.get(i) == Some(&c) { i += 1 }\<close>: the text after \<open>c\<close>, if it comes next.\<close>

definition eat :: "char \<Rightarrow> string \<Rightarrow> string option" where
  "eat c s = (if s \<noteq> [] \<and> hd s = c then Some (tl s) else None)"

text \<open>\<open>str::parse::<i64>\<close> on the spellings that reach it: an optional minus and digits.\<close>

definition parse_i64 :: "string \<Rightarrow> int option" where
  "parse_i64 t =
     (let ds = unwrap_or (eat (CHR ''-'') t) (unwrap_or (eat (CHR ''+'') t) t);
          n = (if eat (CHR ''-'') t \<noteq> None then - dec_value ds else dec_value ds) in
      if ds \<noteq> [] \<and> list_all is_digit ds \<and> i64_range n then Some n else None)"

text \<open>
  The end of a number token: the sign, then a zero or a run of digits, then an optional fraction
  and exponent.  \<open>None\<close> stands for the four places that report an invalid number.
\<close>

definition number_sign :: "string \<Rightarrow> string" where
  "number_sign s = unwrap_or (eat (CHR ''-'') s) s"

definition number_int :: "string \<Rightarrow> string option" where
  "number_int s =
     (case s of
        [] \<Rightarrow> None
      | c # r \<Rightarrow> if c = CHR ''0'' then Some r
          else if is_digit c then Some (drop (digits s) s) else None)"

definition number_frac :: "string \<Rightarrow> string option" where
  "number_frac s =
     (case eat (CHR ''.'') s of
        Some r \<Rightarrow> if digits r = 0 then None else Some (drop (digits r) r)
      | None \<Rightarrow> Some s)"

definition number_exp :: "string \<Rightarrow> string option" where
  "number_exp s =
     (case s of
        [] \<Rightarrow> Some s
      | c # r \<Rightarrow>
        if c = CHR ''e'' \<or> c = CHR ''E'' then
          (let r = unwrap_or (eat (CHR ''+'') r) (unwrap_or (eat (CHR ''-'') r) r) in
           if digits r = 0 then None else Some (drop (digits r) r))
        else Some s)"

definition number :: "string \<Rightarrow> string parsed" where
  "number s =
     (case Option.bind (Option.bind (number_int (number_sign s)) number_frac) number_exp of
        None \<Rightarrow> plain ''wire: invalid JSON number''
      | Some rest \<Rightarrow>
          let text = take (length s - length rest) s in
          if list_ex (\<lambda>c. c \<in> {CHR ''.'', CHR ''e'', CHR ''E''}) text
          then plain (''wire: number '' @ text @ '' is not an integer; v2 forbids floating point'')
          else if text = ''-0'' then plain ''wire: negative zero is not a canonical number''
          else (case parse_i64 text of
             Some n \<Rightarrow> if - MAX_SAFE_INTEGER \<le> n \<and> n \<le> MAX_SAFE_INTEGER then Ok (text, rest)
               else plain (''wire: integer '' @ text @
                 '' outside the safe-integer range [-(2^53-1), 2^53-1]'')
           | None \<Rightarrow> plain (''wire: integer '' @ text @
                 '' outside the safe-integer range [-(2^53-1), 2^53-1]'')))"

section \<open>Strings\<close>

text \<open>\<open>u32::from_str_radix(_, 16)\<close> on four bytes: a leading plus sign is accepted.\<close>

definition hex_digit_value :: "char \<Rightarrow> nat option" where
  "hex_digit_value c =
     (if in_range 48 57 c then Some (code c - 48)
      else if in_range 97 102 c then Some (code c - 87)
      else if in_range 65 70 c then Some (code c - 55) else None)"

fun hex_acc :: "nat \<Rightarrow> string \<Rightarrow> nat option" where
  "hex_acc n [] = Some n"
| "hex_acc n (c # cs) =
     (case hex_digit_value c of None \<Rightarrow> None | Some d \<Rightarrow> hex_acc (n * 16 + d) cs)"

definition from_str_radix16 :: "string \<Rightarrow> nat option" where
  "from_str_radix16 t =
     (let ds = unwrap_or (eat (CHR ''+'') t) t in if ds = [] then None else hex_acc 0 ds)"

definition hex4 :: "string \<Rightarrow> nat parsed" where
  "hex4 s =
     (if length s < 4 \<or> \<not> utf8_valid (take 4 s) then plain ''wire: invalid JSON escape''
      else case from_str_radix16 (take 4 s) of
        None \<Rightarrow> plain ''wire: invalid JSON escape''
      | Some v \<Rightarrow> Ok (v, drop 4 s))"

text \<open>After \<open>\u\<close>: one code unit, or a surrogate pair.\<close>

definition unicode_escape :: "string \<Rightarrow> string parsed" where
  "unicode_escape s =
     bind_ok (hex4 s) (\<lambda>(first, r).
       if 0xD800 \<le> first \<and> first < 0xDC00 then
         (if take 2 r \<noteq> [BSL, CHR ''u''] then plain ''wire: unpaired UTF-16 surrogate escape''
          else bind_ok (hex4 (drop 2 r)) (\<lambda>(second, r2).
            if \<not> (0xDC00 \<le> second \<and> second < 0xE000)
            then plain ''wire: unpaired UTF-16 surrogate escape''
            else Ok (utf8_encode (0x10000 + (first - 0xD800) * 1024 + (second - 0xDC00)), r2)))
       else if 0xDC00 \<le> first \<and> first < 0xE000 then plain ''wire: unpaired UTF-16 surrogate escape''
       else Ok (utf8_encode first, r))"

definition simple_escape :: "char \<Rightarrow> char option" where
  "simple_escape e =
     (if e = QUOTE then Some QUOTE
      else if e = BSL then Some BSL
      else if e = CHR ''/'' then Some (CHR ''/'')
      else if e = CHR ''b'' then Some (CHR 0x08)
      else if e = CHR ''f'' then Some (CHR 0x0C)
      else if e = CHR ''n'' then Some (CHR 0x0A)
      else if e = CHR ''r'' then Some (CHR 0x0D)
      else if e = CHR ''t'' then Some (CHR 0x09) else None)"

text \<open>One round of the loop in \<open>string\<close>: what to append, and the text that is left.\<close>

definition string_item :: "string \<Rightarrow> string parsed" where
  "string_item s =
     (case s of
        [] \<Rightarrow> plain ''wire: invalid JSON: unterminated string''
      | c # r \<Rightarrow>
        if c = BSL then
          (case r of
             [] \<Rightarrow> plain ''wire: invalid JSON escape''
           | e # r2 \<Rightarrow>
             if e = CHR ''u'' then unicode_escape r2
             else (case simple_escape e of
                 Some d \<Rightarrow> Ok ([d], r2)
               | None \<Rightarrow> plain ''wire: invalid JSON escape''))
        else if code c \<le> 0x1F then plain ''wire: invalid JSON: control character in string''
        else
          (let len = (if code c \<le> 0x7F then 1 else if in_range 0xC0 0xDF c then 2
             else if in_range 0xE0 0xEF c then 3 else 4) in
           if length s < len \<or> \<not> utf8_valid (take len s) then plain ''wire: invalid UTF-8''
           else Ok (take len s, drop len s)))"

lemma hex4_rest: "hex4 s = Ok (v, r) \<Longrightarrow> r = drop 4 s \<and> 4 \<le> length s"
  by (auto simp: hex4_def split: if_splits option.splits)

lemma unicode_escape_rest: "unicode_escape s = Ok (v, r) \<Longrightarrow> length r < length s"
  by (auto simp: unicode_escape_def bind_ok_Ok split: if_splits dest!: hex4_rest)

lemma string_item_rest: "string_item s = Ok (v, r) \<Longrightarrow> length r < length s"
  by (auto simp: string_item_def Let_def split: list.splits if_splits option.splits
      dest: unicode_escape_rest)

function str_body :: "string \<Rightarrow> string parsed" where
  "str_body s =
     (case s of
        [] \<Rightarrow> plain ''wire: invalid JSON: unterminated string''
      | c # r \<Rightarrow>
        if c = QUOTE then Ok ([], r)
        else case string_item s of
            Err e \<Rightarrow> Err e
          | Ok (x, r2) \<Rightarrow>
              (case str_body r2 of Err e \<Rightarrow> Err e | Ok (y, r3) \<Rightarrow> Ok (x @ y, r3)))"
  by pat_completeness auto
termination
  by (relation "measure length") (auto dest: string_item_rest)

declare str_body.simps [simp del]

text \<open>\<open>string\<close>: the caller has seen the opening quote.\<close>

definition parse_string :: "string \<Rightarrow> string parsed" where
  "parse_string s = str_body (tl s)"

section \<open>Containers\<close>

text \<open>
  The \<open>loop\<close> after an opening bracket: an element, then a comma (go on) or the closing bracket.
  The element parser sees the elements so far, which is where duplicate keys are found.
\<close>

fun sep_loop ::
  "nat \<Rightarrow> ('a list \<Rightarrow> string \<Rightarrow> 'a parsed) \<Rightarrow> char \<Rightarrow> string \<Rightarrow> 'a list \<Rightarrow> string
    \<Rightarrow> 'a list parsed" where
  "sep_loop 0 elem close msg acc s = plain msg"
| "sep_loop (Suc n) elem close msg acc s =
     bind_ok (elem acc s) (\<lambda>(x, r).
       case ws r of
         [] \<Rightarrow> plain msg
       | c # q \<Rightarrow>
           if c = CHR '','' then sep_loop n elem close msg (acc @ [x]) q
           else if c = close then Ok (acc @ [x], q)
           else plain msg)"

definition squoted :: "string \<Rightarrow> string" where
  "squoted s = CHR 0x27 # s @ [CHR 0x27]"

definition expected_sep :: "string \<Rightarrow> string" where
  "expected_sep close = ''wire: invalid JSON: expected '' @ squoted '','' @ '' or '' @ squoted close"

definition member ::
  "prims \<Rightarrow> (string \<Rightarrow> jnode parsed) \<Rightarrow> (string \<times> jnode) list \<Rightarrow> string
    \<Rightarrow> (string \<times> jnode) parsed" where
  "member P val members s =
     (if eat QUOTE (ws s) = None then plain ''wire: invalid JSON: expected object key''
      else bind_ok (parse_string (ws s)) (\<lambda>(key, r).
        if key \<in> fst ` set members
        then plain (''wire: duplicate key '' @ debug_str P key @ '' in JSON object'')
        else (case eat (CHR '':'') (ws r) of
            Some q \<Rightarrow> bind_ok (val q) (\<lambda>(v, r2). Ok ((key, v), r2))
          | None \<Rightarrow> plain (''wire: invalid JSON: expected '' @ squoted '':''))))"

definition container ::
  "('a list \<Rightarrow> string \<Rightarrow> 'a parsed) \<Rightarrow> char \<Rightarrow> string \<Rightarrow> string \<Rightarrow> 'a list parsed" where
  "container elem close msg s =
     (case ws s of
        c # q \<Rightarrow> if c = close then Ok ([], q) else sep_loop (Suc (length s)) elem close msg [] (ws s)
      | [] \<Rightarrow> sep_loop (Suc (length s)) elem close msg [] (ws s))"

definition NESTING :: string where
  "NESTING = ''wire: JSON nesting exceeds MAX_JSON_NESTING_DEPTH''"

text \<open>
  One call of \<open>value\<close>; \<open>inner\<close> is the call for the next level, \<open>None\<close> where \<open>depth\<close> has reached the
  maximum.
\<close>

definition value_here ::
  "prims \<Rightarrow> (string \<Rightarrow> jnode parsed) option \<Rightarrow> char \<Rightarrow> string \<Rightarrow> jval parsed" where
  "value_here P inner c s =
     (if c = CHR ''{'' then
        (case inner of None \<Rightarrow> plain NESTING
         | Some val \<Rightarrow> bind_ok
             (container (member P val) (CHR ''}'') (expected_sep ''}'') (tl s))
             (\<lambda>(members, r). Ok (VObj members, r)))
      else if c = CHR ''['' then
        (case inner of None \<Rightarrow> plain NESTING
         | Some val \<Rightarrow> bind_ok
             (container (\<lambda>_. val) (CHR '']'') (expected_sep '']'') (tl s))
             (\<lambda>(items, r). Ok (VArr items, r)))
      else if c = QUOTE then bind_ok (parse_string s) (\<lambda>(t, r). Ok (VStr t, r))
      else if c = CHR ''t'' then literal ''true'' (VBool True) s
      else if c = CHR ''f'' then literal ''false'' (VBool False) s
      else if c = CHR ''n'' then literal ''null'' VNull s
      else if c = CHR ''-'' \<or> is_digit c then bind_ok (number s) (\<lambda>(t, r). Ok (VNum t, r))
      else plain ''wire: invalid JSON: unexpected character'')"

definition value_step ::
  "prims \<Rightarrow> nat \<Rightarrow> (string \<Rightarrow> jnode parsed) option \<Rightarrow> string \<Rightarrow> jnode parsed" where
  "value_step P doc_len inner s =
     (case ws s of
        [] \<Rightarrow> plain ''wire: invalid JSON: unexpected end of input''
      | c # cs \<Rightarrow> bind_ok (value_here P inner c (c # cs)) (\<lambda>(v, r).
          Ok (Node v (doc_len - length (c # cs)) (doc_len - length r), r)))"

primrec json_value :: "prims \<Rightarrow> nat \<Rightarrow> nat \<Rightarrow> string \<Rightarrow> jnode parsed" where
  "json_value P doc_len 0 = value_step P doc_len None"
| "json_value P doc_len (Suc k) = value_step P doc_len (Some (json_value P doc_len k))"

definition parse_json :: "prims \<Rightarrow> bytes \<Rightarrow> jnode v2_result" where
  "parse_json P data =
     (let s = bytes_str data in
      if \<not> utf8_valid s then plain ''wire: invalid UTF-8''
      else bind_ok (json_value P (length data) MAX_JSON_NESTING_DEPTH s) (\<lambda>(root, r).
        if ws r \<noteq> [] then plain ''wire: trailing data after JSON document'' else Ok root))"


section \<open>Schema rules\<close>

definition NULLABLE_MEMBERS :: "string list" where
  "NULLABLE_MEMBERS = [''session_context'', ''stream_id'', ''stream_seq'', ''context_policy_digest'',
     ''floor'', ''accepted_snapshot'', ''preceding_checkpoint'']"

fun reject_unexpected_null :: "jnode \<Rightarrow> unit v2_result"
and reject_null_members :: "(string \<times> jnode) list \<Rightarrow> unit v2_result"
and reject_null_items :: "jnode list \<Rightarrow> unit v2_result" where
  "reject_unexpected_null (Node VNull a b) = plain ''wire v2: null is not permitted here''"
| "reject_unexpected_null (Node (VObj ms) a b) = reject_null_members ms"
| "reject_unexpected_null (Node (VArr vs) a b) = reject_null_items vs"
| "reject_unexpected_null (Node v a b) = Ok ()"
| "reject_null_members [] = Ok ()"
| "reject_null_members ((k, v) # ms) =
     (if k = ''params'' \<or> is_null v \<and> k \<in> set NULLABLE_MEMBERS then reject_null_members ms
      else case reject_unexpected_null v of Err e \<Rightarrow> Err e | Ok _ \<Rightarrow> reject_null_members ms)"
| "reject_null_items [] = Ok ()"
| "reject_null_items (v # vs) =
     (case reject_unexpected_null v of Err e \<Rightarrow> Err e | Ok _ \<Rightarrow> reject_null_items vs)"

definition WIRE_BYTE_FIELDS :: "string list" where
  "WIRE_BYTE_FIELDS = [''bundle_hash'', ''chain_hash'', ''challenge'', ''context_hash'', ''ed25519'',
     ''entry_data'', ''mac'', ''ml_dsa_65'', ''prev_hash'', ''session_context'', ''stream_id'',
     ''terms_canonical_json'']"

definition canonical_base64 :: "v2_prims \<Rightarrow> string \<Rightarrow> bytes option" where
  "canonical_base64 Q s =
     (case v_b64_decode Q s of
        Some d \<Rightarrow> if p_base64 (v_base Q) d = s then Some d else None
      | None \<Rightarrow> None)"

definition check_canonical_base64 :: "v2_prims \<Rightarrow> string \<Rightarrow> string \<Rightarrow> unit v2_result" where
  "check_canonical_base64 Q key s =
     (case canonical_base64 Q s of
        Some _ \<Rightarrow> Ok ()
      | None \<Rightarrow> plain (''wire: field '' @ debug_str (v_base Q) key @
          '': malformed or non-canonical base64''))"

definition b64_decode :: "v2_prims \<Rightarrow> string \<Rightarrow> bytes v2_result" where
  "b64_decode Q s =
     (case canonical_base64 Q s of
        Some d \<Rightarrow> Ok d
      | None \<Rightarrow> plain ''wire: malformed or non-canonical base64'')"

fun check_byte_fields ::
  "v2_prims \<Rightarrow> string list \<Rightarrow> string list \<Rightarrow> jnode \<Rightarrow> nat \<Rightarrow> unit v2_result"
and check_byte_members ::
  "v2_prims \<Rightarrow> string list \<Rightarrow> string list \<Rightarrow> (string \<times> jnode) list \<Rightarrow> nat \<Rightarrow> unit v2_result"
and check_byte_items ::
  "v2_prims \<Rightarrow> string list \<Rightarrow> string list \<Rightarrow> jnode list \<Rightarrow> nat \<Rightarrow> unit v2_result" where
  "check_byte_fields Q tb tt (Node (VObj ms) a b) depth = check_byte_members Q tb tt ms (depth + 1)"
| "check_byte_fields Q tb tt (Node (VArr vs) a b) depth = check_byte_items Q tb tt vs (depth + 1)"
| "check_byte_fields Q tb tt (Node v a b) depth = Ok ()"
| "check_byte_members Q tb tt [] d = Ok ()"
| "check_byte_members Q tb tt ((k, v) # ms) d =
     bind_ok
       (case jn_v v of
          VStr s \<Rightarrow>
            if k \<in> set WIRE_BYTE_FIELDS \<and> \<not> (d = 1 \<and> k \<in> set tt) \<or> d = 1 \<and> k \<in> set tb
            then check_canonical_base64 Q k s else Ok ()
        | _ \<Rightarrow> Ok ())
       (\<lambda>_. bind_ok (if k \<noteq> ''params'' then check_byte_fields Q tb tt v d else Ok ())
         (\<lambda>_. check_byte_members Q tb tt ms d))"
| "check_byte_items Q tb tt [] d = Ok ()"
| "check_byte_items Q tb tt (v # vs) d =
     bind_ok (check_byte_fields Q tb tt v d) (\<lambda>_. check_byte_items Q tb tt vs d)"

definition parse_wire :: "v2_prims \<Rightarrow> bytes \<Rightarrow> string list \<Rightarrow> string list \<Rightarrow> jnode v2_result" where
  "parse_wire Q data top_byte top_text =
     bind_ok (parse_json (v_base Q) data) (\<lambda>root.
     bind_ok (check_byte_fields Q top_byte top_text root 0) (\<lambda>_.
     bind_ok (reject_unexpected_null root) (\<lambda>_. Ok root)))"

definition parse_wire_envelope :: "prims \<Rightarrow> bytes \<Rightarrow> jnode v2_result" where
  "parse_wire_envelope P data = parse_json P data"

section \<open>Object access\<close>

type_synonym jobj = "(string \<times> jnode) list"

definition obj :: "jnode \<Rightarrow> jobj v2_result" where
  "obj n = (case jn_v n of VObj ms \<Rightarrow> Ok ms | _ \<Rightarrow> plain ''wire: expected a JSON object'')"

definition obj_get :: "jobj \<Rightarrow> string \<Rightarrow> jnode option" where
  "obj_get o' key = map_of o' key"

fun obj_require :: "prims \<Rightarrow> jobj \<Rightarrow> string list \<Rightarrow> string list \<Rightarrow> unit v2_result" where
  "obj_require P o' [] nullable = Ok ()"
| "obj_require P o' (name # names) nullable =
     (case obj_get o' name of
        None \<Rightarrow> plain (''wire v2: required field '' @ debug_str P name @ '' is missing'')
      | Some v \<Rightarrow>
          if is_null v \<and> name \<notin> set nullable
          then plain (''wire v2: required field '' @ debug_str P name @ '' must not be null'')
          else obj_require P o' names nullable)"

fun obj_only :: "prims \<Rightarrow> jobj \<Rightarrow> string list \<Rightarrow> unit v2_result" where
  "obj_only P [] allowed = Ok ()"
| "obj_only P ((k, v) # ms) allowed =
     (if k \<notin> set allowed then plain (''wire: unknown field '' @ debug_str P k)
      else obj_only P ms allowed)"

definition obj_present :: "jobj \<Rightarrow> string \<Rightarrow> jnode option" where
  "obj_present o' key =
     (case obj_get o' key of Some v \<Rightarrow> if is_null v then None else Some v | None \<Rightarrow> None)"

definition node_str :: "jnode \<Rightarrow> string v2_result" where
  "node_str n = (case jn_v n of VStr s \<Rightarrow> Ok s | _ \<Rightarrow> plain ''wire: expected a JSON string'')"

definition node_i64 :: "jnode \<Rightarrow> int v2_result" where
  "node_i64 n =
     (case jn_v n of
        VNum t \<Rightarrow>
          if \<not> list_ex (\<lambda>c. c \<in> {CHR ''.'', CHR ''e'', CHR ''E''}) t
          then (case parse_i64 t of Some i \<Rightarrow> Ok i | None \<Rightarrow> plain ''wire: integer out of range'')
          else plain ''wire: expected a JSON integer''
      | _ \<Rightarrow> plain ''wire: expected a JSON integer'')"

definition obj_str :: "jobj \<Rightarrow> string \<Rightarrow> string v2_result" where
  "obj_str o' key = (case obj_present o' key of None \<Rightarrow> Ok '''' | Some v \<Rightarrow> node_str v)"

definition obj_opt_str :: "jobj \<Rightarrow> string \<Rightarrow> string option v2_result" where
  "obj_opt_str o' key =
     (case obj_present o' key of None \<Rightarrow> Ok None | Some v \<Rightarrow> bind_ok (node_str v) (\<lambda>s. Ok (Some s)))"

definition obj_i64 :: "jobj \<Rightarrow> string \<Rightarrow> int v2_result" where
  "obj_i64 o' key = (case obj_present o' key of None \<Rightarrow> Ok 0 | Some v \<Rightarrow> node_i64 v)"

definition obj_opt_i64 :: "jobj \<Rightarrow> string \<Rightarrow> int option v2_result" where
  "obj_opt_i64 o' key =
     (case obj_present o' key of None \<Rightarrow> Ok None | Some v \<Rightarrow> bind_ok (node_i64 v) (\<lambda>i. Ok (Some i)))"

definition obj_u16 :: "jobj \<Rightarrow> string \<Rightarrow> int v2_result" where
  "obj_u16 o' key =
     bind_ok (obj_i64 o' key) (\<lambda>n.
       if 0 \<le> n \<and> n < 2 ^ 16 then Ok n else plain (''wire: '' @ key @ '' out of range''))"

definition obj_bytes :: "v2_prims \<Rightarrow> jobj \<Rightarrow> string \<Rightarrow> bytes v2_result" where
  "obj_bytes Q o' key =
     (case obj_present o' key of
        None \<Rightarrow> Ok [] | Some v \<Rightarrow> bind_ok (node_str v) (b64_decode Q))"

definition obj_opt_bytes :: "v2_prims \<Rightarrow> jobj \<Rightarrow> string \<Rightarrow> bytes option v2_result" where
  "obj_opt_bytes Q o' key =
     (case obj_present o' key of
        None \<Rightarrow> Ok None
      | Some v \<Rightarrow> bind_ok (node_str v) (\<lambda>s. bind_ok (b64_decode Q s) (\<lambda>b. Ok (Some b))))"

text \<open>\<open>iter().map(f).collect::<Result<Vec<_>, _>>()\<close>.\<close>

fun collect_ok :: "('e + 'a) list \<Rightarrow> 'e + 'a list" where
  "collect_ok [] = Ok []"
| "collect_ok (r # rs) = bind_ok r (\<lambda>y. bind_ok (collect_ok rs) (\<lambda>ys. Ok (y # ys)))"

abbreviation collect_results :: "('a \<Rightarrow> 'e + 'b) \<Rightarrow> 'a list \<Rightarrow> 'e + 'b list" where
  "collect_results f xs \<equiv> collect_ok (map f xs)"

definition obj_str_array :: "jobj \<Rightarrow> string \<Rightarrow> string list v2_result" where
  "obj_str_array o' key =
     (case obj_present o' key of
        None \<Rightarrow> Ok []
      | Some v \<Rightarrow> (case jn_v v of VArr vs \<Rightarrow> collect_results node_str vs
          | _ \<Rightarrow> plain (''wire: '' @ key @ '' must be an array of strings'')))"

definition obj_array :: "jobj \<Rightarrow> string \<Rightarrow> jnode list v2_result" where
  "obj_array o' key =
     (case obj_present o' key of
        None \<Rightarrow> Ok []
      | Some v \<Rightarrow> (case jn_v v of VArr vs \<Rightarrow> Ok vs
          | _ \<Rightarrow> plain (''wire: '' @ key @ '' must be an array'')))"

definition obj_pair :: "v2_prims \<Rightarrow> jobj \<Rightarrow> string \<Rightarrow> (bytes \<times> bytes) v2_result" where
  "obj_pair Q o' key =
     (case obj_present o' key of
        None \<Rightarrow> Ok ([], [])
      | Some v \<Rightarrow>
          bind_ok (obj v) (\<lambda>p.
          bind_ok (obj_only (v_base Q) p [''ed25519'', ''ml_dsa_65'']) (\<lambda>_.
          bind_ok (obj_require (v_base Q) p [''ed25519'', ''ml_dsa_65''] []) (\<lambda>_.
          bind_ok (obj_bytes Q p ''ed25519'') (\<lambda>a.
          bind_ok (obj_bytes Q p ''ml_dsa_65'') (\<lambda>b. Ok (a, b)))))))"

definition obj_pub_key :: "v2_prims \<Rightarrow> jobj \<Rightarrow> string \<Rightarrow> hybrid_public_key v2_result" where
  "obj_pub_key Q o' key =
     bind_ok (obj_pair Q o' key) (\<lambda>(a, b). Ok \<lparr>pk_ed25519 = a, pk_ml_dsa_65 = b\<rparr>)"

definition obj_sig :: "v2_prims \<Rightarrow> jobj \<Rightarrow> string \<Rightarrow> hybrid_signature v2_result" where
  "obj_sig Q o' key =
     bind_ok (obj_pair Q o' key) (\<lambda>(a, b). Ok \<lparr>sig_ed25519 = a, sig_ml_dsa_65 = b\<rparr>)"

section \<open>The canonical writer\<close>

datatype cj = CNull | CBool bool | CInt int | CStr string | CBytes bytes | CRaw string
  | CArr "cj list" | CObj "(string \<times> cj) list"

definition cj_strs :: "string list \<Rightarrow> cj" where
  "cj_strs vs = CArr (map CStr vs)"

definition cj_key :: "hybrid_public_key \<Rightarrow> cj" where
  "cj_key k = CObj [(''ed25519'', CBytes (pk_ed25519 k)), (''ml_dsa_65'', CBytes (pk_ml_dsa_65 k))]"

definition cj_sig :: "hybrid_signature \<Rightarrow> cj" where
  "cj_sig s = CObj [(''ed25519'', CBytes (sig_ed25519 s)), (''ml_dsa_65'', CBytes (sig_ml_dsa_65 s))]"

text \<open>\<open>write\<close>; the members of an object are written in the order of their keys.\<close>

definition named_result :: "string \<times> 'a v2_result \<Rightarrow> (string \<times> 'a) v2_result" where
  "named_result m = bind_ok (snd m) (\<lambda>t. Ok (fst m, t))"

fun cj_write :: "prims \<Rightarrow> cj \<Rightarrow> string v2_result" where
  "cj_write P CNull = Ok ''null''"
| "cj_write P (CBool b) = Ok (encode_bool b)"
| "cj_write P (CInt n) =
     (if \<not> (- MAX_SAFE_INTEGER \<le> n \<and> n \<le> MAX_SAFE_INTEGER)
      then plain (''canonical JSON: integer '' @ dec_int n @
        '' outside the safe-integer range [-(2^53-1), 2^53-1]'')
      else Ok (dec_int n))"
| "cj_write P (CStr s) = Ok (encode_string s)"
| "cj_write P (CBytes b) = Ok (encode_bytes_b64 P b)"
| "cj_write P (CRaw r) = Ok r"
| "cj_write P (CArr vs) = bind_ok (collect_ok (map (cj_write P) vs)) (\<lambda>ts. Ok (json_array ts))"
| "cj_write P (CObj ms) =
     bind_ok (collect_ok (map named_result
         (sort_key fst (map (\<lambda>(k, v). (k, cj_write P v)) ms))))
       (\<lambda>ts. Ok (json_object ts))"

definition canonical :: "prims \<Rightarrow> cj \<Rightarrow> bytes v2_result" where
  "canonical P v = bind_ok (cj_write P v) (\<lambda>s. Ok (str_bytes s))"

fun node_to_cj :: "jnode \<Rightarrow> cj" where
  "node_to_cj (Node v a b) =
     (case v of
        VNull \<Rightarrow> CNull
      | VBool x \<Rightarrow> CBool x
      | VNum t \<Rightarrow> CRaw t
      | VStr s \<Rightarrow> CStr s
      | VArr vs \<Rightarrow> CArr (map node_to_cj vs)
      | VObj ms \<Rightarrow> CObj (map (\<lambda>(k, v). (k, node_to_cj v)) ms))"

definition canonical_json_v2 :: "prims \<Rightarrow> bytes \<Rightarrow> bytes v2_result" where
  "canonical_json_v2 P data = bind_ok (parse_json P data) (\<lambda>n. canonical P (node_to_cj n))"

end
