(* ===== verification/V2_Log.thy ===== *)
theory V2_Log
  imports V2_Crypto V2_Json
begin

text \<open>
  The rules shared by the witness and receipt logs: the digest of a signable body
  (\<open>statement_body_digest_v2\<close> of \<open>sdks/rust/src/v2/rotation.rs\<close>), the caller-authenticated head and
  the replay/fork/gap/orphan decision (\<open>validate_head\<close>, \<open>log_position\<close> of \<open>v2/witness.rs\<close>).
  A valid head carries the digest of every accepted entry, and an entry is appended only as the
  next one linked to the head.
\<close>

definition MAX_SAFE :: int where "MAX_SAFE = MAX_SAFE_INTEGER"

datatype witness_entry_v2_result = Appended | Replay

text \<open>\<open>BTreeMap<i64, Vec<u8>>\<close> in key order.\<close>

type_synonym digest_history = "(int \<times> bytes) list"

section \<open>Body digests\<close>

text \<open>
  \<open>statement_body_digest_v2\<close> for an object code other than the rotation statement's, with the byte
  fields, text fields and body validator that the code selects.
\<close>

definition STATEMENT_BODY_TAG :: bytes where
  "STATEMENT_BODY_TAG = str_bytes (''ratify-protocol-statement-body-v2'' @ NUL_BYTE)"

definition excludes_signatures :: "v2_prims \<Rightarrow> jnode \<Rightarrow> unit v2_result" where
  "excludes_signatures V doc =
     (case jn_v doc of
        VObj ms \<Rightarrow>
          (case find (\<lambda>f. f \<in> fst ` set ms) [''signature'', ''old_signature'', ''new_signature''] of
             Some f \<Rightarrow> plain (''signable body must exclude '' @ debug_str (v_base V) f)
           | None \<Rightarrow> Ok ())
      | _ \<Rightarrow> Ok ())"

definition statement_digest ::
  "v2_prims \<Rightarrow> string list \<Rightarrow> string list \<Rightarrow> (bytes \<Rightarrow> unit v2_result) \<Rightarrow> v2_object_type \<Rightarrow> bytes
    \<Rightarrow> bytes v2_result" where
  "statement_digest V top_byte top_text validate ty body =
     bind_ok (map_err (with_context ''signable body'') (parse_wire V body top_byte top_text)) (\<lambda>root.
     bind_ok (excludes_signatures V root) (\<lambda>_.
     bind_ok (canonical (v_base V) (node_to_cj root)) (\<lambda>c.
     reject (c \<noteq> body) ''signable body must use RatifyCanonicalJSON'' (
     bind_ok (validate body) (\<lambda>_.
       Ok (sha384 V [STATEMENT_BODY_TAG, be16 (object_code ty), body]))))))"

lemma statement_digest_Ok:
  "statement_digest V tb tt validate ty body = Ok d \<Longrightarrow>
     validate body = Ok () \<and> d = sha384 V [STATEMENT_BODY_TAG, be16 (object_code ty), body]"
  by (auto simp: statement_digest_def bind_ok_Ok reject_Ok)

section \<open>Heads\<close>

definition validate_head :: "string \<Rightarrow> int \<Rightarrow> bytes \<Rightarrow> digest_history \<Rightarrow> unit v2_result" where
  "validate_head log_id seq head_hash accepted =
     (let zero = list_all (\<lambda>b. b = 0) head_hash in
      reject_as (length log_id \<noteq> 32 \<or> \<not> lower_hex log_id \<or> \<not> (0 \<le> seq \<and> seq \<le> MAX_SAFE)
          \<or> length head_hash \<noteq> 48)
        ConfigurationInvalid ''caller log head is invalid'' (
      reject_as (seq = 0 \<and> (\<not> zero \<or> accepted \<noteq> []) \<or> seq > 0 \<and> zero)
        ConfigurationInvalid ''caller log head has inconsistent genesis state'' (
      reject_as (seq > 0 \<and> int (length accepted) \<noteq> seq)
        ConfigurationInvalid ''caller log head is missing accepted sequence digests'' (
      reject_as (seq > 0 \<and> map_of accepted seq \<noteq> Some head_hash)
        ConfigurationInvalid ''caller log head hash does not match its accepted digest history'' (
      reject_as (list_ex (\<lambda>(k, d). k \<le> 0 \<or> k > seq \<or> length d \<noteq> 48) accepted)
        ConfigurationInvalid ''caller log head contains invalid accepted digest history'' (Ok ()))))))"

definition log_position ::
  "int \<Rightarrow> bytes \<Rightarrow> bytes \<Rightarrow> int \<Rightarrow> bytes \<Rightarrow> digest_history \<Rightarrow> bool \<Rightarrow> string
    \<Rightarrow> witness_entry_v2_result v2_result" where
  "log_position seq previous digest head_seq head_hash accepted frozen log_id =
     (if seq \<le> head_seq then
        if map_of accepted seq = Some digest then Ok Replay
        else err LogFork (''log fork at sequence '' @ dec_int seq @ ''; caller must freeze log '' @ log_id)
      else
        reject_as frozen LogFrozen ''log is frozen'' (
        reject_as (seq > i64_add head_seq 1) LogGap
          (''log sequence gap: got '' @ dec_int seq @ '' after '' @ dec_int head_seq) (
        reject_as (previous \<noteq> head_hash) LogOrphan ''entry does not link to the current head'' (
        Ok Appended))))"

text \<open>
  As many distinct keys as the sequence number, all between 1 and it: the history is complete.
\<close>

lemma validate_head_complete:
  assumes "validate_head log_id seq h accepted = Ok ()" "distinct (map fst accepted)"
  shows "fst ` set accepted = {1..seq} \<and> 0 \<le> seq \<and> seq \<le> MAX_SAFE \<and> (\<forall>d\<in>snd ` set accepted. length d = 48)"
proof -
  from assms(1) have b: "0 \<le> seq" "seq \<le> MAX_SAFE" "seq = 0 \<longrightarrow> accepted = []"
    "seq > 0 \<longrightarrow> int (length accepted) = seq" "\<forall>x\<in>set accepted. 0 < fst x \<and> fst x \<le> seq \<and> length (snd x) = 48"
    by (auto simp: validate_head_def reject_Ok Let_def list_ex_iff not_le)
  have sub: "fst ` set accepted \<subseteq> {1..seq}" using b(5) by fastforce
  have "card (fst ` set accepted) = length accepted"
    using distinct_card [OF assms(2)] by simp
  then have "card (fst ` set accepted) = card {1..seq}" using b(1,3,4) by (cases "seq = 0") auto
  then have "fst ` set accepted = {1..seq}" using sub by (simp add: card_subset_eq)
  with b show ?thesis by auto
qed

lemma log_position_Appended:
  assumes "0 \<le> head_seq" "head_seq \<le> MAX_SAFE"
  shows "log_position seq previous digest head_seq h accepted frozen log_id = Ok Appended \<longleftrightarrow>
     seq = head_seq + 1 \<and> \<not> frozen \<and> previous = h"
proof -
  have "i64_add head_seq 1 = head_seq + 1"
    unfolding i64_add_def by (rule i64_wrap_id) (use assms in \<open>simp add: i64_range_def MAX_SAFE_def MAX_SAFE_INTEGER_def\<close>)
  then show ?thesis by (auto simp: log_position_def reject_Ok)
qed

lemma log_position_Replay:
  "log_position seq previous digest head_seq h accepted frozen log_id = Ok Replay \<longleftrightarrow>
     seq \<le> head_seq \<and> map_of accepted seq = Some digest"
  by (auto simp: log_position_def reject_Ok)

end
