(* ===== verification/V2_Signer.thy ===== *)
theory V2_Signer
  imports V2_Crypto
begin

text \<open>
  The external signer interface and the typed statement signature
  (\<open>sdks/rust/src/v2/signer.rs\<close>).  A signer is a record of its public key, its mode and its signing
  function; \<open>local_signer\<close> is the one the crate builds from a private key.  Whatever a signer
  returns, only a signature that verifies under the bound key leaves \<open>sign_v2_statement_with_signer\<close>.
\<close>

section \<open>Signers\<close>

text \<open>
  A cancellation context as the sequence of readings \<open>is_done\<close> gives to its successive callers:
  another thread or a deadline may cancel it between two readings.
\<close>

type_synonym v2_context = "nat \<Rightarrow> bool"

definition background :: v2_context where
  "background = (\<lambda>_. False)"

definition V2_SIGNING_MESSAGE_SIZE :: nat where "V2_SIGNING_MESSAGE_SIZE = 77"

datatype signer_mode_v2 = Direct | ExternalMu

record sign_request_v2 =
  rq_mode :: signer_mode_v2
  rq_message :: bytes
  rq_ml_dsa_context :: "bytes option"
  rq_ml_dsa_mu :: "bytes option"
  rq_public_key :: hybrid_public_key
  rq_key_id :: string

record signer_v2 =
  sg_public_key :: hybrid_public_key
  sg_mode :: signer_mode_v2
  sg_sign :: "bool \<Rightarrow> sign_request_v2 \<Rightarrow> hybrid_signature v2_sign_result"

text \<open>\<open>LocalSignerV2::sign_v2\<close>; \<open>done\<close> is its reading of the context, \<open>rnd\<close> the hedging randomness.\<close>

definition LOCAL_MODE :: string where
  "LOCAL_MODE = ''local v2 signer supports only direct-mode requests''"

definition local_sign ::
  "v2_prims \<Rightarrow> bytes \<Rightarrow> hybrid_private_key \<Rightarrow> bool \<Rightarrow> sign_request_v2 \<Rightarrow> hybrid_signature v2_sign_result" where
  "local_sign V rnd sk done request =
     (if done then Err Cancelled
      else case (rq_mode request, rq_ml_dsa_context request) of
        (Direct, Some c) \<Rightarrow>
          if c = [] then Err (Provider LOCAL_MODE)
          else if length (rq_message request) \<noteq> V2_SIGNING_MESSAGE_SIZE then Err (Provider LOCAL_MODE)
          else bind_ok (map_err (\<lambda>e. InvalidSignerKey (e_message e)) (ed_seed V sk)) (\<lambda>seed.
               bind_ok (map_err (\<lambda>e. InvalidSignerKey (e_message e)) (ml_secret V sk)) (\<lambda>ml.
                 map_err (\<lambda>e. Provider (e_message e))
                   (sign_v2_message V seed ml (rq_message request) c (Some rnd))))
      | _ \<Rightarrow> Err (Provider LOCAL_MODE))"

definition local_signer :: "v2_prims \<Rightarrow> bytes \<Rightarrow> hybrid_private_key \<Rightarrow> signer_v2 v2_sign_result" where
  "local_signer V rnd sk =
     bind_ok (map_err (\<lambda>e. InvalidSignerKey (e_message e)) (public_key_v2 V sk)) (\<lambda>pk.
       Ok \<lparr>sg_public_key = pk, sg_mode = Direct, sg_sign = local_sign V rnd sk\<rparr>)"

definition external_mu_v2 :: "v2_prims \<Rightarrow> bytes \<Rightarrow> bytes \<Rightarrow> bytes \<Rightarrow> bytes" where
  "external_mu_v2 V pk context message =
     (let tr = v_shake256 V pk 64 in
      v_shake256 V (tr @ [0, word_of_nat (length context)] @ context @ message) 64)"

definition signer_public_key_v2 :: "v2_prims \<Rightarrow> signer_v2 \<Rightarrow> hybrid_public_key v2_sign_result" where
  "signer_public_key_v2 V signer =
     bind_ok (map_err (\<lambda>e. InvalidSignerKey (''v2 signer public key: '' @ e_message e))
         (key_id_v2 V (sg_public_key signer)))
       (\<lambda>_. Ok (sg_public_key signer))"

section \<open>Signing a statement\<close>

definition sign_request ::
  "v2_prims \<Rightarrow> v2_object_type \<Rightarrow> bytes \<Rightarrow> signer_mode_v2 \<Rightarrow> hybrid_public_key \<Rightarrow> string \<Rightarrow> sign_request_v2" where
  "sign_request V ty signable mode pk key_id =
     (let message = v2_signing_message V ty signable; context = v2_mldsa_context ty in
      \<lparr>rq_mode = mode, rq_message = message,
       rq_ml_dsa_context = (case mode of Direct \<Rightarrow> Some context | ExternalMu \<Rightarrow> None),
       rq_ml_dsa_mu = (case mode of Direct \<Rightarrow> None
         | ExternalMu \<Rightarrow> Some (external_mu_v2 V (pk_ml_dsa_65 pk) context message)),
       rq_public_key = pk, rq_key_id = key_id\<rparr>)"

fun provider_failure :: "v2_sign_error \<Rightarrow> v2_sign_error" where
  "provider_failure Cancelled = Cancelled"
| "provider_failure (Provider m) = Provider m"
| "provider_failure e = Provider (sign_error_display e)"

definition sign_v2_statement_with_signer ::
  "v2_prims \<Rightarrow> v2_context \<Rightarrow> v2_object_type \<Rightarrow> bytes \<Rightarrow> signer_v2 \<Rightarrow> hybrid_public_key
    \<Rightarrow> hybrid_signature v2_sign_result" where
  "sign_v2_statement_with_signer V ctx ty signable signer pk =
     (if ctx 0 then Err Cancelled
      else bind_ok (map_err (\<lambda>e. InvalidSignerKey (e_message e)) (key_id_v2 V pk)) (\<lambda>key_id.
        bind_ok (map_err provider_failure
            (sg_sign signer (ctx 1) (sign_request V ty signable (sg_mode signer) pk key_id))) (\<lambda>signature.
          if ctx 2 then Err Cancelled
          else bind_ok (map_err SignatureRejected (verify_v2_statement V ty signable signature pk)) (\<lambda>_.
            Ok signature))))"

text \<open>A signature that does not verify under the bound key never leaves the function.\<close>

lemma sign_v2_statement_verified:
  "sign_v2_statement_with_signer V ctx ty signable signer pk = Ok sg \<Longrightarrow>
     verify_v2_statement V ty signable sg pk = Ok () \<and> \<not> ctx 0 \<and> \<not> ctx 2
     \<and> is_ok (key_id_v2 V pk)"
  by (auto simp: sign_v2_statement_with_signer_def bind_ok_Ok map_err_Ok is_ok_def split: if_splits)

lemma signer_public_key_Ok:
  "signer_public_key_v2 V signer = Ok pk \<longleftrightarrow> pk = sg_public_key signer \<and> is_ok (key_id_v2 V pk)"
  by (auto simp: signer_public_key_v2_def bind_ok_Ok map_err_Ok is_ok_def split: sum.splits)

text \<open>The local signer is asked only what it supports.\<close>

lemma local_sign_request:
  assumes "sha384_sized V"
  shows "local_sign V rnd sk False (sign_request V ty signable Direct pk key_id) =
     bind_ok (map_err (\<lambda>e. InvalidSignerKey (e_message e)) (ed_seed V sk)) (\<lambda>seed.
     bind_ok (map_err (\<lambda>e. InvalidSignerKey (e_message e)) (ml_secret V sk)) (\<lambda>ml.
       map_err (\<lambda>e. Provider (e_message e))
         (sign_v2_message V seed ml (v2_signing_message V ty signable) (v2_mldsa_context ty) (Some rnd))))"
proof -
  have "v2_mldsa_context ty \<noteq> []" by (simp add: v2_mldsa_context_def str_bytes_def)
  with length_signing_message [OF assms] show ?thesis
    by (simp add: local_sign_def sign_request_def Let_def V2_SIGNING_MESSAGE_SIZE_def)
qed

end
