(* ===== verification/V2_Witness.thy ===== *)
theory V2_Witness
  imports V2_Log V2_Signer
begin

text \<open>
  Witness entries, object code 0x0006 (\<open>sdks/rust/src/v2/witness.rs\<close>): validation, the canonical
  forms, decoding, signing, and verification against the caller's log head.
\<close>

record witness_entry_v2 =
  w_version :: int
  w_log_id :: string
  w_sequence :: int
  w_prev_hash :: bytes
  w_entry_data :: bytes
  w_timestamp :: int
  w_witness_id :: string
  w_signature :: hybrid_signature

record witness_v2_head =
  wh_log_id :: string
  wh_sequence :: int
  wh_head_hash :: bytes
  wh_accepted :: digest_history
  wh_frozen :: bool

definition WITNESS_FIELDS :: "string list" where
  "WITNESS_FIELDS = [''version'', ''log_id'', ''sequence'', ''prev_hash'', ''entry_data'', ''timestamp'',
     ''witness_id'', ''signature'']"

definition signature_lengths_ok :: "hybrid_signature \<Rightarrow> bool" where
  "signature_lengths_ok sg \<longleftrightarrow> length (sig_ed25519 sg) = 64 \<and> length (sig_ml_dsa_65 sg) = 3309"

definition SIGNATURE_LENGTHS :: string where
  "SIGNATURE_LENGTHS = ''wire v2: signature must contain 64-byte Ed25519 and 3309-byte ML-DSA-65 components''"

definition all_zero :: "bytes \<Rightarrow> bool" where
  "all_zero b \<longleftrightarrow> list_all (\<lambda>x. x = 0) b"

section \<open>Validation and the canonical forms\<close>

definition validate_witness :: "witness_entry_v2 \<Rightarrow> bool \<Rightarrow> unit v2_result" where
  "validate_witness e with_signature =
     (let zero = all_zero (w_prev_hash e) in
      reject (w_version e \<noteq> 2) ''wire v2: witness entry version must be 2'' (
      reject (length (w_log_id e) \<noteq> 32 \<or> \<not> lower_hex (w_log_id e))
        ''wire v2: log_id must be 32 lowercase hexadecimal characters'' (
      reject (w_sequence e \<le> 0 \<or> w_sequence e > MAX_SAFE \<or> \<not> valid_v2_timestamp (w_timestamp e))
        ''wire v2: sequence and timestamp must be safe integers'' (
      reject (length (w_prev_hash e) \<noteq> 48) ''wire v2: prev_hash must be 48 bytes'' (
      reject (length (w_entry_data e) > MAX_WITNESS_ENTRY_DATA_BYTES_V2)
        (''wire v2: entry_data exceeds MAX_WITNESS_ENTRY_DATA_BYTES_V2 ('' @
          dec_nat MAX_WITNESS_ENTRY_DATA_BYTES_V2 @ '' bytes)'') (
      reject (w_sequence e = 1 \<and> \<not> zero) ''wire v2: genesis witness entry must use a zero prev_hash'' (
      reject (w_sequence e > 1 \<and> zero)
        ''wire v2: non-genesis witness entry must link to a prior entry'' (
      reject (\<not> valid_v2_id (w_witness_id e))
        ''wire v2: witness_id must be a 64-character lowercase hexadecimal v2 key ID'' (
      reject (with_signature \<and> \<not> signature_lengths_ok (w_signature e)) SIGNATURE_LENGTHS (
      Ok ()))))))))))"

definition entry_cj :: "witness_entry_v2 \<Rightarrow> bool \<Rightarrow> cj" where
  "entry_cj e with_signature = CObj (
     [(''entry_data'', CBytes (w_entry_data e)),
      (''log_id'', CStr (w_log_id e)),
      (''prev_hash'', CBytes (w_prev_hash e)),
      (''sequence'', CInt (w_sequence e)),
      (''timestamp'', CInt (w_timestamp e)),
      (''version'', CInt (w_version e)),
      (''witness_id'', CStr (w_witness_id e))]
     @ (if with_signature then [(''signature'', cj_sig (w_signature e))] else []))"

definition entry_from :: "v2_prims \<Rightarrow> jobj \<Rightarrow> witness_entry_v2 v2_result" where
  "entry_from V ob =
     bind_ok (obj_i64 ob ''version'') (\<lambda>version.
     bind_ok (obj_str ob ''log_id'') (\<lambda>log_id.
     bind_ok (obj_i64 ob ''sequence'') (\<lambda>seq.
     bind_ok (obj_bytes V ob ''prev_hash'') (\<lambda>prev_hash.
     bind_ok (obj_bytes V ob ''entry_data'') (\<lambda>entry_data.
     bind_ok (obj_i64 ob ''timestamp'') (\<lambda>timestamp.
     bind_ok (obj_str ob ''witness_id'') (\<lambda>witness_id.
     bind_ok (obj_sig V ob ''signature'') (\<lambda>signature.
       Ok \<lparr>w_version = version, w_log_id = log_id, w_sequence = seq, w_prev_hash = prev_hash,
           w_entry_data = entry_data, w_timestamp = timestamp, w_witness_id = witness_id,
           w_signature = signature\<rparr>))))))))"

definition validate_witness_signable_body :: "v2_prims \<Rightarrow> bytes \<Rightarrow> unit v2_result" where
  "validate_witness_signable_body V body =
     (let names = [''entry_data'', ''log_id'', ''prev_hash'', ''sequence'', ''timestamp'', ''version'',
        ''witness_id''] in
      bind_ok (parse_wire V body [] []) (\<lambda>doc.
      bind_ok (obj doc) (\<lambda>ob.
      bind_ok (map_err (with_context ''witness signable body'') (obj_require (v_base V) ob names [])) (\<lambda>_.
      bind_ok (map_err (with_context ''witness signable body'') (obj_only (v_base V) ob names)) (\<lambda>_.
      bind_ok (entry_from V ob) (\<lambda>e.
      bind_ok (canonical (v_base V) (entry_cj e False)) (\<lambda>c.
      reject (c \<noteq> body) ''witness signable body must use RatifyCanonicalJSON'' (
      validate_witness e False))))))))"

definition witness_entry_v2_signable_bytes :: "v2_prims \<Rightarrow> witness_entry_v2 \<Rightarrow> bytes v2_result" where
  "witness_entry_v2_signable_bytes V e =
     bind_ok (validate_witness e False) (\<lambda>_. canonical (v_base V) (entry_cj e False))"

text \<open>The digest under code 0x0006.\<close>

definition witness_statement_digest :: "v2_prims \<Rightarrow> bytes \<Rightarrow> bytes v2_result" where
  "witness_statement_digest V body =
     statement_digest V [''previous_statement_hash'', ''delegation_digest'', ''previous_receipt_hash''] []
       (validate_witness_signable_body V) WitnessEntry body"

definition witness_entry_v2_digest :: "v2_prims \<Rightarrow> witness_entry_v2 \<Rightarrow> bytes v2_result" where
  "witness_entry_v2_digest V e =
     bind_ok (witness_entry_v2_signable_bytes V e) (witness_statement_digest V)"

definition encode_witness_entry_v2 :: "v2_prims \<Rightarrow> witness_entry_v2 \<Rightarrow> bytes v2_result" where
  "encode_witness_entry_v2 V e =
     bind_ok (validate_witness e True) (\<lambda>_.
     bind_ok (canonical (v_base V) (entry_cj e True)) (\<lambda>wire.
     bind_ok (check_v2_wire_size wire ''witness entry'' ''MAX_WITNESS_ENTRY_BYTES_V2''
       MAX_WITNESS_ENTRY_BYTES_V2) (\<lambda>_. Ok wire)))"

definition decode_witness_entry_v2 :: "v2_prims \<Rightarrow> bytes \<Rightarrow> witness_entry_v2 v2_result" where
  "decode_witness_entry_v2 V data = classify_result Malformed (
     bind_ok (check_v2_wire_size data ''witness entry'' ''MAX_WITNESS_ENTRY_BYTES_V2''
       MAX_WITNESS_ENTRY_BYTES_V2) (\<lambda>_.
     bind_ok (parse_wire V data [] []) (\<lambda>doc.
     bind_ok (obj doc) (\<lambda>ob.
     bind_ok (obj_require (v_base V) ob WITNESS_FIELDS []) (\<lambda>_.
     bind_ok (obj_only (v_base V) ob WITNESS_FIELDS) (\<lambda>_.
     bind_ok (entry_from V ob) (\<lambda>e.
     bind_ok (validate_witness e True) (\<lambda>_.
     if encode_witness_entry_v2 V e = Ok data then Ok e
     else plain ''wire v2: witness entry is not canonical Ratify JSON''))))))))"

section \<open>Signing and verification\<close>

definition sign_witness_entry_v2_with_signer ::
  "v2_prims \<Rightarrow> v2_context \<Rightarrow> witness_entry_v2 \<Rightarrow> signer_v2 \<Rightarrow> witness_entry_v2 v2_sign_result" where
  "sign_witness_entry_v2_with_signer V ctx e signer =
     bind_ok (map_err InvalidObject (classify_result Malformed (validate_witness e False))) (\<lambda>_.
     bind_ok (signer_public_key_v2 V signer) (\<lambda>pk.
     if key_id_v2 V pk \<noteq> Ok (w_witness_id e)
     then Err (KeyBinding ''witness_id does not match signing key'')
     else bind_ok (map_err InvalidObject (classify_result Malformed (witness_entry_v2_signable_bytes V e))) (\<lambda>body.
     bind_ok (sign_v2_statement_with_signer V ctx WitnessEntry body signer pk) (\<lambda>sg.
     bind_ok (map_err InvalidObject (classify_result Malformed
       (encode_witness_entry_v2 V (e\<lparr>w_signature := sg\<rparr>)))) (\<lambda>_.
       Ok (e\<lparr>w_signature := sg\<rparr>))))))"

definition sign_witness_entry_v2 ::
  "v2_prims \<Rightarrow> bytes \<Rightarrow> witness_entry_v2 \<Rightarrow> hybrid_private_key \<Rightarrow> witness_entry_v2 v2_sign_result" where
  "sign_witness_entry_v2 V rnd e sk =
     bind_ok (local_signer V rnd sk) (\<lambda>signer. sign_witness_entry_v2_with_signer V background e signer)"

definition verify_witness_entry_v2 ::
  "v2_prims \<Rightarrow> witness_entry_v2 \<Rightarrow> witness_v2_head \<Rightarrow> hybrid_public_key
    \<Rightarrow> witness_entry_v2_result v2_result" where
  "verify_witness_entry_v2 V e head witness_key =
     bind_ok (classify_result Malformed (validate_witness e True)) (\<lambda>_.
     bind_ok (classify_result Malformed (encode_witness_entry_v2 V e)) (\<lambda>_.
     bind_ok (validate_head (wh_log_id head) (wh_sequence head) (wh_head_hash head) (wh_accepted head)) (\<lambda>_.
     bind_ok (key_id_v2 V witness_key) (\<lambda>witness_id.
     reject_as (w_witness_id e \<noteq> witness_id \<or> w_log_id e \<noteq> wh_log_id head) LogStateMismatch
       ''witness entry key or log ID does not match caller-authenticated state'' (
     bind_ok (witness_entry_v2_signable_bytes V e) (\<lambda>body.
     bind_ok (verify_v2_statement V WitnessEntry body (w_signature e) witness_key) (\<lambda>_.
     bind_ok (witness_entry_v2_digest V e) (\<lambda>digest.
     log_position (w_sequence e) (w_prev_hash e) digest (wh_sequence head) (wh_head_hash head)
       (wh_accepted head) (wh_frozen head) (wh_log_id head)))))))))"

section \<open>What acceptance means\<close>

text \<open>An accepted entry is signed by the key the log names, over its canonical body.\<close>

lemma verify_witness_authentic:
  assumes "verify_witness_entry_v2 V e head key = Ok res"
  shows "key_id_v2 V key = Ok (w_witness_id e)"
    and "w_log_id e = wh_log_id head"
    and "\<exists>body. witness_entry_v2_signable_bytes V e = Ok body
      \<and> verify_v2_statement V WitnessEntry body (w_signature e) key = Ok ()"
    and "validate_head (wh_log_id head) (wh_sequence head) (wh_head_hash head) (wh_accepted head) = Ok ()"
  using assms by (auto simp: verify_witness_entry_v2_def bind_ok_Ok reject_Ok)

lemma verify_witness_position:
  assumes "verify_witness_entry_v2 V e head key = Ok res"
  shows "\<exists>d. witness_entry_v2_digest V e = Ok d
     \<and> log_position (w_sequence e) (w_prev_hash e) d (wh_sequence head) (wh_head_hash head)
         (wh_accepted head) (wh_frozen head) (wh_log_id head) = Ok res"
  using assms by (auto simp: verify_witness_entry_v2_def bind_ok_Ok reject_Ok)

text \<open>The head after the caller persists an appended entry.\<close>

definition append_head :: "witness_v2_head \<Rightarrow> bytes \<Rightarrow> witness_v2_head" where
  "append_head head d = head\<lparr>wh_sequence := wh_sequence head + 1, wh_head_hash := d,
     wh_accepted := wh_accepted head @ [(wh_sequence head + 1, d)]\<rparr>"

lemma verify_witness_appended:
  assumes "verify_witness_entry_v2 V e head key = Ok Appended"
  shows "w_sequence e = wh_sequence head + 1 \<and> \<not> wh_frozen head \<and> w_prev_hash e = wh_head_hash head"
proof -
  have h: "validate_head (wh_log_id head) (wh_sequence head) (wh_head_hash head) (wh_accepted head) = Ok ()"
    by (rule verify_witness_authentic(4) [OF assms])
  then have "0 \<le> wh_sequence head" "wh_sequence head \<le> MAX_SAFE"
    by (auto simp: validate_head_def reject_Ok Let_def)
  with verify_witness_position [OF assms] show ?thesis by (auto simp: log_position_Appended)
qed

end
