(* ===== verification/V2_Receipt.thy ===== *)
theory V2_Receipt
  imports V2_Witness V1_Scope
begin

text \<open>
  Verification receipts, object code 0x0008 (\<open>sdks/rust/src/v2/receipt.rs\<close>), with the scope rules
  of \<open>v2/wire.rs\<close> and the evaluator references of \<open>v2/evaluator.rs\<close> they use: the receipt and its
  three canonical shapes, its validation (\<open>validate_receipt\<close>, \<open>validate_decision\<close>), decoding, the
  prepared body, signing, and verification against the caller's log head.
\<close>

section \<open>Scopes\<close>

definition is_wildcard :: "string \<Rightarrow> bool" where
  "is_wildcard scope \<longleftrightarrow> wildcard_expansion scope \<noteq> None"

fun scope_list_check :: "prims \<Rightarrow> string list \<Rightarrow> string list \<Rightarrow> unit v2_result" where
  "scope_list_check P before [] = Ok ()"
| "scope_list_check P before (s # ss) =
     reject (s = ''custom:*'') ''custom:* is not a valid scope'' (
     reject (s \<in> set before) (''duplicate scope '' @ debug_str P s) (
     scope_list_check P (before @ [s]) ss))"

definition validate_scopes_v2 :: "prims \<Rightarrow> string list \<Rightarrow> unit v2_result" where
  "validate_scopes_v2 P scopes =
     reject (scopes = []) ''scope must be a non-empty array'' (
     case validate_scopes scopes of
       Some e \<Rightarrow> plain e
     | None \<Rightarrow> scope_list_check P [] scopes)"

definition required_scope_v2 :: "string \<Rightarrow> unit v2_result" where
  "required_scope_v2 scope =
     (if scope \<in> set vocabulary \<and> \<not> is_wildcard scope then Ok ()
      else if starts_with scope CUSTOM_SCOPE_PREFIX \<and> length scope > length CUSTOM_SCOPE_PREFIX
        \<and> scope \<noteq> ''custom:*'' \<and> length scope \<le> MAX_SCOPE_LENGTH_BYTES then Ok ()
      else plain ''required scope must be one canonical scope or one exact custom: scope'')"

definition validate_required_scope_v2 :: "string \<Rightarrow> unit v2_result" where
  "validate_required_scope_v2 scope = classify_result InvalidRequiredScope (required_scope_v2 scope)"

definition placeholder_signature :: hybrid_signature where
  "placeholder_signature = \<lparr>sig_ed25519 = replicate 64 0, sig_ml_dsa_65 = replicate 3309 0\<rparr>"

section \<open>Evaluator references\<close>

record constraint_evaluator_ref_v2 =
  ce_kind :: string
  ce_profile_digest :: string

definition MAX_CONSTRAINT_EVALUATORS_V2 :: nat where "MAX_CONSTRAINT_EVALUATORS_V2 = 32"
definition MAX_EXTENSION_TYPE_BYTES_V2 :: nat where "MAX_EXTENSION_TYPE_BYTES_V2 = 128"

definition ascii_lowercase :: "char \<Rightarrow> bool" where
  "ascii_lowercase c \<longleftrightarrow> 97 \<le> (of_char c :: nat) \<and> (of_char c :: nat) \<le> 122"

definition label_ok :: "string \<Rightarrow> bool" where
  "label_ok l \<longleftrightarrow> l \<noteq> [] \<and>
     list_all (\<lambda>c. ascii_lowercase c \<or> is_digit c \<or> c = CHR ''_'' \<or> c = CHR ''-'') l"

definition valid_extension_type_v2 :: "string \<Rightarrow> bool" where
  "valid_extension_type_v2 t \<longleftrightarrow>
     \<not> (t = [] \<or> length t > MAX_EXTENSION_TYPE_BYTES_V2 \<or> starts_with t ''ratify.'') \<and>
     (let labels = split_on (CHR ''.'') t in length labels \<ge> 3 \<and> list_all label_ok labels)"

text \<open>Every element is smaller than its successor.\<close>

definition ascending :: "('a \<Rightarrow> 'a \<Rightarrow> bool) \<Rightarrow> 'a list \<Rightarrow> bool" where
  "ascending lt xs \<longleftrightarrow> list_all (\<lambda>(a, b). lt a b) (zip xs (tl xs))"

definition valid_constraint_evaluator_refs_v2 :: "constraint_evaluator_ref_v2 list \<Rightarrow> bool" where
  "valid_constraint_evaluator_refs_v2 refs \<longleftrightarrow>
     length refs \<le> MAX_CONSTRAINT_EVALUATORS_V2
     \<and> list_all (\<lambda>r. valid_extension_type_v2 (ce_kind r) \<and> valid_prefixed_digest (ce_profile_digest r)) refs
     \<and> ascending (\<lambda>a b. ce_kind a < ce_kind b) refs"

definition evaluator_refs_cj :: "constraint_evaluator_ref_v2 list \<Rightarrow> cj" where
  "evaluator_refs_cj refs = CArr (map (\<lambda>r. CObj [(''profile_digest'', CStr (ce_profile_digest r)),
     (''type'', CStr (ce_kind r))]) refs)"

section \<open>Receipts\<close>

record status_evidence_entry_v2 =
  ev_issuer_id :: string
  ev_status_key_id :: string
  ev_sequence :: int
  ev_object_type :: int
  ev_digest :: string

record verification_receipt_v2 =
  rc_version :: int
  rc_log_id :: string
  rc_sequence :: int
  rc_verifier_id :: string
  rc_agent_id :: string
  rc_human_id :: string
  rc_bundle_hash :: string
  rc_issuer_ids :: "string list"
  rc_decision :: string
  rc_decision_reason :: string
  rc_identity_status :: string
  rc_trust_assessment :: string
  rc_status_assessment :: string
  rc_challenge_assessment :: string
  rc_constraint_evaluators :: "constraint_evaluator_ref_v2 list"
  rc_context_assessment :: string
  rc_context_policy_digest :: "string option"
  rc_verified_at :: int
  rc_required_scope :: string
  rc_granted_scope :: "string list"
  rc_status_evidence :: "status_evidence_entry_v2 list"
  rc_previous_receipt_hash :: bytes
  rc_signature :: hybrid_signature

record receipt_v2_head =
  rh_log_id :: string
  rh_verifier_id :: string
  rh_sequence :: int
  rh_head_hash :: bytes
  rh_accepted :: digest_history
  rh_frozen :: bool

definition RECEIPT_FIELDS :: "string list" where
  "RECEIPT_FIELDS = [''version'', ''log_id'', ''sequence'', ''verifier_id'', ''bundle_hash'',
     ''issuer_ids'', ''decision'', ''decision_reason'', ''identity_status'', ''trust_assessment'',
     ''status_assessment'', ''challenge_assessment'', ''context_assessment'',
     ''context_policy_digest'', ''verified_at'', ''required_scope'', ''granted_scope'',
     ''status_evidence_digests'', ''previous_receipt_hash'', ''signature'']"

definition BODY_REQUIRED :: "string list" where
  "BODY_REQUIRED = [''version'', ''verifier_id'', ''bundle_hash'', ''issuer_ids'', ''decision'',
     ''decision_reason'', ''identity_status'', ''trust_assessment'', ''status_assessment'',
     ''challenge_assessment'', ''context_assessment'', ''context_policy_digest'', ''verified_at'',
     ''required_scope'', ''granted_scope'', ''status_evidence_digests'']"

definition evidence_cj :: "status_evidence_entry_v2 list \<Rightarrow> cj" where
  "evidence_cj es = CArr (map (\<lambda>e. CObj [(''digest'', CStr (ev_digest e)),
     (''issuer_id'', CStr (ev_issuer_id e)), (''object_type_code'', CInt (ev_object_type e)),
     (''sequence'', CInt (ev_sequence e)), (''status_key_id'', CStr (ev_status_key_id e))]) es)"

datatype shape = Body | Signable | Wire

definition receipt_cj :: "verification_receipt_v2 \<Rightarrow> shape \<Rightarrow> cj" where
  "receipt_cj r sh = CObj (
     [(''bundle_hash'', CStr (rc_bundle_hash r)),
      (''challenge_assessment'', CStr (rc_challenge_assessment r)),
      (''context_assessment'', CStr (rc_context_assessment r)),
      (''context_policy_digest'', (case rc_context_policy_digest r of None \<Rightarrow> CNull | Some d \<Rightarrow> CStr d)),
      (''decision'', CStr (rc_decision r)),
      (''decision_reason'', CStr (rc_decision_reason r)),
      (''granted_scope'', cj_strs (rc_granted_scope r)),
      (''identity_status'', CStr (rc_identity_status r)),
      (''issuer_ids'', cj_strs (rc_issuer_ids r)),
      (''required_scope'', CStr (rc_required_scope r)),
      (''status_assessment'', CStr (rc_status_assessment r)),
      (''status_evidence_digests'', evidence_cj (rc_status_evidence r)),
      (''trust_assessment'', CStr (rc_trust_assessment r)),
      (''verified_at'', CInt (rc_verified_at r)),
      (''verifier_id'', CStr (rc_verifier_id r)),
      (''version'', CInt (rc_version r))]
     @ (if rc_agent_id r \<noteq> [] then [(''agent_id'', CStr (rc_agent_id r))] else [])
     @ (if rc_human_id r \<noteq> [] then [(''human_id'', CStr (rc_human_id r))] else [])
     @ (if rc_constraint_evaluators r \<noteq> []
        then [(''constraint_evaluators'', evaluator_refs_cj (rc_constraint_evaluators r))] else [])
     @ (if sh \<noteq> Body then [(''log_id'', CStr (rc_log_id r)),
          (''previous_receipt_hash'', CBytes (rc_previous_receipt_hash r)),
          (''sequence'', CInt (rc_sequence r))] else [])
     @ (if sh = Wire then [(''signature'', cj_sig (rc_signature r))] else []))"

section \<open>Validation\<close>

definition sorted_unique_ids :: "string list \<Rightarrow> bool" where
  "sorted_unique_ids ids \<longleftrightarrow> list_all valid_v2_id ids \<and> ascending (<) ids"

definition sorted_granted :: "prims \<Rightarrow> string list \<Rightarrow> bool" where
  "sorted_granted P scopes \<longleftrightarrow> scopes = [] \<or>
     is_ok (validate_scopes_v2 P scopes) \<and> list_all (\<lambda>s. \<not> is_wildcard s) scopes \<and> ascending (<) scopes"

text \<open>The lexicographic order \<open>compare_evidence\<close> gives.\<close>

definition evidence_less :: "status_evidence_entry_v2 \<Rightarrow> status_evidence_entry_v2 \<Rightarrow> bool" where
  "evidence_less a b \<longleftrightarrow>
     ev_issuer_id a < ev_issuer_id b \<or> ev_issuer_id a = ev_issuer_id b \<and>
    (ev_status_key_id a < ev_status_key_id b \<or> ev_status_key_id a = ev_status_key_id b \<and>
    (ev_sequence a < ev_sequence b \<or> ev_sequence a = ev_sequence b \<and>
    (ev_object_type a < ev_object_type b \<or> ev_object_type a = ev_object_type b \<and>
     ev_digest a < ev_digest b)))"

definition evidence_entry_ok :: "string list \<Rightarrow> string \<Rightarrow> string \<Rightarrow> status_evidence_entry_v2 \<Rightarrow> bool" where
  "evidence_entry_ok issuer_ids verifier_id agent_id v \<longleftrightarrow>
     ev_issuer_id v \<in> set issuer_ids \<and> valid_v2_id (ev_status_key_id v)
     \<and> ev_status_key_id v \<notin> set issuer_ids \<and> ev_status_key_id v \<noteq> verifier_id
     \<and> \<not> (agent_id \<noteq> [] \<and> ev_status_key_id v = agent_id)
     \<and> \<not> ev_sequence v \<le> 0 \<and> \<not> ev_sequence v > MAX_SAFE
     \<and> \<not> (ev_object_type v \<noteq> 3 \<and> ev_object_type v \<noteq> 5) \<and> valid_prefixed_digest (ev_digest v)"

fun key_issuers_ok :: "(string \<times> string) list \<Rightarrow> status_evidence_entry_v2 list \<Rightarrow> bool" where
  "key_issuers_ok seen [] = True"
| "key_issuers_ok seen (v # vs) =
     (case map_of seen (ev_status_key_id v) of
        Some prior \<Rightarrow> prior = ev_issuer_id v
          \<and> key_issuers_ok ((ev_status_key_id v, ev_issuer_id v) # seen) vs
      | None \<Rightarrow> key_issuers_ok ((ev_status_key_id v, ev_issuer_id v) # seen) vs)"

definition sorted_evidence ::
  "status_evidence_entry_v2 list \<Rightarrow> string list \<Rightarrow> string \<Rightarrow> string \<Rightarrow> bool" where
  "sorted_evidence values issuer_ids verifier_id agent_id \<longleftrightarrow>
     key_issuers_ok [] values \<and> list_all (evidence_entry_ok issuer_ids verifier_id agent_id) values
     \<and> ascending evidence_less values"

text \<open>The scan of one issuer's entries: the base, the status key and the pushes seen so far.\<close>

fun issuer_scan ::
  "int \<Rightarrow> string \<Rightarrow> int list \<Rightarrow> status_evidence_entry_v2 list \<Rightarrow> (int \<times> int list) option" where
  "issuer_scan base key pushes [] = Some (base, pushes)"
| "issuer_scan base key pushes (e # es) =
     (if key \<noteq> [] \<and> key \<noteq> ev_status_key_id e then None
      else let key' = (if key = [] then ev_status_key_id e else key) in
        if ev_object_type e = 3 then
          if base \<noteq> 0 then None else issuer_scan (ev_sequence e) key' pushes es
        else if ev_sequence e \<in> set pushes then None
        else issuer_scan base key' (pushes @ [ev_sequence e]) es)"

definition issuer_history_ok :: "status_evidence_entry_v2 list \<Rightarrow> string \<Rightarrow> bool" where
  "issuer_history_ok evidence issuer =
     (case issuer_scan 0 [] [] (filter (\<lambda>e. ev_issuer_id e = issuer) evidence) of
        None \<Rightarrow> False
      | Some (base, pushes) \<Rightarrow>
          \<not> (base = 0 \<or> list_ex (\<lambda>s. s \<le> base) pushes)
          \<and> list_all (\<lambda>k. base + int k \<in> set pushes) [1..<length pushes + 1])"

definition has_accepted_status_history_per_issuer ::
  "status_evidence_entry_v2 list \<Rightarrow> string list \<Rightarrow> bool" where
  "has_accepted_status_history_per_issuer evidence issuer_ids \<longleftrightarrow>
     list_all (issuer_history_ok evidence) issuer_ids \<and> issuer_ids \<noteq> []"

definition DENY_STATUS :: "(string \<times> string) list" where
  "DENY_STATUS = [(''not_delegated'', ''delegation_not_authorized''),
     (''delegation_not_authorized'', ''delegation_not_authorized''), (''delegation_expired'', ''expired''),
     (''delegation_revoked'', ''revoked''), (''scope_denied'', ''scope_denied''),
     (''invalid_scope'', ''invalid_scope''), (''constraint_denied'', ''constraint_denied''),
     (''constraint_unverifiable'', ''constraint_unverifiable''),
     (''constraint_unknown'', ''constraint_unknown''), (''proof_invalid'', ''invalid''),
     (''unauthorized'', ''unauthorized'')]"

definition valid_deny_pair :: "string \<Rightarrow> string \<Rightarrow> bool" where
  "valid_deny_pair reason status \<longleftrightarrow> map_of DENY_STATUS reason = Some status"

definition REASONS :: "string list" where
  "REASONS = [''authorized'', ''not_delegated'', ''delegation_not_authorized'', ''delegation_expired'',
     ''delegation_revoked'', ''scope_denied'', ''constraint_denied'', ''constraint_unverifiable'',
     ''constraint_unknown'', ''invalid_scope'', ''proof_invalid'', ''unauthorized'', ''status_stale'',
     ''status_unavailable'', ''action_context_unverified'', ''trust_unavailable'',
     ''evaluation_interrupted'']"

definition LOCAL_REASONS :: "string list" where
  "LOCAL_REASONS = [''scope_denied'', ''constraint_denied'', ''constraint_unverifiable'', ''constraint_unknown'']"

definition CONSTRAINT_REASONS :: "string list" where
  "CONSTRAINT_REASONS = [''constraint_denied'', ''constraint_unverifiable'', ''constraint_unknown'']"

definition validate_allow :: "verification_receipt_v2 \<Rightarrow> unit v2_result" where
  "validate_allow r =
     (let reason = rc_decision_reason r; ta = rc_trust_assessment r; sa = rc_status_assessment r;
          ca = rc_context_assessment r in
      reject (reason \<noteq> ''authorized'' \<or> rc_identity_status r \<noteq> ''authorized_agent''
          \<or> ta \<noteq> ''trusted'' \<or> sa \<noteq> ''current'' \<or> rc_status_evidence r = [] \<or> rc_granted_scope r = []
          \<or> rc_required_scope r \<notin> set (rc_granted_scope r)
          \<or> ca \<noteq> ''bound'' \<and> ca \<noteq> ''not_required'' \<or> rc_context_policy_digest r = None)
        ''wire v2: allow receipt violates authorization, status, context, or scope requirements''
        (Ok ()))"

definition validate_deny :: "verification_receipt_v2 \<Rightarrow> unit v2_result" where
  "validate_deny r =
     (let reason = rc_decision_reason r; ta = rc_trust_assessment r; sa = rc_status_assessment r;
          ca = rc_context_assessment r; locl = reason \<in> set LOCAL_REASONS;
          constr = reason \<in> set CONSTRAINT_REASONS in
      reject (rc_granted_scope r \<noteq> [] \<or> \<not> valid_deny_pair reason (rc_identity_status r))
        ''wire v2: deny receipt has an invalid reason/status pair or granted scope'' (
      reject (reason = ''not_delegated'' \<and> rc_issuer_ids r \<noteq> [])
        ''wire v2: not_delegated receipt cannot contain certificate issuers'' (
      reject (locl \<and> sa \<noteq> ''current'')
        ''wire v2: post-status local policy denial requires current status'' (
      reject (reason = ''unauthorized'' \<and> ta \<noteq> ''untrusted''
          \<or> reason = ''not_delegated'' \<and> ta \<noteq> ''not_evaluated''
          \<or> reason \<noteq> ''unauthorized'' \<and> reason \<noteq> ''not_delegated'' \<and> ta \<noteq> ''trusted'')
        ''wire v2: deny receipt trust assessment is inconsistent'' (
      reject (reason = ''delegation_revoked'' \<and> sa \<noteq> ''revoked''
          \<or> reason = ''not_delegated'' \<and> sa \<noteq> ''not_evaluated''
          \<or> reason \<noteq> ''delegation_revoked'' \<and> reason \<noteq> ''not_delegated'' \<and> sa \<noteq> ''not_evaluated''
            \<and> \<not> (sa = ''current'' \<and> locl))
        ''wire v2: deny receipt status assessment is inconsistent'' (
      reject ((reason = ''not_delegated'' \<or> reason = ''unauthorized'') \<and> ca \<noteq> ''not_evaluated'')
        ''wire v2: deny receipt context assessment is inconsistent'' (
      reject (reason = ''delegation_revoked'' \<and> ca = ''not_evaluated'')
        ''wire v2: delegation_revoked receipt must retain its completed context assessment'' (
      reject (reason \<notin> set [''delegation_revoked'', ''not_delegated'', ''unauthorized''] \<and> \<not> locl
          \<and> ca \<noteq> ''not_evaluated'')
        ''wire v2: context assessment must be not_evaluated for this deny result'' (
      reject (reason = ''scope_denied'' \<and> ca = ''not_evaluated''
          \<or> constr \<and> ca \<noteq> ''bound'' \<and> ca \<noteq> ''not_required''
            \<and> \<not> (reason = ''constraint_denied'' \<and> ca = ''mismatch''))
        ''wire v2: constraint denial must retain its completed context assessment'' (
      reject ((reason = ''not_delegated'' \<or> reason = ''unauthorized'') \<and> rc_status_evidence r \<noteq> [])
        ''wire v2: status evidence is not evaluated for this deny result'' (
      reject (reason = ''constraint_denied'' \<and> ca = ''mismatch''
          \<and> rc_identity_status r \<noteq> ''constraint_denied'')
        ''wire v2: context mismatch must be a constraint denial'' (
      Ok ()))))))))))))"

definition validate_indeterminate :: "verification_receipt_v2 \<Rightarrow> unit v2_result" where
  "validate_indeterminate r =
     (let reason = rc_decision_reason r; ta = rc_trust_assessment r; sa = rc_status_assessment r;
          ca = rc_context_assessment r;
          tuple_ok =
            (if reason = ''status_stale'' then Some (ta = ''trusted'' \<and> sa = ''stale'' \<and> ca \<noteq> ''not_evaluated'')
             else if reason = ''status_unavailable''
             then Some (ta = ''trusted'' \<and> sa = ''unavailable'' \<and> ca \<noteq> ''not_evaluated'')
             else if reason = ''trust_unavailable''
             then Some (ta = ''unavailable'' \<and> sa = ''not_evaluated'' \<and> ca = ''not_evaluated''
               \<and> rc_status_evidence r = [])
             else if reason = ''action_context_unverified''
             then Some (ta = ''trusted'' \<and> sa = ''current'' \<and> (ca = ''unbound'' \<or> ca = ''unverified''))
             else if reason = ''evaluation_interrupted''
             then Some (\<not> (ca \<noteq> ''not_evaluated'' \<and> ca \<noteq> ''bound'' \<and> ca \<noteq> ''not_required''
               \<or> ta \<noteq> ''trusted'' \<and> (sa \<noteq> ''not_evaluated'' \<or> ca \<noteq> ''not_evaluated'')))
             else None)
      in reject (rc_decision r \<noteq> ''indeterminate'' \<or> rc_granted_scope r \<noteq> []
          \<or> rc_identity_status r \<noteq> ''authorization_unverified'')
        ''wire v2: receipt decision or indeterminate identity/scope is invalid'' (
      case tuple_ok of
        None \<Rightarrow> plain ''wire v2: indeterminate reason is invalid''
      | Some ok \<Rightarrow> reject (\<not> ok) (''wire v2: '' @ reason @ '' assessment tuple is invalid'') (Ok ())))"

definition validate_decision :: "verification_receipt_v2 \<Rightarrow> unit v2_result" where
  "validate_decision r =
     reject (rc_decision_reason r \<notin> set REASONS) ''wire v2: receipt decision_reason is invalid'' (
     reject (rc_trust_assessment r \<notin> set [''trusted'', ''untrusted'', ''unavailable'', ''not_evaluated''])
       ''wire v2: receipt trust_assessment is invalid'' (
     reject (rc_status_assessment r \<notin> set [''current'', ''revoked'', ''stale'', ''unavailable'', ''not_evaluated''])
       ''wire v2: receipt status_assessment is invalid'' (
     reject (rc_context_assessment r \<notin> set [''bound'', ''not_required'', ''unbound'', ''unverified'',
         ''mismatch'', ''not_evaluated''])
       ''wire v2: receipt context_assessment is invalid'' (
     if rc_decision r = ''allow'' then validate_allow r
     else if rc_decision r = ''deny'' then validate_deny r
     else validate_indeterminate r))))"

definition validate_receipt :: "prims \<Rightarrow> verification_receipt_v2 \<Rightarrow> bool \<Rightarrow> unit v2_result" where
  "validate_receipt P r with_signature =
     (let reason = rc_decision_reason r; sa = rc_status_assessment r; ca = rc_context_assessment r;
          zero = all_zero (rc_previous_receipt_hash r) in
      reject (rc_version r \<noteq> 2 \<or> length (rc_log_id r) \<noteq> 32 \<or> \<not> lower_hex (rc_log_id r)
          \<or> rc_sequence r \<le> 0 \<or> rc_sequence r > MAX_SAFE \<or> \<not> valid_v2_timestamp (rc_verified_at r))
        ''wire v2: receipt version, log ID, sequence, or verified_at is invalid'' (
      reject (\<not> valid_v2_id (rc_verifier_id r) \<or> rc_agent_id r \<noteq> [] \<and> \<not> valid_v2_id (rc_agent_id r))
        ''wire v2: receipt verifier_id and optional agent_id must be v2 key IDs'' (
      reject (\<not> valid_prefixed_digest (rc_bundle_hash r) \<or> length (rc_previous_receipt_hash r) \<noteq> 48)
        ''wire v2: receipt bundle hash or previous receipt hash is invalid'' (
      reject (\<not> sorted_unique_ids (rc_issuer_ids r))
        ''wire v2: receipt arrays must be present and canonical'' (
      reject (reason \<noteq> ''not_delegated'' \<and> reason \<noteq> ''evaluation_interrupted'' \<and> rc_issuer_ids r = [])
        ''wire v2: a receipt for a delegated decision must identify its certificate issuers'' (
      reject (reason = ''evaluation_interrupted'' \<and> rc_issuer_ids r = []
          \<and> (rc_trust_assessment r \<noteq> ''not_evaluated'' \<or> sa \<noteq> ''not_evaluated'' \<or> ca \<noteq> ''not_evaluated''
            \<or> rc_status_evidence r \<noteq> []))
        ''wire v2: interrupted empty-chain receipt cannot claim completed trust, status, or context checks'' (
      bind_ok (map_err (with_context ''wire v2'') (required_scope_v2 (rc_required_scope r))) (\<lambda>_.
      reject (rc_sequence r = 1 \<and> \<not> zero \<or> rc_sequence r > 1 \<and> zero)
        ''wire v2: previous_receipt_hash is inconsistent with receipt sequence'' (
      reject (\<not> sorted_granted P (rc_granted_scope r))
        ''wire v2: granted_scope must be sorted, unique canonical scopes'' (
      reject (\<not> sorted_evidence (rc_status_evidence r) (rc_issuer_ids r) (rc_verifier_id r) (rc_agent_id r))
        ''wire v2: status evidence is invalid, duplicated, or not canonically sorted'' (
      reject (sa \<in> set [''current'', ''revoked'', ''stale''] \<and> rc_status_evidence r = [])
        ''wire v2: evaluated status requires authenticated evidence'' (
      reject (case rc_context_policy_digest r of Some d \<Rightarrow> \<not> valid_prefixed_digest d | None \<Rightarrow> False)
        ''wire v2: context_policy_digest is invalid'' (
      reject (\<not> valid_constraint_evaluator_refs_v2 (rc_constraint_evaluators r)
          \<or> rc_constraint_evaluators r \<noteq> [] \<and> rc_issuer_ids r = [])
        ''wire v2: constraint_evaluators must be valid extension types with sha384 profile digests, sorted and unique by type, and only for a delegated chain'' (
      reject (ca \<in> set [''not_evaluated'', ''unbound''] \<and> rc_context_policy_digest r \<noteq> None
          \<or> ca \<in> set [''bound'', ''not_required'', ''mismatch''] \<and> rc_context_policy_digest r = None)
        ''wire v2: context_policy_digest does not match context_assessment'' (
      reject (sa = ''not_evaluated'' \<and> rc_status_evidence r \<noteq> [])
        ''wire v2: status evidence cannot be present when status was not evaluated'' (
      reject (sa \<in> set [''current'', ''stale'']
          \<and> \<not> has_accepted_status_history_per_issuer (rc_status_evidence r) (rc_issuer_ids r))
        ''wire v2: current or stale status requires one accepted full-list base and contiguous pushes for every issuer'' (
      reject (rc_challenge_assessment r \<noteq> ''current'')
        ''wire v2: terminal receipt challenge_assessment must be current'' (
      bind_ok (validate_decision r) (\<lambda>_.
      reject (with_signature \<and> \<not> signature_lengths_ok (rc_signature r)) SIGNATURE_LENGTHS (
      Ok ()))))))))))))))))))))"

section \<open>Decoding\<close>

definition evidence_entry_from :: "prims \<Rightarrow> jnode \<Rightarrow> status_evidence_entry_v2 v2_result" where
  "evidence_entry_from P n =
     (if is_null n
      then Ok \<lparr>ev_issuer_id = '''', ev_status_key_id = '''', ev_sequence = 0, ev_object_type = 0, ev_digest = ''''\<rparr>
      else bind_ok (obj n) (\<lambda>e.
        bind_ok (obj_only P e [''digest'', ''issuer_id'', ''object_type_code'', ''sequence'', ''status_key_id'']) (\<lambda>_.
        bind_ok (obj_str e ''issuer_id'') (\<lambda>issuer_id.
        bind_ok (obj_str e ''status_key_id'') (\<lambda>status_key_id.
        bind_ok (obj_i64 e ''sequence'') (\<lambda>seq.
        bind_ok (obj_u16 e ''object_type_code'') (\<lambda>object_type.
        bind_ok (obj_str e ''digest'') (\<lambda>digest.
          Ok \<lparr>ev_issuer_id = issuer_id, ev_status_key_id = status_key_id, ev_sequence = seq,
              ev_object_type = object_type, ev_digest = digest\<rparr>))))))))"

definition evidence_from :: "prims \<Rightarrow> jobj \<Rightarrow> status_evidence_entry_v2 list v2_result" where
  "evidence_from P ob =
     bind_ok (obj_array ob ''status_evidence_digests'') (collect_results (evidence_entry_from P))"

definition evaluator_from :: "prims \<Rightarrow> jnode \<Rightarrow> constraint_evaluator_ref_v2 v2_result" where
  "evaluator_from P n =
     bind_ok (obj n) (\<lambda>e.
     bind_ok (obj_only P e [''profile_digest'', ''type'']) (\<lambda>_.
     bind_ok (obj_str e ''type'') (\<lambda>kind.
     bind_ok (obj_str e ''profile_digest'') (\<lambda>profile_digest.
       Ok \<lparr>ce_kind = kind, ce_profile_digest = profile_digest\<rparr>))))"

definition evaluators_from :: "prims \<Rightarrow> jobj \<Rightarrow> constraint_evaluator_ref_v2 list v2_result" where
  "evaluators_from P ob =
     bind_ok (obj_array ob ''constraint_evaluators'') (collect_results (evaluator_from P))"

definition receipt_from :: "v2_prims \<Rightarrow> jobj \<Rightarrow> verification_receipt_v2 v2_result" where
  "receipt_from V ob =
     bind_ok (obj_i64 ob ''version'') (\<lambda>version.
     bind_ok (obj_str ob ''log_id'') (\<lambda>log_id.
     bind_ok (obj_i64 ob ''sequence'') (\<lambda>seq.
     bind_ok (obj_str ob ''verifier_id'') (\<lambda>verifier_id.
     bind_ok (obj_str ob ''agent_id'') (\<lambda>agent_id.
     bind_ok (obj_str ob ''human_id'') (\<lambda>human_id.
     bind_ok (obj_str ob ''bundle_hash'') (\<lambda>bundle_hash.
     bind_ok (obj_str_array ob ''issuer_ids'') (\<lambda>issuer_ids.
     bind_ok (obj_str ob ''decision'') (\<lambda>decision.
     bind_ok (obj_str ob ''decision_reason'') (\<lambda>decision_reason.
     bind_ok (obj_str ob ''identity_status'') (\<lambda>identity_status.
     bind_ok (obj_str ob ''trust_assessment'') (\<lambda>trust_assessment.
     bind_ok (obj_str ob ''status_assessment'') (\<lambda>status_assessment.
     bind_ok (obj_str ob ''challenge_assessment'') (\<lambda>challenge_assessment.
     bind_ok (evaluators_from (v_base V) ob) (\<lambda>constraint_evaluators.
     bind_ok (obj_str ob ''context_assessment'') (\<lambda>context_assessment.
     bind_ok (obj_opt_str ob ''context_policy_digest'') (\<lambda>context_policy_digest.
     bind_ok (obj_i64 ob ''verified_at'') (\<lambda>verified_at.
     bind_ok (obj_str ob ''required_scope'') (\<lambda>required_scope.
     bind_ok (obj_str_array ob ''granted_scope'') (\<lambda>granted_scope.
     bind_ok (evidence_from (v_base V) ob) (\<lambda>status_evidence.
     bind_ok (obj_bytes V ob ''previous_receipt_hash'') (\<lambda>previous_receipt_hash.
     bind_ok (obj_sig V ob ''signature'') (\<lambda>signature.
       Ok \<lparr>rc_version = version, rc_log_id = log_id, rc_sequence = seq, rc_verifier_id = verifier_id,
           rc_agent_id = agent_id, rc_human_id = human_id, rc_bundle_hash = bundle_hash,
           rc_issuer_ids = issuer_ids, rc_decision = decision, rc_decision_reason = decision_reason,
           rc_identity_status = identity_status, rc_trust_assessment = trust_assessment,
           rc_status_assessment = status_assessment, rc_challenge_assessment = challenge_assessment,
           rc_constraint_evaluators = constraint_evaluators, rc_context_assessment = context_assessment,
           rc_context_policy_digest = context_policy_digest, rc_verified_at = verified_at,
           rc_required_scope = required_scope, rc_granted_scope = granted_scope,
           rc_status_evidence = status_evidence, rc_previous_receipt_hash = previous_receipt_hash,
           rc_signature = signature\<rparr>)))))))))))))))))))))))"

definition with_optional :: "string list \<Rightarrow> string list" where
  "with_optional names = names @ [''agent_id'', ''human_id'', ''constraint_evaluators'']"

definition verification_receipt_v2_signable_bytes :: "v2_prims \<Rightarrow> verification_receipt_v2 \<Rightarrow> bytes v2_result" where
  "verification_receipt_v2_signable_bytes V r = canonical (v_base V) (receipt_cj r Signable)"

definition validate_receipt_signable_body :: "v2_prims \<Rightarrow> bytes \<Rightarrow> unit v2_result" where
  "validate_receipt_signable_body V data =
     bind_ok (parse_wire V data [''previous_receipt_hash''] [''bundle_hash'']) (\<lambda>doc.
     bind_ok (obj doc) (\<lambda>ob.
     bind_ok (obj_require (v_base V) ob (butlast RECEIPT_FIELDS) [''context_policy_digest'']) (\<lambda>_.
     reject (obj_get ob ''signature'' \<noteq> None) ''signable body must exclude signature'' (
     bind_ok (obj_only (v_base V) ob (with_optional (butlast RECEIPT_FIELDS))) (\<lambda>_.
     bind_ok (receipt_from V ob) (\<lambda>r.
     bind_ok (validate_receipt (v_base V) r False) (\<lambda>_.
     bind_ok (canonical (v_base V) (receipt_cj r Signable)) (\<lambda>c.
     reject (c \<noteq> data) ''signable body must use RatifyCanonicalJSON'' (Ok ())))))))))"

text \<open>The digest under code 0x0008.\<close>

definition receipt_statement_digest :: "v2_prims \<Rightarrow> bytes \<Rightarrow> bytes v2_result" where
  "receipt_statement_digest V body =
     statement_digest V [''previous_receipt_hash''] [''bundle_hash''] (validate_receipt_signable_body V)
       VerificationReceipt body"

definition verification_receipt_v2_digest :: "v2_prims \<Rightarrow> verification_receipt_v2 \<Rightarrow> bytes v2_result" where
  "verification_receipt_v2_digest V r =
     bind_ok (validate_receipt (v_base V) r False) (\<lambda>_.
     bind_ok (canonical (v_base V) (receipt_cj r Signable)) (receipt_statement_digest V))"

definition check_receipt_size :: "bytes \<Rightarrow> unit v2_result" where
  "check_receipt_size data = check_v2_wire_size data ''verification receipt''
     ''MAX_VERIFICATION_RECEIPT_BYTES_V2'' MAX_VERIFICATION_RECEIPT_BYTES_V2"

definition encode_verification_receipt_v2 :: "v2_prims \<Rightarrow> verification_receipt_v2 \<Rightarrow> bytes v2_result" where
  "encode_verification_receipt_v2 V r =
     bind_ok (validate_receipt (v_base V) r True) (\<lambda>_.
     bind_ok (canonical (v_base V) (receipt_cj r Wire)) (\<lambda>data.
     bind_ok (check_receipt_size data) (\<lambda>_. Ok data)))"

definition decode_verification_receipt_v2 :: "v2_prims \<Rightarrow> bytes \<Rightarrow> verification_receipt_v2 v2_result" where
  "decode_verification_receipt_v2 V data = classify_result Malformed (
     bind_ok (check_receipt_size data) (\<lambda>_.
     bind_ok (parse_wire V data [''previous_receipt_hash''] [''bundle_hash'']) (\<lambda>doc.
     bind_ok (obj doc) (\<lambda>ob.
     bind_ok (obj_require (v_base V) ob RECEIPT_FIELDS [''context_policy_digest'']) (\<lambda>_.
     bind_ok (obj_only (v_base V) ob (with_optional RECEIPT_FIELDS)) (\<lambda>_.
     bind_ok (receipt_from V ob) (\<lambda>r.
     bind_ok (validate_receipt (v_base V) r True) (\<lambda>_.
     if encode_verification_receipt_v2 V r = Ok data then Ok r
     else plain ''wire v2: verification receipt is not canonical Ratify JSON''))))))))"

section \<open>Prepared bodies\<close>

definition empty_signature :: hybrid_signature where
  "empty_signature = \<lparr>sig_ed25519 = [], sig_ml_dsa_65 = []\<rparr>"

definition PROBE_LOG_ID :: string where "PROBE_LOG_ID = ''0123456789abcdef0123456789abcdef''"

definition first_candidate :: "verification_receipt_v2 \<Rightarrow> verification_receipt_v2" where
  "first_candidate r = r\<lparr>rc_log_id := PROBE_LOG_ID, rc_sequence := 1,
     rc_previous_receipt_hash := replicate 48 0, rc_signature := empty_signature\<rparr>"

definition widest_candidate :: "verification_receipt_v2 \<Rightarrow> verification_receipt_v2" where
  "widest_candidate r = (first_candidate r)\<lparr>rc_sequence := MAX_SAFE,
     rc_previous_receipt_hash := (replicate 48 0)[0 := 1], rc_signature := placeholder_signature\<rparr>"

definition verification_receipt_v2_body :: "v2_prims \<Rightarrow> verification_receipt_v2 \<Rightarrow> bytes v2_result" where
  "verification_receipt_v2_body V r =
     bind_ok (validate_receipt (v_base V) (first_candidate r) False) (\<lambda>_.
     bind_ok (encode_verification_receipt_v2 V (widest_candidate r)) (\<lambda>_.
     canonical (v_base V) (receipt_cj r Body)))"

definition decode_verification_receipt_body_v2 :: "v2_prims \<Rightarrow> bytes \<Rightarrow> verification_receipt_v2 v2_result" where
  "decode_verification_receipt_body_v2 V data = classify_result Malformed (
     bind_ok (check_v2_wire_size data ''verification receipt body''
       ''MAX_VERIFICATION_RECEIPT_BODY_BYTES_V2'' MAX_VERIFICATION_RECEIPT_BODY_BYTES_V2) (\<lambda>_.
     bind_ok (parse_wire V data [] [''bundle_hash'']) (\<lambda>doc.
     bind_ok (obj doc) (\<lambda>ob.
     bind_ok (obj_require (v_base V) ob BODY_REQUIRED [''context_policy_digest'']) (\<lambda>_.
     bind_ok (obj_only (v_base V) ob (with_optional BODY_REQUIRED)) (\<lambda>_.
     bind_ok (receipt_from V ob) (\<lambda>r0.
     let r = r0\<lparr>rc_signature := empty_signature\<rparr> in
     bind_ok (map_err (with_context ''wire v2: verification receipt body is invalid or noncanonical'')
       (verification_receipt_v2_body V r)) (\<lambda>body.
     reject (body \<noteq> data) ''wire v2: verification receipt body is noncanonical'' (Ok r)))))))))"

definition validate_receipt_head :: "receipt_v2_head \<Rightarrow> unit v2_result" where
  "validate_receipt_head head =
     reject_as (\<not> valid_v2_id (rh_verifier_id head)) ConfigurationInvalid ''caller receipt head is invalid'' (
     validate_head (rh_log_id head) (rh_sequence head) (rh_head_hash head) (rh_accepted head))"

definition bind_verification_receipt_body_v2 ::
  "v2_prims \<Rightarrow> bytes \<Rightarrow> receipt_v2_head \<Rightarrow> verification_receipt_v2 v2_result" where
  "bind_verification_receipt_body_v2 V data head =
     bind_ok (validate_receipt_head head) (\<lambda>_.
     reject (rh_frozen head \<or> rh_sequence head = MAX_SAFE)
       ''wire v2: receipt log cannot accept another entry'' (
     bind_ok (decode_verification_receipt_body_v2 V data) (\<lambda>r0.
     reject (rc_verifier_id r0 \<noteq> rh_verifier_id head)
       ''wire v2: prepared receipt verifier differs from authenticated log'' (
     let r = r0\<lparr>rc_log_id := rh_log_id head, rc_sequence := i64_add (rh_sequence head) 1,
           rc_previous_receipt_hash := rh_head_hash head\<rparr> in
     bind_ok (validate_receipt (v_base V) r False) (\<lambda>_. Ok r)))))"

section \<open>Signing and verification\<close>

definition sign_verification_receipt_v2_with_signer ::
  "v2_prims \<Rightarrow> v2_context \<Rightarrow> verification_receipt_v2 \<Rightarrow> signer_v2 \<Rightarrow> verification_receipt_v2 v2_sign_result" where
  "sign_verification_receipt_v2_with_signer V ctx r signer =
     bind_ok (map_err InvalidObject (classify_result Malformed (validate_receipt (v_base V) r False))) (\<lambda>_.
     bind_ok (signer_public_key_v2 V signer) (\<lambda>pk.
     if key_id_v2 V pk \<noteq> Ok (rc_verifier_id r)
     then Err (KeyBinding ''receipt verifier_id does not match signing key'')
     else bind_ok (map_err InvalidObject (classify_result Malformed
         (verification_receipt_v2_signable_bytes V r))) (\<lambda>body.
     bind_ok (sign_v2_statement_with_signer V ctx VerificationReceipt body signer pk) (\<lambda>sg.
     bind_ok (map_err InvalidObject (classify_result Malformed
       (encode_verification_receipt_v2 V (r\<lparr>rc_signature := sg\<rparr>)))) (\<lambda>_.
       Ok (r\<lparr>rc_signature := sg\<rparr>))))))"

definition sign_verification_receipt_v2 ::
  "v2_prims \<Rightarrow> bytes \<Rightarrow> verification_receipt_v2 \<Rightarrow> hybrid_private_key \<Rightarrow> verification_receipt_v2 v2_sign_result" where
  "sign_verification_receipt_v2 V rnd r sk =
     bind_ok (local_signer V rnd sk) (\<lambda>signer. sign_verification_receipt_v2_with_signer V background r signer)"

definition sign_prepared_verification_receipt_v2_with_signer ::
  "v2_prims \<Rightarrow> v2_context \<Rightarrow> bytes \<Rightarrow> receipt_v2_head \<Rightarrow> signer_v2 \<Rightarrow> verification_receipt_v2 v2_sign_result" where
  "sign_prepared_verification_receipt_v2_with_signer V ctx data head signer =
     bind_ok (map_err InvalidObject (bind_verification_receipt_body_v2 V data head)) (\<lambda>bound.
     bind_ok (sign_verification_receipt_v2_with_signer V ctx bound signer) (\<lambda>signed.
     if verification_receipt_v2_body V signed = Ok data then Ok signed
     else Err (InvalidObject (v2_new Malformed ''wire v2: signed receipt differs from prepared body''))))"

definition sign_prepared_verification_receipt_v2 ::
  "v2_prims \<Rightarrow> bytes \<Rightarrow> bytes \<Rightarrow> receipt_v2_head \<Rightarrow> hybrid_private_key
    \<Rightarrow> verification_receipt_v2 v2_sign_result" where
  "sign_prepared_verification_receipt_v2 V rnd data head sk =
     bind_ok (local_signer V rnd sk) (\<lambda>signer.
       sign_prepared_verification_receipt_v2_with_signer V background data head signer)"

definition verify_verification_receipt_v2 ::
  "v2_prims \<Rightarrow> verification_receipt_v2 \<Rightarrow> hybrid_public_key \<Rightarrow> receipt_v2_head
    \<Rightarrow> witness_entry_v2_result v2_result" where
  "verify_verification_receipt_v2 V r verifier_key head =
     bind_ok (classify_result Malformed (validate_receipt (v_base V) r True)) (\<lambda>_.
     bind_ok (classify_result Malformed (encode_verification_receipt_v2 V r)) (\<lambda>_.
     bind_ok (validate_receipt_head head) (\<lambda>_.
     reject_as (rc_log_id r \<noteq> rh_log_id head \<or> rc_verifier_id r \<noteq> rh_verifier_id head) LogStateMismatch
       ''receipt log ID or verifier identity does not match caller-authenticated state'' (
     bind_ok (key_id_v2 V verifier_key) (\<lambda>kid.
     reject_as (rc_verifier_id r \<noteq> kid) LogStateMismatch
       ''receipt verifier_id does not match caller-authenticated key'' (
     bind_ok (verification_receipt_v2_signable_bytes V r) (\<lambda>body.
     bind_ok (verify_v2_statement V VerificationReceipt body (rc_signature r) verifier_key) (\<lambda>_.
     bind_ok (verification_receipt_v2_digest V r) (\<lambda>digest.
     log_position (rc_sequence r) (rc_previous_receipt_hash r) digest (rh_sequence head)
       (rh_head_hash head) (rh_accepted head) (rh_frozen head) (rh_log_id head))))))))))"

end
