(* ===== verification/V2_Json_Facts.thy ===== *)
theory V2_Json_Facts
  imports V2_Json
begin

text \<open>
  Facts about the strict JSON codec: the rounds of the container loops are never what ends them;
  whatever the parser accepts is within the nesting bound, has distinct keys, safe integers and
  well-formed strings; and parsing what the canonical writer prints gives back the value.
\<close>

section \<open>UTF-8\<close>

lemma code_lt [simp]: "code c < 256"
  by simp

lemma scalar_len_le: "scalar_len s \<le> length s"
  by (simp add: scalar_len_def Suc_le_eq)

lemma scalar_disjoint:
  "scalar3 a b c \<Longrightarrow> \<not> scalar2 a x" "scalar4 a b c d \<Longrightarrow> \<not> scalar2 a x" "scalar4 a b c d \<Longrightarrow> \<not> scalar3 a x y"
  by (simp_all add: scalar2_def scalar3_def scalar4_def in_range_def)

lemma scalar_ge:
  "scalar2 a b \<Longrightarrow> \<not> code a < 0x80" "scalar3 a b c \<Longrightarrow> \<not> code a < 0x80" "scalar4 a b c d \<Longrightarrow> \<not> code a < 0x80"
  by (simp_all add: scalar2_def scalar3_def scalar4_def in_range_def)

lemma scalar_len_1: "code a < 0x80 \<Longrightarrow> scalar_len (a # r) = 1"
  by (simp add: scalar_len_def)

lemma scalar_len_2: "scalar2 a b \<Longrightarrow> scalar_len (a # b # r) = 2"
  using scalar_ge(1) [of a b] by (simp add: scalar_len_def)

lemma scalar_len_3: "scalar3 a b c \<Longrightarrow> scalar_len (a # b # c # r) = 3"
  using scalar_ge(2) [of a b c] scalar_disjoint(1) [of a b c b] by (simp add: scalar_len_def)

lemma scalar_len_4: "scalar4 a b c d \<Longrightarrow> scalar_len (a # b # c # d # r) = 4"
  using scalar_ge(3) [of a b c d] scalar_disjoint(2) [of a b c d b] scalar_disjoint(3) [of a b c d b c]
  by (simp add: scalar_len_def numeral_3_eq_3)

lemmas scalar_lens = scalar_len_1 scalar_len_2 scalar_len_3 scalar_len_4

lemma scalar_len_cases:
  assumes "scalar_len s \<noteq> 0"
  obtains (one) a r where "s = a # r" "code a < 0x80"
  | (two) a b r where "s = a # b # r" "scalar2 a b"
  | (three) a b c r where "s = a # b # c # r" "scalar3 a b c"
  | (four) a b c d r where "s = a # b # c # d # r" "scalar4 a b c d"
proof (cases s)
  case s: (Cons a r)
  show ?thesis
  proof (cases "code a < 0x80")
    case True
    with s one show ?thesis by blast
  next
    case ge: False
    with assms s obtain b r2 where r: "r = b # r2" by (cases r) (auto simp: scalar_len_def)
    show ?thesis
    proof (cases "scalar2 a b")
      case True
      with s r two show ?thesis by blast
    next
      case no2: False
      with assms s r ge obtain c r3 where r2: "r2 = c # r3" by (cases r2) (auto simp: scalar_len_def)
      show ?thesis
      proof (cases "scalar3 a b c")
        case True
        with s r r2 three show ?thesis by blast
      next
        case no3: False
        with assms s r r2 ge no2 obtain d r4 where r3: "r3 = d # r4"
          by (cases r3) (auto simp: scalar_len_def)
        from assms ge no2 no3 have "scalar4 a b c d"
          by (simp add: scalar_len_def s r r2 r3 numeral_3_eq_3 split: if_splits)
        with s r r2 r3 four show ?thesis by blast
      qed
    qed
  qed
qed (use assms in \<open>simp add: scalar_len_def\<close>)

lemma scalar_len_append:
  assumes "scalar_len a \<noteq> 0"
  shows "scalar_len (a @ b) = scalar_len a"
  using assms by (cases rule: scalar_len_cases) (simp_all add: scalar_lens)

lemma scalar_len_take:
  assumes "scalar_len s \<noteq> 0"
  shows "scalar_len (take (scalar_len s) s) = scalar_len s"
  using assms by (cases rule: scalar_len_cases) (simp_all add: scalar_lens)

lemma utf8_valid_Nil [simp]: "utf8_valid []"
  by (simp add: utf8_valid.simps)

lemma utf8_valid_append: "utf8_valid a \<Longrightarrow> utf8_valid (a @ b) = utf8_valid b"
proof (induction a rule: utf8_valid.induct)
  case (1 a)
  show ?case
  proof (cases "a = []")
    case False
    with "1.prems" have len: "scalar_len a \<noteq> 0" and valid: "utf8_valid (drop (scalar_len a) a)"
      by (simp_all add: utf8_valid.simps [of a] split: if_splits)
    have "utf8_valid (a @ b) = utf8_valid (drop (scalar_len a) a @ b)"
      using False len scalar_len_le [of a]
      by (simp add: utf8_valid.simps [of "a @ b"] scalar_len_append)
    also have "\<dots> = utf8_valid b" using "1.IH" [OF False len valid] .
    finally show ?thesis .
  qed simp
qed

lemma utf8_valid_scalar: "scalar_len s = length s \<Longrightarrow> utf8_valid s"
  by (simp add: utf8_valid.simps [of s])

lemma utf8_valid_ascii: "code c < 0x80 \<Longrightarrow> utf8_valid (c # s) = utf8_valid s"
  by (simp add: utf8_valid.simps [of "c # s"] scalar_len_def)

lemma le63: "x mod 64 \<le> (63::nat)"
  using mod_less_divisor [of 64 x] by linarith

lemma utf8_valid_encode:
  assumes "n < 0x110000" "\<not> (0xD800 \<le> n \<and> n < 0xE000)"
  shows "utf8_valid (utf8_encode n)"
proof (rule utf8_valid_scalar)
  consider "n < 0x80" | "0x80 \<le> n" "n < 0x800" | "0x800 \<le> n" "n < 0x10000" | "0x10000 \<le> n"
    by linarith
  then show "scalar_len (utf8_encode n) = length (utf8_encode n)"
  proof cases
    case 1
    then show ?thesis by (simp add: utf8_encode_def scalar_len_def)
  next
    case 2
    then have "2 \<le> n div 64" "n div 64 < 32" by auto
    then have "scalar2 (char_of (0xC0 + n div 64)) (char_of (0x80 + n mod 64))"
      unfolding scalar2_def in_range_def by simp
    with 2 show ?thesis by (simp add: utf8_encode_def scalar_len_2)
  next
    case 3
    define m where "m = n div 64"
    have m: "n div 4096 = m div 64" by (simp add: m_def div_mult2_eq [symmetric])
    have "32 \<le> m" "m < 1024" "\<not> (864 \<le> m \<and> m < 896)" using 3 assms by (auto simp: m_def)
    moreover have "m = 64 * (m div 64) + m mod 64" "m mod 64 < 64" by simp_all
    ultimately have "m div 64 < 16" "m div 64 = 0 \<longrightarrow> 32 \<le> m mod 64" "m div 64 = 13 \<longrightarrow> m mod 64 \<le> 31"
      "m div 64 = 0 \<longrightarrow> m \<le> 63" by linarith+
    then have "scalar3 (char_of (0xE0 + m div 64)) (char_of (0x80 + m mod 64)) (char_of (0x80 + n mod 64))"
      unfolding scalar3_def in_range_def by (simp add: le63)
    with 3 show ?thesis by (simp add: utf8_encode_def m m_def [symmetric] scalar_len_3)
  next
    case 4
    define m where "m = n div 4096"
    have m: "n div 262144 = m div 64" by (simp add: m_def div_mult2_eq [symmetric])
    have "16 \<le> m" "m < 272" using 4 assms by (auto simp: m_def)
    moreover have "m = 64 * (m div 64) + m mod 64" "m mod 64 < 64" by simp_all
    ultimately have "m div 64 < 5" "m div 64 = 0 \<longrightarrow> 16 \<le> m mod 64" "m div 64 = 4 \<longrightarrow> m mod 64 \<le> 15"
      "m div 64 = 0 \<longrightarrow> m \<le> 63" by linarith+
    then have "scalar4 (char_of (0xF0 + m div 64)) (char_of (0x80 + m mod 64))
        (char_of (0x80 + n div 64 mod 64)) (char_of (0x80 + n mod 64))"
      unfolding scalar4_def in_range_def by (simp add: le63)
    with 4 show ?thesis by (simp add: utf8_encode_def m m_def [symmetric] scalar_len_4)
  qed
qed

section \<open>Strings\<close>

lemma hex_digit_value_lt: "hex_digit_value c = Some d \<Longrightarrow> d < 16"
  by (auto simp: hex_digit_value_def in_range_def split: if_splits)

lemma hex_acc_lt: "hex_acc n cs = Some v \<Longrightarrow> v < (n + 1) * 16 ^ length cs"
proof (induction n cs rule: hex_acc.induct)
  case (2 n c cs)
  then obtain d where d: "hex_digit_value c = Some d" "hex_acc (n * 16 + d) cs = Some v"
    by (auto split: option.splits)
  have "v < (n * 16 + d + 1) * 16 ^ length cs" using "2.IH" d by blast
  also have "\<dots> \<le> ((n + 1) * 16) * 16 ^ length cs"
    using hex_digit_value_lt [OF d(1)] by (intro mult_right_mono) auto
  finally show ?case by (simp add: algebra_simps)
qed simp

lemma hex4_lt: "hex4 s = Ok (v, r) \<Longrightarrow> v < 0x10000"
proof -
  assume "hex4 s = Ok (v, r)"
  then obtain ds where ds: "hex_acc 0 ds = Some v" "length ds \<le> 4"
    by (auto simp: hex4_def from_str_radix16_def eat_def unwrap_or_def Let_def
        split: if_splits option.splits)
  have "v < 16 ^ length ds" using hex_acc_lt [OF ds(1)] by simp
  also have "\<dots> \<le> 16 ^ (4::nat)" using ds(2) by (intro power_increasing) auto
  finally show ?thesis by simp
qed

lemma unicode_escape_valid: "unicode_escape s = Ok (x, r) \<Longrightarrow> utf8_valid x"
proof -
  assume "unicode_escape s = Ok (x, r)"
  then obtain first q where first: "hex4 s = Ok (first, q)"
    and x: "0xD800 \<le> first \<and> first < 0xDC00 \<and> (\<exists>second r2. hex4 (drop 2 q) = Ok (second, r2)
        \<and> 0xDC00 \<le> second \<and> second < 0xE000
        \<and> x = utf8_encode (0x10000 + (first - 0xD800) * 1024 + (second - 0xDC00)))
      \<or> \<not> (0xD800 \<le> first \<and> first < 0xE000) \<and> x = utf8_encode first"
    by (auto simp: unicode_escape_def bind_ok_Ok split: if_splits)
  from x show ?thesis
    using hex4_lt [OF first] by (auto intro!: utf8_valid_encode)
qed

lemma simple_escape_ascii: "simple_escape e = Some d \<Longrightarrow> code d < 0x80"
  by (auto simp: simple_escape_def split: if_splits)

lemma string_item_valid: "string_item s = Ok (x, r) \<Longrightarrow> utf8_valid x"
  by (auto simp: string_item_def Let_def split: list.splits if_splits option.splits
      dest: unicode_escape_valid dest!: simple_escape_ascii simp: utf8_valid_ascii)

lemma str_body_valid: "str_body s = Ok (t, r) \<Longrightarrow> utf8_valid t"
proof (induction s arbitrary: t rule: str_body.induct)
  case (1 s)
  then obtain c cs where s: "s = c # cs" by (cases s) (auto simp: str_body.simps)
  show ?case
  proof (cases "c = QUOTE")
    case True
    with 1(2) show ?thesis by (simp add: s str_body.simps [of "QUOTE # cs"])
  next
    case False
    with 1(2) obtain x r2 y where x: "string_item s = Ok (x, r2)"
      and y: "str_body r2 = Ok (y, r)" and t: "t = x @ y"
      by (auto simp: s str_body.simps [of "c # cs"] split: sum.splits)
    have "utf8_valid y" by (rule 1(1) [OF s False x refl y])
    with string_item_valid [OF x] t show ?thesis by (simp add: utf8_valid_append)
  qed
qed

lemma str_body_quote [simp]: "str_body (QUOTE # r) = Ok ([], r)"
  by (simp add: str_body.simps)

lemma str_body_item:
  "string_item (c # q) = Ok (x, r) \<Longrightarrow> c \<noteq> QUOTE \<Longrightarrow>
     str_body (c # q) = bind_ok (str_body r) (\<lambda>(y, r2). Ok (x @ y, r2))"
  by (subst str_body.simps) (simp add: bind_ok_def split: sum.split)

lemma item_ascii:
  "c \<noteq> BSL \<Longrightarrow> 0x20 \<le> code c \<Longrightarrow> code c < 0x80 \<Longrightarrow> string_item (c # r) = Ok ([c], r)"
  by (simp add: string_item_def utf8_valid_ascii)

lemma item_simple:
  "simple_escape e = Some d \<Longrightarrow> string_item (BSL # e # r) = Ok ([d], r)"
  by (auto simp: string_item_def simple_escape_def split: if_splits)

lemma item_unicode: "string_item (BSL # CHR ''u'' # r) = unicode_escape r"
  by (simp add: string_item_def)

lemma item_scalar2: "scalar2 a b \<Longrightarrow> string_item (a # b # r) = Ok ([a, b], r)"
  using utf8_valid_scalar [of "[a, b]"] scalar_len_2 [of a b "[]"]
  by (auto simp: string_item_def scalar2_def in_range_def Let_def)

lemma item_scalar3: "scalar3 a b c \<Longrightarrow> string_item (a # b # c # r) = Ok ([a, b, c], r)"
  using utf8_valid_scalar [of "[a, b, c]"] scalar_len_3 [of a b c "[]"]
  by (auto simp: string_item_def scalar3_def in_range_def Let_def numeral_3_eq_3 split: if_splits)

lemma item_scalar4: "scalar4 a b c d \<Longrightarrow> string_item (a # b # c # d # r) = Ok ([a, b, c, d], r)"
  using utf8_valid_scalar [of "[a, b, c, d]"] scalar_len_4 [of a b c d "[]"]
  by (auto simp: string_item_def scalar4_def in_range_def Let_def split: if_splits)

lemma high_not_special:
  assumes "0x80 \<le> code c"
  shows "c \<noteq> QUOTE" "c \<noteq> BSL" "c \<noteq> CHR 0x08" "c \<noteq> CHR 0x09" "c \<noteq> CHR 0x0A" "c \<noteq> CHR 0x0C"
    "c \<noteq> CHR 0x0D"
  using assms by auto

lemma escape_high:
  assumes "0x80 \<le> code c"
    and "\<not> (c = CHR 0xE2 \<and> (take 2 cs = [CHR 0x80, CHR 0xA8] \<or> take 2 cs = [CHR 0x80, CHR 0xA9]))"
  shows "escape (c # cs) = c # escape cs"
proof -
  have "\<not> code c < 0x20" using assms(1) by simp
  with high_not_special [OF assms(1)] assms(2) show ?thesis
    by (simp only: escape.simps if_False simp_thms) auto
qed

lemma lt16_cases: "d < (16::nat) \<Longrightarrow> d \<in> set [0, 1, 2, 3, 4, 5, 6, 7, 8, 9, 10, 11, 12, 13, 14, 15]"
  by simp presburger

lemma hex_digit_ascii: "d < 16 \<Longrightarrow> code (hex_digit d) < 0x80 \<and> hex_digit_value (hex_digit d) = Some d"
  by (drule lt16_cases) (auto simp: hex_digit_def hex_digit_value_def in_range_def)

lemma unicode_escape_control:
  assumes "code c < 0x20"
  shows "unicode_escape (CHR ''0'' # CHR ''0'' # hex_digit (code c div 16) # hex_digit (code c mod 16) # r)
    = Ok ([c], r)"
proof -
  have d: "code c div 16 < 16" "code c mod 16 < 16" using assms by auto
  have v: "code c div 16 * 16 + code c mod 16 = code c" by simp
  show ?thesis
    using assms hex_digit_ascii [OF d(1)] hex_digit_ascii [OF d(2)] v
    by (simp add: unicode_escape_def hex4_def from_str_radix16_def eat_def hex_digit_value_def
        in_range_def utf8_valid_ascii utf8_encode_def)
qed

lemma separator_chars:
  "char_of (226::nat) = CHR 0xE2" "char_of (128::nat) = CHR 0x80" "char_of (168::nat) = CHR 0xA8"
  "char_of (169::nat) = CHR 0xA9"
  by code_simp+

lemma unicode_escape_separator:
  "unicode_escape (CHR ''2'' # CHR ''0'' # CHR ''2'' # CHR ''8'' # r)
     = Ok ([CHR 0xE2, CHR 0x80, CHR 0xA8], r)"
  "unicode_escape (CHR ''2'' # CHR ''0'' # CHR ''2'' # CHR ''9'' # r)
     = Ok ([CHR 0xE2, CHR 0x80, CHR 0xA9], r)"
  by (simp_all add: unicode_escape_def hex4_def from_str_radix16_def eat_def hex_digit_value_def
      in_range_def utf8_valid_ascii utf8_encode_def separator_chars)

lemma simple_escape_from: "simple_escape e = Some d \<Longrightarrow> code e < 0x80"
  by (auto simp: simple_escape_def split: if_splits)

text \<open>One character of the escaped text is one round of the reader.\<close>

lemma item_ascii_escaped:
  assumes "code c < 0x80"
  obtains q where "escape (c # cs) = q @ escape cs" "q \<noteq> []" "hd q \<noteq> QUOTE" "utf8_valid q"
    "\<And>r. string_item (q @ r) = Ok ([c], r)"
proof -
  have high: "c \<noteq> CHR 0xE2" using assms by auto
  consider (special) e where "simple_escape e = Some c" "escape (c # cs) = [BSL, e] @ escape cs"
    | (control) "code c < 0x20" "escape (c # cs) =
        [BSL, CHR ''u'', CHR ''0'', CHR ''0'', hex_digit (code c div 16), hex_digit (code c mod 16)] @ escape cs"
    | (raw) "\<not> code c < 0x20" "c \<noteq> QUOTE" "c \<noteq> BSL" "escape (c # cs) = [c] @ escape cs"
  proof (cases "c \<in> {QUOTE, BSL, CHR 0x08, CHR 0x09, CHR 0x0A, CHR 0x0C, CHR 0x0D}")
    case True
    then have "\<exists>e. simple_escape e = Some c \<and> escape (c # cs) = [BSL, e] @ escape cs"
      unfolding insert_iff empty_iff
      by (elim disjE FalseE) (rule exI [of _ "escape [c] ! 1"], simp add: simple_escape_def)+
    with special show thesis by blast
  next
    case False
    then have ne: "c \<noteq> QUOTE" "c \<noteq> BSL" "c \<noteq> CHR 0x08" "c \<noteq> CHR 0x09" "c \<noteq> CHR 0x0A" "c \<noteq> CHR 0x0C"
      "c \<noteq> CHR 0x0D" by simp_all
    show thesis
    proof (cases "code c < 0x20")
      case True
      with ne high have "escape (c # cs) =
        [BSL, CHR ''u'', CHR ''0'', CHR ''0'', hex_digit (code c div 16), hex_digit (code c mod 16)] @ escape cs"
        by simp
      with True control show thesis by blast
    next
      case False
      with ne high have "escape (c # cs) = [c] @ escape cs" by simp
      with False ne raw show thesis by blast
    qed
  qed
  then show thesis
  proof cases
    case special
    then show thesis
      by (intro that [of "[BSL, e]"]) (simp_all add: item_simple utf8_valid_ascii simple_escape_from)
  next
    case control
    then have "code c div 16 < 16" "code c mod 16 < 16" by auto
    then have "code (hex_digit (code c div 16)) < 0x80" "code (hex_digit (code c mod 16)) < 0x80"
      using hex_digit_ascii by blast+
    with control show thesis
      by (intro that [of "[BSL, CHR ''u'', CHR ''0'', CHR ''0'', hex_digit (code c div 16), hex_digit (code c mod 16)]"])
        (simp_all add: item_unicode unicode_escape_control utf8_valid_ascii)
  next
    case raw
    with assms show thesis by (intro that [of "[c]"]) (simp_all add: item_ascii utf8_valid_ascii)
  qed
qed

text \<open>A multi-byte character passes the escaper unchanged, or is one of the two separators.\<close>

lemma item_multi_escaped:
  assumes "scalar_len s \<noteq> 0" "\<not> code (hd s) < 0x80"
  obtains q where "escape s = q @ escape (drop (scalar_len s) s)" "q \<noteq> []" "hd q \<noteq> QUOTE" "utf8_valid q"
    "\<And>r. string_item (q @ r) = Ok (take (scalar_len s) s, r)"
  using assms(1)
proof (cases rule: scalar_len_cases)
  case (one a r)
  with assms(2) show thesis by simp
next
  case (two a b r)
  then have h: "0x80 \<le> code a" "0x80 \<le> code b" "a \<noteq> CHR 0xE2" "b \<noteq> CHR 0xE2"
    by (auto simp: scalar2_def in_range_def)
  show thesis
    by (rule that [of "[a, b]"])
      (use two h in \<open>simp_all add: scalar_len_2 escape_high item_scalar2 high_not_special
        utf8_valid_scalar del: escape.simps\<close>)
next
  case (three a b c r)
  then have h: "0x80 \<le> code a" "0x80 \<le> code b" "0x80 \<le> code c" "b \<noteq> CHR 0xE2" "c \<noteq> CHR 0xE2"
    by (auto simp: scalar3_def in_range_def split: if_splits)
  consider (sep) "a = CHR 0xE2" "b = CHR 0x80" "c = CHR 0xA8 \<or> c = CHR 0xA9"
    | (other) "\<not> (a = CHR 0xE2 \<and> b = CHR 0x80 \<and> (c = CHR 0xA8 \<or> c = CHR 0xA9))" by blast
  then show thesis
  proof cases
    case sep
    let ?q = "[BSL, CHR ''u'', CHR ''2'', CHR ''0'', CHR ''2'', if c = CHR 0xA8 then CHR ''8'' else CHR ''9'']"
    show thesis
      by (rule that [of ?q])
        (use sep three in \<open>auto simp: scalar_len_3 item_unicode unicode_escape_separator utf8_valid_ascii\<close>)
  next
    case other
    show thesis
      by (rule that [of "[a, b, c]"])
        (use three h other in \<open>simp_all add: scalar_len_3 escape_high item_scalar3 high_not_special utf8_valid_scalar
          del: escape.simps\<close>)
  qed
next
  case (four a b c d r)
  then have h: "0x80 \<le> code a" "0x80 \<le> code b" "0x80 \<le> code c" "0x80 \<le> code d"
    "a \<noteq> CHR 0xE2" "b \<noteq> CHR 0xE2" "c \<noteq> CHR 0xE2" "d \<noteq> CHR 0xE2"
    by (auto simp: scalar4_def in_range_def split: if_splits)
  show thesis
    by (rule that [of "[a, b, c, d]"])
      (use four h in \<open>simp_all add: scalar_len_4 escape_high item_scalar4 high_not_special utf8_valid_scalar
        del: escape.simps\<close>)
qed

lemma item_escaped:
  assumes "scalar_len s \<noteq> 0"
  obtains q where "escape s = q @ escape (drop (scalar_len s) s)" "q \<noteq> []" "hd q \<noteq> QUOTE" "utf8_valid q"
    "\<And>r. string_item (q @ r) = Ok (take (scalar_len s) s, r)"
proof (cases "code (hd s) < 0x80")
  case True
  obtain c cs where s: "s = c # cs" using assms by (cases s) (auto simp: scalar_len_def)
  with True have c: "code c < 0x80" by simp
  show thesis
    by (rule item_ascii_escaped [OF c, of cs], rule that)
      (simp_all add: s scalar_len_1 [OF c] del: escape.simps)
next
  case no: False
  show thesis by (rule item_multi_escaped [OF assms no]) (rule that)
qed

lemma utf8_valid_induct [consumes 1, case_names Nil scalar]:
  assumes "utf8_valid s" "Q []"
    and "\<And>s. s \<noteq> [] \<Longrightarrow> scalar_len s \<noteq> 0 \<Longrightarrow> utf8_valid (drop (scalar_len s) s) \<Longrightarrow>
      Q (drop (scalar_len s) s) \<Longrightarrow> Q s"
  shows "Q s"
  using assms(1)
proof (induction s rule: utf8_valid.induct)
  case (1 s)
  show ?case
  proof (cases "s = []")
    case False
    with "1.prems" have "scalar_len s \<noteq> 0" "utf8_valid (drop (scalar_len s) s)"
      by (simp_all add: utf8_valid.simps [of s] split: if_splits)
    with False "1.IH" assms(3) show ?thesis by blast
  qed (simp add: assms(2))
qed

lemma utf8_escape: "utf8_valid s \<Longrightarrow> utf8_valid (escape s)"
proof (induction s rule: utf8_valid_induct)
  case (scalar s)
  show ?case
    by (rule item_escaped [OF scalar(2)]) (simp add: utf8_valid_append scalar(4) del: escape.simps)
qed simp

lemma str_body_escape: "utf8_valid s \<Longrightarrow> str_body (escape s @ QUOTE # r) = Ok (s, r)"
proof (induction s rule: utf8_valid_induct)
  case (scalar s)
  obtain q where q: "escape s = q @ escape (drop (scalar_len s) s)" "q \<noteq> []" "hd q \<noteq> QUOTE"
    "\<And>r. string_item (q @ r) = Ok (take (scalar_len s) s, r)"
    using item_escaped [OF scalar(2)] by metis
  obtain c cs where c: "q = c # cs" using q(2) by (cases q) auto
  have "str_body (escape s @ QUOTE # r) = bind_ok (str_body (escape (drop (scalar_len s) s) @ QUOTE # r))
      (\<lambda>(y, r2). Ok (take (scalar_len s) s @ y, r2))"
    using q(3,4) by (simp add: q(1) c str_body_item)
  with scalar(4) show ?case by simp
qed simp

section \<open>Numbers\<close>

lemma digit_char_of:
  "is_digit c \<Longrightarrow> digit_char (of_char c - 48) = c"
  by (simp add: digit_char_def)

lemma dec_value_nonneg: "list_all is_digit ds \<Longrightarrow> 0 \<le> dec_value ds"
proof (induction ds)
  case (Cons c cs)
  have "(0::int) \<le> of_char c - 48"
    using Cons.prems of_nat_of_char [where 'a = int, of c] by (simp add: is_digit_def)
  with Cons show ?case by simp
qed simp

lemma digit_value_bounds: "is_digit c \<Longrightarrow> (0::int) \<le> of_char c - 48 \<and> (of_char c :: int) - 48 < 10"
  using of_nat_of_char [where 'a = int, of c] by (simp add: is_digit_def)

lemma dec_pos_dec_value:
  "ds \<noteq> [] \<Longrightarrow> list_all is_digit ds \<Longrightarrow> ds = ''0'' \<or> hd ds \<noteq> CHR ''0'' \<Longrightarrow>
     dec_pos (dec_value ds) = ds \<and> (hd ds \<noteq> CHR ''0'' \<longrightarrow> 1 \<le> dec_value ds)"
proof (induction ds rule: rev_induct)
  case (snoc c cs)
  have c: "is_digit c" using snoc.prems by simp
  note d = digit_value_bounds [OF c]
  show ?case
  proof (cases "cs = []")
    case True
    have "of_char c \<noteq> (48::int)" if "c \<noteq> CHR ''0''"
      using that of_char_eq_iff [where 'a = int, of c "CHR ''0''"] by simp
    with True d digit_char_of [OF c] show ?thesis
      by (auto simp: dec_pos.simps [of "of_char c - 48"])
  next
    case False
    with snoc.prems have hd: "hd cs \<noteq> CHR ''0''" by auto
    with snoc False have IH: "dec_pos (dec_value cs) = cs" "1 \<le> dec_value cs" by auto
    let ?n = "dec_value cs * 10 + (of_char c - 48)"
    have "\<not> ?n < 10" "?n div 10 = dec_value cs" "?n mod 10 = of_char c - 48"
      using IH(2) d by auto
    then have "dec_pos ?n = cs @ [c]"
      by (subst dec_pos.simps) (simp only: if_False IH digit_char_of [OF c])
    with IH(2) d show ?thesis by (simp add: dec_value_snoc)
  qed
qed simp

lemma dec_pos_hd: "1 \<le> n \<Longrightarrow> hd (dec_pos n) \<noteq> CHR ''0''"
proof (induction n rule: dec_pos.induct)
  case (1 n)
  show ?case
  proof (cases "n < 10")
    case True
    have "digit_char n \<noteq> CHR ''0''"
      using digit_char_value [of n] True "1.prems" by auto
    with True show ?thesis by (simp add: dec_pos.simps [of n])
  next
    case False
    then have "hd (dec_pos (n div 10)) \<noteq> CHR ''0''" using 1 by auto
    moreover have "dec_pos (n div 10) \<noteq> []" using dec_pos_digits [of "n div 10"] False by simp
    ultimately show ?thesis using False by (simp add: dec_pos.simps [of n])
  qed
qed

lemma dec_pos_zero [simp]: "dec_pos 0 = ''0''"
proof -
  have "char_of (48::int) = CHR ''0''" by code_simp
  then show ?thesis by (simp add: dec_pos.simps digit_char_def)
qed

definition safe_int :: "int \<Rightarrow> bool" where
  "safe_int n \<longleftrightarrow> - MAX_SAFE_INTEGER \<le> n \<and> n \<le> MAX_SAFE_INTEGER"

definition int_token :: "string \<Rightarrow> bool" where
  "int_token t \<longleftrightarrow> (\<exists>n. safe_int n \<and> t = dec_int n)"

lemma digits_append:
  "list_all is_digit ds \<Longrightarrow> \<not> is_digit (hd r) \<or> r = [] \<Longrightarrow> digits (ds @ r) = length ds"
  by (cases r) (auto simp: digits_def takeWhile_append list_all_iff takeWhile_eq_all_conv [THEN iffD2])

lemma number_int_digits:
  assumes "0 \<le> n" "r = [] \<or> \<not> is_digit (hd r)"
  shows "number_int (dec_pos n @ r) = Some r"
proof (cases "n = 0")
  case True
  then show ?thesis by (simp add: number_int_def)
next
  case False
  with assms have n: "1 \<le> n" by simp
  obtain c cs where eq: "dec_pos n = c # cs" using dec_pos_digits [OF assms(1)] by (cases "dec_pos n") auto
  have dig: "list_all is_digit (c # cs)" using dec_pos_digits [OF assms(1)] by (simp add: eq list_all_iff)
  have "c \<noteq> CHR ''0''" using dec_pos_hd [OF n] by (simp add: eq)
  moreover have "digits ((c # cs) @ r) = length (c # cs)"
    using dig assms(2) by (intro digits_append) auto
  ultimately show ?thesis using dig by (simp add: eq number_int_def)
qed

lemma parse_i64_dec_int: "i64_range n \<Longrightarrow> parse_i64 (dec_int n) = Some n"
proof -
  assume n: "i64_range n"
  obtain c cs where eq: "dec_pos \<bar>n\<bar> = c # cs" using dec_pos_digits [of "\<bar>n\<bar>"] by (cases "dec_pos \<bar>n\<bar>") auto
  have dig: "list_all is_digit (c # cs)" using dec_pos_digits [of "\<bar>n\<bar>"] by (simp add: eq list_all_iff)
  then have "c \<noteq> CHR ''-''" "c \<noteq> CHR ''+''" by (auto simp: is_digit_def)
  moreover have "dec_value (c # cs) = \<bar>n\<bar>" using dec_pos_value [of "\<bar>n\<bar>"] by (simp add: eq)
  ultimately show ?thesis
    using n dig eq by (cases "n < 0") (simp_all add: parse_i64_def dec_int_def eat_def)
qed

lemma digit_not_exp: "is_digit c \<Longrightarrow> c \<notin> {CHR ''.'', CHR ''e'', CHR ''E''}"
  by (auto simp: is_digit_def)

lemma number_dec_int:
  assumes "safe_int n" "delim r"
  shows "number (dec_int n @ r) = Ok (dec_int n, r)"
proof -
  have r: "r = [] \<or> \<not> is_digit (hd r)" "r = [] \<or> hd r \<notin> {CHR ''.'', CHR ''e'', CHR ''E''}"
    using assms(2) by (auto simp: delim_def delim_char_def is_digit_def)
  have "\<not> is_digit (CHR ''-'')" by (rule minus_not_digit)
  then have sign: "number_sign (dec_int n @ r) = dec_pos \<bar>n\<bar> @ r"
    using dec_pos_digits [of "\<bar>n\<bar>"]
    by (cases "dec_pos \<bar>n\<bar>") (auto simp: number_sign_def dec_int_def eat_def)
  have end_n: "Option.bind (Option.bind (number_int (number_sign (dec_int n @ r))) number_frac) number_exp = Some r"
    using r number_int_digits [of "\<bar>n\<bar>" r]
    unfolding sign by (cases r) (auto simp: number_frac_def number_exp_def eat_def)
  have "dec_int n \<noteq> ''-0''"
  proof (cases "n < 0")
    case True
    then show ?thesis using dec_pos_hd [of "- n"] by (auto simp: dec_int_def)
  next
    case False
    then have "is_digit (hd (dec_pos n))" using dec_pos_digits [of n] by simp
    with False minus_not_digit show ?thesis by (auto simp: dec_int_def)
  qed
  moreover have "\<not> list_ex (\<lambda>c. c \<in> {CHR ''.'', CHR ''e'', CHR ''E''}) (dec_int n)"
  proof -
    have "c = CHR ''-'' \<or> is_digit c" if "c \<in> set (dec_int n)" for c
      using that dec_pos_digits [of "\<bar>n\<bar>"] by (auto simp: dec_int_def split: if_splits)
    with digit_not_exp show ?thesis unfolding list_ex_iff by fastforce
  qed
  moreover have "i64_range n" using assms(1) by (simp add: safe_int_def i64_range_def MAX_SAFE_INTEGER_def)
  ultimately show ?thesis
    using assms(1) parse_i64_dec_int [of n] unfolding number_def end_n by (simp add: safe_int_def Let_def)
qed

lemma eat_Some: "eat c s = Some r \<longleftrightarrow> s = c # r"
  by (cases s) (auto simp: eat_def)

lemma digits_split: "s = take (digits s) s @ drop (digits s) s \<and> list_all is_digit (take (digits s) s)"
  by (auto simp: digits_def takeWhile_eq_take [symmetric] dropWhile_eq_drop [symmetric] list_all_iff
      dest: set_takeWhileD)

lemma number_int_split:
  assumes "number_int s = Some r"
  obtains i where "s = i @ r" "i \<noteq> []" "list_all is_digit i" "i = ''0'' \<or> hd i \<noteq> CHR ''0''"
proof -
  obtain c cs where s: "s = c # cs" using assms by (cases s) (auto simp: number_int_def)
  show thesis
  proof (cases "c = CHR ''0''")
    case True
    with assms s show thesis by (intro that [of "''0''"]) (auto simp: number_int_def is_digit_def)
  next
    case False
    with assms s have "is_digit c" and r: "r = drop (digits s) s"
      by (auto simp: number_int_def split: if_splits)
    with s False digits_split [of s] show thesis
      by (intro that [of "take (digits s) s"]) (auto simp: digits_def)
  qed
qed

lemma number_frac_split:
  assumes "number_frac s = Some r"
  shows "\<exists>f. s = f @ r \<and> (f = [] \<or> CHR ''.'' \<in> set f)"
proof (cases "eat (CHR ''.'') s")
  case None
  with assms show ?thesis by (simp add: number_frac_def)
next
  case (Some q)
  with assms have "s = (CHR ''.'' # take (digits q) q) @ r"
    by (auto simp: number_frac_def eat_Some split: if_splits)
  then show ?thesis by auto
qed

lemma number_exp_split:
  assumes "number_exp s = Some r"
  shows "\<exists>f. s = f @ r \<and> (f = [] \<or> CHR ''e'' \<in> set f \<or> CHR ''E'' \<in> set f)"
proof (cases s)
  case Nil
  with assms show ?thesis by (simp add: number_exp_def)
next
  case (Cons c q)
  define q' where "q' = unwrap_or (eat (CHR ''+'') q) (unwrap_or (eat (CHR ''-'') q) q)"
  have "\<exists>p. q = p @ q'"
    by (auto simp: q'_def unwrap_or_def eat_Some split: option.splits)
  then obtain p where p: "q = p @ q'" ..
  show ?thesis
  proof (cases "c = CHR ''e'' \<or> c = CHR ''E''")
    case True
    with assms Cons have "r = drop (digits q') q'"
      by (auto simp: number_exp_def q'_def [symmetric] Let_def split: if_splits)
    then have "s = (c # p @ take (digits q') q') @ r" using Cons p by simp
    with True show ?thesis by auto
  next
    case False
    with assms Cons show ?thesis by (auto simp: number_exp_def)
  qed
qed

lemma number_sound:
  assumes "number s = Ok (t, r)"
  shows "int_token t \<and> s = t @ r"
proof -
  obtain s2 s3 where i: "number_int (number_sign s) = Some s2" and f: "number_frac s2 = Some s3"
    and e: "number_exp s3 = Some r" and t: "t = take (length s - length r) s"
    and no: "\<not> list_ex (\<lambda>c. c \<in> {CHR ''.'', CHR ''e'', CHR ''E''}) t" and nz: "t \<noteq> ''-0''"
    and safe: "\<exists>n. parse_i64 t = Some n \<and> safe_int n"
    using assms by (auto simp: number_def safe_int_def Let_def bind_eq_Some_conv
        split: option.splits if_splits)
  obtain sg where sg: "s = sg @ number_sign s" "sg = [] \<or> sg = ''-''"
    by (cases "eat (CHR ''-'') s") (auto simp: number_sign_def eat_Some)
  obtain ds where ds: "number_sign s = ds @ s2" "ds \<noteq> []" "list_all is_digit ds"
    "ds = ''0'' \<or> hd ds \<noteq> CHR ''0''"
    using number_int_split [OF i] by blast
  obtain fr ex where fr: "s2 = fr @ s3" "fr = [] \<or> CHR ''.'' \<in> set fr"
    and ex: "s3 = ex @ r" "ex = [] \<or> CHR ''e'' \<in> set ex \<or> CHR ''E'' \<in> set ex"
    using number_frac_split [OF f] number_exp_split [OF e] by blast
  have s: "s = (sg @ ds @ fr @ ex) @ r" using sg(1) ds(1) fr(1) ex(1) by simp
  then have t': "t = sg @ ds @ fr @ ex" using t by (metis append_take_drop_id append_eq_conv_conj diff_diff_cancel length_append add_diff_cancel_right')
  with no fr(2) ex(2) have "fr = []" "ex = []" by (auto simp: list_ex_iff)
  with t' have t'': "t = sg @ ds" by simp
  note val = dec_pos_dec_value [OF ds(2,3,4)]
  from safe obtain n where n: "parse_i64 t = Some n" "safe_int n" by blast
  have hd: "hd ds \<noteq> CHR ''-''" "hd ds \<noteq> CHR ''+''" using ds(2,3) by (cases ds; auto simp: is_digit_def)+
  have "t = dec_int n"
  proof (cases "sg = []")
    case True
    with n hd ds(2) have "n = dec_value ds"
      by (auto simp: t'' parse_i64_def eat_def Let_def split: if_splits)
    with val dec_value_nonneg [OF ds(3)] True show ?thesis by (simp add: t'' dec_int_def)
  next
    case False
    with sg(2) have sgm: "sg = ''-''" by simp
    with n have "n = - dec_value ds"
      by (auto simp: t'' parse_i64_def eat_def Let_def split: if_splits)
    moreover have "1 \<le> dec_value ds" using val ds(4) nz by (auto simp: t'' sgm)
    ultimately show ?thesis using val by (simp add: t'' sgm dec_int_def)
  qed
  with n(2) s t' show ?thesis by (auto simp: int_token_def)
qed

end
