(* ===== verification/V2_Json_Codec.thy ===== *)
theory V2_Json_Codec
  imports V2_Json_Facts
begin

text \<open>
  Parsing and printing whole documents.  A parsed node without its spans is a tree of
  \<open>V1_Canonical_Unique\<close> (\<open>erase\<close>); \<open>tree_ok\<close> are the trees the parser can return within a nesting
  bound.  The parser returns only such trees and reads every printed one back, so re-encoding is
  idempotent and the canonical bytes identify the value up to the order of members.
\<close>

section \<open>Trees of nodes\<close>

fun erase :: "jnode \<Rightarrow> jv" where
  "erase (Node v a b) =
     (case v of
        VNull \<Rightarrow> JTok ''null''
      | VBool x \<Rightarrow> JTok (encode_bool x)
      | VNum t \<Rightarrow> JTok t
      | VStr s \<Rightarrow> JStr s
      | VArr vs \<Rightarrow> JArr (map erase vs)
      | VObj ms \<Rightarrow> JObj (map (\<lambda>(k, v). (k, erase v)) ms))"

definition literal_token :: "string \<Rightarrow> bool" where
  "literal_token t \<longleftrightarrow> t = ''null'' \<or> t = ''true'' \<or> t = ''false''"

fun tree_ok :: "nat \<Rightarrow> jv \<Rightarrow> bool" where
  "tree_ok k (JTok t) \<longleftrightarrow> literal_token t \<or> int_token t"
| "tree_ok k (JStr s) \<longleftrightarrow> utf8_valid s"
| "tree_ok k (JArr vs) \<longleftrightarrow> k \<noteq> 0 \<and> list_all (tree_ok (k - 1)) vs"
| "tree_ok k (JObj ms) \<longleftrightarrow> k \<noteq> 0 \<and> distinct (map fst ms)
     \<and> list_all (\<lambda>m. utf8_valid (fst m) \<and> tree_ok (k - 1) (snd m)) ms"

text \<open>The members of every object in the order of their keys.\<close>

fun canon :: "jv \<Rightarrow> jv" where
  "canon (JTok t) = JTok t"
| "canon (JStr s) = JStr s"
| "canon (JArr vs) = JArr (map canon vs)"
| "canon (JObj ms) = JObj (sort_key fst (map (\<lambda>(k, v). (k, canon v)) ms))"

section \<open>Consumption\<close>

lemma ws_le: "length (ws s) \<le> length s"
  by (simp add: ws_def length_dropWhile_le)

lemma str_body_rest: "str_body s = Ok (t, r) \<Longrightarrow> length r < length s"
proof (induction s arbitrary: t rule: str_body.induct)
  case (1 s)
  then obtain c cs where s: "s = c # cs" by (cases s) (auto simp: str_body.simps)
  show ?case
  proof (cases "c = QUOTE")
    case False
    with 1(2) obtain x r2 y where x: "string_item s = Ok (x, r2)" and y: "str_body r2 = Ok (y, r)"
      by (auto simp: s str_body.simps [of "c # cs"] split: sum.splits)
    from 1(1) [OF s False x refl y] string_item_rest [OF x] show ?thesis by simp
  qed (use 1(2) in \<open>simp add: s\<close>)
qed

lemma parse_string_rest: "parse_string s = Ok (t, r) \<Longrightarrow> s \<noteq> [] \<Longrightarrow> length r < length s"
  by (cases s) (auto simp: parse_string_def dest: str_body_rest)

definition consumes :: "(string \<Rightarrow> 'a parsed) \<Rightarrow> bool" where
  "consumes f \<longleftrightarrow> (\<forall>s x r. f s = Ok (x, r) \<longrightarrow> length r < length s)"

lemma consumesD: "consumes f \<Longrightarrow> f s = Ok (x, r) \<Longrightarrow> length r < length s"
  by (simp add: consumes_def)

lemma sep_loop_Suc_Ok:
  "sep_loop (Suc n) elem close msg acc s = Ok (xs, r) \<longleftrightarrow>
     (\<exists>x q c q'. elem acc s = Ok (x, q) \<and> ws q = c # q'
        \<and> (if c = CHR '','' then sep_loop n elem close msg (acc @ [x]) q' = Ok (xs, r)
           else c = close \<and> xs = acc @ [x] \<and> r = q'))"
proof (cases "elem acc s")
  case (Inr p)
  then show ?thesis by (cases p; cases "ws (snd p)") auto
qed simp

lemma sep_loop_rest:
  assumes "\<And>acc. consumes (elem acc)"
  shows "sep_loop n elem close msg acc s = Ok (xs, r) \<Longrightarrow> length r < length s"
proof (induction n arbitrary: acc s)
  case (Suc n)
  then obtain x q c q' where x: "elem acc s = Ok (x, q)" and q: "ws q = c # q'"
    and r: "if c = CHR '','' then sep_loop n elem close msg (acc @ [x]) q' = Ok (xs, r) else r = q'"
    unfolding sep_loop_Suc_Ok by metis
  have "length q' < length s" using ws_le [of q] consumesD [OF assms x] by (simp add: q)
  moreover have "length r \<le> length q'" using r Suc.IH by (fastforce split: if_splits)
  ultimately show ?case by simp
qed simp

text \<open>A larger number of rounds never changes the result of a loop.\<close>

lemma sep_loop_rounds:
  assumes "\<And>acc. consumes (elem acc)"
  shows "length s < n \<Longrightarrow> length s < m \<Longrightarrow>
    sep_loop n elem close msg acc s = sep_loop m elem close msg acc s"
proof (induction n arbitrary: m acc s)
  case (Suc n)
  then obtain m' where m: "m = Suc m'" by (cases m) auto
  show ?case
  proof (cases "elem acc s")
    case (Inl e)
    then show ?thesis by (simp add: m)
  next
    case (Inr p)
    obtain x q where p: "p = (x, q)" by (cases p)
    have less: "length q < length s" using consumesD [OF assms] Inr p by simp
    have "sep_loop n elem close msg (acc @ [x]) q' = sep_loop m' elem close msg (acc @ [x]) q'"
      if "ws q = CHR '','' # q'" for q'
    proof (rule Suc.IH)
      have "length q' < length q" using ws_le [of q] that by simp
      with less Suc.prems m show "length q' < n" "length q' < m'" by simp_all
    qed
    with Inr p show ?thesis by (simp add: m split: list.split)
  qed
qed simp

lemma member_cases:
  assumes "member P val acc s = Ok (x, r)"
  obtains key q q2 v where "ws s \<noteq> []" "parse_string (ws s) = Ok (key, q)" "key \<notin> fst ` set acc"
    "ws q = CHR '':'' # q2" "val q2 = Ok (v, r)" "x = (key, v)"
proof -
  have quote: "eat QUOTE (ws s) \<noteq> None" using assms by (simp add: member_def split: if_splits)
  then obtain key q where key: "parse_string (ws s) = Ok (key, q)" "key \<notin> fst ` set acc"
    using assms by (auto simp: member_def bind_ok_Ok split: if_splits)
  with assms quote obtain q2 where q2: "eat (CHR '':'') (ws q) = Some q2"
    by (cases "eat (CHR '':'') (ws q)") (simp_all add: member_def)
  with assms quote key obtain v where "val q2 = Ok (v, r)" "x = (key, v)"
    by (auto simp: member_def bind_ok_Ok)
  moreover have "ws s \<noteq> []" using quote by (simp add: eat_def split: if_splits)
  ultimately show thesis using that key q2 by (simp add: eat_Some)
qed

lemma consumes_member:
  assumes "consumes val"
  shows "consumes (member P val acc)"
  unfolding consumes_def
proof (intro allI impI)
  fix s x r assume "member P val acc s = Ok (x, r)"
  then show "length r < length s"
  proof (cases rule: member_cases)
    case (1 key q q2 v)
    with parse_string_rest [of "ws s" key q] ws_le [of s] ws_le [of q] consumesD [OF assms 1(5)]
    show ?thesis by simp
  qed
qed

lemma consumes_container:
  assumes "\<And>acc. consumes (elem acc)"
  shows "consumes (container elem close msg)"
  unfolding consumes_def
proof (intro allI impI)
  fix s xs r assume *: "container elem close msg s = Ok (xs, r)"
  have "length r < length (ws s)"
  proof (cases "ws s = close # r \<and> xs = []")
    case True
    then show ?thesis by simp
  next
    case False
    with * have "sep_loop (Suc (length s)) elem close msg [] (ws s) = Ok (xs, r)"
      by (auto simp: container_def simp del: sep_loop.simps split: list.splits if_splits)
    then show ?thesis by (rule sep_loop_rest [OF assms])
  qed
  with ws_le [of s] show "length r < length s" by simp
qed

lemma int_token_not_Nil [simp]: "\<not> int_token []"
proof
  assume "int_token []"
  then obtain n where "[] = dec_int n" by (auto simp: int_token_def)
  then show False using dec_pos_digits [of n] by (simp add: dec_int_def split: if_splits)
qed

lemma consumes_tokens: "consumes number" "t \<noteq> [] \<Longrightarrow> consumes (literal t v)"
  by (auto simp: consumes_def literal_def prefix_def split: if_splits dest!: number_sound)

lemma value_here_cases:
  assumes "value_here P inner c s = Ok (v, r)"
  obtains (object) val ms where "inner = Some val" "v = VObj ms"
      "container (member P val) (CHR ''}'') (expected_sep ''}'') (tl s) = Ok (ms, r)"
  | (arr) val vs where "inner = Some val" "v = VArr vs"
      "container (\<lambda>_. val) (CHR '']'') (expected_sep '']'') (tl s) = Ok (vs, r)"
  | (str) t where "parse_string s = Ok (t, r)" "v = VStr t"
  | (lit) t where "(t, v) \<in> {(''true'', VBool True), (''false'', VBool False), (''null'', VNull)}"
      "literal t v s = Ok (v, r)"
  | (num) t where "number s = Ok (t, r)" "v = VNum t"
proof -
  have same: "w = v" if "literal t w s = Ok (v, r)" for t w
    using that by (simp add: literal_def split: if_splits)
  consider "c = CHR ''{''" | "c = CHR ''[''" | "c = QUOTE" | "c = CHR ''t''" | "c = CHR ''f''" | "c = CHR ''n''"
    | "c = CHR ''-'' \<or> is_digit c" "c \<notin> {CHR ''{'', CHR ''['', QUOTE, CHR ''t'', CHR ''f'', CHR ''n''}"
    using assms by (auto simp: value_here_def split: if_splits)
  then show thesis
  proof cases
    case 1
    with assms show thesis
      by (auto simp: value_here_def bind_ok_Ok split: option.splits intro: object)
  next
    case 2
    with assms show thesis
      by (auto simp: value_here_def bind_ok_Ok split: option.splits intro: arr)
  next
    case 3
    with assms show thesis by (auto simp: value_here_def bind_ok_Ok intro: str)
  next
    case 4
    with assms have "literal ''true'' (VBool True) s = Ok (v, r)" by (simp add: value_here_def)
    with same [OF this] show thesis by (intro lit [of "''true''"]) simp_all
  next
    case 5
    with assms have "literal ''false'' (VBool False) s = Ok (v, r)" by (simp add: value_here_def)
    with same [OF this] show thesis by (intro lit [of "''false''"]) simp_all
  next
    case 6
    with assms have "literal ''null'' VNull s = Ok (v, r)" by (simp add: value_here_def)
    with same [OF this] show thesis by (intro lit [of "''null''"]) simp_all
  next
    case 7
    then have "value_here P inner c s = bind_ok (number s) (\<lambda>(t, r). Ok (VNum t, r))"
      by (simp add: value_here_def)
    with assms show thesis by (auto simp: bind_ok_Ok intro: num)
  qed
qed

lemma consumes_value_step:
  assumes "\<And>val. inner = Some val \<Longrightarrow> consumes val"
  shows "consumes (value_step P n inner)"
  unfolding consumes_def
proof (intro allI impI)
  fix s x r assume "value_step P n inner s = Ok (x, r)"
  then obtain c cs v where s: "ws s = c # cs" and v: "value_here P inner c (c # cs) = Ok (v, r)"
    by (auto simp: value_step_def bind_ok_Ok split: list.splits)
  from v have "length r < length (c # cs)"
  proof (cases rule: value_here_cases)
    case (object val ms)
    with consumesD [OF consumes_container [OF consumes_member, OF assms [OF object(1)]] object(3)]
    show ?thesis by simp
  next
    case (arr val vs)
    with consumesD [OF consumes_container [OF assms [OF arr(1)]] arr(3)] show ?thesis by simp
  next
    case (str t)
    with parse_string_rest [of "c # cs"] show ?thesis by simp
  next
    case (lit t)
    then show ?thesis by (intro consumesD [OF consumes_tokens(2) lit(2)]) auto
  next
    case (num t)
    with consumesD [OF consumes_tokens(1)] show ?thesis by blast
  qed
  with ws_le [of s] s show "length r < length s" by simp
qed

lemma consumes_json_value: "consumes (json_value P n k)"
  by (induction k) (auto intro: consumes_value_step)

section \<open>What the parser accepts\<close>

lemma sep_loop_invariant:
  assumes "\<And>acc s x r. I acc \<Longrightarrow> elem acc s = Ok (x, r) \<Longrightarrow> I (acc @ [x])"
  shows "I acc \<Longrightarrow> sep_loop n elem close msg acc s = Ok (xs, r) \<Longrightarrow> I xs"
proof (induction n arbitrary: acc s)
  case (Suc n)
  from Suc.prems(2) obtain x q c q' where x: "elem acc s = Ok (x, q)"
    and r: "if c = CHR '','' then sep_loop n elem close msg (acc @ [x]) q' = Ok (xs, r) else xs = acc @ [x]"
    unfolding sep_loop_Suc_Ok by metis
  have "I (acc @ [x])" using assms Suc.prems(1) x by blast
  with r Suc.IH show ?case by (auto split: if_splits)
qed simp

lemma container_invariant:
  assumes "\<And>acc s x r. I acc \<Longrightarrow> elem acc s = Ok (x, r) \<Longrightarrow> I (acc @ [x])" and "I []"
    and "container elem close msg s = Ok (xs, r)"
  shows "I xs"
proof (cases "xs = []")
  case False
  with assms(3) have "sep_loop (Suc (length s)) elem close msg [] (ws s) = Ok (xs, r)"
    by (auto simp: container_def simp del: sep_loop.simps split: list.splits if_splits)
  then show ?thesis
    by (rule sep_loop_invariant [where I = I and elem = elem, rotated 2]) (use assms(1,2) in blast)+
qed (use assms(2) in simp)

lemma parse_string_valid: "parse_string s = Ok (t, r) \<Longrightarrow> utf8_valid t"
  by (auto simp: parse_string_def dest: str_body_valid)

lemma value_step_sound:
  assumes "\<And>val. inner = Some val \<Longrightarrow>
      k \<noteq> 0 \<and> (\<forall>s x r. val s = Ok (x, r) \<longrightarrow> tree_ok (k - 1) (erase x))"
    and "value_step P n inner s = Ok (x, r)"
  shows "tree_ok k (erase x)"
proof -
  from assms(2) obtain c cs v a b where v: "value_here P inner c (c # cs) = Ok (v, r)"
    and x: "x = Node v a b"
    by (auto simp: value_step_def bind_ok_Ok split: list.splits)
  from v show ?thesis
  proof (cases rule: value_here_cases)
    case (object val ms)
    let ?I = "\<lambda>ms. distinct (map fst ms)
      \<and> list_all (\<lambda>m. utf8_valid (fst m) \<and> tree_ok (k - 1) (erase (snd m))) ms"
    have "?I ms"
    proof (rule container_invariant [where I = ?I, OF _ _ object(3)])
      fix acc s m r assume I: "?I acc" and m: "member P val acc s = Ok (m, r)"
      from m show "?I (acc @ [m])"
        by (cases rule: member_cases) (use I assms(1) [OF object(1)] in \<open>auto dest: parse_string_valid\<close>)
    qed simp
    then show ?thesis
      using assms(1) [OF object(1)] by (auto simp: x object(2) list_all_iff comp_def case_prod_beta)
  next
    case (arr val vs)
    let ?I = "\<lambda>vs. list_all (\<lambda>v. tree_ok (k - 1) (erase v)) vs"
    have "?I vs"
      by (rule container_invariant [where I = ?I, OF _ _ arr(3)]) (use assms(1) [OF arr(1)] in auto)
    then show ?thesis using assms(1) [OF arr(1)] by (auto simp: x arr(2) list_all_iff)
  next
    case (str t)
    then show ?thesis by (simp add: x parse_string_valid)
  next
    case (lit t)
    then show ?thesis by (auto simp: x literal_token_def encode_bool_def)
  next
    case (num t)
    then show ?thesis by (simp add: x number_sound)
  qed
qed

lemma json_value_sound: "json_value P n k s = Ok (x, r) \<Longrightarrow> tree_ok k (erase x)"
proof (induction k arbitrary: s x r)
  case 0
  then show ?case using value_step_sound [of None 0] by simp
next
  case (Suc k)
  have "\<forall>s x r. json_value P n k s = Ok (x, r) \<longrightarrow> tree_ok k (erase x)" using Suc.IH by blast
  with Suc.prems show ?case using value_step_sound [of "Some (json_value P n k)" "Suc k"] by simp
qed

lemma parse_json_Ok:
  "parse_json P data = Ok x \<longleftrightarrow> utf8_valid (bytes_str data)
     \<and> (\<exists>r. json_value P (length data) MAX_JSON_NESTING_DEPTH (bytes_str data) = Ok (x, r) \<and> ws r = [])"
proof (cases "json_value P (length data) MAX_JSON_NESTING_DEPTH (bytes_str data)")
  case (Inr p)
  then show ?thesis by (cases p) (simp add: parse_json_def Let_def)
qed (simp add: parse_json_def Let_def)

lemma parse_json_sound: "parse_json P data = Ok x \<Longrightarrow> tree_ok MAX_JSON_NESTING_DEPTH (erase x)"
  unfolding parse_json_Ok using json_value_sound by blast

section \<open>Reading printed text back\<close>

lemma ws_id: "s = [] \<or> \<not> is_ws (hd s) \<Longrightarrow> ws s = s"
  by (cases s) (auto simp: ws_def)

lemma ws_delim: "delim r \<Longrightarrow> ws r = r"
  by (rule ws_id) (auto simp: delim_def delim_char_def is_ws_def)

lemma int_token_hd: "int_token t \<Longrightarrow> t \<noteq> [] \<and> (hd t = CHR ''-'' \<or> is_digit (hd t))"
proof -
  assume "int_token t"
  then obtain n where t: "t = dec_int n" by (auto simp: int_token_def)
  show ?thesis using dec_pos_digits [of n] by (simp add: t dec_int_def)
qed

definition value_start :: "char \<Rightarrow> bool" where
  "value_start c \<longleftrightarrow> c \<in> {CHR ''{'', CHR ''['', QUOTE, CHR ''t'', CHR ''f'', CHR ''n'', CHR ''-''} \<or> is_digit c"

lemma value_start_not: "value_start c \<Longrightarrow> \<not> is_ws c \<and> c \<noteq> CHR '']'' \<and> c \<noteq> CHR ''}''"
  by (auto simp: value_start_def is_ws_def is_digit_def)

lemma jprint_start: "tree_ok k t \<Longrightarrow> jprint t \<noteq> [] \<and> value_start (hd (jprint t))"
  by (cases t) (auto simp: jprint_heads value_start_def literal_token_def simp del: jprint.simps(2-)
      dest: int_token_hd)

text \<open>
  The loop reads a comma-separated printing back, if each element is read back wherever a
  delimiter follows and \<open>good\<close> relates it to the elements before it.
\<close>

fun all_good :: "('b list \<Rightarrow> 'b \<Rightarrow> bool) \<Rightarrow> 'b list \<Rightarrow> 'b list \<Rightarrow> bool" where
  "all_good good before [] = True"
| "all_good good before (t # ts) = (good before t \<and> all_good good (before @ [t]) ts)"

lemma sep_loop_prints:
  assumes elem: "\<And>acc t r. good (map g acc) t \<Longrightarrow> delim r \<Longrightarrow> \<exists>x. elem acc (pr t @ r) = Ok (x, r) \<and> g x = t"
    and close: "closing close"
  shows "all_good good (map g acc) ts \<Longrightarrow> ts \<noteq> [] \<Longrightarrow> length ts \<le> n \<Longrightarrow>
    \<exists>xs. sep_loop n elem close msg acc (join_on COMMA (map pr ts) @ close # r) = Ok (acc @ xs, r)
      \<and> map g xs = ts"
proof (induction ts arbitrary: acc n)
  case (Cons t ts)
  obtain n' where n: "n = Suc n'" using Cons.prems by (cases n) auto
  have cl: "close \<noteq> CHR '',''" "delim_char close" using close by (auto simp: closing_def delim_char_def)
  let ?rest = "(if ts = [] then [] else COMMA # join_on COMMA (map pr ts)) @ close # r"
  have d: "delim ?rest" using cl by (auto simp: delim_def delim_char_def)
  obtain x where x: "elem acc (pr t @ ?rest) = Ok (x, ?rest)" "g x = t"
    using elem [of acc t ?rest] Cons.prems(1) d by auto
  have s: "join_on COMMA (map pr (t # ts)) @ close # r = pr t @ ?rest"
    by (simp add: join_Cons)
  show ?case
  proof (cases "ts = []")
    case True
    with x cl s d show ?thesis by (intro exI [of _ "[x]"]) (simp add: n ws_delim)
  next
    case False
    have "\<exists>xs. sep_loop n' elem close msg (acc @ [x]) (join_on COMMA (map pr ts) @ close # r)
        = Ok ((acc @ [x]) @ xs, r) \<and> map g xs = ts"
      using Cons.prems False x(2) n by (intro Cons.IH) auto
    then obtain xs where xs: "sep_loop n' elem close msg (acc @ [x]) (join_on COMMA (map pr ts) @ close # r)
        = Ok (acc @ [x] @ xs, r)" "map g xs = ts" by auto
    have "ws ?rest = COMMA # (join_on COMMA (map pr ts) @ close # r)"
      using d False by (simp add: ws_delim)
    with x xs s False show ?thesis by (intro exI [of _ "x # xs"]) (simp add: n)
  qed
qed simp

lemma join_rounds: "length ts \<le> Suc (length (join_on COMMA (map pr ts)))"
proof (induction ts)
  case (Cons t ts)
  then show ?case by (cases ts) (simp_all add: join_Cons)
qed simp

lemma container_prints:
  assumes elem: "\<And>acc t r. good (map g acc) t \<Longrightarrow> delim r \<Longrightarrow> \<exists>x. elem acc (pr t @ r) = Ok (x, r) \<and> g x = t"
    and close: "closing close" and good: "all_good good [] ts"
    and start: "\<And>t. t \<in> set ts \<Longrightarrow> pr t \<noteq> [] \<and> value_start (hd (pr t))"
  shows "\<exists>xs. container elem close msg (join_on COMMA (map pr ts) @ close # r) = Ok (xs, r) \<and> map g xs = ts"
proof (cases ts)
  case Nil
  have "ws (close # r) = close # r" using close by (intro ws_id) (auto simp: closing_def is_ws_def)
  with Nil show ?thesis by (simp add: container_def)
next
  case (Cons t ts')
  let ?s = "join_on COMMA (map pr ts) @ close # r"
  from start [of t] Cons obtain c q where pr: "pr t = c # q" "value_start c"
    by (cases "pr t") auto
  then obtain q' where q': "?s = c # q'" using Cons by (auto simp: join_Cons)
  have c: "\<not> is_ws c" "c \<noteq> close" using value_start_not [OF pr(2)] close by (auto simp: closing_def)
  have "\<exists>xs. sep_loop (Suc (length ?s)) elem close msg [] ?s = Ok ([] @ xs, r) \<and> map g xs = ts"
    using good Cons join_rounds [of ts pr] by (intro sep_loop_prints [OF elem close]) auto
  moreover have "container elem close msg ?s = sep_loop (Suc (length ?s)) elem close msg [] ?s"
    using c q' by (simp add: container_def ws_id del: sep_loop.simps)
  ultimately show ?thesis by simp
qed

lemma literal_append: "literal t v (t @ r) = Ok (v, r)"
  by (simp add: literal_def)

lemma value_step_token:
  assumes "literal_token t \<or> int_token t" "delim r"
  shows "\<exists>x. value_step P n inner (t @ r) = Ok (x, r) \<and> erase x = JTok t"
proof -
  have "\<exists>v. value_here P inner (hd (t @ r)) (t @ r) = Ok (v, r) \<and> erase (Node v 0 0) = JTok t"
  proof (cases "int_token t")
    case True
    then obtain m where m: "safe_int m" "t = dec_int m" by (auto simp: int_token_def)
    have "hd t = CHR ''-'' \<or> is_digit (hd t)" "t \<noteq> []" using int_token_hd [OF True] by auto
    then have "value_here P inner (hd (t @ r)) (t @ r) = bind_ok (number (t @ r)) (\<lambda>(t, r). Ok (VNum t, r))"
      by (auto simp: value_here_def is_digit_def)
    with number_dec_int [OF m(1) assms(2)] m(2) show ?thesis by simp
  next
    case False
    with assms have "literal_token t" by simp
    then show ?thesis
      using literal_append [of t _ r]
      by (auto simp: literal_token_def value_here_def encode_bool_def is_digit_def)
  qed
  moreover have "t \<noteq> []" "\<not> is_ws (hd t)"
    using assms(1) jprint_start [of 0 "JTok t"] value_start_not by auto
  ultimately show ?thesis
    by (cases t) (auto simp: value_step_def ws_id bind_ok_Ok)
qed

lemma parse_string_encode: "utf8_valid s \<Longrightarrow> parse_string (encode_string s @ r) = Ok (s, r)"
  by (simp add: parse_string_def encode_string_def str_body_escape)

lemma member_prints:
  assumes "utf8_valid k" "k \<notin> fst ` set acc" "\<exists>x. val (t @ r) = Ok (x, r) \<and> g x = v"
  shows "\<exists>x. member P val acc (encode_string k @ CHR '':'' # t @ r) = Ok ((k, x), r) \<and> g x = v"
proof -
  have "ws (encode_string k @ q) = encode_string k @ q" "eat QUOTE (encode_string k @ q) \<noteq> None" for q
    by (simp_all add: encode_string_def ws_id is_ws_def eat_def)
  moreover have "eat (CHR '':'') (ws (CHR '':'' # q)) = Some q" for q
    by (simp add: ws_id is_ws_def eat_def)
  ultimately show ?thesis
    using assms parse_string_encode [OF assms(1), of "CHR '':'' # t @ r"]
    by (auto simp: member_def simp del: append_Cons)
qed

lemma all_good_members:
  "distinct (map fst (before @ ms)) \<Longrightarrow> set ms \<subseteq> A \<Longrightarrow>
     all_good (\<lambda>before m. m \<in> A \<and> fst m \<notin> fst ` set before) before ms"
  by (induction ms arbitrary: before) auto

lemma all_good_all: "list_all Q ts \<Longrightarrow> all_good (\<lambda>_. Q) before ts"
  by (induction ts arbitrary: before) auto

lemma json_value_prints:
  "tree_ok k t \<Longrightarrow> delim r \<Longrightarrow> \<exists>x. json_value P n k (jprint t @ r) = Ok (x, r) \<and> erase x = t"
proof (induction k arbitrary: t r)
  case 0
  show ?case
  proof (cases t)
    case (JTok x1)
    with 0 value_step_token show ?thesis by simp
  next
    case (JStr s)
    with 0 parse_string_encode [of s r] show ?thesis
      by (auto simp: value_step_def value_here_def encode_string_def ws_id is_ws_def)
  qed (use 0 in auto)
next
  case (Suc k)
  let ?val = "json_value P n k"
  show ?case
  proof (cases t)
    case (JTok x1)
    with Suc.prems value_step_token show ?thesis by simp
  next
    case (JStr s)
    with Suc.prems parse_string_encode [of s r] show ?thesis
      by (auto simp: value_step_def value_here_def encode_string_def ws_id is_ws_def)
  next
    case (JArr ts)
    then have ok: "list_all (tree_ok k) ts" using Suc.prems by simp
    have "\<exists>xs. container (\<lambda>_. ?val) (CHR '']'') (expected_sep '']'') (join_on COMMA (map jprint ts) @ CHR '']'' # r)
        = Ok (xs, r) \<and> map erase xs = ts"
      using Suc.IH ok all_good_all [OF ok] jprint_start
      by (intro container_prints [where good = "\<lambda>_. tree_ok k"]) (auto simp: closing_def list_all_iff)
    with JArr show ?thesis
      by (auto simp: value_step_def value_here_def json_array_def ws_id is_ws_def)
  next
    case (JObj ms)
    let ?pr = "\<lambda>m. encode_string (fst m) @ CHR '':'' # jprint (snd m)"
    let ?g = "\<lambda>m. (fst m, erase (snd m))"
    let ?good = "\<lambda>before m. m \<in> {m. utf8_valid (fst m) \<and> tree_ok k (snd m)} \<and> fst m \<notin> fst ` set before"
    from JObj Suc.prems have ok: "distinct (map fst ms)" "set ms \<subseteq> {m. utf8_valid (fst m) \<and> tree_ok k (snd m)}"
      by (auto simp: list_all_iff)
    have "\<exists>xs. container (member P ?val) (CHR ''}'') (expected_sep ''}'') (join_on COMMA (map ?pr ms) @ CHR ''}'' # r)
        = Ok (xs, r) \<and> map ?g xs = ms"
    proof (rule container_prints [where good = ?good])
      fix acc m r assume m: "?good (map ?g acc) m" and d: "delim r"
      have "\<exists>x. member P ?val acc (encode_string (fst m) @ CHR '':'' # jprint (snd m) @ r) = Ok ((fst m, x), r)
          \<and> erase x = snd m"
        using m d Suc.IH [of "snd m" r] by (intro member_prints) (auto simp: image_iff)
      then show "\<exists>x. member P ?val acc (?pr m @ r) = Ok (x, r) \<and> ?g x = m" by force
    next
      show "all_good ?good [] ms" by (rule all_good_members) (use ok in simp_all)
    qed (auto simp: closing_def encode_string_def value_start_def)
    then obtain xs where xs: "container (member P ?val) (CHR ''}'') (expected_sep ''}'')
        (join_on COMMA (map ?pr ms) @ CHR ''}'' # r) = Ok (xs, r)" "map ?g xs = ms" by blast
    have "jprint (JObj ms) = CHR ''{'' # join_on COMMA (map ?pr ms) @ ''}''"
      by (simp add: json_object_def comp_def case_prod_beta map_prod_def)
    with xs JObj show ?thesis
      by (auto simp: value_step_def value_here_def ws_id is_ws_def case_prod_beta simp del: jprint.simps)
  qed
qed

section \<open>Re-encoding\<close>

lemma bytes_str_str_bytes [simp]: "bytes_str (str_bytes s) = s"
  by (simp add: bytes_str_def str_bytes_def unat_char_byte comp_def)

lemma utf8_ascii: "\<forall>c\<in>set s. code c < 0x80 \<Longrightarrow> utf8_valid s"
  by (induction s) (simp_all add: utf8_valid_ascii)

lemma utf8_encode_string: "utf8_valid s \<Longrightarrow> utf8_valid (encode_string s)"
  by (simp add: encode_string_def utf8_valid_ascii utf8_valid_append utf8_escape)

lemma utf8_join: "list_all utf8_valid xs \<Longrightarrow> utf8_valid (join_on COMMA xs)"
  by (induction COMMA xs rule: join_on.induct) (simp_all add: utf8_valid_append utf8_valid_ascii)

lemma utf8_int: "utf8_valid (dec_int n)"
proof (rule utf8_ascii, intro ballI)
  fix c assume "c \<in> set (dec_int n)"
  then have "c = CHR ''-'' \<or> is_digit c"
    using dec_pos_digits [of "\<bar>n\<bar>"] by (auto simp: dec_int_def split: if_splits)
  then show "code c < 0x80" by (auto simp: is_digit_def)
qed

lemma utf8_jprint: "tree_ok k t \<Longrightarrow> utf8_valid (jprint t)"
proof (induction k t rule: tree_ok.induct)
  case (1 k t)
  then show ?case by (auto simp: literal_token_def int_token_def utf8_int utf8_valid_ascii)
next
  case (3 k vs)
  then have "list_all utf8_valid (map jprint vs)" by (auto simp: list_all_iff)
  then show ?case by (simp add: json_array_def utf8_valid_ascii utf8_valid_append utf8_join)
next
  case (4 k ms)
  then have "list_all utf8_valid (map (\<lambda>m. encode_string (fst m) @ CHR '':'' # jprint (snd m)) ms)"
    by (auto simp: list_all_iff utf8_valid_append utf8_valid_ascii utf8_encode_string)
  then show ?case
    by (simp add: json_object_def utf8_valid_ascii utf8_valid_append utf8_join comp_def case_prod_beta)
qed (simp add: utf8_encode_string)

lemma sort_key_map: "sort_key fst (map (\<lambda>m. (fst m, f (snd m))) ms) = map (\<lambda>m. (fst m, f (snd m))) (sort_key fst ms)"
proof -
  have ins: "insort_key fst (fst m, f (snd m)) (map (\<lambda>m. (fst m, f (snd m))) ms)
    = map (\<lambda>m. (fst m, f (snd m))) (insort_key fst m ms)" for m and ms
    by (induction ms) auto
  show ?thesis by (induction ms) (simp_all add: ins)
qed

lemma collect_ok_map: "\<forall>x\<in>set xs. f x = Ok (g x) \<Longrightarrow> collect_ok (map f xs) = Ok (map g xs)"
  by (induction xs) simp_all

lemma canon_members: "canon (JObj ms) = JObj (map (\<lambda>m. (fst m, canon (snd m))) (sort_key fst ms))"
  by (simp add: case_prod_beta' sort_key_map)

lemma write_node: "cj_write P (node_to_cj x) = Ok (jprint (canon (erase x)))"
proof (induction x rule: node_to_cj.induct)
  case (1 v a b)
  show ?case
  proof (cases v)
    case (VArr vs)
    with 1 have "collect_ok (map (\<lambda>x. cj_write P (node_to_cj x)) vs) = Ok (map (\<lambda>x. jprint (canon (erase x))) vs)"
      by (intro collect_ok_map) auto
    with VArr show ?thesis by (simp add: comp_def)
  next
    case (VObj ms)
    have "cj_write P (node_to_cj (snd m)) = Ok (jprint (canon (erase (snd m))))" if "m \<in> set ms" for m
      using 1(2) [OF VObj, of m "fst m" "snd m"] that by simp
    then have "collect_ok (map (\<lambda>m. named_result (fst m, cj_write P (node_to_cj (snd m)))) (sort_key fst ms))
        = Ok (map (\<lambda>m. (fst m, jprint (canon (erase (snd m))))) (sort_key fst ms))"
      by (intro collect_ok_map) (simp add: named_result_def)
    moreover note sort_key_map [of "\<lambda>x. cj_write P (node_to_cj x)" ms] sort_key_map [of erase ms]
    ultimately show ?thesis
      by (simp add: VObj canon_members comp_def case_prod_beta' map_prod_def del: canon.simps(4))
  qed simp_all
qed

lemma canon_idem: "canon (canon t) = canon t"
proof (induction t rule: canon.induct)
  case (4 ms)
  then have "\<forall>m\<in>set (sort_key fst ms). canon (canon (snd m)) = canon (snd m)" by auto
  then have "map (\<lambda>m. (fst m, canon (canon (snd m)))) (sort_key fst ms)
      = map (\<lambda>m. (fst m, canon (snd m))) (sort_key fst ms)" by simp
  then show ?case
    using sort_key_map [of canon "sort_key fst ms"]
    by (simp add: canon_members sort_key_id_if_sorted comp_def del: canon.simps(4))
qed simp_all

lemma tree_ok_canon: "tree_ok k t \<Longrightarrow> tree_ok k (canon t)"
proof (induction k t rule: tree_ok.induct)
  case (4 k ms)
  have "distinct (map fst (sort_key fst ms))"
    using "4.prems" by (simp add: distinct_map inj_on_def) 
  with 4 show ?case
    by (auto simp: canon_members list_all_iff comp_def case_prod_beta simp del: canon.simps(4))
qed (auto simp: list_all_iff)

lemma canonical_json_parse:
  "canonical_json_v2 P data = bind_ok (parse_json P data) (\<lambda>x. Ok (str_bytes (jprint (canon (erase x)))))"
  by (simp add: canonical_json_v2_def canonical_def write_node)

lemma parse_printed:
  assumes "tree_ok MAX_JSON_NESTING_DEPTH t"
  obtains x where "parse_json P (str_bytes (jprint t)) = Ok x" "erase x = t"
proof -
  have "delim []" by (simp add: delim_def)
  from json_value_prints [OF assms this, where P = P and n = "length (str_bytes (jprint t))"]
  obtain x where "json_value P (length (str_bytes (jprint t))) MAX_JSON_NESTING_DEPTH (jprint t) = Ok (x, [])"
    "erase x = t" by auto
  with utf8_jprint [OF assms] show thesis
    by (intro that [of x]) (simp_all add: parse_json_Ok ws_def)
qed

lemma jprint_inj:
  assumes "tree_ok MAX_JSON_NESTING_DEPTH t" "tree_ok MAX_JSON_NESTING_DEPTH u" "jprint t = jprint u"
  shows "t = u"
  by (rule parse_printed [OF assms(1), where P = undefined], rule parse_printed [OF assms(2), where P = undefined])
    (use assms(3) in auto)

end
