(* ===== verification/V2_Json_Read.thy ===== *)
theory V2_Json_Read
  imports V2_Json_Codec
begin

text \<open>
  Reading canonical text back field by field.  \<open>reads P x c\<close> says that the parsed node \<open>x\<close> is what
  the writer's value \<open>c\<close> turns into; the lemmas give, for every accessor of an object
  (\<open>obj_str\<close>, \<open>obj_i64\<close>, \<open>obj_bytes\<close>, ...), what it returns on such a node, so that the round trip of
  a wire object is one rewriting step per field.
\<close>

section \<open>Numbers in parsed nodes\<close>

fun nums_ok :: "jnode \<Rightarrow> bool" where
  "nums_ok (Node v a b) =
     (case v of
        VNum t \<Rightarrow> int_token t
      | VArr vs \<Rightarrow> list_all nums_ok vs
      | VObj ms \<Rightarrow> list_all (\<lambda>m. nums_ok (snd m)) ms
      | _ \<Rightarrow> True)"

lemma value_step_nums:
  assumes "\<And>val s x r. inner = Some val \<Longrightarrow> val s = Ok (x, r) \<Longrightarrow> nums_ok x"
    and "value_step P n inner s = Ok (x, r)"
  shows "nums_ok x"
proof -
  from assms(2) obtain c cs v a b where v: "value_here P inner c (c # cs) = Ok (v, r)"
    and x: "x = Node v a b"
    by (auto simp: value_step_def bind_ok_Ok split: list.splits)
  from v show ?thesis
  proof (cases rule: value_here_cases)
    case (object val ms)
    have "list_all (\<lambda>m. nums_ok (snd m)) ms"
    proof (rule container_invariant [where I = "list_all (\<lambda>m. nums_ok (snd m))", OF _ _ object(3)])
      fix acc s m r assume I: "list_all (\<lambda>m. nums_ok (snd m)) acc" and m: "member P val acc s = Ok (m, r)"
      from m show "list_all (\<lambda>m. nums_ok (snd m)) (acc @ [m])"
        by (cases rule: member_cases) (use I assms(1) [OF object(1)] in auto)
    qed simp
    then show ?thesis by (simp add: x object(2))
  next
    case (arr val vs)
    have "list_all nums_ok vs"
      by (rule container_invariant [where I = "list_all nums_ok", OF _ _ arr(3)])
        (use assms(1) [OF arr(1)] in auto)
    then show ?thesis by (simp add: x arr(2))
  qed (auto simp: x number_sound)
qed

lemma json_value_nums: "json_value P n k s = Ok (x, r) \<Longrightarrow> nums_ok x"
proof (induction k arbitrary: s x r)
  case 0
  then show ?case using value_step_nums [of None] by simp
next
  case (Suc k)
  then have "value_step P n (Some (json_value P n k)) s = Ok (x, r)" by simp
  then show ?case
    by (rule value_step_nums [rotated]) (metis Suc.IH option.inject)
qed

lemma parse_json_nums: "parse_json P data = Ok x \<Longrightarrow> nums_ok x"
  unfolding parse_json_Ok using json_value_nums by blast

section \<open>The tree of a writer's value\<close>

fun cj_tree :: "prims \<Rightarrow> cj \<Rightarrow> jv" where
  "cj_tree P CNull = JTok ''null''"
| "cj_tree P (CBool b) = JTok (encode_bool b)"
| "cj_tree P (CInt n) = JTok (dec_int n)"
| "cj_tree P (CStr s) = JStr s"
| "cj_tree P (CBytes b) = JStr (p_base64 P b)"
| "cj_tree P (CRaw t) = JTok t"
| "cj_tree P (CArr cs) = JArr (map (cj_tree P) cs)"
| "cj_tree P (CObj fs) = JObj (map (\<lambda>(k, c). (k, cj_tree P c)) fs)"

lemma int_token_dec_int: "int_token (dec_int n) \<longleftrightarrow> safe_int n"
  by (auto simp: int_token_def dec_int_inj)

lemma dec_int_start: "hd (dec_int n) = CHR ''-'' \<or> is_digit (hd (dec_int n))"
  using dec_pos_digits [of "\<bar>n\<bar>"] by (auto simp: dec_int_def)

lemma dec_int_not_literal [simp]: "\<not> literal_token (dec_int n)"
  using dec_int_start [of n] by (auto simp: literal_token_def is_digit_def)

lemma int_token_not_literal: "int_token t \<Longrightarrow> \<not> literal_token t"
  by (auto simp: int_token_def)

lemma write_tree: "tree_ok k (cj_tree P c) \<Longrightarrow> cj_write P c = Ok (jprint (canon (cj_tree P c)))"
proof (induction c arbitrary: k)
  case (CInt n)
  then show ?case by (simp add: int_token_dec_int safe_int_def)
next
  case (CArr cs)
  then have "collect_ok (map (cj_write P) cs) = Ok (map (\<lambda>c. jprint (canon (cj_tree P c))) cs)"
    by (intro collect_ok_map) (auto simp: list_all_iff)
  then show ?case by (simp add: comp_def)
next
  case (CObj fs)
  have "cj_write P (snd m) = Ok (jprint (canon (cj_tree P (snd m))))" if "m \<in> set fs" for m
    using CObj.prems that by (intro CObj.IH [of m, where k = "k - 1"]) (auto simp: list_all_iff snds.simps case_prod_beta)
  then have "collect_ok (map (\<lambda>m. named_result (fst m, cj_write P (snd m))) (sort_key fst fs))
      = Ok (map (\<lambda>m. (fst m, jprint (canon (cj_tree P (snd m))))) (sort_key fst fs))"
    by (intro collect_ok_map) (simp add: named_result_def)
  moreover note sort_key_map [of "cj_write P" fs] sort_key_map [of "cj_tree P" fs]
  ultimately show ?case
    by (simp add: canon_members comp_def case_prod_beta' map_prod_def del: canon.simps(4))
qed (simp_all add: encode_bytes_b64_def)

text \<open>\<open>x\<close> is what the written form of \<open>c\<close> parses to.\<close>

definition reads :: "prims \<Rightarrow> jnode \<Rightarrow> cj \<Rightarrow> bool" where
  "reads P x c \<longleftrightarrow> nums_ok x \<and> erase x = canon (cj_tree P c)"

lemma parse_canonical:
  assumes "tree_ok MAX_JSON_NESTING_DEPTH (cj_tree P c)"
  obtains data x where "canonical P c = Ok data" "parse_json P data = Ok x" "reads P x c"
proof -
  let ?t = "canon (cj_tree P c)"
  have "tree_ok MAX_JSON_NESTING_DEPTH ?t" using assms by (rule tree_ok_canon)
  then obtain x where x: "parse_json P (str_bytes (jprint ?t)) = Ok x" "erase x = ?t"
    by (rule parse_printed)
  with parse_json_nums [OF x(1)] have "reads P x c" by (simp add: reads_def)
  moreover have "canonical P c = Ok (str_bytes (jprint ?t))"
    by (simp add: canonical_def write_tree [OF assms])
  ultimately show thesis using x(1) that by blast
qed

section \<open>Fields of an object\<close>

definition fields :: "prims \<Rightarrow> jobj \<Rightarrow> (string \<times> cj) list \<Rightarrow> bool" where
  "fields P ms fs \<longleftrightarrow> distinct (map fst ms) \<and> fst ` set ms = fst ` set fs
     \<and> (\<forall>k. rel_option (reads P) (map_of ms k) (map_of fs k))"

lemma map_of_sort_key: "distinct (map fst xs) \<Longrightarrow> map_of (sort_key fst xs) = map_of xs"
proof (rule ext)
  fix k assume d: "distinct (map fst xs)"
  have "distinct (map fst (sort_key fst xs))"
    using d by (simp add: distinct_map inj_on_def)
  then have "map_of (sort_key fst xs) k = Some v \<longleftrightarrow> map_of xs k = Some v" for v
    using d by (simp add: map_of_eq_Some_iff)
  then show "map_of (sort_key fst xs) k = map_of xs k" by (metis option.exhaust)
qed

lemma erase_JObj:
  assumes "nums_ok x" "erase x = JObj ts"
  obtains ms a b where "x = Node (VObj ms) a b" "map (\<lambda>m. (fst m, erase (snd m))) ms = ts"
    "\<forall>m\<in>set ms. nums_ok (snd m)"
proof -
  obtain v a b where x: "x = Node v a b" by (cases x)
  show thesis
    using assms by (cases v) (auto simp: x case_prod_beta' list_all_iff intro: that)
qed

lemma erase_JArr:
  assumes "nums_ok x" "erase x = JArr ts"
  obtains vs a b where "x = Node (VArr vs) a b" "map erase vs = ts" "\<forall>v\<in>set vs. nums_ok v"
proof -
  obtain v a b where x: "x = Node v a b" by (cases x)
  show thesis using assms by (cases v) (auto simp: x list_all_iff intro: that)
qed

lemma reads_obj:
  assumes "reads P x (CObj fs)" "distinct (map fst fs)"
  obtains ms where "obj x = Ok ms" "fields P ms fs"
proof -
  let ?g = "\<lambda>m. (fst m, canon (cj_tree P (snd m)))"
  have e: "erase x = JObj (map ?g (sort_key fst fs))"
    using assms(1) sort_key_map [of "cj_tree P" fs]
    by (simp add: reads_def canon_members case_prod_beta' comp_def del: canon.simps(4))
  obtain ms a b where x: "x = Node (VObj ms) a b"
    and m: "map (\<lambda>m. (fst m, erase (snd m))) ms = map ?g (sort_key fst fs)"
    and nums: "\<forall>m\<in>set ms. nums_ok (snd m)"
    using assms(1) e unfolding reads_def by (elim conjE) (rule erase_JObj)
  have d: "distinct (map fst (sort_key fst fs))"
    using assms(2) by (simp add: distinct_map inj_on_def)
  have keys: "map fst ms = map fst (sort_key fst fs)"
    using arg_cong [OF m, of "map fst"] by (simp add: comp_def)
  have "map_of (map (\<lambda>m. (fst m, erase (snd m))) ms) k = map_of (map ?g (sort_key fst fs)) k" for k
    by (simp only: m)
  then have val: "map_option erase (map_of ms k) = map_option (\<lambda>c. canon (cj_tree P c)) (map_of fs k)" for k
    using map_of_map [of erase ms] map_of_map [of "\<lambda>c. canon (cj_tree P c)" "sort_key fst fs"]
      map_of_sort_key [OF assms(2)] by (simp add: case_prod_beta')
  have "rel_option (reads P) (map_of ms k) (map_of fs k)" for k
  proof (cases "map_of ms k")
    case None
    with val [of k] show ?thesis by simp
  next
    case (Some v)
    then have "nums_ok v" using nums map_of_SomeD by fastforce
    with Some val [of k] show ?thesis by (cases "map_of fs k") (auto simp: reads_def)
  qed
  moreover have "fst ` set ms = fst ` set fs"
    using arg_cong [OF keys, of set] by simp
  ultimately have "fields P ms fs" using d by (simp add: fields_def keys)
  then show thesis by (intro that [of ms]) (simp_all add: obj_def x)
qed

lemma fields_get:
  assumes "fields P ms fs" "map_of fs k = Some c"
  obtains v where "obj_get ms k = Some v" "reads P v c"
  using assms by (auto simp: fields_def obj_get_def option_rel_Some2 dest!: spec [of _ k])

lemma fields_absent: "fields P ms fs \<Longrightarrow> map_of fs k = None \<Longrightarrow> obj_get ms k = None"
  by (auto simp: fields_def obj_get_def dest!: spec [of _ k])

lemma reads_str: "reads P v (CStr s) \<Longrightarrow> jn_v v = VStr s"
  by (cases v; cases "jn_v v") (auto simp: reads_def)

lemma reads_bytes: "reads P v (CBytes b) \<Longrightarrow> jn_v v = VStr (p_base64 P b)"
  by (cases v; cases "jn_v v") (auto simp: reads_def)

lemma reads_int: "reads P v (CInt n) \<Longrightarrow> jn_v v = VNum (dec_int n)"
proof (cases v)
  case (Node u a b)
  assume r: "reads P v (CInt n)"
  have "\<not> literal_token (dec_int n)" by simp
  with r show ?thesis
    by (cases u) (auto simp: reads_def Node literal_token_def encode_bool_def split: if_splits)
qed

lemma reads_null: "reads P v c \<Longrightarrow> is_null v \<longleftrightarrow> canon (cj_tree P c) = JTok ''null''"
proof (cases v)
  case (Node u a b)
  assume r: "reads P v c"
  have "\<not> int_token ''null''" using int_token_not_literal by (auto simp: literal_token_def)
  with r show ?thesis
    by (cases u) (auto simp: reads_def Node is_null_def encode_bool_def split: if_splits)
qed

section \<open>Accessors\<close>

definition base64_codec :: "v2_prims \<Rightarrow> bool" where
  "base64_codec V \<longleftrightarrow> base64_plain (v_base V) \<and> (\<forall>b. v_b64_decode V (p_base64 (v_base V) b) = Some b)"

lemma base64_codec_decode: "base64_codec V \<Longrightarrow> b64_decode V (p_base64 (v_base V) b) = Ok b"
  by (simp add: base64_codec_def b64_decode_def canonical_base64_def)

lemma base64_codec_utf8: "base64_codec V \<Longrightarrow> utf8_valid (p_base64 (v_base V) b)"
proof (rule utf8_ascii, intro ballI)
  fix c assume "base64_codec V" "c \<in> set (p_base64 (v_base V) b)"
  then have "base64_char c" by (auto simp: base64_codec_def base64_plain_def)
  then show "code c < 0x80" by (auto simp: base64_char_def is_digit_def)
qed

lemma fields_present:
  assumes "fields P ms fs" "map_of fs k = Some c" "canon (cj_tree P c) \<noteq> JTok ''null''"
  obtains v where "obj_present ms k = Some v" "reads P v c"
proof -
  obtain v where v: "obj_get ms k = Some v" "reads P v c" using assms(1,2) by (rule fields_get)
  with assms(3) reads_null [OF v(2)] show thesis by (intro that [of v]) (simp_all add: obj_present_def)
qed

lemma fields_not_present:
  assumes "fields P ms fs" "map_of fs k = None \<or> map_of fs k = Some CNull"
  shows "obj_present ms k = None"
  using assms(2)
proof
  assume "map_of fs k = None"
  with assms(1) show ?thesis by (simp add: obj_present_def fields_absent)
next
  assume *: "map_of fs k = Some CNull"
  obtain v where "obj_get ms k = Some v" "reads P v CNull" using assms(1) * by (rule fields_get)
  with reads_null show ?thesis by (simp add: obj_present_def)
qed

lemma get_str: "fields P ms fs \<Longrightarrow> map_of fs k = Some (CStr s) \<Longrightarrow> obj_str ms k = Ok s"
  by (erule (1) fields_present) (simp_all add: obj_str_def node_str_def reads_str)

lemma get_opt_str: "fields P ms fs \<Longrightarrow> map_of fs k = Some (CStr s) \<Longrightarrow> obj_opt_str ms k = Ok (Some s)"
  by (erule (1) fields_present) (simp_all add: obj_opt_str_def node_str_def reads_str)

lemma dec_int_no_exp: "\<not> list_ex (\<lambda>c. c \<in> {CHR ''.'', CHR ''e'', CHR ''E''}) (dec_int n)"
proof -
  have "c = CHR ''-'' \<or> is_digit c" if "c \<in> set (dec_int n)" for c
    using that dec_pos_digits [of "\<bar>n\<bar>"] by (auto simp: dec_int_def split: if_splits)
  with digit_not_exp show ?thesis unfolding list_ex_iff by fastforce
qed

lemma safe_int_i64: "safe_int n \<Longrightarrow> i64_range n"
  by (simp add: safe_int_def i64_range_def MAX_SAFE_INTEGER_def)

lemma node_i64_reads: "reads P v (CInt n) \<Longrightarrow> safe_int n \<Longrightarrow> node_i64 v = Ok n"
  using dec_int_no_exp [of n] by (simp add: node_i64_def reads_int parse_i64_dec_int safe_int_i64)

lemma dec_int_not_null [simp]: "dec_int n \<noteq> ''null''"
  using dec_int_not_literal [of n] by (auto simp: literal_token_def)

lemma get_i64: "fields P ms fs \<Longrightarrow> map_of fs k = Some (CInt n) \<Longrightarrow> safe_int n \<Longrightarrow> obj_i64 ms k = Ok n"
  by (erule (1) fields_present) (simp_all add: obj_i64_def node_i64_reads)

lemma get_u16:
  "fields P ms fs \<Longrightarrow> map_of fs k = Some (CInt n) \<Longrightarrow> 0 \<le> n \<Longrightarrow> n < 2 ^ 16 \<Longrightarrow> obj_u16 ms k = Ok n"
  using get_i64 [of P ms fs k n] by (simp add: obj_u16_def safe_int_def MAX_SAFE_INTEGER_def)

lemma get_bytes:
  "fields (v_base V) ms fs \<Longrightarrow> map_of fs k = Some (CBytes b) \<Longrightarrow> base64_codec V \<Longrightarrow> obj_bytes V ms k = Ok b"
  by (erule (1) fields_present)
    (simp_all add: obj_bytes_def node_str_def reads_bytes base64_codec_decode)

lemma get_absent:
  assumes "fields P ms fs" "map_of fs k = None"
  shows "obj_str ms k = Ok ''''" "obj_i64 ms k = Ok 0" "obj_bytes V ms k = Ok []" "obj_array ms k = Ok []"
    "obj_opt_str ms k = Ok None" "obj_sig V ms k = Ok \<lparr>sig_ed25519 = [], sig_ml_dsa_65 = []\<rparr>"
  using fields_not_present [OF assms(1)] assms(2)
  by (simp_all add: obj_str_def obj_i64_def obj_bytes_def obj_array_def obj_opt_str_def obj_sig_def obj_pair_def)

lemma get_opt_null: "fields P ms fs \<Longrightarrow> map_of fs k = Some CNull \<Longrightarrow> obj_opt_str ms k = Ok None"
  by (simp add: obj_opt_str_def fields_not_present)

lemma reads_arr:
  assumes "reads P x (CArr cs)"
  obtains vs where "jn_v x = VArr vs" "list_all2 (reads P) vs cs"
proof -
  obtain vs a b where x: "x = Node (VArr vs) a b" and vs: "map erase vs = map (\<lambda>c. canon (cj_tree P c)) cs"
    and nums: "\<forall>v\<in>set vs. nums_ok v"
    using assms unfolding reads_def by (elim conjE) (erule erase_JArr [where ts = "map (\<lambda>c. canon (cj_tree P c)) cs"], simp_all)
  have "list_all2 (reads P) vs cs"
  proof (rule list_all2_all_nthI)
    show "length vs = length cs" using arg_cong [OF vs, of length] by simp
    show "reads P (vs ! i) (cs ! i)" if "i < length vs" for i
      using arg_cong [OF vs, of "\<lambda>l. l ! i"] arg_cong [OF vs, of length] nums that by (simp add: reads_def)
  qed
  then show thesis by (intro that [of vs]) (simp_all add: x)
qed

lemma get_array:
  assumes "fields P ms fs" "map_of fs k = Some (CArr cs)"
  obtains vs where "obj_array ms k = Ok vs" "list_all2 (reads P) vs cs"
proof -
  obtain v where v: "obj_present ms k = Some v" "reads P v (CArr cs)"
    using assms by (rule fields_present) simp
  obtain vs where "jn_v v = VArr vs" "list_all2 (reads P) vs cs" using v(2) by (rule reads_arr)
  with v(1) show thesis by (intro that [of vs]) (simp_all add: obj_array_def)
qed

lemma collect_reads:
  assumes "list_all2 (reads P) vs (map g xs)" "\<And>x v. x \<in> set xs \<Longrightarrow> reads P v (g x) \<Longrightarrow> f v = Ok x"
  shows "collect_results f vs = Ok xs"
  using assms
proof (induction xs arbitrary: vs)
  case (Cons x xs)
  then obtain v vs' where vs: "vs = v # vs'" "reads P v (g x)" "list_all2 (reads P) vs' (map g xs)"
    by (auto simp: list_all2_Cons2)
  have "f v = Ok x" by (rule Cons.prems(2) [OF _ vs(2)]) simp
  moreover have "collect_results f vs' = Ok xs" by (rule Cons.IH [OF vs(3)]) (use Cons.prems(2) in simp)
  ultimately show ?case by (simp add: vs(1))
qed simp

lemma get_strs:
  assumes "fields P ms fs" "map_of fs k = Some (cj_strs ss)"
  shows "obj_str_array ms k = Ok ss"
proof -
  obtain v where v: "obj_present ms k = Some v" "reads P v (CArr (map CStr ss))"
    using assms unfolding cj_strs_def by (rule fields_present) simp
  obtain vs where vs: "jn_v v = VArr vs" "list_all2 (reads P) vs (map CStr ss)" using v(2) by (rule reads_arr)
  have "collect_results node_str vs = Ok ss"
    by (rule collect_reads [OF vs(2)]) (simp add: node_str_def reads_str)
  with v(1) vs(1) show ?thesis by (simp add: obj_str_array_def)
qed

lemma fields_require:
  assumes "fields P ms fs"
    and "\<forall>n\<in>set names. n \<in> fst ` set fs \<and> (map_of fs n = Some CNull \<longrightarrow> n \<in> set nullable)"
    and "\<forall>c\<in>snd ` set fs. canon (cj_tree P c) = JTok ''null'' \<longrightarrow> c = CNull"
  shows "obj_require Q ms names nullable = Ok ()"
  using assms(2)
proof (induction names)
  case (Cons n names)
  then obtain c where c: "map_of fs n = Some c"
    by (metis list.set_intros(1) map_of_eq_None_iff option.exhaust)
  obtain v where v: "obj_get ms n = Some v" "reads P v c" using assms(1) c by (rule fields_get)
  have "c \<in> snd ` set fs" using c map_of_SomeD by force
  with assms(3) have "is_null v \<longrightarrow> c = CNull" using reads_null [OF v(2)] by blast
  with Cons c v show ?case by auto
qed simp

lemma fields_only:
  assumes "fields P ms fs" "fst ` set fs \<subseteq> set allowed"
  shows "obj_only Q ms allowed = Ok ()"
proof -
  have "fst ` set ms \<subseteq> set allowed" using assms by (simp add: fields_def)
  then show ?thesis by (induction ms) auto
qed

lemma get_sig:
  assumes "fields (v_base V) ms fs" "map_of fs k = Some (cj_sig sg)" "base64_codec V"
  shows "obj_sig V ms k = Ok sg"
proof -
  let ?fs = "[(''ed25519'', CBytes (sig_ed25519 sg)), (''ml_dsa_65'', CBytes (sig_ml_dsa_65 sg))]"
  obtain v where v: "obj_present ms k = Some v" "reads (v_base V) v (CObj ?fs)"
    using assms(1,2) unfolding cj_sig_def by (rule fields_present) simp
  obtain ns where ns: "obj v = Ok ns" "fields (v_base V) ns ?fs"
    using v(2) by (rule reads_obj) simp
  have "obj_only (v_base V) ns [''ed25519'', ''ml_dsa_65''] = Ok ()"
    by (rule fields_only [OF ns(2)]) simp
  moreover have "obj_require (v_base V) ns [''ed25519'', ''ml_dsa_65''] [] = Ok ()"
    by (rule fields_require [OF ns(2)]) auto
  moreover have "obj_bytes V ns ''ed25519'' = Ok (sig_ed25519 sg)" "obj_bytes V ns ''ml_dsa_65'' = Ok (sig_ml_dsa_65 sg)"
    by (rule get_bytes [OF ns(2) _ assms(3)], simp)+
  ultimately show ?thesis by (simp add: obj_sig_def obj_pair_def v(1) ns(1))
qed

section \<open>The schema rules on canonical text\<close>

definition null_member_ok :: "string \<Rightarrow> jnode \<Rightarrow> bool" where
  "null_member_ok k v \<longleftrightarrow>
     k = ''params'' \<or> is_null v \<and> k \<in> set NULLABLE_MEMBERS \<or> reject_unexpected_null v = Ok ()"

lemma reject_null_members_Ok:
  "reject_null_members ms = Ok () \<longleftrightarrow> (\<forall>m\<in>set ms. null_member_ok (fst m) (snd m))"
proof (induction ms)
  case (Cons m ms)
  obtain k v where m: "m = (k, v)" by (cases m)
  show ?case
    using Cons.IH by (cases "reject_unexpected_null v") (auto simp: m null_member_ok_def)
qed simp

lemma reject_null_items_Ok: "reject_null_items vs = Ok () \<longleftrightarrow> (\<forall>v\<in>set vs. reject_unexpected_null v = Ok ())"
  by (induction vs) (auto split: sum.splits)

definition byte_field :: "string list \<Rightarrow> string list \<Rightarrow> nat \<Rightarrow> string \<Rightarrow> bool" where
  "byte_field tb tt d k \<longleftrightarrow> k \<in> set WIRE_BYTE_FIELDS \<and> \<not> (d = 1 \<and> k \<in> set tt) \<or> d = 1 \<and> k \<in> set tb"

definition byte_member_ok :: "v2_prims \<Rightarrow> string list \<Rightarrow> string list \<Rightarrow> nat \<Rightarrow> string \<Rightarrow> jnode \<Rightarrow> bool" where
  "byte_member_ok V tb tt d k v \<longleftrightarrow>
     (\<forall>s. jn_v v = VStr s \<longrightarrow> byte_field tb tt d k \<longrightarrow> check_canonical_base64 V k s = Ok ())
     \<and> (k \<noteq> ''params'' \<longrightarrow> check_byte_fields V tb tt v d = Ok ())"

lemma check_byte_members_Ok:
  "check_byte_members V tb tt ms d = Ok () \<longleftrightarrow> (\<forall>m\<in>set ms. byte_member_ok V tb tt d (fst m) (snd m))"
proof (induction ms)
  case (Cons m ms)
  obtain k v where m: "m = (k, v)" by (cases m)
  have "(case jn_v v of VStr s \<Rightarrow>
          if k \<in> set WIRE_BYTE_FIELDS \<and> \<not> (d = 1 \<and> k \<in> set tt) \<or> d = 1 \<and> k \<in> set tb
          then check_canonical_base64 V k s else Ok () | _ \<Rightarrow> Ok ()) = Ok () \<longleftrightarrow>
      (\<forall>s. jn_v v = VStr s \<longrightarrow> byte_field tb tt d k \<longrightarrow> check_canonical_base64 V k s = Ok ())"
    by (cases "jn_v v") (auto simp: byte_field_def)
  moreover have "(if k \<noteq> ''params'' then check_byte_fields V tb tt v d else Ok ()) = Ok () \<longleftrightarrow>
      (k \<noteq> ''params'' \<longrightarrow> check_byte_fields V tb tt v d = Ok ())" by simp
  ultimately show ?case
    by (simp only: m check_byte_members.simps bind_ok_Ok Cons.IH list.set ball_simps fst_conv snd_conv
        byte_member_ok_def) auto
qed simp

lemma check_byte_items_Ok:
  "check_byte_items V tb tt vs d = Ok () \<longleftrightarrow> (\<forall>v\<in>set vs. check_byte_fields V tb tt v d = Ok ())"
  by (induction vs) (auto simp: bind_ok_Ok)

text \<open>What a writer's value must satisfy: no unexpected null, no free text under a byte field.\<close>

fun nulls_fine :: "cj \<Rightarrow> bool" where
  "nulls_fine CNull = False"
| "nulls_fine (CArr cs) = list_all nulls_fine cs"
| "nulls_fine (CObj fs) = (distinct (map fst fs) \<and>
     list_all (\<lambda>(k, c). k = ''params'' \<or> c = CNull \<and> k \<in> set NULLABLE_MEMBERS \<or> nulls_fine c) fs)"
| "nulls_fine (CRaw t) = False"
| "nulls_fine c = True"

fun bytes_fine :: "string list \<Rightarrow> string list \<Rightarrow> nat \<Rightarrow> cj \<Rightarrow> bool" where
  "bytes_fine tb tt d (CArr cs) = list_all (bytes_fine tb tt (d + 1)) cs"
| "bytes_fine tb tt d (CObj fs) = (distinct (map fst fs) \<and>
     list_all (\<lambda>(k, c). (case c of CStr s \<Rightarrow> \<not> byte_field tb tt (d + 1) k | _ \<Rightarrow> True)
       \<and> (k \<noteq> ''params'' \<longrightarrow> bytes_fine tb tt (d + 1) c)) fs)"
| "bytes_fine tb tt d c = True"

lemma fields_members:
  assumes "fields P ms fs" "(k, v) \<in> set ms" "distinct (map fst fs)"
  obtains c where "(k, c) \<in> set fs" "reads P v c"
proof -
  have "map_of ms k = Some v" using assms(1,2) by (simp add: fields_def)
  then obtain c where "map_of fs k = Some c" "reads P v c"
    using assms(1) by (auto simp: fields_def option_rel_Some1 dest!: spec [of _ k])
  then show thesis by (intro that) (simp_all add: map_of_SomeD)
qed

lemma reads_VObj: "obj x = Ok ms \<Longrightarrow> \<exists>a b. x = Node (VObj ms) a b"
  by (cases x; cases "jn_v x") (auto simp: obj_def)

lemma reads_VArr: "jn_v x = VArr vs \<Longrightarrow> \<exists>a b. x = Node (VArr vs) a b"
  by (cases x) auto

lemma reads_leaf:
  assumes "reads P x c" "case c of CArr _ \<Rightarrow> False | CObj _ \<Rightarrow> False | CRaw _ \<Rightarrow> False | CNull \<Rightarrow> False | _ \<Rightarrow> True"
  shows "reject_unexpected_null x = Ok () \<and> check_byte_fields V tb tt x d = Ok ()"
proof (cases x)
  case (Node u a b)
  have "\<not> is_null x" using reads_null [OF assms(1)] assms(2) by (auto simp: encode_bool_def split: cj.splits)
  with assms show ?thesis
    by (cases u; cases c) (auto simp: reads_def Node is_null_def)
qed

lemma nulls_fine_reads: "nulls_fine c \<Longrightarrow> reads P x c \<Longrightarrow> reject_unexpected_null x = Ok ()"
proof (induction c arbitrary: x)
  case (CArr cs)
  obtain vs where vs: "jn_v x = VArr vs" "list_all2 (reads P) vs cs" using CArr.prems(2) by (rule reads_arr)
  have "reject_unexpected_null v = Ok ()" if "v \<in> set vs" for v
    using that vs(2) CArr.IH CArr.prems(1) by (fastforce simp: list_all2_conv_all_nth in_set_conv_nth list_all_iff)
  with reads_VArr [OF vs(1)] show ?case by (auto simp: reject_null_items_Ok)
next
  case (CObj fs)
  obtain ms where ms: "obj x = Ok ms" "fields P ms fs"
    using CObj.prems by (auto elim: reads_obj)
  have "null_member_ok k v" if m: "(k, v) \<in> set ms" for k v
  proof -
    obtain c where c: "(k, c) \<in> set fs" "reads P v c"
      using fields_members [OF ms(2) m] CObj.prems(1) by auto
    with CObj.prems(1) consider "k = ''params''" | "c = CNull" "k \<in> set NULLABLE_MEMBERS" | "nulls_fine c"
      by (auto simp: list_all_iff)
    then show ?thesis
      using CObj.IH [of "(k, c)" c v] c reads_null [OF c(2)]
      by cases (auto simp: snds.simps null_member_ok_def)
  qed
  with reads_VObj [OF ms(1)] show ?case by (auto simp: reject_null_members_Ok)
qed (use reads_leaf in \<open>fastforce+\<close>)

lemma bytes_fine_reads:
  assumes "base64_codec V"
  shows "bytes_fine tb tt d c \<Longrightarrow> nulls_fine c \<or> c = CNull \<Longrightarrow> reads (v_base V) x c \<Longrightarrow>
    check_byte_fields V tb tt x d = Ok ()"
proof (induction c arbitrary: x d)
  case (CArr cs)
  obtain vs where vs: "jn_v x = VArr vs" "list_all2 (reads (v_base V)) vs cs" using CArr.prems(3) by (rule reads_arr)
  have "check_byte_fields V tb tt v (d + 1) = Ok ()" if "v \<in> set vs" for v
    using that vs(2) CArr.IH CArr.prems(1,2) by (fastforce simp: list_all2_conv_all_nth in_set_conv_nth list_all_iff)
  with reads_VArr [OF vs(1)] show ?case by (auto simp: check_byte_items_Ok)
next
  case (CObj fs)
  obtain ms where ms: "obj x = Ok ms" "fields (v_base V) ms fs"
    using CObj.prems by (auto elim: reads_obj)
  have "byte_member_ok V tb tt (d + 1) k v" if m: "(k, v) \<in> set ms" for k v
  proof -
    have d: "distinct (map fst fs)" and n: "nulls_fine (CObj fs)" using CObj.prems(1,2) by auto
    obtain c where c: "(k, c) \<in> set fs" "reads (v_base V) v c" by (rule fields_members [OF ms(2) m d])
    have fine: "case c of CStr s \<Rightarrow> \<not> byte_field tb tt (d + 1) k | _ \<Rightarrow> True"
        "k \<noteq> ''params'' \<longrightarrow> bytes_fine tb tt (d + 1) c \<and> (nulls_fine c \<or> c = CNull)"
      using CObj.prems(1) n c(1) by (auto simp: list_all_iff)
    have "check_canonical_base64 V k s = Ok ()" if j: "jn_v v = VStr s" "byte_field tb tt (d + 1) k" for s
    proof -
      obtain b where "c = CBytes b"
        using j c(2) fine(1) by (cases v; cases c) (auto simp: reads_def)
      with c(2) j(1) assms show ?thesis
        by (auto simp: reads_bytes check_canonical_base64_def canonical_base64_def base64_codec_def)
    qed
    moreover have "check_byte_fields V tb tt v (d + 1) = Ok ()" if "k \<noteq> ''params''"
      using CObj.IH [of "(k, c)" c] c fine(2) that by (simp add: snds.simps)
    ultimately show ?thesis by (simp add: byte_member_ok_def)
  qed
  with reads_VObj [OF ms(1)] show ?case by (auto simp: check_byte_members_Ok)
next
  case CNull
  then show ?case by (cases x; cases "jn_v x") (auto simp: reads_def)
qed (use reads_leaf in \<open>fastforce+\<close>)

lemma parse_wire_canonical:
  assumes "base64_codec V" "tree_ok MAX_JSON_NESTING_DEPTH (cj_tree (v_base V) c)"
    and "nulls_fine c" "bytes_fine tb tt 0 c"
  obtains data x where "canonical (v_base V) c = Ok data" "parse_wire V data tb tt = Ok x"
    "reads (v_base V) x c"
proof -
  obtain data x where x: "canonical (v_base V) c = Ok data" "parse_json (v_base V) data = Ok x" "reads (v_base V) x c"
    using assms(2) by (rule parse_canonical)
  moreover have "check_byte_fields V tb tt x 0 = Ok ()"
    using bytes_fine_reads [OF assms(1,4)] assms(3) x(3) by blast
  moreover have "reject_unexpected_null x = Ok ()" using nulls_fine_reads [OF assms(3) x(3)] .
  ultimately show thesis by (intro that [of data x]) (simp_all add: parse_wire_def)
qed

text \<open>Re-encoding a parsed canonical text gives the text back.\<close>

lemma canonical_reads:
  assumes "reads P x c" "canonical P c = Ok data" "tree_ok k (cj_tree P c)"
  shows "canonical P (node_to_cj x) = Ok data"
  using assms write_tree [OF assms(3)] by (simp add: canonical_def write_node reads_def canon_idem)

section \<open>Strings of a parsed object\<close>

definition node_ok :: "jnode \<Rightarrow> bool" where
  "node_ok v \<longleftrightarrow> (\<exists>k. tree_ok k (erase v))"

definition members_ok :: "jobj \<Rightarrow> bool" where
  "members_ok ms \<longleftrightarrow> list_all (\<lambda>m. node_ok (snd m)) ms"

lemma parse_wire_ok: "parse_wire V data tb tt = Ok x \<Longrightarrow> node_ok x"
  using parse_json_sound by (auto simp: parse_wire_def bind_ok_Ok node_ok_def)

lemma obj_members_ok: "node_ok x \<Longrightarrow> obj x = Ok ms \<Longrightarrow> members_ok ms"
  by (cases x; cases "jn_v x") (auto simp: obj_def node_ok_def members_ok_def list_all_iff case_prod_beta)

lemma present_ok: "members_ok ms \<Longrightarrow> obj_present ms k = Some v \<Longrightarrow> node_ok v"
  by (fastforce simp: obj_present_def obj_get_def members_ok_def list_all_iff split: option.splits if_splits
      dest!: map_of_SomeD)

lemma node_str_utf8: "node_ok v \<Longrightarrow> node_str v = Ok s \<Longrightarrow> utf8_valid s"
  by (cases v; cases "jn_v v") (auto simp: node_str_def node_ok_def)

lemma obj_str_utf8: "members_ok ms \<Longrightarrow> obj_str ms k = Ok s \<Longrightarrow> utf8_valid s"
  by (auto simp: obj_str_def split: option.splits dest: present_ok node_str_utf8)

lemma obj_opt_str_utf8: "members_ok ms \<Longrightarrow> obj_opt_str ms k = Ok (Some s) \<Longrightarrow> utf8_valid s"
  by (auto simp: obj_opt_str_def bind_ok_Ok split: option.splits dest: present_ok node_str_utf8)

lemma obj_array_ok: "members_ok ms \<Longrightarrow> obj_array ms k = Ok vs \<Longrightarrow> list_all node_ok vs"
proof -
  assume m: "members_ok ms" and a: "obj_array ms k = Ok vs"
  show ?thesis
  proof (cases "obj_present ms k")
    case None
    with a show ?thesis by (simp add: obj_array_def)
  next
    case (Some v)
    with a have "jn_v v = VArr vs" by (simp add: obj_array_def split: jval.splits)
    with present_ok [OF m Some] show ?thesis
      by (cases v) (auto simp: node_ok_def list_all_iff)
  qed
qed

lemma collect_ok_all:
  assumes "collect_results f vs = Ok xs" "list_all Q vs" "\<And>v x. Q v \<Longrightarrow> f v = Ok x \<Longrightarrow> R x"
  shows "list_all R xs"
  using assms(1,2)
proof (induction vs arbitrary: xs)
  case (Cons v vs)
  then show ?case using assms(3) by (auto simp: bind_ok_Ok)
qed simp

lemma obj_str_array_utf8: "members_ok ms \<Longrightarrow> obj_str_array ms k = Ok ss \<Longrightarrow> list_all utf8_valid ss"
proof -
  assume m: "members_ok ms" and a: "obj_str_array ms k = Ok ss"
  show ?thesis
  proof (cases "obj_present ms k")
    case None
    with a show ?thesis by (simp add: obj_str_array_def)
  next
    case (Some v)
    with a obtain vs where vs: "jn_v v = VArr vs" "collect_results node_str vs = Ok ss"
      by (simp add: obj_str_array_def split: jval.splits)
    with Some have "obj_array ms k = Ok vs" by (simp add: obj_array_def)
    with collect_ok_all [OF vs(2) obj_array_ok [OF m]] node_str_utf8 show ?thesis by blast
  qed
qed

end
