(* ===== verification/V2_Receipt_Facts.thy ===== *)
theory V2_Receipt_Facts
  imports V2_Receipt V2_Json_Read
begin

text \<open>
  What receipt validation establishes, the round trip of receipts and prepared bodies through
  their canonical text, and that a receipt signed from a prepared body at a log head is accepted
  there as the next entry.
\<close>

section \<open>Canonical text of a receipt\<close>

text \<open>The strings of a Rust value are UTF-8.\<close>

definition receipt_utf8 :: "verification_receipt_v2 \<Rightarrow> bool" where
  "receipt_utf8 r \<longleftrightarrow> list_all utf8_valid
     ([rc_log_id r, rc_verifier_id r, rc_agent_id r, rc_human_id r, rc_bundle_hash r, rc_decision r,
       rc_decision_reason r, rc_identity_status r, rc_trust_assessment r, rc_status_assessment r,
       rc_challenge_assessment r, rc_context_assessment r, rc_required_scope r]
      @ rc_issuer_ids r @ rc_granted_scope r @ (case rc_context_policy_digest r of None \<Rightarrow> [] | Some d \<Rightarrow> [d]))
     \<and> list_all (\<lambda>e. utf8_valid (ce_kind e) \<and> utf8_valid (ce_profile_digest e)) (rc_constraint_evaluators r)
     \<and> list_all (\<lambda>e. utf8_valid (ev_issuer_id e) \<and> utf8_valid (ev_status_key_id e) \<and> utf8_valid (ev_digest e))
         (rc_status_evidence r)"

definition receipt_ints_safe :: "verification_receipt_v2 \<Rightarrow> bool" where
  "receipt_ints_safe r \<longleftrightarrow> safe_int (rc_version r) \<and> safe_int (rc_verified_at r)
     \<and> list_all (\<lambda>e. 0 \<le> ev_sequence e \<and> safe_int (ev_sequence e)
         \<and> 0 \<le> ev_object_type e \<and> ev_object_type e < 2 ^ 16) (rc_status_evidence r)"

definition receipt_members :: "verification_receipt_v2 \<Rightarrow> shape \<Rightarrow> (string \<times> cj) list" where
  "receipt_members r sh = (case receipt_cj r sh of CObj fs \<Rightarrow> fs | _ \<Rightarrow> [])"

lemma receipt_cj_members: "receipt_cj r sh = CObj (receipt_members r sh)"
  by (simp add: receipt_members_def receipt_cj_def)

lemma receipt_keys: "distinct (map fst (receipt_members r sh))"
  by (cases sh) (simp_all add: receipt_members_def receipt_cj_def)

lemma utf8_valid_literal: "list_all (\<lambda>c. code c < 0x80) s \<Longrightarrow> utf8_valid s"
  by (rule utf8_ascii) (simp add: list_all_iff)

lemma receipt_keys_utf8: "k \<in> fst ` set (receipt_members r sh) \<Longrightarrow> utf8_valid k"
  by (rule utf8_valid_literal)
    (auto simp: receipt_members_def receipt_cj_def split: if_splits)

lemma literal_null [simp]: "literal_token ''null''"
  by (simp add: literal_token_def)

lemma evidence_tree:
  assumes "list_all (\<lambda>e. utf8_valid (ev_issuer_id e) \<and> utf8_valid (ev_status_key_id e) \<and> utf8_valid (ev_digest e)) es"
    and "list_all (\<lambda>e. 0 \<le> ev_sequence e \<and> safe_int (ev_sequence e)
         \<and> 0 \<le> ev_object_type e \<and> ev_object_type e < 2 ^ 16) es"
  shows "tree_ok (Suc (Suc k)) (cj_tree P (evidence_cj es))"
proof -
  have keys: "list_all utf8_valid [''digest'', ''issuer_id'', ''object_type_code'', ''sequence'', ''status_key_id'']"
    by code_simp
  have "safe_int n" if "0 \<le> n" "n < 2 ^ 16" for n using that by (simp add: safe_int_def MAX_SAFE_INTEGER_def)
  with assms keys show ?thesis
    by (simp add: evidence_cj_def list_all_iff int_token_dec_int)
qed

lemma evaluators_tree:
  assumes "list_all (\<lambda>e. utf8_valid (ce_kind e) \<and> utf8_valid (ce_profile_digest e)) es"
  shows "tree_ok (Suc (Suc k)) (cj_tree P (evaluator_refs_cj es))"
proof -
  have keys: "list_all utf8_valid [''profile_digest'', ''type'']" by code_simp
  with assms show ?thesis by (simp add: evaluator_refs_cj_def list_all_iff)
qed

lemma sig_tree: "base64_codec V \<Longrightarrow> tree_ok (Suc k) (cj_tree (v_base V) (cj_sig sg))"
proof -
  assume "base64_codec V"
  moreover have "list_all utf8_valid [''ed25519'', ''ml_dsa_65'']" by code_simp
  ultimately show ?thesis by (simp add: cj_sig_def base64_codec_utf8)
qed

lemma strs_tree: "list_all utf8_valid ss \<Longrightarrow> tree_ok (Suc k) (cj_tree P (cj_strs ss))"
  by (simp add: cj_strs_def list_all_iff)

lemma list_all_if: "list_all f (if b then xs else []) \<longleftrightarrow> (b \<longrightarrow> list_all f xs)"
  by simp

lemma receipt_values:
  assumes "base64_codec V" "receipt_utf8 r" "receipt_ints_safe r" "sh = Body \<or> safe_int (rc_sequence r)"
  shows "list_all (\<lambda>m. tree_ok (Suc (Suc n)) (cj_tree (v_base V) (snd m))) (receipt_members r sh)"
proof -
  have u: "list_all utf8_valid (rc_issuer_ids r)" "list_all utf8_valid (rc_granted_scope r)"
    "list_all (\<lambda>e. utf8_valid (ce_kind e) \<and> utf8_valid (ce_profile_digest e)) (rc_constraint_evaluators r)"
    "list_all (\<lambda>e. utf8_valid (ev_issuer_id e) \<and> utf8_valid (ev_status_key_id e) \<and> utf8_valid (ev_digest e))
       (rc_status_evidence r)"
    "list_all (\<lambda>e. 0 \<le> ev_sequence e \<and> safe_int (ev_sequence e) \<and> 0 \<le> ev_object_type e
       \<and> ev_object_type e < 2 ^ 16) (rc_status_evidence r)"
    using assms(2,3) by (simp_all add: receipt_utf8_def receipt_ints_safe_def)
  note t = strs_tree [OF u(1)] strs_tree [OF u(2)] evidence_tree [OF u(4,5)] evaluators_tree [OF u(3)]
    sig_tree [OF assms(1)]
  have "tree_ok (Suc (Suc n)) (cj_tree (v_base V) (case rc_context_policy_digest r of None \<Rightarrow> CNull | Some d \<Rightarrow> CStr d))"
    using assms(2) by (cases "rc_context_policy_digest r") (simp_all add: receipt_utf8_def)
  moreover have "sh \<noteq> Body \<longrightarrow> safe_int (rc_sequence r)" using assms(4) by blast
  ultimately show ?thesis
    using assms(2,3) base64_codec_utf8 [OF assms(1)]
    by (simp add: receipt_members_def receipt_cj_def list_all_if t int_token_dec_int
        receipt_utf8_def receipt_ints_safe_def del: if_split)
qed

lemma receipt_tree_ok:
  assumes "base64_codec V" "receipt_utf8 r" "receipt_ints_safe r" "sh = Body \<or> safe_int (rc_sequence r)"
  shows "tree_ok MAX_JSON_NESTING_DEPTH (cj_tree (v_base V) (receipt_cj r sh))"
proof -
  have "list_all (\<lambda>m. tree_ok (Suc (Suc 13)) (cj_tree (v_base V) (snd m))) (receipt_members r sh)"
    by (rule receipt_values [OF assms])
  moreover have "list_all (\<lambda>m. utf8_valid (fst m)) (receipt_members r sh)"
    using receipt_keys_utf8 by (auto simp: list_all_iff)
  ultimately show ?thesis
    using receipt_keys [of r sh]
    by (simp add: receipt_cj_members MAX_JSON_NESTING_DEPTH_def list_all_iff comp_def case_prod_beta')
qed

lemma receipt_nulls_fine: "nulls_fine (receipt_cj r sh)"
proof -
  have t: "nulls_fine (evidence_cj es)" "nulls_fine (evaluator_refs_cj cs)" "nulls_fine (cj_strs ss)"
    "nulls_fine (cj_sig sg)" for es cs ss sg
    by (simp_all add: evidence_cj_def evaluator_refs_cj_def cj_strs_def cj_sig_def list_all_iff)
  have "''context_policy_digest'' \<in> set NULLABLE_MEMBERS" by code_simp
  then have "list_all (\<lambda>(k, c). k = ''params'' \<or> c = CNull \<and> k \<in> set NULLABLE_MEMBERS \<or> nulls_fine c) (receipt_members r sh)"
    by (cases "rc_context_policy_digest r")
      (simp_all add: receipt_members_def receipt_cj_def list_all_if t del: if_split)
  with receipt_keys [of r sh] show ?thesis by (simp add: receipt_cj_members)
qed

lemma receipt_bytes_fine:
  assumes "set tb \<subseteq> {''previous_receipt_hash''}"
  shows "bytes_fine tb [''bundle_hash''] 0 (receipt_cj r sh)"
proof -
  have "list_all (\<lambda>k. k \<notin> set WIRE_BYTE_FIELDS) [''digest'', ''issuer_id'', ''object_type_code'',
      ''sequence'', ''status_key_id'', ''profile_digest'', ''type'']" by code_simp
  then have inner: "\<not> byte_field tb tt (Suc (Suc d)) k" if "k \<in> set [''digest'', ''issuer_id'', ''object_type_code'',
      ''sequence'', ''status_key_id'', ''profile_digest'', ''type'']" for d k tt
    using that unfolding list_all_iff byte_field_def by auto
  have t: "bytes_fine tb tt (Suc 0) (evidence_cj es)" "bytes_fine tb tt (Suc 0) (evaluator_refs_cj cs)"
    "bytes_fine tb tt d (cj_strs ss)" "bytes_fine tb tt d (cj_sig sg)" for es cs ss sg tt d
    using inner by (simp_all add: evidence_cj_def evaluator_refs_cj_def cj_strs_def cj_sig_def list_all_iff)
  have "list_all (\<lambda>k. (k \<in> set WIRE_BYTE_FIELDS \<longrightarrow> k = ''bundle_hash'') \<and> k \<noteq> ''previous_receipt_hash'')
      [''bundle_hash'', ''challenge_assessment'', ''context_assessment'', ''context_policy_digest'', ''decision'',
       ''decision_reason'', ''identity_status'', ''required_scope'', ''status_assessment'', ''trust_assessment'',
       ''verifier_id'', ''agent_id'', ''human_id'', ''log_id'']" by code_simp
  then have k: "list_all (\<lambda>k. \<not> byte_field tb [''bundle_hash''] (Suc 0) k)
      [''bundle_hash'', ''challenge_assessment'', ''context_assessment'', ''context_policy_digest'', ''decision'',
       ''decision_reason'', ''identity_status'', ''required_scope'', ''status_assessment'', ''trust_assessment'',
       ''verifier_id'', ''agent_id'', ''human_id'', ''log_id'']"
    by (rule list.pred_mono_strong) (use assms in \<open>auto simp: byte_field_def\<close>)
  have "list_all (\<lambda>(k, c). (case c of CStr s \<Rightarrow> \<not> byte_field tb [''bundle_hash''] (0 + 1) k | _ \<Rightarrow> True)
      \<and> (k \<noteq> ''params'' \<longrightarrow> bytes_fine tb [''bundle_hash''] (0 + 1) c)) (receipt_members r sh)"
    using k
    by (cases "rc_context_policy_digest r")
      (simp_all add: receipt_members_def receipt_cj_def list_all_if t del: if_split,
       simp_all add: evidence_cj_def evaluator_refs_cj_def cj_strs_def cj_sig_def)
  with receipt_keys [of r sh] show ?thesis by (simp add: receipt_cj_members)
qed

section \<open>Reading a receipt back\<close>

lemma receipt_lookup:
  "map_of (receipt_members r sh) ''version'' = Some (CInt (rc_version r))"
  "map_of (receipt_members r sh) ''verifier_id'' = Some (CStr (rc_verifier_id r))"
  "map_of (receipt_members r sh) ''bundle_hash'' = Some (CStr (rc_bundle_hash r))"
  "map_of (receipt_members r sh) ''issuer_ids'' = Some (cj_strs (rc_issuer_ids r))"
  "map_of (receipt_members r sh) ''decision'' = Some (CStr (rc_decision r))"
  "map_of (receipt_members r sh) ''decision_reason'' = Some (CStr (rc_decision_reason r))"
  "map_of (receipt_members r sh) ''identity_status'' = Some (CStr (rc_identity_status r))"
  "map_of (receipt_members r sh) ''trust_assessment'' = Some (CStr (rc_trust_assessment r))"
  "map_of (receipt_members r sh) ''status_assessment'' = Some (CStr (rc_status_assessment r))"
  "map_of (receipt_members r sh) ''challenge_assessment'' = Some (CStr (rc_challenge_assessment r))"
  "map_of (receipt_members r sh) ''context_assessment'' = Some (CStr (rc_context_assessment r))"
  "map_of (receipt_members r sh) ''context_policy_digest'' =
     Some (case rc_context_policy_digest r of None \<Rightarrow> CNull | Some d \<Rightarrow> CStr d)"
  "map_of (receipt_members r sh) ''verified_at'' = Some (CInt (rc_verified_at r))"
  "map_of (receipt_members r sh) ''required_scope'' = Some (CStr (rc_required_scope r))"
  "map_of (receipt_members r sh) ''granted_scope'' = Some (cj_strs (rc_granted_scope r))"
  "map_of (receipt_members r sh) ''status_evidence_digests'' = Some (evidence_cj (rc_status_evidence r))"
  by (simp_all add: receipt_members_def receipt_cj_def)

lemma receipt_lookup_optional:
  "map_of (receipt_members r sh) ''agent_id'' = (if rc_agent_id r = [] then None else Some (CStr (rc_agent_id r)))"
  "map_of (receipt_members r sh) ''human_id'' = (if rc_human_id r = [] then None else Some (CStr (rc_human_id r)))"
  "map_of (receipt_members r sh) ''constraint_evaluators'' =
     (if rc_constraint_evaluators r = [] then None else Some (evaluator_refs_cj (rc_constraint_evaluators r)))"
  "map_of (receipt_members r sh) ''log_id'' = (if sh = Body then None else Some (CStr (rc_log_id r)))"
  "map_of (receipt_members r sh) ''previous_receipt_hash'' =
     (if sh = Body then None else Some (CBytes (rc_previous_receipt_hash r)))"
  "map_of (receipt_members r sh) ''sequence'' = (if sh = Body then None else Some (CInt (rc_sequence r)))"
  "map_of (receipt_members r sh) ''signature'' = (if sh = Wire then Some (cj_sig (rc_signature r)) else None)"
  by (simp_all add: receipt_members_def receipt_cj_def)

lemma get_str_or_empty:
  "fields P ms fs \<Longrightarrow> map_of fs k = (if s = [] then None else Some (CStr s)) \<Longrightarrow> obj_str ms k = Ok s"
  by (cases "s = []") (simp_all add: get_absent get_str)

lemma evidence_entry_reads:
  assumes "reads P v (CObj [(''digest'', CStr (ev_digest e)), (''issuer_id'', CStr (ev_issuer_id e)),
      (''object_type_code'', CInt (ev_object_type e)), (''sequence'', CInt (ev_sequence e)),
      (''status_key_id'', CStr (ev_status_key_id e))])"
    and "safe_int (ev_sequence e)" "0 \<le> ev_object_type e" "ev_object_type e < 2 ^ 16"
  shows "evidence_entry_from P v = Ok e"
proof -
  obtain ms where ms: "obj v = Ok ms" "fields P ms [(''digest'', CStr (ev_digest e)),
      (''issuer_id'', CStr (ev_issuer_id e)), (''object_type_code'', CInt (ev_object_type e)),
      (''sequence'', CInt (ev_sequence e)), (''status_key_id'', CStr (ev_status_key_id e))]"
    using assms(1) by (rule reads_obj) simp
  note f = ms(2)
  have "\<not> is_null v" using reads_null [OF assms(1)] by simp
  moreover have "obj_only P ms [''digest'', ''issuer_id'', ''object_type_code'', ''sequence'', ''status_key_id''] = Ok ()"
    by (rule fields_only [OF f]) simp
  moreover have "obj_str ms ''digest'' = Ok (ev_digest e)" "obj_str ms ''issuer_id'' = Ok (ev_issuer_id e)"
    "obj_str ms ''status_key_id'' = Ok (ev_status_key_id e)" by (rule get_str [OF f], simp)+
  moreover have "obj_u16 ms ''object_type_code'' = Ok (ev_object_type e)"
    by (rule get_u16 [OF f]) (use assms in simp_all)
  moreover have "obj_i64 ms ''sequence'' = Ok (ev_sequence e)"
    by (rule get_i64 [OF f]) (use assms in simp_all)
  ultimately show ?thesis by (simp add: evidence_entry_from_def ms(1))
qed

lemma evaluator_reads:
  assumes "reads P v (CObj [(''profile_digest'', CStr (ce_profile_digest e)), (''type'', CStr (ce_kind e))])"
  shows "evaluator_from P v = Ok e"
proof -
  obtain ms where ms: "obj v = Ok ms" "fields P ms [(''profile_digest'', CStr (ce_profile_digest e)), (''type'', CStr (ce_kind e))]"
    using assms(1) by (rule reads_obj) simp
  have "obj_only P ms [''profile_digest'', ''type''] = Ok ()" by (rule fields_only [OF ms(2)]) simp
  moreover have "obj_str ms ''profile_digest'' = Ok (ce_profile_digest e)" "obj_str ms ''type'' = Ok (ce_kind e)"
    by (rule get_str [OF ms(2)], simp)+
  ultimately show ?thesis by (simp add: evaluator_from_def ms(1))
qed

text \<open>The fields of \<open>r\<close> that a shape carries.\<close>

definition receipt_part :: "shape \<Rightarrow> verification_receipt_v2 \<Rightarrow> verification_receipt_v2" where
  "receipt_part sh r =
     (case sh of
        Body \<Rightarrow> r\<lparr>rc_log_id := '''', rc_sequence := 0, rc_previous_receipt_hash := [], rc_signature := empty_signature\<rparr>
      | Signable \<Rightarrow> r\<lparr>rc_signature := empty_signature\<rparr>
      | Wire \<Rightarrow> r)"

lemma receipt_part_sel:
  "rc_log_id (receipt_part sh r) = (if sh = Body then '''' else rc_log_id r)"
  "rc_sequence (receipt_part sh r) = (if sh = Body then 0 else rc_sequence r)"
  "rc_previous_receipt_hash (receipt_part sh r) = (if sh = Body then [] else rc_previous_receipt_hash r)"
  "rc_signature (receipt_part sh r) = (if sh = Wire then rc_signature r else empty_signature)"
  by (simp_all add: receipt_part_def split: shape.splits)

lemma evidence_from_reads:
  assumes "fields P ms (receipt_members r sh)" "receipt_ints_safe r"
  shows "evidence_from P ms = Ok (rc_status_evidence r)"
proof -
  obtain vs where vs: "obj_array ms ''status_evidence_digests'' = Ok vs"
    "list_all2 (reads P) vs (map (\<lambda>e. CObj [(''digest'', CStr (ev_digest e)), (''issuer_id'', CStr (ev_issuer_id e)),
      (''object_type_code'', CInt (ev_object_type e)), (''sequence'', CInt (ev_sequence e)),
      (''status_key_id'', CStr (ev_status_key_id e))]) (rc_status_evidence r))"
    using get_array [OF assms(1) receipt_lookup(16) [unfolded evidence_cj_def]] .
  have "collect_results (evidence_entry_from P) vs = Ok (rc_status_evidence r)"
    by (rule collect_reads [OF vs(2)], rule evidence_entry_reads)
      (use assms(2) in \<open>auto simp: receipt_ints_safe_def list_all_iff\<close>)
  with vs(1) show ?thesis by (simp add: evidence_from_def)
qed

lemma evaluators_from_reads:
  assumes "fields P ms (receipt_members r sh)"
  shows "evaluators_from P ms = Ok (rc_constraint_evaluators r)"
proof (cases "rc_constraint_evaluators r = []")
  case True
  then show ?thesis
    using get_absent(4) [OF assms] by (simp add: evaluators_from_def receipt_lookup_optional(3))
next
  case False
  then have m: "map_of (receipt_members r sh) ''constraint_evaluators'' = Some (evaluator_refs_cj (rc_constraint_evaluators r))"
    by (simp add: receipt_lookup_optional(3))
  obtain vs where vs: "obj_array ms ''constraint_evaluators'' = Ok vs"
    "list_all2 (reads P) vs (map (\<lambda>r. CObj [(''profile_digest'', CStr (ce_profile_digest r)),
     (''type'', CStr (ce_kind r))]) (rc_constraint_evaluators r))"
    using get_array [OF assms m [unfolded evaluator_refs_cj_def]] .
  have "collect_results (evaluator_from P) vs = Ok (rc_constraint_evaluators r)"
    by (rule collect_reads [OF vs(2)]) (rule evaluator_reads)
  with vs(1) show ?thesis by (simp add: evaluators_from_def)
qed

lemma receipt_from_reads:
  assumes f: "fields (v_base V) ms (receipt_members r sh)" and codec: "base64_codec V"
    and safe: "receipt_ints_safe r" "sh = Body \<or> safe_int (rc_sequence r)"
  shows "receipt_from V ms = Ok (receipt_part sh r)"
proof -
  have safe': "safe_int (rc_version r)" "safe_int (rc_verified_at r)"
    using safe(1) by (simp_all add: receipt_ints_safe_def)
  note strs = receipt_lookup(2,3,5,6,7,8,9,10,11,14) [of r sh, THEN get_str [OF f]]
  have "obj_opt_str ms ''context_policy_digest'' = Ok (rc_context_policy_digest r)"
    using get_opt_null [OF f] get_opt_str [OF f] receipt_lookup(12) [of r sh]
    by (cases "rc_context_policy_digest r") simp_all
  moreover have "obj_str ms ''log_id'' = Ok (rc_log_id (receipt_part sh r))"
    using get_absent(1) [OF f] get_str [OF f] receipt_lookup_optional(4) [of r sh]
    by (cases "sh = Body") (simp_all add: receipt_part_sel)
  moreover have "obj_i64 ms ''sequence'' = Ok (rc_sequence (receipt_part sh r))"
    using get_absent(2) [OF f] get_i64 [OF f] receipt_lookup_optional(6) [of r sh] safe(2)
    by (cases "sh = Body") (simp_all add: receipt_part_sel)
  moreover have "obj_bytes V ms ''previous_receipt_hash'' = Ok (rc_previous_receipt_hash (receipt_part sh r))"
    using get_absent(3) [OF f] get_bytes [OF f _ codec] receipt_lookup_optional(5) [of r sh]
    by (cases "sh = Body") (simp_all add: receipt_part_sel)
  moreover have "obj_sig V ms ''signature'' = Ok (rc_signature (receipt_part sh r))"
    using get_absent(6) [OF f] get_sig [OF f _ codec] receipt_lookup_optional(7) [of r sh]
    by (cases "sh = Wire") (simp_all add: receipt_part_sel empty_signature_def)
  moreover have "obj_i64 ms ''version'' = Ok (rc_version r)" "obj_i64 ms ''verified_at'' = Ok (rc_verified_at r)"
    by (rule get_i64 [OF f], simp add: receipt_lookup, rule safe')+
  moreover have "obj_str_array ms ''issuer_ids'' = Ok (rc_issuer_ids r)"
    "obj_str_array ms ''granted_scope'' = Ok (rc_granted_scope r)"
    by (rule get_strs [OF f], simp add: receipt_lookup)+
  moreover note strs get_str_or_empty [OF f receipt_lookup_optional(1)] get_str_or_empty [OF f receipt_lookup_optional(2)]
    evidence_from_reads [OF f safe(1)] evaluators_from_reads [OF f]
  ultimately show ?thesis
    unfolding receipt_from_def
    by (simp del: receipt_part_sel) (cases sh; simp add: receipt_part_def)
qed

text \<open>Only the fields a shape carries enter its text.\<close>

lemma receipt_cj_part: "receipt_cj (receipt_part sh r) sh = receipt_cj r sh"
  by (cases sh) (simp_all add: receipt_part_def receipt_cj_def)

lemma receipt_part_part [simp]: "receipt_part sh (receipt_part sh r) = receipt_part sh r"
  by (cases sh) (simp_all add: receipt_part_def)

lemma receipt_require:
  assumes f: "fields P ms (receipt_members r sh)"
    and "set names \<subseteq> fst ` set (receipt_members r sh)"
  shows "obj_require Q ms names [''context_policy_digest''] = Ok ()"
proof (rule fields_require [OF f])
  have "map_of (receipt_members r sh) n \<noteq> Some CNull" if "n \<noteq> ''context_policy_digest''" for n
  proof
    assume "map_of (receipt_members r sh) n = Some CNull"
    then have "(n, CNull) \<in> set (receipt_members r sh)" by (rule map_of_SomeD)
    with that show False
      by (auto simp: receipt_members_def receipt_cj_def evidence_cj_def evaluator_refs_cj_def cj_strs_def cj_sig_def
          split: if_splits)
  qed
  with assms(2) show "\<forall>n\<in>set names. n \<in> fst ` set (receipt_members r sh)
      \<and> (map_of (receipt_members r sh) n = Some CNull \<longrightarrow> n \<in> set [''context_policy_digest''])" by auto
  show "\<forall>c\<in>snd ` set (receipt_members r sh). canon (cj_tree P c) = JTok ''null'' \<longrightarrow> c = CNull"
  proof (intro ballI impI)
    fix c assume c: "c \<in> snd ` set (receipt_members r sh)" "canon (cj_tree P c) = JTok ''null''"
    have "case c of CRaw _ \<Rightarrow> False | CBool _ \<Rightarrow> False | _ \<Rightarrow> True"
      using c(1) by (auto simp: receipt_members_def receipt_cj_def evidence_cj_def evaluator_refs_cj_def cj_strs_def
          cj_sig_def split: if_splits option.splits)
    with c(2) show "c = CNull" by (cases c) auto
  qed
qed

section \<open>Validated receipts\<close>

lemma validate_receipt_basic:
  assumes "validate_receipt P r sg = Ok ()"
  shows "rc_version r = 2" "0 < rc_sequence r" "rc_sequence r \<le> MAX_SAFE" "valid_v2_timestamp (rc_verified_at r)"
    "sorted_evidence (rc_status_evidence r) (rc_issuer_ids r) (rc_verifier_id r) (rc_agent_id r)"
    "length (rc_log_id r) = 32" "lower_hex (rc_log_id r)" "validate_decision r = Ok ()"
    "sg \<longrightarrow> signature_lengths_ok (rc_signature r)"
  using assms by (simp_all add: validate_receipt_def Let_def reject_Ok bind_ok_Ok)

lemma validate_receipt_ints:
  assumes "validate_receipt P r sg = Ok ()"
  shows "receipt_ints_safe r" "safe_int (rc_sequence r)"
proof -
  note b = validate_receipt_basic [OF assms]
  show "safe_int (rc_sequence r)" using b(2,3) by (simp add: safe_int_def MAX_SAFE_def MAX_SAFE_INTEGER_def)
  have "0 \<le> ev_sequence e \<and> safe_int (ev_sequence e) \<and> 0 \<le> ev_object_type e \<and> ev_object_type e < 2 ^ 16"
    if "e \<in> set (rc_status_evidence r)" for e
  proof -
    have "evidence_entry_ok (rc_issuer_ids r) (rc_verifier_id r) (rc_agent_id r) e"
      using b(5) that by (simp add: sorted_evidence_def list_all_iff)
    then show ?thesis by (auto simp: evidence_entry_ok_def safe_int_def MAX_SAFE_def MAX_SAFE_INTEGER_def)
  qed
  with b(1,4) show "receipt_ints_safe r"
    by (auto simp: receipt_ints_safe_def list_all_iff safe_int_def MAX_SAFE_INTEGER_def
        valid_v2_timestamp_def V2_MAX_TIMESTAMP_SECONDS_def)
qed

text \<open>Whether the signature is checked is the only difference between the two validations.\<close>

lemma validate_receipt_unsigned:
  "validate_receipt P r True = Ok () \<longleftrightarrow> validate_receipt P r False = Ok () \<and> signature_lengths_ok (rc_signature r)"
  by (auto simp: validate_receipt_def Let_def reject_Ok bind_ok_Ok)

lemma validate_receipt_signature: "validate_receipt P (r\<lparr>rc_signature := x\<rparr>) False = validate_receipt P r False"
  by (simp add: validate_receipt_def validate_decision_def validate_allow_def validate_deny_def
      validate_indeterminate_def Let_def)

section \<open>Round trips\<close>

lemma receipt_fields_of:
  assumes "reads P x (receipt_cj r sh)"
  obtains ms where "obj x = Ok ms" "fields P ms (receipt_members r sh)"
  using assms receipt_keys unfolding receipt_cj_members by (rule reads_obj)

lemma receipt_canonical:
  assumes "base64_codec V" "receipt_utf8 r" "receipt_ints_safe r" "sh = Body \<or> safe_int (rc_sequence r)"
    and "set tb \<subseteq> {''previous_receipt_hash''}"
  obtains data x ms where "canonical (v_base V) (receipt_cj r sh) = Ok data"
    "parse_wire V data tb [''bundle_hash''] = Ok x" "reads (v_base V) x (receipt_cj r sh)"
    "obj x = Ok ms" "fields (v_base V) ms (receipt_members r sh)" "receipt_from V ms = Ok (receipt_part sh r)"
proof -
  obtain data x where x: "canonical (v_base V) (receipt_cj r sh) = Ok data"
    "parse_wire V data tb [''bundle_hash''] = Ok x" "reads (v_base V) x (receipt_cj r sh)"
    by (rule parse_wire_canonical [OF assms(1) receipt_tree_ok [OF assms(1-4)] receipt_nulls_fine
        receipt_bytes_fine [OF assms(5)]])
  obtain ms where ms: "obj x = Ok ms" "fields (v_base V) ms (receipt_members r sh)"
    using x(3) by (rule receipt_fields_of)
  show thesis
    by (rule that [OF x ms receipt_from_reads [OF ms(2) assms(1,3,4)]])
qed

lemma receipt_keys_required:
  "set BODY_REQUIRED \<subseteq> fst ` set (receipt_members r sh)"
  "sh \<noteq> Body \<Longrightarrow> set (butlast RECEIPT_FIELDS) \<subseteq> fst ` set (receipt_members r sh)"
  "set RECEIPT_FIELDS \<subseteq> fst ` set (receipt_members r Wire)"
  by (simp_all add: BODY_REQUIRED_def RECEIPT_FIELDS_def receipt_members_def receipt_cj_def)

lemma receipt_keys_allowed:
  "fst ` set (receipt_members r Body) \<subseteq> set (with_optional BODY_REQUIRED)"
  "fst ` set (receipt_members r Signable) \<subseteq> set (with_optional (butlast RECEIPT_FIELDS))"
  "fst ` set (receipt_members r Wire) \<subseteq> set (with_optional RECEIPT_FIELDS)"
  by (simp_all add: BODY_REQUIRED_def RECEIPT_FIELDS_def with_optional_def receipt_members_def receipt_cj_def
      image_Un) auto

lemma receipt_roundtrip:
  assumes "base64_codec V" "receipt_utf8 r" "encode_verification_receipt_v2 V r = Ok data"
  shows "decode_verification_receipt_v2 V data = Ok r"
proof -
  have v: "validate_receipt (v_base V) r True = Ok ()" and c: "canonical (v_base V) (receipt_cj r Wire) = Ok data"
    and size: "check_receipt_size data = Ok ()"
    using assms(3) by (auto simp: encode_verification_receipt_v2_def bind_ok_Ok)
  note safe = validate_receipt_ints [OF v]
  obtain data' x ms where x: "canonical (v_base V) (receipt_cj r Wire) = Ok data'"
    "parse_wire V data' [''previous_receipt_hash''] [''bundle_hash''] = Ok x"
    "obj x = Ok ms" "fields (v_base V) ms (receipt_members r Wire)" "receipt_from V ms = Ok (receipt_part Wire r)"
    by (rule receipt_canonical [OF assms(1,2) safe(1), of Wire "[''previous_receipt_hash'']"]) (use safe(2) in auto)
  moreover have "data' = data" using x(1) c by simp
  ultimately show ?thesis
    using size v assms(3) receipt_require [OF x(4) receipt_keys_required(3)]
      fields_only [OF x(4) receipt_keys_allowed(3)]
    by (simp add: decode_verification_receipt_v2_def receipt_part_def)
qed

lemma receipt_digest:
  assumes "base64_codec V" "receipt_utf8 r" "validate_receipt (v_base V) r False = Ok ()"
  obtains body where "verification_receipt_v2_signable_bytes V r = Ok body"
    "verification_receipt_v2_digest V r = Ok (sha384 V [STATEMENT_BODY_TAG, be16 (object_code VerificationReceipt), body])"
proof -
  let ?r = "receipt_part Signable r"
  note safe = validate_receipt_ints [OF assms(3)]
  obtain body x ms where x: "canonical (v_base V) (receipt_cj r Signable) = Ok body"
    "parse_wire V body [''previous_receipt_hash''] [''bundle_hash''] = Ok x" "reads (v_base V) x (receipt_cj r Signable)"
    "obj x = Ok ms" "fields (v_base V) ms (receipt_members r Signable)" "receipt_from V ms = Ok ?r"
    by (rule receipt_canonical [OF assms(1,2) safe(1), of Signable "[''previous_receipt_hash'']"]) (use safe(2) in auto)
  have keys: "fst ` set ms = fst ` set (receipt_members r Signable)" using x(5) by (simp add: fields_def)
  have "list_all (\<lambda>f. f \<notin> set (with_optional (butlast RECEIPT_FIELDS))) [''signature'', ''old_signature'', ''new_signature'']"
    by code_simp
  then have "find (\<lambda>f. f \<in> fst ` set ms) [''signature'', ''old_signature'', ''new_signature''] = None"
    using receipt_keys_allowed(2) [of r] unfolding find_None_iff keys list_all_iff by blast
  then have "excludes_signatures V x = Ok ()"
    using reads_VObj [OF x(4)] by (auto simp only: excludes_signatures_def jnode.sel jval.case option.case)
  moreover have "canonical (v_base V) (node_to_cj x) = Ok body"
    by (rule canonical_reads [OF x(3,1) receipt_tree_ok [OF assms(1,2) safe(1)]]) (use safe(2) in simp)
  moreover have "validate_receipt_signable_body V body = Ok ()"
  proof -
    have "validate_receipt (v_base V) ?r False = Ok ()"
      using assms(3) by (simp add: receipt_part_def validate_receipt_signature)
    moreover have "obj_get ms ''signature'' = None"
      using fields_absent [OF x(5)] by (simp add: receipt_lookup_optional)
    ultimately show ?thesis
      using x receipt_require [OF x(5) receipt_keys_required(2)] fields_only [OF x(5) receipt_keys_allowed(2)]
      by (simp add: validate_receipt_signable_body_def reject_def receipt_cj_part)
  qed
  ultimately have "receipt_statement_digest V body =
      Ok (sha384 V [STATEMENT_BODY_TAG, be16 (object_code VerificationReceipt), body])"
    using x(2) by (simp add: receipt_statement_digest_def statement_digest_def reject_def)
  with x(1) assms(3) show thesis
    by (intro that [of body])
      (simp_all add: verification_receipt_v2_digest_def verification_receipt_v2_signable_bytes_def)
qed

end
