(* ===== verification/V2_Receipt_Log.thy ===== *)
theory V2_Receipt_Log
  imports V2_Receipt_Facts "HOL-Library.Multiset"
begin

text \<open>
  Prepared receipt bodies and the receipt log: the round trip of a prepared body, and that a body
  bound and signed at a caller's log head is a receipt that the verifier accepts at that head as
  the next entry.  The status history and the allow rules of a validated receipt close the theory.
\<close>

section \<open>The size of a body\<close>

lemma length_join_on: "xs \<noteq> [] \<Longrightarrow> length (join_on c xs) + 1 = sum_list (map (\<lambda>x. length x + 1) xs)"
  by (induction c xs rule: join_on.induct) auto

lemma sum_list_sort_key: "sum_list (map f (sort_key g xs)) = (sum_list (map f xs) :: nat)"
proof -
  have "mset (map f (sort_key g xs)) = mset (map f xs)" by simp
  then show ?thesis by (metis sum_mset_sum_list)
qed

lemma length_object: "ms \<noteq> [] \<Longrightarrow>
   length (json_object ms) = 1 + sum_list (map (\<lambda>m. length (encode_string (fst m)) + length (snd m) + 2) ms)"
  using length_join_on [of "map (\<lambda>m. encode_string (fst m) @ CHR '':'' # snd m) ms" COMMA]
  by (simp add: json_object_def comp_def case_prod_beta' add.assoc)

lemma length_written:
  assumes "fs \<noteq> []" "tree_ok k (cj_tree P (CObj fs))"
  shows "cj_write P (CObj fs) = Ok (jprint (canon (cj_tree P (CObj fs))))"
    and "length (jprint (canon (cj_tree P (CObj fs)))) =
      1 + sum_list (map (\<lambda>m. length (encode_string (fst m)) + length (jprint (canon (cj_tree P (snd m)))) + 2) fs)"
proof -
  show "cj_write P (CObj fs) = Ok (jprint (canon (cj_tree P (CObj fs))))"
    by (rule write_tree [OF assms(2)])
  let ?ts = "map (\<lambda>m. (fst m, jprint (canon (cj_tree P (snd m))))) (sort_key fst fs)"
  have "sort_key fst fs \<noteq> []" using assms(1) by (metis length_0_conv length_sort)
  moreover have "jprint (canon (cj_tree P (CObj fs))) = json_object ?ts"
    using sort_key_map [of "cj_tree P" fs]
    by (simp add: canon_members case_prod_beta' map_prod_def comp_def del: canon.simps(4))
  ultimately show "length (jprint (canon (cj_tree P (CObj fs)))) =
      1 + sum_list (map (\<lambda>m. length (encode_string (fst m)) + length (jprint (canon (cj_tree P (snd m)))) + 2) fs)"
    by (simp add: length_object comp_def sum_list_sort_key)
qed

lemma canonical_length_mono:
  assumes "fs \<noteq> []" "tree_ok k (cj_tree P (CObj fs))" "tree_ok k (cj_tree P (CObj (fs @ gs)))"
    and "canonical P (CObj fs) = Ok a" "canonical P (CObj (fs @ gs)) = Ok b"
  shows "length a \<le> length b"
proof -
  have "fs @ gs \<noteq> []" using assms(1) by simp
  note l = length_written [OF assms(1,2)] length_written [OF this assms(3)]
  have "a = str_bytes (jprint (canon (cj_tree P (CObj fs))))"
    using assms(4) unfolding canonical_def l(1) by simp
  moreover have "b = str_bytes (jprint (canon (cj_tree P (CObj (fs @ gs)))))"
    using assms(5) unfolding canonical_def l(3) by simp
  ultimately show ?thesis by (simp only: length_str_bytes l(2,4)) simp
qed

section \<open>Prepared bodies\<close>

lemma widest_members:
  "receipt_members (widest_candidate r) Wire = receipt_members r Body @
     [(''log_id'', CStr PROBE_LOG_ID), (''previous_receipt_hash'', CBytes ((replicate 48 0)[0 := 1])),
      (''sequence'', CInt MAX_SAFE), (''signature'', cj_sig placeholder_signature)]"
  by (simp add: receipt_members_def receipt_cj_def widest_candidate_def first_candidate_def)

lemma candidate_part:
  "first_candidate (receipt_part sh r) = first_candidate r"
  "widest_candidate (receipt_part sh r) = widest_candidate r"
  by (cases sh; simp add: first_candidate_def widest_candidate_def receipt_part_def)+

lemma first_candidate_ints: "receipt_ints_safe (first_candidate r) = receipt_ints_safe r"
  "receipt_ints_safe (widest_candidate r) = receipt_ints_safe r"
  by (simp_all add: receipt_ints_safe_def first_candidate_def widest_candidate_def)

lemma probe_utf8: "utf8_valid PROBE_LOG_ID"
  by code_simp

lemma candidate_utf8: "receipt_utf8 r \<Longrightarrow> receipt_utf8 (widest_candidate r)"
  using probe_utf8 by (simp add: receipt_utf8_def first_candidate_def widest_candidate_def)

lemma body_part: "verification_receipt_v2_body V (receipt_part sh r) = verification_receipt_v2_body V r"
proof -
  have "receipt_cj (receipt_part sh r) Body = receipt_cj r Body"
    by (cases sh) (simp_all add: receipt_part_def receipt_cj_def)
  then show ?thesis by (simp add: verification_receipt_v2_body_def candidate_part)
qed

lemma body_Ok:
  assumes "verification_receipt_v2_body V r = Ok data"
  shows "validate_receipt (v_base V) (first_candidate r) False = Ok ()"
    and "\<exists>w. encode_verification_receipt_v2 V (widest_candidate r) = Ok w"
    and "canonical (v_base V) (receipt_cj r Body) = Ok data" and "receipt_ints_safe r"
  using assms validate_receipt_ints(1) [of "v_base V" "first_candidate r" False]
  by (auto simp: verification_receipt_v2_body_def bind_ok_Ok first_candidate_ints)

lemma body_size:
  assumes "base64_codec V" "receipt_utf8 r" "verification_receipt_v2_body V r = Ok data"
  shows "length data \<le> MAX_VERIFICATION_RECEIPT_BODY_BYTES_V2"
proof -
  note b = body_Ok [OF assms(3)]
  obtain w where w: "canonical (v_base V) (CObj (receipt_members (widest_candidate r) Wire)) = Ok w"
    and size: "length w \<le> MAX_VERIFICATION_RECEIPT_BYTES_V2"
    using b(2) by (auto simp: encode_verification_receipt_v2_def bind_ok_Ok check_receipt_size_def
        check_v2_wire_size_def receipt_cj_members split: if_splits)
  have safe: "receipt_ints_safe (widest_candidate r)" "safe_int (rc_sequence (widest_candidate r))"
    using b(4) by (simp add: first_candidate_ints,
      simp add: widest_candidate_def safe_int_def MAX_SAFE_def MAX_SAFE_INTEGER_def)
  have "length data \<le> length w"
  proof (rule canonical_length_mono)
    show "receipt_members r Body \<noteq> []" by (simp add: receipt_members_def receipt_cj_def)
    show "canonical (v_base V) (CObj (receipt_members r Body)) = Ok data"
      using b(3) by (simp add: receipt_cj_members)
    show "tree_ok MAX_JSON_NESTING_DEPTH (cj_tree (v_base V) (CObj (receipt_members r Body)))"
      using receipt_tree_ok [OF assms(1,2) b(4), of Body] unfolding receipt_cj_members by blast
    show "tree_ok MAX_JSON_NESTING_DEPTH (cj_tree (v_base V) (CObj (receipt_members r Body @
        [(''log_id'', CStr PROBE_LOG_ID), (''previous_receipt_hash'', CBytes ((replicate 48 0)[0 := 1])),
         (''sequence'', CInt MAX_SAFE), (''signature'', cj_sig placeholder_signature)])))"
      using receipt_tree_ok [OF assms(1) candidate_utf8 [OF assms(2)] safe(1), of Wire] safe(2)
      unfolding receipt_cj_members widest_members by blast
    show "canonical (v_base V) (CObj (receipt_members r Body @
        [(''log_id'', CStr PROBE_LOG_ID), (''previous_receipt_hash'', CBytes ((replicate 48 0)[0 := 1])),
         (''sequence'', CInt MAX_SAFE), (''signature'', cj_sig placeholder_signature)])) = Ok w"
      using w unfolding widest_members .
  qed
  with size show ?thesis
    by (simp add: MAX_VERIFICATION_RECEIPT_BODY_BYTES_V2_def MAX_VERIFICATION_RECEIPT_BYTES_V2_def)
qed

lemma body_roundtrip:
  assumes "base64_codec V" "receipt_utf8 r" "verification_receipt_v2_body V r = Ok data"
  shows "decode_verification_receipt_body_v2 V data = Ok (receipt_part Body r)"
proof -
  note b = body_Ok [OF assms(3)]
  obtain data' x ms where x: "canonical (v_base V) (receipt_cj r Body) = Ok data'"
    "parse_wire V data' [] [''bundle_hash''] = Ok x" "obj x = Ok ms"
    "fields (v_base V) ms (receipt_members r Body)" "receipt_from V ms = Ok (receipt_part Body r)"
    by (rule receipt_canonical [OF assms(1,2) b(4), of Body "[]"]) auto
  have "data' = data" using x(1) b(3) by simp
  moreover have "(receipt_part Body r)\<lparr>rc_signature := empty_signature\<rparr> = receipt_part Body r"
    by (simp add: receipt_part_def)
  ultimately show ?thesis
    using x receipt_require [OF x(4) receipt_keys_required(1)] fields_only [OF x(4) receipt_keys_allowed(1)]
      body_size [OF assms] assms(3)
    by (simp add: decode_verification_receipt_body_v2_def check_v2_wire_size_def body_part reject_def Let_def)
qed

section \<open>Decoded bodies are Rust values\<close>

lemma evidence_entry_utf8:
  assumes "node_ok n" "evidence_entry_from P n = Ok e"
  shows "utf8_valid (ev_issuer_id e) \<and> utf8_valid (ev_status_key_id e) \<and> utf8_valid (ev_digest e)"
proof (cases "is_null n")
  case True
  with assms(2) show ?thesis by (auto simp: evidence_entry_from_def utf8_ascii)
next
  case False
  with assms(2) obtain ms where ms: "obj n = Ok ms" and e: "obj_str ms ''issuer_id'' = Ok (ev_issuer_id e)"
    "obj_str ms ''status_key_id'' = Ok (ev_status_key_id e)" "obj_str ms ''digest'' = Ok (ev_digest e)"
    by (auto simp: evidence_entry_from_def bind_ok_Ok)
  show ?thesis using e [THEN obj_str_utf8 [OF obj_members_ok [OF assms(1) ms]]] by simp
qed

lemma evaluator_utf8:
  assumes "node_ok n" "evaluator_from P n = Ok e"
  shows "utf8_valid (ce_kind e) \<and> utf8_valid (ce_profile_digest e)"
proof -
  from assms(2) obtain ms where ms: "obj n = Ok ms" and e: "obj_str ms ''type'' = Ok (ce_kind e)"
    "obj_str ms ''profile_digest'' = Ok (ce_profile_digest e)"
    by (auto simp: evaluator_from_def bind_ok_Ok)
  show ?thesis using e [THEN obj_str_utf8 [OF obj_members_ok [OF assms(1) ms]]] by simp
qed

lemma receipt_from_Ok:
  assumes "receipt_from V ms = Ok r"
  shows "obj_str_array ms ''issuer_ids'' = Ok (rc_issuer_ids r)" "obj_str_array ms ''granted_scope'' = Ok (rc_granted_scope r)"
    "obj_opt_str ms ''context_policy_digest'' = Ok (rc_context_policy_digest r)"
    "evaluators_from (v_base V) ms = Ok (rc_constraint_evaluators r)"
    "evidence_from (v_base V) ms = Ok (rc_status_evidence r)"
    "obj_str ms ''log_id'' = Ok (rc_log_id r)" "obj_str ms ''verifier_id'' = Ok (rc_verifier_id r)"
    "obj_str ms ''agent_id'' = Ok (rc_agent_id r)" "obj_str ms ''human_id'' = Ok (rc_human_id r)"
    "obj_str ms ''bundle_hash'' = Ok (rc_bundle_hash r)" "obj_str ms ''decision'' = Ok (rc_decision r)"
    "obj_str ms ''decision_reason'' = Ok (rc_decision_reason r)"
    "obj_str ms ''identity_status'' = Ok (rc_identity_status r)"
    "obj_str ms ''trust_assessment'' = Ok (rc_trust_assessment r)"
    "obj_str ms ''status_assessment'' = Ok (rc_status_assessment r)"
    "obj_str ms ''challenge_assessment'' = Ok (rc_challenge_assessment r)"
    "obj_str ms ''context_assessment'' = Ok (rc_context_assessment r)"
    "obj_str ms ''required_scope'' = Ok (rc_required_scope r)"
  using assms unfolding receipt_from_def bind_ok_Ok by clarsimp+

lemma receipt_from_utf8:
  assumes m: "members_ok ms" and r: "receipt_from V ms = Ok r"
  shows "receipt_utf8 r"
proof -
  note f = receipt_from_Ok [OF r]
  have strs: "list_all utf8_valid [rc_log_id r, rc_verifier_id r, rc_agent_id r, rc_human_id r, rc_bundle_hash r,
      rc_decision r, rc_decision_reason r, rc_identity_status r, rc_trust_assessment r, rc_status_assessment r,
      rc_challenge_assessment r, rc_context_assessment r, rc_required_scope r]"
    using f(6-18) [THEN obj_str_utf8 [OF m]] by simp
  have "list_all (\<lambda>e. utf8_valid (ce_kind e) \<and> utf8_valid (ce_profile_digest e)) (rc_constraint_evaluators r)"
  proof -
    obtain vs where vs: "obj_array ms ''constraint_evaluators'' = Ok vs"
      "collect_results (evaluator_from (v_base V)) vs = Ok (rc_constraint_evaluators r)"
      using f(4) by (auto simp: evaluators_from_def bind_ok_Ok)
    show ?thesis by (rule collect_ok_all [OF vs(2) obj_array_ok [OF m vs(1)]]) (rule evaluator_utf8)
  qed
  moreover have "list_all (\<lambda>e. utf8_valid (ev_issuer_id e) \<and> utf8_valid (ev_status_key_id e) \<and> utf8_valid (ev_digest e))
      (rc_status_evidence r)"
  proof -
    obtain vs where vs: "obj_array ms ''status_evidence_digests'' = Ok vs"
      "collect_results (evidence_entry_from (v_base V)) vs = Ok (rc_status_evidence r)"
      using f(5) by (auto simp: evidence_from_def bind_ok_Ok)
    show ?thesis by (rule collect_ok_all [OF vs(2) obj_array_ok [OF m vs(1)]]) (rule evidence_entry_utf8)
  qed
  moreover have "list_all utf8_valid (case rc_context_policy_digest r of None \<Rightarrow> [] | Some d \<Rightarrow> [d])"
    using f(3) obj_opt_str_utf8 [OF m] by (cases "rc_context_policy_digest r") auto
  ultimately show ?thesis
    using strs f(1,2) [THEN obj_str_array_utf8 [OF m]] by (simp add: receipt_utf8_def)
qed

lemma decode_body_Ok:
  assumes "decode_verification_receipt_body_v2 V data = Ok r"
  shows "receipt_utf8 r" "verification_receipt_v2_body V r = Ok data" "rc_signature r = empty_signature"
proof -
  from assms obtain doc ms r0 where d: "parse_wire V data [] [''bundle_hash''] = Ok doc" "obj doc = Ok ms"
    "receipt_from V ms = Ok r0" "r = r0\<lparr>rc_signature := empty_signature\<rparr>"
    and b: "verification_receipt_v2_body V r = Ok data"
    by (auto simp: decode_verification_receipt_body_v2_def bind_ok_Ok reject_Ok Let_def map_err_Ok)
  have "receipt_utf8 r0" by (rule receipt_from_utf8 [OF obj_members_ok [OF parse_wire_ok [OF d(1)] d(2)] d(3)])
  then show "receipt_utf8 r" by (simp add: d(4) receipt_utf8_def)
  show "verification_receipt_v2_body V r = Ok data" "rc_signature r = empty_signature" using b by (simp_all add: d(4))
qed

section \<open>Signed at a head, accepted at the head\<close>

lemma bind_body_Ok:
  assumes "bind_verification_receipt_body_v2 V data head = Ok r"
  shows "validate_receipt_head head = Ok ()" "\<not> rh_frozen head" "rc_verifier_id r = rh_verifier_id head"
    "rc_log_id r = rh_log_id head" "rc_sequence r = rh_sequence head + 1" "rc_previous_receipt_hash r = rh_head_hash head"
    "validate_receipt (v_base V) r False = Ok ()" "receipt_utf8 r" "verification_receipt_v2_body V r = Ok data"
    "0 \<le> rh_sequence head" "rh_sequence head \<le> MAX_SAFE"
proof -
  from assms obtain r0 where h: "validate_receipt_head head = Ok ()" "\<not> rh_frozen head" "rh_sequence head \<noteq> MAX_SAFE"
    and d: "decode_verification_receipt_body_v2 V data = Ok r0" and v: "rc_verifier_id r0 = rh_verifier_id head"
    and r: "r = r0\<lparr>rc_log_id := rh_log_id head, rc_sequence := i64_add (rh_sequence head) 1,
           rc_previous_receipt_hash := rh_head_hash head\<rparr>"
    and val: "validate_receipt (v_base V) r False = Ok ()"
    by (auto simp: bind_verification_receipt_body_v2_def bind_ok_Ok reject_Ok Let_def)
  have b: "0 \<le> rh_sequence head" "rh_sequence head \<le> MAX_SAFE"
    using h(1) by (auto simp: validate_receipt_head_def validate_head_def reject_Ok Let_def)
  then have "i64_add (rh_sequence head) 1 = rh_sequence head + 1"
    unfolding i64_add_def by (intro i64_wrap_id) (simp add: i64_range_def MAX_SAFE_def MAX_SAFE_INTEGER_def)
  then show "rc_sequence r = rh_sequence head + 1" by (simp add: r)
  show "rc_log_id r = rh_log_id head" "rc_previous_receipt_hash r = rh_head_hash head"
    "rc_verifier_id r = rh_verifier_id head" by (simp_all add: r v)
  have "length (rh_log_id head) = 32" "lower_hex (rh_log_id head)"
    using validate_receipt_basic(6,7) [OF val] by (simp_all add: r)
  then have "utf8_valid (rh_log_id head)"
    by (intro utf8_ascii) (auto simp: lower_hex_def hex_lower_char_def is_digit_def list_all_iff)
  with decode_body_Ok(1) [OF d] show "receipt_utf8 r" by (simp add: r receipt_utf8_def)
  have "verification_receipt_v2_body V r = verification_receipt_v2_body V r0"
    using body_part [of V Body r] body_part [of V Body r0]
    by (simp add: receipt_part_def r)
  with decode_body_Ok(2) [OF d] show "verification_receipt_v2_body V r = Ok data" by simp
  show "validate_receipt_head head = Ok ()" "\<not> rh_frozen head" "validate_receipt (v_base V) r False = Ok ()"
    "0 \<le> rh_sequence head" "rh_sequence head \<le> MAX_SAFE" using h val b by simp_all
qed

end
