(* ===== verification/V2_Receipt_Rules.thy ===== *)
theory V2_Receipt_Rules
  imports V2_Receipt_Log
begin

text \<open>
  What the rules of \<open>validate_receipt\<close> amount to: the shape of an accepted status history, the
  conditions of an allow, and that a body signed at a caller's log head is accepted there.
\<close>

section \<open>Signed at a head, accepted at the head\<close>

lemma receipt_cj_signature: "receipt_cj (r\<lparr>rc_signature := x\<rparr>) Signable = receipt_cj r Signable"
  by (simp add: receipt_cj_def)

lemma sign_receipt_Ok:
  assumes "sign_verification_receipt_v2_with_signer V ctx b signer = Ok r"
  obtains sg body where "r = b\<lparr>rc_signature := sg\<rparr>" "key_id_v2 V (sg_public_key signer) = Ok (rc_verifier_id b)"
    "verification_receipt_v2_signable_bytes V b = Ok body"
    "verify_v2_statement V VerificationReceipt body sg (sg_public_key signer) = Ok ()"
    "validate_receipt (v_base V) b False = Ok ()" "is_ok (encode_verification_receipt_v2 V r)"
proof -
  let ?pk = "sg_public_key signer"
  from assms have v: "validate_receipt (v_base V) b False = Ok ()" and k: "key_id_v2 V ?pk = Ok (rc_verifier_id b)"
    by (auto simp: sign_verification_receipt_v2_with_signer_def bind_ok_Ok map_err_Ok signer_public_key_Ok
        split: if_splits)
  then have "signer_public_key_v2 V signer = Ok ?pk" by (simp add: signer_public_key_Ok is_ok_def)
  with assms v k obtain body sg where t: "verification_receipt_v2_signable_bytes V b = Ok body"
    and s: "sign_v2_statement_with_signer V ctx VerificationReceipt body signer ?pk = Ok sg"
    and e: "is_ok (encode_verification_receipt_v2 V r)" "r = b\<lparr>rc_signature := sg\<rparr>"
    by (auto simp: sign_verification_receipt_v2_with_signer_def bind_ok_Ok map_err_Ok is_ok_def)
  from sign_v2_statement_verified [OF s]
  have "verify_v2_statement V VerificationReceipt body sg ?pk = Ok ()" by blast
  then show thesis by (rule that [OF e(2) k t _ v e(1)])
qed

lemma sign_prepared_accepted:
  assumes "base64_codec V" "sign_prepared_verification_receipt_v2_with_signer V ctx data head signer = Ok r"
  shows "verify_verification_receipt_v2 V r (sg_public_key signer) head = Ok Appended"
    and "verification_receipt_v2_body V r = Ok data"
proof -
  let ?pk = "sg_public_key signer"
  from assms(2) obtain b where b: "bind_verification_receipt_body_v2 V data head = Ok b"
    and s: "sign_verification_receipt_v2_with_signer V ctx b signer = Ok r"
    and body: "verification_receipt_v2_body V r = Ok data"
    by (auto simp: sign_prepared_verification_receipt_v2_with_signer_def bind_ok_Ok map_err_Ok split: if_splits)
  note h = bind_body_Ok [OF b]
  obtain sg msg where r: "r = b\<lparr>rc_signature := sg\<rparr>" and k: "key_id_v2 V ?pk = Ok (rc_verifier_id b)"
    and t: "verification_receipt_v2_signable_bytes V b = Ok msg"
    and v: "verify_v2_statement V VerificationReceipt msg sg ?pk = Ok ()"
    and enc: "is_ok (encode_verification_receipt_v2 V r)"
    using s by (rule sign_receipt_Ok)
  have val: "validate_receipt (v_base V) r False = Ok ()" using h(7) by (simp add: r validate_receipt_signature)
  have "receipt_utf8 r" using h(8) by (simp add: r receipt_utf8_def)
  then obtain d where d: "verification_receipt_v2_digest V r = Ok d"
    using receipt_digest [OF assms(1) _ val] by blast
  have t': "verification_receipt_v2_signable_bytes V r = Ok msg"
    using t by (simp add: r verification_receipt_v2_signable_bytes_def receipt_cj_signature)
  obtain w where w: "encode_verification_receipt_v2 V r = Ok w" using enc by (auto simp: is_ok_def split: sum.splits)
  then have "validate_receipt (v_base V) r True = Ok ()" by (auto simp: encode_verification_receipt_v2_def bind_ok_Ok)
  moreover have "log_position (rc_sequence r) (rc_previous_receipt_hash r) d (rh_sequence head) (rh_head_hash head)
      (rh_accepted head) (rh_frozen head) (rh_log_id head) = Ok Appended"
    using h(2,5,6,10,11) by (simp add: log_position_Appended r)
  ultimately show "verify_verification_receipt_v2 V r ?pk head = Ok Appended"
    using w h(1,3,4) k v t' d by (simp add: verify_verification_receipt_v2_def reject_as_def r)
  show "verification_receipt_v2_body V r = Ok data" by (rule body)
qed

section \<open>The status history of one issuer\<close>

abbreviation lists_of :: "status_evidence_entry_v2 list \<Rightarrow> status_evidence_entry_v2 list" where
  "lists_of es \<equiv> filter (\<lambda>e. ev_object_type e = 3) es"

abbreviation pushes_of :: "status_evidence_entry_v2 list \<Rightarrow> status_evidence_entry_v2 list" where
  "pushes_of es \<equiv> filter (\<lambda>e. ev_object_type e \<noteq> 3) es"

lemma issuer_scan_Some:
  "issuer_scan base key pushes es = Some (base', pushes') \<Longrightarrow>
   \<forall>e\<in>set es. 0 < ev_sequence e \<and> ev_status_key_id e \<noteq> [] \<Longrightarrow> distinct pushes \<Longrightarrow>
     pushes' = pushes @ map ev_sequence (pushes_of es) \<and> distinct pushes'
     \<and> (\<exists>k. (key \<noteq> [] \<longrightarrow> k = key) \<and> (\<forall>e\<in>set es. ev_status_key_id e = k))
     \<and> (if base \<noteq> 0 then base' = base \<and> lists_of es = []
        else if lists_of es = [] then base' = 0 else map ev_sequence (lists_of es) = [base'])"
proof (induction es arbitrary: base key pushes)
  case Nil
  then show ?case by auto
next
  case (Cons e es)
  let ?key = "if key = [] then ev_status_key_id e else key"
  have key: "key = [] \<or> key = ev_status_key_id e"
    and pos: "ev_sequence e > 0" "ev_status_key_id e \<noteq> []"
    and rest: "\<forall>e\<in>set es. 0 < ev_sequence e \<and> ev_status_key_id e \<noteq> []"
    using Cons.prems by (auto split: if_splits)
  show ?case
  proof (cases "ev_object_type e = 3")
    case True
    with Cons.prems(1) key have "base = 0" "issuer_scan (ev_sequence e) ?key pushes es = Some (base', pushes')"
      by (auto simp: Let_def split: if_splits)
    with Cons.IH [OF this(2) rest Cons.prems(3)] True key pos show ?thesis
      by (auto simp del: distinct_append distinct_map)
  next
    case False
    with Cons.prems(1) key have "ev_sequence e \<notin> set pushes"
      "issuer_scan base ?key (pushes @ [ev_sequence e]) es = Some (base', pushes')"
      by (auto simp: Let_def split: if_splits)
    moreover from this have "distinct (pushes @ [ev_sequence e])" using Cons.prems(3) by simp
    ultimately show ?thesis
      using Cons.IH [OF _ rest, of base ?key "pushes @ [ev_sequence e]"] False key pos
      by (auto simp del: distinct_append distinct_map)
  qed
qed

text \<open>
  One full list, one status key, and pushes that continue the list without a gap.
\<close>

definition contiguous_history :: "status_evidence_entry_v2 list \<Rightarrow> bool" where
  "contiguous_history es \<longleftrightarrow> (\<exists>base k. map ev_sequence (lists_of es) = [base]
     \<and> (\<forall>e\<in>set es. ev_status_key_id e = k)
     \<and> distinct (map ev_sequence (pushes_of es))
     \<and> ev_sequence ` set (pushes_of es) = {base + 1..base + int (length (pushes_of es))})"

lemma contiguous_pushes:
  assumes "distinct pushes" "\<forall>s\<in>set pushes. base < s"
    and "list_all (\<lambda>k. base + int k \<in> set pushes) [1..<length pushes + 1]"
  shows "set pushes = {base + 1..base + int (length pushes)}"
proof -
  have "{base + 1..base + int (length pushes)} \<subseteq> set pushes"
  proof
    fix x assume x: "x \<in> {base + 1..base + int (length pushes)}"
    then have "nat (x - base) \<in> set [1..<length pushes + 1]" by auto
    with assms(3) have "base + int (nat (x - base)) \<in> set pushes" unfolding list_all_iff by blast
    with x show "x \<in> set pushes" by simp
  qed
  moreover have "card {base + 1..base + int (length pushes)} = card (set pushes)"
    using distinct_card [OF assms(1)] by simp
  ultimately show ?thesis by (metis card_subset_eq List.finite_set)
qed

lemma issuer_history_contiguous:
  assumes "issuer_history_ok evidence issuer"
    and "\<forall>e\<in>set evidence. 0 < ev_sequence e \<and> ev_status_key_id e \<noteq> []"
  shows "contiguous_history (filter (\<lambda>e. ev_issuer_id e = issuer) evidence)"
proof -
  let ?es = "filter (\<lambda>e. ev_issuer_id e = issuer) evidence"
  from assms(1) obtain base pushes where s: "issuer_scan 0 [] [] ?es = Some (base, pushes)" and b: "base \<noteq> 0"
    and above: "\<not> list_ex (\<lambda>s. s \<le> base) pushes"
    and cont: "list_all (\<lambda>k. base + int k \<in> set pushes) [1..<length pushes + 1]"
    by (auto simp: issuer_history_ok_def split: option.splits)
  have pos: "\<forall>e\<in>set ?es. 0 < ev_sequence e \<and> ev_status_key_id e \<noteq> []" using assms(2) by auto
  from issuer_scan_Some [OF s pos] obtain k where p: "pushes = map ev_sequence (pushes_of ?es)" "distinct pushes"
    and k: "\<forall>e\<in>set ?es. ev_status_key_id e = k" and l: "map ev_sequence (lists_of ?es) = [base]"
    using b by (auto split: if_splits)
  have "\<forall>s\<in>set pushes. base < s" using above by (auto simp: list_ex_iff)
  from contiguous_pushes [OF p(2) this cont]
  have "set pushes = {base + 1..base + int (length (pushes_of ?es))}"
    using arg_cong [OF p(1), of length] by simp
  with k l p show ?thesis
    unfolding contiguous_history_def by (intro exI [of _ base] exI [of _ k]) simp
qed

lemma validated_history:
  assumes "validate_receipt P r sg = Ok ()" "rc_status_assessment r \<in> {''current'', ''stale''}"
    and "issuer \<in> set (rc_issuer_ids r)"
  shows "contiguous_history (filter (\<lambda>e. ev_issuer_id e = issuer) (rc_status_evidence r))"
proof (rule issuer_history_contiguous)
  have "has_accepted_status_history_per_issuer (rc_status_evidence r) (rc_issuer_ids r)"
    using assms(1,2) by (auto simp: validate_receipt_def Let_def reject_Ok bind_ok_Ok)
  with assms(3) show "issuer_history_ok (rc_status_evidence r) issuer"
    by (simp add: has_accepted_status_history_per_issuer_def list_all_iff)
  show "\<forall>e\<in>set (rc_status_evidence r). 0 < ev_sequence e \<and> ev_status_key_id e \<noteq> []"
    using validate_receipt_basic(5) [OF assms(1)]
    by (auto simp: sorted_evidence_def list_all_iff evidence_entry_ok_def valid_v2_id_def)
qed

section \<open>What an allow asserts\<close>

lemma validated_allow:
  assumes "validate_receipt P r sg = Ok ()" "rc_decision r = ''allow''"
  shows "rc_decision_reason r = ''authorized''" "rc_identity_status r = ''authorized_agent''"
    "rc_trust_assessment r = ''trusted''" "rc_status_assessment r = ''current''"
    "rc_context_assessment r = ''bound'' \<or> rc_context_assessment r = ''not_required''"
    "rc_context_policy_digest r \<noteq> None" "rc_issuer_ids r \<noteq> []" "rc_status_evidence r \<noteq> []"
    "rc_required_scope r \<in> set (rc_granted_scope r)"
proof -
  have "validate_allow r = Ok ()"
    using validate_receipt_basic(8) [OF assms(1)] assms(2) by (simp add: validate_decision_def reject_Ok)
  then show a: "rc_decision_reason r = ''authorized''" "rc_identity_status r = ''authorized_agent''"
    "rc_trust_assessment r = ''trusted''" "rc_status_assessment r = ''current''"
    "rc_context_assessment r = ''bound'' \<or> rc_context_assessment r = ''not_required''"
    "rc_context_policy_digest r \<noteq> None" "rc_status_evidence r \<noteq> []"
    "rc_required_scope r \<in> set (rc_granted_scope r)"
    by (simp_all add: validate_allow_def reject_Ok Let_def)
  have "has_accepted_status_history_per_issuer (rc_status_evidence r) (rc_issuer_ids r)"
    using assms(1) a(4) by (simp add: validate_receipt_def Let_def reject_Ok bind_ok_Ok)
  then show "rc_issuer_ids r \<noteq> []" by (simp add: has_accepted_status_history_per_issuer_def)
qed

text \<open>Only an allow grants scopes.\<close>

lemma validated_granted:
  assumes "validate_receipt P r sg = Ok ()" "rc_granted_scope r \<noteq> []"
  shows "rc_decision r = ''allow''"
proof (rule ccontr)
  assume n: "rc_decision r \<noteq> ''allow''"
  have "validate_decision r = Ok ()" by (rule validate_receipt_basic(8) [OF assms(1)])
  with n assms(2) show False
    by (simp add: validate_decision_def validate_deny_def validate_indeterminate_def Let_def reject_Ok split: if_splits)
qed

end
