(* ===== verification/V2_Samples.thy ===== *)
theory V2_Samples
  imports V2_Receipt_Rules Ratify_Samples
begin

text \<open>
  A concrete platform for Protocol v2 and a concrete receipt.  Its text codec writes the bytes in
  hexadecimal up to the last one that is not zero, an equals sign, and the number of zeros left out;
  its verifiers accept every signature of the right shape.  It shows that the hypotheses made about
  the third-party crates can hold together, and it evaluates the model.
\<close>

section \<open>The codec\<close>

definition zero_count :: "bytes \<Rightarrow> nat" where
  "zero_count b = length (takeWhile (\<lambda>x. x = 0) (rev b))"

definition sample_b64 :: "bytes \<Rightarrow> string" where
  "sample_b64 b = hex_bytes (take (length b - zero_count b) b) @ CHR ''='' # dec_nat (zero_count b)"

fun unhex :: "string \<Rightarrow> bytes option" where
  "unhex [] = Some []"
| "unhex [c] = None"
| "unhex (c # d # cs) =
     (case (hex_digit_value c, hex_digit_value d, unhex cs) of
        (Some a, Some b, Some bs) \<Rightarrow> Some (word_of_nat (16 * a + b) # bs)
      | _ \<Rightarrow> None)"

definition sample_unb64 :: "string \<Rightarrow> bytes option" where
  "sample_unb64 s =
     (case unhex (takeWhile (\<lambda>c. c \<noteq> CHR ''='') s) of
        Some b \<Rightarrow> Some (b @ replicate (nat (dec_value (drop 1 (dropWhile (\<lambda>c. c \<noteq> CHR ''='') s)))) 0)
      | None \<Rightarrow> None)"

lemma byte_nibbles: "unat (b :: byte) div 16 < 16" "unat b mod 16 < 16"
proof -
  have "unat b < 256" using unsigned_less [of b, where ?'a = nat] by simp
  then show "unat b div 16 < 16" by (simp add: less_mult_imp_div_less)
qed simp

lemma unhex_hex_bytes: "unhex (hex_bytes b) = Some b"
proof (induction b)
  case (Cons x xs)
  have "hex_bytes (x # xs) = hex_digit (unat x div 16) # hex_digit (unat x mod 16) # hex_bytes xs"
    by (simp add: hex_bytes_def)
  with Cons show ?case
    using hex_digit_ascii [OF byte_nibbles(1), of x] hex_digit_ascii [OF byte_nibbles(2), of x] by simp
qed (simp add: hex_bytes_def)

lemma hex_bytes_plain: "c \<in> set (hex_bytes b) \<Longrightarrow> base64_char c \<and> c \<noteq> CHR ''=''"
proof -
  have d: "base64_char (hex_digit k) \<and> hex_digit k \<noteq> CHR ''=''" if "k < 16" for k
  proof -
    have "list_all (\<lambda>k. base64_char (hex_digit k) \<and> hex_digit k \<noteq> CHR ''='') [0..<16]" by code_simp
    with that show ?thesis by (simp only: list_all_iff set_upt) simp
  qed
  show "c \<in> set (hex_bytes b) \<Longrightarrow> base64_char c \<and> c \<noteq> CHR ''=''"
    by (auto simp: hex_bytes_def d byte_nibbles)
qed

lemma strip_zeros: "take (length b - zero_count b) b @ replicate (zero_count b) 0 = (b :: bytes)"
proof -
  have "b = rev (dropWhile (\<lambda>x. x = 0) (rev b)) @ rev (takeWhile (\<lambda>x. x = 0) (rev b))"
    by (metis rev_append rev_rev_ident takeWhile_dropWhile_id)
  moreover have "takeWhile (\<lambda>x. x = 0) (rev b) = replicate (zero_count b) 0"
    unfolding zero_count_def by (metis (mono_tags, lifting) replicate_length_same set_takeWhileD)
  moreover have "rev (dropWhile (\<lambda>x. x = 0) (rev b)) = take (length b - zero_count b) b"
    by (simp add: zero_count_def dropWhile_eq_drop rev_drop)
  ultimately show ?thesis by (metis rev_replicate)
qed

lemma dec_nat_digits: "dec_value (dec_nat n) = int n" "\<forall>c\<in>set (dec_nat n). is_digit c"
  using dec_pos_value [of "int n"] dec_pos_digits [of "int n"] by (simp_all add: dec_nat_def)

lemma sample_codec: "sample_unb64 (sample_b64 b) = Some b"
proof -
  let ?h = "hex_bytes (take (length b - zero_count b) b)"
  have "takeWhile (\<lambda>c. c \<noteq> CHR ''='') (sample_b64 b) = ?h"
    and "dropWhile (\<lambda>c. c \<noteq> CHR ''='') (sample_b64 b) = CHR ''='' # dec_nat (zero_count b)"
    using hex_bytes_plain by (auto simp: sample_b64_def takeWhile_append2 dropWhile_append2)
  then show ?thesis by (simp add: sample_unb64_def unhex_hex_bytes dec_nat_digits strip_zeros)
qed

section \<open>A platform\<close>

definition sample_v2 :: v2_prims where
  "sample_v2 = \<lparr>v_base = sample_prims\<lparr>p_base64 := sample_b64\<rparr>, v_b64_decode = sample_unb64,
     v_hex_decode = unhex, v_sha384 = (\<lambda>b. take 48 (rev b @ replicate 48 0)),
     v_shake256 = (\<lambda>b n. take n (b @ replicate n 0)), v_ed_public = id,
     v_ed_decompress = (\<lambda>b. Some \<lparr>ep_compress = b, ep_is_identity = False, ep_is_torsion_free = True\<rparr>),
     v_ed_verify_strict = (\<lambda>_ _ _. True), v_ml_public = take 1952,
     v_ml_sign_ctx = (\<lambda>_ _ _ _. Inr (replicate 3309 0)), v_ml_verify_ctx = (\<lambda>_ _ _ _. True)\<rparr>"

lemma sample_v2_codec [simp]: "base64_codec sample_v2"
proof -
  have "base64_plain (v_base sample_v2)"
    using hex_bytes_plain dec_nat_digits(2)
    by (auto simp: base64_plain_def sample_v2_def sample_b64_def base64_char_def)
  then show ?thesis by (simp add: base64_codec_def sample_v2_def sample_codec)
qed

lemma sample_v2_sized [simp]: "sha384_sized sample_v2" "sha256_sized sample_v2"
  by (auto simp: sha384_sized_def sha256_sized_def sample_v2_def sample_prims_def min_def)

section \<open>A receipt\<close>

definition sample_id :: "char \<Rightarrow> string" where
  "sample_id c = replicate 64 c"

definition sample_digest :: "char \<Rightarrow> string" where
  "sample_digest c = ''sha384:'' @ replicate 96 c"

definition sample_verifier_id :: string where
  "sample_verifier_id = hex_bytes (pad32 (KEY_ID_PREFIX @ replicate 32 3))"

definition sample_evidence :: "status_evidence_entry_v2 list" where
  "sample_evidence =
     [\<lparr>ev_issuer_id = sample_id (CHR ''a''), ev_status_key_id = sample_id (CHR ''b''), ev_sequence = 4,
       ev_object_type = 3, ev_digest = sample_digest (CHR ''c'')\<rparr>]"

definition sample_allow :: verification_receipt_v2 where
  "sample_allow = \<lparr>rc_version = 2, rc_log_id = PROBE_LOG_ID, rc_sequence = 1,
     rc_verifier_id = sample_verifier_id, rc_agent_id = sample_id (CHR ''e''), rc_human_id = '''',
     rc_bundle_hash = sample_digest (CHR ''f''), rc_issuer_ids = [sample_id (CHR ''a'')],
     rc_decision = ''allow'', rc_decision_reason = ''authorized'',
     rc_identity_status = ''authorized_agent'', rc_trust_assessment = ''trusted'',
     rc_status_assessment = ''current'', rc_challenge_assessment = ''current'',
     rc_constraint_evaluators = [], rc_context_assessment = ''not_required'',
     rc_context_policy_digest = Some (sample_digest (CHR ''0'')), rc_verified_at = 1700000000,
     rc_required_scope = ''meeting:attend'', rc_granted_scope = [''meeting:attend''],
     rc_status_evidence = sample_evidence, rc_previous_receipt_hash = replicate 48 0,
     rc_signature = placeholder_signature\<rparr>"


definition sample_receipt_head :: receipt_v2_head where
  "sample_receipt_head = \<lparr>rh_log_id = PROBE_LOG_ID, rh_verifier_id = sample_verifier_id, rh_sequence = 0,
     rh_head_hash = replicate 48 0, rh_accepted = [], rh_frozen = False\<rparr>"

definition sample_signer :: signer_v2 where
  "sample_signer = \<lparr>sg_public_key = sample_pk 3, sg_mode = Direct,
     sg_sign = (\<lambda>_ _. Ok placeholder_signature)\<rparr>"

section \<open>The length of printed text\<close>

text \<open>Every character takes at most six in the text.\<close>

fun print_bound :: "jv \<Rightarrow> nat" where
  "print_bound (JTok t) = length t"
| "print_bound (JStr s) = 6 * length s + 2"
| "print_bound (JArr vs) = 2 + sum_list (map (\<lambda>v. print_bound v + 1) vs)"
| "print_bound (JObj ms) = 2 + sum_list (map (\<lambda>(k, v). 6 * length k + print_bound v + 4) ms)"

lemma length_if_le: "length x \<le> n \<Longrightarrow> length y \<le> n \<Longrightarrow> length (if Q then x else y) \<le> n"
  by simp

lemma length_escape: "length (escape s) \<le> 6 * length s"
proof (induction s rule: length_induct)
  case (1 s)
  show ?case
  proof (cases s)
    case (Cons c cs)
    have IH: "length t < length s \<Longrightarrow> length (escape t) \<le> 6 * length t" for t using "1" by blast
    have "length (escape cs) \<le> 6 * length cs" by (rule IH) (simp add: Cons)
    moreover have "length (escape (drop 2 cs)) \<le> 6 * length (drop 2 cs)" by (rule IH) (simp add: Cons)
    then have "length (escape (drop 2 cs)) \<le> 6 * length cs" by (rule order_trans) simp
    ultimately have h: "length (escape cs) \<le> 6 * length cs" "length (escape (drop 2 cs)) \<le> 6 * length cs" .
    show ?thesis unfolding Cons escape.simps(2)
      by (intro length_if_le) (use h in simp_all)
  qed simp
qed

lemma length_array: "length (json_array ts) \<le> 2 + sum_list (map (\<lambda>t. length t + 1) ts)"
  using length_join_on [of ts COMMA] by (cases "ts = []") (simp_all add: json_array_def)

lemma jprint_bound: "length (jprint (canon t)) \<le> print_bound t"
proof (induction t rule: print_bound.induct)
  case (2 s)
  show ?case using length_escape [of s] by (simp add: encode_string_def)
next
  case (3 vs)
  have "sum_list (map (\<lambda>v. length (jprint (canon v)) + 1) vs) \<le> sum_list (map (\<lambda>v. print_bound v + 1) vs)"
    by (rule sum_list_mono) (use 3 in simp)
  with length_array [of "map (jprint \<circ> canon) vs"] show ?case by (simp add: comp_def)
next
  case (4 ms)
  let ?f = "\<lambda>m. length (encode_string (fst m)) + length (jprint (canon (snd m))) + 2"
  show ?case
  proof (cases "ms = []")
    case True
    then show ?thesis by (simp add: json_object_def)
  next
    case False
    then have "sort_key fst ms \<noteq> []" by (metis length_0_conv length_sort)
    then have "length (jprint (canon (JObj ms))) = 1 + sum_list (map ?f (sort_key fst ms))"
      by (simp add: canon_members case_prod_beta' length_object comp_def del: canon.simps(4))
    moreover have "sum_list (map ?f ms) \<le> sum_list (map (\<lambda>(k, v). 6 * length k + print_bound v + 4) ms)"
    proof (rule sum_list_mono)
      fix m assume m: "m \<in> set ms"
      with 4 have "length (jprint (canon (snd m))) \<le> print_bound (snd m)" by (metis prod.collapse)
      with length_escape [of "fst m"] show "?f m \<le> (case m of (k, v) \<Rightarrow> 6 * length k + print_bound v + 4)"
        by (simp add: case_prod_beta' encode_string_def)
    qed
    ultimately show ?thesis by (simp add: sum_list_sort_key)
  qed
qed simp
section \<open>A receipt prepared for the head\<close>

definition sample_deny :: verification_receipt_v2 where
  "sample_deny = sample_allow\<lparr>rc_issuer_ids := [], rc_decision := ''deny'', rc_decision_reason := ''not_delegated'',
     rc_identity_status := ''delegation_not_authorized'', rc_trust_assessment := ''not_evaluated'',
     rc_status_assessment := ''not_evaluated'', rc_context_assessment := ''not_evaluated'',
     rc_context_policy_digest := None, rc_granted_scope := [], rc_status_evidence := [],
     rc_signature := empty_signature\<rparr>"

lemma sample_b64_zeros: "sample_b64 (replicate n 0) = CHR ''='' # dec_nat n"
  by (simp add: sample_b64_def zero_count_def hex_bytes_def)

lemma sample_deny_valid: "validate_receipt (v_base sample_v2) (first_candidate sample_deny) False = Ok ()"
  by code_simp

lemma validate_receipt_moved:
  assumes "validate_receipt P r False = Ok ()" "0 < s" "s \<le> MAX_SAFE" "length h = 48" "s = 1 \<longleftrightarrow> all_zero h"
  shows "validate_receipt P (r\<lparr>rc_sequence := s, rc_previous_receipt_hash := h\<rparr>) False = Ok ()"
proof -
  have d: "validate_decision (r\<lparr>rc_sequence := s, rc_previous_receipt_hash := h\<rparr>) = validate_decision r"
    by (simp add: validate_decision_def validate_allow_def validate_deny_def validate_indeterminate_def Let_def)
  show ?thesis using assms by (auto simp: validate_receipt_def Let_def reject_Ok bind_ok_Ok d)
qed

lemma sample_lengths: "length (dec_nat 48) = 2" "length (dec_int 1) = 1" "length sample_verifier_id = 64" "length (dec_int MAX_SAFE) = 16"
  "length (dec_int 1700000000) = 10" "length (dec_nat 64) = 2" "length (dec_nat 3309) = 4"
  "length (dec_int 2) = 1" "length (sample_b64 ((replicate 48 0)[0 := 1])) = 5" "length PROBE_LOG_ID = 32"
  by code_simp+

lemma sample_deny_utf8: "receipt_utf8 sample_deny"
proof -
  have "list_all (list_all (\<lambda>c. code c < 0x80))
      [rc_log_id sample_deny, rc_verifier_id sample_deny, rc_agent_id sample_deny, rc_human_id sample_deny,
       rc_bundle_hash sample_deny, rc_decision sample_deny, rc_decision_reason sample_deny, rc_identity_status sample_deny,
       rc_trust_assessment sample_deny, rc_status_assessment sample_deny, rc_challenge_assessment sample_deny,
       rc_context_assessment sample_deny, rc_required_scope sample_deny]"
    by code_simp
  moreover have "rc_issuer_ids sample_deny = []" "rc_granted_scope sample_deny = []" "rc_context_policy_digest sample_deny = None"
    "rc_constraint_evaluators sample_deny = []" "rc_status_evidence sample_deny = []"
    by (simp_all add: sample_deny_def sample_allow_def)
  ultimately show ?thesis by (auto simp: receipt_utf8_def list_all_iff intro!: utf8_ascii)
qed

lemma encode_small:
  assumes "base64_codec V" "receipt_utf8 r" "validate_receipt (v_base V) r True = Ok ()"
    and "print_bound (cj_tree (v_base V) (receipt_cj r Wire)) \<le> MAX_VERIFICATION_RECEIPT_BYTES_V2"
  shows "is_ok (encode_verification_receipt_v2 V r)"
proof -
  have "tree_ok MAX_JSON_NESTING_DEPTH (cj_tree (v_base V) (receipt_cj r Wire))"
    by (rule receipt_tree_ok) (use assms validate_receipt_ints [OF assms(3)] in simp_all)
  from write_tree [OF this] show ?thesis
    using assms(3,4) jprint_bound [of "cj_tree (v_base V) (receipt_cj r Wire)"]
    by (simp add: encode_verification_receipt_v2_def canonical_def check_receipt_size_def check_v2_wire_size_def is_ok_def)
qed

lemma sample_deny_utf8_parts: "receipt_utf8 (first_candidate sample_deny)" "receipt_utf8 (widest_candidate sample_deny)"
proof -
  have "utf8_valid PROBE_LOG_ID" by code_simp
  with sample_deny_utf8 show "receipt_utf8 (first_candidate sample_deny)" by (simp add: first_candidate_def receipt_utf8_def)
  show "receipt_utf8 (widest_candidate sample_deny)" by (rule candidate_utf8 [OF sample_deny_utf8])
qed

lemma sample_signature_lengths: "signature_lengths_ok placeholder_signature"
  by (simp add: signature_lengths_ok_def placeholder_signature_def)

text \<open>A receipt that passes the structural checks and is short has a body, and is signed at the empty log.\<close>

definition short_receipt :: "verification_receipt_v2 \<Rightarrow> bool" where
  "short_receipt r \<longleftrightarrow> print_bound (cj_tree (v_base sample_v2) (receipt_cj r Wire)) \<le> MAX_VERIFICATION_RECEIPT_BYTES_V2"

lemma short_body:
  assumes u: "receipt_utf8 r" and v: "validate_receipt (v_base sample_v2) (first_candidate r) False = Ok ()"
    and short: "short_receipt (widest_candidate r)"
  shows "\<exists>data. verification_receipt_v2_body sample_v2 r = Ok data"
proof -
  let ?w = "widest_candidate r"
  have "validate_receipt (v_base sample_v2) (first_candidate r\<lparr>rc_sequence := MAX_SAFE,
      rc_previous_receipt_hash := (replicate 48 0)[0 := 1]\<rparr>) False = Ok ()"
    by (rule validate_receipt_moved [OF v])
      (simp_all add: MAX_SAFE_def MAX_SAFE_INTEGER_def all_zero_def list_all_iff numeral_eq_Suc)
  then have w: "validate_receipt (v_base sample_v2) ?w True = Ok ()"
    by (simp add: validate_receipt_unsigned widest_candidate_def validate_receipt_signature sample_signature_lengths)
  have "receipt_utf8 ?w" by (rule candidate_utf8 [OF u])
  from encode_small [OF sample_v2_codec this w] short
  obtain x where "encode_verification_receipt_v2 sample_v2 ?w = Ok x"
    by (auto simp: short_receipt_def is_ok_def split: sum.splits)
  then show ?thesis
    using write_tree [OF receipt_tree_ok [OF sample_v2_codec u, of Body]] v validate_receipt_ints(1) [OF v]
    by (simp add: verification_receipt_v2_body_def canonical_def first_candidate_ints)
qed

lemma sample_deny_body: "\<exists>data. verification_receipt_v2_body sample_v2 sample_deny = Ok data"
proof (rule short_body [OF sample_deny_utf8 sample_deny_valid])
  show "short_receipt (widest_candidate sample_deny)"
    unfolding widest_candidate_def first_candidate_def sample_deny_def sample_allow_def receipt_cj_def short_receipt_def
    by (simp add: cj_strs_def evidence_cj_def cj_sig_def placeholder_signature_def sample_v2_def sample_b64_zeros
       sample_lengths sample_id_def sample_digest_def MAX_VERIFICATION_RECEIPT_BYTES_V2_def)
qed

lemma sample_key_id: "key_id_v2 sample_v2 (sample_pk 3) = Ok sample_verifier_id"
  by code_simp

lemma sample_v2_accepts: "v_ed_verify_strict sample_v2 k m sg" "v_ml_verify_ctx sample_v2 k m sg c"
  "p_ed_key_ok (v_base sample_v2) k" "p_ed_sig_ok (v_base sample_v2) sg" "p_ml_key_ok (v_base sample_v2) k"
  by (simp_all add: sample_v2_def sample_prims_def)

lemma sample_verifies:
  assumes "signature_lengths_ok sg" "is_ok (validate_ed_signature sample_v2 (sig_ed25519 sg))"
  shows "verify_v2_statement sample_v2 ty body sg (sample_pk 3) = Ok ()"
proof -
  have "is_ok (validate_ed_public_key sample_v2 (pk_ed25519 (sample_pk 3)))" by code_simp
  moreover have "length (pk_ed25519 (sample_pk 3)) = 32 \<and> length (pk_ml_dsa_65 (sample_pk 3)) = ML_PK_LEN
     \<and> length (sig_ed25519 sg) = 64 \<and> length (sig_ml_dsa_65 sg) = ML_SIG_LEN"
    using assms(1) by (simp add: sample_pk_def signature_lengths_ok_def ML_PK_LEN_def ML_SIG_LEN_def)
  ultimately show ?thesis
    using assms(2) unfolding verify_v2_statement_iff [OF sample_v2_sized(1)] components_ok_def
    by (simp only: sample_v2_accepts simp_thms)
qed

lemma sample_signed: "verify_v2_statement sample_v2 ty body placeholder_signature (sample_pk 3) = Ok ()"
proof (rule sample_verifies [OF sample_signature_lengths])
  show "is_ok (validate_ed_signature sample_v2 (sig_ed25519 placeholder_signature))" by code_simp
qed

lemma short_prepared:
  assumes u: "receipt_utf8 r" and v: "validate_receipt (v_base sample_v2) (first_candidate r) False = Ok ()"
    and id: "rc_verifier_id r = sample_verifier_id" and data: "verification_receipt_v2_body sample_v2 r = Ok data"
    and s: "sg_public_key s = sample_pk 3"
      "\<And>ty b key_id. sg_sign s False (sign_request sample_v2 ty b (sg_mode s) (sample_pk 3) key_id) = Ok sg"
    and sg: "signature_lengths_ok sg" "is_ok (validate_ed_signature sample_v2 (sig_ed25519 sg))"
    and short: "short_receipt (first_candidate r\<lparr>rc_signature := sg\<rparr>)"
  shows "sign_prepared_verification_receipt_v2_with_signer sample_v2 background data sample_receipt_head s
      = Ok (first_candidate r\<lparr>rc_signature := sg\<rparr>)"
    and "is_ok (encode_verification_receipt_v2 sample_v2 (first_candidate r\<lparr>rc_signature := sg\<rparr>))"
proof -
  let ?r = "first_candidate r"
  let ?s = "?r\<lparr>rc_signature := sg\<rparr>"
  have part: "receipt_part Body r\<lparr>rc_log_id := PROBE_LOG_ID, rc_sequence := 1,
      rc_previous_receipt_hash := replicate 48 0\<rparr> = ?r\<lparr>rc_signature := empty_signature\<rparr>"
    by (simp add: receipt_part_def first_candidate_def)
  have v': "validate_receipt (v_base sample_v2) (?r\<lparr>rc_signature := empty_signature\<rparr>) False = Ok ()"
    using v by (simp add: validate_receipt_signature)
  have ints: "receipt_ints_safe ?r" by (rule validate_receipt_ints(1) [OF v])
  have "validate_receipt_head sample_receipt_head = Ok ()" by code_simp
  moreover have "i64_add 0 1 = 1" "MAX_SAFE \<noteq> 0" by code_simp+
  ultimately have bound: "bind_verification_receipt_body_v2 sample_v2 data sample_receipt_head
      = Ok (?r\<lparr>rc_signature := empty_signature\<rparr>)"
    using body_roundtrip [OF sample_v2_codec u data] v' part id
    by (simp add: bind_verification_receipt_body_v2_def sample_receipt_head_def reject_def Let_def receipt_part_def)
  have w: "validate_receipt (v_base sample_v2) ?s True = Ok ()"
    using v sg(1) by (simp add: validate_receipt_unsigned validate_receipt_signature)
  have "utf8_valid PROBE_LOG_ID" by code_simp
  with u have u1: "receipt_utf8 ?r" by (simp add: first_candidate_def receipt_utf8_def)
  then have "receipt_utf8 ?s" by (simp add: receipt_utf8_def)
  from encode_small [OF sample_v2_codec this w] short
  show enc: "is_ok (encode_verification_receipt_v2 sample_v2 ?s)" by (simp add: short_receipt_def)
  then obtain x where x: "encode_verification_receipt_v2 sample_v2 ?s = Ok x" by (auto simp: is_ok_def split: sum.splits)
  obtain body where signable: "canonical (v_base sample_v2) (receipt_cj ?r Signable) = Ok body"
    using write_tree [OF receipt_tree_ok [OF sample_v2_codec u1, of Signable]] ints
      validate_receipt_ints [OF v] by (auto simp: canonical_def)
  have vid: "rc_verifier_id ?r = sample_verifier_id" by (simp add: first_candidate_def id)
  have signed: "sign_verification_receipt_v2_with_signer sample_v2 background (?r\<lparr>rc_signature := empty_signature\<rparr>) s = Ok ?s"
    using v' sample_key_id signable x sample_verifies [OF sg] s vid
    by (simp add: sign_verification_receipt_v2_with_signer_def verification_receipt_v2_signable_bytes_def
        signer_public_key_v2_def sign_v2_statement_with_signer_def background_def receipt_cj_signature)
  have "verification_receipt_v2_body sample_v2 ?s = verification_receipt_v2_body sample_v2 r"
    using body_part [of sample_v2 Body ?s] body_part [of sample_v2 Body r]
    by (simp add: receipt_part_def first_candidate_def)
  with bound signed data show "sign_prepared_verification_receipt_v2_with_signer sample_v2 background data
      sample_receipt_head s = Ok ?s"
    by (simp add: sign_prepared_verification_receipt_v2_with_signer_def)
qed

lemma sample_prepared:
  "\<exists>data r. sign_prepared_verification_receipt_v2_with_signer sample_v2 background data sample_receipt_head
     sample_signer = Ok r"
proof -
  obtain data where data: "verification_receipt_v2_body sample_v2 sample_deny = Ok data"
    using sample_deny_body by blast
  have "short_receipt (first_candidate sample_deny\<lparr>rc_signature := placeholder_signature\<rparr>)"
    unfolding first_candidate_def sample_deny_def sample_allow_def receipt_cj_def short_receipt_def
    by (simp add: cj_strs_def evidence_cj_def cj_sig_def placeholder_signature_def sample_v2_def sample_b64_zeros
       sample_lengths sample_id_def sample_digest_def MAX_VERIFICATION_RECEIPT_BYTES_V2_def)
  moreover have "rc_verifier_id sample_deny = sample_verifier_id" by (simp add: sample_deny_def sample_allow_def)
  moreover have "is_ok (validate_ed_signature sample_v2 (sig_ed25519 placeholder_signature))" by code_simp
  ultimately show ?thesis
    using short_prepared(1) [OF sample_deny_utf8 sample_deny_valid _ data, of sample_signer placeholder_signature]
      sample_signature_lengths by (auto simp: sample_signer_def)
qed

text \<open>A receipt whose status is current, with one issuer and its full list.\<close>

lemma sample_allow_valid [simp]: "validate_receipt (v_base sample_v2) sample_allow True = Ok ()"
  by code_simp

end
