(* ===== verification/V2_Properties.thy ===== *)
theory V2_Properties
  imports V2_Samples
begin

text \<open>
  The properties of the Protocol v2 components, each with a witness on the sample platform where it
  has hypotheses.
\<close>

section \<open>Canonical text\<close>

lemma json_value_string:
  assumes "parse_string (QUOTE # s) = Ok (t, [])"
  shows "\<exists>a b. json_value P n k (QUOTE # s) = Ok (Node (VStr t) a b, [])"
proof -
  have w: "ws (QUOTE # s) = QUOTE # s" by (simp add: ws_def is_ws_def)
  have "value_here P inner QUOTE (QUOTE # s) = Ok (VStr t, [])" for inner
    using assms by (simp add: value_here_def)
  then show ?thesis by (cases k) (simp_all add: value_step_def w)
qed

lemma plus_escape_string: "parse_string [QUOTE, BSL, CHR ''u'', CHR ''+'', CHR ''0'', CHR ''4'', CHR ''1'', QUOTE] = Ok (''A'', [])"
proof -
  have "utf8_valid [CHR ''+'', CHR ''0'', CHR ''4'', CHR ''1'']" by (rule utf8_ascii) simp
  then have "hex4 [CHR ''+'', CHR ''0'', CHR ''4'', CHR ''1'', QUOTE] = Ok (65, [QUOTE])"
    by (simp add: hex4_def from_str_radix16_def eat_def hex_digit_value_def in_range_def)
  moreover have "char_of (65 :: nat) = CHR ''A''" by code_simp
  ultimately show ?thesis
    by (simp add: parse_string_def str_body.simps string_item_def unicode_escape_def utf8_encode_def)
qed

text \<open>
  C17: Canonical JSON is a normal form.  When \<open>canonical_json_v2\<close> accepts a document, its output is a
  document it accepts and leaves unchanged, whatever the spacing, escapes and member order of the input.
\<close>

theorem canonical_json_normal_form:
  assumes "canonical_json_v2 P data = Ok out"
  shows "canonical_json_v2 P out = Ok out"
proof -
  from assms obtain x where x: "parse_json P data = Ok x" "out = str_bytes (jprint (canon (erase x)))"
    by (auto simp: canonical_json_parse bind_ok_Ok)
  have "tree_ok MAX_JSON_NESTING_DEPTH (canon (erase x))"
    by (rule tree_ok_canon [OF parse_json_sound [OF x(1)]])
  then obtain y where "parse_json P out = Ok y" "erase y = canon (erase x)"
    unfolding x(2) by (rule parse_printed)
  then show ?thesis by (simp add: canonical_json_parse canon_idem x(2))
qed

theorem canonical_json_normal_form_witness:
  "\<exists>out. canonical_json_v2 sample_prims (str_bytes '' [ true,null ] '') = Ok out
     \<and> canonical_json_v2 sample_prims out = Ok out"
proof -
  have "is_ok (canonical_json_v2 sample_prims (str_bytes '' [ true,null ] ''))" by code_simp
  then obtain out where "canonical_json_v2 sample_prims (str_bytes '' [ true,null ] '') = Ok out"
    by (auto simp: is_ok_def split: sum.splits)
  with canonical_json_normal_form [OF this] show ?thesis by blast
qed

text \<open>
  C19: The parser's loops end.  The loop over the elements of an array at any nesting level, given more
  rounds than there are characters left, never runs out of them: its result does not depend on the number
  of rounds and satisfies the recursion of the loop in the code, which has no such bound.
\<close>

definition array_loop :: "prims \<Rightarrow> nat \<Rightarrow> nat \<Rightarrow> string \<Rightarrow> jnode list \<Rightarrow> string \<Rightarrow> jnode list parsed" where
  "array_loop P len k msg acc s = sep_loop (Suc (length s)) (\<lambda>_. json_value P len k) (CHR '']'') msg acc s"

theorem array_loop_terminates:
  shows "sep_loop (Suc (length s) + m) (\<lambda>_. json_value P len k) (CHR '']'') msg acc s = array_loop P len k msg acc s
    \<and> array_loop P len k msg acc s = bind_ok (json_value P len k s) (\<lambda>(x, r).
        case ws r of
          [] \<Rightarrow> plain msg
        | c # q \<Rightarrow>
            if c = CHR '','' then array_loop P len k msg (acc @ [x]) q
            else if c = CHR '']'' then Ok (acc @ [x], q)
            else plain msg)"
proof (intro conjI)
  let ?E = "\<lambda>_ :: jnode list. json_value P len k"
  have consumes: "consumes (?E a)" for a by (rule consumes_json_value)
  have rounds: "sep_loop n ?E (CHR '']'') msg acc s = array_loop P len k msg acc s" if "length s < n" for n acc s
    unfolding array_loop_def by (rule sep_loop_rounds [OF consumes that]) simp
  show "sep_loop (Suc (length s) + m) ?E (CHR '']'') msg acc s = array_loop P len k msg acc s"
    by (rule rounds) simp
  show "array_loop P len k msg acc s = bind_ok (json_value P len k s) (\<lambda>(x, r).
        case ws r of
          [] \<Rightarrow> plain msg
        | c # q \<Rightarrow>
            if c = CHR '','' then array_loop P len k msg (acc @ [x]) q
            else if c = CHR '']'' then Ok (acc @ [x], q)
            else plain msg)"
  proof (cases "json_value P len k s")
    case (Inl e)
    then show ?thesis by (simp add: array_loop_def)
  next
    case (Inr p)
    obtain x r where p: "p = (x, r)" by (cases p)
    have "length r < length s" using consumesD [OF consumes] Inr p by simp
    moreover have "length (ws r) \<le> length r" by (simp add: ws_def length_dropWhile_le)
    ultimately have "length q < length s" if "ws r = c # q" for c q using that by simp
    then show ?thesis
      using Inr p by (simp add: array_loop_def [of _ _ _ _ acc s] rounds split: list.split)
  qed
qed

text \<open>
  C40: What parsing returns is well typed.  Every tree the parser accepts nests no deeper than the limit,
  has only literals and exact integers as tokens, valid UTF-8 as strings and keys, and no object with a
  repeated key.
\<close>

theorem parsed_json_typed:
  assumes "parse_json P data = Ok x"
  shows "tree_ok MAX_JSON_NESTING_DEPTH (erase x)"
  by (rule parse_json_sound [OF assms])

theorem parsed_json_typed_witness:
  "\<exists>x. parse_json sample_prims (str_bytes '' [ true,null ] '') = Ok x \<and> tree_ok MAX_JSON_NESTING_DEPTH (erase x)"
proof -
  have "is_ok (parse_json sample_prims (str_bytes '' [ true,null ] ''))" by code_simp
  then obtain x where "parse_json sample_prims (str_bytes '' [ true,null ] '') = Ok x"
    by (auto simp: is_ok_def split: sum.splits)
  with parsed_json_typed [OF this] show ?thesis by blast
qed

text \<open>
  C38: The strict parser accepts a malformed escape: \<open>\u+041\<close> is read as the letter A, because the four
  bytes go to \<open>u32::from_str_radix\<close>, which takes a leading plus sign.
\<close>

theorem plus_escape_accepted:
  "\<exists>a b. parse_json P (str_bytes [QUOTE, BSL, CHR ''u'', CHR ''+'', CHR ''0'', CHR ''4'', CHR ''1'', QUOTE])
     = Ok (Node (VStr ''A'') a b)"
proof -
  have "utf8_valid [QUOTE, BSL, CHR ''u'', CHR ''+'', CHR ''0'', CHR ''4'', CHR ''1'', QUOTE]"
    by (rule utf8_ascii) simp
  moreover obtain a b where "json_value P (length (str_bytes [QUOTE, BSL, CHR ''u'', CHR ''+'', CHR ''0'', CHR ''4'', CHR ''1'', QUOTE]))
      MAX_JSON_NESTING_DEPTH [QUOTE, BSL, CHR ''u'', CHR ''+'', CHR ''0'', CHR ''4'', CHR ''1'', QUOTE] = Ok (Node (VStr ''A'') a b, [])"
    using json_value_string [OF plus_escape_string] by blast
  ultimately show ?thesis by (simp add: parse_json_def ws_def)
qed

section \<open>Signatures\<close>

text \<open>
  C18: Signed bytes have one type.  A message the verifier accepts under one object code is refused under
  every other, whatever the key and the signature, so a signature over one kind of object never
  authenticates another kind.
\<close>

theorem signed_message_has_one_type:
  assumes "verify_v2_message V ty message sg pk = Ok ()"
  shows "verify_v2_message V ty' message sg' pk' = Ok () \<Longrightarrow> ty' = ty"
  using assms by (auto simp: verify_v2_message_iff be16_object_code_inj)

theorem signed_message_has_one_type_witness:
  "verify_v2_message sample_v2 WitnessEntry (v2_signing_message sample_v2 WitnessEntry [1])
     placeholder_signature (sample_pk 3) = Ok ()
   \<and> VerificationReceipt \<noteq> WitnessEntry
   \<and> verify_v2_message sample_v2 VerificationReceipt (v2_signing_message sample_v2 WitnessEntry [1])
     placeholder_signature (sample_pk 3) \<noteq> Ok ()"
proof -
  have ok: "verify_v2_message sample_v2 WitnessEntry (v2_signing_message sample_v2 WitnessEntry [1])
     placeholder_signature (sample_pk 3) = Ok ()"
    using sample_signed by (simp add: verify_v2_statement_message)
  with signed_message_has_one_type [OF ok, of VerificationReceipt] show ?thesis by auto
qed

text \<open>
  The two implementations of delegation verification agree: the stand-alone helper of
  \<open>crypto_v2.rs\<close> accepts exactly what the typed verifier accepts for a delegation certificate.
\<close>

theorem delegation_verifiers_agree:
  assumes "sha384_sized V"
  shows "verify_delegation_v2 V signable sg pk = Ok ()
     \<longleftrightarrow> verify_v2_statement V DelegationCertificate signable sg pk = Ok ()"
  by (simp add: verify_delegation_v2_iff verify_v2_statement_iff [OF assms] delegation_message delegation_context)

theorem delegation_verifiers_agree_witness:
  "verify_delegation_v2 sample_v2 [1] placeholder_signature (sample_pk 3) = Ok ()"
  using delegation_verifiers_agree [OF sample_v2_sized(1)] sample_signed by blast

section \<open>Receipts\<close>

text \<open>
  C16: A prepared receipt is accepted at its head.  Whatever the signer does, a receipt that comes out of
  signing a prepared body at a log head is accepted by the verifier at that head as the next entry, and
  its decision content is byte for byte the body that was prepared.
\<close>

theorem prepared_receipt_accepted:
  assumes "base64_codec V"
    and "sign_prepared_verification_receipt_v2_with_signer V ctx data head s = Ok r"
  shows "verify_verification_receipt_v2 V r (sg_public_key s) head = Ok Appended
     \<and> verification_receipt_v2_body V r = Ok data"
  using sign_prepared_accepted [OF assms] by blast

theorem prepared_receipt_accepted_witness:
  "\<exists>r. verify_verification_receipt_v2 sample_v2 r (sg_public_key sample_signer) sample_receipt_head = Ok Appended"
  using sample_prepared prepared_receipt_accepted [OF sample_v2_codec] by blast

text \<open>
  C20: Receipts survive the wire: decoding the canonical bytes of a receipt gives the receipt back.
\<close>

theorem receipt_v2_wire_round_trip:
  assumes "base64_codec V" "receipt_utf8 r" "encode_verification_receipt_v2 V r = Ok data"
  shows "decode_verification_receipt_v2 V data = Ok r"
  by (rule receipt_roundtrip [OF assms])

theorem receipt_v2_wire_round_trip_witness:
  "\<exists>r data. decode_verification_receipt_v2 sample_v2 data = Ok r"
proof -
  obtain w where "encode_verification_receipt_v2 sample_v2 (widest_candidate sample_deny) = Ok w"
    using sample_deny_body body_Ok(2) by blast
  from receipt_v2_wire_round_trip [OF sample_v2_codec sample_deny_utf8_parts(2) this] show ?thesis by blast
qed



end
