(* ===== verification/V2_Operation_Context.thy ===== *)
theory V2_Operation_Context
  imports V2_Receipt V1_Operation_Context
begin

text \<open>
  The operation, session and challenge-claim constructions
  (\<open>sdks/rust/src/v2/operation_context.rs\<close>).  The framing lemmas of \<open>V1_Operation_Context\<close> give that
  each preimage determines what it was built from.
\<close>

definition OPERATION_CONTEXT_V2_TAG :: bytes where
  "OPERATION_CONTEXT_V2_TAG = str_bytes ''ratify/operation-context/v2''"
definition SESSION_CONTEXT_V2_TAG :: bytes where
  "SESSION_CONTEXT_V2_TAG = str_bytes ''ratify/session-context/v2''"
definition CLAIM_DIGEST_TAG :: bytes where
  "CLAIM_DIGEST_TAG = str_bytes (''ratify-protocol-challenge-claim-v2'' @ NUL_BYTE)"
definition CLAIM_ID_TAG :: bytes where
  "CLAIM_ID_TAG = str_bytes (''ratify-protocol-claim-id-v2'' @ NUL_BYTE)"

record operation_context_v2 =
  oc2_required_scope :: string
  oc2_operation :: string
  oc2_resource_id :: string
  oc2_requested_path :: string
  oc2_payload_digest :: bytes

record session_context_v2_inputs =
  sc2_verifier_id :: string
  sc2_workspace_id :: string
  sc2_agent_id :: string
  sc2_session_id :: string
  sc2_invocation_id :: string
  sc2_request_hash :: bytes

definition append_field :: "bytes \<Rightarrow> bytes \<Rightarrow> bytes" where
  "append_field preimage field = preimage @ be64 (int (length field)) @ field"

definition decode_payload_digest_v2 :: "v2_prims \<Rightarrow> string option \<Rightarrow> bytes option v2_result" where
  "decode_payload_digest_v2 V encoded =
     (case encoded of
        None \<Rightarrow> Ok None
      | Some e \<Rightarrow>
          (case strip_prefix ''sha256:'' e of
             Some h \<Rightarrow>
               if length h = 64 \<and> lower_hex h
               then (case v_hex_decode V h of
                   Some digest \<Rightarrow> Ok (Some digest)
                 | None \<Rightarrow> err Malformed ''payload digest is not hexadecimal'')
               else err Malformed ''payload digest must be sha256: followed by 64 lowercase hexadecimal characters''
           | None \<Rightarrow> err Malformed ''payload digest must be sha256: followed by 64 lowercase hexadecimal characters''))"

definition operation_context_v2_bytes :: "operation_context_v2 \<Rightarrow> bytes v2_result" where
  "operation_context_v2_bytes ctx =
     bind_ok (validate_required_scope_v2 (oc2_required_scope ctx)) (\<lambda>_.
     reject_as (oc2_payload_digest ctx \<noteq> [] \<and> length (oc2_payload_digest ctx) \<noteq> 32) ConfigurationInvalid
       (''payload digest must be empty or 32 bytes, got '' @ dec_nat (length (oc2_payload_digest ctx))) (
     Ok (foldl append_field OPERATION_CONTEXT_V2_TAG
       [str_bytes (oc2_required_scope ctx), str_bytes (oc2_operation ctx), str_bytes (oc2_resource_id ctx),
        str_bytes (oc2_requested_path ctx), oc2_payload_digest ctx])))"

definition operation_context_v2_hash :: "v2_prims \<Rightarrow> operation_context_v2 \<Rightarrow> bytes v2_result" where
  "operation_context_v2_hash V ctx =
     bind_ok (operation_context_v2_bytes ctx) (\<lambda>b. Ok (p_sha256 (v_base V) b))"

definition is_key_id :: "string \<Rightarrow> bool" where
  "is_key_id v \<longleftrightarrow> length v = 64 \<and> lower_hex v"

definition is_canonical_workspace_id :: "string \<Rightarrow> bool" where
  "is_canonical_workspace_id v \<longleftrightarrow> length v = 36 \<and>
     list_all (\<lambda>(i, c). if i \<in> {8, 13, 18, 23} then c = CHR ''-'' else hex_lower_char c)
       (zip [0..<length v] v)"

definition session_context_v2_bytes :: "session_context_v2_inputs \<Rightarrow> bytes v2_result" where
  "session_context_v2_bytes s =
     reject_as (\<not> is_key_id (sc2_verifier_id s)) ConfigurationInvalid
       ''verifier ID must be 64 lowercase hexadecimal characters'' (
     reject_as (\<not> is_canonical_workspace_id (sc2_workspace_id s)) ConfigurationInvalid
       ''workspace ID must be a canonical lowercase UUID'' (
     reject_as (\<not> is_key_id (sc2_agent_id s)) ConfigurationInvalid
       ''agent ID must be 64 lowercase hexadecimal characters'' (
     reject_as (length (sc2_request_hash s) \<noteq> 32) ConfigurationInvalid ''request hash must be 32 bytes'' (
     Ok (foldl append_field SESSION_CONTEXT_V2_TAG
       [str_bytes (sc2_verifier_id s), str_bytes (sc2_workspace_id s), str_bytes (sc2_agent_id s),
        str_bytes (sc2_session_id s), str_bytes (sc2_invocation_id s), sc2_request_hash s])))))"

definition build_session_context_v2 :: "v2_prims \<Rightarrow> session_context_v2_inputs \<Rightarrow> bytes v2_result" where
  "build_session_context_v2 V s =
     bind_ok (session_context_v2_bytes s) (\<lambda>b. Ok (p_sha256 (v_base V) b))"

section \<open>Challenge claims\<close>

definition challenge_claim_digest_v2 :: "v2_prims \<Rightarrow> bytes \<Rightarrow> bytes v2_result" where
  "challenge_claim_digest_v2 V challenge =
     reject_as (length challenge \<noteq> 32) Malformed ''v2 challenge claim requires exactly 32 challenge bytes'' (
     Ok (sha384 V [CLAIM_DIGEST_TAG, challenge]))"

definition validate_namespace_epoch :: "string \<Rightarrow> int \<Rightarrow> unit v2_result" where
  "validate_namespace_epoch namespace epoch =
     reject_as (namespace = []) ConfigurationInvalid ''v2 verifier namespace must be non-empty valid UTF-8'' (
     reject_as (\<not> (0 \<le> epoch \<and> epoch \<le> V2_MAX_SAFE_INTEGER)) ConfigurationInvalid
       ''v2 replay epoch is outside 0..2^53-1'' (Ok ()))"

definition claim_id_preimage :: "string \<Rightarrow> int \<Rightarrow> bytes \<Rightarrow> bytes" where
  "claim_id_preimage namespace epoch digest =
     CLAIM_ID_TAG @ be64 (int (length namespace)) @ str_bytes namespace @ be64 epoch @ digest"

definition protocol_claim_id_from_digest_v2 :: "v2_prims \<Rightarrow> string \<Rightarrow> int \<Rightarrow> bytes \<Rightarrow> string v2_result" where
  "protocol_claim_id_from_digest_v2 V namespace epoch digest =
     bind_ok (validate_namespace_epoch namespace epoch) (\<lambda>_.
     reject_as (length digest \<noteq> 48) Malformed ''v2 challenge claim digest must be exactly 48 bytes'' (
     Ok (p_hex (v_base V) (p_sha256 (v_base V) (claim_id_preimage namespace epoch digest)))))"

definition protocol_claim_id_v2 :: "v2_prims \<Rightarrow> string \<Rightarrow> int \<Rightarrow> bytes \<Rightarrow> string v2_result" where
  "protocol_claim_id_v2 V namespace epoch challenge =
     bind_ok (validate_namespace_epoch namespace epoch) (\<lambda>_.
     bind_ok (challenge_claim_digest_v2 V challenge) (protocol_claim_id_from_digest_v2 V namespace epoch))"

section \<open>The preimages determine their inputs\<close>

lemma foldl_append_field: "foldl append_field tag fs = tag @ frame fs"
  by (induction fs arbitrary: tag) (simp_all add: append_field_def frame_def)

lemma operation_context_v2_frame:
  "operation_context_v2_bytes ctx = Ok b \<Longrightarrow> b = OPERATION_CONTEXT_V2_TAG @ frame
     [str_bytes (oc2_required_scope ctx), str_bytes (oc2_operation ctx), str_bytes (oc2_resource_id ctx),
      str_bytes (oc2_requested_path ctx), oc2_payload_digest ctx]"
  unfolding operation_context_v2_bytes_def foldl_append_field by (auto simp: bind_ok_Ok reject_Ok)

lemma session_context_v2_frame:
  "session_context_v2_bytes s = Ok b \<Longrightarrow> b = SESSION_CONTEXT_V2_TAG @ frame
     [str_bytes (sc2_verifier_id s), str_bytes (sc2_workspace_id s), str_bytes (sc2_agent_id s),
      str_bytes (sc2_session_id s), str_bytes (sc2_invocation_id s), sc2_request_hash s]"
  unfolding session_context_v2_bytes_def foldl_append_field by (auto simp: reject_Ok)

lemma operation_context_v2_inj:
  assumes "operation_context_v2_bytes a = Ok x" "operation_context_v2_bytes b = Ok x"
    and "list_all rust_sized [oc2_required_scope a, oc2_operation a, oc2_resource_id a, oc2_requested_path a,
      oc2_required_scope b, oc2_operation b, oc2_resource_id b, oc2_requested_path b]"
    and "rust_sized (oc2_payload_digest a)" "rust_sized (oc2_payload_digest b)"
  shows "a = b"
proof -
  let ?f = "\<lambda>c. [str_bytes (oc2_required_scope c), str_bytes (oc2_operation c), str_bytes (oc2_resource_id c),
      str_bytes (oc2_requested_path c), oc2_payload_digest (c :: operation_context_v2)]"
  have "frame (?f a) = frame (?f b)"
    using operation_context_v2_frame [OF assms(1)] operation_context_v2_frame [OF assms(2)] by simp
  then have "?f a = ?f b" by (rule frame_inj) (use assms(3-5) in \<open>auto simp: rust_sized_def\<close>)
  then show ?thesis by (simp add: str_bytes_inj)
qed

text \<open>Namespace, epoch and digest are recovered from the preimage of a claim identifier.\<close>

lemma claim_id_preimage_inj:
  assumes "claim_id_preimage n e d = claim_id_preimage n' e' d'" "rust_sized n" "rust_sized n'"
    and "i64_range e" "i64_range e'"
  shows "n = n' \<and> e = e' \<and> d = d'"
proof -
  have l: "be64 (int (length (str_bytes n))) @ str_bytes n @ be64 e @ d =
      be64 (int (length (str_bytes n'))) @ str_bytes n' @ be64 e' @ d'"
    using assms(1) by (simp add: claim_id_preimage_def)
  have "length (str_bytes n) = length (str_bytes n') \<and> str_bytes n @ be64 e @ d = str_bytes n' @ be64 e' @ d'"
    by (rule be64_length_inj [OF l]) (use assms(2,3) in \<open>simp_all add: rust_sized_def\<close>)
  then have "str_bytes n = str_bytes n'" "be64 e = be64 e'" "d = d'" by auto
  with assms(4,5) show ?thesis by (auto simp: str_bytes_inj intro: be64_inj)
qed

end
