(* ===== verification/V2_Claim.thy ===== *)
theory V2_Claim
  imports V2_Operation_Context V2_Receipt_Log
begin

text \<open>
  Challenge claims, their terminal payloads and the persisted evaluation progress
  (\<open>sdks/rust/src/v2/claim_store.rs\<close>, \<open>v2/evaluation_progress.rs\<close>, the record types of
  \<open>v2/rate_reservation.rs\<close>): what a claim store keeps, and the checks it applies to what it is given.
\<close>

section \<open>Store errors\<close>

datatype v2_store_error =
    Classified v2_error | Unavailable string | ClaimProofConflict | RateLimitExceeded
  | ReleaseStateMismatch | AcknowledgementNotFound | ChallengeIssuanceConflict | ChallengeIssuanceNotFound

type_synonym 'a store_result = "v2_store_error + 'a"

fun store_error_class :: "v2_store_error \<Rightarrow> v2_error_class option" where
  "store_error_class (Classified e) = Some (e_class e)"
| "store_error_class ClaimProofConflict = Some ClaimReplay"
| "store_error_class RateLimitExceeded = Some ClaimStoreUnavailable"
| "store_error_class e = None"

fun self_message :: "v2_store_error \<Rightarrow> string" where
  "self_message (Classified e) = e_message e"
| "self_message (Unavailable m) = m"
| "self_message ClaimProofConflict = ''v2 challenge was already claimed by a different proof''"
| "self_message RateLimitExceeded = ''v2 signed rate limit has no remaining capacity''"
| "self_message ReleaseStateMismatch = ''v2 claim already records a different release''"
| "self_message AcknowledgementNotFound = ''v2 checkpoint acknowledgement not found''"
| "self_message ChallengeIssuanceConflict = ''v2 challenge issuance record already exists''"
| "self_message ChallengeIssuanceNotFound = ''v2 challenge issuance record not found''"

fun store_error_display :: "v2_store_error \<Rightarrow> string" where
  "store_error_display (Classified e) = v2_display e"
| "store_error_display e = self_message e"

fun into_v2 :: "v2_store_error \<Rightarrow> v2_error" where
  "into_v2 (Classified e) = e"
| "into_v2 ClaimProofConflict = v2_new ClaimReplay (self_message ClaimProofConflict)"
| "into_v2 e = v2_plain (self_message e)"

definition classified_or :: "v2_error_class \<Rightarrow> v2_store_error \<Rightarrow> v2_error" where
  "classified_or c e = classify c (into_v2 e)"

definition classified :: "v2_error_class \<Rightarrow> string \<Rightarrow> v2_store_error" where
  "classified c m = Classified (v2_new c m)"

section \<open>Claims\<close>

record v2_rate_reservation =
  rr_issuer_id :: string
  rr_cert_id :: string
  rr_window_s :: int
  rr_limit :: int

record v2_challenge_claim =
  cl_claim_id :: string
  cl_namespace :: string
  cl_replay_epoch :: int
  cl_challenge_digest :: string
  cl_proof_digest :: string
  cl_bundle_hash :: string
  cl_issuer_ids :: "string list"
  cl_required_scope :: string
  cl_context_policy_digest :: string
  cl_verifier_id :: string
  cl_agent_id :: string
  cl_requires_rate :: bool
  cl_rate_batch :: "v2_rate_reservation list"
  cl_issued_at :: int
  cl_expires_at :: int
  cl_max_age_seconds :: int
  cl_clock_skew_seconds :: int
  cl_stream_id :: "bytes option"
  cl_stream_seq :: "int option"
  cl_constraint_evaluators :: "constraint_evaluator_ref_v2 list"

datatype v2_claim_disposition = Created | InProgress | TerminalReplay

fun disposition_str :: "v2_claim_disposition \<Rightarrow> string" where
  "disposition_str Created = ''created''"
| "disposition_str InProgress = ''in_progress''"
| "disposition_str TerminalReplay = ''terminal_replay''"

record v2_claim_result =
  cr_disposition :: v2_claim_disposition
  cr_claimed_at :: int
  cr_owner_token :: bytes

definition challenge_claim_time_current_v2 :: "v2_challenge_claim \<Rightarrow> int \<Rightarrow> bool" where
  "challenge_claim_time_current_v2 c now = v2_challenge_time_current now (cl_issued_at c) (cl_expires_at c)
     (cl_max_age_seconds c) (cl_clock_skew_seconds c)"

text \<open>The identifier is the one of the claim's namespace, replay epoch and challenge digest.\<close>

definition claim_id_matches_key :: "v2_prims \<Rightarrow> v2_challenge_claim \<Rightarrow> bool" where
  "claim_id_matches_key V c =
     (case strip_prefix ''sha384:'' (cl_challenge_digest c) of
        None \<Rightarrow> False
      | Some encoded \<Rightarrow>
          if length encoded \<noteq> 96 \<or> \<not> lower_hex encoded then False
          else (case v_hex_decode V encoded of
              None \<Rightarrow> False
            | Some digest \<Rightarrow>
                protocol_claim_id_from_digest_v2 V (cl_namespace c) (cl_replay_epoch c) digest = Ok (cl_claim_id c)))"

section \<open>Terminal payloads\<close>

definition terminal_result_json :: "v2_prims \<Rightarrow> string \<Rightarrow> string \<Rightarrow> string \<Rightarrow> bytes v2_result" where
  "terminal_result_json V decision reason identity_status = canonical (v_base V) (CObj
     [(''decision'', CStr decision), (''decision_reason'', CStr reason), (''identity_status'', CStr identity_status)])"

definition terminal_decision_for_v2_evaluation :: "string \<Rightarrow> string \<Rightarrow> string option" where
  "terminal_decision_for_v2_evaluation status reason =
     (if reason = ''evaluation_interrupted''
      then if status = ''authorization_unverified'' then Some ''indeterminate'' else None
      else
        let pair =
          (if status = ''authorization_unverified''
           then Some (''indeterminate'', reason \<in> set [''trust_unavailable'', ''action_context_unverified'',
             ''status_unavailable'', ''status_stale''])
           else if status = ''authorized_agent'' then Some (''allow'', reason = ''authorized'')
           else if status \<in> set [''constraint_denied'', ''constraint_unverifiable'', ''constraint_unknown'',
             ''unauthorized'', ''invalid_scope'', ''scope_denied'']
           then Some (''deny'', reason = status)
           else if status = ''revoked'' then Some (''deny'', reason = ''delegation_revoked'')
           else if status = ''invalid'' then Some (''deny'', reason = ''proof_invalid'')
           else if status = ''delegation_not_authorized''
           then Some (''deny'', reason = ''not_delegated'' \<or> reason = ''delegation_not_authorized'')
           else if status = ''expired'' then Some (''deny'', reason = ''delegation_expired'')
           else None)
        in case pair of None \<Rightarrow> None | Some (decision, ok) \<Rightarrow> if ok then Some decision else None)"

text \<open>\<open>read\<close> of \<open>terminal_payload_matches_v2\<close>.\<close>

definition read_field :: "jobj \<Rightarrow> string \<Rightarrow> string option" where
  "read_field ms name =
     (case map_option jn_v (map_of ms name) of
        Some (VStr s) \<Rightarrow> Some s | Some VNull \<Rightarrow> Some '''' | _ \<Rightarrow> None)"

definition read_payload :: "v2_prims \<Rightarrow> bytes \<Rightarrow> (string \<times> string \<times> string) option" where
  "read_payload V value =
     (case parse_json (v_base V) value of
        Err _ \<Rightarrow> None
      | Ok doc \<Rightarrow>
          (case jn_v doc of
             VObj ms \<Rightarrow>
               (case (read_field ms ''decision'', read_field ms ''decision_reason'', read_field ms ''identity_status'') of
                  (Some d, Some r, Some i) \<Rightarrow> Some (d, r, i)
                | _ \<Rightarrow> None)
           | _ \<Rightarrow> None))"

definition terminal_payload_matches_v2 :: "v2_prims \<Rightarrow> bytes \<Rightarrow> bytes \<Rightarrow> string \<Rightarrow> string \<Rightarrow> bool" where
  "terminal_payload_matches_v2 V terminal body want_decision want_reason =
     (case read_payload V body of
        Some (decision, reason, identity) \<Rightarrow> decision = want_decision \<and> reason = want_reason
          \<and> terminal_result_json V decision reason identity = Ok terminal
      | None \<Rightarrow> False)"

definition v2_finalization_payload_digest :: "v2_prims \<Rightarrow> bytes \<Rightarrow> bytes \<Rightarrow> bytes" where
  "v2_finalization_payload_digest V terminal body =
     p_sha256 (v_base V) (be64 (int (length terminal)) @ terminal @ be64 (int (length body)) @ body)"

text \<open>\<open>issuers.sort(); issuers.dedup()\<close>.\<close>

definition sorted_issuers :: "v2_challenge_claim \<Rightarrow> string list" where
  "sorted_issuers c = remdups_adj (sort (cl_issuer_ids c))"

definition want_policy_digest :: "v2_challenge_claim \<Rightarrow> verification_receipt_v2 \<Rightarrow> string option" where
  "want_policy_digest c body =
     (if rc_context_assessment body \<noteq> ''not_evaluated'' \<and> cl_context_policy_digest c \<noteq> []
      then Some (cl_context_policy_digest c) else None)"

definition validate_v2_finalization_payload ::
  "v2_prims \<Rightarrow> v2_challenge_claim \<Rightarrow> bytes \<Rightarrow> bytes \<Rightarrow> unit v2_result" where
  "validate_v2_finalization_payload V c terminal receipt_body = classify_result ConfigurationInvalid (
     bind_ok (decode_verification_receipt_body_v2 V receipt_body) (\<lambda>body.
     reject (rc_verifier_id body \<noteq> cl_verifier_id c)
       ''v2 receipt body verifier_id differs from the sealed claim'' (
     reject (rc_agent_id body \<noteq> cl_agent_id c)
       ''v2 receipt body agent_id differs from the sealed claim'' (
     reject (rc_bundle_hash body \<noteq> cl_bundle_hash c)
       ''v2 receipt body bundle_hash differs from the sealed claim'' (
     reject (rc_issuer_ids body \<noteq> sorted_issuers c)
       ''v2 receipt body issuer_ids differ from the sealed claim'' (
     reject (rc_required_scope body \<noteq> cl_required_scope c)
       ''v2 receipt body required_scope differs from the sealed claim'' (
     reject (rc_context_policy_digest body \<noteq> want_policy_digest c body)
       ''v2 receipt body context_policy_digest differs from the sealed claim'' (
     reject (rc_constraint_evaluators body \<noteq> cl_constraint_evaluators c)
       ''v2 receipt body constraint_evaluators differ from the sealed evaluator snapshot'' (
     reject (\<not> terminal_payload_matches_v2 V terminal receipt_body (rc_decision body) (rc_decision_reason body))
       ''v2 terminal result is not the canonical decision, reason and identity status of the receipt body'' (
     Ok ()))))))))))"

section \<open>Evaluation progress\<close>

record v2_evaluation_progress =
  pr_trust_assessment :: string
  pr_status_assessment :: string
  pr_context_assessment :: string
  pr_context_policy_digest :: "string option"
  pr_status_evidence :: "status_evidence_entry_v2 list"

record v2_interrupted_claim =
  ic_claim :: v2_challenge_claim
  ic_claimed_at :: int
  ic_progress :: v2_evaluation_progress

definition initial_v2_evaluation_progress :: v2_evaluation_progress where
  "initial_v2_evaluation_progress = \<lparr>pr_trust_assessment = ''not_evaluated'',
     pr_status_assessment = ''not_evaluated'', pr_context_assessment = ''not_evaluated'',
     pr_context_policy_digest = None, pr_status_evidence = []\<rparr>"

definition validate_v2_evaluation_progress_inner :: "v2_evaluation_progress \<Rightarrow> unit v2_result" where
  "validate_v2_evaluation_progress_inner p =
     (let ta = pr_trust_assessment p; sa = pr_status_assessment p; ca = pr_context_assessment p in
      reject (ta \<notin> set [''not_evaluated'', ''unavailable'', ''trusted'', ''untrusted''])
        ''v2 evaluation progress trust_assessment is invalid'' (
      reject (sa \<notin> set [''not_evaluated'', ''unavailable'', ''current'', ''revoked'', ''stale''])
        ''v2 evaluation progress status_assessment is invalid'' (
      reject (ca \<notin> set [''not_evaluated'', ''bound'', ''not_required''])
        ''v2 evaluation progress context_assessment is invalid'' (
      reject ((ca = ''not_evaluated'') \<noteq> (pr_context_policy_digest p = None)
          \<or> (case pr_context_policy_digest p of None \<Rightarrow> False | Some d \<Rightarrow> \<not> valid_prefixed_digest d))
        ''v2 evaluation progress context_policy_digest does not match context_assessment'' (
      reject (ta \<noteq> ''trusted'' \<and> (sa \<noteq> ''not_evaluated'' \<or> ca \<noteq> ''not_evaluated''))
        ''v2 evaluation progress records status or context without a trusted root'' (
      reject (sa = ''not_evaluated'' \<and> pr_status_evidence p \<noteq> [])
        ''v2 evaluation progress status evidence is inconsistent with status_assessment'' (Ok ())))))))"

definition validate_v2_evaluation_progress :: "v2_evaluation_progress \<Rightarrow> unit v2_result" where
  "validate_v2_evaluation_progress p = classify_result Malformed (validate_v2_evaluation_progress_inner p)"

definition receipt_skeleton :: verification_receipt_v2 where
  "receipt_skeleton = \<lparr>rc_version = 2, rc_log_id = '''', rc_sequence = 0, rc_verifier_id = '''', rc_agent_id = '''',
     rc_human_id = '''', rc_bundle_hash = '''', rc_issuer_ids = [], rc_decision = '''', rc_decision_reason = '''',
     rc_identity_status = '''', rc_trust_assessment = '''', rc_status_assessment = '''',
     rc_challenge_assessment = '''', rc_constraint_evaluators = [], rc_context_assessment = '''',
     rc_context_policy_digest = None, rc_verified_at = 0, rc_required_scope = '''', rc_granted_scope = [],
     rc_status_evidence = [], rc_previous_receipt_hash = [], rc_signature = empty_signature\<rparr>"

definition interrupted_receipt ::
  "v2_challenge_claim \<Rightarrow> int \<Rightarrow> v2_evaluation_progress \<Rightarrow> verification_receipt_v2" where
  "interrupted_receipt c verified_at p = receipt_skeleton\<lparr>rc_verifier_id := cl_verifier_id c,
     rc_agent_id := cl_agent_id c, rc_bundle_hash := cl_bundle_hash c, rc_issuer_ids := sorted_issuers c,
     rc_decision := ''indeterminate'', rc_decision_reason := ''evaluation_interrupted'',
     rc_identity_status := ''authorization_unverified'', rc_trust_assessment := pr_trust_assessment p,
     rc_status_assessment := pr_status_assessment p, rc_challenge_assessment := ''current'',
     rc_context_assessment := pr_context_assessment p, rc_context_policy_digest := pr_context_policy_digest p,
     rc_verified_at := verified_at, rc_required_scope := cl_required_scope c,
     rc_status_evidence := pr_status_evidence p, rc_constraint_evaluators := cl_constraint_evaluators c\<rparr>"

definition v2_evaluation_interrupted_result ::
  "v2_prims \<Rightarrow> v2_challenge_claim \<Rightarrow> int \<Rightarrow> v2_evaluation_progress \<Rightarrow> (bytes \<times> bytes) v2_result" where
  "v2_evaluation_interrupted_result V c verified_at p =
     reject_as (\<not> valid_v2_timestamp verified_at) ConfigurationInvalid
       ''v2 recovery time is outside the timestamp domain'' (
     bind_ok (classify_result Malformed (validate_v2_evaluation_progress_inner p)) (\<lambda>_.
     bind_ok (classify_result Malformed (verification_receipt_v2_body V (interrupted_receipt c verified_at p))) (\<lambda>body.
     bind_ok (classify_result Malformed (terminal_result_json V ''indeterminate'' ''evaluation_interrupted''
         ''authorization_unverified'')) (\<lambda>terminal.
     Ok (terminal, body)))))"

section \<open>Committed claims\<close>

record v2_committed_claim =
  cc_claim :: v2_challenge_claim
  cc_terminal_result :: bytes
  cc_receipt_body :: bytes
  cc_allow_horizon :: int

definition validate_v2_committed_claim :: "v2_prims \<Rightarrow> v2_committed_claim \<Rightarrow> string \<Rightarrow> unit v2_result" where
  "validate_v2_committed_claim V c claim_id =
     reject (cl_claim_id (cc_claim c) \<noteq> claim_id) ''the record is for a different claim'' (
     reject (\<not> claim_id_matches_key V (cc_claim c))
       (''the claim ID does not derive from the claim'' @ [CHR 0x27] @ ''s replay key'') (
     bind_ok (validate_v2_finalization_payload V (cc_claim c) (cc_terminal_result c) (cc_receipt_body c)) (\<lambda>_.
     bind_ok (decode_verification_receipt_body_v2 V (cc_receipt_body c)) (\<lambda>body.
     if rc_decision body = ''allow''
     then reject (cc_allow_horizon c \<le> 0 \<or> cc_allow_horizon c > V2_MAX_TIMESTAMP_SECONDS)
       ''an allow has no allow horizon in the timestamp domain'' (Ok ())
     else reject (cc_allow_horizon c \<noteq> 0) ''a result that is not an allow has an allow horizon'' (Ok ())))))"

section \<open>What a valid payload is\<close>

lemma fields_read_field:
  assumes "V2_Json_Read.fields P ms fs" "map_of fs k = Some (CStr s)"
  shows "read_field ms k = Some s"
  using assms by (rule fields_get) (simp add: read_field_def obj_get_def reads_str)

text \<open>The payload of a canonical body is read back from it.\<close>

lemma body_payload:
  assumes "base64_codec V" "receipt_utf8 r" "verification_receipt_v2_body V r = Ok body"
  shows "read_payload V body = Some (rc_decision r, rc_decision_reason r, rc_identity_status r)"
proof -
  note b = body_Ok [OF assms(3)]
  obtain data x ms where x: "canonical (v_base V) (receipt_cj r Body) = Ok data"
    "parse_wire V data [] [''bundle_hash''] = Ok x" "obj x = Ok ms"
    "V2_Json_Read.fields (v_base V) ms (receipt_members r Body)"
    by (rule receipt_canonical [OF assms(1,2) b(4), of Body "[]"]) auto
  have "parse_json (v_base V) body = Ok x" using x(1,2) b(3) by (auto simp: parse_wire_def bind_ok_Ok)
  moreover have "jn_v x = VObj ms" using reads_VObj [OF x(3)] by auto
  ultimately show ?thesis
    using fields_read_field [OF x(4)] by (simp add: read_payload_def receipt_lookup)
qed

lemma decoded_payload:
  assumes "base64_codec V" "decode_verification_receipt_body_v2 V body = Ok r"
  shows "read_payload V body = Some (rc_decision r, rc_decision_reason r, rc_identity_status r)"
  by (rule body_payload [OF assms(1) decode_body_Ok(1,2) [OF assms(2)]])

text \<open>
  An accepted payload is a canonical body for the sealed claim, with the canonical text of its
  decision, reason and identity status.
\<close>

lemma finalization_payload_Ok:
  assumes "base64_codec V" "validate_v2_finalization_payload V c terminal body = Ok ()"
  obtains r where "decode_verification_receipt_body_v2 V body = Ok r"
    "rc_verifier_id r = cl_verifier_id c" "rc_agent_id r = cl_agent_id c" "rc_bundle_hash r = cl_bundle_hash c"
    "rc_issuer_ids r = sorted_issuers c" "rc_required_scope r = cl_required_scope c"
    "rc_context_policy_digest r = want_policy_digest c r" "rc_constraint_evaluators r = cl_constraint_evaluators c"
    "terminal_result_json V (rc_decision r) (rc_decision_reason r) (rc_identity_status r) = Ok terminal"
  using assms decoded_payload
  by (fastforce simp: validate_v2_finalization_payload_def bind_ok_Ok reject_Ok terminal_payload_matches_v2_def
      split: option.splits)

lemma finalization_payload_I:
  assumes "base64_codec V" "receipt_utf8 r" "verification_receipt_v2_body V r = Ok body"
    and "rc_verifier_id r = cl_verifier_id c" "rc_agent_id r = cl_agent_id c" "rc_bundle_hash r = cl_bundle_hash c"
    "rc_issuer_ids r = sorted_issuers c" "rc_required_scope r = cl_required_scope c"
    "rc_context_policy_digest r = want_policy_digest c r" "rc_constraint_evaluators r = cl_constraint_evaluators c"
    and "terminal_result_json V (rc_decision r) (rc_decision_reason r) (rc_identity_status r) = Ok terminal"
  shows "validate_v2_finalization_payload V c terminal body = Ok ()"
proof -
  let ?p = "receipt_part Body r"
  have "decode_verification_receipt_body_v2 V body = Ok ?p" by (rule body_roundtrip [OF assms(1-3)])
  moreover have "want_policy_digest c ?p = want_policy_digest c r"
    by (simp add: want_policy_digest_def receipt_part_def)
  ultimately show ?thesis
    using body_payload [OF assms(1-3)] assms(4-)
    by (simp add: validate_v2_finalization_payload_def reject_def terminal_payload_matches_v2_def receipt_part_def)
qed

section \<open>The interrupted result\<close>

definition claim_utf8 :: "v2_challenge_claim \<Rightarrow> bool" where
  "claim_utf8 c \<longleftrightarrow> list_all utf8_valid ([cl_verifier_id c, cl_agent_id c, cl_bundle_hash c, cl_required_scope c]
       @ cl_issuer_ids c)
     \<and> list_all (\<lambda>e. utf8_valid (ce_kind e) \<and> utf8_valid (ce_profile_digest e)) (cl_constraint_evaluators c)"

definition progress_utf8 :: "v2_evaluation_progress \<Rightarrow> bool" where
  "progress_utf8 p \<longleftrightarrow> list_all utf8_valid ([pr_trust_assessment p, pr_status_assessment p, pr_context_assessment p]
       @ (case pr_context_policy_digest p of None \<Rightarrow> [] | Some d \<Rightarrow> [d]))
     \<and> list_all (\<lambda>e. utf8_valid (ev_issuer_id e) \<and> utf8_valid (ev_status_key_id e) \<and> utf8_valid (ev_digest e))
         (pr_status_evidence p)"

text \<open>The context recorded in the progress is the one the claim sealed.\<close>

definition progress_for :: "v2_challenge_claim \<Rightarrow> v2_evaluation_progress \<Rightarrow> bool" where
  "progress_for c p \<longleftrightarrow> (pr_context_assessment p \<noteq> ''not_evaluated'' \<longrightarrow>
     cl_context_policy_digest c \<noteq> [] \<and> pr_context_policy_digest p = Some (cl_context_policy_digest c))"

lemma interrupted_receipt_utf8:
  assumes "claim_utf8 c" "progress_utf8 p"
  shows "receipt_utf8 (interrupted_receipt c t p)"
proof -
  have "list_all utf8_valid ['''', ''indeterminate'', ''evaluation_interrupted'', ''authorization_unverified'', ''current'']"
    by code_simp
  moreover have "list_all utf8_valid (sorted_issuers c)"
    using assms(1) by (simp add: sorted_issuers_def claim_utf8_def list_all_iff)
  ultimately show ?thesis
    using assms by (simp add: receipt_utf8_def interrupted_receipt_def receipt_skeleton_def claim_utf8_def progress_utf8_def)
qed

text \<open>What recovery builds is what the store accepts.\<close>

lemma interrupted_payload_valid:
  assumes "base64_codec V" "claim_utf8 c" "progress_utf8 p" "progress_for c p"
    and "v2_evaluation_interrupted_result V c t p = Ok (terminal, body)"
  shows "validate_v2_finalization_payload V c terminal body = Ok ()"
    and "\<exists>r. decode_verification_receipt_body_v2 V body = Ok r \<and> rc_decision r = ''indeterminate''
      \<and> rc_decision_reason r = ''evaluation_interrupted''"
proof -
  let ?r = "interrupted_receipt c t p"
  from assms(5) have b: "verification_receipt_v2_body V ?r = Ok body"
    and t: "terminal_result_json V ''indeterminate'' ''evaluation_interrupted'' ''authorization_unverified'' = Ok terminal"
    and v: "validate_v2_evaluation_progress_inner p = Ok ()"
    by (auto simp: v2_evaluation_interrupted_result_def bind_ok_Ok reject_Ok)
  have u: "receipt_utf8 ?r" by (rule interrupted_receipt_utf8 [OF assms(2,3)])
  have "(pr_context_assessment p = ''not_evaluated'') = (pr_context_policy_digest p = None)"
    using v by (simp add: validate_v2_evaluation_progress_inner_def Let_def reject_Ok)
  then have "rc_context_policy_digest ?r = want_policy_digest c ?r"
    using assms(4) by (auto simp: interrupted_receipt_def want_policy_digest_def progress_for_def)
  then show "validate_v2_finalization_payload V c terminal body = Ok ()"
    by (intro finalization_payload_I [OF assms(1) u b]) (simp_all add: t interrupted_receipt_def)
  show "\<exists>r. decode_verification_receipt_body_v2 V body = Ok r \<and> rc_decision r = ''indeterminate''
      \<and> rc_decision_reason r = ''evaluation_interrupted''"
    using body_roundtrip [OF assms(1) u b] by (simp add: receipt_part_def interrupted_receipt_def)
qed

end
