(* ===== verification/V2_Flat.thy ===== *)
theory V2_Flat
  imports V2_Crypto V2_Json_Read
begin

text \<open>
  Flat objects: every member is a text, a safe integer, a byte string, or a pair of byte strings (a key
  or a signature).  Most v2 statements are of this form, and their canonical text reads back as the
  members it was written from.
\<close>

lemma lower_hex_utf8: "lower_hex s \<Longrightarrow> utf8_valid s"
  by (rule utf8_ascii) (auto simp: lower_hex_def hex_lower_char_def is_digit_def list_all_iff)

definition cj_pair :: "bytes \<Rightarrow> bytes \<Rightarrow> cj" where
  "cj_pair a b = CObj [(''ed25519'', CBytes a), (''ml_dsa_65'', CBytes b)]"

lemma cj_pair_key [simp]: "cj_key k = cj_pair (pk_ed25519 k) (pk_ml_dsa_65 k)"
  by (simp add: cj_key_def cj_pair_def)

lemma cj_pair_sig [simp]: "cj_sig s = cj_pair (sig_ed25519 s) (sig_ml_dsa_65 s)"
  by (simp add: cj_sig_def cj_pair_def)

definition flat_value :: "cj \<Rightarrow> bool" where
  "flat_value c \<longleftrightarrow> (\<exists>s. c = CStr s \<and> utf8_valid s) \<or> (\<exists>n. c = CInt n \<and> safe_int n)
     \<or> (\<exists>b. c = CBytes b) \<or> (\<exists>a b. c = cj_pair a b)"

lemma flat_values [simp]:
  "flat_value (CStr s) \<longleftrightarrow> utf8_valid s"
  "flat_value (CInt n) \<longleftrightarrow> safe_int n"
  "flat_value (CBytes b)"
  "flat_value (cj_pair a b)"
  by (auto simp: flat_value_def cj_pair_def)

definition text_key :: "string list \<Rightarrow> string list \<Rightarrow> string \<times> cj \<Rightarrow> bool" where
  "text_key tb tt m \<longleftrightarrow> (case snd m of CStr s \<Rightarrow> \<not> byte_field tb tt 1 (fst m) | _ \<Rightarrow> True)"

lemma text_keys [simp]:
  "text_key tb tt (k, CStr s) \<longleftrightarrow> \<not> byte_field tb tt 1 k"
  "text_key tb tt (k, CInt n)"
  "text_key tb tt (k, CBytes b)"
  "text_key tb tt (k, cj_pair a b)"
  by (simp_all add: text_key_def cj_pair_def)

text \<open>The members of a flat object.\<close>

definition flat :: "(string \<times> cj) list \<Rightarrow> bool" where
  "flat fs \<longleftrightarrow> distinct (map fst fs) \<and> list_all (\<lambda>m. utf8_valid (fst m) \<and> flat_value (snd m)) fs"

lemma flat_value_tree: "base64_codec V \<Longrightarrow> flat_value c \<Longrightarrow> tree_ok (Suc k) (cj_tree (v_base V) c)"
proof -
  assume codec: "base64_codec V" and c: "flat_value c"
  have "list_all utf8_valid [''ed25519'', ''ml_dsa_65'']" by code_simp
  with codec have "tree_ok (Suc k) (cj_tree (v_base V) (cj_pair a b))" for a b
    by (simp add: cj_pair_def base64_codec_utf8)
  with c codec show ?thesis
    by (auto simp: flat_value_def int_token_dec_int base64_codec_utf8)
qed

lemma flat_tree:
  assumes "base64_codec V" "flat fs"
  shows "tree_ok MAX_JSON_NESTING_DEPTH (cj_tree (v_base V) (CObj fs))"
proof -
  have "list_all (\<lambda>m. tree_ok (Suc 14) (cj_tree (v_base V) (snd m))) fs"
    using assms flat_value_tree [OF assms(1), of _ 14] by (auto simp: flat_def list_all_iff eval_nat_numeral)
  with assms(2) show ?thesis
    by (simp add: flat_def MAX_JSON_NESTING_DEPTH_def list_all_iff comp_def case_prod_beta')
qed

lemma flat_value_nulls: "flat_value c \<Longrightarrow> nulls_fine c"
  by (auto simp: flat_value_def cj_pair_def)

lemma flat_value_bytes: "flat_value c \<Longrightarrow> bytes_fine tb tt (Suc d) c"
  by (auto simp: flat_value_def cj_pair_def)

lemma flat_nulls: "flat fs \<Longrightarrow> nulls_fine (CObj fs)"
  using flat_value_nulls by (auto simp: flat_def list_all_iff)

lemma flat_bytes: "flat fs \<Longrightarrow> list_all (text_key tb tt) fs \<Longrightarrow> bytes_fine tb tt 0 (CObj fs)"
proof -
  assume fs: "flat fs" "list_all (text_key tb tt) fs"
  have "(case c of CStr s \<Rightarrow> \<not> byte_field tb tt (0 + 1) k | _ \<Rightarrow> True) \<and> (k \<noteq> ''params'' \<longrightarrow> bytes_fine tb tt (0 + 1) c)"
    if "(k, c) \<in> set fs" for k c
  proof -
    have "text_key tb tt (k, c)" "flat_value c" using fs that by (auto simp: flat_def list_all_iff)
    with flat_value_bytes [of c tb tt 0] show ?thesis by (simp add: text_key_def split: cj.splits)
  qed
  with fs(1) show ?thesis by (auto simp only: flat_def list_all_iff bytes_fine.simps split_conv)
qed

lemma flat_value_null: "flat_value c \<Longrightarrow> canon (cj_tree P c) \<noteq> JTok ''null''"
  by (auto simp: flat_value_def cj_pair_def)

lemma flat_canonical:
  assumes codec: "base64_codec V" and fs: "flat fs" "list_all (text_key tb tt) fs"
  obtains data x ms where "canonical (v_base V) (CObj fs) = Ok data" "parse_wire V data tb tt = Ok x"
    "obj x = Ok ms" "fields (v_base V) ms fs" "canonical (v_base V) (node_to_cj x) = Ok data"
proof -
  obtain data x where x: "canonical (v_base V) (CObj fs) = Ok data" "parse_wire V data tb tt = Ok x"
    "reads (v_base V) x (CObj fs)"
    by (rule parse_wire_canonical [OF codec flat_tree [OF codec fs(1)] flat_nulls [OF fs(1)] flat_bytes [OF fs]])
  moreover obtain ms where "obj x = Ok ms" "fields (v_base V) ms fs"
    using x(3) by (rule reads_obj) (use fs in \<open>simp add: flat_def\<close>)
  moreover have "canonical (v_base V) (node_to_cj x) = Ok data"
    by (rule canonical_reads [OF x(3,1) flat_tree [OF codec fs(1)]])
  ultimately show thesis using that by blast
qed

lemma flat_require:
  assumes "fields P ms fs" "flat fs" "set names \<subseteq> fst ` set fs"
  shows "obj_require Q ms names nullable = Ok ()"
proof (rule fields_require [OF assms(1)])
  have "c \<noteq> CNull" if "(k, c) \<in> set fs" for k c using assms(2) that by (fastforce simp: flat_def list_all_iff flat_value_def cj_pair_def)
  then show "\<forall>n\<in>set names. n \<in> fst ` set fs \<and> (map_of fs n = Some CNull \<longrightarrow> n \<in> set nullable)"
    using assms(3) by (auto dest: map_of_SomeD)
  show "\<forall>c\<in>snd ` set fs. canon (cj_tree P c) = JTok ''null'' \<longrightarrow> c = CNull"
    using assms(2) flat_value_null by (fastforce simp: flat_def list_all_iff)
qed

lemma get_pair:
  assumes "fields (v_base V) ms fs" "map_of fs k = Some (cj_pair a b)" "base64_codec V"
  shows "obj_pair V ms k = Ok (a, b)"
proof -
  let ?s = "\<lparr>sig_ed25519 = a, sig_ml_dsa_65 = b\<rparr>"
  have "obj_sig V ms k = Ok ?s" using get_sig [of V ms fs k ?s] assms by simp
  then show ?thesis by (auto simp: obj_sig_def bind_ok_Ok split: prod.splits)
qed

lemma get_pub_key:
  assumes "fields (v_base V) ms fs" "map_of fs k = Some (cj_pair (pk_ed25519 key) (pk_ml_dsa_65 key))" "base64_codec V"
  shows "obj_pub_key V ms k = Ok key"
  by (simp add: obj_pub_key_def get_pair [OF assms])

lemma get_signature:
  assumes "fields (v_base V) ms fs" "map_of fs k = Some (cj_pair (sig_ed25519 sg) (sig_ml_dsa_65 sg))" "base64_codec V"
  shows "obj_sig V ms k = Ok sg"
  by (simp add: obj_sig_def get_pair [OF assms])

lemma get_no_signature: "fields P ms fs \<Longrightarrow> map_of fs k = None \<Longrightarrow> obj_sig V ms k = Ok \<lparr>sig_ed25519 = [], sig_ml_dsa_65 = []\<rparr>"
  by (simp add: obj_sig_def obj_pair_def obj_present_def fields_absent)

end
