(* ===== verification/V2_Checkpoint_Ack.thy ===== *)
theory V2_Checkpoint_Ack
  imports V2_Receipt V2_Flat
begin

text \<open>
  The wire form of a checkpoint acknowledgement (\<open>sdks/rust/src/v2/checkpoint_ack.rs\<close>) and its round
  trip.
\<close>

record checkpoint_ack =
  ack_log_id :: string
  ack_sequence :: int
  ack_entry_hash :: bytes
  ack_timestamp :: int

definition CHECKPOINT_FIELDS :: "string list" where
  "CHECKPOINT_FIELDS = [''entry_hash'', ''log_id'', ''sequence'', ''timestamp'']"

definition validate_checkpoint_ack :: "checkpoint_ack \<Rightarrow> unit v2_result" where
  "validate_checkpoint_ack ack =
     reject (length (ack_log_id ack) \<noteq> 32 \<or> \<not> lower_hex (ack_log_id ack) \<or> ack_sequence ack < 1
         \<or> ack_sequence ack > MAX_SAFE \<or> length (ack_entry_hash ack) \<noteq> 48
         \<or> \<not> valid_v2_timestamp (ack_timestamp ack))
       ''wire v2: checkpoint acknowledgement log_id, sequence, entry_hash, or timestamp is invalid'' (Ok ())"

definition checkpoint_cj :: "v2_prims \<Rightarrow> checkpoint_ack \<Rightarrow> cj" where
  "checkpoint_cj V ack = CObj
     [(''entry_hash'', CStr (p_base64 (v_base V) (ack_entry_hash ack))), (''log_id'', CStr (ack_log_id ack)),
      (''sequence'', CInt (ack_sequence ack)), (''timestamp'', CInt (ack_timestamp ack))]"

definition encode_v2_checkpoint_acknowledgement :: "v2_prims \<Rightarrow> checkpoint_ack \<Rightarrow> bytes v2_result" where
  "encode_v2_checkpoint_acknowledgement V ack =
     bind_ok (classify_result Malformed (validate_checkpoint_ack ack)) (\<lambda>_.
     classify_result Malformed (canonical (v_base V) (checkpoint_cj V ack)))"

definition decode_v2_checkpoint_acknowledgement :: "v2_prims \<Rightarrow> bytes \<Rightarrow> checkpoint_ack v2_result" where
  "decode_v2_checkpoint_acknowledgement V data = classify_result Malformed (
     bind_ok (check_v2_wire_size data ''checkpoint acknowledgement'' ''MAX_CHECKPOINT_ACKNOWLEDGEMENT_BYTES_V2''
       MAX_CHECKPOINT_ACKNOWLEDGEMENT_BYTES_V2) (\<lambda>_.
     bind_ok (parse_wire V data [''entry_hash''] []) (\<lambda>doc.
     bind_ok (obj doc) (\<lambda>ob.
     bind_ok (obj_require (v_base V) ob CHECKPOINT_FIELDS []) (\<lambda>_.
     bind_ok (obj_only (v_base V) ob CHECKPOINT_FIELDS) (\<lambda>_.
     bind_ok (obj_str ob ''entry_hash'') (\<lambda>entry_hash_text.
     bind_ok (obj_str ob ''log_id'') (\<lambda>log_id.
     bind_ok (obj_i64 ob ''sequence'') (\<lambda>seq.
     bind_ok (obj_i64 ob ''timestamp'') (\<lambda>timestamp.
     case canonical_base64 V entry_hash_text of
       None \<Rightarrow> plain ''wire v2: checkpoint acknowledgement entry_hash is not canonical base64''
     | Some entry_hash \<Rightarrow>
         let ack = \<lparr>ack_log_id = log_id, ack_sequence = seq, ack_entry_hash = entry_hash,
               ack_timestamp = timestamp\<rparr> in
         bind_ok (encode_v2_checkpoint_acknowledgement V ack) (\<lambda>c.
         reject (c \<noteq> data) ''wire v2: checkpoint acknowledgement is not canonically encoded'' (
         Ok ack))))))))))))"

section \<open>The round trip\<close>

definition checkpoint_members :: "checkpoint_ack \<Rightarrow> (string \<times> cj) list" where
  "checkpoint_members ack =
     [(''entry_hash'', CBytes (ack_entry_hash ack)), (''log_id'', CStr (ack_log_id ack)),
      (''sequence'', CInt (ack_sequence ack)), (''timestamp'', CInt (ack_timestamp ack))]"

lemma checkpoint_tree: "cj_tree (v_base V) (checkpoint_cj V ack) = cj_tree (v_base V) (CObj (checkpoint_members ack))"
  by (simp add: checkpoint_cj_def checkpoint_members_def)

lemma checkpoint_ack_round_trip:
  assumes codec: "base64_codec V" and enc: "encode_v2_checkpoint_acknowledgement V ack = Ok data"
    and size: "length data \<le> MAX_CHECKPOINT_ACKNOWLEDGEMENT_BYTES_V2"
  shows "decode_v2_checkpoint_acknowledgement V data = Ok ack"
proof -
  let ?P = "v_base V" and ?ms = "checkpoint_members ack"
  from enc have v: "length (ack_log_id ack) = 32" "lower_hex (ack_log_id ack)" "1 \<le> ack_sequence ack"
    "ack_sequence ack \<le> MAX_SAFE" "valid_v2_timestamp (ack_timestamp ack)"
    and c: "canonical ?P (checkpoint_cj V ack) = Ok data"
    by (auto simp: encode_v2_checkpoint_acknowledgement_def validate_checkpoint_ack_def bind_ok_Ok reject_Ok)
  have safe: "safe_int (ack_sequence ack)" "safe_int (ack_timestamp ack)"
    using v(3-5) by (simp_all add: safe_int_def MAX_SAFE_def MAX_SAFE_INTEGER_def valid_v2_timestamp_def
        V2_MAX_TIMESTAMP_SECONDS_def)
  have keys: "list_all utf8_valid [''entry_hash'', ''log_id'', ''sequence'', ''timestamp'']" by code_simp
  have tree: "tree_ok MAX_JSON_NESTING_DEPTH (cj_tree ?P (CObj ?ms))"
    using keys safe lower_hex_utf8 [OF v(2)] base64_codec_utf8 [OF codec]
    by (simp add: checkpoint_members_def MAX_JSON_NESTING_DEPTH_def numeral_eq_Suc int_token_dec_int)
  have nf: "nulls_fine (CObj ?ms)" by (simp add: checkpoint_members_def)
  have bf: "bytes_fine [''entry_hash''] [] 0 (CObj ?ms)"
    by (simp add: checkpoint_members_def byte_field_def WIRE_BYTE_FIELDS_def)
  obtain data' x where x: "canonical ?P (CObj ?ms) = Ok data'"
    "parse_wire V data' [''entry_hash''] [] = Ok x" "reads ?P x (CObj ?ms)"
    by (rule parse_wire_canonical [OF codec tree nf bf])
  have "canonical ?P (checkpoint_cj V ack) = canonical ?P (CObj ?ms)"
    using write_tree [OF tree] write_tree [of _ ?P "checkpoint_cj V ack", unfolded checkpoint_tree, OF tree]
    by (simp add: canonical_def)
  with c x(1) have data: "data' = data" by simp
  obtain ms where ms: "obj x = Ok ms" "V2_Json_Read.fields ?P ms ?ms"
    using x(3) by (rule reads_obj) (simp add: checkpoint_members_def)
  have look: "map_of ?ms ''entry_hash'' = Some (CBytes (ack_entry_hash ack))"
    "map_of ?ms ''log_id'' = Some (CStr (ack_log_id ack))" "map_of ?ms ''sequence'' = Some (CInt (ack_sequence ack))"
    "map_of ?ms ''timestamp'' = Some (CInt (ack_timestamp ack))"
    by (simp_all add: checkpoint_members_def)
  have "obj_str ms ''entry_hash'' = Ok (p_base64 ?P (ack_entry_hash ack))"
    using ms(2) look(1) by (rule fields_present) (simp_all add: obj_str_def node_str_def reads_bytes)
  moreover have "canonical_base64 V (p_base64 ?P (ack_entry_hash ack)) = Some (ack_entry_hash ack)"
    using codec by (simp add: canonical_base64_def base64_codec_def)
  moreover have "obj_require ?P ms CHECKPOINT_FIELDS [] = Ok ()"
    by (rule fields_require [OF ms(2)]) (auto simp: CHECKPOINT_FIELDS_def checkpoint_members_def)
  moreover have "obj_only ?P ms CHECKPOINT_FIELDS = Ok ()"
    by (rule fields_only [OF ms(2)]) (simp add: CHECKPOINT_FIELDS_def checkpoint_members_def)
  moreover have "encode_v2_checkpoint_acknowledgement V \<lparr>ack_log_id = ack_log_id ack,
      ack_sequence = ack_sequence ack, ack_entry_hash = ack_entry_hash ack,
      ack_timestamp = ack_timestamp ack\<rparr> = encode_v2_checkpoint_acknowledgement V ack"
    by (cases ack) simp
  ultimately show ?thesis
    using x(2) ms(1) enc size get_str [OF ms(2) look(2)] get_i64 [OF ms(2) look(3) safe(1)]
      get_i64 [OF ms(2) look(4) safe(2)]
    by (simp add: decode_v2_checkpoint_acknowledgement_def data check_v2_wire_size_def reject_def Let_def)
qed

end
