(* ===== verification/V2_Release.thy ===== *)
theory V2_Release
  imports V2_Claim V2_Checkpoint_Ack
begin

text \<open>
  Committed outcomes and their release (\<open>sdks/rust/src/v2/release.rs\<close>).  The claim store, the clock and
  the checkpoint that release calls are records of functions over one state \<open>'s\<close>; a call that panics,
  which the code catches, returns \<open>None\<close>.  \<open>release_v2_decision\<close> is the numbered steps of the code in
  order, each returning either the result that ends the release or what the next step needs.
\<close>

section \<open>Data\<close>

record committed_outcome =
  co_claim_id :: string
  co_verifier_id :: string
  co_receipt_body :: bytes
  co_challenge_expires_at :: int
  co_allow_horizon :: int

definition new_committed_outcome :: "v2_challenge_claim \<Rightarrow> bytes \<Rightarrow> int \<Rightarrow> committed_outcome" where
  "new_committed_outcome c body horizon = \<lparr>co_claim_id = cl_claim_id c, co_verifier_id = cl_verifier_id c,
     co_receipt_body = body, co_challenge_expires_at = cl_expires_at c, co_allow_horizon = horizon\<rparr>"

definition receipt_outbox_digest_v2 :: "v2_prims \<Rightarrow> bytes \<Rightarrow> string" where
  "receipt_outbox_digest_v2 V body =
     ''sha384:'' @ p_hex (v_base V) (sha384 V [str_bytes ''ratify-protocol-receipt-outbox-v2'', [0], body])"

definition receipt_body_digest :: "v2_prims \<Rightarrow> committed_outcome \<Rightarrow> string" where
  "receipt_body_digest V co = receipt_outbox_digest_v2 V (co_receipt_body co)"

definition outcome_allow_horizon :: "committed_outcome \<Rightarrow> int option" where
  "outcome_allow_horizon co = (if co_allow_horizon co > 0 then Some (co_allow_horizon co) else None)"

datatype v2_release_status = Released | Pending | Withheld | Rejected

fun release_status_str :: "v2_release_status \<Rightarrow> string" where
  "release_status_str Released = ''released''"
| "release_status_str Pending = ''pending''"
| "release_status_str Withheld = ''withheld''"
| "release_status_str Rejected = ''rejected''"

record v2_release_record =
  rl_claim_id :: string
  rl_entry_hash :: bytes
  rl_ack_timestamp :: int
  rl_outcome :: v2_release_status
  rl_reason :: string

definition valid_v2_release_record_outcome :: "v2_release_status \<Rightarrow> string \<Rightarrow> bool" where
  "valid_v2_release_record_outcome outcome reason =
     (case outcome of
        Released \<Rightarrow> reason = []
      | Withheld \<Rightarrow> reason \<in> set [''clock_regressed'', ''challenge_expired'', ''allow_horizon_passed'']
      | _ \<Rightarrow> False)"

record v2_terminal_claim_record =
  tc_terminal :: bool
  tc_receipt_outbox_digest :: string
  tc_challenge_expires_at :: int
  tc_allow_horizon :: int
  tc_finalized_at :: int
  tc_receipt_abandoned :: bool
  tc_release :: "v2_release_record option"

type_synonym ('a, 's) store_call = "'s \<Rightarrow> 'a store_result option \<times> 's"

record 's release_store =
  rs_load_terminal :: "string \<Rightarrow> (v2_terminal_claim_record, 's) store_call"
  rs_record_release :: "v2_release_record \<Rightarrow> (unit, 's) store_call"
  rs_time :: "(int, 's) store_call"
  rs_get_ack :: "string \<Rightarrow> int \<Rightarrow> (checkpoint_ack, 's) store_call"

record 's v2_release_config =
  rcfg_verifier_public_key :: hybrid_public_key
  rcfg_log_id :: string
  rcfg_store :: "'s release_store"

record v2_released_decision =
  rd_claim_id :: string
  rd_decision :: string
  rd_reason :: string
  rd_identity_status :: string
  rd_granted_scope :: "string list"
  rd_receipt_wire :: bytes
  rd_release_time :: int
  rd_challenge_expires_at :: int
  rd_allow_horizon :: int

record v2_release_result =
  rres_status :: v2_release_status
  rres_reason :: string
  rres_decision :: "v2_released_decision option"

definition release_result_v2 :: "v2_release_status \<Rightarrow> string \<Rightarrow> v2_release_result" where
  "release_result_v2 st reason = \<lparr>rres_status = st, rres_reason = reason, rres_decision = None\<rparr>"

section \<open>Calls that may panic\<close>

definition caught :: "string \<Rightarrow> 'a store_result option \<times> 's \<Rightarrow> 'a store_result \<times> 's" where
  "caught m r = (case r of (None, s) \<Rightarrow> (Err (Unavailable m), s) | (Some x, s) \<Rightarrow> (x, s))"

definition record_v2_release_safely :: "'s release_store \<Rightarrow> v2_release_record \<Rightarrow> 's \<Rightarrow> unit store_result \<times> 's" where
  "record_v2_release_safely store r s = caught ''claim store panicked'' (rs_record_release store r s)"

definition get_v2_acknowledgement_safely ::
  "'s release_store \<Rightarrow> string \<Rightarrow> int \<Rightarrow> 's \<Rightarrow> checkpoint_ack store_result \<times> 's" where
  "get_v2_acknowledgement_safely store log_id seq s = caught ''checkpoint panicked'' (rs_get_ack store log_id seq s)"

definition read_v2_authoritative_time :: "(int, 's) store_call \<Rightarrow> 's \<Rightarrow> int v2_result \<times> 's" where
  "read_v2_authoritative_time clock s =
     (case clock s of
        (None, s1) \<Rightarrow> (plain ''v2 authoritative clock panicked'', s1)
      | (Some (Err e), s1) \<Rightarrow> (Err (into_v2 e), s1)
      | (Some (Ok now), s1) \<Rightarrow>
          (if \<not> valid_v2_timestamp now
           then plain (''v2 authoritative clock returned '' @ dec_int now @ '' outside 0..'' @
             dec_int V2_MAX_TIMESTAMP_SECONDS)
           else Ok now, s1))"

definition verify_published_v2_receipt ::
  "v2_prims \<Rightarrow> bytes \<Rightarrow> 's v2_release_config \<Rightarrow> verification_receipt_v2 v2_result" where
  "verify_published_v2_receipt V wire cfg =
     bind_ok (decode_verification_receipt_v2 V wire) (\<lambda>receipt.
     reject_as (rc_log_id receipt \<noteq> rcfg_log_id cfg) LogStateMismatch
       ''v2 published receipt belongs to an unconfigured log'' (
     bind_ok (verification_receipt_v2_signable_bytes V receipt) (\<lambda>body.
     bind_ok (verify_v2_statement V VerificationReceipt body (rc_signature receipt)
         (rcfg_verifier_public_key cfg)) (\<lambda>_.
     Ok receipt))))"

section \<open>The release steps\<close>

type_synonym ('a, 's) step = "(v2_release_result + 'a) \<times> 's"

definition then_step :: "('a, 's) step \<Rightarrow> ('a \<Rightarrow> 's \<Rightarrow> ('b, 's) step) \<Rightarrow> ('b, 's) step" where
  "then_step r k = (case r of (Err res, s) \<Rightarrow> (Err res, s) | (Ok x, s) \<Rightarrow> k x s)"

definition stop :: "v2_release_status \<Rightarrow> string \<Rightarrow> v2_release_result + 'a" where
  "stop st reason = Err (release_result_v2 st reason)"

text \<open>1. Committed state.\<close>

definition load_committed ::
  "'s v2_release_config \<Rightarrow> committed_outcome \<Rightarrow> 's \<Rightarrow> (v2_terminal_claim_record, 's) step" where
  "load_committed cfg co s =
     (if co_claim_id co = [] \<or> co_receipt_body co = [] then (stop Rejected ''release_state_mismatch'', s)
      else if length (rcfg_log_id cfg) \<noteq> 32 \<or> \<not> lower_hex (rcfg_log_id cfg)
      then (stop Rejected ''release_state_mismatch'', s)
      else case rs_load_terminal (rcfg_store cfg) (co_claim_id co) s of
        (Some (Ok r), s1) \<Rightarrow> (Ok r, s1)
      | (Some (Err e), s1) \<Rightarrow>
          (if store_error_class e = Some ClaimNotFound then stop Rejected ''release_state_mismatch''
           else stop Pending ''claim_store_unavailable'', s1)
      | (None, s1) \<Rightarrow> (stop Pending ''claim_store_unavailable'', s1))"

definition check_committed ::
  "v2_prims \<Rightarrow> 's v2_release_config \<Rightarrow> committed_outcome \<Rightarrow> v2_terminal_claim_record \<Rightarrow> v2_release_result + unit" where
  "check_committed V cfg co r =
     (if tc_receipt_abandoned r then stop Withheld ''receipt_abandoned''
      else if \<not> tc_terminal r \<or> tc_receipt_outbox_digest r \<noteq> receipt_body_digest V co
        \<or> tc_challenge_expires_at r \<noteq> co_challenge_expires_at co \<or> tc_allow_horizon r \<noteq> co_allow_horizon co
        \<or> key_id_v2 V (rcfg_verifier_public_key cfg) \<noteq> Ok (co_verifier_id co)
      then stop Rejected ''release_state_mismatch''
      else case tc_release r of
        None \<Rightarrow> Ok ()
      | Some rel \<Rightarrow>
          if rl_claim_id rel \<noteq> co_claim_id co \<or> \<not> valid_v2_release_record_outcome (rl_outcome rel) (rl_reason rel)
          then stop Rejected ''release_state_mismatch''
          else if rl_outcome rel = Withheld then stop Withheld (rl_reason rel) else Ok ())"

text \<open>2. Receipt, 3. body binding, 4. prior release.\<close>

definition bind_receipt ::
  "v2_prims \<Rightarrow> 's v2_release_config \<Rightarrow> committed_outcome \<Rightarrow> v2_terminal_claim_record \<Rightarrow> bytes option
    \<Rightarrow> v2_release_result + (bytes \<times> verification_receipt_v2 \<times> bytes)" where
  "bind_receipt V cfg co r wire_opt =
     (case wire_opt of
        None \<Rightarrow> stop Pending ''receipt_not_appended''
      | Some wire \<Rightarrow>
        if wire = [] then stop Pending ''receipt_not_appended''
        else case verify_published_v2_receipt V wire cfg of
          Err _ \<Rightarrow> stop Rejected ''receipt_invalid''
        | Ok receipt \<Rightarrow>
            if rc_verifier_id receipt \<noteq> co_verifier_id co then stop Rejected ''receipt_invalid''
            else if verification_receipt_v2_body V receipt \<noteq> Ok (co_receipt_body co)
            then stop Rejected ''receipt_body_mismatch''
            else (case verification_receipt_v2_digest V receipt of
                Err _ \<Rightarrow> stop Rejected ''receipt_invalid''
              | Ok entry_hash \<Rightarrow>
                  if (case tc_release r of Some rel \<Rightarrow> rl_entry_hash rel \<noteq> entry_hash | None \<Rightarrow> False)
                  then stop Rejected ''release_state_mismatch''
                  else Ok (wire, receipt, entry_hash)))"

text \<open>5. Predecessor, 6. acknowledgement.\<close>

definition check_predecessor ::
  "'s v2_release_config \<Rightarrow> verification_receipt_v2 \<Rightarrow> 's \<Rightarrow> (unit, 's) step" where
  "check_predecessor cfg receipt s =
     (if rc_sequence receipt > 1 then
        (case get_v2_acknowledgement_safely (rcfg_store cfg) (rc_log_id receipt) (i64_sub (rc_sequence receipt) 1) s of
           (Err _, s1) \<Rightarrow> (stop Pending ''acknowledgement_unavailable'', s1)
         | (Ok previous, s1) \<Rightarrow>
             (if ack_log_id previous \<noteq> rc_log_id receipt
                \<or> ack_sequence previous \<noteq> i64_sub (rc_sequence receipt) 1
                \<or> ack_entry_hash previous \<noteq> rc_previous_receipt_hash receipt
              then stop Rejected ''log_predecessor_mismatch'' else Ok (), s1))
      else (Ok (), s))"

definition check_acknowledgement ::
  "'s v2_release_config \<Rightarrow> v2_terminal_claim_record \<Rightarrow> verification_receipt_v2 \<Rightarrow> bytes \<Rightarrow> 's
    \<Rightarrow> (checkpoint_ack, 's) step" where
  "check_acknowledgement cfg r receipt entry_hash s =
     (case get_v2_acknowledgement_safely (rcfg_store cfg) (rc_log_id receipt) (rc_sequence receipt) s of
        (Err _, s1) \<Rightarrow> (stop Pending ''acknowledgement_unavailable'', s1)
      | (Ok ack, s1) \<Rightarrow>
          (if ack_log_id ack \<noteq> rc_log_id receipt \<or> ack_sequence ack \<noteq> rc_sequence receipt
             \<or> ack_entry_hash ack \<noteq> entry_hash
           then stop Rejected ''acknowledgement_mismatch''
           else if (case tc_release r of Some rel \<Rightarrow> rl_ack_timestamp rel \<noteq> ack_timestamp ack | None \<Rightarrow> False)
           then stop Rejected ''release_state_mismatch''
           else Ok ack, s1))"

text \<open>The closure \<open>withhold\<close>: the first withheld result of a claim is recorded.\<close>

definition release_record_of ::
  "committed_outcome \<Rightarrow> bytes \<Rightarrow> checkpoint_ack \<Rightarrow> v2_release_status \<Rightarrow> string \<Rightarrow> v2_release_record" where
  "release_record_of co entry_hash ack outcome reason = \<lparr>rl_claim_id = co_claim_id co, rl_entry_hash = entry_hash,
     rl_ack_timestamp = ack_timestamp ack, rl_outcome = outcome, rl_reason = reason\<rparr>"

definition withhold ::
  "'s v2_release_config \<Rightarrow> committed_outcome \<Rightarrow> v2_terminal_claim_record \<Rightarrow> bytes \<Rightarrow> checkpoint_ack \<Rightarrow> string
    \<Rightarrow> 's \<Rightarrow> ('a, 's) step" where
  "withhold cfg co r entry_hash ack reason s =
     (if tc_release r = None then
        (case record_v2_release_safely (rcfg_store cfg) (release_record_of co entry_hash ack Withheld reason) s of
           (rec, s1) \<Rightarrow> (if rec = Err ReleaseStateMismatch then stop Rejected ''release_state_mismatch''
              else stop Withheld reason, s1))
      else (stop Withheld reason, s))"

text \<open>7. Clock, 8. deadlines.\<close>

definition check_clock ::
  "'s v2_release_config \<Rightarrow> committed_outcome \<Rightarrow> v2_terminal_claim_record \<Rightarrow> verification_receipt_v2 \<Rightarrow> bytes
    \<Rightarrow> checkpoint_ack \<Rightarrow> 's \<Rightarrow> (unit, 's) step" where
  "check_clock cfg co r receipt entry_hash ack s =
     (case read_v2_authoritative_time (rs_time (rcfg_store cfg)) s of
        (Err e, s1) \<Rightarrow>
          if e_class e = ClockRegressed \<and> is_classified e
          then withhold cfg co r entry_hash ack ''clock_regressed'' s1
          else (stop Pending ''clock_unavailable'', s1)
      | (Ok now, s1) \<Rightarrow>
          if \<not> valid_v2_timestamp (tc_finalized_at r) \<or> \<not> valid_v2_timestamp (ack_timestamp ack)
             \<or> tc_finalized_at r > ack_timestamp ack \<or> ack_timestamp ack > now
          then withhold cfg co r entry_hash ack ''clock_regressed'' s1
          else if ack_timestamp ack \<ge> co_challenge_expires_at co \<or> now \<ge> co_challenge_expires_at co
          then withhold cfg co r entry_hash ack ''challenge_expired'' s1
          else if rc_decision receipt = ''allow'' \<and> (co_allow_horizon co \<le> 0
             \<or> ack_timestamp ack \<ge> co_allow_horizon co \<or> now \<ge> co_allow_horizon co)
          then withhold cfg co r entry_hash ack ''allow_horizon_passed'' s1
          else (Ok (), s1))"

text \<open>9. Record.\<close>

definition record_released ::
  "'s v2_release_config \<Rightarrow> committed_outcome \<Rightarrow> v2_terminal_claim_record \<Rightarrow> bytes \<Rightarrow> checkpoint_ack
    \<Rightarrow> 's \<Rightarrow> (unit, 's) step" where
  "record_released cfg co r entry_hash ack s =
     (if tc_release r = None then
        (case record_v2_release_safely (rcfg_store cfg) (release_record_of co entry_hash ack Released '''') s of
           (Ok _, s1) \<Rightarrow> (Ok (), s1)
         | (Err e, s1) \<Rightarrow>
             (if e = ReleaseStateMismatch then stop Rejected ''release_state_mismatch''
              else stop Pending ''claim_store_unavailable'', s1))
      else (Ok (), s))"

text \<open>10. Return.\<close>

definition released_decision ::
  "committed_outcome \<Rightarrow> bytes \<Rightarrow> verification_receipt_v2 \<Rightarrow> checkpoint_ack \<Rightarrow> v2_released_decision" where
  "released_decision co wire receipt ack = \<lparr>rd_claim_id = co_claim_id co, rd_decision = rc_decision receipt,
     rd_reason = rc_decision_reason receipt, rd_identity_status = rc_identity_status receipt,
     rd_granted_scope = rc_granted_scope receipt, rd_receipt_wire = wire, rd_release_time = ack_timestamp ack,
     rd_challenge_expires_at = co_challenge_expires_at co,
     rd_allow_horizon = (if rc_decision receipt = ''allow'' then co_allow_horizon co else 0)\<rparr>"

definition release_steps ::
  "v2_prims \<Rightarrow> 's v2_release_config \<Rightarrow> committed_outcome \<Rightarrow> bytes option \<Rightarrow> 's \<Rightarrow> (v2_released_decision, 's) step" where
  "release_steps V cfg co wire_opt s =
     then_step (load_committed cfg co s) (\<lambda>r s.
     then_step (check_committed V cfg co r, s) (\<lambda>_ s.
     then_step (bind_receipt V cfg co r wire_opt, s) (\<lambda>(wire, receipt, entry_hash) s.
     then_step (check_predecessor cfg receipt s) (\<lambda>_ s.
     then_step (check_acknowledgement cfg r receipt entry_hash s) (\<lambda>ack s.
     then_step (check_clock cfg co r receipt entry_hash ack s) (\<lambda>_ s.
     then_step (record_released cfg co r entry_hash ack s) (\<lambda>_ s.
     (Ok (released_decision co wire receipt ack), s))))))))"

definition release_v2_decision ::
  "v2_prims \<Rightarrow> 's v2_release_config \<Rightarrow> committed_outcome \<Rightarrow> bytes option \<Rightarrow> 's \<Rightarrow> v2_release_result \<times> 's" where
  "release_v2_decision V cfg co wire_opt s =
     (case release_steps V cfg co wire_opt s of
        (Err res, s1) \<Rightarrow> (res, s1)
      | (Ok d, s1) \<Rightarrow> (\<lparr>rres_status = Released, rres_reason = '''', rres_decision = Some d\<rparr>, s1))"

text \<open>\<open>V2ReleasedDecision::allowed\<close>, \<open>receipt\<close>.\<close>

definition decision_allowed :: "v2_released_decision \<Rightarrow> (int, 's) store_call \<Rightarrow> 's \<Rightarrow> bool \<times> 's" where
  "decision_allowed d clock s =
     (if rd_decision d \<noteq> ''allow'' \<or> rd_receipt_wire d = [] \<or> rd_allow_horizon d \<le> 0 then (False, s)
      else case read_v2_authoritative_time clock s of
        (Ok now, s1) \<Rightarrow> (now < rd_challenge_expires_at d \<and> now < rd_allow_horizon d, s1)
      | (Err _, s1) \<Rightarrow> (False, s1))"

definition decision_receipt :: "v2_prims \<Rightarrow> v2_released_decision \<Rightarrow> verification_receipt_v2 v2_result" where
  "decision_receipt V d =
     reject_as (rd_receipt_wire d = []) Malformed ''v2 released decision carries no receipt''
       (decode_verification_receipt_v2 V (rd_receipt_wire d))"

section \<open>What a released decision rests on\<close>

lemma then_step_Ok:
  "then_step r k = (Ok y, s') \<longleftrightarrow> (\<exists>x s. r = (Ok x, s) \<and> k x s = (Ok y, s'))"
  by (cases r; cases "fst r") (auto simp: then_step_def)

lemma then_step_OkE:
  assumes "then_step r k = (Ok y, s')"
  obtains x s where "r = (Ok x, s)" "k x s = (Ok y, s')"
  using assms by (auto simp: then_step_Ok)

lemma stop_not_Ok [simp]: "stop st reason \<noteq> Ok x"
  by (simp add: stop_def)

lemma withhold_not_Ok [simp]: "withhold cfg co r h ack reason s \<noteq> (Ok x, s')"
  by (auto simp: withhold_def split: prod.splits if_splits)

lemma caught_Ok: "caught m r = (Ok x, s) \<longleftrightarrow> r = (Some (Ok x), s)"
  by (cases r) (auto simp: caught_def split: option.splits)

lemma read_time_Ok:
  "read_v2_authoritative_time clock s = (Ok now, s') \<longleftrightarrow> clock s = (Some (Ok now), s') \<and> valid_v2_timestamp now"
  by (cases "clock s") (auto simp: read_v2_authoritative_time_def split: option.splits sum.splits if_splits)

lemma load_committed_Ok:
  "load_committed cfg co s = (Ok r, s') \<Longrightarrow>
     rs_load_terminal (rcfg_store cfg) (co_claim_id co) s = (Some (Ok r), s') \<and> co_claim_id co \<noteq> []"
  by (auto simp: load_committed_def split: if_splits prod.splits option.splits sum.splits)

text \<open>A record that stands is a released one.\<close>

lemma check_committed_Ok:
  "check_committed V cfg co r = Ok u \<Longrightarrow>
     \<not> tc_receipt_abandoned r \<and> tc_terminal r \<and> tc_receipt_outbox_digest r = receipt_body_digest V co
     \<and> tc_challenge_expires_at r = co_challenge_expires_at co \<and> tc_allow_horizon r = co_allow_horizon co
     \<and> key_id_v2 V (rcfg_verifier_public_key cfg) = Ok (co_verifier_id co)
     \<and> (\<forall>rel. tc_release r = Some rel \<longrightarrow> rl_claim_id rel = co_claim_id co \<and> rl_outcome rel = Released
         \<and> rl_reason rel = [])"
  by (auto simp: check_committed_def valid_v2_release_record_outcome_def
      split: if_splits option.splits v2_release_status.splits)

lemma bind_receipt_Ok:
  "bind_receipt V cfg co r wire_opt = Ok (wire, receipt, h) \<Longrightarrow>
     wire_opt = Some wire \<and> wire \<noteq> [] \<and> verify_published_v2_receipt V wire cfg = Ok receipt
     \<and> rc_verifier_id receipt = co_verifier_id co \<and> verification_receipt_v2_body V receipt = Ok (co_receipt_body co)
     \<and> verification_receipt_v2_digest V receipt = Ok h
     \<and> (\<forall>rel. tc_release r = Some rel \<longrightarrow> rl_entry_hash rel = h)"
  by (auto simp: bind_receipt_def split: if_splits option.splits sum.splits)

lemma verify_published_Ok:
  "verify_published_v2_receipt V wire cfg = Ok receipt \<Longrightarrow>
     decode_verification_receipt_v2 V wire = Ok receipt \<and> rc_log_id receipt = rcfg_log_id cfg
     \<and> (\<exists>body. verification_receipt_v2_signable_bytes V receipt = Ok body
        \<and> verify_v2_statement V VerificationReceipt body (rc_signature receipt) (rcfg_verifier_public_key cfg) = Ok ())"
  by (auto simp: verify_published_v2_receipt_def bind_ok_Ok reject_Ok)

lemma check_acknowledgement_Ok:
  "check_acknowledgement cfg r receipt h s = (Ok ack, s') \<Longrightarrow>
     rs_get_ack (rcfg_store cfg) (rc_log_id receipt) (rc_sequence receipt) s = (Some (Ok ack), s')
     \<and> ack_log_id ack = rc_log_id receipt \<and> ack_sequence ack = rc_sequence receipt \<and> ack_entry_hash ack = h
     \<and> (\<forall>rel. tc_release r = Some rel \<longrightarrow> rl_ack_timestamp rel = ack_timestamp ack)"
  by (auto simp: check_acknowledgement_def get_v2_acknowledgement_safely_def caught_Ok
      split: prod.splits sum.splits if_splits option.splits)

lemma check_predecessor_Ok:
  "check_predecessor cfg receipt s = (Ok u, s') \<Longrightarrow> s' = s \<or>
     (\<exists>a. rs_get_ack (rcfg_store cfg) (rc_log_id receipt) (i64_sub (rc_sequence receipt) 1) s = (Some (Ok a), s')
        \<and> ack_entry_hash a = rc_previous_receipt_hash receipt)"
  by (auto simp: check_predecessor_def get_v2_acknowledgement_safely_def caught_Ok
      split: prod.splits sum.splits if_splits)

lemma check_clock_Ok:
  "check_clock cfg co r receipt h ack s = (Ok u, s') \<Longrightarrow>
     \<exists>now. rs_time (rcfg_store cfg) s = (Some (Ok now), s') \<and> valid_v2_timestamp now
       \<and> tc_finalized_at r \<le> ack_timestamp ack \<and> ack_timestamp ack \<le> now \<and> now < co_challenge_expires_at co
       \<and> (rc_decision receipt = ''allow'' \<longrightarrow> now < co_allow_horizon co)"
  by (auto simp: check_clock_def read_time_Ok not_le not_less split: prod.splits sum.splits if_splits)

lemma record_released_Ok:
  "record_released cfg co r h ack s = (Ok u, s') \<Longrightarrow>
     (\<exists>rel. tc_release r = Some rel \<and> s' = s) \<or>
     tc_release r = None \<and> rs_record_release (rcfg_store cfg) (release_record_of co h ack Released '''') s
       = (Some (Ok ()), s')"
  by (auto simp: record_released_def record_v2_release_safely_def caught_Ok
      split: prod.splits sum.splits if_splits)

lemma release_steps_Ok:
  assumes "release_steps V cfg co wire_opt s = (Ok d, s')"
  obtains r wire receipt h ack s1 s2 s3 s4 u1 u2 u3 u4 where
    "load_committed cfg co s = (Ok r, s1)" "check_committed V cfg co r = Ok u1"
    "bind_receipt V cfg co r wire_opt = Ok (wire, receipt, h)"
    "check_predecessor cfg receipt s1 = (Ok u2, s2)" "check_acknowledgement cfg r receipt h s2 = (Ok ack, s3)"
    "check_clock cfg co r receipt h ack s3 = (Ok u3, s4)" "record_released cfg co r h ack s4 = (Ok u4, s')"
    "d = released_decision co wire receipt ack"
proof -
  obtain r s1 where r: "load_committed cfg co s = (Ok r, s1)" and k1:
    "then_step (check_committed V cfg co r, s1) (\<lambda>_ s.
     then_step (bind_receipt V cfg co r wire_opt, s) (\<lambda>(wire, receipt, entry_hash) s.
     then_step (check_predecessor cfg receipt s) (\<lambda>_ s.
     then_step (check_acknowledgement cfg r receipt entry_hash s) (\<lambda>ack s.
     then_step (check_clock cfg co r receipt entry_hash ack s) (\<lambda>_ s.
     then_step (record_released cfg co r entry_hash ack s) (\<lambda>_ s.
     (Ok (released_decision co wire receipt ack), s))))))) = (Ok d, s')"
    using assms unfolding release_steps_def by (rule then_step_OkE)
  obtain u1 where c: "check_committed V cfg co r = Ok u1" and k2:
    "then_step (bind_receipt V cfg co r wire_opt, s1) (\<lambda>(wire, receipt, entry_hash) s.
     then_step (check_predecessor cfg receipt s) (\<lambda>_ s.
     then_step (check_acknowledgement cfg r receipt entry_hash s) (\<lambda>ack s.
     then_step (check_clock cfg co r receipt entry_hash ack s) (\<lambda>_ s.
     then_step (record_released cfg co r entry_hash ack s) (\<lambda>_ s.
     (Ok (released_decision co wire receipt ack), s)))))) = (Ok d, s')"
    using k1 by (rule then_step_OkE) simp
  obtain wire receipt h where b: "bind_receipt V cfg co r wire_opt = Ok (wire, receipt, h)" and k3:
    "then_step (check_predecessor cfg receipt s1) (\<lambda>_ s.
     then_step (check_acknowledgement cfg r receipt h s) (\<lambda>ack s.
     then_step (check_clock cfg co r receipt h ack s) (\<lambda>_ s.
     then_step (record_released cfg co r h ack s) (\<lambda>_ s.
     (Ok (released_decision co wire receipt ack), s))))) = (Ok d, s')"
    using k2 by (rule then_step_OkE) (simp split: prod.splits)
  obtain u2 s2 where p: "check_predecessor cfg receipt s1 = (Ok u2, s2)" and k4:
    "then_step (check_acknowledgement cfg r receipt h s2) (\<lambda>ack s.
     then_step (check_clock cfg co r receipt h ack s) (\<lambda>_ s.
     then_step (record_released cfg co r h ack s) (\<lambda>_ s.
     (Ok (released_decision co wire receipt ack), s)))) = (Ok d, s')"
    using k3 by (rule then_step_OkE)
  show thesis
    using k4 by (elim then_step_OkE) (auto intro: that[OF r c b p])
qed

lemma release_Released:
  "release_steps V cfg co wire_opt s = (Ok d, s') \<Longrightarrow>
     release_v2_decision V cfg co wire_opt s
       = (\<lparr>rres_status = Released, rres_reason = [], rres_decision = Some d\<rparr>, s')"
  by (simp add: release_v2_decision_def)

text \<open>Only the last step gives a decision or the status \<open>Released\<close>.\<close>

lemma then_step_Err:
  "then_step r k = (Err e, s') \<longleftrightarrow> r = (Err e, s') \<or> (\<exists>x s. r = (Ok x, s) \<and> k x s = (Err e, s'))"
  by (cases r; cases "fst r") (auto simp: then_step_def)

text \<open>
  A released decision is the content of a receipt that verifies under the configured key, whose body is
  the committed one, which the checkpoint acknowledged at its position, before every deadline.
\<close>

lemma release_steps_grounded:
  assumes "release_steps V cfg co wire_opt s = (Ok d, s')"
  obtains receipt h ack now where
    "wire_opt = Some (rd_receipt_wire d)" "verify_published_v2_receipt V (rd_receipt_wire d) cfg = Ok receipt"
    "verification_receipt_v2_body V receipt = Ok (co_receipt_body co)"
    "verification_receipt_v2_digest V receipt = Ok h" "ack_entry_hash ack = h"
    "d = released_decision co (rd_receipt_wire d) receipt ack"
    "ack_timestamp ack \<le> now" "now < co_challenge_expires_at co"
    "rc_decision receipt = ''allow'' \<longrightarrow> now < co_allow_horizon co"
  using assms
proof (rule release_steps_Ok)
  fix r wire receipt h ack s1 s2 s3 s4 u1 u2 u3 u4
  assume a: "bind_receipt V cfg co r wire_opt = Ok (wire, receipt, h)"
    "check_acknowledgement cfg r receipt h s2 = (Ok ack, s3)" "check_clock cfg co r receipt h ack s3 = (Ok u3, s4)"
    "d = released_decision co wire receipt ack"
  note b = bind_receipt_Ok [OF a(1)]
  obtain now where n: "ack_timestamp ack \<le> now" "now < co_challenge_expires_at co"
    "rc_decision receipt = ''allow'' \<longrightarrow> now < co_allow_horizon co"
    using check_clock_Ok [OF a(3)] by blast
  have w: "rd_receipt_wire d = wire" by (simp add: a(4) released_decision_def)
  show thesis
    by (rule that [of receipt h ack now]) (use a(4) b w n check_acknowledgement_Ok [OF a(2)] in simp_all)
qed

text \<open>The state each step leaves.\<close>

lemma load_committed_state:
  "load_committed cfg co s = (x, s') \<Longrightarrow>
     s' = s \<or> (\<exists>y. rs_load_terminal (rcfg_store cfg) (co_claim_id co) s = (y, s'))"
  by (auto simp: load_committed_def split: if_splits prod.splits option.splits sum.splits)

lemma caught_state: "caught m r = (x, s') \<Longrightarrow> \<exists>y. r = (y, s')"
  by (cases r) (auto simp: caught_def split: option.splits)

lemma check_predecessor_state:
  "check_predecessor cfg receipt s = (x, s') \<Longrightarrow>
     s' = s \<or> (\<exists>l q y. rs_get_ack (rcfg_store cfg) l q s = (y, s'))"
  by (auto simp: check_predecessor_def get_v2_acknowledgement_safely_def split: if_splits prod.splits sum.splits
      dest!: caught_state)

lemma check_acknowledgement_state:
  "check_acknowledgement cfg r receipt h s = (x, s') \<Longrightarrow> \<exists>l q y. rs_get_ack (rcfg_store cfg) l q s = (y, s')"
  by (auto simp: check_acknowledgement_def get_v2_acknowledgement_safely_def split: prod.splits sum.splits
      dest!: caught_state)

lemma withhold_state:
  "withhold cfg co r h ack reason s = (x, s') \<Longrightarrow>
     s' = s \<or> (\<exists>rel y. rs_record_release (rcfg_store cfg) rel s = (y, s'))"
  by (auto simp: withhold_def record_v2_release_safely_def split: if_splits prod.splits dest!: caught_state)

lemma read_time_state: "read_v2_authoritative_time clock s = (x, s') \<Longrightarrow> \<exists>y. clock s = (y, s')"
  by (cases "clock s") (auto simp: read_v2_authoritative_time_def split: option.splits sum.splits if_splits)

lemma check_clock_state:
  "check_clock cfg co r receipt h ack s = (x, s') \<Longrightarrow> \<exists>y s1. rs_time (rcfg_store cfg) s = (y, s1)
     \<and> (s' = s1 \<or> (\<exists>rel z. rs_record_release (rcfg_store cfg) rel s1 = (z, s')))"
  by (cases "read_v2_authoritative_time (rs_time (rcfg_store cfg)) s")
    (auto simp: check_clock_def split: sum.splits if_splits dest: withhold_state dest!: read_time_state)

lemma record_released_state:
  "record_released cfg co r h ack s = (x, s') \<Longrightarrow>
     s' = s \<or> (\<exists>rel y. rs_record_release (rcfg_store cfg) rel s = (y, s'))"
  by (auto simp: record_released_def record_v2_release_safely_def split: if_splits prod.splits sum.splits
      dest!: caught_state)

section \<open>What release relies on in the claim store\<close>

text \<open>
  \<open>recorded s id\<close> is the release record the store has for a claim.  The laws: a loaded claim shows the
  recorded release, recording writes it, and no call loses or replaces a record.
\<close>

locale release_ledger =
  fixes store :: "'s release_store"
    and consistent :: "'s \<Rightarrow> bool"
    and recorded :: "'s \<Rightarrow> string \<Rightarrow> v2_release_record option"
  assumes load_shows: "consistent s \<Longrightarrow> rs_load_terminal store cid s = (Some (Ok r), s') \<Longrightarrow> tc_release r = recorded s cid"
    and load_keeps: "consistent s \<Longrightarrow> rs_load_terminal store cid s = (x, s') \<Longrightarrow> consistent s' \<and> recorded s' = recorded s"
    and time_keeps: "consistent s \<Longrightarrow> rs_time store s = (y, s') \<Longrightarrow> consistent s' \<and> recorded s' = recorded s"
    and ack_keeps: "consistent s \<Longrightarrow> rs_get_ack store l q s = (z, s') \<Longrightarrow> consistent s' \<and> recorded s' = recorded s"
    and record_keeps: "consistent s \<Longrightarrow> rs_record_release store rel s = (u, s') \<Longrightarrow>
      consistent s' \<and> (\<forall>i r. recorded s i = Some r \<longrightarrow> recorded s' i = Some r)"
    and record_writes: "consistent s \<Longrightarrow> rs_record_release store rel s = (Some (Ok ()), s') \<Longrightarrow>
      recorded s' (rl_claim_id rel) = Some rel"
begin

definition keeps :: "('s \<Rightarrow> 'b \<times> 's) \<Rightarrow> bool" where
  "keeps f \<longleftrightarrow> (\<forall>s x s'. consistent s \<longrightarrow> f s = (x, s') \<longrightarrow>
     consistent s' \<and> (\<forall>i r. recorded s i = Some r \<longrightarrow> recorded s' i = Some r))"

lemma keepsD: "keeps f \<Longrightarrow> consistent s \<Longrightarrow> f s = (x, s') \<Longrightarrow>
    consistent s' \<and> (\<forall>i r. recorded s i = Some r \<longrightarrow> recorded s' i = Some r)"
  unfolding keeps_def by blast

lemma keepsI: "(\<And>s x s'. consistent s \<Longrightarrow> f s = (x, s') \<Longrightarrow>
    consistent s' \<and> (\<forall>i r. recorded s i = Some r \<longrightarrow> recorded s' i = Some r)) \<Longrightarrow> keeps f"
  unfolding keeps_def by blast

lemma keeps_calls:
  "keeps (rs_load_terminal store cid)" "keeps (rs_time store)" "keeps (rs_get_ack store l q)"
  "keeps (rs_record_release store rel)"
proof -
  show "keeps (rs_load_terminal store cid)" by (rule keepsI) (drule (1) load_keeps, simp)
  show "keeps (rs_time store)" by (rule keepsI) (drule (1) time_keeps, simp)
  show "keeps (rs_get_ack store l q)" by (rule keepsI) (drule (1) ack_keeps, simp)
  show "keeps (rs_record_release store rel)" by (rule keepsI) (drule (1) record_keeps, simp)
qed

lemma keeps_pure: "keeps (Pair x)"
  by (auto intro: keepsI)

lemma keeps_then: "keeps f \<Longrightarrow> (\<And>x. keeps (k x)) \<Longrightarrow> keeps (\<lambda>s. then_step (f s) k)"
proof (rule keepsI)
  fix s x s' assume f: "keeps f" and k: "\<And>x. keeps (k x)" and c: "consistent s" and r: "then_step (f s) k = (x, s')"
  obtain y s1 where y: "f s = (y, s1)" by (cases "f s")
  note a = keepsD [OF f c y]
  show "consistent s' \<and> (\<forall>i r. recorded s i = Some r \<longrightarrow> recorded s' i = Some r)"
  proof (cases y)
    case (Inl e)
    then show ?thesis using r y a by (simp add: then_step_def)
  next
    case (Inr z)
    then have "k z s1 = (x, s')" using r y by (simp add: then_step_def)
    then show ?thesis using a keepsD [OF k, of s1 z x s'] by blast
  qed
qed

lemma keeps_steps:
  assumes "rcfg_store cfg = store"
  shows "keeps (load_committed cfg co)" "keeps (check_predecessor cfg receipt)"
    "keeps (check_acknowledgement cfg r receipt h)" "keeps (check_clock cfg co r receipt h ack)"
    "keeps (record_released cfg co r h ack)"
proof -
  note calls = keeps_calls [THEN keepsD]
  show "keeps (load_committed cfg co)"
    by (rule keepsI) (use assms calls(1) in \<open>blast dest: load_committed_state\<close>)
  show "keeps (check_predecessor cfg receipt)"
    by (rule keepsI) (use assms calls(3) in \<open>blast dest: check_predecessor_state\<close>)
  show "keeps (check_acknowledgement cfg r receipt h)"
    by (rule keepsI) (use assms calls(3) in \<open>blast dest: check_acknowledgement_state\<close>)
  show "keeps (record_released cfg co r h ack)"
    by (rule keepsI) (use assms calls(4) in \<open>blast dest: record_released_state\<close>)
  show "keeps (check_clock cfg co r receipt h ack)"
    by (rule keepsI) (use assms calls(2,4) in \<open>blast dest: check_clock_state\<close>)
qed

lemma keeps_release:
  assumes c: "rcfg_store cfg = store"
  shows "keeps (release_steps V cfg co wire_opt)"
proof -
  note steps = keeps_steps [OF c]
  have tail: "keeps (\<lambda>s. then_step (check_predecessor cfg receipt s) (\<lambda>_ s.
     then_step (check_acknowledgement cfg r receipt h s) (\<lambda>ack s.
     then_step (check_clock cfg co r receipt h ack s) (\<lambda>_ s.
     then_step (record_released cfg co r h ack s) (\<lambda>_ s.
     (Ok (released_decision co wire receipt ack), s))))))" for r receipt h wire
    by (intro keeps_then steps keeps_pure)
  show ?thesis
    unfolding release_steps_def
  proof (intro keeps_then steps keeps_pure)
    fix r and x :: "bytes \<times> verification_receipt_v2 \<times> bytes"
    show "keeps ((\<lambda>(wire, receipt, entry_hash) s. then_step (check_predecessor cfg receipt s) (\<lambda>_ s.
     then_step (check_acknowledgement cfg r receipt entry_hash s) (\<lambda>ack s.
     then_step (check_clock cfg co r receipt entry_hash ack s) (\<lambda>_ s.
     then_step (record_released cfg co r entry_hash ack s) (\<lambda>_ s.
     (Ok (released_decision co wire receipt ack), s)))))) x)"
      by (cases x) (simp only: prod.case tail)
  qed
qed

text \<open>A released decision is the recorded one.\<close>

lemma released_recorded:
  assumes c: "rcfg_store cfg = store" and s: "consistent s"
    and r: "release_steps V cfg co wire_opt s = (Ok d, s')"
  shows "\<exists>rel receipt. recorded s' (co_claim_id co) = Some rel \<and> rl_outcome rel = Released
     \<and> rl_ack_timestamp rel = rd_release_time d \<and> decode_verification_receipt_v2 V (rd_receipt_wire d) = Ok receipt
     \<and> verification_receipt_v2_digest V receipt = Ok (rl_entry_hash rel)"
  using r
proof (rule release_steps_Ok)
  fix tc wire receipt h ack s1 s2 s3 s4 u1 u2 u3 u4
  assume a: "load_committed cfg co s = (Ok tc, s1)" "check_committed V cfg co tc = Ok u1"
    "bind_receipt V cfg co tc wire_opt = Ok (wire, receipt, h)" "check_predecessor cfg receipt s1 = (Ok u2, s2)"
    "check_acknowledgement cfg tc receipt h s2 = (Ok ack, s3)" "check_clock cfg co tc receipt h ack s3 = (Ok u3, s4)"
    "record_released cfg co tc h ack s4 = (Ok u4, s')" "d = released_decision co wire receipt ack"
  note k = keeps_steps [OF c, THEN keepsD]
  note s1 = k(1) [OF s a(1)]
  note s2 = k(2) [OF s1 [THEN conjunct1] a(4)]
  note s3 = k(3) [OF s2 [THEN conjunct1] a(5)]
  note s4 = k(4) [OF s3 [THEN conjunct1] a(6)]
  note s5 = k(5) [OF s4 [THEN conjunct1] a(7)]
  have load: "rs_load_terminal store (co_claim_id co) s = (Some (Ok tc), s1)" using load_committed_Ok [OF a(1)] c by simp
  have "\<exists>rel. recorded s' (co_claim_id co) = Some rel \<and> rl_outcome rel = Released
     \<and> rl_ack_timestamp rel = ack_timestamp ack \<and> rl_entry_hash rel = h"
  proof (cases "tc_release tc")
    case None
    then have "rs_record_release store (release_record_of co h ack Released []) s4 = (Some (Ok ()), s')"
      using record_released_Ok [OF a(7)] c by simp
    from record_writes [OF s4 [THEN conjunct1] this] show ?thesis by (simp add: release_record_of_def)
  next
    case (Some rel)
    then have "recorded s (co_claim_id co) = Some rel" using load_shows [OF s load] by simp
    then have "recorded s' (co_claim_id co) = Some rel"
      using s1 s2 s3 s4 s5 by blast
    then show ?thesis
      using Some check_committed_Ok [OF a(2)] bind_receipt_Ok [OF a(3)] check_acknowledgement_Ok [OF a(5)] by simp
  qed
  moreover have "decode_verification_receipt_v2 V wire = Ok receipt" "verification_receipt_v2_digest V receipt = Ok h"
    using bind_receipt_Ok [OF a(3)] verify_published_Ok by blast+
  ultimately show ?thesis by (auto simp: a(8) released_decision_def)
qed

text \<open>A withheld result is final.\<close>

lemma withheld_final:
  assumes "rcfg_store cfg = store" "consistent s" "recorded s (co_claim_id co) = Some rel" "rl_outcome rel = Withheld"
  shows "release_steps V cfg co wire_opt s \<noteq> (Ok d, s')"
proof
  assume r: "release_steps V cfg co wire_opt s = (Ok d, s')"
  then have "recorded s' (co_claim_id co) = Some rel"
    using keepsD [OF keeps_release [OF assms(1)] assms(2)] assms(3) by blast
  with released_recorded [OF assms(1,2) r] assms(4) show False by auto
qed

text \<open>Releases of one claim agree, whatever happens in between.\<close>

lemma releases_agree:
  assumes "rcfg_store cfg = store" "consistent s" "release_steps V cfg co w s = (Ok d, s1)"
    and "rcfg_store cfg2 = store" "consistent s2" "release_steps V cfg2 co2 w2 s2 = (Ok d2, s3)"
    and "co_claim_id co2 = co_claim_id co" and grows: "\<forall>i r. recorded s1 i = Some r \<longrightarrow> recorded s2 i = Some r"
  shows "rd_release_time d2 = rd_release_time d
     \<and> (\<exists>receipt receipt2 h. decode_verification_receipt_v2 V (rd_receipt_wire d) = Ok receipt
        \<and> decode_verification_receipt_v2 V (rd_receipt_wire d2) = Ok receipt2
        \<and> verification_receipt_v2_digest V receipt = Ok h \<and> verification_receipt_v2_digest V receipt2 = Ok h)"
proof -
  obtain rel receipt where a: "recorded s1 (co_claim_id co) = Some rel" "rl_ack_timestamp rel = rd_release_time d"
    "decode_verification_receipt_v2 V (rd_receipt_wire d) = Ok receipt" "verification_receipt_v2_digest V receipt = Ok (rl_entry_hash rel)"
    using released_recorded [OF assms(1-3)] by blast
  obtain rel2 receipt2 where b: "recorded s3 (co_claim_id co2) = Some rel2" "rl_ack_timestamp rel2 = rd_release_time d2"
    "decode_verification_receipt_v2 V (rd_receipt_wire d2) = Ok receipt2" "verification_receipt_v2_digest V receipt2 = Ok (rl_entry_hash rel2)"
    using released_recorded [OF assms(4-6)] by blast
  have "recorded s3 (co_claim_id co) = Some rel"
    using keepsD [OF keeps_release [OF assms(4)] assms(5,6)] grows a(1) by blast
  with b(1) assms(7) have "rel2 = rel" by simp
  with a b show ?thesis by auto
qed

end

end
