(* ===== verification/V2_Reference_Store.thy ===== *)
theory V2_Reference_Store
  imports V2_Release V1_Transaction
begin

text \<open>
  The reference store (\<open>sdks/rust/src/v2/reference/store.rs\<close>): claim store, authoritative clock, receipt
  outbox, publisher and checkpoint over one state guarded by one mutex, so every operation here is one
  step on that state.  Two things the state holds as closures are arguments of the operations that call
  them: the durable anchor (\<open>None\<close> when none is configured) and what the owner-token source returned.
\<close>

section \<open>State\<close>

definition ERR_NOT_ACKNOWLEDGED :: string where
  "ERR_NOT_ACKNOWLEDGED = ''v2reference: checkpoint refused the acknowledgement''"
definition ERR_HEAD_OF_LINE_BLOCKED :: string where
  "ERR_HEAD_OF_LINE_BLOCKED = ''v2reference: an earlier receipt-log entry is still pending''"
definition ERR_SIGNER_UNAVAILABLE :: string where
  "ERR_SIGNER_UNAVAILABLE = ''v2reference: receipt signer unavailable''"
definition ERR_LOG_FROZEN :: string where
  "ERR_LOG_FROZEN = ''v2reference: the receipt log is frozen after abandonment''"

datatype claim_state = Evaluating | Terminal

record claim_record =
  cm_claim :: v2_challenge_claim
  cm_owner_digest :: bytes
  cm_lease_expires_at :: int
  cm_state :: claim_state
  cm_terminal :: bytes
  cm_receipt_body :: bytes
  cm_allow_horizon :: int
  cm_claimed_at :: int
  cm_finalized_at :: int
  cm_release :: "v2_release_record option"
  cm_progress :: v2_evaluation_progress
  cm_abandoned :: bool
  cm_outbox_index :: "nat option"

record outbox_entry =
  ob_claim_id :: string
  ob_body :: bytes
  ob_wire :: "bytes option"
  ob_digest :: bytes
  ob_ack :: "checkpoint_ack option"

text \<open>Namespace, agent and raw stream identifier.\<close>

type_synonym stream_key = "string \<times> string \<times> bytes"

text \<open>Issuer, certificate and window.\<close>

type_synonym rate_key = "string \<times> string \<times> int"

record store_state =
  st_now :: int
  st_high_water :: int
  st_lease_seconds :: int
  st_claims :: "string \<rightharpoonup> claim_record"
  st_streams :: "stream_key \<rightharpoonup> int"
  st_verifier_key :: hybrid_private_key
  st_verifier_id :: string
  st_log_id :: string
  st_outbox :: "outbox_entry list"
  st_ack_withheld :: bool
  st_log_frozen :: bool
  st_checkpoint_frozen :: bool
  st_signer_failure :: bool
  st_rate_at_finalization :: bool
  st_rate_commits :: "rate_key \<rightharpoonup> int list"

type_synonym anchor = "(store_state \<Rightarrow> store_state \<Rightarrow> unit v2_result) option"
type_synonym 'a store_op = "store_state \<Rightarrow> 'a store_result \<times> store_state"

definition new_store :: "v2_prims \<Rightarrow> int \<Rightarrow> int \<Rightarrow> string \<Rightarrow> hybrid_private_key \<Rightarrow> store_state v2_result" where
  "new_store V now lease_seconds log_id sk =
     bind_ok (public_key_v2 V sk) (\<lambda>pk.
     bind_ok (key_id_v2 V pk) (\<lambda>vid.
     reject_as (lease_seconds \<le> 0 \<or> length log_id \<noteq> 32) ConfigurationInvalid
       ''v2reference: lease must be positive and log ID 32 hex characters'' (
     Ok \<lparr>st_now = now, st_high_water = now, st_lease_seconds = lease_seconds, st_claims = Map.empty,
       st_streams = Map.empty, st_verifier_key = sk, st_verifier_id = vid, st_log_id = log_id, st_outbox = [],
       st_ack_withheld = False, st_log_frozen = False, st_checkpoint_frozen = False, st_signer_failure = False,
       st_rate_at_finalization = False, st_rate_commits = Map.empty\<rparr>)))"

definition stream_key_of :: "v2_challenge_claim \<Rightarrow> stream_key" where
  "stream_key_of c = (cl_namespace c, cl_agent_id c, case cl_stream_id c of Some i \<Rightarrow> i | None \<Rightarrow> [])"

definition constant_time_eq :: "bytes \<Rightarrow> bytes \<Rightarrow> bool" where
  "constant_time_eq a b = (fold (\<lambda>(x, y) acc. or acc (xor x y)) (zip a b) (0 :: byte) = 0)"

section \<open>Durable changes, clock and owner\<close>

text \<open>\<open>change_locked\<close>: an anchor that fails undoes the change.\<close>

definition change_locked :: "anchor \<Rightarrow> (store_state \<Rightarrow> store_state) \<Rightarrow> unit store_op" where
  "change_locked anchor mutate s =
     (case anchor of
        None \<Rightarrow> (Ok (), mutate s)
      | Some f \<Rightarrow>
          (case f s (mutate s) of
             Ok _ \<Rightarrow> (Ok (), mutate s)
           | Err e \<Rightarrow>
               (Err (classified ClaimStoreUnavailable
                  (''v2reference: durable state change was not anchored: '' @ e_message e)),
                (mutate s)\<lparr>st_claims := st_claims s, st_streams := st_streams s, st_outbox := st_outbox s,
                  st_rate_commits := st_rate_commits s, st_log_frozen := st_log_frozen s\<rparr>)))"

definition read_clock_locked :: "int store_op" where
  "read_clock_locked s =
     (if st_now s < st_high_water s
      then (Err (classified ClockRegressed (''v2reference: authoritative clock '' @ dec_int (st_now s) @
        '' is below its high-water mark '' @ dec_int (st_high_water s))), s)
      else if \<not> (0 \<le> st_now s \<and> st_now s \<le> V2_MAX_TIMESTAMP_SECONDS)
      then (Err (classified ClaimStoreUnavailable (''v2reference: authoritative clock '' @ dec_int (st_now s) @
        '' is outside the timestamp domain'')), s)
      else (Ok (st_now s), s\<lparr>st_high_water := st_now s\<rparr>))"

datatype owner_failure = Failed v2_store_error | AlreadyTerminal v2_store_error

definition owner_locked ::
  "v2_prims \<Rightarrow> string \<Rightarrow> bytes \<Rightarrow> store_state \<Rightarrow> (owner_failure + int) \<times> store_state" where
  "owner_locked V claim_id owner_token s =
     (case st_claims s claim_id of
        None \<Rightarrow> (Err (Failed (classified ClaimNotFound ''v2reference: unknown claim'')), s)
      | Some r \<Rightarrow>
        if \<not> constant_time_eq (p_sha256 (v_base V) owner_token) (cm_owner_digest r)
        then (Err (Failed (classified ClaimLeaseLost ''v2reference: evaluator owner mismatch'')), s)
        else if cm_state r = Terminal
        then (Err (AlreadyTerminal (classified ClaimAlreadyTerminal ''v2reference: claim already terminal'')), s)
        else (case read_clock_locked s of
            (Err e, s1) \<Rightarrow> (Err (Failed e), s1)
          | (Ok now, s1) \<Rightarrow>
              (if now < cm_claimed_at r
               then Err (Failed (classified ClockRegressed (''v2reference: clock '' @ dec_int now @
                 '' is before T_claim '' @ dec_int (cm_claimed_at r))))
               else if now \<ge> cm_lease_expires_at r
               then Err (Failed (classified ClaimLeaseLost ''v2reference: evaluator lease expired''))
               else Ok now, s1)))"

definition commit_terminal_locked ::
  "string \<Rightarrow> bytes \<Rightarrow> bytes \<Rightarrow> int \<Rightarrow> int \<Rightarrow> store_state \<Rightarrow> store_state" where
  "commit_terminal_locked claim_id terminal body allow_horizon final_at s =
     (case st_claims s claim_id of
        None \<Rightarrow> s
      | Some r \<Rightarrow>
          s\<lparr>st_claims := (st_claims s)(claim_id \<mapsto> r\<lparr>cm_state := Terminal, cm_terminal := terminal,
              cm_receipt_body := body, cm_allow_horizon := allow_horizon, cm_finalized_at := final_at,
              cm_outbox_index := Some (length (st_outbox s))\<rparr>),
            st_outbox := st_outbox s @ [\<lparr>ob_claim_id = claim_id, ob_body = body, ob_wire = None,
              ob_digest = [], ob_ack = None\<rparr>]\<rparr>)"

text \<open>\<open>acknowledge_pending_locked\<close> over the positions still to visit and the reading already taken.\<close>

fun acknowledge_from :: "nat list \<Rightarrow> int option \<Rightarrow> store_state \<Rightarrow> store_state" where
  "acknowledge_from [] now s = s"
| "acknowledge_from (i # js) now s =
     (let e = st_outbox s ! i in
      if ob_wire e = None then s
      else if ob_ack e \<noteq> None then acknowledge_from js now s
      else case (case now of Some t \<Rightarrow> (Ok t, s) | None \<Rightarrow> read_clock_locked s) of
          (Err _, s1) \<Rightarrow> s1
        | (Ok t, s1) \<Rightarrow> acknowledge_from js (Some t)
            (s1\<lparr>st_outbox := (st_outbox s1)[i := e\<lparr>ob_ack := Some \<lparr>ack_log_id = st_log_id s1,
              ack_sequence = int i + 1, ack_entry_hash = ob_digest e, ack_timestamp = t\<rparr>\<rparr>]\<rparr>))"

definition acknowledge_pending_locked :: "store_state \<Rightarrow> store_state" where
  "acknowledge_pending_locked s =
     (if st_checkpoint_frozen s then s else acknowledge_from [0..<length (st_outbox s)] None s)"


section \<open>Test controls and views\<close>

definition clone_store :: "store_state \<Rightarrow> store_state" where "clone_store s = s"

definition set_time :: "int \<Rightarrow> store_state \<Rightarrow> store_state" where "set_time now s = s\<lparr>st_now := now\<rparr>"

definition set_signer_failure :: "bool \<Rightarrow> store_state \<Rightarrow> store_state" where
  "set_signer_failure failing s = s\<lparr>st_signer_failure := failing\<rparr>"

definition set_acknowledgement_withheld :: "bool \<Rightarrow> store_state \<Rightarrow> store_state" where
  "set_acknowledgement_withheld withheld s =
     (let s1 = s\<lparr>st_ack_withheld := withheld\<rparr> in if withheld then s1 else acknowledge_pending_locked s1)"

definition log_length :: "store_state \<Rightarrow> nat" where
  "log_length s = length (takeWhile (\<lambda>e. ob_wire e \<noteq> None) (st_outbox s))"

definition with_rate_at_finalization :: "store_state \<Rightarrow> store_state" where
  "with_rate_at_finalization s = s\<lparr>st_rate_at_finalization := True\<rparr>"

definition plant_release_test_only :: "string \<Rightarrow> int \<Rightarrow> store_state \<Rightarrow> store_state" where
  "plant_release_test_only claim_id stamp s =
     (case st_claims s claim_id of
        None \<Rightarrow> s
      | Some r \<Rightarrow>
          (case cm_outbox_index r of
             None \<Rightarrow> s
           | Some i \<Rightarrow>
               if i < length (st_outbox s) \<and> ob_wire (st_outbox s ! i) \<noteq> None
               then s\<lparr>st_claims := (st_claims s)(claim_id \<mapsto> r\<lparr>cm_release := Some \<lparr>rl_claim_id = claim_id,
                 rl_entry_hash = ob_digest (st_outbox s ! i), rl_ack_timestamp = stamp,
                 rl_outcome = Released, rl_reason = []\<rparr>\<rparr>)\<rparr>
               else s))"

definition pending_claims :: "store_state \<Rightarrow> string list" where
  "pending_claims s = map ob_claim_id (filter (\<lambda>e. ob_wire e = None) (st_outbox s))"

definition abandon_claim :: "string \<Rightarrow> (string \<rightharpoonup> claim_record) \<Rightarrow> (string \<rightharpoonup> claim_record)" where
  "abandon_claim claim_id claims =
     (case claims claim_id of None \<Rightarrow> claims | Some r \<Rightarrow> claims(claim_id \<mapsto> r\<lparr>cm_abandoned := True\<rparr>))"

definition abandon_pending_receipts :: "anchor \<Rightarrow> store_state \<Rightarrow> string list \<times> store_state" where
  "abandon_pending_receipts anchor s =
     (case change_locked anchor (\<lambda>s. s\<lparr>st_log_frozen := True,
          st_claims := fold abandon_claim (pending_claims s) (st_claims s)\<rparr>) s of
        (Ok _, s1) \<Rightarrow> (pending_claims s, s1)
      | (Err _, s1) \<Rightarrow> ([], s1))"

section \<open>Claiming\<close>

definition authoritative_time_v2 :: "int store_op" where
  "authoritative_time_v2 s = read_clock_locked s"

definition stream_advance ::
  "v2_challenge_claim \<Rightarrow> store_state \<Rightarrow> (stream_key \<times> int) option store_result" where
  "stream_advance c s =
     (if cl_stream_id c = None \<and> cl_stream_seq c = None then Ok None
      else case (cl_stream_id c, cl_stream_seq c) of
        (Some _, Some seq) \<Rightarrow>
          (let last = st_streams s (stream_key_of c) in
           case check_v2_stream_sequence (last \<noteq> None) (case last of Some n \<Rightarrow> n | None \<Rightarrow> 0) seq of
             Ok _ \<Rightarrow> Ok (Some (stream_key_of c, seq))
           | Err e \<Rightarrow> Err (Classified e))
      | _ \<Rightarrow> Err (classified Malformed ''v2reference: stream_id and stream_seq must appear together''))"

definition fresh_claim_record :: "v2_prims \<Rightarrow> v2_challenge_claim \<Rightarrow> bytes \<Rightarrow> int \<Rightarrow> int \<Rightarrow> claim_record" where
  "fresh_claim_record V c owner now lease_expires_at = \<lparr>cm_claim = c,
     cm_owner_digest = p_sha256 (v_base V) owner, cm_lease_expires_at = lease_expires_at, cm_state = Evaluating,
     cm_terminal = [], cm_receipt_body = [], cm_allow_horizon = 0, cm_claimed_at = now, cm_finalized_at = 0,
     cm_release = None, cm_progress = initial_v2_evaluation_progress, cm_abandoned = False,
     cm_outbox_index = None\<rparr>"

definition replayed_claim :: "claim_record \<Rightarrow> v2_challenge_claim \<Rightarrow> v2_claim_result store_result" where
  "replayed_claim existing c =
     (if cm_claim existing \<noteq> c then Err ClaimProofConflict
      else if cm_abandoned existing
      then Err (classified ReceiptAbandoned
        ''v2reference: the receipt for this claim was abandoned; a fresh challenge is required'')
      else Ok \<lparr>cr_disposition = (if cm_state existing = Terminal then TerminalReplay else InProgress),
        cr_claimed_at = cm_claimed_at existing, cr_owner_token = []\<rparr>)"

definition insert_claim ::
  "v2_prims \<Rightarrow> v2_challenge_claim \<Rightarrow> (stream_key \<times> int) option \<Rightarrow> bytes \<Rightarrow> int \<Rightarrow> int \<Rightarrow> store_state \<Rightarrow> store_state" where
  "insert_claim V c advance owner now lease_expires_at s =
     s\<lparr>st_streams := (case advance of Some (k, seq) \<Rightarrow> (st_streams s)(k \<mapsto> seq) | None \<Rightarrow> st_streams s),
       st_claims := (st_claims s)(cl_claim_id c \<mapsto> fresh_claim_record V c owner now lease_expires_at)\<rparr>"

definition claim_v2 ::
  "v2_prims \<Rightarrow> anchor \<Rightarrow> (string + bytes) \<Rightarrow> v2_challenge_claim \<Rightarrow> v2_claim_result store_op" where
  "claim_v2 V anchor owner_rand c s =
     (if \<not> claim_id_matches_key V c
      then (Err (classified ConfigurationInvalid (''v2reference: claim ID is not derived from the claim'' @ [CHR 0x27] @
        ''s namespace, replay epoch and challenge digest'')), s)
      else case read_clock_locked s of
        (Err e, s1) \<Rightarrow> (Err (classified ClaimStoreUnavailable (store_error_display e)), s1)
      | (Ok now, s1) \<Rightarrow>
        (case st_claims s1 (cl_claim_id c) of
           Some existing \<Rightarrow> (replayed_claim existing c, s1)
         | None \<Rightarrow>
           if \<not> challenge_claim_time_current_v2 c now
           then (Err (classified ChallengeNotFresh ''v2reference: challenge is not current at the store clock''), s1)
           else case stream_advance c s1 of
             Err e \<Rightarrow> (Err e, s1)
           | Ok advance \<Rightarrow>
             (case owner_rand of
                Err m \<Rightarrow> (Err (Unavailable m), s1)
              | Ok owner \<Rightarrow>
                (case change_locked anchor (insert_claim V c advance owner now
                     (i64_add now (st_lease_seconds s1))) s1 of
                   (Err e, s2) \<Rightarrow> (Err e, s2)
                 | (Ok _, s2) \<Rightarrow>
                     (Ok \<lparr>cr_disposition = Created, cr_claimed_at = now, cr_owner_token = owner\<rparr>, s2)))))"

section \<open>Finalizing\<close>

definition rate_key_of :: "v2_rate_reservation \<Rightarrow> rate_key" where
  "rate_key_of item = (rr_issuer_id item, rr_cert_id item, rr_window_s item)"

definition rate_times :: "store_state \<Rightarrow> rate_key \<Rightarrow> int list" where
  "rate_times s k = (case st_rate_commits s k of Some ts \<Rightarrow> ts | None \<Rightarrow> [])"

definition rate_exhausted :: "store_state \<Rightarrow> int \<Rightarrow> v2_rate_reservation \<Rightarrow> bool" where
  "rate_exhausted s final_at item \<longleftrightarrow>
     int (length (filter (\<lambda>t. t > i64_sub final_at (rr_window_s item)) (rate_times s (rate_key_of item))))
       \<ge> rr_limit item"

definition commit_rate :: "int \<Rightarrow> v2_rate_reservation \<Rightarrow> store_state \<Rightarrow> store_state" where
  "commit_rate final_at item s = s\<lparr>st_rate_commits := (st_rate_commits s)(rate_key_of item \<mapsto>
     rate_times s (rate_key_of item) @ [final_at])\<rparr>"

definition horizon_ok :: "string \<Rightarrow> int \<Rightarrow> bool" where
  "horizon_ok decision allow_valid_until =
     (if decision = ''allow'' then allow_valid_until > 0 \<and> allow_valid_until \<le> V2_MAX_TIMESTAMP_SECONDS
      else allow_valid_until = 0)"

definition admits_rate :: "store_state \<Rightarrow> v2_challenge_claim \<Rightarrow> int \<Rightarrow> bool" where
  "admits_rate s c allow_valid_until \<longleftrightarrow>
     allow_valid_until > 0 \<and> st_rate_at_finalization s \<and> cl_rate_batch c \<noteq> []"

definition finalize_v2_claim ::
  "v2_prims \<Rightarrow> anchor \<Rightarrow> string \<Rightarrow> bytes \<Rightarrow> bytes \<Rightarrow> bytes \<Rightarrow> int \<Rightarrow> bool store_op" where
  "finalize_v2_claim V anchor claim_id owner_token terminal_result receipt_body allow_valid_until s =
     (case owner_locked V claim_id owner_token s of
        (Err (AlreadyTerminal e), s1) \<Rightarrow>
          (case st_claims s1 claim_id of
             Some r \<Rightarrow> (if cm_terminal r = terminal_result \<and> cm_receipt_body r = receipt_body
               then Ok False else Err e, s1)
           | None \<Rightarrow> (Err e, s1))
      | (Err (Failed e), s1) \<Rightarrow> (Err e, s1)
      | (Ok final_at, s1) \<Rightarrow>
        (case st_claims s1 claim_id of
           None \<Rightarrow> (Err (classified ClaimNotFound ''v2reference: unknown claim''), s1)
         | Some r \<Rightarrow>
           (case validate_v2_finalization_payload V (cm_claim r) terminal_result receipt_body of
              Err e \<Rightarrow> (Err (Classified e), s1)
            | Ok _ \<Rightarrow>
              (case decode_verification_receipt_body_v2 V receipt_body of
                 Err e \<Rightarrow> (Err (Classified e), s1)
               | Ok body \<Rightarrow>
                 if \<not> horizon_ok (rc_decision body) allow_valid_until
                 then (Err (classified ConfigurationInvalid
                   ''v2reference: the allow horizon does not match the decision''), s1)
                 else if allow_valid_until > 0 \<and> (final_at \<ge> allow_valid_until \<or> final_at \<ge> cl_expires_at (cm_claim r))
                 then (Err (classified AllowHorizonPassed ''v2reference: allow is at or beyond its horizon''), s1)
                 else if admits_rate s1 (cm_claim r) allow_valid_until
                   \<and> list_ex (rate_exhausted s1 final_at) (cl_rate_batch (cm_claim r))
                 then (Err RateLimitExceeded, s1)
                 else (case change_locked anchor (\<lambda>s. commit_terminal_locked claim_id terminal_result receipt_body
                       allow_valid_until final_at
                       (if admits_rate s1 (cm_claim r) allow_valid_until
                        then fold (commit_rate final_at) (cl_rate_batch (cm_claim r)) s else s)) s1 of
                     (Err e, s2) \<Rightarrow> (Err e, s2)
                   | (Ok _, s2) \<Rightarrow> (Ok True, s2))))))"


section \<open>Progress and recovery\<close>

definition record_v2_evaluation_progress ::
  "v2_prims \<Rightarrow> anchor \<Rightarrow> string \<Rightarrow> bytes \<Rightarrow> v2_evaluation_progress \<Rightarrow> unit store_op" where
  "record_v2_evaluation_progress V anchor claim_id owner_token progress s =
     (case owner_locked V claim_id owner_token s of
        (Err (Failed e), s1) \<Rightarrow> (Err e, s1)
      | (Err (AlreadyTerminal e), s1) \<Rightarrow> (Err e, s1)
      | (Ok _, s1) \<Rightarrow>
        (case validate_v2_evaluation_progress_inner progress of
           Err e \<Rightarrow> (Err (Classified (classify Malformed e)), s1)
         | Ok _ \<Rightarrow> change_locked anchor (\<lambda>s.
             (case st_claims s claim_id of
                None \<Rightarrow> s
              | Some r \<Rightarrow> s\<lparr>st_claims := (st_claims s)(claim_id \<mapsto> r\<lparr>cm_progress := progress\<rparr>)\<rparr>)) s1))"

definition unknown_claim :: "v2_store_error + 'a" where
  "unknown_claim = Err (classified ClaimNotFound ''v2reference: unknown claim'')"

definition lease_live :: "v2_store_error + 'a" where
  "lease_live = Err (classified ClaimLeaseLive ''v2reference: evaluator lease is still live'')"

definition load_v2_interrupted_claim :: "string \<Rightarrow> v2_interrupted_claim store_op" where
  "load_v2_interrupted_claim claim_id s =
     (if st_claims s claim_id = None then (unknown_claim, s)
      else case read_clock_locked s of
        (Err e, s1) \<Rightarrow> (Err e, s1)
      | (Ok now, s1) \<Rightarrow>
          (case st_claims s1 claim_id of
             None \<Rightarrow> (unknown_claim, s1)
           | Some r \<Rightarrow>
               (if cm_state r = Evaluating \<and> now < cm_lease_expires_at r then lease_live
                else Ok \<lparr>ic_claim = cm_claim r, ic_claimed_at = cm_claimed_at r, ic_progress = cm_progress r\<rparr>, s1)))"

definition recover_interrupted_v2_claim ::
  "v2_prims \<Rightarrow> anchor \<Rightarrow> string \<Rightarrow> bytes \<Rightarrow> bytes \<Rightarrow> bool store_op" where
  "recover_interrupted_v2_claim V anchor claim_id terminal_result receipt_body s =
     (case st_claims s claim_id of
        None \<Rightarrow> (unknown_claim, s)
      | Some r \<Rightarrow>
        if cm_state r = Terminal
        then (if cm_terminal r = terminal_result \<and> cm_receipt_body r = receipt_body then Ok False
              else Err (classified ClaimAlreadyTerminal ''v2reference: claim already terminal''), s)
        else (case read_clock_locked s of
            (Err e, s1) \<Rightarrow> (Err e, s1)
          | (Ok now, s1) \<Rightarrow>
            if now < cm_lease_expires_at r then (lease_live, s1)
            else (case st_claims s1 claim_id of
                None \<Rightarrow> (unknown_claim, s1)
              | Some r1 \<Rightarrow>
                (case validate_v2_finalization_payload V (cm_claim r1) terminal_result receipt_body of
                   Err e \<Rightarrow> (Err (Classified e), s1)
                 | Ok _ \<Rightarrow>
                   (case decode_verification_receipt_body_v2 V receipt_body of
                      Err e \<Rightarrow> (Err (Classified e), s1)
                    | Ok body \<Rightarrow>
                      if rc_decision body \<noteq> ''indeterminate'' \<or> rc_decision_reason body \<noteq> ''evaluation_interrupted''
                      then (Err (classified ConfigurationInvalid
                        ''v2reference: recovery may commit only indeterminate/evaluation_interrupted''), s1)
                      else (case change_locked anchor
                            (commit_terminal_locked claim_id terminal_result receipt_body 0 now) s1 of
                          (Err e, s2) \<Rightarrow> (Err e, s2)
                        | (Ok _, s2) \<Rightarrow> (Ok True, s2)))))))"

definition load_v2_committed_claim :: "string \<Rightarrow> v2_committed_claim store_op" where
  "load_v2_committed_claim claim_id s =
     (case st_claims s claim_id of
        None \<Rightarrow> (unknown_claim, s)
      | Some r \<Rightarrow>
        if cm_state r \<noteq> Terminal
        then (case read_clock_locked s of
            (Err e, s1) \<Rightarrow> (Err e, s1)
          | (Ok now, s1) \<Rightarrow>
              (if now < cm_lease_expires_at r then lease_live
               else Err (classified ClaimLeaseLost ''v2reference: claim is not terminal; recover it first''), s1))
        else (Ok \<lparr>cc_claim = cm_claim r, cc_terminal_result = cm_terminal r, cc_receipt_body = cm_receipt_body r,
          cc_allow_horizon = cm_allow_horizon r\<rparr>, s))"

section \<open>Releasing\<close>

definition load_v2_terminal_claim :: "v2_prims \<Rightarrow> string \<Rightarrow> v2_terminal_claim_record store_op" where
  "load_v2_terminal_claim V claim_id s =
     (case st_claims s claim_id of
        None \<Rightarrow> (unknown_claim, s)
      | Some r \<Rightarrow>
          (Ok \<lparr>tc_terminal = (cm_state r = Terminal),
             tc_receipt_outbox_digest =
               (if cm_state r = Terminal then receipt_outbox_digest_v2 V (cm_receipt_body r) else []),
             tc_challenge_expires_at = cl_expires_at (cm_claim r), tc_allow_horizon = cm_allow_horizon r,
             tc_finalized_at = cm_finalized_at r, tc_receipt_abandoned = cm_abandoned r,
             tc_release = cm_release r\<rparr>, s))"

definition same_release :: "v2_release_record \<Rightarrow> v2_release_record \<Rightarrow> bool" where
  "same_release a b \<longleftrightarrow> rl_entry_hash a = rl_entry_hash b \<and> rl_ack_timestamp a = rl_ack_timestamp b
     \<and> rl_outcome a = rl_outcome b \<and> rl_reason a = rl_reason b"

definition record_v2_release :: "v2_prims \<Rightarrow> anchor \<Rightarrow> v2_release_record \<Rightarrow> unit store_op" where
  "record_v2_release V anchor rel s =
     (if \<not> valid_v2_release_record_outcome (rl_outcome rel) (rl_reason rel)
      then (Err (classified ConfigurationInvalid (''v2reference: invalid release record outcome '' @
        debug_str (v_base V) (release_status_str (rl_outcome rel)) @ '' reason '' @
        debug_str (v_base V) (rl_reason rel))), s)
      else case st_claims s (rl_claim_id rel) of
        None \<Rightarrow> (Err ReleaseStateMismatch, s)
      | Some r \<Rightarrow>
        if cm_state r \<noteq> Terminal then (Err ReleaseStateMismatch, s)
        else (case cm_release r of
            Some existing \<Rightarrow> (if same_release existing rel then Ok () else Err ReleaseStateMismatch, s)
          | None \<Rightarrow> change_locked anchor (\<lambda>s.
              (case st_claims s (rl_claim_id rel) of
                 None \<Rightarrow> s
               | Some r \<Rightarrow> s\<lparr>st_claims := (st_claims s)(rl_claim_id rel \<mapsto> r\<lparr>cm_release := Some rel\<rparr>)\<rparr>)) s))"

section \<open>Publishing and acknowledging\<close>

definition committed_index :: "string \<Rightarrow> bytes \<Rightarrow> store_state \<Rightarrow> nat option" where
  "committed_index claim_id receipt_body s =
     (case st_claims s claim_id of
        Some r \<Rightarrow> if cm_state r = Terminal \<and> cm_receipt_body r = receipt_body
          then (case cm_outbox_index r of Some i \<Rightarrow> if i < length (st_outbox s) then Some i else None | None \<Rightarrow> None)
          else None
      | None \<Rightarrow> None)"

definition outbox_head :: "nat \<Rightarrow> store_state \<Rightarrow> receipt_v2_head" where
  "outbox_head index s = \<lparr>rh_log_id = st_log_id s, rh_verifier_id = st_verifier_id s, rh_sequence = int index,
     rh_head_hash = (if index > 0 then ob_digest (st_outbox s ! (index - 1)) else replicate 48 0),
     rh_accepted = map (\<lambda>i. (int i + 1, ob_digest (st_outbox s ! i))) [0..<index], rh_frozen = False\<rparr>"

definition append_wire :: "nat \<Rightarrow> bytes \<Rightarrow> bytes \<Rightarrow> store_state \<Rightarrow> store_state" where
  "append_wire index wire digest s =
     s\<lparr>st_outbox := (st_outbox s)[index := (st_outbox s ! index)\<lparr>ob_wire := Some wire, ob_digest := digest\<rparr>]\<rparr>"

definition publish_v2_receipt :: "v2_prims \<Rightarrow> anchor \<Rightarrow> bytes \<Rightarrow> string \<Rightarrow> bytes \<Rightarrow> bytes store_op" where
  "publish_v2_receipt V anchor rnd claim_id receipt_body s =
     (case committed_index claim_id receipt_body s of
        None \<Rightarrow> (Err (Unavailable ''v2reference: no committed outbox body for this claim matches''), s)
      | Some index \<Rightarrow>
        (case ob_wire (st_outbox s ! index) of
           Some wire \<Rightarrow> (Ok wire, s)
         | None \<Rightarrow>
           if st_log_frozen s then (Err (Unavailable ERR_LOG_FROZEN), s)
           else if index > 0 \<and> ob_wire (st_outbox s ! (index - 1)) = None
           then (Err (Unavailable ERR_HEAD_OF_LINE_BLOCKED), s)
           else if st_signer_failure s then (Err (Unavailable ERR_SIGNER_UNAVAILABLE), s)
           else (case sign_prepared_verification_receipt_v2 V rnd receipt_body (outbox_head index s)
                 (st_verifier_key s) of
               Err e \<Rightarrow> (Err (Unavailable (sign_error_display e)), s)
             | Ok receipt \<Rightarrow>
               (case encode_verification_receipt_v2 V receipt of
                  Err e \<Rightarrow> (Err (Classified e), s)
                | Ok wire \<Rightarrow>
                  (case verification_receipt_v2_digest V receipt of
                     Err e \<Rightarrow> (Err (Classified e), s)
                   | Ok digest \<Rightarrow>
                     (case change_locked anchor (append_wire index wire digest) s of
                        (Err e, s1) \<Rightarrow> (Err e, s1)
                      | (Ok _, s1) \<Rightarrow>
                          (Ok wire, if st_ack_withheld s1 then s1 else acknowledge_pending_locked s1)))))))"

definition refused :: "v2_store_error + 'a" where
  "refused = Err (Unavailable ERR_NOT_ACKNOWLEDGED)"

definition acknowledge_v2_receipt :: "string \<Rightarrow> int \<Rightarrow> bytes \<Rightarrow> bytes \<Rightarrow> checkpoint_ack store_op" where
  "acknowledge_v2_receipt log_id seq previous_entry_hash entry_hash s =
     (if log_id \<noteq> st_log_id s \<or> seq < 1 \<or> nat seq > length (st_outbox s) then (refused, s)
      else let index = nat seq - 1; e = st_outbox s ! index in
        if (case ob_ack e of Some a \<Rightarrow> ack_entry_hash a \<noteq> entry_hash | None \<Rightarrow> False)
        then (Err (Unavailable (ERR_NOT_ACKNOWLEDGED @ '': a different entry hash at acknowledged sequence '' @
          dec_int seq @ '' is a fork; the log is frozen'')), s\<lparr>st_checkpoint_frozen := True\<rparr>)
        else if st_checkpoint_frozen s \<and> ob_ack e = None
        then (Err (Unavailable (ERR_NOT_ACKNOWLEDGED @ '': the log is frozen after a fork'')), s)
        else if ob_wire e = None \<or> ob_digest e \<noteq> entry_hash then (refused, s)
        else if index > 0 \<and> ob_ack (st_outbox s ! (index - 1)) = None then (refused, s)
        else if (if index > 0 then ob_digest (st_outbox s ! (index - 1)) else replicate 48 0) \<noteq> previous_entry_hash
        then (refused, s)
        else (case ob_ack e of
            Some a \<Rightarrow> (Ok a, s)
          | None \<Rightarrow>
            (case read_clock_locked s of
               (Err er, s1) \<Rightarrow> (Err er, s1)
             | (Ok now, s1) \<Rightarrow>
               (let a = \<lparr>ack_log_id = log_id, ack_sequence = seq, ack_entry_hash = entry_hash, ack_timestamp = now\<rparr> in
                (Ok a, s1\<lparr>st_outbox := (st_outbox s1)[index := e\<lparr>ob_ack := Some a\<rparr>]\<rparr>)))))"

definition get_v2_acknowledgement :: "string \<Rightarrow> int \<Rightarrow> checkpoint_ack store_op" where
  "get_v2_acknowledgement log_id seq s =
     (if log_id \<noteq> st_log_id s \<or> seq < 1 then (Err AcknowledgementNotFound, s)
      else if nat seq - 1 < length (st_outbox s)
      then (case ob_ack (st_outbox s ! (nat seq - 1)) of
          Some a \<Rightarrow> (Ok a, s) | None \<Rightarrow> (Err AcknowledgementNotFound, s))
      else (Err AcknowledgementNotFound, s))"

section \<open>The store behind release\<close>

text \<open>\<open>RateAtFinalizationStore\<close> delegates every other call to the store.\<close>

definition reserve_v2_rate_batch :: "unit store_op" where
  "reserve_v2_rate_batch s = (Err (Unavailable
     ''v2reference: provisional rate reservation is not used with admission at finalization''), s)"

definition total_call :: "'a store_op \<Rightarrow> ('a, store_state) store_call" where
  "total_call f s = (case f s of (r, s1) \<Rightarrow> (Some r, s1))"

definition reference_release_store :: "v2_prims \<Rightarrow> anchor \<Rightarrow> store_state release_store" where
  "reference_release_store V anchor = \<lparr>rs_load_terminal = (\<lambda>claim_id. total_call (load_v2_terminal_claim V claim_id)),
     rs_record_release = (\<lambda>rel. total_call (record_v2_release V anchor rel)),
     rs_time = total_call authoritative_time_v2,
     rs_get_ack = (\<lambda>log_id seq. total_call (get_v2_acknowledgement log_id seq))\<rparr>"

end
