(* ===== verification/V2_Store_Changes.thy ===== *)
theory V2_Store_Changes
  imports V2_Reference_Store
begin

text \<open>
  The reference store as a transition system.  \<open>store_change\<close> lists the changes its state can go
  through, each with what must hold for it; every operation of the store is a sequence of them, so what
  the changes preserve, every run of operations preserves.
\<close>

section \<open>Readings and anchored changes\<close>

lemma read_clock_Ok:
  "read_clock_locked s = (Ok t, s') \<longleftrightarrow> t = st_now s \<and> s' = s\<lparr>st_high_water := st_now s\<rparr>
     \<and> st_high_water s \<le> st_now s \<and> valid_v2_timestamp (st_now s)"
  by (auto simp: read_clock_locked_def valid_v2_timestamp_def)

lemma read_clock_Err: "read_clock_locked s = (Err e, s') \<Longrightarrow> s' = s"
  by (auto simp: read_clock_locked_def split: if_splits)

definition durable :: "(store_state \<Rightarrow> store_state) \<Rightarrow> bool" where
  "durable m \<longleftrightarrow> (\<forall>s. \<exists>c k ob r f. m s = s\<lparr>st_claims := c, st_streams := k, st_outbox := ob,
     st_rate_commits := r, st_log_frozen := f\<rparr>)"

lemma durableI:
  assumes "\<And>s. m s = s\<lparr>st_claims := st_claims (m s), st_streams := st_streams (m s), st_outbox := st_outbox (m s),
     st_rate_commits := st_rate_commits (m s), st_log_frozen := st_log_frozen (m s)\<rparr>"
  shows "durable m"
  unfolding durable_def using assms by blast

text \<open>A durable change happens completely or not at all.\<close>

lemma change_locked_cases:
  assumes "durable m" "change_locked anchor m s = (x, s')"
  obtains "x = Ok ()" "s' = m s" | e where "x = Err e" "s' = s"
proof -
  obtain c k ob r f where m: "m s = s\<lparr>st_claims := c, st_streams := k, st_outbox := ob,
      st_rate_commits := r, st_log_frozen := f\<rparr>"
    using assms(1) unfolding durable_def by blast
  have "x = Ok () \<and> s' = m s \<or> (\<exists>e. x = Err e) \<and> s' = s"
    using assms(2) by (auto simp: change_locked_def m split: option.splits sum.splits)
  then show thesis using that by blast
qed

lemma rate_fold_eq: "fold (commit_rate t) items s = s\<lparr>st_rate_commits := st_rate_commits (fold (commit_rate t) items s)\<rparr>"
  by (induction items arbitrary: s) (simp_all, metis (no_types, lifting) commit_rate_def store_state.surjective store_state.update_convs(15))

lemma durable_commit:
  "durable (\<lambda>s. commit_terminal_locked cid t b h f (if q then fold (commit_rate f) items s else s))"
proof (rule durableI)
  fix s
  let ?u = "if q then fold (commit_rate f) items s else s"
  have u: "?u = s\<lparr>st_rate_commits := st_rate_commits ?u\<rparr>" using rate_fold_eq by simp
  show "commit_terminal_locked cid t b h f ?u = s\<lparr>st_claims := st_claims (commit_terminal_locked cid t b h f ?u),
      st_streams := st_streams (commit_terminal_locked cid t b h f ?u), st_outbox := st_outbox (commit_terminal_locked cid t b h f ?u),
      st_rate_commits := st_rate_commits (commit_terminal_locked cid t b h f ?u),
      st_log_frozen := st_log_frozen (commit_terminal_locked cid t b h f ?u)\<rparr>"
    by (subst (1 2 3 4 5 6) u) (simp add: commit_terminal_locked_def split: option.splits)
qed

lemma durable_changes:
  "durable (insert_claim V c adv owner now lease)"
  "durable (commit_terminal_locked cid t b h f)"
  "durable (\<lambda>s. case st_claims s cid of None \<Rightarrow> s | Some r \<Rightarrow> s\<lparr>st_claims := (st_claims s)(cid \<mapsto> g r)\<rparr>)"
  "durable (append_wire i wire d)"
  "durable (\<lambda>s. s\<lparr>st_log_frozen := True, st_claims := F s\<rparr>)"
  using durable_commit [of cid t b h f False "[]"]
  by (auto intro!: durableI simp: insert_claim_def append_wire_def split: option.splits)

section \<open>The changes\<close>

inductive store_change :: "v2_prims \<Rightarrow> store_state \<Rightarrow> store_state \<Rightarrow> bool" for V where
  reading: "st_high_water s \<le> st_now s \<Longrightarrow> valid_v2_timestamp (st_now s) \<Longrightarrow>
    store_change V s (s\<lparr>st_high_water := st_now s\<rparr>)"
| control: "store_change V s (s\<lparr>st_now := n, st_ack_withheld := w, st_signer_failure := f,
    st_rate_at_finalization := st_rate_at_finalization s \<or> q\<rparr>)"
| claimed: "claim_id_matches_key V c \<Longrightarrow> st_claims s (cl_claim_id c) = None \<Longrightarrow>
    valid_v2_timestamp (st_high_water s) \<Longrightarrow> challenge_claim_time_current_v2 c (st_high_water s) \<Longrightarrow>
    stream_advance c s = Ok adv \<Longrightarrow>
    store_change V s (insert_claim V c adv owner (st_high_water s) (i64_add (st_high_water s) (st_lease_seconds s)) s)"
| committed: "st_claims s cid = Some r \<Longrightarrow> cm_state r = Evaluating \<Longrightarrow> valid_v2_timestamp (st_high_water s) \<Longrightarrow>
    validate_v2_finalization_payload V (cm_claim r) terminal body = Ok () \<Longrightarrow>
    decode_verification_receipt_body_v2 V body = Ok b \<Longrightarrow> horizon_ok (rc_decision b) h \<Longrightarrow>
    (h > 0 \<longrightarrow> st_high_water s < h \<and> st_high_water s < cl_expires_at (cm_claim r)) \<Longrightarrow>
    (admits_rate s (cm_claim r) h \<longrightarrow> \<not> list_ex (rate_exhausted s (st_high_water s)) (cl_rate_batch (cm_claim r))) \<Longrightarrow>
    store_change V s (commit_terminal_locked cid terminal body h (st_high_water s)
      (if admits_rate s (cm_claim r) h then fold (commit_rate (st_high_water s)) (cl_rate_batch (cm_claim r)) s else s))"
| progressed: "st_claims s cid = Some r \<Longrightarrow> cm_state r = Evaluating \<Longrightarrow>
    validate_v2_evaluation_progress_inner p = Ok () \<Longrightarrow>
    store_change V s (s\<lparr>st_claims := (st_claims s)(cid \<mapsto> r\<lparr>cm_progress := p\<rparr>)\<rparr>)"
| released: "st_claims s (rl_claim_id rel) = Some r \<Longrightarrow> cm_state r = Terminal \<Longrightarrow> cm_release r = None \<Longrightarrow>
    valid_v2_release_record_outcome (rl_outcome rel) (rl_reason rel) \<Longrightarrow>
    store_change V s (s\<lparr>st_claims := (st_claims s)(rl_claim_id rel \<mapsto> r\<lparr>cm_release := Some rel\<rparr>)\<rparr>)"
| abandoned: "store_change V s (s\<lparr>st_log_frozen := True,
    st_claims := fold abandon_claim (pending_claims s) (st_claims s)\<rparr>)"
| appended: "committed_index cid body s = Some i \<Longrightarrow> ob_wire (st_outbox s ! i) = None \<Longrightarrow> \<not> st_log_frozen s \<Longrightarrow>
    (i > 0 \<longrightarrow> ob_wire (st_outbox s ! (i - 1)) \<noteq> None) \<Longrightarrow>
    sign_prepared_verification_receipt_v2 V rnd body (outbox_head i s) (st_verifier_key s) = Ok receipt \<Longrightarrow>
    encode_verification_receipt_v2 V receipt = Ok wire \<Longrightarrow> verification_receipt_v2_digest V receipt = Ok d \<Longrightarrow>
    store_change V s (append_wire i wire d s)"
| acknowledged: "i < length (st_outbox s) \<Longrightarrow> ob_wire (st_outbox s ! i) \<noteq> None \<Longrightarrow> ob_ack (st_outbox s ! i) = None \<Longrightarrow>
    (i > 0 \<longrightarrow> ob_ack (st_outbox s ! (i - 1)) \<noteq> None) \<Longrightarrow> \<not> st_checkpoint_frozen s \<Longrightarrow>
    valid_v2_timestamp (st_high_water s) \<Longrightarrow>
    store_change V s (s\<lparr>st_outbox := (st_outbox s)[i := (st_outbox s ! i)\<lparr>ob_ack := Some \<lparr>ack_log_id = st_log_id s,
      ack_sequence = int i + 1, ack_entry_hash = ob_digest (st_outbox s ! i),
      ack_timestamp = st_high_water s\<rparr>\<rparr>]\<rparr>)"
| forked: "store_change V s (s\<lparr>st_checkpoint_frozen := True\<rparr>)"

definition store_run :: "v2_prims \<Rightarrow> store_state \<Rightarrow> store_state \<Rightarrow> bool" where
  "store_run V = (store_change V)\<^sup>*\<^sup>*"

lemma run_refl [simp]: "store_run V s s"
  by (simp add: store_run_def)

lemma run_change: "store_change V s s' \<Longrightarrow> store_run V s s'"
  by (simp add: store_run_def)

lemma run_trans: "store_run V s s' \<Longrightarrow> store_run V s' s'' \<Longrightarrow> store_run V s s''"
  by (simp add: store_run_def)

lemma run_after: "store_run V s s' \<Longrightarrow> store_change V s' s'' \<Longrightarrow> store_run V s s''"
  by (simp add: store_run_def)

lemma run_induct [consumes 1, case_names here step]:
  assumes "store_run V s s'" "Q s" "\<And>a b. store_run V s a \<Longrightarrow> store_change V a b \<Longrightarrow> Q a \<Longrightarrow> Q b"
  shows "Q s'"
  using assms unfolding store_run_def by (induction rule: rtranclp_induct) auto

lemma run_reading: "read_clock_locked s = (x, s') \<Longrightarrow> store_run V s s'"
  by (cases x) (auto simp: read_clock_Ok dest: read_clock_Err intro: run_change store_change.reading)


section \<open>Every operation is a run of changes\<close>

lemma run_control:
  "store_run V s (s\<lparr>st_now := n, st_ack_withheld := w, st_signer_failure := f,
     st_rate_at_finalization := st_rate_at_finalization s \<or> q\<rparr>)"
  by (rule run_change [OF store_change.control])

lemma run_controls:
  "store_run V s (set_time n s)" "store_run V s (set_signer_failure f s)" "store_run V s (with_rate_at_finalization s)"
  "store_run V s (s\<lparr>st_ack_withheld := w\<rparr>)"
  using run_control [where V = V and s = s and n = n and w = "st_ack_withheld s" and f = "st_signer_failure s" and q = False]
    run_control [where V = V and s = s and n = "st_now s" and w = "st_ack_withheld s" and f = f and q = False]
    run_control [where V = V and s = s and n = "st_now s" and w = "st_ack_withheld s" and f = "st_signer_failure s" and q = True]
    run_control [where V = V and s = s and n = "st_now s" and w = w and f = "st_signer_failure s" and q = False]
  by (simp_all add: set_time_def set_signer_failure_def with_rate_at_finalization_def)

text \<open>One reading covers all acknowledgements it makes.\<close>

lemma ack_ready_update:
  "i < length (st_outbox s) \<Longrightarrow> ob_ack ((st_outbox s)[i := e\<lparr>ob_ack := Some a\<rparr>] ! i) \<noteq> None"
  by simp

lemma run_acknowledge_from:
  assumes "\<not> st_checkpoint_frozen s" "k > 0 \<longrightarrow> ob_ack (st_outbox s ! (k - 1)) \<noteq> None"
    and "\<forall>t. now = Some t \<longrightarrow> t = st_high_water s \<and> valid_v2_timestamp t" "n = length (st_outbox s)"
  shows "store_run V s (acknowledge_from [k..<n] now s)"
  using assms
proof (induction "n - k" arbitrary: k now s)
  case 0
  then show ?case by simp
next
  case (Suc m)
  then have k: "[k..<n] = k # [Suc k..<n]" by (simp add: upt_conv_Cons)
  let ?e = "st_outbox s ! k"
  let ?ack = "\<lambda>s :: store_state. \<lparr>ack_log_id = st_log_id s, ack_sequence = int k + 1, ack_entry_hash = ob_digest ?e,
      ack_timestamp = st_high_water s\<rparr>"
  let ?u = "\<lambda>s :: store_state. s\<lparr>st_outbox := (st_outbox s)[k := ?e\<lparr>ob_ack := Some (?ack s)\<rparr>]\<rparr>"
  have step: "store_run V s1 (acknowledge_from [Suc k..<n] (Some (st_high_water s1)) (?u s1))"
    if e: "ob_wire ?e \<noteq> None" "ob_ack ?e = None" and s1: "s1 = s\<lparr>st_high_water := h\<rparr>" "valid_v2_timestamp h" for s1 h
  proof -
    have "store_change V s1 (?u s1)"
      using store_change.acknowledged [of k s1 V] Suc.prems Suc.hyps(2) e by (simp add: s1)
    moreover have "store_run V (?u s1) (acknowledge_from [Suc k..<n] (Some (st_high_water s1)) (?u s1))"
      by (rule Suc.hyps(1)) (use Suc.prems Suc.hyps(2) s1 in auto)
    ultimately show ?thesis using run_trans run_change by blast
  qed
  show ?case
  proof (cases "ob_wire ?e = None")
    case True
    then show ?thesis by (simp add: k Let_def)
  next
    case wire: False
    show ?thesis
    proof (cases "ob_ack ?e = None")
      case False
      have "store_run V s (acknowledge_from [Suc k..<n] now s)"
        by (rule Suc.hyps(1)) (use Suc.prems Suc.hyps(2) False in auto)
      then show ?thesis using wire False by (simp add: k Let_def)
    next
      case none: True
      show ?thesis
      proof (cases now)
        case (Some t)
        then have t: "t = st_high_water s" "valid_v2_timestamp t" using Suc.prems(3) by auto
        from step [OF wire none, of s t] t show ?thesis using wire none Some by (simp add: k Let_def)
      next
        case None
        show ?thesis
        proof (cases "read_clock_locked s")
          case (Pair r s1)
          show ?thesis
          proof (cases r)
            case (Inl e)
            with Pair have "s1 = s" using read_clock_Err by blast
            then show ?thesis using wire none None Inl Pair by (simp add: k Let_def)
          next
            case (Inr t)
            with Pair have t: "t = st_now s" "s1 = s\<lparr>st_high_water := st_now s\<rparr>" "valid_v2_timestamp (st_now s)"
              by (simp_all add: read_clock_Ok)
            have "store_run V s s1" using Pair run_reading by blast
            then show ?thesis
              using step [OF wire none t(2,3)] wire none None Inr Pair t run_trans by (simp add: k Let_def)
          qed
        qed
      qed
    qed
  qed
qed

lemma run_acknowledge_pending: "store_run V s (acknowledge_pending_locked s)"
  using run_acknowledge_from [of s 0 None] by (simp add: acknowledge_pending_locked_def)

lemma run_set_withheld: "store_run V s (set_acknowledgement_withheld w s)"
  using run_trans [OF run_controls(4) run_acknowledge_pending] run_controls(4)
  by (simp add: set_acknowledgement_withheld_def Let_def)

lemma run_durable:
  assumes "durable m" "change_locked anchor m s = (x, s')" "store_change V s (m s)"
  shows "store_run V s s'"
  using assms(1,2) by (rule change_locked_cases) (use assms(3) run_change in auto)

lemma run_abandon: "abandon_pending_receipts anchor s = (x, s') \<Longrightarrow> store_run V s s'"
  by (auto simp: abandon_pending_receipts_def split: prod.splits sum.splits
      intro: run_durable [OF durable_changes(5) _ store_change.abandoned])

lemma owner_locked_Ok:
  "owner_locked V cid token s = (Ok t, s') \<Longrightarrow> \<exists>r. st_claims s cid = Some r \<and> cm_state r = Evaluating
     \<and> constant_time_eq (p_sha256 (v_base V) token) (cm_owner_digest r) \<and> cm_claimed_at r \<le> t \<and> t < cm_lease_expires_at r
     \<and> read_clock_locked s = (Ok t, s')"
  by (auto simp: owner_locked_def split: option.splits if_splits prod.splits sum.splits intro: claim_state.exhaust)

lemma owner_locked_state: "owner_locked V cid token s = (x, s') \<Longrightarrow> s' = s \<or> (\<exists>y. read_clock_locked s = (y, s'))"
  by (auto simp: owner_locked_def split: option.splits if_splits prod.splits sum.splits)

lemma run_owner: "owner_locked V cid token s = (x, s') \<Longrightarrow> store_run V s s'"
  by (drule owner_locked_state) (auto intro: run_reading)

lemma read_high: "read_clock_locked s = (Ok t, s') \<Longrightarrow> t = st_high_water s' \<and> valid_v2_timestamp (st_high_water s')
   \<and> st_claims s' = st_claims s \<and> st_outbox s' = st_outbox s"
  by (auto simp: read_clock_Ok)

lemma reading_claims: "read_clock_locked s = (y, s') \<Longrightarrow> st_claims s' = st_claims s"
  by (cases y) (auto dest: read_clock_Err simp: read_clock_Ok)

lemma run_claim: "claim_v2 V anchor rnd c s = (x, s') \<Longrightarrow> store_run V s s'"
proof -
  assume a: "claim_v2 V anchor rnd c s = (x, s')"
  obtain y s1 where y: "read_clock_locked s = (y, s1)" by (cases "read_clock_locked s")
  have r: "store_run V s s1" using y by (rule run_reading)
  show "store_run V s s'"
  proof (cases "s' = s \<or> s' = s1")
    case True
    then show ?thesis using r by auto
  next
    case False
    then obtain now adv owner z where "claim_id_matches_key V c" "y = Ok now" "st_claims s1 (cl_claim_id c) = None"
      "challenge_claim_time_current_v2 c now" "stream_advance c s1 = Ok adv"
      "change_locked anchor (insert_claim V c adv owner now (i64_add now (st_lease_seconds s1))) s1 = (z, s')"
      using a y by (auto simp: claim_v2_def split: if_splits sum.splits option.splits prod.splits)
    moreover from this have "now = st_high_water s1" "valid_v2_timestamp (st_high_water s1)"
      using y read_high by blast+
    ultimately show ?thesis
      using run_trans [OF r run_durable [OF durable_changes(1)]] store_change.claimed by metis
  qed
qed

lemma run_finalize: "finalize_v2_claim V anchor cid token t b h s = (x, s') \<Longrightarrow> store_run V s s'"
proof -
  assume a: "finalize_v2_claim V anchor cid token t b h s = (x, s')"
  obtain y s1 where y: "owner_locked V cid token s = (y, s1)" by (cases "owner_locked V cid token s")
  have r: "store_run V s s1" using y by (rule run_owner)
  show "store_run V s s'"
  proof (cases "s' = s1")
    case True
    then show ?thesis using r by auto
  next
    case False
    then obtain now rec body z where b: "y = Ok now" "st_claims s1 cid = Some rec"
      "validate_v2_finalization_payload V (cm_claim rec) t b = Ok ()" "decode_verification_receipt_body_v2 V b = Ok body"
      "horizon_ok (rc_decision body) h" "\<not> (h > 0 \<and> (now \<ge> h \<or> now \<ge> cl_expires_at (cm_claim rec)))"
      "\<not> (admits_rate s1 (cm_claim rec) h \<and> list_ex (rate_exhausted s1 now) (cl_rate_batch (cm_claim rec)))"
      and c: "change_locked anchor (\<lambda>s. commit_terminal_locked cid t b h now
         (if admits_rate s1 (cm_claim rec) h then fold (commit_rate now) (cl_rate_batch (cm_claim rec)) s else s)) s1 = (z, s')"
      using a y by (auto simp: finalize_v2_claim_def split: if_splits sum.splits option.splits prod.splits owner_failure.splits)
    have now: "now = st_high_water s1" "valid_v2_timestamp (st_high_water s1)" "cm_state rec = Evaluating"
      using owner_locked_Ok y b(1,2) read_high by fastforce+
    have "store_change V s1 (commit_terminal_locked cid t b h now
         (if admits_rate s1 (cm_claim rec) h then fold (commit_rate now) (cl_rate_batch (cm_claim rec)) s1 else s1))"
      unfolding now(1) by (rule store_change.committed) (use b now in auto)
    then show ?thesis using run_trans [OF r run_durable [OF durable_commit c]] by blast
  qed
qed


lemma run_progress: "record_v2_evaluation_progress V anchor cid token p s = (x, s') \<Longrightarrow> store_run V s s'"
proof -
  assume a: "record_v2_evaluation_progress V anchor cid token p s = (x, s')"
  obtain y s1 where y: "owner_locked V cid token s = (y, s1)" by (cases "owner_locked V cid token s")
  have r: "store_run V s s1" using y by (rule run_owner)
  let ?m = "\<lambda>s. case st_claims s cid of None \<Rightarrow> s | Some r \<Rightarrow> s\<lparr>st_claims := (st_claims s)(cid \<mapsto> r\<lparr>cm_progress := p\<rparr>)\<rparr>"
  show "store_run V s s'"
  proof (cases "s' = s1")
    case True
    then show ?thesis using r by auto
  next
    case False
    then obtain now where b: "y = Ok now" "validate_v2_evaluation_progress_inner p = Ok ()"
      and c: "change_locked anchor ?m s1 = (x, s')"
      using a y by (auto simp: record_v2_evaluation_progress_def split: sum.splits owner_failure.splits)
    obtain rec where "st_claims s1 cid = Some rec" "cm_state rec = Evaluating"
      using owner_locked_Ok y b(1) read_high by metis
    then have "store_change V s1 (?m s1)" using b(2) store_change.progressed by auto
    then show ?thesis using run_trans [OF r run_durable [OF durable_changes(3) c]] by blast
  qed
qed

lemma run_loads:
  "load_v2_interrupted_claim cid s = (x1, s') \<Longrightarrow> store_run V s s'"
  "load_v2_committed_claim cid s = (x2, s') \<Longrightarrow> store_run V s s'"
  "load_v2_terminal_claim V cid s = (x3, s') \<Longrightarrow> store_run V s s'"
  "authoritative_time_v2 s = (x4, s') \<Longrightarrow> store_run V s s'"
  "get_v2_acknowledgement l q s = (x5, s') \<Longrightarrow> store_run V s s'"
  "reserve_v2_rate_batch s = (x6, s') \<Longrightarrow> store_run V s s'"
  by (auto simp: load_v2_interrupted_claim_def load_v2_committed_claim_def load_v2_terminal_claim_def
      authoritative_time_v2_def get_v2_acknowledgement_def reserve_v2_rate_batch_def
      split: if_splits option.splits prod.splits sum.splits intro: run_reading)

lemma horizon_none: "horizon_ok d 0 \<longleftrightarrow> d \<noteq> ''allow''"
  by (simp add: horizon_ok_def)

lemma run_recover: "recover_interrupted_v2_claim V anchor cid t b s = (x, s') \<Longrightarrow> store_run V s s'"
proof -
  assume a: "recover_interrupted_v2_claim V anchor cid t b s = (x, s')"
  obtain y s1 where y: "read_clock_locked s = (y, s1)" by (cases "read_clock_locked s")
  have r: "store_run V s s1" and same: "st_claims s1 = st_claims s"
    using y run_reading by (auto intro: reading_claims)
  show "store_run V s s'"
  proof (cases "s' = s \<or> s' = s1")
    case True
    then show ?thesis using r by auto
  next
    case False
    then obtain rec where rec: "st_claims s cid = Some rec" "cm_state rec \<noteq> Terminal"
      using a by (cases "st_claims s cid") (auto simp: recover_interrupted_v2_claim_def split: if_splits)
    obtain now where n: "y = Ok now" using a rec y False by (cases y) (auto simp: recover_interrupted_v2_claim_def)
    have f: "\<not> now < cm_lease_expires_at rec" using a rec y n False by (auto simp: recover_interrupted_v2_claim_def)
    have p: "validate_v2_finalization_payload V (cm_claim rec) t b = Ok ()"
      using a rec y n f same False
      by (cases "validate_v2_finalization_payload V (cm_claim rec) t b") (auto simp: recover_interrupted_v2_claim_def)
    obtain body where d: "decode_verification_receipt_body_v2 V b = Ok body"
      using a rec y n f same p False
      by (cases "decode_verification_receipt_body_v2 V b") (auto simp: recover_interrupted_v2_claim_def)
    have i: "rc_decision body = ''indeterminate'' \<and> rc_decision_reason body = ''evaluation_interrupted''"
      using a rec y n f same p d False by (simp add: recover_interrupted_v2_claim_def split: if_splits)
    obtain z where c: "change_locked anchor (commit_terminal_locked cid t b 0 now) s1 = (z, s')"
      using a rec y n f same p d i
      by (simp add: recover_interrupted_v2_claim_def split: prod.splits sum.splits)
    note b = rec n p d i [THEN conjunct1]
    have now: "now = st_high_water s1" "valid_v2_timestamp (st_high_water s1)" "st_claims s1 cid = Some rec"
      "cm_state rec = Evaluating"
      using read_high [OF y [unfolded n]] rec by (cases "cm_state rec"; simp)+
    have "\<not> admits_rate s1 (cm_claim rec) 0" by (simp add: admits_rate_def)
    then have "store_change V s1 (commit_terminal_locked cid t b 0 now s1)"
      using store_change.committed [OF now(3,4,2) b(4,5), of 0] b(6) by (simp add: horizon_none now(1))
    then show ?thesis using run_trans [OF r run_durable [OF durable_changes(2) c]] by blast
  qed
qed

lemma run_release: "record_v2_release V anchor rel s = (x, s') \<Longrightarrow> store_run V s s'"
proof -
  assume a: "record_v2_release V anchor rel s = (x, s')"
  let ?m = "\<lambda>s. case st_claims s (rl_claim_id rel) of None \<Rightarrow> s
    | Some r \<Rightarrow> s\<lparr>st_claims := (st_claims s)(rl_claim_id rel \<mapsto> r\<lparr>cm_release := Some rel\<rparr>)\<rparr>"
  show "store_run V s s'"
  proof (cases "s' = s")
    case False
    then obtain r where b: "valid_v2_release_record_outcome (rl_outcome rel) (rl_reason rel)"
      "st_claims s (rl_claim_id rel) = Some r" "cm_state r = Terminal" "cm_release r = None"
      and c: "change_locked anchor ?m s = (x, s')"
      using a by (auto simp: record_v2_release_def split: if_splits option.splits)
    then have "store_change V s (?m s)" using store_change.released by simp
    then show ?thesis by (rule run_durable [OF durable_changes(3) c])
  qed simp
qed

lemma run_publish: "publish_v2_receipt V anchor rnd cid b s = (x, s') \<Longrightarrow> store_run V s s'"
proof -
  assume a: "publish_v2_receipt V anchor rnd cid b s = (x, s')"
  show "store_run V s s'"
  proof (cases "s' = s")
    case False
    then obtain i receipt wire d z s1 where b: "committed_index cid b s = Some i" "ob_wire (st_outbox s ! i) = None"
      "\<not> st_log_frozen s" "i > 0 \<longrightarrow> ob_wire (st_outbox s ! (i - 1)) \<noteq> None"
      "sign_prepared_verification_receipt_v2 V rnd b (outbox_head i s) (st_verifier_key s) = Ok receipt"
      "encode_verification_receipt_v2 V receipt = Ok wire" "verification_receipt_v2_digest V receipt = Ok d"
      and c: "change_locked anchor (append_wire i wire d) s = (z, s1)"
      and s': "s' = s1 \<or> s' = acknowledge_pending_locked s1"
      using a by (auto simp: publish_v2_receipt_def split: if_splits option.splits sum.splits prod.splits)
    have "store_run V s s1" by (rule run_durable [OF durable_changes(4) c store_change.appended [OF b]])
    then show ?thesis using s' run_trans run_acknowledge_pending by blast
  qed simp
qed

lemma run_acknowledge: "acknowledge_v2_receipt l q prev h s = (x, s') \<Longrightarrow> store_run V s s'"
proof -
  assume a: "acknowledge_v2_receipt l q prev h s = (x, s')"
  let ?i = "nat q - 1" let ?e = "st_outbox s ! ?i"
  show "store_run V s s'"
  proof (cases "s' = s \<or> s' = s\<lparr>st_checkpoint_frozen := True\<rparr>")
    case True
    then show ?thesis using run_change [OF store_change.forked] by auto
  next
    case False
    obtain y s1 where y: "read_clock_locked s = (y, s1)" by (cases "read_clock_locked s")
    have b: "l = st_log_id s" "1 \<le> q" "nat q \<le> length (st_outbox s)" "ob_ack ?e = None" "\<not> st_checkpoint_frozen s"
      "ob_wire ?e \<noteq> None" "ob_digest ?e = h" "?i > 0 \<longrightarrow> ob_ack (st_outbox s ! (?i - 1)) \<noteq> None"
      using a False by (auto simp: acknowledge_v2_receipt_def refused_def Let_def split: if_splits option.splits)
    have c: "s' = s1 \<or> (\<exists>now. y = Ok now \<and> s' = s1\<lparr>st_outbox := (st_outbox s1)[?i := ?e\<lparr>ob_ack := Some
        \<lparr>ack_log_id = l, ack_sequence = q, ack_entry_hash = h, ack_timestamp = now\<rparr>\<rparr>]\<rparr>)"
      using a y False by (auto simp: acknowledge_v2_receipt_def refused_def Let_def split: if_splits option.splits sum.splits)
    have r: "store_run V s s1" using y by (rule run_reading)
    show ?thesis
    proof (cases "s' = s1")
      case True
      then show ?thesis using r by simp
    next
      case False
      with c obtain now where n: "y = Ok now" and s': "s' = s1\<lparr>st_outbox := (st_outbox s1)[?i := ?e\<lparr>ob_ack := Some
        \<lparr>ack_log_id = l, ack_sequence = q, ack_entry_hash = h, ack_timestamp = now\<rparr>\<rparr>]\<rparr>" by blast
      have s1: "s1 = s\<lparr>st_high_water := now\<rparr>" "valid_v2_timestamp now" using y n by (simp_all add: read_clock_Ok)
      have "int ?i + 1 = q" using b(2) by simp
      then have "s' = s1\<lparr>st_outbox := (st_outbox s1)[?i := (st_outbox s1 ! ?i)\<lparr>ob_ack := Some \<lparr>ack_log_id = st_log_id s1,
          ack_sequence = int ?i + 1, ack_entry_hash = ob_digest (st_outbox s1 ! ?i), ack_timestamp = st_high_water s1\<rparr>\<rparr>]\<rparr>"
        unfolding s' using b(7) by (simp add: s1 b(1))
      moreover have "store_change V s1 \<dots>"
        by (rule store_change.acknowledged) (use b s1 in simp_all)
      ultimately show ?thesis using run_after [OF r] by simp
    qed
  qed
qed

end
