(* ===== verification/V2_Store_Invariants.thy ===== *)
theory V2_Store_Invariants
  imports V2_Store_Changes V2_Receipt_Rules
begin

text \<open>
  What every reachable state of the reference store satisfies: claims and log positions point at each
  other, published entries are receipts for their position signed with the log's key, acknowledgements
  follow the log, and the recorded times are in order.  Then what no run of operations undoes.
\<close>

section \<open>Publishing with the local key\<close>

lemma signed_with_local_key:
  assumes "base64_codec V" "sign_prepared_verification_receipt_v2 V rnd data head sk = Ok r"
    and "encode_verification_receipt_v2 V r = Ok w"
  obtains pk msg where "public_key_v2 V sk = Ok pk" "receipt_utf8 r" "decode_verification_receipt_v2 V w = Ok r"
    "verification_receipt_v2_body V r = Ok data" "rc_log_id r = rh_log_id head" "rc_verifier_id r = rh_verifier_id head"
    "rc_sequence r = rh_sequence head + 1" "rc_previous_receipt_hash r = rh_head_hash head"
    "verification_receipt_v2_signable_bytes V r = Ok msg"
    "verify_v2_statement V VerificationReceipt msg (rc_signature r) pk = Ok ()"
proof -
  obtain pk where pk: "public_key_v2 V sk = Ok pk"
    and s: "sign_prepared_verification_receipt_v2_with_signer V background data head
      \<lparr>sg_public_key = pk, sg_mode = Direct, sg_sign = local_sign V rnd sk\<rparr> = Ok r"
    using assms(2) by (auto simp: sign_prepared_verification_receipt_v2_def local_signer_def bind_ok_Ok map_err_Ok)
  then obtain b where b: "bind_verification_receipt_body_v2 V data head = Ok b"
    and sb: "sign_verification_receipt_v2_with_signer V background b
      \<lparr>sg_public_key = pk, sg_mode = Direct, sg_sign = local_sign V rnd sk\<rparr> = Ok r"
    and body: "verification_receipt_v2_body V r = Ok data"
    by (auto simp: sign_prepared_verification_receipt_v2_with_signer_def bind_ok_Ok map_err_Ok split: if_splits)
  note h = bind_body_Ok [OF b]
  obtain sg msg where r: "r = b\<lparr>rc_signature := sg\<rparr>" and t: "verification_receipt_v2_signable_bytes V b = Ok msg"
    and v: "verify_v2_statement V VerificationReceipt msg sg pk = Ok ()"
    using sb by (rule sign_receipt_Ok) auto
  have u: "receipt_utf8 r" using h(8) by (simp add: r receipt_utf8_def)
  from receipt_roundtrip [OF assms(1) this assms(3)] have d: "decode_verification_receipt_v2 V w = Ok r" .
  have "verification_receipt_v2_signable_bytes V r = Ok msg"
    using t by (simp add: r verification_receipt_v2_signable_bytes_def receipt_cj_signature)
  with pk d u body h v show thesis by (intro that) (simp_all add: r)
qed

section \<open>The invariant\<close>

definition previous_digest :: "store_state \<Rightarrow> nat \<Rightarrow> bytes" where
  "previous_digest s i = (if i > 0 then ob_digest (st_outbox s ! (i - 1)) else replicate 48 0)"

definition published :: "v2_prims \<Rightarrow> store_state \<Rightarrow> nat \<Rightarrow> bytes \<Rightarrow> verification_receipt_v2 \<Rightarrow> bool" where
  "published V s i w r \<longleftrightarrow> receipt_utf8 r \<and> decode_verification_receipt_v2 V w = Ok r
     \<and> verification_receipt_v2_body V r = Ok (ob_body (st_outbox s ! i))
     \<and> verification_receipt_v2_digest V r = Ok (ob_digest (st_outbox s ! i))
     \<and> rc_log_id r = st_log_id s \<and> rc_verifier_id r = st_verifier_id s \<and> rc_sequence r = int i + 1
     \<and> rc_previous_receipt_hash r = previous_digest s i
     \<and> (\<exists>pk msg. public_key_v2 V (st_verifier_key s) = Ok pk \<and> verification_receipt_v2_signable_bytes V r = Ok msg
          \<and> verify_v2_statement V VerificationReceipt msg (rc_signature r) pk = Ok ())"

definition terminal_ok :: "v2_prims \<Rightarrow> store_state \<Rightarrow> string \<Rightarrow> claim_record \<Rightarrow> bool" where
  "terminal_ok V s cid r \<longleftrightarrow>
     (\<exists>i<length (st_outbox s). cm_outbox_index r = Some i \<and> ob_claim_id (st_outbox s ! i) = cid
        \<and> ob_body (st_outbox s ! i) = cm_receipt_body r)
     \<and> cm_claimed_at r \<le> cm_finalized_at r \<and> cm_finalized_at r \<le> st_high_water s \<and> valid_v2_timestamp (cm_finalized_at r)
     \<and> validate_v2_finalization_payload V (cm_claim r) (cm_terminal r) (cm_receipt_body r) = Ok ()
     \<and> (\<exists>b. decode_verification_receipt_body_v2 V (cm_receipt_body r) = Ok b
          \<and> horizon_ok (rc_decision b) (cm_allow_horizon r))
     \<and> (cm_allow_horizon r > 0 \<longrightarrow> cm_finalized_at r < cm_allow_horizon r
          \<and> cm_finalized_at r < cl_expires_at (cm_claim r))"

definition claim_ok :: "v2_prims \<Rightarrow> store_state \<Rightarrow> string \<Rightarrow> claim_record \<Rightarrow> bool" where
  "claim_ok V s cid r \<longleftrightarrow> cl_claim_id (cm_claim r) = cid \<and> claim_id_matches_key V (cm_claim r)
     \<and> cm_claimed_at r \<le> st_high_water s
     \<and> (cm_state r = Evaluating \<longrightarrow> cm_outbox_index r = None \<and> cm_release r = None \<and> \<not> cm_abandoned r)
     \<and> (cm_state r = Terminal \<longrightarrow> terminal_ok V s cid r)
     \<and> (\<forall>rel. cm_release r = Some rel \<longrightarrow> rl_claim_id rel = cid
          \<and> valid_v2_release_record_outcome (rl_outcome rel) (rl_reason rel))"

definition entry_ok :: "v2_prims \<Rightarrow> store_state \<Rightarrow> nat \<Rightarrow> bool" where
  "entry_ok V s i \<longleftrightarrow>
     (\<exists>r. st_claims s (ob_claim_id (st_outbox s ! i)) = Some r \<and> cm_state r = Terminal \<and> cm_outbox_index r = Some i
        \<and> (\<forall>a. ob_ack (st_outbox s ! i) = Some a \<longrightarrow> cm_finalized_at r \<le> ack_timestamp a))
     \<and> (\<forall>w. ob_wire (st_outbox s ! i) = Some w \<longrightarrow> (\<exists>r. published V s i w r)
          \<and> (i > 0 \<longrightarrow> ob_wire (st_outbox s ! (i - 1)) \<noteq> None))
     \<and> (\<forall>a. ob_ack (st_outbox s ! i) = Some a \<longrightarrow> ob_wire (st_outbox s ! i) \<noteq> None
          \<and> ack_log_id a = st_log_id s \<and> ack_sequence a = int i + 1 \<and> ack_entry_hash a = ob_digest (st_outbox s ! i)
          \<and> ack_timestamp a \<le> st_high_water s \<and> valid_v2_timestamp (ack_timestamp a)
          \<and> (i > 0 \<longrightarrow> ob_ack (st_outbox s ! (i - 1)) \<noteq> None))"

definition store_inv :: "v2_prims \<Rightarrow> store_state \<Rightarrow> bool" where
  "store_inv V s \<longleftrightarrow> (\<forall>cid r. st_claims s cid = Some r \<longrightarrow> claim_ok V s cid r)
     \<and> (\<forall>i<length (st_outbox s). entry_ok V s i)"

lemma store_invI:
  "(\<And>cid r. st_claims s cid = Some r \<Longrightarrow> claim_ok V s cid r) \<Longrightarrow>
     (\<And>i. i < length (st_outbox s) \<Longrightarrow> entry_ok V s i) \<Longrightarrow> store_inv V s"
  by (simp add: store_inv_def)

lemma store_inv_claim: "store_inv V s \<Longrightarrow> st_claims s cid = Some r \<Longrightarrow> claim_ok V s cid r"
  by (simp add: store_inv_def)

lemma store_inv_entry: "store_inv V s \<Longrightarrow> i < length (st_outbox s) \<Longrightarrow> entry_ok V s i"
  by (simp add: store_inv_def)

lemma new_store_inv: "new_store V now lease log_id sk = Ok s \<Longrightarrow> store_inv V s"
  by (auto simp: new_store_def bind_ok_Ok reject_Ok store_inv_def)

section \<open>Preserved by every change\<close>

text \<open>Changes that leave claims, outbox and log identity alone.\<close>

lemma claim_ok_frame:
  assumes "claim_ok V s cid r" "st_outbox s' = st_outbox s" "st_high_water s \<le> st_high_water s'"
  shows "claim_ok V s' cid r"
  using assms unfolding claim_ok_def terminal_ok_def by auto

lemma entry_ok_frame:
  assumes "entry_ok V s i" "st_claims s' = st_claims s" "st_outbox s' = st_outbox s" "st_log_id s' = st_log_id s"
    "st_verifier_id s' = st_verifier_id s" "st_verifier_key s' = st_verifier_key s" "st_high_water s \<le> st_high_water s'"
  shows "entry_ok V s' i"
  using assms unfolding entry_ok_def published_def previous_digest_def by fastforce

lemma store_inv_frame:
  assumes "store_inv V s" "st_claims s' = st_claims s" "st_outbox s' = st_outbox s" "st_log_id s' = st_log_id s"
    "st_verifier_id s' = st_verifier_id s" "st_verifier_key s' = st_verifier_key s" "st_high_water s \<le> st_high_water s'"
  shows "store_inv V s'"
  using assms claim_ok_frame [OF _ assms(3,7)] entry_ok_frame [OF _ assms(2-7)]
  by (auto simp: store_inv_def)

text \<open>Changes of claims that keep what the log relies on.\<close>

definition same_commit :: "claim_record \<Rightarrow> claim_record \<Rightarrow> bool" where
  "same_commit r r' \<longleftrightarrow> r' = r\<lparr>cm_progress := cm_progress r', cm_release := cm_release r', cm_abandoned := cm_abandoned r'\<rparr>"

lemma same_commit_fields:
  assumes "same_commit r r'"
  shows "cm_claim r' = cm_claim r" "cm_state r' = cm_state r" "cm_outbox_index r' = cm_outbox_index r"
    "cm_receipt_body r' = cm_receipt_body r" "cm_claimed_at r' = cm_claimed_at r" "cm_finalized_at r' = cm_finalized_at r"
    "cm_terminal r' = cm_terminal r" "cm_allow_horizon r' = cm_allow_horizon r"
    "cm_owner_digest r' = cm_owner_digest r" "cm_lease_expires_at r' = cm_lease_expires_at r"
  by (subst assms [unfolded same_commit_def], simp)+

lemma store_inv_claims:
  assumes inv: "store_inv V s"
    and dom: "\<And>k. st_claims s k = None \<Longrightarrow> claims k = None"
    and some: "\<And>k r. st_claims s k = Some r \<Longrightarrow> \<exists>r'. claims k = Some r' \<and> same_commit r r'
      \<and> (cm_state r = Evaluating \<longrightarrow> cm_release r' = None \<and> \<not> cm_abandoned r')
      \<and> (\<forall>rel. cm_release r' = Some rel \<longrightarrow> rl_claim_id rel = k
          \<and> valid_v2_release_record_outcome (rl_outcome rel) (rl_reason rel))"
  shows "store_inv V (s\<lparr>st_claims := claims, st_log_frozen := f\<rparr>)"
proof (rule store_invI)
  fix k r' assume "st_claims (s\<lparr>st_claims := claims, st_log_frozen := f\<rparr>) k = Some r'"
  then have k: "claims k = Some r'" by simp
  then obtain r where r: "st_claims s k = Some r" using dom by fastforce
  note f = some [OF r]
  with k have sc: "same_commit r r'" by auto
  have "claim_ok V s k r" by (rule store_inv_claim [OF inv r])
  then show "claim_ok V (s\<lparr>st_claims := claims, st_log_frozen := f\<rparr>) k r'"
    using f k unfolding claim_ok_def terminal_ok_def by (auto simp: same_commit_fields [OF sc])
next
  fix i assume "i < length (st_outbox (s\<lparr>st_claims := claims, st_log_frozen := f\<rparr>))"
  then have e: "entry_ok V s i" using inv by (simp add: store_inv_def)
  then obtain r where r: "st_claims s (ob_claim_id (st_outbox s ! i)) = Some r" "cm_state r = Terminal" "cm_outbox_index r = Some i"
    "\<forall>a. ob_ack (st_outbox s ! i) = Some a \<longrightarrow> cm_finalized_at r \<le> ack_timestamp a" by (auto simp: entry_ok_def)
  obtain r' where r': "claims (ob_claim_id (st_outbox s ! i)) = Some r'" "same_commit r r'" using some [OF r(1)] by blast
  have "published V (s\<lparr>st_claims := claims, st_log_frozen := f\<rparr>) = published V s"
    by (intro ext) (simp add: published_def previous_digest_def)
  then show "entry_ok V (s\<lparr>st_claims := claims, st_log_frozen := f\<rparr>) i"
    using e r r'(1) unfolding entry_ok_def by (simp add: same_commit_fields [OF r'(2)])
qed


lemma same_commit_updates [simp]:
  "same_commit r r" "same_commit r (r\<lparr>cm_progress := p\<rparr>)" "same_commit r (r\<lparr>cm_release := q\<rparr>)"
  "same_commit r (r\<lparr>cm_abandoned := b\<rparr>)"
  by (simp_all add: same_commit_def)

lemma fold_abandon:
  "fold abandon_claim ids claims k =
     (case claims k of None \<Rightarrow> None | Some r \<Rightarrow> Some (if k \<in> set ids then r\<lparr>cm_abandoned := True\<rparr> else r))"
proof (induction ids arbitrary: claims)
  case (Cons i ids)
  have "abandon_claim i claims k =
      (case claims k of None \<Rightarrow> None | Some r \<Rightarrow> Some (if k = i then r\<lparr>cm_abandoned := True\<rparr> else r))"
    by (auto simp: abandon_claim_def split: option.splits)
  then show ?case by (simp add: Cons.IH split: option.splits)
qed (simp split: option.splits)

lemma pending_terminal:
  assumes "store_inv V s" "k \<in> set (pending_claims s)" "st_claims s k = Some r"
  shows "cm_state r = Terminal"
proof -
  obtain e where "e \<in> set (st_outbox s)" "k = ob_claim_id e" using assms(2) by (auto simp: pending_claims_def)
  then obtain i where i: "i < length (st_outbox s)" "k = ob_claim_id (st_outbox s ! i)" by (auto simp: in_set_conv_nth)
  show ?thesis using store_inv_entry [OF assms(1) i(1)] assms(3) i(2) by (auto simp: entry_ok_def)
qed

text \<open>A committed claim takes the next position.\<close>

lemma rate_fold_fields [simp]:
  "st_claims (fold (commit_rate t) items s) = st_claims s" "st_outbox (fold (commit_rate t) items s) = st_outbox s"
  "st_high_water (fold (commit_rate t) items s) = st_high_water s" "st_log_id (fold (commit_rate t) items s) = st_log_id s"
  "st_verifier_id (fold (commit_rate t) items s) = st_verifier_id s"
  "st_verifier_key (fold (commit_rate t) items s) = st_verifier_key s"
  "st_streams (fold (commit_rate t) items s) = st_streams s"
  by (subst rate_fold_eq, simp)+

lemma commit_inv:
  assumes inv: "store_inv V s" and r: "st_claims s cid = Some r" "cm_state r = Evaluating"
    and p: "validate_v2_finalization_payload V (cm_claim r) t b = Ok ()"
    and d: "decode_verification_receipt_body_v2 V b = Ok body" "horizon_ok (rc_decision body) h"
    and h: "h > 0 \<longrightarrow> st_high_water s < h \<and> st_high_water s < cl_expires_at (cm_claim r)"
    and v: "valid_v2_timestamp (st_high_water s)"
  shows "store_inv V (commit_terminal_locked cid t b h (st_high_water s) s)"
proof -
  let ?n = "length (st_outbox s)"
  let ?e = "\<lparr>ob_claim_id = cid, ob_body = b, ob_wire = None, ob_digest = [], ob_ack = None\<rparr>"
  let ?r = "r\<lparr>cm_state := Terminal, cm_terminal := t, cm_receipt_body := b, cm_allow_horizon := h,
      cm_finalized_at := st_high_water s, cm_outbox_index := Some ?n\<rparr>"
  let ?s = "s\<lparr>st_claims := (st_claims s)(cid \<mapsto> ?r), st_outbox := st_outbox s @ [?e]\<rparr>"
  have eq: "commit_terminal_locked cid t b h (st_high_water s) s = ?s"
    using r(1) by (simp add: commit_terminal_locked_def)
  have c: "claim_ok V s cid r" by (rule store_inv_claim [OF inv r(1)])
  have "store_inv V ?s"
  proof (rule store_invI)
    fix k r' assume k: "st_claims ?s k = Some r'"
    show "claim_ok V ?s k r'"
    proof (cases "k = cid")
      case True
      with k have r': "r' = ?r" by simp
      have "terminal_ok V ?s cid ?r" using c p d h v by (auto simp: terminal_ok_def claim_ok_def nth_append)
      then show ?thesis using c r(2) by (simp add: True r' claim_ok_def)
    next
      case False
      with k have k': "st_claims s k = Some r'" by simp
      from store_inv_claim [OF inv this] have c': "claim_ok V s k r'" .
      have "terminal_ok V s k r' \<Longrightarrow> terminal_ok V ?s k r'" by (auto simp: terminal_ok_def nth_append)
      with c' show ?thesis by (simp add: claim_ok_def)
    qed
  next
    fix i assume i: "i < length (st_outbox ?s)"
    show "entry_ok V ?s i"
    proof (cases "i = ?n")
      case True
      then show ?thesis by (simp add: entry_ok_def nth_append)
    next
      case False
      with i have i': "i < ?n" by simp
      from store_inv_entry [OF inv i'] have e: "entry_ok V s i" .
      then have "ob_claim_id (st_outbox s ! i) \<noteq> cid" using r by (auto simp: entry_ok_def)
      moreover have "published V ?s i = published V s i"
        using i' by (intro ext) (simp add: published_def previous_digest_def nth_append less_imp_diff_less)
      ultimately show ?thesis
        using e i' unfolding entry_ok_def by (simp add: nth_append less_imp_diff_less)
    qed
  qed
  then show ?thesis by (simp add: eq)
qed

lemma commit_rate_outside:
  "commit_terminal_locked cid t b h f (s\<lparr>st_rate_commits := q\<rparr>) =
     (commit_terminal_locked cid t b h f s)\<lparr>st_rate_commits := q\<rparr>"
  by (simp add: commit_terminal_locked_def split: option.splits)


text \<open>A published entry is a receipt for its position.\<close>

lemma outbox_head_fields:
  "rh_log_id (outbox_head i s) = st_log_id s" "rh_verifier_id (outbox_head i s) = st_verifier_id s"
  "rh_sequence (outbox_head i s) = int i" "rh_head_hash (outbox_head i s) = previous_digest s i"
  by (simp_all add: outbox_head_def previous_digest_def)

lemma append_inv:
  assumes codec: "base64_codec V" and inv: "store_inv V s" and c: "committed_index cid body s = Some i"
    and w: "ob_wire (st_outbox s ! i) = None" "i > 0 \<longrightarrow> ob_wire (st_outbox s ! (i - 1)) \<noteq> None"
    and sign: "sign_prepared_verification_receipt_v2 V rnd body (outbox_head i s) (st_verifier_key s) = Ok receipt"
    and enc: "encode_verification_receipt_v2 V receipt = Ok wire" and dig: "verification_receipt_v2_digest V receipt = Ok d"
  shows "store_inv V (append_wire i wire d s)"
proof -
  let ?s = "append_wire i wire d s"
  obtain r where r: "st_claims s cid = Some r" "cm_state r = Terminal" "cm_receipt_body r = body" "cm_outbox_index r = Some i"
    and i: "i < length (st_outbox s)"
    using c by (auto simp: committed_index_def split: option.splits if_splits)
  have "terminal_ok V s cid r" using store_inv_claim [OF inv r(1)] r(2) by (simp add: claim_ok_def)
  then have body: "ob_body (st_outbox s ! i) = body" using r(3,4) by (auto simp: terminal_ok_def)
  have same: "ob_claim_id (st_outbox ?s ! j) = ob_claim_id (st_outbox s ! j)"
    "ob_body (st_outbox ?s ! j) = ob_body (st_outbox s ! j)" "ob_ack (st_outbox ?s ! j) = ob_ack (st_outbox s ! j)"
    "j \<noteq> i \<Longrightarrow> st_outbox ?s ! j = st_outbox s ! j" for j
    using i by (cases "j = i"; simp add: append_wire_def)+
  have fields: "st_claims ?s = st_claims s" "length (st_outbox ?s) = length (st_outbox s)" "st_high_water ?s = st_high_water s"
    "st_log_id ?s = st_log_id s" "st_verifier_id ?s = st_verifier_id s" "st_verifier_key ?s = st_verifier_key s"
    by (simp_all add: append_wire_def)
  have here: "ob_wire (st_outbox ?s ! i) = Some wire" "ob_digest (st_outbox ?s ! i) = d"
    using i by (simp_all add: append_wire_def)
  have prev: "previous_digest ?s i = previous_digest s i" by (simp add: previous_digest_def same)
  have new: "published V ?s i wire receipt"
    using codec sign enc
  proof (rule signed_with_local_key)
    fix pk msg
    assume "public_key_v2 V (st_verifier_key s) = Ok pk" "receipt_utf8 receipt" "decode_verification_receipt_v2 V wire = Ok receipt"
      "verification_receipt_v2_body V receipt = Ok body" "rc_log_id receipt = rh_log_id (outbox_head i s)"
      "rc_verifier_id receipt = rh_verifier_id (outbox_head i s)" "rc_sequence receipt = rh_sequence (outbox_head i s) + 1"
      "rc_previous_receipt_hash receipt = rh_head_hash (outbox_head i s)"
      "verification_receipt_v2_signable_bytes V receipt = Ok msg"
      "verify_v2_statement V VerificationReceipt msg (rc_signature receipt) pk = Ok ()"
    then show "published V ?s i wire receipt"
      by (simp add: published_def outbox_head_fields fields here prev same(2) body dig)
  qed
  show ?thesis
  proof (rule store_invI)
    fix k r' assume "st_claims ?s k = Some r'"
    then have "claim_ok V s k r'" using store_inv_claim [OF inv] by (simp add: fields)
    moreover have "terminal_ok V s k r' \<Longrightarrow> terminal_ok V ?s k r'" unfolding terminal_ok_def by (simp add: fields same)
    ultimately show "claim_ok V ?s k r'" by (simp add: claim_ok_def fields)
  next
    fix j assume j: "j < length (st_outbox ?s)"
    then have e: "entry_ok V s j" using store_inv_entry [OF inv] by (simp add: fields)
    show "entry_ok V ?s j"
    proof (cases "j = i")
      case True
      have "ob_ack (st_outbox s ! i) = None" using e w(1) True by (auto simp: entry_ok_def)
      moreover have "i > 0 \<longrightarrow> ob_wire (st_outbox ?s ! (i - 1)) \<noteq> None" using w(2) same(4) [of "i - 1"] by auto
      ultimately show ?thesis using e new here(1) unfolding True entry_ok_def by (auto simp: fields same)
    next
      case False
      have old: "published V ?s j = published V s j" if "ob_wire (st_outbox s ! j) \<noteq> None"
      proof -
        have "j > 0 \<longrightarrow> j - 1 \<noteq> i" using e that w(1) by (auto simp: entry_ok_def)
        then have "previous_digest ?s j = previous_digest s j"
          using same(4) [of "j - 1"] by (cases "j > 0") (simp_all add: previous_digest_def)
        then show ?thesis by (intro ext) (simp add: published_def fields same(4) [OF False])
      qed
      have "j > 0 \<and> ob_wire (st_outbox s ! (j - 1)) \<noteq> None \<longrightarrow> ob_wire (st_outbox ?s ! (j - 1)) \<noteq> None"
        using same(4) [of "j - 1"] here(1) by (cases "j - 1 = i") auto
      with e old show ?thesis unfolding entry_ok_def by (simp add: fields same same(4) [OF False])
    qed
  qed
qed


text \<open>An acknowledgement of the next entry.\<close>

lemma acknowledge_inv:
  assumes inv: "store_inv V s" and i: "i < length (st_outbox s)" "ob_wire (st_outbox s ! i) \<noteq> None"
    and prev: "i > 0 \<longrightarrow> ob_ack (st_outbox s ! (i - 1)) \<noteq> None" and t: "valid_v2_timestamp (st_high_water s)"
  shows "store_inv V (s\<lparr>st_outbox := (st_outbox s)[i := (st_outbox s ! i)\<lparr>ob_ack := Some \<lparr>ack_log_id = st_log_id s,
      ack_sequence = int i + 1, ack_entry_hash = ob_digest (st_outbox s ! i), ack_timestamp = st_high_water s\<rparr>\<rparr>]\<rparr>)"
    (is "store_inv V ?s")
proof -
  let ?a = "\<lparr>ack_log_id = st_log_id s, ack_sequence = int i + 1, ack_entry_hash = ob_digest (st_outbox s ! i),
      ack_timestamp = st_high_water s\<rparr>"
  have same: "ob_claim_id (st_outbox ?s ! j) = ob_claim_id (st_outbox s ! j)"
    "ob_body (st_outbox ?s ! j) = ob_body (st_outbox s ! j)" "ob_wire (st_outbox ?s ! j) = ob_wire (st_outbox s ! j)"
    "ob_digest (st_outbox ?s ! j) = ob_digest (st_outbox s ! j)"
    "ob_ack (st_outbox ?s ! j) = (if j = i then Some ?a else ob_ack (st_outbox s ! j))" for j
    using i(1) by (cases "j = i"; simp)+
  have fields: "st_claims ?s = st_claims s" "length (st_outbox ?s) = length (st_outbox s)" "st_high_water ?s = st_high_water s"
    "st_log_id ?s = st_log_id s" "st_verifier_id ?s = st_verifier_id s" "st_verifier_key ?s = st_verifier_key s" by simp_all
  have pub: "published V ?s = published V s"
    unfolding published_def previous_digest_def fun_eq_iff same fields by blast
  have "claim_ok V ?s k r" if "claim_ok V s k r" for k r
  proof -
    have "terminal_ok V ?s k r" if "terminal_ok V s k r" using that unfolding terminal_ok_def fields same by blast
    with that show ?thesis unfolding claim_ok_def fields by blast
  qed
  moreover have "entry_ok V ?s j" if j: "j < length (st_outbox s)" for j
  proof -
    from store_inv_entry [OF inv j] have e: "entry_ok V s j" .
    obtain r where r: "st_claims s (ob_claim_id (st_outbox s ! j)) = Some r" "cm_state r = Terminal" "cm_outbox_index r = Some j"
      "\<forall>a. ob_ack (st_outbox s ! j) = Some a \<longrightarrow> cm_finalized_at r \<le> ack_timestamp a" using e by (auto simp: entry_ok_def)
    have "cm_finalized_at r \<le> st_high_water s"
      using store_inv_claim [OF inv r(1)] r(2) by (simp add: claim_ok_def terminal_ok_def)
    then have "\<exists>r. st_claims ?s (ob_claim_id (st_outbox ?s ! j)) = Some r \<and> cm_state r = Terminal \<and> cm_outbox_index r = Some j
        \<and> (\<forall>a. ob_ack (st_outbox ?s ! j) = Some a \<longrightarrow> cm_finalized_at r \<le> ack_timestamp a)"
      using r unfolding fields same by auto
    moreover have "\<forall>w. ob_wire (st_outbox ?s ! j) = Some w \<longrightarrow> (\<exists>r. published V ?s j w r)
          \<and> (j > 0 \<longrightarrow> ob_wire (st_outbox ?s ! (j - 1)) \<noteq> None)"
      using e unfolding entry_ok_def pub same by blast
    moreover have "\<forall>a. ob_ack (st_outbox ?s ! j) = Some a \<longrightarrow> ob_wire (st_outbox ?s ! j) \<noteq> None
          \<and> ack_log_id a = st_log_id ?s \<and> ack_sequence a = int j + 1 \<and> ack_entry_hash a = ob_digest (st_outbox ?s ! j)
          \<and> ack_timestamp a \<le> st_high_water ?s \<and> valid_v2_timestamp (ack_timestamp a)
          \<and> (j > 0 \<longrightarrow> ob_ack (st_outbox ?s ! (j - 1)) \<noteq> None)"
      using e i(2) prev t unfolding entry_ok_def same fields by auto
    ultimately show ?thesis unfolding entry_ok_def by blast
  qed
  ultimately show ?thesis using inv unfolding store_inv_def fields by blast
qed

lemma insert_claim_inv:
  assumes inv: "store_inv V s" and c: "claim_id_matches_key V c" "st_claims s (cl_claim_id c) = None"
  shows "store_inv V (insert_claim V c adv owner (st_high_water s) lease s)" (is "store_inv V ?s")
proof -
  let ?r = "fresh_claim_record V c owner (st_high_water s) lease"
  have s: "st_claims ?s = (st_claims s)(cl_claim_id c \<mapsto> ?r)" "st_outbox ?s = st_outbox s" "st_high_water ?s = st_high_water s"
    by (simp_all add: insert_claim_def)
  have "claim_ok V ?s (cl_claim_id c) ?r" using c(1) by (simp add: claim_ok_def fresh_claim_record_def s)
  moreover have "claim_ok V ?s k r" if "st_claims s k = Some r" for k r
    using claim_ok_frame [OF store_inv_claim [OF inv that] s(2)] by (simp add: s)
  moreover have "entry_ok V ?s i" if i: "i < length (st_outbox s)" for i
  proof -
    from store_inv_entry [OF inv i] have e: "entry_ok V s i" .
    then have "ob_claim_id (st_outbox s ! i) \<noteq> cl_claim_id c" using c(2) by (auto simp: entry_ok_def)
    moreover have "published V ?s = published V s"
      by (intro ext) (simp add: published_def previous_digest_def insert_claim_def)
    ultimately show ?thesis using e unfolding entry_ok_def by (simp add: insert_claim_def)
  qed
  ultimately show ?thesis unfolding store_inv_def s(1,2) by (auto split: if_splits)
qed

lemma claim_ok_release:
  assumes "claim_ok V s k r"
  shows "cm_state r = Evaluating \<longrightarrow> cm_release r = None \<and> \<not> cm_abandoned r"
    "\<forall>rel. cm_release r = Some rel \<longrightarrow> rl_claim_id rel = k
       \<and> valid_v2_release_record_outcome (rl_outcome rel) (rl_reason rel)"
  using assms by (simp_all add: claim_ok_def)

theorem change_inv:
  assumes "base64_codec V" "store_change V s s'" "store_inv V s"
  shows "store_inv V s'"
  using assms(2,3)
proof cases
  case reading
  then show ?thesis using store_inv_frame [OF assms(3), of s'] by simp
next
  case control
  then show ?thesis using store_inv_frame [OF assms(3), of s'] by simp
next
  case (claimed c adv owner)
  then show ?thesis using insert_claim_inv [OF assms(3)] by simp
next
  case (committed cid r terminal body b h)
  let ?c = "commit_terminal_locked cid terminal body h (st_high_water s) s"
  have inv: "store_inv V ?c"
    by (rule commit_inv [OF assms(3) committed(2,3,5-8,4)])
  have "store_inv V (?c\<lparr>st_rate_commits := q\<rparr>)" for q by (rule store_inv_frame [OF inv]) simp_all
  then have "store_inv V (commit_terminal_locked cid terminal body h (st_high_water s) (s\<lparr>st_rate_commits := q\<rparr>))" for q
    by (simp add: commit_rate_outside)
  moreover obtain q where "fold (commit_rate (st_high_water s)) (cl_rate_batch (cm_claim r)) s = s\<lparr>st_rate_commits := q\<rparr>"
    using rate_fold_eq by blast
  ultimately show ?thesis using inv by (simp add: committed(1))
next
  case (progressed cid r p)
  have "store_inv V (s\<lparr>st_claims := (st_claims s)(cid \<mapsto> r\<lparr>cm_progress := p\<rparr>), st_log_frozen := st_log_frozen s\<rparr>)"
  proof (rule store_inv_claims [OF assms(3)])
    fix k r' assume k: "st_claims s k = Some r'"
    from claim_ok_release [OF store_inv_claim [OF assms(3) k]]
    show "\<exists>x. ((st_claims s)(cid \<mapsto> r\<lparr>cm_progress := p\<rparr>)) k = Some x \<and> same_commit r' x
      \<and> (cm_state r' = Evaluating \<longrightarrow> cm_release x = None \<and> \<not> cm_abandoned x)
      \<and> (\<forall>rel. cm_release x = Some rel \<longrightarrow> rl_claim_id rel = k
          \<and> valid_v2_release_record_outcome (rl_outcome rel) (rl_reason rel))"
      using k progressed(2) by (cases "k = cid") simp_all
  qed (use progressed(2) in auto)
  then show ?thesis by (simp add: progressed(1))
next
  case (released rel r)
  have "store_inv V (s\<lparr>st_claims := (st_claims s)(rl_claim_id rel \<mapsto> r\<lparr>cm_release := Some rel\<rparr>), st_log_frozen := st_log_frozen s\<rparr>)"
  proof (rule store_inv_claims [OF assms(3)])
    fix k r' assume k: "st_claims s k = Some r'"
    from claim_ok_release [OF store_inv_claim [OF assms(3) k]]
    show "\<exists>x. ((st_claims s)(rl_claim_id rel \<mapsto> r\<lparr>cm_release := Some rel\<rparr>)) k = Some x \<and> same_commit r' x
      \<and> (cm_state r' = Evaluating \<longrightarrow> cm_release x = None \<and> \<not> cm_abandoned x)
      \<and> (\<forall>rel. cm_release x = Some rel \<longrightarrow> rl_claim_id rel = k
          \<and> valid_v2_release_record_outcome (rl_outcome rel) (rl_reason rel))"
      using k released(2-5) by (cases "k = rl_claim_id rel") simp_all
  qed (use released(2) in auto)
  then show ?thesis by (simp add: released(1))
next
  case abandoned
  have "store_inv V (s\<lparr>st_claims := fold abandon_claim (pending_claims s) (st_claims s), st_log_frozen := True\<rparr>)"
  proof (rule store_inv_claims [OF assms(3)])
    fix k r' assume k: "st_claims s k = Some r'"
    from claim_ok_release [OF store_inv_claim [OF assms(3) k]] pending_terminal [OF assms(3) _ k]
    show "\<exists>x. fold abandon_claim (pending_claims s) (st_claims s) k = Some x \<and> same_commit r' x
      \<and> (cm_state r' = Evaluating \<longrightarrow> cm_release x = None \<and> \<not> cm_abandoned x)
      \<and> (\<forall>rel. cm_release x = Some rel \<longrightarrow> rl_claim_id rel = k
          \<and> valid_v2_release_record_outcome (rl_outcome rel) (rl_reason rel))"
      using k by (cases "k \<in> set (pending_claims s)") (auto simp: fold_abandon)
  qed (simp add: fold_abandon)
  moreover have "s' = s\<lparr>st_claims := fold abandon_claim (pending_claims s) (st_claims s), st_log_frozen := True\<rparr>"
    using abandoned by simp
  ultimately show ?thesis by simp
next
  case (appended cid body i rnd receipt wire d)
  then show ?thesis using append_inv [OF assms(1,3)] by simp
next
  case (acknowledged i)
  show ?thesis unfolding acknowledged(1)
    by (rule acknowledge_inv [OF assms(3) acknowledged(2,3,5,7)])
next
  case forked
  then show ?thesis using store_inv_frame [OF assms(3), of s'] by simp
qed

theorem run_inv: "base64_codec V \<Longrightarrow> store_run V s s' \<Longrightarrow> store_inv V s \<Longrightarrow> store_inv V s'"
  by (erule run_induct) (auto intro: change_inv)

end
