(* ===== verification/V2_Store_History.thy ===== *)
theory V2_Store_History
  imports V2_Store_Invariants
begin

text \<open>
  What no run of the reference store undoes: readings, sealed claims and their owners, terminal results,
  release records, stream sequences, log entries and acknowledgements.  Then the claim store that release
  and the drivers use, as interpretations of their interfaces on the reference store.
\<close>

section \<open>Kept by every change\<close>

definition claim_kept :: "claim_record \<Rightarrow> claim_record \<Rightarrow> bool" where
  "claim_kept r r' \<longleftrightarrow> cm_claim r' = cm_claim r \<and> cm_owner_digest r' = cm_owner_digest r
     \<and> cm_lease_expires_at r' = cm_lease_expires_at r \<and> cm_claimed_at r' = cm_claimed_at r
     \<and> (cm_state r = Terminal \<longrightarrow> cm_state r' = Terminal \<and> cm_terminal r' = cm_terminal r
          \<and> cm_receipt_body r' = cm_receipt_body r \<and> cm_allow_horizon r' = cm_allow_horizon r
          \<and> cm_finalized_at r' = cm_finalized_at r \<and> cm_outbox_index r' = cm_outbox_index r)
     \<and> (\<forall>rel. cm_release r = Some rel \<longrightarrow> cm_release r' = Some rel) \<and> (cm_abandoned r \<longrightarrow> cm_abandoned r')"

definition entry_kept :: "outbox_entry \<Rightarrow> outbox_entry \<Rightarrow> bool" where
  "entry_kept e e' \<longleftrightarrow> ob_claim_id e' = ob_claim_id e \<and> ob_body e' = ob_body e
     \<and> (ob_wire e \<noteq> None \<longrightarrow> ob_wire e' = ob_wire e \<and> ob_digest e' = ob_digest e)
     \<and> (ob_ack e \<noteq> None \<longrightarrow> ob_ack e' = ob_ack e)"

definition claims_kept :: "(string \<rightharpoonup> claim_record) \<Rightarrow> (string \<rightharpoonup> claim_record) \<Rightarrow> bool" where
  "claims_kept m m' \<longleftrightarrow> (\<forall>k r. m k = Some r \<longrightarrow> (\<exists>r'. m' k = Some r' \<and> claim_kept r r'))"

definition streams_kept :: "(stream_key \<rightharpoonup> int) \<Rightarrow> (stream_key \<rightharpoonup> int) \<Rightarrow> bool" where
  "streams_kept m m' \<longleftrightarrow> (\<forall>k n. m k = Some n \<longrightarrow> (\<exists>n'\<ge>n. m' k = Some n'))"

definition outbox_kept :: "outbox_entry list \<Rightarrow> outbox_entry list \<Rightarrow> bool" where
  "outbox_kept es es' \<longleftrightarrow> length es \<le> length es' \<and> (\<forall>i<length es. entry_kept (es ! i) (es' ! i))"

definition store_later :: "store_state \<Rightarrow> store_state \<Rightarrow> bool" where
  "store_later s s' \<longleftrightarrow> st_high_water s \<le> st_high_water s' \<and> claims_kept (st_claims s) (st_claims s')
     \<and> streams_kept (st_streams s) (st_streams s') \<and> outbox_kept (st_outbox s) (st_outbox s')
     \<and> st_log_id s' = st_log_id s \<and> st_verifier_key s' = st_verifier_key s \<and> st_verifier_id s' = st_verifier_id s
     \<and> (st_checkpoint_frozen s \<longrightarrow> st_checkpoint_frozen s') \<and> (st_log_frozen s \<longrightarrow> st_log_frozen s')"

lemma kept_refl [simp]: "claim_kept r r" "entry_kept e e" "claims_kept m m" "streams_kept k k" "outbox_kept es es"
  by (simp_all add: claim_kept_def entry_kept_def claims_kept_def streams_kept_def outbox_kept_def)

lemma claim_kept_trans: "claim_kept a b \<Longrightarrow> claim_kept b c \<Longrightarrow> claim_kept a c"
  by (simp add: claim_kept_def)

lemma entry_kept_trans: "entry_kept a b \<Longrightarrow> entry_kept b c \<Longrightarrow> entry_kept a c"
  by (auto simp: entry_kept_def)

lemma claims_kept_trans: "claims_kept a b \<Longrightarrow> claims_kept b c \<Longrightarrow> claims_kept a c"
  unfolding claims_kept_def using claim_kept_trans by blast

lemma streams_kept_trans: "streams_kept a b \<Longrightarrow> streams_kept b c \<Longrightarrow> streams_kept a c"
  unfolding streams_kept_def by (meson order_trans)

lemma outbox_kept_trans: "outbox_kept a b \<Longrightarrow> outbox_kept b c \<Longrightarrow> outbox_kept a c"
  unfolding outbox_kept_def using entry_kept_trans by (meson order_less_le_trans order_trans)

lemma later_refl [simp]: "store_later s s"
  by (simp add: store_later_def)

lemma later_trans: "store_later a b \<Longrightarrow> store_later b c \<Longrightarrow> store_later a c"
  unfolding store_later_def by (auto intro: claims_kept_trans streams_kept_trans outbox_kept_trans)

lemma claims_kept_update:
  "(\<And>r. m k = Some r \<Longrightarrow> claim_kept r r') \<Longrightarrow> claims_kept m (m(k \<mapsto> r'))"
  by (auto simp: claims_kept_def)

lemma outbox_kept_update:
  "i < length es \<Longrightarrow> entry_kept (es ! i) e \<Longrightarrow> outbox_kept es (es[i := e])"
  by (auto simp: outbox_kept_def nth_list_update)

lemma outbox_kept_append: "outbox_kept es (es @ [e])"
  by (simp add: outbox_kept_def nth_append)

text \<open>An accepted sequence number is the next one.\<close>

lemma stream_next:
  assumes "check_v2_stream_sequence True n seq = Ok ()"
  shows "seq = n + 1"
proof -
  have "1 \<le> n" "n < MAX_SAFE_INTEGER"
    using assms by (auto simp: check_v2_stream_sequence_def err_def split: if_splits)
  then have "i64_add n 1 = n + 1"
    unfolding i64_add_def by (intro i64_wrap_id) (simp add: i64_range_def MAX_SAFE_INTEGER_def)
  then show ?thesis using assms by (auto simp: check_v2_stream_sequence_def err_def Let_def split: if_splits)
qed

lemma stream_advance_next:
  assumes "stream_advance c s = Ok (Some (k, seq))"
  shows "k = stream_key_of c \<and> cl_stream_seq c = Some seq
     \<and> (case st_streams s k of Some n \<Rightarrow> seq = n + 1 | None \<Rightarrow> seq = 1)"
proof -
  from assms have k: "k = stream_key_of c" "cl_stream_seq c = Some seq"
    and c: "check_v2_stream_sequence (st_streams s k \<noteq> None) (case st_streams s k of Some n \<Rightarrow> n | None \<Rightarrow> 0) seq = Ok ()"
    by (auto simp: stream_advance_def Let_def split: if_splits option.splits sum.splits)
  show ?thesis
  proof (cases "st_streams s k")
    case None
    then show ?thesis using k c by (auto simp: check_v2_stream_sequence_def err_def Let_def split: if_splits)
  next
    case (Some n)
    then show ?thesis using k c stream_next [of n seq] by simp
  qed
qed

lemma claim_later:
  assumes "st_claims s (cl_claim_id c) = None" "stream_advance c s = Ok adv"
  shows "store_later s (insert_claim V c adv owner now lease s)"
proof -
  have "streams_kept (st_streams s) (case adv of Some (k, seq) \<Rightarrow> (st_streams s)(k \<mapsto> seq) | None \<Rightarrow> st_streams s)"
  proof (cases adv)
    case (Some p)
    obtain k seq where p: "p = (k, seq)" by (cases p)
    have "\<forall>n. st_streams s k = Some n \<longrightarrow> n \<le> seq"
      using stream_advance_next [of c s k seq] assms(2) Some p by auto
    then show ?thesis by (auto simp: Some p streams_kept_def)
  qed simp
  then show ?thesis
    using assms(1) by (auto simp: store_later_def insert_claim_def intro!: claims_kept_update)
qed

lemma commit_later:
  assumes "st_claims s cid = Some r" "cm_state r = Evaluating"
  shows "store_later s (commit_terminal_locked cid t b h f s)"
  using assms
  by (auto simp: store_later_def commit_terminal_locked_def outbox_kept_append claim_kept_def intro!: claims_kept_update)

lemma later_rates: "store_later s s' \<Longrightarrow> store_later s (s'\<lparr>st_rate_commits := q\<rparr>)"
  by (simp add: store_later_def)

lemma change_later: "store_change V s s' \<Longrightarrow> store_later s s'"
proof (induction rule: store_change.induct)
  case (claimed c s adv owner)
  then show ?case by (intro claim_later)
next
  case (committed s cid r terminal body b h)
  have c: "store_later s (commit_terminal_locked cid terminal body h (st_high_water s) s)"
    by (rule commit_later [OF committed(1,2)])
  obtain q where "fold (commit_rate (st_high_water s)) (cl_rate_batch (cm_claim r)) s = s\<lparr>st_rate_commits := q\<rparr>"
    using rate_fold_eq by blast
  then show ?case using c by (simp add: commit_rate_outside later_rates)
next
  case (abandoned s)
  have "claims_kept (st_claims s) (fold abandon_claim (pending_claims s) (st_claims s))"
    by (auto simp: claims_kept_def fold_abandon claim_kept_def)
  then show ?case by (simp add: store_later_def)
next
  case (appended cid body s i rnd receipt wire d)
  have "i < length (st_outbox s)" using appended(1) by (auto simp: committed_index_def split: option.splits if_splits)
  then show ?case
    using appended(2) by (simp add: store_later_def append_wire_def outbox_kept_update entry_kept_def)
next
  case (acknowledged i s)
  then show ?case by (simp add: store_later_def outbox_kept_update entry_kept_def)
qed (auto simp: store_later_def claim_kept_def intro!: claims_kept_update)

theorem run_later: "store_run V s s' \<Longrightarrow> store_later s s'"
  by (induction rule: run_induct) (auto intro: later_trans change_later)


section \<open>The release ledger\<close>

definition release_of :: "store_state \<Rightarrow> string \<Rightarrow> v2_release_record option" where
  "release_of s cid = (case st_claims s cid of Some r \<Rightarrow> cm_release r | None \<Rightarrow> None)"

definition store_consistent :: "v2_prims \<Rightarrow> store_state \<Rightarrow> bool" where
  "store_consistent V s \<longleftrightarrow> base64_codec V \<and> store_inv V s"

lemma run_consistent: "store_run V s s' \<Longrightarrow> store_consistent V s \<Longrightarrow> store_consistent V s'"
  by (auto simp: store_consistent_def intro: run_inv)

lemma later_release: "store_later s s' \<Longrightarrow> release_of s cid = Some rel \<Longrightarrow> release_of s' cid = Some rel"
  by (fastforce simp: store_later_def claims_kept_def claim_kept_def release_of_def split: option.splits)

lemma total_call_eq: "total_call f s = (y, s') \<longleftrightarrow> (\<exists>x. y = Some x \<and> f s = (x, s'))"
  by (auto simp: total_call_def split: prod.splits)

lemma loaded_release:
  "load_v2_terminal_claim V cid s = (Ok r, s') \<Longrightarrow> s' = s \<and> tc_release r = release_of s cid"
  by (auto simp: load_v2_terminal_claim_def unknown_claim_def release_of_def split: option.splits)

lemma recorded_release:
  assumes "store_inv V s" "record_v2_release V anchor rel s = (Ok (), s')"
  shows "release_of s' (rl_claim_id rel) = Some rel"
proof -
  let ?m = "\<lambda>s. case st_claims s (rl_claim_id rel) of None \<Rightarrow> s
    | Some r \<Rightarrow> s\<lparr>st_claims := (st_claims s)(rl_claim_id rel \<mapsto> r\<lparr>cm_release := Some rel\<rparr>)\<rparr>"
  obtain r where r: "st_claims s (rl_claim_id rel) = Some r"
    using assms(2) by (auto simp: record_v2_release_def split: if_splits option.splits)
  show ?thesis
  proof (cases "cm_release r")
    case None
    then have "change_locked anchor ?m s = (Ok (), s')"
      using assms(2) r by (auto simp: record_v2_release_def split: if_splits)
    with durable_changes(3) show ?thesis
      by (rule change_locked_cases) (use r in \<open>auto simp: release_of_def\<close>)
  next
    case (Some old)
    with assms(2) r have same: "same_release old rel" "s' = s"
      by (auto simp: record_v2_release_def split: if_splits)
    have "rl_claim_id old = rl_claim_id rel"
      using claim_ok_release(2) [OF store_inv_claim [OF assms(1) r]] Some by blast
    with same(1) have "old = rel" by (cases old; cases rel) (simp add: same_release_def)
    then show ?thesis using r Some same(2) by (simp add: release_of_def)
  qed
qed

interpretation reference_ledger: release_ledger "reference_release_store V anchor" "store_consistent V" release_of
  for V anchor
proof unfold_locales
  let ?st = "reference_release_store V anchor"
  show "tc_release r = release_of s cid"
    if "store_consistent V s" "rs_load_terminal ?st cid s = (Some (Ok r), s')" for s cid r s'
    using that by (auto simp: reference_release_store_def total_call_eq dest: loaded_release)
  show "store_consistent V s' \<and> release_of s' = release_of s"
    if "store_consistent V s" "rs_load_terminal ?st cid s = (x, s')" for s cid x s'
    using that by (auto simp: reference_release_store_def total_call_eq load_v2_terminal_claim_def split: option.splits)
  show "store_consistent V s' \<and> release_of s' = release_of s"
    if "store_consistent V s" "rs_time ?st s = (y, s')" for s y s'
  proof -
    from that obtain x where x: "read_clock_locked s = (x, s')"
      by (auto simp: reference_release_store_def total_call_eq authoritative_time_v2_def)
    with that(1) show ?thesis using run_consistent [OF run_reading [OF x]] reading_claims [OF x]
      by (simp add: release_of_def fun_eq_iff)
  qed
  show "store_consistent V s' \<and> release_of s' = release_of s"
    if "store_consistent V s" "rs_get_ack ?st l q s = (z, s')" for s l q z s'
    using that by (auto simp: reference_release_store_def total_call_eq get_v2_acknowledgement_def split: option.splits if_splits)
  show "store_consistent V s' \<and> (\<forall>i r. release_of s i = Some r \<longrightarrow> release_of s' i = Some r)"
    if "store_consistent V s" "rs_record_release ?st rel s = (u, s')" for s rel u s'
  proof -
    from that obtain x where x: "record_v2_release V anchor rel s = (x, s')"
      by (auto simp: reference_release_store_def total_call_eq)
    with that(1) show ?thesis
      using run_consistent [OF run_release [OF x]] later_release [OF run_later [OF run_release [OF x]]] by blast
  qed
  show "release_of s' (rl_claim_id rel) = Some rel"
    if "store_consistent V s" "rs_record_release ?st rel s = (Some (Ok ()), s')" for s rel s'
    using that recorded_release by (auto simp: reference_release_store_def total_call_eq store_consistent_def)
qed

end
