(* ===== verification/V2_Drivers.thy ===== *)
theory V2_Drivers
  imports V2_Store_History
begin

text \<open>
  What calls a claim store (\<open>sdks/rust/src/v2/evaluation_progress.rs\<close>, \<open>v2/claim_store.rs\<close>): progress
  writes, finalization under an evaluator capability, recovery of an interrupted claim and resumption of a
  committed one.  The claim store is a record of functions over one state, as in release.
\<close>

section \<open>The claim store the drivers see\<close>

record 's claim_store =
  ks_claim :: "v2_challenge_claim \<Rightarrow> (v2_claim_result, 's) store_call"
  ks_finalize :: "string \<Rightarrow> bytes \<Rightarrow> bytes \<Rightarrow> bytes \<Rightarrow> int \<Rightarrow> (bool, 's) store_call"
  ks_progress :: "string \<Rightarrow> bytes \<Rightarrow> v2_evaluation_progress \<Rightarrow> (unit, 's) store_call"
  ks_load_interrupted :: "string \<Rightarrow> (v2_interrupted_claim, 's) store_call"
  ks_recover :: "string \<Rightarrow> bytes \<Rightarrow> bytes \<Rightarrow> (bool, 's) store_call"
  ks_load_committed :: "string \<Rightarrow> (v2_committed_claim, 's) store_call"
  ks_rate_at_finalization :: bool

text \<open>\<open>catch_unwind\<close> around a call, and its error as a classified one.\<close>

definition guarded :: "string \<Rightarrow> 'a store_result option \<times> 's \<Rightarrow> 'a v2_result \<times> 's" where
  "guarded m r = (case r of
     (None, s) \<Rightarrow> (err ClaimStoreUnavailable m, s)
   | (Some x, s) \<Rightarrow> (map_err (classified_or ClaimStoreUnavailable) x, s))"

section \<open>Recovery and resumption\<close>

definition recover_interrupted_claim_v2 ::
  "v2_prims \<Rightarrow> 's claim_store \<Rightarrow> string \<Rightarrow> 's \<Rightarrow> committed_outcome v2_result \<times> 's" where
  "recover_interrupted_claim_v2 V store claim_id s =
     (if claim_id = []
      then (err ConfigurationInvalid ''v2 recovery requires a context, claim store and claim ID'', s)
      else case guarded ''claim store recovery load panicked'' (ks_load_interrupted store claim_id s) of
        (Err e, s1) \<Rightarrow> (Err e, s1)
      | (Ok interrupted, s1) \<Rightarrow>
        if cl_claim_id (ic_claim interrupted) \<noteq> claim_id
        then (err ClaimStoreUnavailable ''v2 claim store returned a different claim for recovery'', s1)
        else (case v2_evaluation_interrupted_result V (ic_claim interrupted) (ic_claimed_at interrupted)
              (ic_progress interrupted) of
            Err e \<Rightarrow> (Err e, s1)
          | Ok (terminal, body) \<Rightarrow>
            (case guarded ''claim store recovery panicked'' (ks_recover store claim_id terminal body s1) of
               (Err e, s2) \<Rightarrow> (Err e, s2)
             | (Ok _, s2) \<Rightarrow> (Ok (new_committed_outcome (ic_claim interrupted) body 0), s2))))"

definition resume_committed_claim_v2 ::
  "v2_prims \<Rightarrow> 's claim_store \<Rightarrow> string \<Rightarrow> 's \<Rightarrow> committed_outcome v2_result \<times> 's" where
  "resume_committed_claim_v2 V store claim_id s =
     (if claim_id = []
      then (err ConfigurationInvalid ''v2 resumption requires a context, claim store and claim ID'', s)
      else case guarded ''claim store committed-claim load panicked'' (ks_load_committed store claim_id s) of
        (Err e, s1) \<Rightarrow> (Err e, s1)
      | (Ok c, s1) \<Rightarrow>
        (case validate_v2_committed_claim V c claim_id of
           Err e \<Rightarrow> (err ClaimStoreUnavailable
             (''v2 claim store returned a committed record that fails its checks: '' @ e_message e), s1)
         | Ok _ \<Rightarrow> (Ok (new_committed_outcome (cc_claim c) (cc_receipt_body c) (cc_allow_horizon c)), s1)))"

section \<open>The evaluator capability\<close>

text \<open>
  \<open>TokenState\<close> with its \<open>TokenMut\<close>, as far as progress and finalization read and write them.
\<close>

record evaluation_token =
  tk_claim_id :: string
  tk_claim :: v2_challenge_claim
  tk_owner_token :: bytes
  tk_evaluation_complete :: bool
  tk_finalization_digest :: bytes
  tk_finalization_started :: bool
  tk_rate_at_finalization :: bool
  tk_allow_valid_until :: int
  tk_evaluation_status :: string
  tk_evaluation_reason :: string

definition record_v2_progress_safely ::
  "'s claim_store \<Rightarrow> evaluation_token \<Rightarrow> v2_evaluation_progress \<Rightarrow> 's \<Rightarrow> unit v2_result \<times> 's" where
  "record_v2_progress_safely store tk progress s =
     (case validate_v2_evaluation_progress_inner progress of
        Err e \<Rightarrow> (Err e, s)
      | Ok _ \<Rightarrow> guarded ''claim store progress write panicked''
          (ks_progress store (tk_claim_id tk) (tk_owner_token tk) progress s))"

datatype finalize_failure = Own v2_error | OfStore v2_store_error

text \<open>What \<open>finalize_claim_proof_bundle_v2_inner\<close> checks before it calls the store.\<close>

definition finalization_refusal ::
  "v2_prims \<Rightarrow> bool \<Rightarrow> bool \<Rightarrow> evaluation_token \<Rightarrow> bytes \<Rightarrow> bytes \<Rightarrow> string v2_result" where
  "finalization_refusal V done rate_view tk terminal body =
     reject (length (tk_owner_token tk) \<noteq> 32 \<or> tk_claim_id tk = [])
       ''v2 claim store and valid evaluator capability are required'' (
     reject done ''v2 finalization context is done'' (
     reject (\<not> tk_evaluation_complete tk) ''v2 proof evaluation has not completed'' (
     case terminal_decision_for_v2_evaluation (tk_evaluation_status tk) (tk_evaluation_reason tk) of
       None \<Rightarrow> plain ''v2 proof evaluation has not reached a terminal local result''
     | Some decision \<Rightarrow>
       bind_ok (validate_v2_finalization_payload V (tk_claim tk) terminal body) (\<lambda>_.
       reject (\<not> terminal_payload_matches_v2 V terminal body decision (tk_evaluation_reason tk))
         ''v2 terminal result does not match the completed local evaluation'' (
       reject (decision = ''allow'' \<and> tk_allow_valid_until tk \<le> 0
           \<or> decision \<noteq> ''allow'' \<and> tk_allow_valid_until tk \<noteq> 0)
         ''v2 terminal result lacks a valid allow freshness horizon'' (
       reject (tk_rate_at_finalization tk \<and> \<not> rate_view)
         ''v2 rate-at-finalization requires an atomic rate store'' (
       reject (tk_finalization_started tk \<and>
           tk_finalization_digest tk \<noteq> v2_finalization_payload_digest V terminal body)
         ''v2 evaluator capability cannot change its terminal result or receipt body'' (
       Ok decision))))))))"

definition after_rate_limit :: "bool \<Rightarrow> string \<Rightarrow> bool store_result \<Rightarrow> evaluation_token \<Rightarrow> evaluation_token" where
  "after_rate_limit rate_view decision result tk =
     (if result = Err RateLimitExceeded \<and> tk_rate_at_finalization tk \<and> decision = ''allow'' \<and> rate_view
      then tk\<lparr>tk_evaluation_status := ''constraint_denied'', tk_evaluation_reason := ''constraint_denied'',
        tk_allow_valid_until := 0, tk_rate_at_finalization := False, tk_finalization_started := False,
        tk_finalization_digest := replicate 32 0\<rparr>
      else tk)"

text \<open>A panic of the store is not caught here: \<open>None\<close>, with the token as it was when the store was called.\<close>

definition finalize_claim_proof_bundle_v2_inner ::
  "v2_prims \<Rightarrow> bool \<Rightarrow> 's claim_store \<Rightarrow> evaluation_token \<Rightarrow> bytes \<Rightarrow> bytes \<Rightarrow> 's
    \<Rightarrow> (finalize_failure + bool) option \<times> evaluation_token \<times> 's" where
  "finalize_claim_proof_bundle_v2_inner V done store tk terminal body s =
     (case finalization_refusal V done (ks_rate_at_finalization store) tk terminal body of
        Err e \<Rightarrow> (Some (Err (Own e)), tk, s)
      | Ok decision \<Rightarrow>
        (let tk1 = tk\<lparr>tk_finalization_started := True,
               tk_finalization_digest := v2_finalization_payload_digest V terminal body\<rparr> in
         case ks_finalize store (tk_claim_id tk) (tk_owner_token tk) terminal body (tk_allow_valid_until tk) s of
           (None, s1) \<Rightarrow> (None, tk1, s1)
         | (Some result, s1) \<Rightarrow>
             (Some (map_err OfStore result), after_rate_limit (ks_rate_at_finalization store) decision result tk1, s1)))"

fun finalize_error :: "finalize_failure \<Rightarrow> v2_store_error" where
  "finalize_error (Own e) = Classified (classify ConfigurationInvalid e)"
| "finalize_error (OfStore (Unavailable m)) = Classified (v2_new ClaimStoreUnavailable m)"
| "finalize_error (OfStore e) = e"

definition finalize_claim_proof_bundle_v2 ::
  "v2_prims \<Rightarrow> v2_context \<Rightarrow> 's claim_store \<Rightarrow> evaluation_token \<Rightarrow> bytes \<Rightarrow> bytes \<Rightarrow> 's
    \<Rightarrow> bool store_result option \<times> evaluation_token \<times> 's" where
  "finalize_claim_proof_bundle_v2 V ctx store tk terminal body s =
     (if ctx 0
      then (Some (Err (Classified (v2_new EvaluationCancelled ''v2 finalization context is done''))), tk, s)
      else case finalize_claim_proof_bundle_v2_inner V (ctx 1) store tk terminal body s of
        (r, tk1, s1) \<Rightarrow> (map_option (map_err finalize_error) r, tk1, s1))"

section \<open>The reference store as a claim store\<close>

definition reference_claim_store :: "v2_prims \<Rightarrow> anchor \<Rightarrow> (string + bytes) \<Rightarrow> bool \<Rightarrow> store_state claim_store" where
  "reference_claim_store V anchor rnd rate_view = \<lparr>ks_claim = (\<lambda>c. total_call (claim_v2 V anchor rnd c)),
     ks_finalize = (\<lambda>i tok t b h. total_call (finalize_v2_claim V anchor i tok t b h)),
     ks_progress = (\<lambda>i tok p. total_call (record_v2_evaluation_progress V anchor i tok p)),
     ks_load_interrupted = (\<lambda>i. total_call (load_v2_interrupted_claim i)),
     ks_recover = (\<lambda>i t b. total_call (recover_interrupted_v2_claim V anchor i t b)),
     ks_load_committed = (\<lambda>i. total_call (load_v2_committed_claim i)),
     ks_rate_at_finalization = rate_view\<rparr>"


section \<open>What the drivers rely on\<close>

text \<open>
  \<open>sealed s id\<close> is the claim the store has for an identifier, \<open>committed s id\<close> its terminal record;
  \<open>later s s'\<close> holds when other calls lead from \<open>s\<close> to \<open>s'\<close>.
\<close>

locale claim_ledger =
  fixes store :: "'s claim_store"
    and consistent :: "'s \<Rightarrow> bool"
    and later :: "'s \<Rightarrow> 's \<Rightarrow> bool"
    and sealed :: "'s \<Rightarrow> string \<Rightarrow> v2_challenge_claim option"
    and committed :: "'s \<Rightarrow> string \<Rightarrow> v2_committed_claim option"
  assumes later_consistent: "consistent s \<Longrightarrow> later s s' \<Longrightarrow> consistent s'"
    and later_committed: "consistent s \<Longrightarrow> later s s' \<Longrightarrow> committed s i = Some c \<Longrightarrow> committed s' i = Some c"
    and later_sealed: "consistent s \<Longrightarrow> later s s' \<Longrightarrow> sealed s i = Some q \<Longrightarrow> sealed s' i = Some q"
    and committed_sealed: "consistent s \<Longrightarrow> committed s i = Some c \<Longrightarrow> sealed s i = Some (cc_claim c)"
    and finalize_later: "consistent s \<Longrightarrow> ks_finalize store i tok t b h s = (x, s') \<Longrightarrow> later s s'"
    and finalize_commits: "consistent s \<Longrightarrow> ks_finalize store i tok t b h s = (Some (Ok y), s') \<Longrightarrow>
      \<exists>c. committed s' i = Some c \<and> cc_terminal_result c = t \<and> cc_receipt_body c = b"
    and interrupted_later: "consistent s \<Longrightarrow> ks_load_interrupted store i s = (z, s') \<Longrightarrow> later s s'"
    and interrupted_sealed: "consistent s \<Longrightarrow> ks_load_interrupted store i s = (Some (Ok ic), s') \<Longrightarrow>
      sealed s i = Some (ic_claim ic)"
    and recover_later: "consistent s \<Longrightarrow> ks_recover store i t b s = (x, s') \<Longrightarrow> later s s'"
    and recover_commits: "consistent s \<Longrightarrow> ks_recover store i t b s = (Some (Ok y), s') \<Longrightarrow>
      \<exists>c. committed s' i = Some c \<and> cc_terminal_result c = t \<and> cc_receipt_body c = b"
    and load_shows: "consistent s \<Longrightarrow> ks_load_committed store i s = (Some (Ok c), s') \<Longrightarrow> committed s i = Some c"
begin

lemma guarded_Ok: "guarded m r = (Ok x, s') \<longleftrightarrow> r = (Some (Ok x), s')"
  by (cases r) (auto simp: guarded_def map_err_Ok split: option.splits)

text \<open>Recovery commits what it returns.\<close>

lemma recovered_committed:
  assumes c: "consistent s" and r: "recover_interrupted_claim_v2 V store i s = (Ok co, s')"
  shows "\<exists>c. committed s' i = Some c \<and> co = new_committed_outcome (cc_claim c) (cc_receipt_body c) 0
     \<and> cl_claim_id (cc_claim c) = i"
proof -
  from r obtain ic t b s1 y where load: "ks_load_interrupted store i s = (Some (Ok ic), s1)"
    and id: "cl_claim_id (ic_claim ic) = i"
    and rec: "ks_recover store i t b s1 = (Some (Ok y), s')" and co: "co = new_committed_outcome (ic_claim ic) b 0"
    by (auto simp: recover_interrupted_claim_v2_def err_def guarded_Ok split: if_splits prod.splits sum.splits)
  note l = interrupted_later [OF c load]
  have c1: "consistent s1" by (rule later_consistent [OF c l])
  obtain cc where cc: "committed s' i = Some cc" "cc_receipt_body cc = b" using recover_commits [OF c1 rec] by blast
  have l2: "later s1 s'" by (rule recover_later [OF c1 rec])
  have "sealed s' i = Some (ic_claim ic)"
    by (rule later_sealed [OF c1 l2 later_sealed [OF c l interrupted_sealed [OF c load]]])
  moreover have "sealed s' i = Some (cc_claim cc)" by (rule committed_sealed [OF later_consistent [OF c1 l2] cc(1)])
  ultimately show ?thesis using cc co id by auto
qed

lemma resumed_committed:
  assumes "consistent s" "resume_committed_claim_v2 V store i s = (Ok co, s')"
  shows "\<exists>c. committed s i = Some c \<and> co = new_committed_outcome (cc_claim c) (cc_receipt_body c) (cc_allow_horizon c)
     \<and> validate_v2_committed_claim V c i = Ok ()"
  using assms load_shows [of s i]
  by (auto simp: resume_committed_claim_v2_def err_def guarded_Ok split: if_splits prod.splits sum.splits)

text \<open>What was recovered or finalized is what a later resumption hands over.\<close>

lemma recovered_resumes:
  assumes c: "consistent s" and r: "recover_interrupted_claim_v2 V store i s = (Ok co, s1)" and l: "consistent s1" "later s1 s2"
    and q: "resume_committed_claim_v2 V store i s2 = (Ok co2, s3)"
  shows "co2 = co\<lparr>co_allow_horizon := co_allow_horizon co2\<rparr>"
proof -
  obtain a where a: "committed s1 i = Some a" "co = new_committed_outcome (cc_claim a) (cc_receipt_body a) 0"
    using recovered_committed [OF c r] by blast
  obtain b where b: "committed s2 i = Some b"
    "co2 = new_committed_outcome (cc_claim b) (cc_receipt_body b) (cc_allow_horizon b)"
    using resumed_committed [OF later_consistent [OF l] q] by blast
  have "b = a" using later_committed [OF l a(1)] b(1) by simp
  then show ?thesis by (simp add: a(2) b(2) new_committed_outcome_def)
qed

lemma finalized_resumes:
  assumes c: "consistent s"
    and f: "finalize_claim_proof_bundle_v2 V ctx store tk t b s = (Some (Ok x), tk2, s1)" and l: "later s1 s2"
    and q: "resume_committed_claim_v2 V store (tk_claim_id tk) s2 = (Ok co, s3)"
  shows "co_receipt_body co = b"
proof -
  obtain h where k: "ks_finalize store (tk_claim_id tk) (tk_owner_token tk) t b h s = (Some (Ok x), s1)"
  proof -
    from f obtain r where r: "finalize_claim_proof_bundle_v2_inner V (ctx 1) store tk t b s = (Some r, tk2, s1)"
      "map_err finalize_error r = Ok x"
      by (cases "finalize_claim_proof_bundle_v2_inner V (ctx 1) store tk t b s")
        (auto simp: finalize_claim_proof_bundle_v2_def split: if_splits)
    then have "r = Ok x" by (simp add: map_err_Ok)
    with r(1) show thesis
      by (auto simp: finalize_claim_proof_bundle_v2_inner_def Let_def map_err_Ok split: sum.splits prod.splits option.splits
          intro: that)
  qed
  obtain a where a: "committed s1 (tk_claim_id tk) = Some a" "cc_receipt_body a = b"
    using finalize_commits [OF c k] by blast
  have c1: "consistent s1" by (rule later_consistent [OF c finalize_later [OF c k]])
  show ?thesis
    using resumed_committed [OF later_consistent [OF c1 l] q] later_committed [OF c1 l a(1)] a(2)
    by (auto simp: new_committed_outcome_def)
qed

end

section \<open>The reference store keeps the contract\<close>

definition sealed_claim :: "store_state \<Rightarrow> string \<Rightarrow> v2_challenge_claim option" where
  "sealed_claim s cid = map_option cm_claim (st_claims s cid)"

definition committed_claim :: "store_state \<Rightarrow> string \<Rightarrow> v2_committed_claim option" where
  "committed_claim s cid =
     (case st_claims s cid of
        Some r \<Rightarrow> if cm_state r = Terminal
          then Some \<lparr>cc_claim = cm_claim r, cc_terminal_result = cm_terminal r, cc_receipt_body = cm_receipt_body r,
            cc_allow_horizon = cm_allow_horizon r\<rparr>
          else None
      | None \<Rightarrow> None)"

lemma later_views:
  assumes "store_later s s'"
  shows "sealed_claim s i = Some q \<Longrightarrow> sealed_claim s' i = Some q"
    and "committed_claim s i = Some c \<Longrightarrow> committed_claim s' i = Some c"
  using assms
  by (fastforce simp: store_later_def claims_kept_def claim_kept_def sealed_claim_def committed_claim_def
      split: option.splits if_splits)+

lemma finalize_committed:
  assumes "finalize_v2_claim V anchor i tok t b h s = (Ok y, s')"
  shows "\<exists>c. committed_claim s' i = Some c \<and> cc_terminal_result c = t \<and> cc_receipt_body c = b"
proof -
  obtain z s1 where z: "owner_locked V i tok s = (z, s1)" by (cases "owner_locked V i tok s")
  consider e r where "z = Err (AlreadyTerminal e)" "st_claims s1 i = Some r" "cm_terminal r = t" "cm_receipt_body r = b" "s' = s1"
    | now r m where "z = Ok now" "st_claims s1 i = Some r" "m = (\<lambda>s. commit_terminal_locked i t b h now
        (if admits_rate s1 (cm_claim r) h then fold (commit_rate now) (cl_rate_batch (cm_claim r)) s else s))"
      "change_locked anchor m s1 = (Ok (), s')"
    using assms z
    by (auto simp: finalize_v2_claim_def split: if_splits sum.splits option.splits prod.splits owner_failure.splits)
  then show ?thesis
  proof cases
    case 1
    have "cm_state r = Terminal"
      using z 1(1,2) by (auto simp: owner_locked_def split: option.splits if_splits prod.splits sum.splits)
    with 1 show ?thesis by (simp add: committed_claim_def)
  next
    case 2
    have "durable m" unfolding 2(3) by (rule durable_commit)
    then have "s' = m s1" using 2(4) by (rule change_locked_cases) auto
    then show ?thesis using 2(2) by (simp add: 2(3) commit_terminal_locked_def committed_claim_def)
  qed
qed

lemma recover_committed:
  assumes "recover_interrupted_v2_claim V anchor i t b s = (Ok y, s')"
  shows "\<exists>c. committed_claim s' i = Some c \<and> cc_terminal_result c = t \<and> cc_receipt_body c = b"
proof -
  obtain r where r: "st_claims s i = Some r"
    using assms by (auto simp: recover_interrupted_v2_claim_def unknown_claim_def split: option.splits)
  show ?thesis
  proof (cases "cm_state r")
    case Terminal
    then show ?thesis using assms r by (auto simp: recover_interrupted_v2_claim_def committed_claim_def split: if_splits)
  next
    case Evaluating
    obtain z s1 where z: "read_clock_locked s = (z, s1)" by (cases "read_clock_locked s")
    obtain now where n: "z = Ok now"
      using assms r Evaluating z by (cases z) (auto simp: recover_interrupted_v2_claim_def)
    have r1: "st_claims s1 i = Some r" using reading_claims [OF z] r by simp
    obtain x where c: "change_locked anchor (commit_terminal_locked i t b 0 now) s1 = (Ok x, s')"
      using assms r Evaluating z n r1
      by (auto simp: recover_interrupted_v2_claim_def lease_live_def split: if_splits sum.splits prod.splits)
    have "s' = commit_terminal_locked i t b 0 now s1"
      using durable_changes(2) c by (rule change_locked_cases) auto
    then show ?thesis using r1 by (simp add: commit_terminal_locked_def committed_claim_def)
  qed
qed

interpretation reference_claims: claim_ledger "reference_claim_store V anchor rnd view" "store_consistent V"
  "store_run V" sealed_claim committed_claim
  for V anchor rnd view
proof unfold_locales
  let ?st = "reference_claim_store V anchor rnd view"
  note eqs = reference_claim_store_def total_call_eq
  show "store_consistent V s'" if "store_consistent V s" "store_run V s s'" for s s'
    using run_consistent that by blast
  show "committed_claim s' i = Some c" if "store_run V s s'" "committed_claim s i = Some c" for s s' i c
    using later_views(2) [OF run_later [OF that(1)] that(2)] .
  show "sealed_claim s' i = Some q" if "store_run V s s'" "sealed_claim s i = Some q" for s s' i q
    using later_views(1) [OF run_later [OF that(1)] that(2)] .
  show "sealed_claim s i = Some (cc_claim c)" if "committed_claim s i = Some c" for s i c
    using that by (auto simp: committed_claim_def sealed_claim_def split: option.splits if_splits)
  show "store_run V s s'" if "ks_finalize ?st i tok t b h s = (x, s')" for s i tok t b h x s'
    using that by (auto simp: eqs intro: run_finalize)
  show "\<exists>c. committed_claim s' i = Some c \<and> cc_terminal_result c = t \<and> cc_receipt_body c = b"
    if "ks_finalize ?st i tok t b h s = (Some (Ok y), s')" for s i tok t b h y s'
    using that by (auto simp: eqs dest: finalize_committed)
  show "store_run V s s'" if "ks_load_interrupted ?st i s = (x, s')" for s i x s'
    using that by (auto simp: eqs intro: run_loads)
  show "sealed_claim s i = Some (ic_claim ic)" if "ks_load_interrupted ?st i s = (Some (Ok ic), s')" for s i ic s'
  proof -
    from that have "load_v2_interrupted_claim i s = (Ok ic, s')" by (simp add: eqs)
    then show ?thesis
      by (cases "read_clock_locked s")
        (auto simp: load_v2_interrupted_claim_def unknown_claim_def lease_live_def sealed_claim_def
          split: if_splits sum.splits option.splits dest!: reading_claims)
  qed
  show "store_run V s s'" if "ks_recover ?st i t b s = (x, s')" for s i t b x s'
    using that by (auto simp: eqs intro: run_recover)
  show "\<exists>c. committed_claim s' i = Some c \<and> cc_terminal_result c = t \<and> cc_receipt_body c = b"
    if "ks_recover ?st i t b s = (Some (Ok y), s')" for s i t b y s'
    using that by (auto simp: eqs dest: recover_committed)
  show "committed_claim s i = Some c" if "ks_load_committed ?st i s = (Some (Ok c), s')" for s i c s'
  proof -
    from that have "load_v2_committed_claim i s = (Ok c, s')" by (simp add: eqs)
    then show ?thesis
      by (auto simp: load_v2_committed_claim_def unknown_claim_def lease_live_def committed_claim_def
          split: if_splits sum.splits option.splits prod.splits)
  qed
qed

end
