(* ===== verification/V2_Store_Calls.thy ===== *)
theory V2_Store_Calls
  imports V2_Drivers
begin

text \<open>
  Sequences of calls to the reference store, the way a test or a conformance scenario drives it: every
  public operation but the planting of a forged release record, each with the anchor in force at that
  call.  The calls of one store are serialized by its mutex, so a sequence is any interleaving of its
  clients.
\<close>

datatype store_event =
    SetTime int | SetSignerFailure bool | SetAckWithheld bool | EnableRate | Abandon | ReadTime
  | ClaimChallenge "string + bytes" v2_challenge_claim
  | Finalize string bytes bytes bytes int
  | RecordProgress string bytes v2_evaluation_progress
  | LoadInterrupted string
  | Recover string bytes bytes
  | LoadCommitted string
  | LoadTerminal string
  | RecordRelease v2_release_record
  | Publish bytes string bytes
  | Acknowledge string int bytes bytes
  | GetAcknowledgement string int

primrec exec_call :: "v2_prims \<Rightarrow> anchor \<Rightarrow> store_event \<Rightarrow> store_state \<Rightarrow> store_state" where
  "exec_call V A (SetTime n) s = set_time n s"
| "exec_call V A (SetSignerFailure f) s = set_signer_failure f s"
| "exec_call V A (SetAckWithheld w) s = set_acknowledgement_withheld w s"
| "exec_call V A EnableRate s = with_rate_at_finalization s"
| "exec_call V A Abandon s = snd (abandon_pending_receipts A s)"
| "exec_call V A ReadTime s = snd (authoritative_time_v2 s)"
| "exec_call V A (ClaimChallenge rnd c) s = snd (claim_v2 V A rnd c s)"
| "exec_call V A (Finalize i tok t b h) s = snd (finalize_v2_claim V A i tok t b h s)"
| "exec_call V A (RecordProgress i tok p) s = snd (record_v2_evaluation_progress V A i tok p s)"
| "exec_call V A (LoadInterrupted i) s = snd (load_v2_interrupted_claim i s)"
| "exec_call V A (Recover i t b) s = snd (recover_interrupted_v2_claim V A i t b s)"
| "exec_call V A (LoadCommitted i) s = snd (load_v2_committed_claim i s)"
| "exec_call V A (LoadTerminal i) s = snd (load_v2_terminal_claim V i s)"
| "exec_call V A (RecordRelease rel) s = snd (record_v2_release V A rel s)"
| "exec_call V A (Publish rnd i b) s = snd (publish_v2_receipt V A rnd i b s)"
| "exec_call V A (Acknowledge l q prev h) s = snd (acknowledge_v2_receipt l q prev h s)"
| "exec_call V A (GetAcknowledgement l q) s = snd (get_v2_acknowledgement l q s)"

definition exec_calls :: "v2_prims \<Rightarrow> (anchor \<times> store_event) list \<Rightarrow> store_state \<Rightarrow> store_state" where
  "exec_calls V calls s = fold (\<lambda>(A, e). exec_call V A e) calls s"

lemma exec_calls_simps [simp]:
  "exec_calls V [] s = s" "exec_calls V ((A, e) # calls) s = exec_calls V calls (exec_call V A e s)"
  by (simp_all add: exec_calls_def)

lemmas op_runs = run_abandon run_loads run_claim run_finalize run_progress run_recover run_release run_publish
  run_acknowledge

lemma exec_call_run: "store_run V s (exec_call V A e s)"
  by (cases e) (auto simp only: exec_call.simps intro: run_controls run_set_withheld op_runs [OF prod.collapse [symmetric]])

lemma exec_calls_run: "store_run V s (exec_calls V calls s)"
proof (induction calls arbitrary: s)
  case (Cons call calls)
  obtain A e where "call = (A, e)" by (cases call)
  then show ?case using run_trans [OF exec_call_run Cons.IH] by simp
qed simp

lemmas exec_calls_later = run_later [OF exec_calls_run]

lemma exec_calls_inv: "base64_codec V \<Longrightarrow> store_inv V s \<Longrightarrow> store_inv V (exec_calls V calls s)"
  by (rule run_inv [OF _ exec_calls_run])

section \<open>Claims, sequences and rates\<close>

text \<open>A claim is created only for an unknown identifier and the next number of its stream.\<close>

lemma claim_created:
  assumes "claim_v2 V A rnd c s = (Ok res, s')" "cr_disposition res = Created"
  obtains adv where "st_claims s (cl_claim_id c) = None" "stream_advance c s = Ok adv"
    "st_claims s' (cl_claim_id c) = Some (fresh_claim_record V c (cr_owner_token res) (st_now s)
      (i64_add (st_now s) (st_lease_seconds s)))"
    "st_streams s' = (case adv of Some (k, seq) \<Rightarrow> (st_streams s)(k \<mapsto> seq) | None \<Rightarrow> st_streams s)"
proof -
  obtain y s1 where y: "read_clock_locked s = (y, s1)" by (cases "read_clock_locked s")
  from assms y obtain now adv owner x where n: "y = Ok now" and none: "st_claims s1 (cl_claim_id c) = None"
    and adv: "stream_advance c s1 = Ok adv"
    and ch: "change_locked A (insert_claim V c adv owner now (i64_add now (st_lease_seconds s1))) s1 = (Ok x, s')"
    and res: "res = \<lparr>cr_disposition = Created, cr_claimed_at = now, cr_owner_token = owner\<rparr>"
    by (auto simp: claim_v2_def replayed_claim_def split: if_splits sum.splits option.splits prod.splits)
  have s1: "now = st_now s" "s1 = s\<lparr>st_high_water := st_now s\<rparr>" using y n by (simp_all add: read_clock_Ok)
  have "s' = insert_claim V c adv owner now (i64_add now (st_lease_seconds s1)) s1"
    using durable_changes(1) ch by (rule change_locked_cases) auto
  moreover have "st_streams s1 = st_streams s" by (simp add: s1)
  then have "stream_advance c s1 = stream_advance c s" by (simp only: stream_advance_def)
  ultimately show thesis
    by (intro that [of adv]) (use none adv res in \<open>auto simp: s1 insert_claim_def split: option.splits\<close>)
qed

text \<open>The count a rate limit is checked against, and what a commit adds to it.\<close>

definition active_commits :: "store_state \<Rightarrow> rate_key \<Rightarrow> int \<Rightarrow> nat" where
  "active_commits s k since = length (filter (\<lambda>t. t > since) (rate_times s k))"

lemma active_commit_rate:
  "active_commits (commit_rate t item s) k since =
     active_commits s k since + (if k = rate_key_of item \<and> t > since then 1 else 0)"
  by (simp add: active_commits_def commit_rate_def rate_times_def)

lemma active_commit_rates:
  "distinct (map rate_key_of items) \<Longrightarrow> active_commits (fold (commit_rate t) items s) k since \<le>
     active_commits s k since + (if k \<in> rate_key_of ` set items then 1 else 0)"
proof (induction items arbitrary: s)
  case (Cons i items)
  then have "active_commits (fold (commit_rate t) items (commit_rate t i s)) k since \<le>
      active_commits (commit_rate t i s) k since + (if k \<in> rate_key_of ` set items then 1 else 0)" by simp
  moreover have "k = rate_key_of i \<longrightarrow> k \<notin> rate_key_of ` set items" using Cons.prems by auto
  ultimately show ?case by (auto simp: active_commit_rate split: if_splits)
qed simp

lemma commit_rates_view: "rate_times (commit_terminal_locked i t b h f s) = rate_times s"
  by (rule ext) (simp add: commit_terminal_locked_def rate_times_def split: option.splits)

lemma admitted_within_limit:
  assumes f: "finalize_v2_claim V A i tok t b h s = (Ok True, s')" and h: "h > 0" "st_rate_at_finalization s"
    and r: "st_claims s i = Some r" and d: "distinct (map rate_key_of (cl_rate_batch (cm_claim r)))"
    and item: "item \<in> set (cl_rate_batch (cm_claim r))"
  shows "int (active_commits s' (rate_key_of item) (i64_sub (st_now s) (rr_window_s item))) \<le> rr_limit item"
proof -
  obtain z s1 where z: "owner_locked V i tok s = (z, s1)" by (cases "owner_locked V i tok s")
  from f z obtain now r1 m where n: "z = Ok now" "st_claims s1 i = Some r1"
    and adm: "\<not> (admits_rate s1 (cm_claim r1) h \<and> list_ex (rate_exhausted s1 now) (cl_rate_batch (cm_claim r1)))"
    and m: "m = (\<lambda>s. commit_terminal_locked i t b h now
        (if admits_rate s1 (cm_claim r1) h then fold (commit_rate now) (cl_rate_batch (cm_claim r1)) s else s))"
    and ch: "change_locked A m s1 = (Ok (), s')"
    by (auto simp: finalize_v2_claim_def split: if_splits sum.splits option.splits prod.splits owner_failure.splits)
  from z n(1) have s1: "s1 = s\<lparr>st_high_water := st_now s\<rparr>" "now = st_now s"
    using owner_locked_Ok by (fastforce simp: read_clock_Ok)+
  have r1: "r1 = r" using n(2) r by (simp add: s1)
  have admits: "admits_rate s1 (cm_claim r) h"
    using h item by (auto simp: admits_rate_def s1)
  have "s' = m s1"
  proof -
    have "durable m" unfolding m by (rule durable_commit)
    then show ?thesis using ch by (rule change_locked_cases) auto
  qed
  then have "rate_times s' = rate_times (fold (commit_rate now) (cl_rate_batch (cm_claim r)) s1)"
    by (simp add: m r1 admits commit_rates_view)
  then have "active_commits s' (rate_key_of item) w = active_commits (fold (commit_rate now) (cl_rate_batch (cm_claim r)) s1)
      (rate_key_of item) w" for w by (simp add: active_commits_def)
  moreover have "int (active_commits s1 (rate_key_of item) (i64_sub now (rr_window_s item))) < rr_limit item"
    using adm admits item by (auto simp: r1 list_ex_iff rate_exhausted_def active_commits_def not_le)
  ultimately show ?thesis
    using active_commit_rates [OF d, of now s1 "rate_key_of item" "i64_sub now (rr_window_s item)"] item
    by (simp add: s1)
qed

end
