(* ===== verification/V2_Store_Liveness.thy ===== *)
theory V2_Store_Liveness
  imports V2_Store_Calls
begin

text \<open>
  What the reference store does get done: an interrupted claim is recovered and resumed, and a committed
  result that was published and acknowledged in time is released.
\<close>

section \<open>Recovery\<close>

lemma recover_commits_now:
  assumes r: "st_claims s cid = Some r" "cm_state r = Evaluating" "cm_lease_expires_at r \<le> st_now s"
    and clock: "st_high_water s \<le> st_now s" "valid_v2_timestamp (st_now s)"
    and p: "validate_v2_finalization_payload V (cm_claim r) t b = Ok ()" "decode_verification_receipt_body_v2 V b = Ok body"
      "rc_decision body = ''indeterminate''" "rc_decision_reason body = ''evaluation_interrupted''"
  shows "recover_interrupted_v2_claim V None cid t b s =
     (Ok True, commit_terminal_locked cid t b 0 (st_now s) (s\<lparr>st_high_water := st_now s\<rparr>))"
proof -
  have "read_clock_locked s = (Ok (st_now s), s\<lparr>st_high_water := st_now s\<rparr>)" using clock by (simp add: read_clock_Ok)
  then show ?thesis using r p by (simp add: recover_interrupted_v2_claim_def change_locked_def)
qed

lemma interrupted_recovered:
  assumes codec: "base64_codec V" and inv: "store_inv V s" and id: "cid \<noteq> []"
    and r: "st_claims s cid = Some r" "cm_state r = Evaluating" "cm_lease_expires_at r \<le> st_now s"
    and clock: "st_high_water s \<le> st_now s" "valid_v2_timestamp (st_now s)"
    and u: "claim_utf8 (cm_claim r)" "progress_utf8 (cm_progress r)" "progress_for (cm_claim r) (cm_progress r)"
    and build: "v2_evaluation_interrupted_result V (cm_claim r) (cm_claimed_at r) (cm_progress r) = Ok (t, b)"
  shows "\<exists>s'. recover_interrupted_claim_v2 V (reference_claim_store V None rnd view) cid s =
      (Ok (new_committed_outcome (cm_claim r) b 0), s')
    \<and> resume_committed_claim_v2 V (reference_claim_store V None rnd view) cid s' =
      (Ok (new_committed_outcome (cm_claim r) b 0), s')"
proof -
  let ?s1 = "s\<lparr>st_high_water := st_now s\<rparr>" and ?store = "reference_claim_store V None rnd view"
  let ?s2 = "commit_terminal_locked cid t b 0 (st_now s) ?s1"
  note payload = interrupted_payload_valid [OF codec u build]
  from payload(2) obtain body where body: "decode_verification_receipt_body_v2 V b = Ok body"
    "rc_decision body = ''indeterminate''" "rc_decision_reason body = ''evaluation_interrupted''" by blast
  have ok: "claim_ok V s cid r" by (rule store_inv_claim [OF inv r(1)])
  then have idr: "cl_claim_id (cm_claim r) = cid" "claim_id_matches_key V (cm_claim r)" by (simp_all add: claim_ok_def)
  have load: "load_v2_interrupted_claim cid s =
      (Ok \<lparr>ic_claim = cm_claim r, ic_claimed_at = cm_claimed_at r, ic_progress = cm_progress r\<rparr>, ?s1)"
  proof -
    have "read_clock_locked s = (Ok (st_now s), ?s1)" using clock by (simp add: read_clock_Ok)
    then show ?thesis using r by (simp add: load_v2_interrupted_claim_def)
  qed
  have "recover_interrupted_v2_claim V None cid t b ?s1 = (Ok True, ?s2)"
    using recover_commits_now [of ?s1 cid r V t b body] r clock payload(1) body by simp
  then have rec: "recover_interrupted_claim_v2 V ?store cid s = (Ok (new_committed_outcome (cm_claim r) b 0), ?s2)"
    using id idr(1) load build
    by (simp add: recover_interrupted_claim_v2_def reference_claim_store_def total_call_def guarded_def)
  have "st_claims ?s2 cid = Some (r\<lparr>cm_state := Terminal, cm_terminal := t, cm_receipt_body := b, cm_allow_horizon := 0,
      cm_finalized_at := st_now s, cm_outbox_index := Some (length (st_outbox s))\<rparr>)"
    using r(1) by (simp add: commit_terminal_locked_def)
  then have "load_v2_committed_claim cid ?s2 = (Ok \<lparr>cc_claim = cm_claim r, cc_terminal_result = t, cc_receipt_body = b,
      cc_allow_horizon = 0\<rparr>, ?s2)"
    by (simp add: load_v2_committed_claim_def)
  moreover have "validate_v2_committed_claim V \<lparr>cc_claim = cm_claim r, cc_terminal_result = t, cc_receipt_body = b,
      cc_allow_horizon = 0\<rparr> cid = Ok ()"
    using idr payload(1) body by (simp add: validate_v2_committed_claim_def reject_def)
  ultimately have "resume_committed_claim_v2 V ?store cid ?s2 = (Ok (new_committed_outcome (cm_claim r) b 0), ?s2)"
    using id by (simp add: resume_committed_claim_v2_def reference_claim_store_def total_call_def guarded_def)
  with rec show ?thesis by blast
qed

section \<open>Release\<close>

lemma parse_json_Nil: "parse_json P [] \<noteq> Ok x"
proof -
  have "json_value P n k [] = plain ''wire: invalid JSON: unexpected end of input''" for n k
    by (cases k) (simp_all add: value_step_def ws_def)
  then show ?thesis by (simp add: parse_json_def bytes_str_def plain_def Let_def)
qed

lemma decode_receipt_Nil: "decode_verification_receipt_v2 V [] \<noteq> Ok r"
  by (auto simp: decode_verification_receipt_v2_def bind_ok_Ok parse_wire_def parse_json_Nil)

lemma decode_body_Nil: "decode_verification_receipt_body_v2 V [] \<noteq> Ok r"
  by (auto simp: decode_verification_receipt_body_v2_def bind_ok_Ok parse_wire_def parse_json_Nil)

lemma decode_receipt_valid:
  "decode_verification_receipt_v2 V w = Ok r \<Longrightarrow> validate_receipt (v_base V) r True = Ok ()"
  by (auto simp: decode_verification_receipt_v2_def bind_ok_Ok plain_def split: if_splits)

text \<open>The outcome the code hands over for a committed claim.\<close>

definition outcome_of :: "claim_record \<Rightarrow> committed_outcome" where
  "outcome_of r = new_committed_outcome (cm_claim r) (cm_receipt_body r) (cm_allow_horizon r)"

lemma acknowledged_receipt:
  assumes "store_inv V s" "i < length (st_outbox s)" "ob_ack (st_outbox s ! i) = Some a"
  obtains w receipt where "ob_wire (st_outbox s ! i) = Some w" "published V s i w receipt"
    "ack_log_id a = st_log_id s" "ack_sequence a = int i + 1" "ack_entry_hash a = ob_digest (st_outbox s ! i)"
    "ack_timestamp a \<le> st_high_water s" "valid_v2_timestamp (ack_timestamp a)"
    "i > 0 \<longrightarrow> (\<exists>p. ob_ack (st_outbox s ! (i - 1)) = Some p)"
  using store_inv_entry [OF assms(1,2)] assms(3) by (auto simp: entry_ok_def)

lemma sequence_in_range:
  assumes "published V s i w receipt"
  shows "rc_sequence receipt = int i + 1" "i64_sub (rc_sequence receipt) 1 = int i"
    "length (st_log_id s) = 32" "lower_hex (st_log_id s)"
proof -
  from assms have p: "decode_verification_receipt_v2 V w = Ok receipt" "rc_sequence receipt = int i + 1"
    "rc_log_id receipt = st_log_id s" by (simp_all add: published_def)
  note b = validate_receipt_basic [OF decode_receipt_valid [OF p(1)]]
  show "rc_sequence receipt = int i + 1" by (rule p(2))
  show "i64_sub (rc_sequence receipt) 1 = int i"
    unfolding i64_sub_def using b(2,3)
    by (subst i64_wrap_id) (simp_all add: i64_range_def p(2) MAX_SAFE_def MAX_SAFE_INTEGER_def)
  show "length (st_log_id s) = 32" "lower_hex (st_log_id s)" using b(6,7) p(3) by simp_all
qed

lemma get_ack_at:
  assumes "i < length (st_outbox s)" "ob_ack (st_outbox s ! i) = Some a"
  shows "get_v2_acknowledgement (st_log_id s) (int i + 1) s = (Ok a, s)"
  using assms by (simp add: get_v2_acknowledgement_def nat_add_distrib)

lemma committed_released:
  assumes codec: "base64_codec V" and inv: "store_inv V s" and id: "cid \<noteq> []"
    and r: "st_claims s cid = Some r" "cm_state r = Terminal" "\<not> cm_abandoned r" "cm_release r = None"
    and i: "cm_outbox_index r = Some i" "ob_wire (st_outbox s ! i) = Some w" "ob_ack (st_outbox s ! i) = Some a"
    and key: "public_key_v2 V (st_verifier_key s) = Ok pk" "key_id_v2 V pk = Ok (st_verifier_id s)"
    and clock: "st_high_water s \<le> st_now s" "valid_v2_timestamp (st_now s)"
    and live: "st_now s < cl_expires_at (cm_claim r)" "cm_allow_horizon r > 0 \<longrightarrow> st_now s < cm_allow_horizon r"
  shows "\<exists>d s'. release_v2_decision V \<lparr>rcfg_verifier_public_key = pk, rcfg_log_id = st_log_id s,
        rcfg_store = reference_release_store V None\<rparr> (outcome_of r) (Some w) s
      = (\<lparr>rres_status = Released, rres_reason = [], rres_decision = Some d\<rparr>, s')
    \<and> (\<exists>b. decode_verification_receipt_body_v2 V (cm_receipt_body r) = Ok b \<and> rd_decision d = rc_decision b)"
proof -
  let ?cfg = "\<lparr>rcfg_verifier_public_key = pk, rcfg_log_id = st_log_id s, rcfg_store = reference_release_store V None\<rparr>"
  let ?co = "outcome_of r" and ?e = "st_outbox s ! i"
  have ok: "claim_ok V s cid r" by (rule store_inv_claim [OF inv r(1)])
  then have t: "terminal_ok V s cid r" and idr: "cl_claim_id (cm_claim r) = cid" using r(2) by (simp_all add: claim_ok_def)
  have il: "i < length (st_outbox s)" and body: "ob_body ?e = cm_receipt_body r" and entry: "ob_claim_id ?e = cid"
    using t i(1) by (auto simp: terminal_ok_def)
  obtain b where b: "decode_verification_receipt_body_v2 V (cm_receipt_body r) = Ok b" "horizon_ok (rc_decision b) (cm_allow_horizon r)"
    using t by (auto simp: terminal_ok_def)
  obtain receipt where pub: "published V s i w receipt" and ack: "ack_log_id a = st_log_id s" "ack_sequence a = int i + 1"
    "ack_entry_hash a = ob_digest ?e" "ack_timestamp a \<le> st_high_water s" "valid_v2_timestamp (ack_timestamp a)"
    and prev: "i > 0 \<longrightarrow> (\<exists>p. ob_ack (st_outbox s ! (i - 1)) = Some p)"
    using acknowledged_receipt [OF inv il i(3)] i(2) by (metis option.inject)
  note seq = sequence_in_range [OF pub]
  from pub obtain msg where p: "receipt_utf8 receipt" "decode_verification_receipt_v2 V w = Ok receipt"
    "verification_receipt_v2_body V receipt = Ok (cm_receipt_body r)"
    "verification_receipt_v2_digest V receipt = Ok (ob_digest ?e)" "rc_log_id receipt = st_log_id s"
    "rc_verifier_id receipt = st_verifier_id s" "rc_previous_receipt_hash receipt = previous_digest s i"
    "verification_receipt_v2_signable_bytes V receipt = Ok msg"
    "verify_v2_statement V VerificationReceipt msg (rc_signature receipt) pk = Ok ()"
    using key(1) body by (auto simp: published_def)
  have br: "b = receipt_part Body receipt" using body_roundtrip [OF codec p(1,3)] b(1) by simp
  then have same: "rc_decision b = rc_decision receipt" "rc_verifier_id b = rc_verifier_id receipt"
    by (simp_all add: receipt_part_def)
  have vid: "cl_verifier_id (cm_claim r) = st_verifier_id s"
  proof -
    have "validate_v2_finalization_payload V (cm_claim r) (cm_terminal r) (cm_receipt_body r) = Ok ()"
      using t by (simp add: terminal_ok_def)
    then have "rc_verifier_id b = cl_verifier_id (cm_claim r)"
      using b(1) by (auto elim!: finalization_payload_Ok [OF codec])
    then show ?thesis using same(2) p(6) by simp
  qed
  have fin: "cm_finalized_at r \<le> ack_timestamp a" "valid_v2_timestamp (cm_finalized_at r)"
    using store_inv_entry [OF inv il] i(3) r(1,2) t by (auto simp: entry_ok_def entry terminal_ok_def)
  let ?tc = "\<lparr>tc_terminal = True, tc_receipt_outbox_digest = receipt_outbox_digest_v2 V (cm_receipt_body r),
      tc_challenge_expires_at = cl_expires_at (cm_claim r), tc_allow_horizon = cm_allow_horizon r,
      tc_finalized_at = cm_finalized_at r, tc_receipt_abandoned = False, tc_release = None\<rparr>"
  have co: "co_claim_id ?co = cid" "co_verifier_id ?co = st_verifier_id s" "co_receipt_body ?co = cm_receipt_body r"
    "co_challenge_expires_at ?co = cl_expires_at (cm_claim r)" "co_allow_horizon ?co = cm_allow_horizon r"
    by (simp_all add: outcome_of_def new_committed_outcome_def idr vid)
  have nonempty: "cm_receipt_body r \<noteq> []" "w \<noteq> []" using b(1) decode_body_Nil p(2) decode_receipt_Nil by metis+
  have load: "load_committed ?cfg ?co s = (Ok ?tc, s)"
    using r id nonempty(1) seq(3,4)
    by (simp add: load_committed_def co reference_release_store_def total_call_def load_v2_terminal_claim_def)
  have check: "check_committed V ?cfg ?co ?tc = Ok ()"
    using key(2) by (simp add: check_committed_def co receipt_body_digest_def)
  have bind: "bind_receipt V ?cfg ?co ?tc (Some w) = Ok (w, receipt, ob_digest ?e)"
    using nonempty(2) p by (simp add: bind_receipt_def verify_published_v2_receipt_def reject_as_def co)
  have pred: "check_predecessor ?cfg receipt s = (Ok (), s)"
  proof (cases "i = 0")
    case True
    then show ?thesis by (simp add: check_predecessor_def seq(1))
  next
    case False
    then obtain pa where pa: "ob_ack (st_outbox s ! (i - 1)) = Some pa" using prev by auto
    have j: "i - 1 < length (st_outbox s)" and ji: "int (i - 1) + 1 = int i" using il False by simp_all
    obtain "ack_log_id pa = st_log_id s" "ack_sequence pa = int i" "ack_entry_hash pa = ob_digest (st_outbox s ! (i - 1))"
      using acknowledged_receipt [OF inv j pa] ji by metis
    then show ?thesis
      using get_ack_at [OF j pa] False seq(2) p(5,7)
      by (simp add: check_predecessor_def previous_digest_def get_v2_acknowledgement_safely_def caught_def
          reference_release_store_def total_call_def ji seq(1))
  qed
  have ackd: "check_acknowledgement ?cfg ?tc receipt (ob_digest ?e) s = (Ok a, s)"
    using get_ack_at [OF il i(3)] ack
    by (simp add: check_acknowledgement_def get_v2_acknowledgement_safely_def caught_def p(5) seq(1)
        reference_release_store_def total_call_def)
  let ?s1 = "s\<lparr>st_high_water := st_now s\<rparr>"
  have reading: "read_v2_authoritative_time (rs_time (rcfg_store ?cfg)) s = (Ok (st_now s), ?s1)"
    using clock by (simp add: read_time_Ok reference_release_store_def total_call_eq authoritative_time_v2_def read_clock_Ok)
  have "rc_decision receipt = ''allow'' \<longrightarrow> cm_allow_horizon r > 0" using b(2) same(1) by (simp add: horizon_ok_def)
  then have clk: "check_clock ?cfg ?co ?tc receipt (ob_digest ?e) a s = (Ok (), ?s1)"
    unfolding check_clock_def reading using live ack(4,5) clock(1) fin by (auto simp: co)
  obtain s2 where rec: "record_released ?cfg ?co ?tc (ob_digest ?e) a ?s1 = (Ok (), s2)"
    using r by (auto simp: record_released_def record_v2_release_safely_def caught_def reference_release_store_def total_call_def
        record_v2_release_def release_record_of_def co valid_v2_release_record_outcome_def change_locked_def)
  have "release_steps V ?cfg ?co (Some w) s = (Ok (released_decision ?co w receipt a), s2)"
    unfolding release_steps_def
    by (simp only: load check bind pred ackd clk rec then_step_def prod.case sum.case)
  then show ?thesis
    using b(1) same(1) by (auto simp: release_v2_decision_def released_decision_def)
qed

end
