(* ===== verification/V2_Store_Samples.thy ===== *)
theory V2_Store_Samples
  imports V2_Samples V2_Store_Liveness
begin

text \<open>
  A run of the reference store on the sample platform: a claim whose evaluator is lost, its recovery, the
  publication of its receipt and its release.
\<close>

section \<open>A claim and its receipt\<close>

definition sample_claim_digest :: bytes where
  "sample_claim_digest = replicate 48 0xAA"

definition sample_claim_id :: string where
  "sample_claim_id = p_hex (v_base sample_v2) (p_sha256 (v_base sample_v2)
     (claim_id_preimage ''store'' 1 sample_claim_digest))"

definition sample_claim :: v2_challenge_claim where
  "sample_claim = \<lparr>cl_claim_id = sample_claim_id, cl_namespace = ''store'', cl_replay_epoch = 1,
     cl_challenge_digest = sample_digest (CHR ''a''), cl_proof_digest = sample_digest (CHR ''b''),
     cl_bundle_hash = sample_digest (CHR ''f''), cl_issuer_ids = [], cl_required_scope = ''meeting:attend'',
     cl_context_policy_digest = [], cl_verifier_id = sample_verifier_id, cl_agent_id = sample_id (CHR ''e''),
     cl_requires_rate = False, cl_rate_batch = [], cl_issued_at = 1700000000, cl_expires_at = 1700000200,
     cl_max_age_seconds = 200, cl_clock_skew_seconds = 0, cl_stream_id = None, cl_stream_seq = None,
     cl_constraint_evaluators = []\<rparr>"

definition sample_interrupted :: verification_receipt_v2 where
  "sample_interrupted = interrupted_receipt sample_claim 1700000000 initial_v2_evaluation_progress"

lemma sample_claim_fields [simp]: "cl_claim_id sample_claim = sample_claim_id" "cl_rate_batch sample_claim = []"
  "cl_expires_at sample_claim = 1700000200" "cl_stream_id sample_claim = None" "cl_stream_seq sample_claim = None"
  "cl_verifier_id sample_claim = sample_verifier_id" "cl_issuer_ids sample_claim = []"
  "cl_constraint_evaluators sample_claim = []" "cl_agent_id sample_claim = sample_id (CHR ''e'')"
  "cl_bundle_hash sample_claim = sample_digest (CHR ''f'')" "cl_required_scope sample_claim = ''meeting:attend''"
  "cl_context_policy_digest sample_claim = []"
  by (simp_all add: sample_claim_def)

lemma sample_claim_matches: "claim_id_matches_key sample_v2 sample_claim"
proof -
  have "strip_prefix ''sha384:'' (sample_digest (CHR ''a'')) = Some (replicate 96 (CHR ''a''))"
    and "lower_hex (replicate 96 (CHR ''a''))" and "unhex (replicate 96 (CHR ''a'')) = Some sample_claim_digest"
    by code_simp+
  moreover have "v_hex_decode sample_v2 = unhex" by (simp add: sample_v2_def)
  moreover have "validate_namespace_epoch ''store'' 1 = Ok ()" "length sample_claim_digest = 48" by code_simp+
  ultimately show ?thesis
    by (simp add: claim_id_matches_key_def sample_claim_def protocol_claim_id_from_digest_v2_def sample_claim_id_def
        reject_as_def bind_ok_Ok)
qed

lemma sample_claim_id_nonempty: "sample_claim_id \<noteq> []"
proof -
  have "sample_claim_id = hex_bytes (pad32 (claim_id_preimage ''store'' 1 sample_claim_digest))"
    by (simp add: sample_claim_id_def sample_v2_def sample_prims_def)
  moreover have "hex_bytes (pad32 b) \<noteq> []" for b
    using length_pad32 [of b] by (cases "pad32 b") (simp_all add: hex_bytes_def del: length_pad32)
  ultimately show ?thesis by metis
qed

lemma ascii_words: "list_all (\<lambda>c. code c < 0x80) s \<Longrightarrow> utf8_valid s"
  by (rule utf8_ascii) (simp add: list_all_iff)

lemma sample_claim_utf8: "claim_utf8 sample_claim" "progress_utf8 initial_v2_evaluation_progress"
  "progress_for sample_claim initial_v2_evaluation_progress"
proof -
  have "list_all (list_all (\<lambda>c. code c < 0x80)) [sample_verifier_id, sample_id (CHR ''e''), sample_digest (CHR ''f''),
      ''meeting:attend'', ''not_evaluated'']" by code_simp
  then show "claim_utf8 sample_claim" "progress_utf8 initial_v2_evaluation_progress"
    by (simp_all add: claim_utf8_def progress_utf8_def initial_v2_evaluation_progress_def ascii_words)
  show "progress_for sample_claim initial_v2_evaluation_progress"
    by (simp add: progress_for_def initial_v2_evaluation_progress_def)
qed

lemma sample_interrupted_valid: "validate_receipt (v_base sample_v2) (first_candidate sample_interrupted) False = Ok ()"
  by code_simp

lemma sample_interrupted_utf8: "receipt_utf8 sample_interrupted"
  unfolding sample_interrupted_def by (rule interrupted_receipt_utf8 [OF sample_claim_utf8(1,2)])

lemma sample_interrupted_fields: "sample_interrupted = receipt_skeleton\<lparr>rc_verifier_id := sample_verifier_id,
     rc_agent_id := sample_id (CHR ''e''), rc_bundle_hash := sample_digest (CHR ''f''),
     rc_decision := ''indeterminate'', rc_decision_reason := ''evaluation_interrupted'',
     rc_identity_status := ''authorization_unverified'', rc_trust_assessment := ''not_evaluated'',
     rc_status_assessment := ''not_evaluated'', rc_challenge_assessment := ''current'',
     rc_context_assessment := ''not_evaluated'', rc_verified_at := 1700000000, rc_required_scope := ''meeting:attend''\<rparr>"
  by (simp add: sample_interrupted_def interrupted_receipt_def initial_v2_evaluation_progress_def receipt_skeleton_def
      sorted_issuers_def)

lemma sample_interrupted_body: "\<exists>body. verification_receipt_v2_body sample_v2 sample_interrupted = Ok body"
proof (rule short_body [OF sample_interrupted_utf8 sample_interrupted_valid])
  show "short_receipt (widest_candidate sample_interrupted)"
    unfolding widest_candidate_def first_candidate_def sample_interrupted_fields receipt_skeleton_def receipt_cj_def short_receipt_def
    by (simp add: cj_strs_def evidence_cj_def cj_sig_def cj_pair_def placeholder_signature_def sample_v2_def sample_b64_zeros
       sample_lengths sample_id_def sample_digest_def MAX_VERIFICATION_RECEIPT_BYTES_V2_def)
qed


lemma sample_interrupted_built:
  obtains terminal body where "v2_evaluation_interrupted_result sample_v2 sample_claim 1700000000 initial_v2_evaluation_progress
      = Ok (terminal, body)" "verification_receipt_v2_body sample_v2 sample_interrupted = Ok body"
proof -
  obtain body where body: "verification_receipt_v2_body sample_v2 sample_interrupted = Ok body"
    using sample_interrupted_body by blast
  have "is_ok (terminal_result_json sample_v2 ''indeterminate'' ''evaluation_interrupted'' ''authorization_unverified'')"
    "validate_v2_evaluation_progress_inner initial_v2_evaluation_progress = Ok ()" "valid_v2_timestamp 1700000000"
    by code_simp+
  with body that show thesis
    by (auto simp: v2_evaluation_interrupted_result_def is_ok_def sample_interrupted_def [symmetric] reject_as_def
        split: sum.splits)
qed

section \<open>The run\<close>

definition sample_store :: store_state where
  "sample_store = \<lparr>st_now = 1700000000, st_high_water = 1700000000, st_lease_seconds = 60, st_claims = Map.empty,
     st_streams = Map.empty, st_verifier_key = sample_sk 3, st_verifier_id = sample_verifier_id,
     st_log_id = PROBE_LOG_ID, st_outbox = [], st_ack_withheld = False, st_log_frozen = False,
     st_checkpoint_frozen = False, st_signer_failure = False, st_rate_at_finalization = False,
     st_rate_commits = Map.empty\<rparr>"

lemma sample_public_key: "ed_seed sample_v2 (sample_sk 3) = Ok (replicate 32 3)"
  "ml_secret sample_v2 (sample_sk 3) = Ok (replicate 4032 3)" "public_key_v2 sample_v2 (sample_sk 3) = Ok (sample_pk 3)"
proof -
  show e: "ed_seed sample_v2 (sample_sk 3) = Ok (replicate 32 3)"
    by (simp add: ed_seed_def sample_sk_def)
  show m: "ml_secret sample_v2 (sample_sk 3) = Ok (replicate 4032 3)"
    by (simp add: ml_secret_def sample_sk_def sample_v2_def sample_prims_def)
  from e m show "public_key_v2 sample_v2 (sample_sk 3) = Ok (sample_pk 3)"
    by (simp add: public_key_v2_def sample_pk_def) (simp add: sample_v2_def)
qed

lemma sample_store_new: "new_store sample_v2 1700000000 60 PROBE_LOG_ID (sample_sk 3) = Ok sample_store"
proof -
  have "length PROBE_LOG_ID = 32" by code_simp
  then show ?thesis
    by (simp add: new_store_def sample_public_key sample_key_id reject_as_def sample_store_def)
qed

lemma sample_store_consistent: "store_consistent sample_v2 sample_store"
  by (simp add: store_consistent_def new_store_inv [OF sample_store_new])

definition sample_owner :: bytes where "sample_owner = replicate 32 7"

definition sample_record :: claim_record where
  "sample_record = fresh_claim_record sample_v2 sample_claim sample_owner 1700000000 1700000060"

text \<open>The claim, and the clock after its lease has run out.\<close>

definition sample_lost :: store_state where
  "sample_lost = sample_store\<lparr>st_claims := [sample_claim_id \<mapsto> sample_record], st_now := 1700000100\<rparr>"

lemma sample_claimed: "claim_v2 sample_v2 None (Inr sample_owner) sample_claim sample_store =
    (Ok \<lparr>cr_disposition = Created, cr_claimed_at = 1700000000, cr_owner_token = sample_owner\<rparr>,
     sample_store\<lparr>st_claims := [sample_claim_id \<mapsto> sample_record]\<rparr>)"
proof -
  have "challenge_claim_time_current_v2 sample_claim 1700000000" "i64_add 1700000000 60 = 1700000060"
    "V2_MAX_TIMESTAMP_SECONDS \<ge> 1700000000" by code_simp+
  then show ?thesis
    by (simp add: claim_v2_def sample_claim_matches read_clock_locked_def sample_store_def change_locked_def
        stream_advance_def insert_claim_def sample_record_def)
qed

lemma sample_lost_run:
  "exec_calls sample_v2 [(None, ClaimChallenge (Inr sample_owner) sample_claim), (None, SetTime 1700000100)] sample_store
     = sample_lost"
  by (simp add: sample_claimed sample_lost_def set_time_def)

lemma sample_lost_consistent: "store_consistent sample_v2 sample_lost"
  using sample_store_consistent unfolding sample_lost_run [symmetric]
  by (simp add: store_consistent_def exec_calls_inv del: exec_calls_simps)

lemma sample_lost_fields [simp]: "st_claims sample_lost sample_claim_id = Some sample_record"
  "st_now sample_lost = 1700000100" "st_high_water sample_lost = 1700000000" "st_outbox sample_lost = []"
  "st_log_id sample_lost = PROBE_LOG_ID" "st_verifier_key sample_lost = sample_sk 3"
  "st_verifier_id sample_lost = sample_verifier_id" "\<not> st_log_frozen sample_lost" "\<not> st_signer_failure sample_lost"
  "\<not> st_checkpoint_frozen sample_lost" "\<not> st_ack_withheld sample_lost"
  "cm_claim sample_record = sample_claim" "cm_state sample_record = Evaluating"
  "cm_lease_expires_at sample_record = 1700000060" "cm_claimed_at sample_record = 1700000000"
  "cm_progress sample_record = initial_v2_evaluation_progress" "\<not> cm_abandoned sample_record"
  "cm_release sample_record = None"
  by (simp_all add: sample_lost_def sample_store_def sample_record_def fresh_claim_record_def)

text \<open>Recovered: the claim is terminal, its receipt body waits in the outbox.\<close>

definition sample_recovered :: "bytes \<Rightarrow> bytes \<Rightarrow> store_state" where
  "sample_recovered t b = commit_terminal_locked sample_claim_id t b 0 1700000100
     (sample_lost\<lparr>st_high_water := 1700000100\<rparr>)"

lemma sample_recovery:
  assumes "v2_evaluation_interrupted_result sample_v2 sample_claim 1700000000 initial_v2_evaluation_progress = Ok (t, b)"
  shows "recover_interrupted_v2_claim sample_v2 None sample_claim_id t b sample_lost = (Ok True, sample_recovered t b)"
proof -
  note p = interrupted_payload_valid [OF sample_v2_codec sample_claim_utf8 assms]
  obtain body where "decode_verification_receipt_body_v2 sample_v2 b = Ok body" "rc_decision body = ''indeterminate''"
    "rc_decision_reason body = ''evaluation_interrupted''" using p(2) by blast
  moreover have "valid_v2_timestamp 1700000100" by code_simp
  ultimately show ?thesis
    using recover_commits_now [of sample_lost sample_claim_id sample_record sample_v2 t b body] p(1)
    by (simp add: sample_recovered_def)
qed

lemma sample_recovered_consistent:
  "v2_evaluation_interrupted_result sample_v2 sample_claim 1700000000 initial_v2_evaluation_progress = Ok (t, b) \<Longrightarrow>
     store_consistent sample_v2 (sample_recovered t b)"
  using run_consistent [OF run_recover [OF sample_recovery] sample_lost_consistent] .

section \<open>Publication\<close>

definition sample_local_signature :: hybrid_signature where
  "sample_local_signature = \<lparr>sig_ed25519 = replicate 64 3, sig_ml_dsa_65 = replicate 3309 0\<rparr>"

lemma sample_local_sign:
  "local_sign sample_v2 rnd (sample_sk 3) False (sign_request sample_v2 ty b Direct (sample_pk 3) key_id)
     = Ok sample_local_signature"
  unfolding local_sign_request [OF sample_v2_sized(1)] sample_public_key(1,2)
  by (simp add: sign_v2_message_def sample_local_signature_def) (simp add: sample_v2_def sample_prims_def)

definition sample_log_receipt :: verification_receipt_v2 where
  "sample_log_receipt = first_candidate sample_interrupted\<lparr>rc_signature := sample_local_signature\<rparr>"

lemma sample_interrupted_signed:
  assumes "verification_receipt_v2_body sample_v2 sample_interrupted = Ok body"
  shows "sign_prepared_verification_receipt_v2 sample_v2 rnd body sample_receipt_head (sample_sk 3) = Ok sample_log_receipt"
    and "is_ok (encode_verification_receipt_v2 sample_v2 sample_log_receipt)"
proof -
  have "length (sample_b64 (replicate 64 3)) = 130" by code_simp
  then have short: "short_receipt (first_candidate sample_interrupted\<lparr>rc_signature := sample_local_signature\<rparr>)"
    unfolding first_candidate_def sample_interrupted_fields receipt_skeleton_def receipt_cj_def short_receipt_def
    by (simp add: cj_strs_def evidence_cj_def cj_sig_def cj_pair_def sample_local_signature_def sample_v2_def sample_b64_zeros
       sample_lengths sample_id_def sample_digest_def MAX_VERIFICATION_RECEIPT_BYTES_V2_def)
  have sg: "signature_lengths_ok sample_local_signature"
    by (simp add: signature_lengths_ok_def sample_local_signature_def)
  have ed: "is_ok (validate_ed_signature sample_v2 (sig_ed25519 sample_local_signature))" by code_simp
  have id: "rc_verifier_id sample_interrupted = sample_verifier_id" by (simp add: sample_interrupted_fields)
  let ?s = "\<lparr>sg_public_key = sample_pk 3, sg_mode = Direct, sg_sign = local_sign sample_v2 rnd (sample_sk 3)\<rparr>"
  note p = short_prepared [OF sample_interrupted_utf8 sample_interrupted_valid id assms, of ?s, OF _ _ sg ed short]
  from p(1) show "sign_prepared_verification_receipt_v2 sample_v2 rnd body sample_receipt_head (sample_sk 3)
      = Ok sample_log_receipt"
    by (simp add: sign_prepared_verification_receipt_v2_def local_signer_def sample_public_key sample_local_sign sample_log_receipt_def)
  from p(2) show "is_ok (encode_verification_receipt_v2 sample_v2 sample_log_receipt)"
    by (simp add: sample_local_sign sample_log_receipt_def)
qed

lemma sample_log_receipt_digest: "is_ok (verification_receipt_v2_digest sample_v2 sample_log_receipt)"
proof -
  have v: "validate_receipt (v_base sample_v2) sample_log_receipt False = Ok ()"
    using sample_interrupted_valid by (simp add: sample_log_receipt_def validate_receipt_signature)
  have "utf8_valid PROBE_LOG_ID" by code_simp
  then have "receipt_utf8 sample_log_receipt"
    using sample_interrupted_utf8 by (simp add: sample_log_receipt_def first_candidate_def receipt_utf8_def)
  from receipt_digest [OF sample_v2_codec this v] show ?thesis by (metis is_ok_def sum.case(2))
qed

lemma sample_recovered_fields:
  "st_claims (sample_recovered t b) = [sample_claim_id \<mapsto> sample_record\<lparr>cm_state := Terminal, cm_terminal := t,
     cm_receipt_body := b, cm_allow_horizon := 0, cm_finalized_at := 1700000100, cm_outbox_index := Some 0\<rparr>]"
  "st_outbox (sample_recovered t b) = [\<lparr>ob_claim_id = sample_claim_id, ob_body = b, ob_wire = None, ob_digest = [], ob_ack = None\<rparr>]"
  "st_now (sample_recovered t b) = 1700000100" "st_high_water (sample_recovered t b) = 1700000100"
  "st_log_id (sample_recovered t b) = PROBE_LOG_ID" "st_verifier_key (sample_recovered t b) = sample_sk 3"
  "st_verifier_id (sample_recovered t b) = sample_verifier_id" "\<not> st_log_frozen (sample_recovered t b)"
  "\<not> st_signer_failure (sample_recovered t b)" "\<not> st_checkpoint_frozen (sample_recovered t b)"
  "\<not> st_ack_withheld (sample_recovered t b)"
  by (simp_all add: sample_recovered_def commit_terminal_locked_def) (simp_all add: sample_lost_def)

lemma sample_publication:
  assumes body: "verification_receipt_v2_body sample_v2 sample_interrupted = Ok b"
  obtains w d where "publish_v2_receipt sample_v2 None [] sample_claim_id b (sample_recovered t b) =
    (Ok w, (sample_recovered t b)\<lparr>st_outbox := [\<lparr>ob_claim_id = sample_claim_id, ob_body = b, ob_wire = Some w,
       ob_digest = d, ob_ack = Some \<lparr>ack_log_id = PROBE_LOG_ID, ack_sequence = 1, ack_entry_hash = d,
       ack_timestamp = 1700000100\<rparr>\<rparr>]\<rparr>)"
proof -
  obtain w d where w: "encode_verification_receipt_v2 sample_v2 sample_log_receipt = Ok w"
    and d: "verification_receipt_v2_digest sample_v2 sample_log_receipt = Ok d"
    using sample_interrupted_signed(2) [OF body] sample_log_receipt_digest by (auto simp: is_ok_def split: sum.splits)
  have head: "outbox_head 0 (sample_recovered t b) = sample_receipt_head"
    by (simp add: outbox_head_def sample_recovered_fields sample_receipt_head_def)
  have index: "committed_index sample_claim_id b (sample_recovered t b) = Some 0"
    by (simp add: committed_index_def sample_recovered_fields)
  have read: "read_clock_locked s = (Ok 1700000100, s)" if "st_now s = 1700000100" "st_high_water s = 1700000100" for s
    using that by (simp add: read_clock_locked_def V2_MAX_TIMESTAMP_SECONDS_def)
  show thesis
    by (rule that [of w d])
      (simp add: publish_v2_receipt_def index head sample_recovered_fields sample_interrupted_signed(1) [OF body] w d
        change_locked_def append_wire_def acknowledge_pending_locked_def read)
qed

section \<open>An allow under a rate limit\<close>

definition sample_reservation :: v2_rate_reservation where
  "sample_reservation = \<lparr>rr_issuer_id = sample_id (CHR ''a''), rr_cert_id = sample_id (CHR ''c''), rr_window_s = 60, rr_limit = 1\<rparr>"

definition sample_allow_claim :: v2_challenge_claim where
  "sample_allow_claim = sample_claim\<lparr>cl_issuer_ids := [sample_id (CHR ''a'')],
     cl_context_policy_digest := sample_digest (CHR ''0''), cl_requires_rate := True,
     cl_rate_batch := [sample_reservation]\<rparr>"

lemma sample_allow_utf8: "receipt_utf8 sample_allow"
proof -
  have "list_all (list_all (\<lambda>c. code c < 0x80))
      [rc_log_id sample_allow, rc_verifier_id sample_allow, rc_agent_id sample_allow, rc_human_id sample_allow,
       rc_bundle_hash sample_allow, rc_decision sample_allow, rc_decision_reason sample_allow, rc_identity_status sample_allow,
       rc_trust_assessment sample_allow, rc_status_assessment sample_allow, rc_challenge_assessment sample_allow,
       rc_context_assessment sample_allow, rc_required_scope sample_allow, sample_id (CHR ''a''), sample_id (CHR ''b''),
       sample_digest (CHR ''c''), sample_digest (CHR ''0'')]"
    by code_simp
  moreover have "rc_issuer_ids sample_allow = [sample_id (CHR ''a'')]" "rc_granted_scope sample_allow = [rc_required_scope sample_allow]"
    "rc_context_policy_digest sample_allow = Some (sample_digest (CHR ''0''))" "rc_constraint_evaluators sample_allow = []"
    "rc_status_evidence sample_allow = sample_evidence"
    by (simp_all add: sample_allow_def)
  ultimately show ?thesis by (auto simp: receipt_utf8_def sample_evidence_def list_all_iff intro!: utf8_ascii)
qed

lemma sample_allow_body: "\<exists>body. verification_receipt_v2_body sample_v2 sample_allow = Ok body"
proof (rule short_body [OF sample_allow_utf8])
  show "validate_receipt (v_base sample_v2) (first_candidate sample_allow) False = Ok ()" by code_simp
  have "length (dec_int 4) = 1" "length (dec_int 3) = 1" by code_simp+
  then show "short_receipt (widest_candidate sample_allow)"
    unfolding widest_candidate_def first_candidate_def sample_allow_def receipt_cj_def short_receipt_def
    by (simp add: cj_strs_def evidence_cj_def cj_sig_def cj_pair_def placeholder_signature_def sample_v2_def sample_b64_zeros
       sample_lengths sample_id_def sample_digest_def sample_evidence_def MAX_VERIFICATION_RECEIPT_BYTES_V2_def)
qed

definition sample_rated :: store_state where
  "sample_rated = sample_store\<lparr>st_claims := [sample_claim_id \<mapsto> fresh_claim_record sample_v2 sample_allow_claim sample_owner
     1700000000 1700000060], st_now := 1700000010, st_rate_at_finalization := True\<rparr>"

lemma constant_time_refl: "constant_time_eq b b"
proof -
  have "fold (\<lambda>(x, y) acc. or acc (xor x y)) (zip b b) (0 :: byte) = 0" by (induction b) simp_all
  then show ?thesis by (simp add: constant_time_eq_def)
qed

lemma sample_allow_finalized:
  obtains t b s' where "finalize_v2_claim sample_v2 None sample_claim_id sample_owner t b 1700000050 sample_rated = (Ok True, s')"
proof -
  obtain b where b: "verification_receipt_v2_body sample_v2 sample_allow = Ok b" using sample_allow_body by blast
  have "is_ok (terminal_result_json sample_v2 ''allow'' ''authorized'' ''authorized_agent'')" by code_simp
  then obtain t where t: "terminal_result_json sample_v2 ''allow'' ''authorized'' ''authorized_agent'' = Ok t"
    by (auto simp: is_ok_def split: sum.splits)
  have payload: "validate_v2_finalization_payload sample_v2 sample_allow_claim t b = Ok ()"
    by (rule finalization_payload_I [OF sample_v2_codec sample_allow_utf8 b])
      (simp_all add: t sample_allow_claim_def sample_allow_def sorted_issuers_def want_policy_digest_def sample_digest_def)
  have dec: "decode_verification_receipt_body_v2 sample_v2 b = Ok (receipt_part Body sample_allow)"
    by (rule body_roundtrip [OF sample_v2_codec sample_allow_utf8 b])
  have "rc_decision (receipt_part Body sample_allow) = ''allow''" by (simp add: receipt_part_def sample_allow_def)
  then have hor: "horizon_ok (rc_decision (receipt_part Body sample_allow)) 1700000050"
    by (simp add: horizon_ok_def V2_MAX_TIMESTAMP_SECONDS_def)
  have own: "owner_locked sample_v2 sample_claim_id sample_owner sample_rated = (Ok 1700000010, sample_rated\<lparr>st_high_water := 1700000010\<rparr>)"
    by (simp add: owner_locked_def sample_rated_def fresh_claim_record_def constant_time_refl read_clock_locked_def
        sample_store_def V2_MAX_TIMESTAMP_SECONDS_def)
  have none: "\<not> list_ex (rate_exhausted (sample_rated\<lparr>st_high_water := 1700000010\<rparr>) 1700000010) [sample_reservation]"
    by (simp add: rate_exhausted_def rate_times_def sample_rated_def sample_store_def sample_reservation_def)
  let ?r = "fresh_claim_record sample_v2 sample_allow_claim sample_owner 1700000000 1700000060"
  have rec: "st_claims (sample_rated\<lparr>st_high_water := 1700000010\<rparr>) sample_claim_id = Some ?r"
    by (simp add: sample_rated_def)
  have cl: "cm_claim ?r = sample_allow_claim" "cl_rate_batch sample_allow_claim = [sample_reservation]"
    "cl_expires_at sample_allow_claim = 1700000200"
    by (simp_all add: fresh_claim_record_def sample_allow_claim_def)
  have "\<exists>s'. finalize_v2_claim sample_v2 None sample_claim_id sample_owner t b 1700000050 sample_rated = (Ok True, s')"
    unfolding finalize_v2_claim_def own
    by (simp only: prod.case sum.case rec option.case cl payload dec hor none not_True_eq_False if_False
        simp_thms change_locked_def) simp
  then show thesis using that by blast
qed

section \<open>Two turns of a stream\<close>

text \<open>The same platform with a digest that tells the two claims apart.\<close>

definition sample_tail :: v2_prims where
  "sample_tail = sample_v2\<lparr>v_base := (v_base sample_v2)\<lparr>p_sha256 := (\<lambda>b. take 32 (rev b))\<rparr>\<rparr>"

definition stream_claim :: "char \<Rightarrow> byte \<Rightarrow> int \<Rightarrow> v2_challenge_claim" where
  "stream_claim c b n = sample_claim\<lparr>cl_challenge_digest := sample_digest c, cl_claim_id := hex_bytes (replicate 32 b),
     cl_stream_id := Some (replicate 16 1), cl_stream_seq := Some n\<rparr>"

lemma stream_claims_match: "claim_id_matches_key sample_tail (stream_claim (CHR ''a'') 0xAA 1)"
  "claim_id_matches_key sample_tail (stream_claim (CHR ''b'') 0xBB 2)"
  by code_simp+

definition stream_claimed :: "v2_challenge_claim \<Rightarrow> int \<Rightarrow> store_state \<Rightarrow> store_state" where
  "stream_claimed c n s = insert_claim sample_tail c (Some (stream_key_of c, n)) sample_owner 1700000000 1700000060 s"

lemma stream_claim_created:
  assumes "claim_id_matches_key sample_tail (stream_claim c b n)" "st_now s = 1700000000" "st_high_water s = 1700000000"
    "st_lease_seconds s = 60" "st_claims s (hex_bytes (replicate 32 b)) = None"
    "check_v2_stream_sequence (st_streams s (stream_key_of (stream_claim c b n)) \<noteq> None)
       (case st_streams s (stream_key_of (stream_claim c b n)) of Some m \<Rightarrow> m | None \<Rightarrow> 0) n = Ok ()"
  shows "claim_v2 sample_tail None (Inr sample_owner) (stream_claim c b n) s =
    (Ok \<lparr>cr_disposition = Created, cr_claimed_at = 1700000000, cr_owner_token = sample_owner\<rparr>,
     stream_claimed (stream_claim c b n) n s)"
proof -
  have "challenge_claim_time_current_v2 sample_claim 1700000000" "i64_add 1700000000 60 = 1700000060"
    "V2_MAX_TIMESTAMP_SECONDS \<ge> 1700000000" by code_simp+
  moreover have "challenge_claim_time_current_v2 (stream_claim c b n) = challenge_claim_time_current_v2 sample_claim"
    "cl_claim_id (stream_claim c b n) = hex_bytes (replicate 32 b)" "cl_stream_id (stream_claim c b n) = Some (replicate 16 1)"
    "cl_stream_seq (stream_claim c b n) = Some n"
    by (simp_all add: stream_claim_def challenge_claim_time_current_v2_def fun_eq_iff)
  moreover have "read_clock_locked s = (Ok 1700000000, s)"
    using assms(2,3) by (cases s) (simp add: read_clock_locked_def V2_MAX_TIMESTAMP_SECONDS_def)
  ultimately show ?thesis
    using assms by (simp add: claim_v2_def change_locked_def stream_advance_def stream_claimed_def Let_def)
qed

lemma stream_claimed_first: "claim_v2 sample_tail None (Inr sample_owner) (stream_claim (CHR ''a'') 0xAA 1) sample_store =
    (Ok \<lparr>cr_disposition = Created, cr_claimed_at = 1700000000, cr_owner_token = sample_owner\<rparr>,
     stream_claimed (stream_claim (CHR ''a'') 0xAA 1) 1 sample_store)"
proof -
  have "check_v2_stream_sequence False 0 1 = Ok ()" by code_simp
  then show ?thesis by (intro stream_claim_created stream_claims_match) (simp_all add: sample_store_def)
qed

lemma stream_claimed_second: "claim_v2 sample_tail None (Inr sample_owner) (stream_claim (CHR ''b'') 0xBB 2)
    (exec_calls sample_tail [] (stream_claimed (stream_claim (CHR ''a'') 0xAA 1) 1 sample_store)) =
    (Ok \<lparr>cr_disposition = Created, cr_claimed_at = 1700000000, cr_owner_token = sample_owner\<rparr>,
     stream_claimed (stream_claim (CHR ''b'') 0xBB 2) 2 (stream_claimed (stream_claim (CHR ''a'') 0xAA 1) 1 sample_store))"
proof -
  have "check_v2_stream_sequence True 1 2 = Ok ()" "hex_bytes (replicate 32 0xBB) \<noteq> hex_bytes (replicate 32 0xAA)" by code_simp+
  moreover have "stream_key_of (stream_claim (CHR ''b'') 0xBB 2) = stream_key_of (stream_claim (CHR ''a'') 0xAA 1)"
    "cl_claim_id (stream_claim (CHR ''a'') 0xAA 1) = hex_bytes (replicate 32 0xAA)"
    by (simp_all add: stream_claim_def stream_key_of_def)
  ultimately show ?thesis
    unfolding exec_calls_simps
    by (intro stream_claim_created stream_claims_match) (simp_all add: stream_claimed_def insert_claim_def sample_store_def)
qed

end
