(* ===== verification/V2_Store_Log.thy ===== *)
theory V2_Store_Log
  imports V2_Store_Calls
begin

text \<open>
  The receipt log of a reachable reference store, as an independent verifier sees it: every published
  entry is accepted as the next one at the head made of the entries before it.
\<close>

lemma published_prefix:
  assumes inv: "store_inv V s" and i: "i < length (st_outbox s)" "ob_wire (st_outbox s ! i) \<noteq> None"
  shows "j \<le> i \<Longrightarrow> ob_wire (st_outbox s ! j) \<noteq> None"
  using i
proof (induction i)
  case (Suc k)
  have "ob_wire (st_outbox s ! k) \<noteq> None"
    using store_inv_entry [OF inv Suc.prems(2)] Suc.prems(3) by (auto simp: entry_ok_def)
  then show ?case using Suc by (cases "j = Suc k") auto
qed simp

lemma published_at:
  assumes "store_inv V s" "i < length (st_outbox s)" "ob_wire (st_outbox s ! i) \<noteq> None"
  obtains w r where "ob_wire (st_outbox s ! i) = Some w" "published V s i w r"
    "validate_receipt (v_base V) r True = Ok ()" "encode_verification_receipt_v2 V r = Ok w"
proof -
  obtain w r where w: "ob_wire (st_outbox s ! i) = Some w" "published V s i w r"
    using store_inv_entry [OF assms(1,2)] assms(3) by (auto simp: entry_ok_def)
  then have "decode_verification_receipt_v2 V w = Ok r" by (simp add: published_def)
  with w show thesis
    by (intro that [of w r]) (auto simp: decode_verification_receipt_v2_def bind_ok_Ok plain_def split: if_splits)
qed

lemma validate_receipt_links:
  assumes "validate_receipt P r sg = Ok ()"
  shows "valid_v2_id (rc_verifier_id r)" "length (rc_previous_receipt_hash r) = 48"
    "rc_sequence r = 1 \<longrightarrow> all_zero (rc_previous_receipt_hash r)"
    "rc_sequence r > 1 \<longrightarrow> \<not> all_zero (rc_previous_receipt_hash r)"
  using assms by (simp_all add: validate_receipt_def Let_def reject_Ok bind_ok_Ok)

lemma head_ok:
  assumes inv: "store_inv V s" and i: "i < length (st_outbox s)" "ob_wire (st_outbox s ! i) \<noteq> None"
  shows "validate_receipt_head (outbox_head i s) = Ok ()"
proof -
  obtain w r where p: "published V s i w r" "validate_receipt (v_base V) r True = Ok ()"
    by (rule published_at [OF inv i]) auto
  note b = validate_receipt_basic [OF p(2)] and l = validate_receipt_links [OF p(2)]
  from p(1) have r: "rc_log_id r = st_log_id s" "rc_verifier_id r = st_verifier_id s" "rc_sequence r = int i + 1"
    "rc_previous_receipt_hash r = previous_digest s i" by (simp_all add: published_def)
  have head: "rh_head_hash (outbox_head i s) = previous_digest s i" by (simp add: outbox_head_def previous_digest_def)
  have digests: "length (ob_digest (st_outbox s ! j)) = 48" if "j < i" for j
  proof -
    have n: "Suc j < length (st_outbox s)" "ob_wire (st_outbox s ! Suc j) \<noteq> None"
      using that i published_prefix [OF inv i, of "Suc j"] by simp_all
    obtain w' r' where "published V s (Suc j) w' r'" "validate_receipt (v_base V) r' True = Ok ()"
      by (rule published_at [OF inv n]) auto
    then show ?thesis using validate_receipt_links(2) by (fastforce simp: published_def previous_digest_def)
  qed
  have last: "map_of (map (\<lambda>j. (int j + 1, ob_digest (st_outbox s ! j))) [0..<i]) (int i)
      = Some (ob_digest (st_outbox s ! (i - 1)))" if "i > 0"
  proof -
    have "inj_on (\<lambda>j. int j + 1) (set [0..<i])" by (simp add: inj_on_def)
    then have "distinct (map fst (map (\<lambda>j. (int j + 1, ob_digest (st_outbox s ! j))) [0..<i]))"
      by (simp add: comp_def distinct_map)
    then show ?thesis by (rule map_of_is_SomeI) (use that in \<open>auto intro!: image_eqI [of _ _ "i - 1"]\<close>)
  qed
  have z: "list_all (\<lambda>b. b = 0) h \<longleftrightarrow> all_zero h" for h by (simp add: all_zero_def)
  have "validate_head (st_log_id s) (int i) (previous_digest s i) (rh_accepted (outbox_head i s)) = Ok ()"
    using b l r last digests
    by (auto simp: validate_head_def Let_def z outbox_head_def previous_digest_def list_ex_iff reject_as_def)
  then show ?thesis using l(1) r(2) head
    by (simp add: validate_receipt_head_def) (simp add: outbox_head_def reject_as_def)
qed

lemma published_accepted:
  assumes inv: "store_inv V s" and i: "i < length (st_outbox s)" "ob_wire (st_outbox s ! i) = Some w"
    and key: "public_key_v2 V (st_verifier_key s) = Ok pk" "key_id_v2 V pk = Ok (st_verifier_id s)"
  shows "\<exists>r. decode_verification_receipt_v2 V w = Ok r
    \<and> verify_verification_receipt_v2 V r pk (outbox_head i s) = Ok Appended
    \<and> verification_receipt_v2_body V r = Ok (ob_body (st_outbox s ! i))"
proof -
  have ne: "ob_wire (st_outbox s ! i) \<noteq> None" using i(2) by simp
  obtain r where p: "published V s i w r" "validate_receipt (v_base V) r True = Ok ()"
    "encode_verification_receipt_v2 V r = Ok w"
    by (rule published_at [OF inv i(1) ne]) (use i(2) in auto)
  from p(1) key obtain msg where q: "decode_verification_receipt_v2 V w = Ok r"
    "verification_receipt_v2_body V r = Ok (ob_body (st_outbox s ! i))"
    "verification_receipt_v2_digest V r = Ok (ob_digest (st_outbox s ! i))" "rc_log_id r = st_log_id s"
    "rc_verifier_id r = st_verifier_id s" "rc_sequence r = int i + 1" "rc_previous_receipt_hash r = previous_digest s i"
    "verification_receipt_v2_signable_bytes V r = Ok msg"
    "verify_v2_statement V VerificationReceipt msg (rc_signature r) pk = Ok ()"
    by (auto simp: published_def)
  have "int i \<le> MAX_SAFE" using validate_receipt_basic(3) [OF p(2)] q(6) by simp
  then have "log_position (rc_sequence r) (rc_previous_receipt_hash r) (ob_digest (st_outbox s ! i)) (int i)
      (previous_digest s i) (rh_accepted (outbox_head i s)) False (st_log_id s) = Ok Appended"
    by (subst log_position_Appended) (simp_all add: q)
  moreover have "rh_head_hash (outbox_head i s) = previous_digest s i" "rh_sequence (outbox_head i s) = int i"
    "rh_log_id (outbox_head i s) = st_log_id s" "rh_verifier_id (outbox_head i s) = st_verifier_id s"
    "rh_frozen (outbox_head i s) = False"
    by (simp_all add: outbox_head_def previous_digest_def)
  ultimately have "verify_verification_receipt_v2 V r pk (outbox_head i s) = Ok Appended"
    using p(2,3) head_ok [OF inv i(1) ne] q key(2)
    by (simp add: verify_verification_receipt_v2_def reject_as_def)
  with q show ?thesis by blast
qed

text \<open>The signing key of a store never changes.\<close>

lemma new_store_key:
  assumes "new_store V now lease log_id sk = Ok s0"
  obtains pk where "public_key_v2 V sk = Ok pk" "key_id_v2 V pk = Ok (st_verifier_id s0)" "st_verifier_key s0 = sk"
  using assms by (auto simp: new_store_def bind_ok_Ok reject_Ok)

section \<open>Release over the reference store\<close>

text \<open>A release that stops hands out nothing.\<close>

definition withholds :: "('a, 's) step \<Rightarrow> bool" where
  "withholds r \<longleftrightarrow> (\<forall>e. fst r = Err e \<longrightarrow> rres_decision e = None \<and> rres_status e \<noteq> Released)"

lemma withholds_stop: "(\<exists>t reason. fst r = stop t reason \<and> t \<noteq> Released) \<Longrightarrow> withholds r"
  by (auto simp: withholds_def stop_def release_result_v2_def)

lemma withholds_Ok [simp]: "withholds (Ok x, s)"
  by (simp add: withholds_def)

lemma withholds_stopped [simp]: "st \<noteq> Released \<Longrightarrow> withholds (stop st reason, s)"
  by (rule withholds_stop) auto

lemma withholds_then: "withholds r \<Longrightarrow> (\<And>x s. withholds (k x s)) \<Longrightarrow> withholds (then_step r k)"
  by (cases r; cases "fst r") (auto simp: then_step_def withholds_def)

lemma withholds_withhold [simp]: "withholds (withhold cfg co r h ack reason s)"
  by (simp add: withhold_def split: prod.splits)

lemma withholds_steps: "withholds (release_steps V cfg co wire_opt s)"
proof -
  have a: "withholds (load_committed cfg co s)" for s
    by (simp add: load_committed_def split: prod.splits option.splits sum.splits)
  have b: "withholds (check_committed V cfg co r, s)" for r s
    by (simp add: check_committed_def split: option.splits)
  have c: "withholds (bind_receipt V cfg co r wire_opt, s)" for r s
    by (simp add: bind_receipt_def split: option.splits sum.splits)
  have d: "withholds (check_predecessor cfg receipt s)" for receipt s
    by (simp add: check_predecessor_def split: prod.splits sum.splits)
  have e: "withholds (check_acknowledgement cfg r receipt h s)" for r receipt h s
    by (simp add: check_acknowledgement_def split: prod.splits sum.splits option.splits)
  have f: "withholds (check_clock cfg co r receipt h ack s)" for r receipt h ack s
    by (simp add: check_clock_def split: prod.splits sum.splits)
  have g: "withholds (record_released cfg co r h ack s)" for r h ack s
    by (simp add: record_released_def split: prod.splits sum.splits)
  have tail: "withholds (then_step (check_predecessor cfg receipt s) (\<lambda>_ s.
     then_step (check_acknowledgement cfg r receipt h s) (\<lambda>ack s.
     then_step (check_clock cfg co r receipt h ack s) (\<lambda>_ s.
     then_step (record_released cfg co r h ack s) (\<lambda>_ s.
     (Ok (released_decision co wire receipt ack), s))))))" for r receipt h wire s
    by (intro withholds_then d e f g withholds_Ok)
  show ?thesis
    unfolding release_steps_def by (intro withholds_then a b c) (simp add: tail split: prod.splits)
qed

lemma decision_steps:
  assumes "release_v2_decision V cfg co wire_opt s = (res, s')"
  shows "rres_decision res = Some d \<longleftrightarrow> release_steps V cfg co wire_opt s = (Ok d, s')"
    and "rres_status res = Released \<longleftrightarrow> (\<exists>d. release_steps V cfg co wire_opt s = (Ok d, s'))"
  using assms withholds_steps [of V cfg co wire_opt s]
  by (auto simp: release_v2_decision_def withholds_def split: prod.splits sum.splits)

lemma reference_release_grounded:
  assumes r: "release_steps V cfg co wire_opt s = (Ok d, s')" and st: "rcfg_store cfg = reference_release_store V anchor"
  shows "\<exists>receipt r ack h. verify_published_v2_receipt V (rd_receipt_wire d) cfg = Ok receipt
    \<and> verification_receipt_v2_body V receipt = Ok (co_receipt_body co)
    \<and> rd_decision d = rc_decision receipt \<and> rd_granted_scope d = rc_granted_scope receipt
    \<and> st_claims s (co_claim_id co) = Some r \<and> cm_state r = Terminal \<and> \<not> cm_abandoned r
    \<and> receipt_outbox_digest_v2 V (cm_receipt_body r) = receipt_body_digest V co
    \<and> verification_receipt_v2_digest V receipt = Ok h
    \<and> get_v2_acknowledgement (rc_log_id receipt) (rc_sequence receipt) s = (Ok ack, s) \<and> ack_entry_hash ack = h
    \<and> cm_finalized_at r \<le> ack_timestamp ack \<and> ack_timestamp ack \<le> st_now s \<and> rd_release_time d = ack_timestamp ack
    \<and> st_now s < cl_expires_at (cm_claim r) \<and> (rd_decision d = ''allow'' \<longrightarrow> st_now s < cm_allow_horizon r)"
  using r
proof (rule release_steps_Ok)
  fix tc wire receipt h ack s1 s2 s3 s4 u1 u2 u3 u4
  assume a: "load_committed cfg co s = (Ok tc, s1)" "check_committed V cfg co tc = Ok u1"
    "bind_receipt V cfg co tc wire_opt = Ok (wire, receipt, h)" "check_predecessor cfg receipt s1 = (Ok u2, s2)"
    "check_acknowledgement cfg tc receipt h s2 = (Ok ack, s3)" "check_clock cfg co tc receipt h ack s3 = (Ok u3, s4)"
    "record_released cfg co tc h ack s4 = (Ok u4, s')" "d = released_decision co wire receipt ack"
  have acks: "s' = s" if "get_v2_acknowledgement l q s = (x, s')" for l q s x s'
    using that by (auto simp: get_v2_acknowledgement_def split: if_splits option.splits)
  obtain r where r: "st_claims s (co_claim_id co) = Some r" "s1 = s" "tc = \<lparr>tc_terminal = (cm_state r = Terminal),
      tc_receipt_outbox_digest = (if cm_state r = Terminal then receipt_outbox_digest_v2 V (cm_receipt_body r) else []),
      tc_challenge_expires_at = cl_expires_at (cm_claim r), tc_allow_horizon = cm_allow_horizon r,
      tc_finalized_at = cm_finalized_at r, tc_receipt_abandoned = cm_abandoned r, tc_release = cm_release r\<rparr>"
    using load_committed_Ok [OF a(1)] st
    by (auto simp: reference_release_store_def total_call_eq load_v2_terminal_claim_def unknown_claim_def split: option.splits)
  have s2: "s2 = s" using check_predecessor_Ok [OF a(4)] st r(2) acks
    by (auto simp: reference_release_store_def total_call_eq)
  have k: "get_v2_acknowledgement (rc_log_id receipt) (rc_sequence receipt) s = (Ok ack, s3)" "ack_entry_hash ack = h"
    using check_acknowledgement_Ok [OF a(5)] st s2 by (auto simp: reference_release_store_def total_call_eq)
  note s3 = acks [OF k(1)]
  obtain now where n: "read_clock_locked s = (Ok now, s4)" "tc_finalized_at tc \<le> ack_timestamp ack" "ack_timestamp ack \<le> now"
    "now < co_challenge_expires_at co" "rc_decision receipt = ''allow'' \<longrightarrow> now < co_allow_horizon co"
    using check_clock_Ok [OF a(6)] st s3
    by (auto simp: reference_release_store_def total_call_eq authoritative_time_v2_def)
  have "now = st_now s" using n(1) by (simp add: read_clock_Ok)
  then show ?thesis
    using n check_committed_Ok [OF a(2)] bind_receipt_Ok [OF a(3)] k s3 r(1)
    by (intro exI [of _ receipt] exI [of _ r] exI [of _ ack] exI [of _ h])
      (auto simp: r(3) a(8) released_decision_def split: if_splits)
qed

end
