(* ===== verification/V2_Store_Properties.thy ===== *)
theory V2_Store_Properties
  imports V2_Store_Samples V2_Store_Log
begin

text \<open>
  The properties of the claim store, the receipt log, release and the drivers over the reference store,
  each with a witness on a run of the store on the sample platform.
\<close>

section \<open>Every reachable state\<close>

text \<open>
  C5: The state of the reference store is consistent after any sequence of its operations, under any
  anchor: every claim has the identifier of its key, is at most terminal, and when terminal points at its
  one position of the receipt log with a payload valid for the sealed claim and times in order; every log
  position points back at its claim; published entries are receipts signed for their position, and
  acknowledgements follow the log without a gap.
\<close>

theorem reachable_store_consistent:
  assumes "base64_codec V" "new_store V now lease log_id sk = Ok s"
  shows "store_inv V (exec_calls V calls s)"
  by (rule exec_calls_inv [OF assms(1) new_store_inv [OF assms(2)]])

theorem reachable_store_consistent_witness:
  "store_inv sample_v2 (exec_calls sample_v2
     [(None, ClaimChallenge (Inr sample_owner) sample_claim), (None, SetTime 1700000100)] sample_store)"
  by (rule reachable_store_consistent [OF sample_v2_codec sample_store_new])

text \<open>
  C6: Every published entry of a reachable store verifies.  An independent verifier that knows the
  verifier's public key accepts it as the next entry at the log head made of the entries before it, and
  its body is the one the claim at that position committed.
\<close>

theorem published_log_verifies:
  assumes "base64_codec V" "new_store V now lease log_id sk = Ok s" "public_key_v2 V sk = Ok pk"
    and "s' = exec_calls V calls s" "i < length (st_outbox s')" "ob_wire (st_outbox s' ! i) = Some w"
  shows "\<exists>r c. decode_verification_receipt_v2 V w = Ok r
    \<and> verify_verification_receipt_v2 V r pk (outbox_head i s') = Ok Appended
    \<and> st_claims s' (ob_claim_id (st_outbox s' ! i)) = Some c \<and> cm_state c = Terminal
    \<and> verification_receipt_v2_body V r = Ok (cm_receipt_body c)"
proof -
  have inv: "store_inv V s'" unfolding assms(4) by (rule exec_calls_inv [OF assms(1) new_store_inv [OF assms(2)]])
  have "store_later s s'" unfolding assms(4) by (rule exec_calls_later)
  then have "public_key_v2 V (st_verifier_key s') = Ok pk" "key_id_v2 V pk = Ok (st_verifier_id s')"
    using assms(3) by (simp_all add: store_later_def) (rule new_store_key [OF assms(2)], simp)+
  note a = published_accepted [OF inv assms(5,6) this]
  obtain c where c: "st_claims s' (ob_claim_id (st_outbox s' ! i)) = Some c" "cm_state c = Terminal" "cm_outbox_index c = Some i"
    using store_inv_entry [OF inv assms(5)] by (auto simp: entry_ok_def)
  have "terminal_ok V s' (ob_claim_id (st_outbox s' ! i)) c"
    using store_inv_claim [OF inv c(1)] c(2) by (simp add: claim_ok_def)
  then have "ob_body (st_outbox s' ! i) = cm_receipt_body c" using c(3) by (simp add: terminal_ok_def)
  with a c show ?thesis by auto
qed

theorem published_log_verifies_witness:
  "\<exists>s w r. ob_wire (st_outbox s ! 0) = Some w \<and> decode_verification_receipt_v2 sample_v2 w = Ok r
     \<and> verify_verification_receipt_v2 sample_v2 r (sample_pk 3) (outbox_head 0 s) = Ok Appended"
proof -
  obtain t b where b: "v2_evaluation_interrupted_result sample_v2 sample_claim 1700000000 initial_v2_evaluation_progress = Ok (t, b)"
    "verification_receipt_v2_body sample_v2 sample_interrupted = Ok b" by (rule sample_interrupted_built)
  obtain w d where p: "publish_v2_receipt sample_v2 None [] sample_claim_id b (sample_recovered t b) =
    (Ok w, (sample_recovered t b)\<lparr>st_outbox := [\<lparr>ob_claim_id = sample_claim_id, ob_body = b, ob_wire = Some w,
       ob_digest = d, ob_ack = Some \<lparr>ack_log_id = PROBE_LOG_ID, ack_sequence = 1, ack_entry_hash = d,
       ack_timestamp = 1700000100\<rparr>\<rparr>]\<rparr>)" by (rule sample_publication [OF b(2)])
  let ?calls = "[(None, ClaimChallenge (Inr sample_owner) sample_claim), (None, SetTime 1700000100),
      (None, Recover sample_claim_id t b), (None, Publish [] sample_claim_id b)]"
  let ?s = "exec_calls sample_v2 ?calls sample_store"
  have "?s = exec_calls sample_v2 [(None, Recover sample_claim_id t b), (None, Publish [] sample_claim_id b)]
      (exec_calls sample_v2 [(None, ClaimChallenge (Inr sample_owner) sample_claim), (None, SetTime 1700000100)] sample_store)"
    by (simp add: exec_calls_def)
  then have s: "?s = snd (publish_v2_receipt sample_v2 None [] sample_claim_id b (sample_recovered t b))"
    unfolding sample_lost_run by (simp add: sample_recovery [OF b(1)])
  have "0 < length (st_outbox ?s)" "ob_wire (st_outbox ?s ! 0) = Some w" unfolding s p by simp_all
  from published_log_verifies [OF sample_v2_codec sample_store_new sample_public_key(3) refl this]
    this(2) show ?thesis by blast
qed

text \<open>
  C7: Nothing undoes a terminal result.  Whatever operations follow, under whatever anchors, a terminal
  claim keeps its sealed claim, terminal result, receipt body, allow horizon, finalization time and its
  release record once it has one.
\<close>

theorem terminal_result_final:
  assumes "st_claims s cid = Some r" "cm_state r = Terminal"
  shows "\<exists>r'. st_claims (exec_calls V calls s) cid = Some r' \<and> cm_state r' = Terminal \<and> cm_claim r' = cm_claim r
    \<and> cm_terminal r' = cm_terminal r \<and> cm_receipt_body r' = cm_receipt_body r
    \<and> cm_allow_horizon r' = cm_allow_horizon r \<and> cm_finalized_at r' = cm_finalized_at r
    \<and> (\<forall>rel. cm_release r = Some rel \<longrightarrow> cm_release r' = Some rel)"
  using exec_calls_later [of s V calls] assms
  by (fastforce simp: store_later_def claims_kept_def claim_kept_def)

theorem terminal_result_final_witness:
  "\<forall>t b. \<exists>r. st_claims (exec_calls sample_v2 [(None, Recover sample_claim_id [1] [2]), (None, Abandon)]
     (sample_recovered t b)) sample_claim_id = Some r \<and> cm_receipt_body r = b"
proof (intro allI)
  fix t b
  obtain r where r: "st_claims (sample_recovered t b) sample_claim_id = Some r" "cm_state r = Terminal" "cm_receipt_body r = b"
    by (simp add: sample_recovered_fields)
  show "\<exists>r. st_claims (exec_calls sample_v2 [(None, Recover sample_claim_id [1] [2]), (None, Abandon)]
     (sample_recovered t b)) sample_claim_id = Some r \<and> cm_receipt_body r = b"
    using terminal_result_final [OF r(1,2)] r(3) by metis
qed

text \<open>
  C8: The receipt log is append-only.  Whatever operations follow, every entry stays at its position with
  its claim and body, a published entry keeps its bytes and digest, and an acknowledgement stands.
\<close>

theorem log_append_only:
  assumes "i < length (st_outbox s)"
  shows "i < length (st_outbox (exec_calls V calls s))
    \<and> ob_claim_id (st_outbox (exec_calls V calls s) ! i) = ob_claim_id (st_outbox s ! i)
    \<and> ob_body (st_outbox (exec_calls V calls s) ! i) = ob_body (st_outbox s ! i)
    \<and> (ob_wire (st_outbox s ! i) \<noteq> None \<longrightarrow>
         ob_wire (st_outbox (exec_calls V calls s) ! i) = ob_wire (st_outbox s ! i)
         \<and> ob_digest (st_outbox (exec_calls V calls s) ! i) = ob_digest (st_outbox s ! i))
    \<and> (ob_ack (st_outbox s ! i) \<noteq> None \<longrightarrow>
         ob_ack (st_outbox (exec_calls V calls s) ! i) = ob_ack (st_outbox s ! i))"
  using exec_calls_later [of s V calls] assms
  by (auto simp: store_later_def outbox_kept_def entry_kept_def)

theorem log_append_only_witness:
  "\<forall>t b. ob_body (st_outbox (exec_calls sample_v2 [(None, Abandon), (None, Publish [] sample_claim_id b)]
     (sample_recovered t b)) ! 0) = b"
proof (intro allI)
  fix t b
  have "0 < length (st_outbox (sample_recovered t b))" "ob_body (st_outbox (sample_recovered t b) ! 0) = b"
    by (simp_all add: sample_recovered_fields)
  with log_append_only [OF this(1)] show "ob_body (st_outbox (exec_calls sample_v2 [(None, Abandon),
     (None, Publish [] sample_claim_id b)] (sample_recovered t b)) ! 0) = b" by metis
qed

section \<open>Claims, streams and rates\<close>

text \<open>
  C9: A stream never accepts a sequence number twice.  Between the creation of two claims of one stream,
  whatever else happens, the later one has a different identifier and a larger sequence number.
\<close>

theorem stream_sequence_advances:
  assumes "claim_v2 V A rnd c s = (Ok res, s1)" "cr_disposition res = Created" "cl_stream_id c = Some sid"
    and "claim_v2 V A2 rnd2 c2 (exec_calls V calls s1) = (Ok res2, s2)" "cr_disposition res2 = Created"
    and "cl_stream_id c2 = Some sid2" "stream_key_of c2 = stream_key_of c"
  shows "\<exists>m n. cl_stream_seq c = Some m \<and> cl_stream_seq c2 = Some n \<and> m < n \<and> cl_claim_id c2 \<noteq> cl_claim_id c"
proof -
  have adv: "a \<noteq> None" if "stream_advance q u = Ok a" "cl_stream_id q = Some i" for q u a i
    using that by (cases a) (simp_all add: stream_advance_def Let_def split: option.splits sum.splits if_splits)
  obtain a where a: "stream_advance c s = Ok a" "st_claims s1 (cl_claim_id c) \<noteq> None"
    "st_streams s1 = (case a of Some (k, seq) \<Rightarrow> (st_streams s)(k \<mapsto> seq) | None \<Rightarrow> st_streams s)"
    using claim_created [OF assms(1,2)] by (metis option.distinct(1))
  obtain k m where am: "a = Some (k, m)" using adv [OF a(1) assms(3)] by (metis option.exhaust surj_pair)
  note m = stream_advance_next [OF a(1) [unfolded am]]
  obtain a2 where a2: "stream_advance c2 (exec_calls V calls s1) = Ok a2"
    "st_claims (exec_calls V calls s1) (cl_claim_id c2) = None"
    using claim_created [OF assms(4,5)] by metis
  obtain k2 n where an: "a2 = Some (k2, n)" using adv [OF a2(1) assms(6)] by (metis option.exhaust surj_pair)
  note n = stream_advance_next [OF a2(1) [unfolded an]]
  have "st_streams s1 (stream_key_of c) = Some m" using a(3) am m by simp
  moreover have "streams_kept (st_streams s1) (st_streams (exec_calls V calls s1))"
    using exec_calls_later [of s1 V calls] by (simp add: store_later_def)
  ultimately obtain n' where "n' \<ge> m" "st_streams (exec_calls V calls s1) (stream_key_of c) = Some n'"
    unfolding streams_kept_def by blast
  moreover have "claims_kept (st_claims s1) (st_claims (exec_calls V calls s1))"
    using exec_calls_later [of s1 V calls] by (simp add: store_later_def)
  then have "cl_claim_id c2 \<noteq> cl_claim_id c"
    using a(2) a2(2) unfolding claims_kept_def by (metis option.exhaust option.distinct(1))
  ultimately show ?thesis using m n assms(7) by auto
qed

theorem stream_sequence_advances_witness:
  "\<exists>res s1 res2 s2. claim_v2 sample_tail None (Inr sample_owner) (stream_claim (CHR ''a'') 0xAA 1) sample_store = (Ok res, s1)
     \<and> claim_v2 sample_tail None (Inr sample_owner) (stream_claim (CHR ''b'') 0xBB 2) (exec_calls sample_tail [] s1) = (Ok res2, s2)
     \<and> (\<exists>m n. cl_stream_seq (stream_claim (CHR ''a'') 0xAA 1) = Some m
        \<and> cl_stream_seq (stream_claim (CHR ''b'') 0xBB 2) = Some n \<and> m < n)"
  using stream_claimed_first stream_claimed_second
    stream_sequence_advances [OF stream_claimed_first _ _ stream_claimed_second, of "replicate 16 1" "replicate 16 1"]
  by (force simp: stream_claim_def stream_key_of_def sample_claim_def)



section \<open>Release\<close>

text \<open>
  C11: What a released decision rests on.  When release over the reference store hands out a decision, the
  claim is terminal and not abandoned, the receipt verifies under the configured key and log and has the
  committed body, the checkpoint acknowledged exactly that receipt at its position no earlier than the
  finalization, and the clock is before the expiry of the challenge and, for an allow, before its horizon.
\<close>

theorem released_decision_grounded:
  assumes "release_v2_decision V cfg co wire_opt s = (res, s')" "rres_decision res = Some d"
    and "rcfg_store cfg = reference_release_store V anchor"
  shows "\<exists>receipt r ack h. verify_published_v2_receipt V (rd_receipt_wire d) cfg = Ok receipt
    \<and> verification_receipt_v2_body V receipt = Ok (co_receipt_body co)
    \<and> rd_decision d = rc_decision receipt \<and> rd_granted_scope d = rc_granted_scope receipt
    \<and> st_claims s (co_claim_id co) = Some r \<and> cm_state r = Terminal \<and> \<not> cm_abandoned r
    \<and> receipt_outbox_digest_v2 V (cm_receipt_body r) = receipt_body_digest V co
    \<and> verification_receipt_v2_digest V receipt = Ok h
    \<and> get_v2_acknowledgement (rc_log_id receipt) (rc_sequence receipt) s = (Ok ack, s) \<and> ack_entry_hash ack = h
    \<and> cm_finalized_at r \<le> ack_timestamp ack \<and> ack_timestamp ack \<le> st_now s \<and> rd_release_time d = ack_timestamp ack
    \<and> st_now s < cl_expires_at (cm_claim r) \<and> (rd_decision d = ''allow'' \<longrightarrow> st_now s < cm_allow_horizon r)"
  using reference_release_grounded [OF _ assms(3)] decision_steps(1) [OF assms(1)] assms(2) by blast

text \<open>
  C12: A withheld result is final.  Once a claim of a consistent store records a withheld release, no later
  release of it hands out a decision, whatever operations, receipts and verifier configurations follow.
\<close>

theorem withheld_result_final:
  assumes "base64_codec V" "store_inv V s" "st_claims s (co_claim_id co) = Some r" "cm_release r = Some rel"
    and "rl_outcome rel = Withheld" "rcfg_store cfg = reference_release_store V anchor"
    and "release_v2_decision V cfg co wire_opt (exec_calls V calls s) = (res, s')"
  shows "rres_status res \<noteq> Released \<and> rres_decision res = None"
proof -
  have c: "store_consistent V (exec_calls V calls s)"
    using assms(1,2) by (simp add: store_consistent_def exec_calls_inv)
  have "release_of s (co_claim_id co) = Some rel" using assms(3,4) by (simp add: release_of_def)
  then have "release_of (exec_calls V calls s) (co_claim_id co) = Some rel"
    by (rule later_release [OF exec_calls_later])
  from reference_ledger.withheld_final [OF assms(6) c this assms(5)]
  have "release_steps V cfg co wire_opt (exec_calls V calls s) \<noteq> (Ok d, s')" for d .
  then show ?thesis using decision_steps [OF assms(7)] by (metis not_None_eq)
qed

text \<open>The sample claim, published and acknowledged.\<close>

lemma sample_published:
  obtains s r w a where "store_consistent sample_v2 s" "st_claims s sample_claim_id = Some r" "cm_state r = Terminal"
    "\<not> cm_abandoned r" "cm_release r = None" "cm_outbox_index r = Some 0" "cm_claim r = sample_claim" "cm_allow_horizon r = 0"
    "ob_wire (st_outbox s ! 0) = Some w" "ob_ack (st_outbox s ! 0) = Some a"
    "st_verifier_key s = sample_sk 3" "st_verifier_id s = sample_verifier_id" "st_log_id s = PROBE_LOG_ID"
    "st_now s = 1700000100" "st_high_water s = 1700000100"
proof -
  obtain t b where b: "v2_evaluation_interrupted_result sample_v2 sample_claim 1700000000 initial_v2_evaluation_progress = Ok (t, b)"
    "verification_receipt_v2_body sample_v2 sample_interrupted = Ok b" by (rule sample_interrupted_built)
  obtain w d where p: "publish_v2_receipt sample_v2 None [] sample_claim_id b (sample_recovered t b) =
    (Ok w, (sample_recovered t b)\<lparr>st_outbox := [\<lparr>ob_claim_id = sample_claim_id, ob_body = b, ob_wire = Some w,
       ob_digest = d, ob_ack = Some \<lparr>ack_log_id = PROBE_LOG_ID, ack_sequence = 1, ack_entry_hash = d,
       ack_timestamp = 1700000100\<rparr>\<rparr>]\<rparr>)" by (rule sample_publication [OF b(2)])
  note c = run_consistent [OF run_publish [OF p] sample_recovered_consistent [OF b(1)]]
  let ?r = "sample_record\<lparr>cm_state := Terminal, cm_terminal := t, cm_receipt_body := b, cm_allow_horizon := 0,
      cm_finalized_at := 1700000100, cm_outbox_index := Some 0\<rparr>"
  show thesis
    by (rule that [OF c, of ?r w "\<lparr>ack_log_id = PROBE_LOG_ID, ack_sequence = 1, ack_entry_hash = d,
       ack_timestamp = 1700000100\<rparr>"]) (simp_all add: sample_recovered_fields)
qed

lemma sample_released:
  assumes p: "store_consistent sample_v2 s" "st_claims s sample_claim_id = Some r" "cm_state r = Terminal"
    "\<not> cm_abandoned r" "cm_release r = None" "cm_outbox_index r = Some 0" "cm_claim r = sample_claim" "cm_allow_horizon r = 0"
    "ob_wire (st_outbox s ! 0) = Some w" "ob_ack (st_outbox s ! 0) = Some a"
    "st_verifier_key s = sample_sk 3" "st_verifier_id s = sample_verifier_id" "st_log_id s = PROBE_LOG_ID"
    "st_now s = 1700000100" "st_high_water s = 1700000100"
  obtains d s' where "release_v2_decision sample_v2 \<lparr>rcfg_verifier_public_key = sample_pk 3, rcfg_log_id = PROBE_LOG_ID,
      rcfg_store = reference_release_store sample_v2 None\<rparr> (outcome_of r) (Some w) s
      = (\<lparr>rres_status = Released, rres_reason = [], rres_decision = Some d\<rparr>, s')"
proof -
  have "store_inv sample_v2 s" using p(1) by (simp add: store_consistent_def)
  moreover have "valid_v2_timestamp 1700000100" by code_simp
  ultimately show thesis
    using committed_released [OF sample_v2_codec _ sample_claim_id_nonempty p(2-6,9,10), of "sample_pk 3"] p that
      sample_public_key(3) sample_key_id by auto
qed

theorem released_decision_grounded_witness:
  "\<exists>s co w res d. rres_decision res = Some d \<and> (\<exists>s'. release_v2_decision sample_v2 \<lparr>rcfg_verifier_public_key = sample_pk 3,
       rcfg_log_id = PROBE_LOG_ID, rcfg_store = reference_release_store sample_v2 None\<rparr> co w s = (res, s'))
     \<and> (\<exists>r. st_claims s (co_claim_id co) = Some r \<and> cm_state r = Terminal \<and> st_now s < cl_expires_at (cm_claim r))"
proof -
  obtain s r w a where p: "store_consistent sample_v2 s" "st_claims s sample_claim_id = Some r" "cm_state r = Terminal"
    "\<not> cm_abandoned r" "cm_release r = None" "cm_outbox_index r = Some 0" "cm_claim r = sample_claim" "cm_allow_horizon r = 0"
    "ob_wire (st_outbox s ! 0) = Some w" "ob_ack (st_outbox s ! 0) = Some a"
    "st_verifier_key s = sample_sk 3" "st_verifier_id s = sample_verifier_id" "st_log_id s = PROBE_LOG_ID"
    "st_now s = 1700000100" "st_high_water s = 1700000100" by (rule sample_published)
  let ?cfg = "\<lparr>rcfg_verifier_public_key = sample_pk 3, rcfg_log_id = PROBE_LOG_ID,
      rcfg_store = reference_release_store sample_v2 None\<rparr>"
  obtain d s' where rel: "release_v2_decision sample_v2 ?cfg (outcome_of r) (Some w) s
      = (\<lparr>rres_status = Released, rres_reason = [], rres_decision = Some d\<rparr>, s')"
    by (rule sample_released [OF p])
  have "rres_decision \<lparr>rres_status = Released, rres_reason = [], rres_decision = Some d\<rparr> = Some d" by simp
  from released_decision_grounded [OF rel this, of None]
  obtain q where "st_claims s (co_claim_id (outcome_of r)) = Some q" "cm_state q = Terminal" "st_now s < cl_expires_at (cm_claim q)"
    by auto
  with rel show ?thesis
    by (intro exI [of _ s] exI [of _ "outcome_of r"] exI [of _ "Some w"]
        exI [of _ "\<lparr>rres_status = Released, rres_reason = [], rres_decision = Some d\<rparr>"] exI [of _ d]) auto
qed

theorem withheld_result_final_witness:
  "\<exists>s r rel res s'. st_claims s sample_claim_id = Some r \<and> cm_release r = Some rel \<and> rl_outcome rel = Withheld
     \<and> release_v2_decision sample_v2 \<lparr>rcfg_verifier_public_key = sample_pk 3, rcfg_log_id = PROBE_LOG_ID,
       rcfg_store = reference_release_store sample_v2 None\<rparr> (outcome_of r) None (exec_calls sample_v2 [] s) = (res, s')
     \<and> rres_decision res = None"
proof -
  obtain s r w a where p: "store_consistent sample_v2 s" "st_claims s sample_claim_id = Some r" "cm_state r = Terminal"
    "cm_release r = None" "cm_claim r = sample_claim" by (rule sample_published)
  let ?rel = "\<lparr>rl_claim_id = sample_claim_id, rl_entry_hash = [], rl_ack_timestamp = 0, rl_outcome = Withheld,
      rl_reason = ''challenge_expired''\<rparr>"
  let ?r = "r\<lparr>cm_release := Some ?rel\<rparr>" and ?s = "s\<lparr>st_claims := (st_claims s)(sample_claim_id \<mapsto> r\<lparr>cm_release := Some ?rel\<rparr>)\<rparr>"
  have "record_v2_release sample_v2 None ?rel s = (Ok (), ?s)"
    using p by (simp add: record_v2_release_def valid_v2_release_record_outcome_def change_locked_def)
  from run_consistent [OF run_release [OF this] p(1)] have c: "base64_codec sample_v2" "store_inv sample_v2 ?s"
    by (simp_all add: store_consistent_def)
  obtain res s' where rel: "release_v2_decision sample_v2 \<lparr>rcfg_verifier_public_key = sample_pk 3, rcfg_log_id = PROBE_LOG_ID,
       rcfg_store = reference_release_store sample_v2 None\<rparr> (outcome_of ?r) None (exec_calls sample_v2 [] ?s) = (res, s')"
    by (metis surj_pair)
  have "co_claim_id (outcome_of ?r) = sample_claim_id" using p(5) by (simp add: outcome_of_def new_committed_outcome_def)
  with withheld_result_final [OF c _ _ _ _ rel, of ?r ?rel] rel show ?thesis
    by (intro exI [of _ ?s] exI [of _ ?r] exI [of _ ?rel] exI [of _ res] exI [of _ s']) simp
qed

text \<open>
  C13: A committed result is released.  In every consistent state of the reference store, a terminal claim
  whose receipt is published and acknowledged, neither abandoned nor released before, is released with the
  committed decision as long as the clock has not gone back and is before the deadlines.
\<close>

theorem committed_result_released:
  assumes "base64_codec V" "store_inv V s" "cid \<noteq> []"
    and "st_claims s cid = Some r" "cm_state r = Terminal" "\<not> cm_abandoned r" "cm_release r = None"
    and "cm_outbox_index r = Some i" "ob_wire (st_outbox s ! i) = Some w" "ob_ack (st_outbox s ! i) = Some a"
    and "public_key_v2 V (st_verifier_key s) = Ok pk" "key_id_v2 V pk = Ok (st_verifier_id s)"
    and "st_high_water s \<le> st_now s" "valid_v2_timestamp (st_now s)"
    and "st_now s < cl_expires_at (cm_claim r)" "cm_allow_horizon r > 0 \<longrightarrow> st_now s < cm_allow_horizon r"
  shows "\<exists>d s'. release_v2_decision V \<lparr>rcfg_verifier_public_key = pk, rcfg_log_id = st_log_id s,
        rcfg_store = reference_release_store V None\<rparr> (outcome_of r) (Some w) s
      = (\<lparr>rres_status = Released, rres_reason = [], rres_decision = Some d\<rparr>, s')
    \<and> (\<exists>b. decode_verification_receipt_body_v2 V (cm_receipt_body r) = Ok b \<and> rd_decision d = rc_decision b)"
  by (rule committed_released [OF assms])

theorem committed_result_released_witness:
  "\<exists>s r w d s'. release_v2_decision sample_v2 \<lparr>rcfg_verifier_public_key = sample_pk 3, rcfg_log_id = st_log_id s,
        rcfg_store = reference_release_store sample_v2 None\<rparr> (outcome_of r) (Some w) s
      = (\<lparr>rres_status = Released, rres_reason = [], rres_decision = Some d\<rparr>, s')"
proof -
  obtain s r w a where p: "store_consistent sample_v2 s" "st_claims s sample_claim_id = Some r" "cm_state r = Terminal"
    "\<not> cm_abandoned r" "cm_release r = None" "cm_outbox_index r = Some 0" "cm_claim r = sample_claim" "cm_allow_horizon r = 0"
    "ob_wire (st_outbox s ! 0) = Some w" "ob_ack (st_outbox s ! 0) = Some a"
    "st_verifier_key s = sample_sk 3" "st_verifier_id s = sample_verifier_id" "st_log_id s = PROBE_LOG_ID"
    "st_now s = 1700000100" "st_high_water s = 1700000100" by (rule sample_published)
  have inv: "store_inv sample_v2 s" using p(1) by (simp add: store_consistent_def)
  have key: "public_key_v2 sample_v2 (st_verifier_key s) = Ok (sample_pk 3)" "key_id_v2 sample_v2 (sample_pk 3) = Ok (st_verifier_id s)"
    using p sample_public_key(3) sample_key_id by simp_all
  have "valid_v2_timestamp 1700000100" by code_simp
  with p have clock: "st_high_water s \<le> st_now s" "valid_v2_timestamp (st_now s)" "st_now s < cl_expires_at (cm_claim r)"
    "cm_allow_horizon r > 0 \<longrightarrow> st_now s < cm_allow_horizon r" by simp_all
  from committed_result_released [OF sample_v2_codec inv sample_claim_id_nonempty p(2-6,9,10) key clock] show ?thesis by blast
qed

section \<open>The drivers\<close>






end
