(* ===== verification/V2_Constraints.thy ===== *)
theory V2_Constraints
  imports V2_Json V1_Resource_Path
begin

text \<open>
  The closed constraint registry of v2 (\<open>sdks/rust/src/v2/constraints.rs\<close>): the wire members every
  registered type has, their canonical form and their decoding.  A params map is its list of entries in
  key order, as \<open>BTreeMap\<close> iterates it.
\<close>

section \<open>Data\<close>

definition CONSTRAINT_TIME_WINDOW :: string where "CONSTRAINT_TIME_WINDOW = ''time_window''"
definition CONSTRAINT_MAX_AMOUNT :: string where "CONSTRAINT_MAX_AMOUNT = ''max_amount''"
definition CONSTRAINT_MAX_RATE :: string where "CONSTRAINT_MAX_RATE = ''max_rate''"
definition CONSTRAINT_RESOURCE_PATH :: string where "CONSTRAINT_RESOURCE_PATH = ''resource_path''"
definition CONSTRAINT_RECEIVER_AUDIENCE :: string where
  "CONSTRAINT_RECEIVER_AUDIENCE = ''ratify.receiver_audience''"
definition MAX_AUDIENCE_IDS_V2 :: nat where "MAX_AUDIENCE_IDS_V2 = 64"

record constraint_v2 =
  cv_kind :: string
  cv_start :: string
  cv_end :: string
  cv_tz :: string
  cv_currency :: string
  cv_max_amount_micros :: int
  cv_count :: int
  cv_window_s :: int
  cv_resource_id :: string
  cv_path_prefix :: string
  cv_params :: "(string \<times> params_value) list option"

definition default_constraint_v2 :: constraint_v2 where
  "default_constraint_v2 = \<lparr>cv_kind = '''', cv_start = '''', cv_end = '''', cv_tz = '''', cv_currency = '''',
     cv_max_amount_micros = 0, cv_count = 0, cv_window_s = 0, cv_resource_id = '''', cv_path_prefix = '''',
     cv_params = None\<rparr>"

definition is_registered_structured :: "string \<Rightarrow> bool" where
  "is_registered_structured kind \<longleftrightarrow> kind = CONSTRAINT_TIME_WINDOW \<or> kind = CONSTRAINT_MAX_AMOUNT
     \<or> kind = CONSTRAINT_MAX_RATE \<or> kind = CONSTRAINT_RESOURCE_PATH"

definition is_registered_constraint_type_v2 :: "string \<Rightarrow> bool" where
  "is_registered_constraint_type_v2 kind \<longleftrightarrow> is_registered_structured kind \<or> kind = CONSTRAINT_RECEIVER_AUDIENCE"

section \<open>Params\<close>

text \<open>\<open>BTreeMap::insert\<close> on the entries in key order.\<close>

fun map_insert :: "string \<Rightarrow> 'a \<Rightarrow> (string \<times> 'a) list \<Rightarrow> (string \<times> 'a) list" where
  "map_insert k v [] = [(k, v)]"
| "map_insert k v ((k', v') # ms) =
     (if k < k' then (k, v) # (k', v') # ms
      else if k = k' then (k, v) # ms
      else (k', v') # map_insert k v ms)"

fun params_cj :: "params_value \<Rightarrow> cj" where
  "params_cj PNull = CNull"
| "params_cj (PBool b) = CBool b"
| "params_cj (PInt n) = CInt n"
| "params_cj (PStr s) = CStr s"
| "params_cj (PArray items) = CArr (map params_cj items)"
| "params_cj (PObject ms) = CObj (map (\<lambda>(k, v). (k, params_cj v)) ms)"

definition params_map_cj :: "(string \<times> params_value) list \<Rightarrow> cj" where
  "params_map_cj ms = CObj (map (\<lambda>(k, v). (k, params_cj v)) ms)"

fun node_to_params :: "jnode \<Rightarrow> params_value v2_result" where
  "node_to_params (Node v a b) =
     (case v of
        VNull \<Rightarrow> Ok PNull
      | VBool x \<Rightarrow> Ok (PBool x)
      | VNum t \<Rightarrow> (case parse_i64 t of Some n \<Rightarrow> Ok (PInt n) | None \<Rightarrow> plain ''params values must be safe integers'')
      | VStr s \<Rightarrow> Ok (PStr s)
      | VArr vs \<Rightarrow> bind_ok (collect_ok (map node_to_params vs)) (\<lambda>items. Ok (PArray items))
      | VObj ms \<Rightarrow> bind_ok (collect_ok (map named_result (map (\<lambda>(k, v). (k, node_to_params v)) ms)))
          (\<lambda>es. Ok (PObject (fold (\<lambda>(k, v). map_insert k v) es []))))"

definition params_object :: "jnode \<Rightarrow> (string \<times> params_value) list option v2_result" where
  "params_object n = bind_ok (node_to_params n) (\<lambda>v. case v of PObject m \<Rightarrow> Ok (Some m) | _ \<Rightarrow> Ok None)"

section \<open>Field rules\<close>

fun check_v2_nulls :: "jnode \<Rightarrow> unit v2_result"
and check_v2_null_members :: "(string \<times> jnode) list \<Rightarrow> unit v2_result"
and check_v2_null_items :: "jnode list \<Rightarrow> unit v2_result" where
  "check_v2_nulls (Node VNull a b) = plain ''null is not allowed in this v2 object''"
| "check_v2_nulls (Node (VObj ms) a b) = check_v2_null_members ms"
| "check_v2_nulls (Node (VArr vs) a b) = check_v2_null_items vs"
| "check_v2_nulls (Node v a b) = Ok ()"
| "check_v2_null_members [] = Ok ()"
| "check_v2_null_members ((k, v) # ms) =
     bind_ok (if k \<noteq> ''params'' then check_v2_nulls v else Ok ()) (\<lambda>_. check_v2_null_members ms)"
| "check_v2_null_items [] = Ok ()"
| "check_v2_null_items (v # vs) = bind_ok (check_v2_nulls v) (\<lambda>_. check_v2_null_items vs)"

definition v2_integer_field :: "prims \<Rightarrow> jnode \<Rightarrow> int v2_result" where
  "v2_integer_field P n =
     (case jn_v n of
        VNum token \<Rightarrow>
          (let digits = (if starts_with token ''-'' then drop 1 token else token) in
           reject (digits = [] \<or> length digits > 1 \<and> starts_with digits ''0'')
             (''integer '' @ debug_str P token @ '' is not canonical'') (
           reject (\<not> list_all is_digit digits) (''integer '' @ debug_str P token @ '' is not a JSON integer'') (
           reject (token = ''-0'') ''negative zero is not a canonical integer'' (
           case parse_i64 token of
             Some i \<Rightarrow>
               if - MAX_SAFE_INTEGER \<le> i \<and> i \<le> MAX_SAFE_INTEGER then Ok i
               else plain (''integer '' @ debug_str P token @ '' is outside the safe-integer range'')
           | None \<Rightarrow> plain (''integer '' @ debug_str P token @ '' is outside the safe-integer range'')))))
      | _ \<Rightarrow> plain ''integer is required'')"

definition v2_string_field :: "jnode \<Rightarrow> string v2_result" where
  "v2_string_field n = (case jn_v n of VStr s \<Rightarrow> Ok s | _ \<Rightarrow> plain ''string is required'')"

definition is_upper :: "char \<Rightarrow> bool" where
  "is_upper c \<longleftrightarrow> CHR ''A'' \<le> c \<and> c \<le> CHR ''Z''"

definition is_alnum :: "char \<Rightarrow> bool" where
  "is_alnum c \<longleftrightarrow> is_upper c \<or> CHR ''a'' \<le> c \<and> c \<le> CHR ''z'' \<or> is_digit c"

definition valid_iso4217_alpha_v2 :: "string \<Rightarrow> bool" where
  "valid_iso4217_alpha_v2 c \<longleftrightarrow> length c = 3 \<and> list_all is_upper c"

definition valid_time_zone_id_v2 :: "string \<Rightarrow> bool" where
  "valid_time_zone_id_v2 tz \<longleftrightarrow> \<not> (tz = [] \<or> length tz > 64)
     \<and> list_all (\<lambda>seg. seg \<noteq> [] \<and> seg \<noteq> ''.'' \<and> seg \<noteq> ''..''
         \<and> list_all (\<lambda>c. is_alnum c \<or> c = CHR ''_'' \<or> c = CHR ''+'' \<or> c = CHR ''-'') seg) (split_on (CHR ''/'') tz)"

definition digit_pair :: "char \<Rightarrow> char \<Rightarrow> int" where
  "digit_pair a b = (int (of_char a) - 48) * 10 + (int (of_char b) - 48)"

definition parse_hhmm_v2 :: "prims \<Rightarrow> string \<Rightarrow> int v2_result" where
  "parse_hhmm_v2 P s =
     (if length s \<noteq> 5 \<or> s ! 2 \<noteq> CHR '':'' \<or> \<not> list_all (\<lambda>i. is_digit (s ! i)) [0, 1, 3, 4]
      then plain (''expected HH:MM, got '' @ debug_str P s)
      else let h = digit_pair (s ! 0) (s ! 1); m = digit_pair (s ! 3) (s ! 4) in
        if h > 23 \<or> m > 59 then plain (''out-of-range HH:MM '' @ debug_str P s) else Ok (h * 60 + m))"

text \<open>The closure \<open>exact\<close>.\<close>

definition exact_members :: "prims \<Rightarrow> string \<Rightarrow> jobj \<Rightarrow> string list \<Rightarrow> string list \<Rightarrow> unit v2_result" where
  "exact_members P kind ms required optional =
     (case find (\<lambda>(k, _). k \<noteq> ''type'' \<and> k \<notin> set required \<and> k \<notin> set optional) ms of
        Some (k, _) \<Rightarrow> plain (''field '' @ debug_str P k @ '' is not allowed for constraint type '' @ debug_str P kind)
      | None \<Rightarrow>
          (case find (\<lambda>n. map_of ms n = None) required of
             Some n \<Rightarrow> plain (''constraint type '' @ debug_str P kind @ '' requires field '' @ debug_str P n)
           | None \<Rightarrow> Ok ()))"

definition required_node :: "prims \<Rightarrow> jobj \<Rightarrow> string \<Rightarrow> jnode v2_result" where
  "required_node P ms name =
     (case map_of ms name of Some n \<Rightarrow> Ok n
      | None \<Rightarrow> plain (''constraint requires field '' @ debug_str P name))"

text \<open>\<open>match f(required_node(name)?) { Ok(x) if ok => .., _ => plain(m) }\<close>.\<close>

definition field_ok :: "'a v2_result \<Rightarrow> ('a \<Rightarrow> bool) \<Rightarrow> string \<Rightarrow> unit v2_result" where
  "field_ok r ok m = (case r of Ok x \<Rightarrow> if ok x then Ok () else plain m | Err _ \<Rightarrow> plain m)"

definition hhmm_field :: "prims \<Rightarrow> jobj \<Rightarrow> string \<Rightarrow> unit v2_result" where
  "hhmm_field P ms name =
     bind_ok (required_node P ms name) (\<lambda>n.
     bind_ok (map_err (\<lambda>_. v2_plain (''time_window '' @ name @ '' must be a string'')) (v2_string_field n)) (\<lambda>value.
     bind_ok (map_err (with_context (''time_window '' @ name)) (parse_hhmm_v2 P value)) (\<lambda>_. Ok ())))"

section \<open>Receiver audiences\<close>

text \<open>\<open>collect::<Option<Vec<_>>>\<close>; a null element reads as the empty string.\<close>

fun collect_some :: "'a option list \<Rightarrow> 'a list option" where
  "collect_some [] = Some []"
| "collect_some (None # xs) = None"
| "collect_some (Some x # xs) = map_option ((#) x) (collect_some xs)"

definition string_array :: "jnode option \<Rightarrow> string list option" where
  "string_array n =
     (case map_option jn_v n of
        Some (VArr items) \<Rightarrow> collect_some (map (\<lambda>i. case jn_v i of VStr s \<Rightarrow> Some s | VNull \<Rightarrow> Some [] | _ \<Rightarrow> None) items)
      | _ \<Rightarrow> None)"

fun ids_ok :: "string list \<Rightarrow> string list \<Rightarrow> bool" where
  "ids_ok seen [] = True"
| "ids_ok seen (v # vs) =
     (if v = [] \<or> length v > MAX_IDENTIFIER_LENGTH_BYTES \<or> v \<in> set seen then False else ids_ok (v # seen) vs)"

definition audience_ids :: "string list \<Rightarrow> unit v2_result" where
  "audience_ids vs =
     reject (length vs > MAX_AUDIENCE_IDS_V2)
       (''receiver audience arrays hold at most '' @ dec_nat MAX_AUDIENCE_IDS_V2 @ '' IDs'') (
     reject (\<not> ids_ok [] vs)
       (''receiver audience IDs must be unique and 1 to '' @ dec_nat MAX_IDENTIFIER_LENGTH_BYTES @ '' bytes'') (Ok ()))"

definition validate_v2_receiver_audience :: "prims \<Rightarrow> jnode \<Rightarrow> unit v2_result" where
  "validate_v2_receiver_audience P raw =
     (case jn_v raw of
        VObj params \<Rightarrow>
          (case find (\<lambda>(k, _). k \<notin> set [''exact_receiver_ids'', ''trust_domain_ids'', ''max_membership_age_seconds'']) params of
             Some (k, _) \<Rightarrow> plain (''unknown receiver audience parameter '' @ debug_str P k)
           | None \<Rightarrow>
             (case (string_array (map_of params ''exact_receiver_ids''), string_array (map_of params ''trust_domain_ids'')) of
                (Some exact, Some domains) \<Rightarrow>
                  reject (length exact + length domains = 0)
                    ''receiver audience must name an exact receiver or trust domain'' (
                  bind_ok (audience_ids exact) (\<lambda>_. bind_ok (audience_ids domains) (\<lambda>_.
                  let age = map_of params ''max_membership_age_seconds'' in
                  reject (domains \<noteq> [] \<and> (case age of None \<Rightarrow> True | Some a \<Rightarrow> is_null a))
                    ''receiver audience trust domains require max_membership_age_seconds'' (
                  bind_ok (case age of None \<Rightarrow> Ok () | Some a \<Rightarrow>
                      field_ok (v2_integer_field P a) (\<lambda>n. n > 0 \<and> n \<le> V2_MAX_AUDIENCE_MEMBERSHIP_AGE_SECONDS)
                        (''max_membership_age_seconds must be an integer in 1..'' @ dec_int V2_MAX_AUDIENCE_MEMBERSHIP_AGE_SECONDS)) (\<lambda>_.
                  reject (domains = [] \<and> age \<noteq> None)
                    ''receiver audience without trust domains must omit max_membership_age_seconds'' (Ok ()))))))
              | _ \<Rightarrow> plain ''receiver audience requires exact_receiver_ids and trust_domain_ids arrays''))
      | _ \<Rightarrow> plain ''receiver audience requires params object'')"

section \<open>Validation\<close>

definition validate_members :: "prims \<Rightarrow> string \<Rightarrow> jobj \<Rightarrow> unit v2_result" where
  "validate_members P kind ms =
     (if kind = CONSTRAINT_TIME_WINDOW then
        bind_ok (exact_members P kind ms [''start'', ''end'', ''tz''] []) (\<lambda>_.
        bind_ok (hhmm_field P ms ''start'') (\<lambda>_. bind_ok (hhmm_field P ms ''end'') (\<lambda>_.
        bind_ok (required_node P ms ''tz'') (\<lambda>n. field_ok (v2_string_field n) valid_time_zone_id_v2
          ''time_window tz must be 1 to 64 bytes of /-separated [A-Za-z0-9_+-] segments''))))
      else if kind = CONSTRAINT_MAX_AMOUNT then
        bind_ok (exact_members P kind ms [''currency'', ''max_amount_micros''] []) (\<lambda>_.
        bind_ok (required_node P ms ''currency'') (\<lambda>c.
        bind_ok (field_ok (v2_string_field c) valid_iso4217_alpha_v2
          ''max_amount currency must be an ISO-4217 alphabetic code'') (\<lambda>_.
        bind_ok (required_node P ms ''max_amount_micros'') (\<lambda>n. field_ok (v2_integer_field P n) (\<lambda>n. n \<ge> 0)
          ''max_amount_micros must be a nonnegative safe integer''))))
      else if kind = CONSTRAINT_MAX_RATE then
        bind_ok (exact_members P kind ms [''count'', ''window_s''] []) (\<lambda>_.
        bind_ok (required_node P ms ''count'') (\<lambda>n.
        bind_ok (field_ok (v2_integer_field P n) (\<lambda>n. n > 0)
          ''max_rate count must be a positive safe integer'') (\<lambda>_.
        bind_ok (required_node P ms ''window_s'') (\<lambda>n.
          field_ok (v2_integer_field P n) (\<lambda>n. n > 0 \<and> n \<le> V2_MAX_RATE_WINDOW_SECONDS)
            (''max_rate window_s must be an integer in 1..'' @ dec_int V2_MAX_RATE_WINDOW_SECONDS)))))
      else if kind = CONSTRAINT_RESOURCE_PATH then
        bind_ok (exact_members P kind ms [''resource_id''] [''path_prefix'']) (\<lambda>_.
        bind_ok (required_node P ms ''resource_id'') (\<lambda>n.
        bind_ok (field_ok (v2_string_field n) (\<lambda>i. i \<noteq> [] \<and> length i \<le> MAX_IDENTIFIER_LENGTH_BYTES)
          ''resource_path resource_id must be a non-empty string within MAX_IDENTIFIER_LENGTH_BYTES'') (\<lambda>_.
        case map_of ms ''path_prefix'' of None \<Rightarrow> Ok ()
        | Some raw \<Rightarrow> field_ok (v2_string_field raw) (\<lambda>p. p \<noteq> [])
            ''resource_path path_prefix must be a non-empty string when present'')))
      else if kind = CONSTRAINT_RECEIVER_AUDIENCE then
        bind_ok (exact_members P kind ms [''params''] []) (\<lambda>_.
        bind_ok (required_node P ms ''params'') (validate_v2_receiver_audience P))
      else
        reject (length kind > MAX_IDENTIFIER_LENGTH_BYTES)
          ''unregistered constraint type exceeds MAX_IDENTIFIER_LENGTH_BYTES'' (
        bind_ok (exact_members P kind ms [] [''params'']) (\<lambda>_.
        case map_of ms ''params'' of None \<Rightarrow> Ok ()
        | Some raw \<Rightarrow> bind_ok (params_object raw) (\<lambda>po.
            case po of None \<Rightarrow> plain ''unregistered constraint params must be an object''
            | Some params \<Rightarrow> map_err v2_plain (validate_params_value (PObject params) 0)))))"

definition validate_v2_constraint_fields :: "prims \<Rightarrow> jnode \<Rightarrow> unit v2_result" where
  "validate_v2_constraint_fields P n =
     bind_ok (check_v2_nulls n) (\<lambda>_.
     case jn_v n of
       VObj ms \<Rightarrow>
         (case map_option jn_v (map_of ms ''type'') of
            Some (VStr kind) \<Rightarrow>
              if kind \<noteq> [] then validate_members P kind ms else plain ''constraint type must be a non-empty string''
          | _ \<Rightarrow> plain ''constraint type must be a non-empty string'')
     | _ \<Rightarrow> plain ''constraint must be an object'')"

section \<open>The canonical form\<close>

definition constraint_fields :: "constraint_v2 \<Rightarrow> (string \<times> cj) list" where
  "constraint_fields c = (''type'', CStr (cv_kind c)) #
     (if cv_kind c = CONSTRAINT_TIME_WINDOW
      then [(''start'', CStr (cv_start c)), (''end'', CStr (cv_end c)), (''tz'', CStr (cv_tz c))]
      else if cv_kind c = CONSTRAINT_MAX_AMOUNT
      then [(''currency'', CStr (cv_currency c)), (''max_amount_micros'', CInt (cv_max_amount_micros c))]
      else if cv_kind c = CONSTRAINT_MAX_RATE
      then [(''count'', CInt (cv_count c)), (''window_s'', CInt (cv_window_s c))]
      else if cv_kind c = CONSTRAINT_RESOURCE_PATH
      then (''resource_id'', CStr (cv_resource_id c)) #
        (if cv_path_prefix c \<noteq> [] then [(''path_prefix'', CStr (cv_path_prefix c))] else [])
      else case cv_params c of None \<Rightarrow> [] | Some params \<Rightarrow> [(''params'', params_map_cj params)])"

definition constraint_cj :: "prims \<Rightarrow> constraint_v2 \<Rightarrow> cj v2_result" where
  "constraint_cj P c =
     (let value = CObj (constraint_fields c) in
      reject (cv_params c \<noteq> None \<and> is_registered_structured (cv_kind c))
        (''v2 constraint type '' @ debug_str P (cv_kind c) @ '' must not carry params'') (
      bind_ok (canonical P value) (\<lambda>encoded.
      bind_ok (parse_json P encoded) (\<lambda>n.
      bind_ok (validate_v2_constraint_fields P n) (\<lambda>_. Ok value)))))"

definition constraint_canonical_json :: "prims \<Rightarrow> constraint_v2 \<Rightarrow> bytes v2_result" where
  "constraint_canonical_json P c = bind_ok (constraint_cj P c) (canonical P)"

definition constraint_from_node :: "prims \<Rightarrow> jnode \<Rightarrow> constraint_v2 v2_result" where
  "constraint_from_node P n =
     bind_ok (validate_v2_constraint_fields P n) (\<lambda>_.
     bind_ok (obj n) (\<lambda>ob.
     bind_ok (obj_str ob ''type'') (\<lambda>kind.
     let c = default_constraint_v2\<lparr>cv_kind := kind\<rparr> in
     if kind = CONSTRAINT_TIME_WINDOW then
       bind_ok (obj_str ob ''start'') (\<lambda>a. bind_ok (obj_str ob ''end'') (\<lambda>b. bind_ok (obj_str ob ''tz'') (\<lambda>z.
         Ok (c\<lparr>cv_start := a, cv_end := b, cv_tz := z\<rparr>))))
     else if kind = CONSTRAINT_MAX_AMOUNT then
       bind_ok (obj_str ob ''currency'') (\<lambda>a. bind_ok (obj_i64 ob ''max_amount_micros'') (\<lambda>m.
         Ok (c\<lparr>cv_currency := a, cv_max_amount_micros := m\<rparr>)))
     else if kind = CONSTRAINT_MAX_RATE then
       bind_ok (obj_i64 ob ''count'') (\<lambda>k. bind_ok (obj_i64 ob ''window_s'') (\<lambda>w.
         Ok (c\<lparr>cv_count := k, cv_window_s := w\<rparr>)))
     else if kind = CONSTRAINT_RESOURCE_PATH then
       bind_ok (obj_str ob ''resource_id'') (\<lambda>i. bind_ok (obj_str ob ''path_prefix'') (\<lambda>p.
         Ok (c\<lparr>cv_resource_id := i, cv_path_prefix := p\<rparr>)))
     else (case obj_get ob ''params'' of
         None \<Rightarrow> Ok c
       | Some raw \<Rightarrow> bind_ok (params_object raw) (\<lambda>p. Ok (c\<lparr>cv_params := p\<rparr>))))))"

definition decode_constraint_v2 :: "prims \<Rightarrow> bytes \<Rightarrow> constraint_v2 v2_result" where
  "decode_constraint_v2 P data =
     bind_ok (parse_json P data) (\<lambda>n. classify_result Malformed (constraint_from_node P n))"

definition audience_list :: "constraint_v2 \<Rightarrow> string \<Rightarrow> string list" where
  "audience_list c key =
     (case (case cv_params c of Some p \<Rightarrow> map_of p key | None \<Rightarrow> None) of
        Some (PArray items) \<Rightarrow> List.map_filter (\<lambda>i. case i of PStr s \<Rightarrow> Some s | _ \<Rightarrow> None) items
      | _ \<Rightarrow> [])"

definition audience_params :: "constraint_v2 \<Rightarrow> string list \<times> string list \<times> int" where
  "audience_params c =
     (audience_list c ''exact_receiver_ids'', audience_list c ''trust_domain_ids'',
      case (case cv_params c of Some p \<Rightarrow> map_of p ''max_membership_age_seconds'' | None \<Rightarrow> None) of
        Some (PInt n) \<Rightarrow> n | _ \<Rightarrow> 0)"

end
