(* ===== verification/V2_Wire.thy ===== *)
theory V2_Wire
  imports V2_Constraints V2_Receipt
begin

text \<open>
  Delegation certificates, proof bundles, revocation lists and revocation pushes of v2
  (\<open>sdks/rust/src/v2/wire.rs\<close>): decoding, encoding, signing and verification.
\<close>

section \<open>Data\<close>

record delegation_cert_v2 =
  d2_version :: int
  d2_cert_id :: string
  d2_issuer_id :: string
  d2_issuer_pub_key :: hybrid_public_key
  d2_subject_id :: string
  d2_subject_pub_key :: hybrid_public_key
  d2_scope :: "string list"
  d2_constraints :: "constraint_v2 list"
  d2_issued_at :: int
  d2_expires_at :: int
  d2_signature :: hybrid_signature

record proof_bundle_v2 =
  b2_version :: int
  b2_verifier_id :: string
  b2_agent_id :: string
  b2_agent_pub_key :: hybrid_public_key
  b2_delegations :: "delegation_cert_v2 list"
  b2_delegation_digest :: bytes
  b2_challenge :: bytes
  b2_challenge_at :: int
  b2_challenge_sig :: hybrid_signature
  b2_session_context :: "bytes option"
  b2_stream_id :: "bytes option"
  b2_stream_seq :: "int option"

record revoked_cert_v2 = rv_cert_id :: string

record revocation_list_v2 =
  rl2_version :: int
  rl2_issuer_id :: string
  rl2_updated_at :: int
  rl2_next_update :: int
  rl2_sequence :: int
  rl2_revoked :: "revoked_cert_v2 list"
  rl2_signature :: hybrid_signature

record revocation_push_v2 =
  rp2_version :: int
  rp2_issuer_id :: string
  rp2_sequence :: int
  rp2_pushed_at :: int
  rp2_revoked :: "revoked_cert_v2 list"
  rp2_signature :: hybrid_signature

definition DELEGATION_FIELDS :: "string list" where
  "DELEGATION_FIELDS = [''version'', ''cert_id'', ''issuer_id'', ''issuer_pub_key'', ''subject_id'',
     ''subject_pub_key'', ''scope'', ''constraints'', ''issued_at'', ''expires_at'', ''signature'']"

definition BUNDLE_FIELDS :: "string list" where
  "BUNDLE_FIELDS = [''version'', ''verifier_id'', ''agent_id'', ''agent_pub_key'', ''delegations'',
     ''delegation_digest'', ''challenge'', ''challenge_at'', ''challenge_sig'', ''session_context'',
     ''stream_id'', ''stream_seq'']"

definition LIST_FIELDS :: "string list" where
  "LIST_FIELDS = [''version'', ''issuer_id'', ''updated_at'', ''next_update'', ''sequence'', ''revoked'', ''signature'']"

definition PUSH_FIELDS :: "string list" where
  "PUSH_FIELDS = [''version'', ''issuer_id'', ''sequence'', ''pushed_at'', ''revoked'', ''signature'']"

text \<open>\<open>iter().enumerate()\<close> with \<open>?\<close>: the first failing element decides.\<close>

fun each_ok :: "(nat \<Rightarrow> 'a \<Rightarrow> unit v2_result) \<Rightarrow> nat \<Rightarrow> 'a list \<Rightarrow> unit v2_result" where
  "each_ok f i [] = Ok ()"
| "each_ok f i (x # xs) = bind_ok (f i x) (\<lambda>_. each_ok f (Suc i) xs)"

lemma each_ok_Ok: "each_ok f i xs = Ok () \<longleftrightarrow> (\<forall>k<length xs. f (i + k) (xs ! k) = Ok ())"
proof (induction xs arbitrary: i)
  case (Cons x xs)
  show ?case by (auto simp: bind_ok_Ok Cons.IH less_Suc_eq_0_disj all_conj_distrib)
qed simp

section \<open>Certificates\<close>

definition constraints_cj :: "prims \<Rightarrow> constraint_v2 list \<Rightarrow> cj v2_result" where
  "constraints_cj P cs = bind_ok (collect_results (constraint_cj P) cs) (\<lambda>vs. Ok (CArr vs))"

definition validate_signature_lengths :: "hybrid_signature \<Rightarrow> unit v2_result" where
  "validate_signature_lengths sg = reject (\<not> signature_lengths_ok sg) SIGNATURE_LENGTHS (Ok ())"

definition validate_delegation_cert_v2 :: "v2_prims \<Rightarrow> delegation_cert_v2 \<Rightarrow> unit v2_result" where
  "validate_delegation_cert_v2 V c =
     reject (d2_version c \<noteq> 2) ''version must be 2'' (
     reject (\<not> valid_v2_timestamp (d2_issued_at c) \<or> \<not> valid_v2_timestamp (d2_expires_at c))
       (''issued_at and expires_at must be inside 0..'' @ dec_int V2_MAX_TIMESTAMP_SECONDS) (
     reject (d2_cert_id c = [] \<or> length (d2_cert_id c) > MAX_IDENTIFIER_LENGTH_BYTES)
       ''cert_id must be non-empty and within the identifier byte limit'' (
     reject (\<not> valid_v2_id (d2_issuer_id c) \<or> \<not> valid_v2_id (d2_subject_id c))
       ''issuer_id and subject_id must be 64 lowercase hexadecimal characters'' (
     bind_ok (map_err (with_context ''issuer key'') (key_id_v2 V (d2_issuer_pub_key c))) (\<lambda>issuer.
     bind_ok (map_err (with_context ''subject key'') (key_id_v2 V (d2_subject_pub_key c))) (\<lambda>subject.
     reject_as (d2_issuer_id c \<noteq> issuer \<or> d2_subject_id c \<noteq> subject) KeyIdMismatch
       ''key ID does not match complete public key'' (
     reject (list_ex (\<lambda>s. length s > MAX_SCOPE_LENGTH_BYTES) (d2_scope c))
       ''scope exceeds the protocol byte limit'' (
     reject (length (d2_scope c) > MAX_SCOPES_PER_CERT \<or> length (d2_constraints c) > MAX_CONSTRAINTS_PER_CERT)
       ''scope or constraint count exceeds protocol bound'' (
     each_ok (\<lambda>i k. bind_ok (map_err (with_context (''constraint '' @ dec_nat i)) (constraint_cj (v_base V) k)) (\<lambda>_. Ok ()))
       0 (d2_constraints c))))))))))"

definition cert_cj :: "prims \<Rightarrow> delegation_cert_v2 \<Rightarrow> bool \<Rightarrow> cj v2_result" where
  "cert_cj P c with_signature =
     bind_ok (constraints_cj P (d2_constraints c)) (\<lambda>cs. Ok (CObj (
       [(''cert_id'', CStr (d2_cert_id c)), (''constraints'', cs), (''expires_at'', CInt (d2_expires_at c)),
        (''issued_at'', CInt (d2_issued_at c)), (''issuer_id'', CStr (d2_issuer_id c)),
        (''issuer_pub_key'', cj_key (d2_issuer_pub_key c)), (''scope'', cj_strs (d2_scope c)),
        (''subject_id'', CStr (d2_subject_id c)), (''subject_pub_key'', cj_key (d2_subject_pub_key c)),
        (''version'', CInt (d2_version c))]
       @ (if with_signature then [(''signature'', cj_sig (d2_signature c))] else []))))"

definition delegation_cert_v2_signable_bytes :: "v2_prims \<Rightarrow> delegation_cert_v2 \<Rightarrow> bytes v2_result" where
  "delegation_cert_v2_signable_bytes V c = bind_ok (cert_cj (v_base V) c False) (canonical (v_base V))"

fun scope_items :: "nat \<Rightarrow> jnode list \<Rightarrow> unit v2_result" where
  "scope_items i [] = Ok ()"
| "scope_items i (n # ns) =
     (if (case jn_v n of VStr s \<Rightarrow> length s \<le> MAX_SCOPE_LENGTH_BYTES | _ \<Rightarrow> False) then scope_items (Suc i) ns
      else plain (''wire v2: scope '' @ dec_nat i @ '' must be a bounded string''))"

definition validate_v2_scope_array :: "jnode \<Rightarrow> unit v2_result" where
  "validate_v2_scope_array n =
     (case jn_v n of
        VArr items \<Rightarrow>
          reject (length items > MAX_SCOPES_PER_CERT) ''wire v2: scope count exceeds protocol bound'' (scope_items 0 items)
      | _ \<Rightarrow> plain ''wire v2: scope must be an array of strings'')"

definition precheck_cert_node :: "prims \<Rightarrow> jnode \<Rightarrow> unit v2_result" where
  "precheck_cert_node P n =
     bind_ok (obj n) (\<lambda>ob.
     bind_ok (obj_require P ob DELEGATION_FIELDS []) (\<lambda>_.
     case map_option jn_v (obj_get ob ''constraints'') of
       Some (VArr constraints) \<Rightarrow>
         bind_ok (case obj_get ob ''scope'' of
             Some scope \<Rightarrow> validate_v2_scope_array scope
           | None \<Rightarrow> plain (''wire v2: required field '' @ [QUOTE] @ ''scope'' @ [QUOTE] @ '' is missing'')) (\<lambda>_.
         each_ok (\<lambda>i raw. map_err (with_context (''wire v2 constraint '' @ dec_nat i)) (validate_v2_constraint_fields P raw))
           0 constraints)
     | _ \<Rightarrow> plain ''wire v2: constraints must be an array''))"

definition cert_from_node :: "v2_prims \<Rightarrow> jnode \<Rightarrow> delegation_cert_v2 v2_result" where
  "cert_from_node V n =
     bind_ok (obj n) (\<lambda>ob.
     bind_ok (obj_only (v_base V) ob DELEGATION_FIELDS) (\<lambda>_.
     bind_ok (obj_array ob ''constraints'') (\<lambda>raw.
     bind_ok (collect_results (constraint_from_node (v_base V)) raw) (\<lambda>constraints.
     bind_ok (obj_i64 ob ''version'') (\<lambda>version.
     bind_ok (obj_str ob ''cert_id'') (\<lambda>cert_id.
     bind_ok (obj_str ob ''issuer_id'') (\<lambda>issuer_id.
     bind_ok (obj_pub_key V ob ''issuer_pub_key'') (\<lambda>issuer_pub_key.
     bind_ok (obj_str ob ''subject_id'') (\<lambda>subject_id.
     bind_ok (obj_pub_key V ob ''subject_pub_key'') (\<lambda>subject_pub_key.
     bind_ok (obj_str_array ob ''scope'') (\<lambda>scope.
     bind_ok (obj_i64 ob ''issued_at'') (\<lambda>issued_at.
     bind_ok (obj_i64 ob ''expires_at'') (\<lambda>expires_at.
     bind_ok (obj_sig V ob ''signature'') (\<lambda>sg.
     Ok \<lparr>d2_version = version, d2_cert_id = cert_id, d2_issuer_id = issuer_id, d2_issuer_pub_key = issuer_pub_key,
       d2_subject_id = subject_id, d2_subject_pub_key = subject_pub_key, d2_scope = scope,
       d2_constraints = constraints, d2_issued_at = issued_at, d2_expires_at = expires_at, d2_signature = sg\<rparr>))))))))))))))"

definition decode_cert_inner :: "v2_prims \<Rightarrow> bytes \<Rightarrow> delegation_cert_v2 v2_result" where
  "decode_cert_inner V data =
     bind_ok (check_v2_wire_size data ''certificate'' ''MAX_DELEGATION_CERT_BYTES_V2'' MAX_DELEGATION_CERT_BYTES_V2) (\<lambda>_.
     bind_ok (parse_wire V data [] []) (\<lambda>doc.
     bind_ok (precheck_cert_node (v_base V) doc) (\<lambda>_.
     bind_ok (cert_from_node V doc) (\<lambda>cert.
     bind_ok (validate_delegation_cert_v2 V cert) (\<lambda>_.
     bind_ok (validate_signature_lengths (d2_signature cert)) (\<lambda>_. Ok cert))))))"

definition decode_delegation_cert_v2 :: "v2_prims \<Rightarrow> bytes \<Rightarrow> delegation_cert_v2 v2_result" where
  "decode_delegation_cert_v2 V data = classify_result Malformed (decode_cert_inner V data)"

definition encode_delegation_cert_v2 :: "v2_prims \<Rightarrow> delegation_cert_v2 \<Rightarrow> bytes v2_result" where
  "encode_delegation_cert_v2 V c =
     bind_ok (validate_delegation_cert_v2 V c) (\<lambda>_.
     bind_ok (validate_signature_lengths (d2_signature c)) (\<lambda>_.
     bind_ok (bind_ok (cert_cj (v_base V) c True) (canonical (v_base V))) (\<lambda>encoded.
     bind_ok (map_err (with_context ''invalid v2 delegation certificate'') (decode_delegation_cert_v2 V encoded)) (\<lambda>_.
     Ok encoded))))"

definition verify_delegation_cert_v2_signature :: "v2_prims \<Rightarrow> delegation_cert_v2 \<Rightarrow> unit v2_result" where
  "verify_delegation_cert_v2_signature V c =
     bind_ok (classify_result Malformed (validate_delegation_cert_v2 V c)) (\<lambda>_.
     bind_ok (classify_result Malformed (validate_signature_lengths (d2_signature c))) (\<lambda>_.
     bind_ok (classify_result Malformed (delegation_cert_v2_signable_bytes V c)) (\<lambda>signable.
     verify_v2_statement V DelegationCertificate signable (d2_signature c) (d2_issuer_pub_key c))))"

section \<open>Issuance\<close>

text \<open>The loop over the constraints; \<open>resource_id\<close> and \<open>path_prefixes\<close> are those of the ones before.\<close>

fun issuance_paths :: "prims \<Rightarrow> nat \<Rightarrow> string \<Rightarrow> string list \<Rightarrow> constraint_v2 list \<Rightarrow> unit v2_sign_result" where
  "issuance_paths P i resource_id pres [] = Ok ()"
| "issuance_paths P i resource_id pres (c # cs) =
     (if cv_kind c \<noteq> CONSTRAINT_RESOURCE_PATH then issuance_paths P (Suc i) resource_id pres cs
      else case (if cv_path_prefix c \<noteq> [] then err_opt (normalize_resource_path (cv_path_prefix c)) else None) of
          Some e \<Rightarrow> Err (IssuerDuty (''constraint '' @ dec_nat i @ '' path_prefix can never match: '' @ e))
        | None \<Rightarrow>
          if resource_id \<noteq> [] \<and> cv_resource_id c \<noteq> resource_id
          then Err (IssuerDuty (''constraint '' @ dec_nat i @
            '' names a different resource_id; the resource_path set is jointly unsatisfiable''))
          else (case find (\<lambda>p. \<not> resource_paths_nested p (cv_path_prefix c)) pres of
              Some p \<Rightarrow> Err (IssuerDuty (''constraint '' @ dec_nat i @ '' path_prefix '' @ debug_str P (cv_path_prefix c) @
                '' does not nest with '' @ debug_str P p @ ''; the resource_path set is jointly unsatisfiable''))
            | None \<Rightarrow> issuance_paths P (Suc i) (if resource_id = [] then cv_resource_id c else resource_id)
                (pres @ [cv_path_prefix c]) cs))"

definition validate_delegation_issuance_v2 :: "prims \<Rightarrow> delegation_cert_v2 \<Rightarrow> unit v2_sign_result" where
  "validate_delegation_issuance_v2 P cert =
     (if d2_issued_at cert \<ge> d2_expires_at cert
      then Err (IssuerDuty ''issued_at must be earlier than expires_at'')
      else if i64_sub (d2_expires_at cert) (d2_issued_at cert) > V2_MAX_DELEGATION_LIFETIME_SECONDS
      then Err (IssuerDuty (''delegation lifetime exceeds '' @ dec_int V2_MAX_DELEGATION_LIFETIME_SECONDS @ '' seconds''))
      else issuance_paths P 0 [] [] (d2_constraints cert))"

definition sign_delegation_cert_v2_with_signer ::
  "v2_prims \<Rightarrow> v2_context \<Rightarrow> delegation_cert_v2 \<Rightarrow> signer_v2 \<Rightarrow> delegation_cert_v2 v2_sign_result" where
  "sign_delegation_cert_v2_with_signer V ctx cert signer =
     bind_ok (map_err InvalidObject (classify_result Malformed (validate_delegation_cert_v2 V cert))) (\<lambda>_.
     bind_ok (map_err (\<lambda>e. IssuerDuty (''v2 issuer scope: '' @ e_message e)) (validate_scopes_v2 (v_base V) (d2_scope cert))) (\<lambda>_.
     bind_ok (validate_delegation_issuance_v2 (v_base V) cert) (\<lambda>_.
     bind_ok (signer_public_key_v2 V signer) (\<lambda>issuer_pub.
     bind_ok (map_err InvalidObject (classify_result Malformed (key_id_v2 V issuer_pub))) (\<lambda>issuer_id.
     if d2_issuer_id cert \<noteq> issuer_id \<or> \<not> equal_keys (d2_issuer_pub_key cert) issuer_pub
     then Err (KeyBinding ''v2 issuer key does not match certificate issuer'')
     else bind_ok (map_err InvalidObject (encode_delegation_cert_v2 V (cert\<lparr>d2_signature := placeholder_signature\<rparr>))) (\<lambda>unsigned.
     bind_ok (map_err InvalidObject (decode_delegation_cert_v2 V unsigned)) (\<lambda>prepared.
     bind_ok (map_err InvalidObject (delegation_cert_v2_signable_bytes V prepared)) (\<lambda>signable.
     bind_ok (sign_v2_statement_with_signer V ctx DelegationCertificate signable signer issuer_pub) (\<lambda>sg.
     bind_ok (map_err InvalidObject (encode_delegation_cert_v2 V (prepared\<lparr>d2_signature := sg\<rparr>))) (\<lambda>data.
     bind_ok (map_err InvalidObject (decode_delegation_cert_v2 V data)) (\<lambda>signed.
     bind_ok (map_err SignatureRejected
       (verify_v2_statement V DelegationCertificate signable (d2_signature signed) issuer_pub)) (\<lambda>_.
     Ok signed))))))))))))"

definition sign_delegation_cert_v2 ::
  "v2_prims \<Rightarrow> bytes \<Rightarrow> delegation_cert_v2 \<Rightarrow> hybrid_private_key \<Rightarrow> delegation_cert_v2 v2_sign_result" where
  "sign_delegation_cert_v2 V rnd cert issuer_key =
     bind_ok (local_signer V rnd issuer_key) (\<lambda>signer. sign_delegation_cert_v2_with_signer V background cert signer)"

section \<open>Bundles\<close>

definition opt_bytes_cj :: "bytes option \<Rightarrow> cj" where
  "opt_bytes_cj v = (case v of None \<Rightarrow> CNull | Some b \<Rightarrow> CBytes b)"

definition opt_int_cj :: "int option \<Rightarrow> cj" where
  "opt_int_cj v = (case v of None \<Rightarrow> CNull | Some n \<Rightarrow> CInt n)"

definition bundle_cj :: "prims \<Rightarrow> proof_bundle_v2 \<Rightarrow> cj v2_result" where
  "bundle_cj P b =
     bind_ok (collect_results (\<lambda>c. cert_cj P c True) (b2_delegations b)) (\<lambda>cs. Ok (CObj
       [(''agent_id'', CStr (b2_agent_id b)), (''agent_pub_key'', cj_key (b2_agent_pub_key b)),
        (''challenge'', CBytes (b2_challenge b)), (''challenge_at'', CInt (b2_challenge_at b)),
        (''challenge_sig'', cj_sig (b2_challenge_sig b)), (''delegation_digest'', CBytes (b2_delegation_digest b)),
        (''delegations'', CArr cs), (''session_context'', opt_bytes_cj (b2_session_context b)),
        (''stream_id'', opt_bytes_cj (b2_stream_id b)), (''stream_seq'', opt_int_cj (b2_stream_seq b)),
        (''verifier_id'', CStr (b2_verifier_id b)), (''version'', CInt (b2_version b))]))"

definition presentation_cj :: "proof_bundle_v2 \<Rightarrow> cj" where
  "presentation_cj b = CObj
     [(''agent_id'', CStr (b2_agent_id b)), (''agent_pub_key'', cj_key (b2_agent_pub_key b)),
      (''challenge'', CBytes (b2_challenge b)), (''challenge_at'', CInt (b2_challenge_at b)),
      (''delegation_digest'', CBytes (b2_delegation_digest b)), (''session_context'', opt_bytes_cj (b2_session_context b)),
      (''stream_id'', opt_bytes_cj (b2_stream_id b)), (''stream_seq'', opt_int_cj (b2_stream_seq b)),
      (''verifier_id'', CStr (b2_verifier_id b)), (''version'', CInt (b2_version b))]"

definition presentation_v2_signable_bytes :: "v2_prims \<Rightarrow> proof_bundle_v2 \<Rightarrow> bytes v2_result" where
  "presentation_v2_signable_bytes V b = canonical (v_base V) (presentation_cj b)"

definition DELEGATIONS_TAG :: bytes where
  "DELEGATIONS_TAG = str_bytes (''ratify-protocol-delegations-v2'' @ NUL_BYTE)"

definition delegation_digest_v2 :: "v2_prims \<Rightarrow> delegation_cert_v2 list \<Rightarrow> bytes v2_result" where
  "delegation_digest_v2 V certs =
     bind_ok (collect_results (\<lambda>c. cert_cj (v_base V) c True) certs) (\<lambda>cs.
     bind_ok (canonical (v_base V) (CArr cs)) (\<lambda>data. Ok (sha384 V [DELEGATIONS_TAG, data])))"

definition check_stream_pair :: "proof_bundle_v2 \<Rightarrow> bool" where
  "check_stream_pair b =
     (case (b2_stream_id b, b2_stream_seq b) of
        (None, None) \<Rightarrow> True
      | (Some i, Some seq) \<Rightarrow> length i = 32 \<and> seq > 0
      | _ \<Rightarrow> False)"

definition bundle_from_obj :: "v2_prims \<Rightarrow> jobj \<Rightarrow> delegation_cert_v2 list \<Rightarrow> proof_bundle_v2 v2_result" where
  "bundle_from_obj V ob delegations =
     bind_ok (obj_i64 ob ''version'') (\<lambda>version.
     bind_ok (obj_str ob ''verifier_id'') (\<lambda>verifier_id.
     bind_ok (obj_str ob ''agent_id'') (\<lambda>agent_id.
     bind_ok (obj_pub_key V ob ''agent_pub_key'') (\<lambda>agent_pub_key.
     bind_ok (obj_bytes V ob ''delegation_digest'') (\<lambda>delegation_digest.
     bind_ok (obj_bytes V ob ''challenge'') (\<lambda>challenge.
     bind_ok (obj_i64 ob ''challenge_at'') (\<lambda>challenge_at.
     bind_ok (obj_sig V ob ''challenge_sig'') (\<lambda>challenge_sig.
     bind_ok (obj_opt_bytes V ob ''session_context'') (\<lambda>session_context.
     bind_ok (obj_opt_bytes V ob ''stream_id'') (\<lambda>stream_id.
     bind_ok (obj_opt_i64 ob ''stream_seq'') (\<lambda>stream_seq.
     Ok \<lparr>b2_version = version, b2_verifier_id = verifier_id, b2_agent_id = agent_id, b2_agent_pub_key = agent_pub_key,
       b2_delegations = delegations, b2_delegation_digest = delegation_digest, b2_challenge = challenge,
       b2_challenge_at = challenge_at, b2_challenge_sig = challenge_sig, b2_session_context = session_context,
       b2_stream_id = stream_id, b2_stream_seq = stream_seq\<rparr>)))))))))))"

definition check_decoded_bundle :: "v2_prims \<Rightarrow> proof_bundle_v2 \<Rightarrow> unit v2_result" where
  "check_decoded_bundle V b =
     reject (b2_version b \<noteq> 2) ''wire v2: version must be 2'' (
     reject (\<not> valid_v2_id (b2_verifier_id b) \<or> \<not> valid_v2_id (b2_agent_id b))
       ''wire v2: verifier_id and agent_id must be 64 lowercase hexadecimal characters'' (
     reject (length (b2_delegations b) > MAX_DELEGATION_CHAIN_DEPTH)
       ''wire v2: delegation chain exceeds MAX_DELEGATION_CHAIN_DEPTH'' (
     reject (length (b2_challenge b) \<noteq> 32) ''wire v2: challenge must be 32 bytes'' (
     reject (\<not> valid_v2_timestamp (b2_challenge_at b))
       (''wire v2: challenge_at is outside 0..'' @ dec_int V2_MAX_TIMESTAMP_SECONDS) (
     reject (length (b2_delegation_digest b) \<noteq> 48) ''wire v2: delegation_digest must be 48 bytes'' (
     reject (case b2_session_context b of Some s \<Rightarrow> length s \<noteq> 32 | None \<Rightarrow> False)
       ''wire v2: session_context must be null or 32 bytes'' (
     reject ((b2_stream_id b \<noteq> None) \<noteq> (b2_stream_seq b \<noteq> None))
       ''wire v2: stream_id and stream_seq must both be null or both set'' (
     reject (case (b2_stream_id b, b2_stream_seq b) of
         (Some i, Some seq) \<Rightarrow> length i \<noteq> 32 \<or> seq \<le> 0 | _ \<Rightarrow> False)
       ''wire v2: bound stream requires 32-byte stream_id and positive stream_seq'' (
     bind_ok (validate_signature_lengths (b2_challenge_sig b)) (\<lambda>_.
     each_ok (\<lambda>i c.
       bind_ok (map_err (with_context (''wire v2 delegation '' @ dec_nat i)) (validate_delegation_cert_v2 V c)) (\<lambda>_.
         map_err (with_context (''wire v2 delegation '' @ dec_nat i)) (validate_signature_lengths (d2_signature c))))
       0 (b2_delegations b)))))))))))"

definition decode_bundle_inner :: "v2_prims \<Rightarrow> bytes \<Rightarrow> proof_bundle_v2 v2_result" where
  "decode_bundle_inner V data =
     bind_ok (check_v2_wire_size data ''proof bundle'' ''MAX_PROOF_BUNDLE_BYTES_V2'' MAX_PROOF_BUNDLE_BYTES_V2) (\<lambda>_.
     bind_ok (parse_wire V data [''delegation_digest''] []) (\<lambda>doc.
     bind_ok (obj doc) (\<lambda>ob.
     bind_ok (obj_require (v_base V) ob BUNDLE_FIELDS [''session_context'', ''stream_id'', ''stream_seq'']) (\<lambda>_.
     case map_option jn_v (obj_get ob ''delegations'') of
       Some (VArr raw_certs) \<Rightarrow>
         bind_ok (each_ok (\<lambda>i raw. map_err (with_context (''wire v2 delegation '' @ dec_nat i))
             (precheck_cert_node (v_base V) raw)) 0 raw_certs) (\<lambda>_.
         bind_ok (obj_only (v_base V) ob BUNDLE_FIELDS) (\<lambda>_.
         bind_ok (collect_results (cert_from_node V) raw_certs) (\<lambda>delegations.
         bind_ok (bundle_from_obj V ob delegations) (\<lambda>bundle.
         bind_ok (check_decoded_bundle V bundle) (\<lambda>_. Ok bundle)))))
     | _ \<Rightarrow> plain ''wire v2: delegations must be an array''))))"

definition decode_proof_bundle_v2 :: "v2_prims \<Rightarrow> bytes \<Rightarrow> proof_bundle_v2 v2_result" where
  "decode_proof_bundle_v2 V data = classify_result Malformed (decode_bundle_inner V data)"

definition encode_proof_bundle_v2 :: "v2_prims \<Rightarrow> proof_bundle_v2 \<Rightarrow> bytes v2_result" where
  "encode_proof_bundle_v2 V b =
     bind_ok (bind_ok (bundle_cj (v_base V) b) (canonical (v_base V))) (\<lambda>encoded.
     bind_ok (map_err (with_context ''invalid v2 proof bundle'') (decode_proof_bundle_v2 V encoded)) (\<lambda>_.
     Ok encoded))"

definition BUNDLE_TAG :: bytes where
  "BUNDLE_TAG = str_bytes (''ratify-protocol-bundle-v2'' @ NUL_BYTE)"

definition bundle_hash_of_bytes :: "v2_prims \<Rightarrow> bytes \<Rightarrow> string" where
  "bundle_hash_of_bytes V encoded = ''sha384:'' @ p_hex (v_base V) (sha384 V [BUNDLE_TAG, encoded])"

definition bundle_hash_v2 :: "v2_prims \<Rightarrow> proof_bundle_v2 \<Rightarrow> string v2_result" where
  "bundle_hash_v2 V b = bind_ok (encode_proof_bundle_v2 V b) (\<lambda>encoded. Ok (bundle_hash_of_bytes V encoded))"

text \<open>The links of the chain; \<open>seen\<close> holds the references of the certificates before.\<close>

fun check_links :: "nat \<Rightarrow> (string \<times> string) list \<Rightarrow> delegation_cert_v2 list \<Rightarrow> unit v2_result" where
  "check_links i seen [] = Ok ()"
| "check_links i seen (c # cs) =
     (if (d2_issuer_id c, d2_cert_id c) \<in> set seen then err DuplicateCertificateRef ''duplicate delegation reference''
      else if (case cs of
          parent # _ \<Rightarrow> d2_issuer_id c \<noteq> d2_subject_id parent \<or> \<not> equal_keys (d2_issuer_pub_key c) (d2_subject_pub_key parent)
        | [] \<Rightarrow> False)
      then err ChainLinkageMismatch (''delegation chain link '' @ dec_nat i @ '' does not match parent subject'')
      else check_links (Suc i) (seen @ [(d2_issuer_id c, d2_cert_id c)]) cs)"

definition verify_proof_bundle_v2_structure :: "v2_prims \<Rightarrow> proof_bundle_v2 \<Rightarrow> unit v2_result" where
  "verify_proof_bundle_v2_structure V b =
     reject_as (b2_version b \<noteq> 2) Malformed ''v2 proof bundle version must be 2'' (
     reject_as (length (b2_delegations b) > MAX_DELEGATION_CHAIN_DEPTH \<or> length (b2_challenge b) \<noteq> 32
         \<or> length (b2_delegation_digest b) \<noteq> 48) Malformed
       ''v2 proof bundle exceeds a chain bound or has an invalid challenge/digest length'' (
     reject_as (case b2_stream_seq b of Some n \<Rightarrow> n > MAX_SAFE | None \<Rightarrow> False) Malformed
       ''v2 stream sequence exceeds the safe integer range'' (
     reject_as (case b2_session_context b of Some s \<Rightarrow> length s \<noteq> 32 | None \<Rightarrow> False) Malformed
       ''v2 session_context must be null or 32 bytes'' (
     reject_as (\<not> check_stream_pair b) Malformed
       ''v2 stream_id and stream_seq must both be null or a 32-byte ID and positive sequence'' (
     reject_as (\<not> valid_v2_id (b2_agent_id b) \<or> \<not> valid_v2_id (b2_verifier_id b)) Malformed
       ''v2 verifier and agent IDs must be canonical'' (
     bind_ok (classify_result Malformed (key_id_v2 V (b2_agent_pub_key b))) (\<lambda>agent_id.
     reject_as (agent_id \<noteq> b2_agent_id b) KeyIdMismatch ''agent_id does not match agent_pub_key'' (
     bind_ok (each_ok (\<lambda>i c. classify_result Malformed
         (map_err (with_context (''delegation '' @ dec_nat i)) (validate_delegation_cert_v2 V c))) 0 (b2_delegations b)) (\<lambda>_.
     bind_ok (classify_result Malformed (delegation_digest_v2 V (b2_delegations b))) (\<lambda>digest.
     reject_as (digest \<noteq> b2_delegation_digest b) DelegationDigestMismatch ''delegation_digest mismatch'' (
     bind_ok (check_links 0 [] (b2_delegations b)) (\<lambda>_.
     case b2_delegations b of
       [] \<Rightarrow> Ok ()
     | leaf # _ \<Rightarrow>
         reject_as (d2_subject_id leaf \<noteq> b2_agent_id b \<or> \<not> equal_keys (d2_subject_pub_key leaf) (b2_agent_pub_key b))
           ChainLinkageMismatch ''agent key does not match leaf delegation subject'' (Ok ())))))))))))))"

definition verify_proof_bundle_v2_signatures :: "v2_prims \<Rightarrow> proof_bundle_v2 \<Rightarrow> unit v2_result" where
  "verify_proof_bundle_v2_signatures V b =
     bind_ok (verify_proof_bundle_v2_structure V b) (\<lambda>_.
     bind_ok (each_ok (\<lambda>i c.
       bind_ok (classify_result Malformed (delegation_cert_v2_signable_bytes V c)) (\<lambda>signable.
       map_err (with_context (''delegation '' @ dec_nat i @ '' signature''))
         (verify_v2_statement V DelegationCertificate signable (d2_signature c) (d2_issuer_pub_key c)))) 0 (b2_delegations b)) (\<lambda>_.
     bind_ok (classify_result Malformed (presentation_v2_signable_bytes V b)) (\<lambda>signable.
     verify_v2_statement V ChallengePresentation signable (b2_challenge_sig b) (b2_agent_pub_key b))))"

definition sign_proof_bundle_v2_with_signer ::
  "v2_prims \<Rightarrow> v2_context \<Rightarrow> proof_bundle_v2 \<Rightarrow> signer_v2 \<Rightarrow> proof_bundle_v2 v2_sign_result" where
  "sign_proof_bundle_v2_with_signer V ctx bundle signer =
     bind_ok (signer_public_key_v2 V signer) (\<lambda>agent_pub.
     bind_ok (map_err InvalidObject (classify_result Malformed (key_id_v2 V agent_pub))) (\<lambda>agent_id.
     if b2_agent_id bundle \<noteq> agent_id \<or> \<not> equal_keys (b2_agent_pub_key bundle) agent_pub
     then Err (KeyBinding ''v2 agent key does not match proof bundle agent'')
     else bind_ok (map_err InvalidObject (encode_proof_bundle_v2 V
         (bundle\<lparr>b2_challenge_sig := placeholder_signature, b2_delegation_digest := replicate 48 0\<rparr>))) (\<lambda>unsigned.
     bind_ok (map_err InvalidObject (decode_proof_bundle_v2 V unsigned)) (\<lambda>decoded.
     bind_ok (map_err InvalidObject (delegation_digest_v2 V (b2_delegations decoded))) (\<lambda>digest.
     let prepared = decoded\<lparr>b2_delegation_digest := digest\<rparr> in
     bind_ok (map_err InvalidObject (presentation_v2_signable_bytes V prepared)) (\<lambda>signable.
     bind_ok (sign_v2_statement_with_signer V ctx ChallengePresentation signable signer agent_pub) (\<lambda>sg.
     bind_ok (map_err InvalidObject (encode_proof_bundle_v2 V (prepared\<lparr>b2_challenge_sig := sg\<rparr>))) (\<lambda>data.
     bind_ok (map_err InvalidObject (decode_proof_bundle_v2 V data)) (\<lambda>signed.
     bind_ok (map_err SignatureRejected (verify_proof_bundle_v2_signatures V signed)) (\<lambda>_.
     Ok signed))))))))))"

definition sign_proof_bundle_v2 ::
  "v2_prims \<Rightarrow> bytes \<Rightarrow> proof_bundle_v2 \<Rightarrow> hybrid_private_key \<Rightarrow> proof_bundle_v2 v2_sign_result" where
  "sign_proof_bundle_v2 V rnd bundle agent_key =
     bind_ok (local_signer V rnd agent_key) (\<lambda>signer. sign_proof_bundle_v2_with_signer V background bundle signer)"


section \<open>Revocation lists and pushes\<close>

fun validate_revoked_from :: "string list \<Rightarrow> revoked_cert_v2 list \<Rightarrow> unit v2_result" where
  "validate_revoked_from seen [] = Ok ()"
| "validate_revoked_from seen (r # rs) =
     reject (rv_cert_id r = [] \<or> rv_cert_id r \<in> set seen) ''v2 revoked cert IDs must be non-empty and unique'' (
     reject (length (rv_cert_id r) > MAX_IDENTIFIER_LENGTH_BYTES)
       (''v2 revoked cert ID exceeds '' @ dec_nat MAX_IDENTIFIER_LENGTH_BYTES @ '' bytes'') (
     validate_revoked_from (rv_cert_id r # seen) rs))"

definition validate_revoked :: "revoked_cert_v2 list \<Rightarrow> unit v2_result" where
  "validate_revoked refs = validate_revoked_from [] refs"

definition validate_revocation_list_v2 :: "revocation_list_v2 \<Rightarrow> unit v2_result" where
  "validate_revocation_list_v2 l =
     reject (rl2_version l \<noteq> 2 \<or> \<not> valid_v2_id (rl2_issuer_id l) \<or> rl2_sequence l \<le> 0 \<or> rl2_sequence l > MAX_SAFE
         \<or> \<not> valid_v2_timestamp (rl2_updated_at l) \<or> \<not> valid_v2_timestamp (rl2_next_update l)
         \<or> rl2_next_update l \<le> rl2_updated_at l)
       ''v2 revocation list has invalid version, issuer, sequence, or time bounds'' (
     reject (length (rl2_revoked l) > MAX_REVOCATION_LIST_REFS_V2)
       (''v2 revocation list exceeds MAX_REVOCATION_LIST_REFS_V2 ('' @ dec_nat MAX_REVOCATION_LIST_REFS_V2 @ '')'') (
     validate_revoked (rl2_revoked l)))"

definition validate_revocation_push_v2 :: "revocation_push_v2 \<Rightarrow> unit v2_result" where
  "validate_revocation_push_v2 p =
     reject (rp2_version p \<noteq> 2 \<or> \<not> valid_v2_id (rp2_issuer_id p) \<or> rp2_sequence p \<le> 0 \<or> rp2_sequence p > MAX_SAFE
         \<or> \<not> valid_v2_timestamp (rp2_pushed_at p))
       ''v2 revocation push has invalid version, issuer, sequence, or timestamp'' (
     reject (length (rp2_revoked p) > MAX_REVOCATION_PUSH_REFS_V2)
       (''v2 revocation push exceeds MAX_REVOCATION_PUSH_REFS_V2 ('' @ dec_nat MAX_REVOCATION_PUSH_REFS_V2 @ '')'') (
     validate_revoked (rp2_revoked p)))"

definition revoked_cj :: "revoked_cert_v2 list \<Rightarrow> cj" where
  "revoked_cj refs = CArr (map (\<lambda>r. CObj [(''cert_id'', CStr (rv_cert_id r))]) refs)"

definition list_cj :: "revocation_list_v2 \<Rightarrow> bool \<Rightarrow> cj" where
  "list_cj l with_signature = CObj (
     [(''issuer_id'', CStr (rl2_issuer_id l)), (''next_update'', CInt (rl2_next_update l)),
      (''revoked'', revoked_cj (rl2_revoked l)), (''sequence'', CInt (rl2_sequence l)),
      (''updated_at'', CInt (rl2_updated_at l)), (''version'', CInt (rl2_version l))]
     @ (if with_signature then [(''signature'', cj_sig (rl2_signature l))] else []))"

definition push_cj :: "revocation_push_v2 \<Rightarrow> bool \<Rightarrow> cj" where
  "push_cj p with_signature = CObj (
     [(''issuer_id'', CStr (rp2_issuer_id p)), (''pushed_at'', CInt (rp2_pushed_at p)),
      (''revoked'', revoked_cj (rp2_revoked p)), (''sequence'', CInt (rp2_sequence p)),
      (''version'', CInt (rp2_version p))]
     @ (if with_signature then [(''signature'', cj_sig (rp2_signature p))] else []))"

definition revocation_list_v2_signable_bytes :: "v2_prims \<Rightarrow> revocation_list_v2 \<Rightarrow> bytes v2_result" where
  "revocation_list_v2_signable_bytes V l =
     bind_ok (validate_revocation_list_v2 l) (\<lambda>_. canonical (v_base V) (list_cj l False))"

definition revocation_push_v2_signable_bytes :: "v2_prims \<Rightarrow> revocation_push_v2 \<Rightarrow> bytes v2_result" where
  "revocation_push_v2_signable_bytes V p =
     bind_ok (validate_revocation_push_v2 p) (\<lambda>_. canonical (v_base V) (push_cj p False))"

definition revoked_item :: "prims \<Rightarrow> jnode \<Rightarrow> revoked_cert_v2 v2_result" where
  "revoked_item P n =
     (if is_null n then Ok \<lparr>rv_cert_id = ''''\<rparr>
      else bind_ok (obj n) (\<lambda>e. bind_ok (obj_only P e [''cert_id'']) (\<lambda>_.
        bind_ok (obj_str e ''cert_id'') (\<lambda>i. Ok \<lparr>rv_cert_id = i\<rparr>))))"

definition revoked_from :: "prims \<Rightarrow> jobj \<Rightarrow> revoked_cert_v2 list v2_result" where
  "revoked_from P ob = bind_ok (obj_array ob ''revoked'') (collect_results (revoked_item P))"

text \<open>The members of a list or push; \<open>sg\<close> reads the signature, or gives the empty one of a signable body.\<close>

definition list_from :: "v2_prims \<Rightarrow> jobj \<Rightarrow> hybrid_signature v2_result \<Rightarrow> revocation_list_v2 v2_result" where
  "list_from V ob sg =
     bind_ok (obj_i64 ob ''version'') (\<lambda>version.
     bind_ok (obj_str ob ''issuer_id'') (\<lambda>issuer_id.
     bind_ok (obj_i64 ob ''updated_at'') (\<lambda>updated_at.
     bind_ok (obj_i64 ob ''next_update'') (\<lambda>next_update.
     bind_ok (obj_i64 ob ''sequence'') (\<lambda>sequence.
     bind_ok (revoked_from (v_base V) ob) (\<lambda>revoked.
     bind_ok sg (\<lambda>signature.
     Ok \<lparr>rl2_version = version, rl2_issuer_id = issuer_id, rl2_updated_at = updated_at,
       rl2_next_update = next_update, rl2_sequence = sequence, rl2_revoked = revoked, rl2_signature = signature\<rparr>)))))))"

definition push_from :: "v2_prims \<Rightarrow> jobj \<Rightarrow> hybrid_signature v2_result \<Rightarrow> revocation_push_v2 v2_result" where
  "push_from V ob sg =
     bind_ok (obj_i64 ob ''version'') (\<lambda>version.
     bind_ok (obj_str ob ''issuer_id'') (\<lambda>issuer_id.
     bind_ok (obj_i64 ob ''sequence'') (\<lambda>sequence.
     bind_ok (obj_i64 ob ''pushed_at'') (\<lambda>pushed_at.
     bind_ok (revoked_from (v_base V) ob) (\<lambda>revoked.
     bind_ok sg (\<lambda>signature.
     Ok \<lparr>rp2_version = version, rp2_issuer_id = issuer_id, rp2_sequence = sequence, rp2_pushed_at = pushed_at,
       rp2_revoked = revoked, rp2_signature = signature\<rparr>))))))"

definition NO_SIGNATURE :: hybrid_signature where
  "NO_SIGNATURE = \<lparr>sig_ed25519 = [], sig_ml_dsa_65 = []\<rparr>"

definition validate_revocation_list_signable_body :: "v2_prims \<Rightarrow> bytes \<Rightarrow> unit v2_result" where
  "validate_revocation_list_signable_body V body =
     map_err (with_context ''revocation list signable body'') (
     bind_ok (parse_wire V body [] []) (\<lambda>doc.
     bind_ok (obj doc) (\<lambda>ob.
     bind_ok (obj_require (v_base V) ob (take 6 LIST_FIELDS) []) (\<lambda>_.
     bind_ok (obj_only (v_base V) ob (take 6 LIST_FIELDS)) (\<lambda>_.
     bind_ok (list_from V ob (Ok NO_SIGNATURE)) (\<lambda>l.
     bind_ok (revocation_list_v2_signable_bytes V l) (\<lambda>c.
     reject (c \<noteq> body) ''must use RatifyCanonicalJSON'' (Ok ()))))))))"

definition validate_revocation_push_signable_body :: "v2_prims \<Rightarrow> bytes \<Rightarrow> unit v2_result" where
  "validate_revocation_push_signable_body V body =
     map_err (with_context ''revocation push signable body'') (
     bind_ok (parse_wire V body [] []) (\<lambda>doc.
     bind_ok (obj doc) (\<lambda>ob.
     bind_ok (obj_require (v_base V) ob (take 5 PUSH_FIELDS) []) (\<lambda>_.
     bind_ok (obj_only (v_base V) ob (take 5 PUSH_FIELDS)) (\<lambda>_.
     bind_ok (push_from V ob (Ok NO_SIGNATURE)) (\<lambda>p.
     bind_ok (revocation_push_v2_signable_bytes V p) (\<lambda>c.
     reject (c \<noteq> body) ''must use RatifyCanonicalJSON'' (Ok ()))))))))"

definition decode_revocation_list_v2 :: "v2_prims \<Rightarrow> bytes \<Rightarrow> revocation_list_v2 v2_result" where
  "decode_revocation_list_v2 V data = classify_result Malformed (
     bind_ok (check_v2_wire_size data ''revocation list'' ''MAX_REVOCATION_LIST_BYTES_V2'' MAX_REVOCATION_LIST_BYTES_V2) (\<lambda>_.
     bind_ok (parse_wire V data [] []) (\<lambda>doc.
     bind_ok (obj doc) (\<lambda>ob.
     bind_ok (obj_require (v_base V) ob LIST_FIELDS []) (\<lambda>_.
     bind_ok (obj_only (v_base V) ob LIST_FIELDS) (\<lambda>_.
     bind_ok (list_from V ob (obj_sig V ob ''signature'')) (\<lambda>l.
     bind_ok (validate_revocation_list_v2 l) (\<lambda>_.
     bind_ok (validate_signature_lengths (rl2_signature l)) (\<lambda>_. Ok l)))))))))"

definition decode_revocation_push_v2 :: "v2_prims \<Rightarrow> bytes \<Rightarrow> revocation_push_v2 v2_result" where
  "decode_revocation_push_v2 V data = classify_result Malformed (
     bind_ok (check_v2_wire_size data ''revocation push'' ''MAX_REVOCATION_PUSH_BYTES_V2'' MAX_REVOCATION_PUSH_BYTES_V2) (\<lambda>_.
     bind_ok (parse_wire V data [] []) (\<lambda>doc.
     bind_ok (obj doc) (\<lambda>ob.
     bind_ok (obj_require (v_base V) ob PUSH_FIELDS []) (\<lambda>_.
     bind_ok (obj_only (v_base V) ob PUSH_FIELDS) (\<lambda>_.
     bind_ok (push_from V ob (obj_sig V ob ''signature'')) (\<lambda>p.
     bind_ok (validate_revocation_push_v2 p) (\<lambda>_.
     bind_ok (validate_signature_lengths (rp2_signature p)) (\<lambda>_. Ok p)))))))))"

definition encode_revocation_list_v2 :: "v2_prims \<Rightarrow> revocation_list_v2 \<Rightarrow> bytes v2_result" where
  "encode_revocation_list_v2 V l =
     bind_ok (validate_revocation_list_v2 l) (\<lambda>_.
     bind_ok (validate_signature_lengths (rl2_signature l)) (\<lambda>_.
     bind_ok (canonical (v_base V) (list_cj l True)) (\<lambda>encoded.
     bind_ok (decode_revocation_list_v2 V encoded) (\<lambda>_. Ok encoded))))"

definition encode_revocation_push_v2 :: "v2_prims \<Rightarrow> revocation_push_v2 \<Rightarrow> bytes v2_result" where
  "encode_revocation_push_v2 V p =
     bind_ok (validate_revocation_push_v2 p) (\<lambda>_.
     bind_ok (validate_signature_lengths (rp2_signature p)) (\<lambda>_.
     bind_ok (canonical (v_base V) (push_cj p True)) (\<lambda>encoded.
     bind_ok (decode_revocation_push_v2 V encoded) (\<lambda>_. Ok encoded))))"

definition verify_revocation_list_v2_signature ::
  "v2_prims \<Rightarrow> revocation_list_v2 \<Rightarrow> string \<Rightarrow> hybrid_public_key \<Rightarrow> unit v2_result" where
  "verify_revocation_list_v2_signature V l trusted_issuer_id status_key =
     bind_ok (classify_result Malformed (validate_revocation_list_v2 l)) (\<lambda>_.
     reject_as (trusted_issuer_id \<noteq> rl2_issuer_id l) StatusKeyBindingMismatch
       ''v2 revocation list issuer does not match authenticated status-key binding'' (
     bind_ok (revocation_list_v2_signable_bytes V l) (\<lambda>signable.
     verify_v2_statement V RevocationList signable (rl2_signature l) status_key)))"

definition verify_revocation_push_v2_signature ::
  "v2_prims \<Rightarrow> revocation_push_v2 \<Rightarrow> string \<Rightarrow> hybrid_public_key \<Rightarrow> unit v2_result" where
  "verify_revocation_push_v2_signature V p trusted_issuer_id status_key =
     bind_ok (classify_result Malformed (validate_revocation_push_v2 p)) (\<lambda>_.
     reject_as (trusted_issuer_id \<noteq> rp2_issuer_id p) StatusKeyBindingMismatch
       ''v2 revocation push issuer does not match authenticated status-key binding'' (
     bind_ok (revocation_push_v2_signable_bytes V p) (\<lambda>signable.
     verify_v2_statement V RevocationPush signable (rp2_signature p) status_key)))"

definition check_status_signer ::
  "v2_prims \<Rightarrow> string \<Rightarrow> string \<Rightarrow> hybrid_public_key \<Rightarrow> signer_v2 \<Rightarrow> hybrid_public_key v2_sign_result" where
  "check_status_signer V issuer_id bound_issuer_id bound_status_key signer =
     (if bound_issuer_id = [] \<or> issuer_id \<noteq> bound_issuer_id
      then Err (InvalidObject (v2_new StatusKeyBindingMismatch
        ''status object issuer does not match caller-authenticated status-key binding''))
      else bind_ok (signer_public_key_v2 V signer) (\<lambda>derived.
        if \<not> equal_keys derived bound_status_key
        then Err (InvalidObject (v2_new StatusKeyBindingMismatch
          ''status key does not match caller-authenticated issuer status-key binding''))
        else Ok derived))"

definition sign_revocation_list_v2_with_signer ::
  "v2_prims \<Rightarrow> v2_context \<Rightarrow> revocation_list_v2 \<Rightarrow> string \<Rightarrow> hybrid_public_key \<Rightarrow> signer_v2
    \<Rightarrow> revocation_list_v2 v2_sign_result" where
  "sign_revocation_list_v2_with_signer V ctx l bound_issuer_id bound_status_key signer =
     bind_ok (map_err InvalidObject (classify_result Malformed (validate_revocation_list_v2 l))) (\<lambda>_.
     bind_ok (check_status_signer V (rl2_issuer_id l) bound_issuer_id bound_status_key signer) (\<lambda>status_pub.
     bind_ok (map_err InvalidObject (encode_revocation_list_v2 V (l\<lparr>rl2_signature := placeholder_signature\<rparr>))) (\<lambda>unsigned.
     bind_ok (map_err InvalidObject (decode_revocation_list_v2 V unsigned)) (\<lambda>prepared.
     bind_ok (map_err InvalidObject (revocation_list_v2_signable_bytes V prepared)) (\<lambda>signable.
     bind_ok (sign_v2_statement_with_signer V ctx RevocationList signable signer status_pub) (\<lambda>sg.
     bind_ok (map_err InvalidObject (encode_revocation_list_v2 V (prepared\<lparr>rl2_signature := sg\<rparr>))) (\<lambda>data.
     bind_ok (map_err InvalidObject (decode_revocation_list_v2 V data)) (\<lambda>signed_list.
     bind_ok (map_err SignatureRejected
       (verify_revocation_list_v2_signature V signed_list bound_issuer_id bound_status_key)) (\<lambda>_.
     Ok signed_list)))))))))"

definition sign_revocation_list_v2 ::
  "v2_prims \<Rightarrow> bytes \<Rightarrow> revocation_list_v2 \<Rightarrow> string \<Rightarrow> hybrid_public_key \<Rightarrow> hybrid_private_key
    \<Rightarrow> revocation_list_v2 v2_sign_result" where
  "sign_revocation_list_v2 V rnd l bound_issuer_id bound_status_key status_key =
     bind_ok (local_signer V rnd status_key) (\<lambda>signer.
     sign_revocation_list_v2_with_signer V background l bound_issuer_id bound_status_key signer)"

definition sign_revocation_push_v2_with_signer ::
  "v2_prims \<Rightarrow> v2_context \<Rightarrow> revocation_push_v2 \<Rightarrow> string \<Rightarrow> hybrid_public_key \<Rightarrow> signer_v2
    \<Rightarrow> revocation_push_v2 v2_sign_result" where
  "sign_revocation_push_v2_with_signer V ctx p bound_issuer_id bound_status_key signer =
     bind_ok (map_err InvalidObject (classify_result Malformed (validate_revocation_push_v2 p))) (\<lambda>_.
     bind_ok (check_status_signer V (rp2_issuer_id p) bound_issuer_id bound_status_key signer) (\<lambda>status_pub.
     bind_ok (map_err InvalidObject (encode_revocation_push_v2 V (p\<lparr>rp2_signature := placeholder_signature\<rparr>))) (\<lambda>unsigned.
     bind_ok (map_err InvalidObject (decode_revocation_push_v2 V unsigned)) (\<lambda>prepared.
     bind_ok (map_err InvalidObject (revocation_push_v2_signable_bytes V prepared)) (\<lambda>signable.
     bind_ok (sign_v2_statement_with_signer V ctx RevocationPush signable signer status_pub) (\<lambda>sg.
     bind_ok (map_err InvalidObject (encode_revocation_push_v2 V (prepared\<lparr>rp2_signature := sg\<rparr>))) (\<lambda>data.
     bind_ok (map_err InvalidObject (decode_revocation_push_v2 V data)) (\<lambda>signed_push.
     bind_ok (map_err SignatureRejected
       (verify_revocation_push_v2_signature V signed_push bound_issuer_id bound_status_key)) (\<lambda>_.
     Ok signed_push)))))))))"

definition sign_revocation_push_v2 ::
  "v2_prims \<Rightarrow> bytes \<Rightarrow> revocation_push_v2 \<Rightarrow> string \<Rightarrow> hybrid_public_key \<Rightarrow> hybrid_private_key
    \<Rightarrow> revocation_push_v2 v2_sign_result" where
  "sign_revocation_push_v2 V rnd p bound_issuer_id bound_status_key status_key =
     bind_ok (local_signer V rnd status_key) (\<lambda>signer.
     sign_revocation_push_v2_with_signer V background p bound_issuer_id bound_status_key signer)"

section \<open>Status evidence digests\<close>

definition STATUS_EVIDENCE_TAG :: bytes where
  "STATUS_EVIDENCE_TAG = str_bytes (''ratify-protocol-status-evidence-v2'' @ NUL_BYTE)"

definition status_digest :: "v2_prims \<Rightarrow> int \<Rightarrow> bytes \<Rightarrow> bytes" where
  "status_digest V c encoded = sha384 V [STATUS_EVIDENCE_TAG, be16 c, encoded]"

definition status_evidence_digest_list_v2 :: "v2_prims \<Rightarrow> revocation_list_v2 \<Rightarrow> bytes v2_result" where
  "status_evidence_digest_list_v2 V l =
     bind_ok (encode_revocation_list_v2 V l) (\<lambda>encoded. Ok (status_digest V 0x0003 encoded))"

definition status_evidence_digest_push_v2 :: "v2_prims \<Rightarrow> revocation_push_v2 \<Rightarrow> bytes v2_result" where
  "status_evidence_digest_push_v2 V p =
     bind_ok (encode_revocation_push_v2 V p) (\<lambda>encoded. Ok (status_digest V 0x0005 encoded))"

datatype status_evidence_object_v2 = StatusList revocation_list_v2 | StatusPush revocation_push_v2

definition status_evidence_digest_v2 :: "v2_prims \<Rightarrow> int \<Rightarrow> status_evidence_object_v2 \<Rightarrow> bytes v2_result" where
  "status_evidence_digest_v2 V object_type evidence =
     (if object_type = 0x0003 then
        (case evidence of StatusList l \<Rightarrow> status_evidence_digest_list_v2 V l
         | StatusPush _ \<Rightarrow> plain ''status evidence type 0x0003 requires RevocationListV2'')
      else if object_type = 0x0005 then
        (case evidence of StatusPush p \<Rightarrow> status_evidence_digest_push_v2 V p
         | StatusList _ \<Rightarrow> plain ''status evidence type 0x0005 requires RevocationPushV2'')
      else err UnsupportedObjectType (''unsupported status evidence object type: '' @ hex04 object_type))"

end
