(* ===== verification/V2_Rotation.thy ===== *)
theory V2_Rotation
  imports V2_Wire V2_Witness
begin

text \<open>
  Key rotation (\<open>sdks/rust/src/v2/rotation.rs\<close>): statements signed by the old key (0x0004) and the new
  key (0x0009), \<open>StatementBodyDigestV2\<close>, and the journal that accepts them.  A frozen journal stays
  frozen until a recovery raises the epoch.
\<close>

section \<open>Data\<close>

record key_rotation_statement_v2 =
  kr_version :: int
  kr_authority_id :: string
  kr_recovery_epoch :: int
  kr_role :: string
  kr_sequence :: int
  kr_previous_statement_hash :: bytes
  kr_old_key :: hybrid_public_key
  kr_new_key :: hybrid_public_key
  kr_old_key_id :: string
  kr_new_key_id :: string
  kr_issued_at :: int
  kr_not_before :: int
  kr_old_signature :: hybrid_signature
  kr_new_signature :: hybrid_signature

record key_rotation_v2_state =
  ks_authority_id :: string
  ks_recovery_epoch :: int
  ks_role :: string
  ks_sequence :: int
  ks_head_hash :: bytes
  ks_current_key :: hybrid_public_key
  ks_used_key_ids :: "string list"

record key_rotation_v2_accepted_entry =
  ka_sequence :: int
  ka_body_digest :: bytes
  ka_old_key :: hybrid_public_key

record key_rotation_v2_journal =
  kj_state :: key_rotation_v2_state
  kj_accepted :: "key_rotation_v2_accepted_entry list"
  kj_frozen :: bool

definition ROTATION_FIELDS :: "string list" where
  "ROTATION_FIELDS = [''version'', ''authority_id'', ''recovery_epoch'', ''role'', ''sequence'',
     ''previous_statement_hash'', ''old_key'', ''new_key'', ''old_key_id'', ''new_key_id'', ''issued_at'',
     ''not_before'', ''old_signature'', ''new_signature'']"

definition valid_role :: "string \<Rightarrow> bool" where
  "valid_role role \<longleftrightarrow> role = ''organization_root'' \<or> role = ''issuer'' \<or> role = ''agent''"

section \<open>Statements\<close>

definition sig_len :: "hybrid_signature \<Rightarrow> unit v2_result" where
  "sig_len sg = reject (\<not> signature_lengths_ok sg)
     ''signature must contain 64-byte Ed25519 and 3309-byte ML-DSA-65 components'' (Ok ())"

definition validate_statement :: "v2_prims \<Rightarrow> key_rotation_statement_v2 \<Rightarrow> bool \<Rightarrow> unit v2_result" where
  "validate_statement V s signatures =
     (let zero = all_zero (kr_previous_statement_hash s) in
      reject (kr_version s \<noteq> 2) ''wire v2: rotation version must be 2'' (
      reject (length (kr_authority_id s) \<noteq> 32 \<or> \<not> lower_hex (kr_authority_id s))
        ''wire v2: authority_id must be 32 lowercase hexadecimal characters'' (
      reject (kr_recovery_epoch s \<le> 0 \<or> kr_recovery_epoch s > MAX_SAFE \<or> kr_sequence s \<le> 0 \<or> kr_sequence s > MAX_SAFE)
        ''wire v2: recovery_epoch and sequence must be positive safe integers'' (
      reject (\<not> valid_v2_timestamp (kr_issued_at s) \<or> \<not> valid_v2_timestamp (kr_not_before s))
        ''wire v2: issued_at and not_before must be safe integers'' (
      reject (\<not> valid_role (kr_role s)) ''wire v2: rotation role is invalid'' (
      reject (length (kr_previous_statement_hash s) \<noteq> 48) ''wire v2: previous_statement_hash must be 48 bytes'' (
      reject (kr_sequence s = 1 \<and> \<not> zero)
        ''wire v2: genesis rotation must use a zero previous_statement_hash'' (
      reject (kr_sequence s > 1 \<and> zero) ''wire v2: non-genesis rotation must link to a prior statement'' (
      reject (\<not> valid_v2_id (kr_old_key_id s) \<or> \<not> valid_v2_id (kr_new_key_id s))
        ''wire v2: old_key_id and new_key_id must be 64 lowercase hexadecimal characters'' (
      bind_ok (map_err (with_context ''wire v2: old_key'') (key_id_v2 V (kr_old_key s))) (\<lambda>old_id.
      bind_ok (map_err (with_context ''wire v2: new_key'') (key_id_v2 V (kr_new_key s))) (\<lambda>new_id.
      reject_as (old_id \<noteq> kr_old_key_id s \<or> new_id \<noteq> kr_new_key_id s) KeyIdMismatch
        ''wire v2: rotation key IDs must match distinct complete keys'' (
      reject (old_id = new_id \<or> equal_keys (kr_old_key s) (kr_new_key s))
        ''wire v2: rotation key IDs must match distinct complete keys'' (
      if signatures then
        bind_ok (map_err (with_context ''wire v2: old_signature'') (sig_len (kr_old_signature s))) (\<lambda>_.
        map_err (with_context ''wire v2: new_signature'') (sig_len (kr_new_signature s)))
      else Ok ()))))))))))))))"

definition statement_cj :: "key_rotation_statement_v2 \<Rightarrow> bool \<Rightarrow> cj" where
  "statement_cj s signatures = CObj (
     [(''authority_id'', CStr (kr_authority_id s)), (''issued_at'', CInt (kr_issued_at s)),
      (''new_key'', cj_key (kr_new_key s)), (''new_key_id'', CStr (kr_new_key_id s)),
      (''not_before'', CInt (kr_not_before s)), (''old_key'', cj_key (kr_old_key s)),
      (''old_key_id'', CStr (kr_old_key_id s)),
      (''previous_statement_hash'', CBytes (kr_previous_statement_hash s)),
      (''recovery_epoch'', CInt (kr_recovery_epoch s)), (''role'', CStr (kr_role s)),
      (''sequence'', CInt (kr_sequence s)), (''version'', CInt (kr_version s))]
     @ (if signatures
        then [(''old_signature'', cj_sig (kr_old_signature s)), (''new_signature'', cj_sig (kr_new_signature s))]
        else []))"

definition statement_from :: "v2_prims \<Rightarrow> jobj \<Rightarrow> key_rotation_statement_v2 v2_result" where
  "statement_from V ob =
     bind_ok (obj_i64 ob ''version'') (\<lambda>version.
     bind_ok (obj_str ob ''authority_id'') (\<lambda>authority_id.
     bind_ok (obj_i64 ob ''recovery_epoch'') (\<lambda>recovery_epoch.
     bind_ok (obj_str ob ''role'') (\<lambda>role.
     bind_ok (obj_i64 ob ''sequence'') (\<lambda>sequence.
     bind_ok (obj_bytes V ob ''previous_statement_hash'') (\<lambda>previous_statement_hash.
     bind_ok (obj_pub_key V ob ''old_key'') (\<lambda>old_key.
     bind_ok (obj_pub_key V ob ''new_key'') (\<lambda>new_key.
     bind_ok (obj_str ob ''old_key_id'') (\<lambda>old_key_id.
     bind_ok (obj_str ob ''new_key_id'') (\<lambda>new_key_id.
     bind_ok (obj_i64 ob ''issued_at'') (\<lambda>issued_at.
     bind_ok (obj_i64 ob ''not_before'') (\<lambda>not_before.
     bind_ok (obj_sig V ob ''old_signature'') (\<lambda>old_signature.
     bind_ok (obj_sig V ob ''new_signature'') (\<lambda>new_signature.
     Ok \<lparr>kr_version = version, kr_authority_id = authority_id, kr_recovery_epoch = recovery_epoch, kr_role = role,
       kr_sequence = sequence, kr_previous_statement_hash = previous_statement_hash, kr_old_key = old_key,
       kr_new_key = new_key, kr_old_key_id = old_key_id, kr_new_key_id = new_key_id, kr_issued_at = issued_at,
       kr_not_before = not_before, kr_old_signature = old_signature, kr_new_signature = new_signature\<rparr>))))))))))))))"

definition key_rotation_statement_v2_signable_bytes :: "v2_prims \<Rightarrow> key_rotation_statement_v2 \<Rightarrow> bytes v2_result" where
  "key_rotation_statement_v2_signable_bytes V s =
     bind_ok (validate_statement V s False) (\<lambda>_. canonical (v_base V) (statement_cj s False))"

definition validate_rotation_signable_body :: "v2_prims \<Rightarrow> bytes \<Rightarrow> unit v2_result" where
  "validate_rotation_signable_body V body =
     (let names = take 12 ROTATION_FIELDS in
      bind_ok (parse_wire V body [''previous_statement_hash''] []) (\<lambda>doc.
      bind_ok (obj doc) (\<lambda>ob.
      bind_ok (map_err (with_context ''rotation signable body'') (obj_require (v_base V) ob names [])) (\<lambda>_.
      bind_ok (map_err (with_context ''rotation signable body'') (obj_only (v_base V) ob names)) (\<lambda>_.
      bind_ok (statement_from V ob) (\<lambda>s.
      bind_ok (canonical (v_base V) (statement_cj s False)) (\<lambda>c.
      reject (c \<noteq> body) ''rotation signable body must use RatifyCanonicalJSON'' (
      map_err (with_context ''rotation signable body'') (validate_statement V s False)))))))))"

section \<open>Body digests\<close>

text \<open>The byte fields and text fields of \<open>parse_wire\<close>, and the body validator, by object code.\<close>

definition body_parse :: "v2_prims \<Rightarrow> int \<Rightarrow> bytes \<Rightarrow> jnode v2_result" where
  "body_parse V object_type body =
     (if object_type = 0x0003 \<or> object_type = 0x0005 then parse_wire V body [] []
      else if object_type = 0x0008 then parse_wire V body [''previous_receipt_hash''] [''bundle_hash'']
      else parse_wire V body [''previous_statement_hash'', ''delegation_digest'', ''previous_receipt_hash''] [])"

definition body_validate :: "v2_prims \<Rightarrow> int \<Rightarrow> bytes \<Rightarrow> unit v2_result" where
  "body_validate V object_type =
     (if object_type = 0x0003 then validate_revocation_list_signable_body V
      else if object_type = 0x0005 then validate_revocation_push_signable_body V
      else if object_type = 0x0004 then validate_rotation_signable_body V
      else if object_type = 0x0006 then validate_witness_signable_body V
      else validate_receipt_signable_body V)"

definition statement_body_digest_v2 :: "v2_prims \<Rightarrow> int \<Rightarrow> bytes \<Rightarrow> bytes v2_result" where
  "statement_body_digest_v2 V object_type body =
     reject_as (object_type \<notin> set [0x0003, 0x0004, 0x0005, 0x0006, 0x0008]) UnsupportedObjectType
       (''object type 0x'' @ hex04 object_type @ '' does not use StatementBodyDigestV2'') (
     bind_ok (map_err (with_context ''signable body'') (body_parse V object_type body)) (\<lambda>doc.
     bind_ok (if object_type \<noteq> 0x0004 then excludes_signatures V doc else Ok ()) (\<lambda>_.
     bind_ok (canonical (v_base V) (node_to_cj doc)) (\<lambda>c.
     reject (c \<noteq> body) ''signable body must use RatifyCanonicalJSON'' (
     bind_ok (body_validate V object_type body) (\<lambda>_.
     Ok (sha384 V [STATEMENT_BODY_TAG, be16 object_type, body])))))))"

definition key_rotation_statement_v2_digest :: "v2_prims \<Rightarrow> key_rotation_statement_v2 \<Rightarrow> bytes v2_result" where
  "key_rotation_statement_v2_digest V s =
     bind_ok (key_rotation_statement_v2_signable_bytes V s) (statement_body_digest_v2 V 0x0004)"

section \<open>Wire form and signing\<close>

definition decode_key_rotation_statement_v2 :: "v2_prims \<Rightarrow> bytes \<Rightarrow> key_rotation_statement_v2 v2_result" where
  "decode_key_rotation_statement_v2 V data = classify_result Malformed (
     bind_ok (check_v2_wire_size data ''rotation statement'' ''MAX_KEY_ROTATION_STATEMENT_BYTES_V2''
       MAX_KEY_ROTATION_STATEMENT_BYTES_V2) (\<lambda>_.
     bind_ok (parse_wire V data [''previous_statement_hash''] []) (\<lambda>doc.
     bind_ok (obj doc) (\<lambda>ob.
     bind_ok (obj_require (v_base V) ob ROTATION_FIELDS []) (\<lambda>_.
     bind_ok (obj_only (v_base V) ob ROTATION_FIELDS) (\<lambda>_.
     bind_ok (statement_from V ob) (\<lambda>s.
     bind_ok (validate_statement V s True) (\<lambda>_. Ok s))))))))"

definition encode_key_rotation_statement_v2 :: "v2_prims \<Rightarrow> key_rotation_statement_v2 \<Rightarrow> bytes v2_result" where
  "encode_key_rotation_statement_v2 V s =
     bind_ok (validate_statement V s True) (\<lambda>_. canonical (v_base V) (statement_cj s True))"

definition sign_key_rotation_statement_v2_with_signers ::
  "v2_prims \<Rightarrow> v2_context \<Rightarrow> key_rotation_statement_v2 \<Rightarrow> signer_v2 \<Rightarrow> signer_v2
    \<Rightarrow> key_rotation_statement_v2 v2_sign_result" where
  "sign_key_rotation_statement_v2_with_signers V ctx s old_signer new_signer =
     bind_ok (map_err InvalidObject (classify_result Malformed (validate_statement V s False))) (\<lambda>_.
     bind_ok (signer_public_key_v2 V old_signer) (\<lambda>old_pub.
     bind_ok (signer_public_key_v2 V new_signer) (\<lambda>new_pub.
     if \<not> equal_keys old_pub (kr_old_key s) \<or> \<not> equal_keys new_pub (kr_new_key s)
     then Err (KeyBinding ''rotation signer keys do not match the statement keys'')
     else bind_ok (map_err InvalidObject (classify_result Malformed (key_rotation_statement_v2_signable_bytes V s))) (\<lambda>signable.
     bind_ok (sign_v2_statement_with_signer V ctx KeyRotationAuthorization signable old_signer old_pub) (\<lambda>old_sig.
     bind_ok (sign_v2_statement_with_signer V ctx KeyRotationProofOfPossession signable new_signer new_pub) (\<lambda>new_sig.
     Ok (s\<lparr>kr_old_signature := old_sig, kr_new_signature := new_sig\<rparr>)))))))"

definition sign_key_rotation_statement_v2 ::
  "v2_prims \<Rightarrow> bytes \<Rightarrow> bytes \<Rightarrow> key_rotation_statement_v2 \<Rightarrow> hybrid_private_key \<Rightarrow> hybrid_private_key
    \<Rightarrow> key_rotation_statement_v2 v2_sign_result" where
  "sign_key_rotation_statement_v2 V rnd rnd' s old_key new_key =
     bind_ok (local_signer V rnd old_key) (\<lambda>old_signer.
     bind_ok (local_signer V rnd' new_key) (\<lambda>new_signer.
     sign_key_rotation_statement_v2_with_signers V background s old_signer new_signer))"

section \<open>Verification against the caller's state\<close>

fun used_ids_ok :: "string list \<Rightarrow> string list \<Rightarrow> unit v2_result" where
  "used_ids_ok before [] = Ok ()"
| "used_ids_ok before (i # ids) =
     reject_as (\<not> valid_v2_id i) ConfigurationInvalid ''caller state contains an invalid used key ID'' (
     reject_as (i \<in> set before) ConfigurationInvalid ''caller state contains duplicate used key IDs'' (
     used_ids_ok (before @ [i]) ids))"

definition verify_both_signatures ::
  "v2_prims \<Rightarrow> key_rotation_statement_v2 \<Rightarrow> hybrid_public_key \<Rightarrow> bytes \<Rightarrow> unit v2_result" where
  "verify_both_signatures V s old_key signable =
     bind_ok (map_err (with_context ''old-key rotation authorization'')
       (verify_v2_statement V KeyRotationAuthorization signable (kr_old_signature s) old_key)) (\<lambda>_.
     map_err (with_context ''new-key proof of possession'')
       (verify_v2_statement V KeyRotationProofOfPossession signable (kr_new_signature s) (kr_new_key s)))"

definition verify_key_rotation_statement_v2 ::
  "v2_prims \<Rightarrow> key_rotation_statement_v2 \<Rightarrow> key_rotation_v2_state \<Rightarrow> int \<Rightarrow> int \<Rightarrow> unit v2_result" where
  "verify_key_rotation_statement_v2 V s state now future_skew =
     bind_ok (classify_result Malformed (validate_statement V s True)) (\<lambda>_.
     bind_ok (map_err (\<lambda>e. v2_new ConfigurationInvalid (''caller state current key: '' @ e_message e))
       (key_id_v2 V (ks_current_key state))) (\<lambda>current_id.
     let zero_head = all_zero (ks_head_hash state) in
     reject_as (ks_sequence state < 0 \<or> ks_sequence state \<ge> MAX_SAFE \<or> ks_recovery_epoch state \<le> 0
         \<or> ks_recovery_epoch state > MAX_SAFE \<or> length (ks_head_hash state) \<noteq> 48)
       ConfigurationInvalid ''caller rotation state is invalid'' (
     reject_as (ks_sequence state = 0 \<and> \<not> zero_head) ConfigurationInvalid
       ''caller genesis state must have a zero head hash'' (
     reject_as (ks_sequence state > 0 \<and> zero_head) ConfigurationInvalid
       ''caller non-genesis state must have a linked head hash'' (
     reject_as (ks_used_key_ids state = []) ConfigurationInvalid ''caller state must include retained used key IDs'' (
     bind_ok (used_ids_ok [] (ks_used_key_ids state)) (\<lambda>_.
     reject_as (current_id \<notin> set (ks_used_key_ids state)) ConfigurationInvalid
       ''caller used-key history does not contain the current key'' (
     reject_as (kr_new_key_id s \<in> set (ks_used_key_ids state)) RotationKeyReused
       ''rotation replacement key was already used by this authority'' (
     reject_as (\<not> valid_v2_timestamp now \<or> \<not> (0 \<le> future_skew \<and> future_skew \<le> V2_MAX_FUTURE_SKEW_SECONDS))
       ConfigurationInvalid
       (''rotation verification time must be 0..'' @ dec_int V2_MAX_TIMESTAMP_SECONDS @ '' and future skew 0..''
        @ dec_int V2_MAX_FUTURE_SKEW_SECONDS @ '' seconds'') (
     reject_as (\<not> equal_keys (kr_old_key s) (ks_current_key state) \<or> kr_authority_id s \<noteq> ks_authority_id state
         \<or> kr_recovery_epoch s \<noteq> ks_recovery_epoch state \<or> kr_role s \<noteq> ks_role state
         \<or> kr_sequence s \<noteq> i64_add (ks_sequence state) 1 \<or> kr_previous_statement_hash s \<noteq> ks_head_hash state)
       RotationStateMismatch ''rotation statement does not extend the caller-authenticated authority state'' (
     reject_as (kr_issued_at s > i64_add now future_skew \<or> kr_not_before s > i64_add now future_skew)
       RotationFutureDated ''rotation statement is future-dated'' (
     bind_ok (key_rotation_statement_v2_signable_bytes V s)
       (verify_both_signatures V s (ks_current_key state))))))))))))))"

section \<open>The journal\<close>

definition new_key_rotation_v2_journal ::
  "v2_prims \<Rightarrow> string \<Rightarrow> int \<Rightarrow> string \<Rightarrow> hybrid_public_key \<Rightarrow> key_rotation_v2_journal v2_result" where
  "new_key_rotation_v2_journal V authority_id recovery_epoch role genesis_key =
     bind_ok (map_err (\<lambda>e. v2_new ConfigurationInvalid (''rotation genesis key: '' @ e_message e))
       (key_id_v2 V genesis_key)) (\<lambda>genesis_id.
     reject_as (length authority_id \<noteq> 32 \<or> \<not> lower_hex authority_id \<or> recovery_epoch \<le> 0 \<or> recovery_epoch > MAX_SAFE)
       ConfigurationInvalid ''rotation authority or recovery epoch is invalid'' (
     reject_as (\<not> valid_role role) ConfigurationInvalid ''rotation role is invalid'' (
     Ok \<lparr>kj_state = \<lparr>ks_authority_id = authority_id, ks_recovery_epoch = recovery_epoch, ks_role = role,
           ks_sequence = 0, ks_head_hash = replicate 48 0, ks_current_key = genesis_key,
           ks_used_key_ids = [genesis_id]\<rparr>,
         kj_accepted = [], kj_frozen = False\<rparr>)))"

text \<open>A statement at an accepted sequence: a replay, or a fork that freezes the journal.\<close>

definition accept_at_accepted ::
  "v2_prims \<Rightarrow> key_rotation_statement_v2 \<Rightarrow> key_rotation_v2_journal
    \<Rightarrow> key_rotation_v2_journal \<times> witness_entry_v2_result v2_result" where
  "accept_at_accepted V s j =
     (let accepted = kj_accepted j ! nat (kr_sequence s - 1) in
      if ka_sequence accepted \<noteq> kr_sequence s \<or> \<not> equal_keys (kr_old_key s) (ka_old_key accepted)
      then (j, err RotationStateMismatch (''rotation statement old key does not match the key accepted at sequence ''
        @ dec_int (kr_sequence s)))
      else case key_rotation_statement_v2_signable_bytes V s of
          Err e \<Rightarrow> (j, Err (classify Malformed e))
        | Ok signable \<Rightarrow>
          (case verify_both_signatures V s (ka_old_key accepted) signable of
             Err e \<Rightarrow> (j, Err e)
           | Ok _ \<Rightarrow>
             (case statement_body_digest_v2 V 0x0004 signable of
                Err e \<Rightarrow> (j, Err (classify Malformed e))
              | Ok digest \<Rightarrow>
                if digest = ka_body_digest accepted then (j, Ok Replay)
                else (j\<lparr>kj_frozen := True\<rparr>, err RotationFork (''key rotation fork at sequence '' @ dec_int (kr_sequence s)
                  @ '' for authority '' @ ks_authority_id (kj_state j))))))"

definition append_rotation :: "key_rotation_statement_v2 \<Rightarrow> bytes \<Rightarrow> key_rotation_v2_journal \<Rightarrow> key_rotation_v2_journal" where
  "append_rotation s digest j =
     (let st = kj_state j in
      j\<lparr>kj_accepted := kj_accepted j @ [\<lparr>ka_sequence = kr_sequence s, ka_body_digest = digest, ka_old_key = kr_old_key s\<rparr>],
        kj_state := st\<lparr>ks_sequence := kr_sequence s, ks_head_hash := digest, ks_current_key := kr_new_key s,
          ks_used_key_ids := ks_used_key_ids st @ [kr_new_key_id s]\<rparr>\<rparr>)"

definition accept_key_rotation_statement_v2 ::
  "v2_prims \<Rightarrow> key_rotation_statement_v2 \<Rightarrow> key_rotation_v2_journal \<Rightarrow> int \<Rightarrow> int
    \<Rightarrow> key_rotation_v2_journal \<times> witness_entry_v2_result v2_result" where
  "accept_key_rotation_statement_v2 V s j now future_skew =
     (case validate_statement V s True of
        Err e \<Rightarrow> (j, Err (classify Malformed e))
      | Ok _ \<Rightarrow>
        (let state = kj_state j in
         if int (length (kj_accepted j)) \<noteq> ks_sequence state
         then (j, err ConfigurationInvalid ''rotation journal accepted history does not match its sequence'')
         else if kj_frozen j
         then (j, err RotationFrozen ''key rotation authority is frozen: authority requires recovery'')
         else if kr_authority_id s \<noteq> ks_authority_id state \<or> kr_recovery_epoch s \<noteq> ks_recovery_epoch state
             \<or> kr_role s \<noteq> ks_role state
         then (j, err RotationStateMismatch
           ''rotation statement authority, recovery epoch, or role does not match caller state'')
         else if kr_sequence s \<le> ks_sequence state then accept_at_accepted V s j
         else (case verify_key_rotation_statement_v2 V s state now future_skew of
             Err e \<Rightarrow> (j, Err e)
           | Ok _ \<Rightarrow>
             (case key_rotation_statement_v2_digest V s of
                Err e \<Rightarrow> (j, Err (classify Malformed e))
              | Ok digest \<Rightarrow> (append_rotation s digest j, Ok Appended)))))"

definition recover_key_rotation_v2 ::
  "v2_prims \<Rightarrow> key_rotation_v2_journal \<Rightarrow> int \<Rightarrow> hybrid_public_key \<Rightarrow> key_rotation_v2_journal v2_result" where
  "recover_key_rotation_v2 V j new_recovery_epoch new_genesis_key =
     bind_ok (map_err (\<lambda>e. v2_new RotationRecoveryInvalid (e_message e)) (key_id_v2 V new_genesis_key)) (\<lambda>new_id.
     let st = kj_state j in
     reject_as (new_recovery_epoch \<le> ks_recovery_epoch st \<or> new_recovery_epoch > MAX_SAFE)
       RotationRecoveryInvalid ''rotation recovery must increase the recovery epoch'' (
     reject_as (new_id \<in> set (ks_used_key_ids st)) RotationRecoveryInvalid
       ''rotation recovery cannot anchor a previously used key'' (
     Ok (j\<lparr>kj_state := st\<lparr>ks_recovery_epoch := new_recovery_epoch, ks_sequence := 0, ks_head_hash := replicate 48 0,
             ks_current_key := new_genesis_key, ks_used_key_ids := ks_used_key_ids st @ [new_id]\<rparr>,
           kj_accepted := [], kj_frozen := False\<rparr>))))"

end
