(* ===== verification/V2_Rotation_Facts.thy ===== *)
theory V2_Rotation_Facts
  imports V2_Rotation V2_Flat
begin

text \<open>
  Rotation statements survive the wire and have a digest; what verification establishes; and the
  journals that acceptance and recovery reach from a new one.
\<close>

section \<open>The wire form\<close>

definition statement_members :: "key_rotation_statement_v2 \<Rightarrow> bool \<Rightarrow> (string \<times> cj) list" where
  "statement_members s sigs = (case statement_cj s sigs of CObj fs \<Rightarrow> fs | _ \<Rightarrow> [])"

lemma statement_cj_members: "statement_cj s sigs = CObj (statement_members s sigs)"
  by (simp add: statement_members_def statement_cj_def)

lemma validate_statement_basic:
  assumes "validate_statement V s sigs = Ok ()"
  shows "kr_version s = 2" "length (kr_authority_id s) = 32" "lower_hex (kr_authority_id s)"
    "0 < kr_recovery_epoch s" "kr_recovery_epoch s \<le> MAX_SAFE" "0 < kr_sequence s" "kr_sequence s \<le> MAX_SAFE"
    "valid_v2_timestamp (kr_issued_at s)" "valid_v2_timestamp (kr_not_before s)" "valid_role (kr_role s)"
    "valid_v2_id (kr_old_key_id s)" "valid_v2_id (kr_new_key_id s)"
    "key_id_v2 V (kr_old_key s) = Ok (kr_old_key_id s)" "key_id_v2 V (kr_new_key s) = Ok (kr_new_key_id s)"
    "kr_old_key_id s \<noteq> kr_new_key_id s" "length (kr_previous_statement_hash s) = 48"
    "kr_sequence s = 1 \<longleftrightarrow> all_zero (kr_previous_statement_hash s)"
  using assms
  by (auto simp: validate_statement_def Let_def reject_Ok bind_ok_Ok map_err_Ok)

lemma validate_statement_unsigned:
  "validate_statement V s True = Ok () \<Longrightarrow> validate_statement V s False = Ok ()"
  by (auto simp: validate_statement_def Let_def reject_Ok bind_ok_Ok map_err_Ok)

lemma validate_statement_signatures:
  "validate_statement V (s\<lparr>kr_old_signature := a, kr_new_signature := b\<rparr>) False = validate_statement V s False"
  by (simp add: validate_statement_def)


lemma statement_ints:
  assumes "validate_statement V s sigs = Ok ()"
  shows "safe_int (kr_version s)" "safe_int (kr_recovery_epoch s)" "safe_int (kr_sequence s)"
    "safe_int (kr_issued_at s)" "safe_int (kr_not_before s)"
  using validate_statement_basic [OF assms]
  by (simp_all add: safe_int_def MAX_SAFE_def MAX_SAFE_INTEGER_def valid_v2_timestamp_def V2_MAX_TIMESTAMP_SECONDS_def)

lemma statement_texts:
  assumes "validate_statement V s sigs = Ok ()"
  shows "utf8_valid (kr_authority_id s)" "utf8_valid (kr_role s)" "utf8_valid (kr_old_key_id s)"
    "utf8_valid (kr_new_key_id s)"
proof -
  note v = validate_statement_basic [OF assms]
  have "list_all utf8_valid [''organization_root'', ''issuer'', ''agent'']" by code_simp
  with v(10) show "utf8_valid (kr_role s)" by (auto simp: valid_role_def)
  show "utf8_valid (kr_authority_id s)" "utf8_valid (kr_old_key_id s)" "utf8_valid (kr_new_key_id s)"
    using v(3,11,12) lower_hex_utf8 by (simp_all add: valid_v2_id_def)
qed

lemma statement_flat:
  assumes "validate_statement V s False = Ok ()"
  shows "flat (statement_members s sigs)"
proof -
  have "list_all utf8_valid ROTATION_FIELDS" by code_simp
  then show ?thesis
    using statement_ints [OF assms] statement_texts [OF assms]
    by (cases sigs) (simp_all add: flat_def statement_members_def statement_cj_def ROTATION_FIELDS_def)
qed

lemma statement_text_keys:
  assumes "set tb \<subseteq> {''previous_statement_hash'', ''delegation_digest'', ''previous_receipt_hash''}"
  shows "list_all (text_key tb []) (statement_members s sigs)"
proof -
  let ?ks = "[''authority_id'', ''new_key_id'', ''old_key_id'', ''role'']"
  have "list_all (\<lambda>k. k \<notin> set WIRE_BYTE_FIELDS
      \<and> k \<notin> set [''previous_statement_hash'', ''delegation_digest'', ''previous_receipt_hash'']) ?ks" by code_simp
  moreover have "k \<notin> set WIRE_BYTE_FIELDS
      \<and> k \<notin> set [''previous_statement_hash'', ''delegation_digest'', ''previous_receipt_hash''] \<Longrightarrow> \<not> byte_field tb [] 1 k" for k
    using assms unfolding byte_field_def list.set empty_iff by blast
  ultimately have "list_all (\<lambda>k. \<not> byte_field tb [] 1 k) ?ks" by (rule list.pred_mono_strong)
  then show ?thesis by (cases sigs) (simp_all add: statement_members_def statement_cj_def)
qed

lemma statement_lookup:
  "map_of (statement_members s sigs) ''version'' = Some (CInt (kr_version s))"
  "map_of (statement_members s sigs) ''authority_id'' = Some (CStr (kr_authority_id s))"
  "map_of (statement_members s sigs) ''recovery_epoch'' = Some (CInt (kr_recovery_epoch s))"
  "map_of (statement_members s sigs) ''role'' = Some (CStr (kr_role s))"
  "map_of (statement_members s sigs) ''sequence'' = Some (CInt (kr_sequence s))"
  "map_of (statement_members s sigs) ''previous_statement_hash'' = Some (CBytes (kr_previous_statement_hash s))"
  "map_of (statement_members s sigs) ''old_key'' = Some (cj_pair (pk_ed25519 (kr_old_key s)) (pk_ml_dsa_65 (kr_old_key s)))"
  "map_of (statement_members s sigs) ''new_key'' = Some (cj_pair (pk_ed25519 (kr_new_key s)) (pk_ml_dsa_65 (kr_new_key s)))"
  "map_of (statement_members s sigs) ''old_key_id'' = Some (CStr (kr_old_key_id s))"
  "map_of (statement_members s sigs) ''new_key_id'' = Some (CStr (kr_new_key_id s))"
  "map_of (statement_members s sigs) ''issued_at'' = Some (CInt (kr_issued_at s))"
  "map_of (statement_members s sigs) ''not_before'' = Some (CInt (kr_not_before s))"
  "map_of (statement_members s sigs) ''old_signature'' =
     (if sigs then Some (cj_pair (sig_ed25519 (kr_old_signature s)) (sig_ml_dsa_65 (kr_old_signature s))) else None)"
  "map_of (statement_members s sigs) ''new_signature'' =
     (if sigs then Some (cj_pair (sig_ed25519 (kr_new_signature s)) (sig_ml_dsa_65 (kr_new_signature s))) else None)"
  by (simp_all add: statement_members_def statement_cj_def)

lemma statement_keys:
  "set (take (if sigs then 14 else 12) ROTATION_FIELDS) \<subseteq> fst ` set (statement_members s sigs)"
  "fst ` set (statement_members s sigs) \<subseteq> set (take (if sigs then 14 else 12) ROTATION_FIELDS)"
  by (cases sigs; simp add: statement_members_def statement_cj_def ROTATION_FIELDS_def)+

definition statement_part :: "bool \<Rightarrow> key_rotation_statement_v2 \<Rightarrow> key_rotation_statement_v2" where
  "statement_part sigs s = (if sigs then s else s\<lparr>kr_old_signature := NO_SIGNATURE, kr_new_signature := NO_SIGNATURE\<rparr>)"

lemma statement_from_reads:
  assumes f: "fields (v_base V) ms (statement_members s sigs)" and codec: "base64_codec V"
    and v: "validate_statement V s False = Ok ()"
  shows "statement_from V ms = Ok (statement_part sigs s)"
proof -
  note l = statement_lookup [of s sigs]
  have sig: "obj_sig V ms ''old_signature'' = Ok (kr_old_signature (statement_part sigs s))"
    "obj_sig V ms ''new_signature'' = Ok (kr_new_signature (statement_part sigs s))"
    using get_signature [OF f _ codec] get_no_signature [OF f] l(13,14)
    by (cases sigs; simp add: statement_part_def NO_SIGNATURE_def)+
  note ints = l(1,3,5,11,12) [THEN get_i64 [OF f], unfolded statement_ints [OF v] simp_thms]
  note strs = l(2,4,9,10) [THEN get_str [OF f]]
  note keys = get_pub_key [OF f l(7) codec] get_pub_key [OF f l(8) codec]
  show ?thesis
    using statement_ints [OF v] ints strs keys sig get_bytes [OF f l(6) codec]
    by (simp add: statement_from_def) (cases sigs; simp add: statement_part_def)
qed

lemma statement_canonical:
  assumes codec: "base64_codec V" and v: "validate_statement V s False = Ok ()"
    and tb: "set tb \<subseteq> {''previous_statement_hash'', ''delegation_digest'', ''previous_receipt_hash''}"
  obtains data x ms where "canonical (v_base V) (statement_cj s sigs) = Ok data" "parse_wire V data tb [] = Ok x"
    "obj x = Ok ms" "obj_require (v_base V) ms (take (if sigs then 14 else 12) ROTATION_FIELDS) [] = Ok ()"
    "obj_only (v_base V) ms (take (if sigs then 14 else 12) ROTATION_FIELDS) = Ok ()"
    "statement_from V ms = Ok (statement_part sigs s)" "canonical (v_base V) (node_to_cj x) = Ok data"
proof -
  obtain data x ms where x: "canonical (v_base V) (statement_cj s sigs) = Ok data" "parse_wire V data tb [] = Ok x"
    "obj x = Ok ms" "fields (v_base V) ms (statement_members s sigs)" "canonical (v_base V) (node_to_cj x) = Ok data"
    unfolding statement_cj_members
    by (rule flat_canonical [OF codec statement_flat [OF v, of sigs] statement_text_keys [OF tb, of s sigs]])
  show thesis
    by (rule that [OF x(1,2,3) flat_require [OF x(4) statement_flat [OF v]] fields_only [OF x(4)]
        statement_from_reads [OF x(4) codec v] x(5)]) (rule statement_keys)+
qed

lemma rotation_round_trip:
  assumes codec: "base64_codec V" and enc: "encode_key_rotation_statement_v2 V s = Ok data"
    and size: "length data \<le> MAX_KEY_ROTATION_STATEMENT_BYTES_V2"
  shows "decode_key_rotation_statement_v2 V data = Ok s"
proof -
  have v: "validate_statement V s True = Ok ()" and c: "canonical (v_base V) (statement_cj s True) = Ok data"
    using enc by (auto simp: encode_key_rotation_statement_v2_def bind_ok_Ok)
  obtain data' x ms where x: "canonical (v_base V) (statement_cj s True) = Ok data'"
    "parse_wire V data' [''previous_statement_hash''] [] = Ok x" "obj x = Ok ms"
    "obj_require (v_base V) ms (take (if True then 14 else 12) ROTATION_FIELDS) [] = Ok ()"
    "obj_only (v_base V) ms (take (if True then 14 else 12) ROTATION_FIELDS) = Ok ()"
    "statement_from V ms = Ok (statement_part True s)"
    by (rule statement_canonical [OF codec validate_statement_unsigned [OF v], of "[''previous_statement_hash'']" True]) auto
  moreover have "data' = data" using x(1) c by simp
  moreover have "take 14 ROTATION_FIELDS = ROTATION_FIELDS" by (simp add: ROTATION_FIELDS_def)
  ultimately show ?thesis
    using size v by (simp add: decode_key_rotation_statement_v2_def statement_part_def check_v2_wire_size_def reject_def)
qed

text \<open>A valid statement has a digest, and it binds the canonical body.\<close>

lemma statement_part_valid:
  "validate_statement V s False = Ok () \<Longrightarrow> validate_statement V (statement_part False s) False = Ok ()"
  by (simp add: statement_part_def validate_statement_signatures)

lemma statement_part_cj: "statement_cj (statement_part False s) False = statement_cj s False"
  by (simp add: statement_part_def statement_cj_def)

lemma rotation_digest:
  assumes codec: "base64_codec V" and v: "validate_statement V s False = Ok ()"
  obtains body where "key_rotation_statement_v2_signable_bytes V s = Ok body"
    "statement_body_digest_v2 V 0x0004 body = Ok (sha384 V [STATEMENT_BODY_TAG, be16 0x0004, body])"
    "key_rotation_statement_v2_digest V s = Ok (sha384 V [STATEMENT_BODY_TAG, be16 0x0004, body])"
proof -
  obtain body x where x: "canonical (v_base V) (statement_cj s False) = Ok body"
    "parse_wire V body [''previous_statement_hash'', ''delegation_digest'', ''previous_receipt_hash''] [] = Ok x"
    "canonical (v_base V) (node_to_cj x) = Ok body"
    by (rule statement_canonical [OF codec v, of _ False]) auto
  obtain body' y ms where y: "canonical (v_base V) (statement_cj s False) = Ok body'"
    "parse_wire V body' [''previous_statement_hash''] [] = Ok y" "obj y = Ok ms"
    "obj_require (v_base V) ms (take (if False then 14 else 12) ROTATION_FIELDS) [] = Ok ()"
    "obj_only (v_base V) ms (take (if False then 14 else 12) ROTATION_FIELDS) = Ok ()"
    "statement_from V ms = Ok (statement_part False s)"
    by (rule statement_canonical [OF codec v, of "[''previous_statement_hash'']" False]) auto
  have same: "body' = body" using x(1) y(1) by simp
  have "validate_rotation_signable_body V body = Ok ()"
    using y statement_part_valid [OF v] x(1)
    by (simp add: validate_rotation_signable_body_def same statement_part_cj reject_def map_err_Ok)
  then have d: "statement_body_digest_v2 V 0x0004 body = Ok (sha384 V [STATEMENT_BODY_TAG, be16 0x0004, body])"
    using x(2,3) by (simp add: statement_body_digest_v2_def body_parse_def body_validate_def reject_def reject_as_def)
  have b: "key_rotation_statement_v2_signable_bytes V s = Ok body"
    using v x(1) by (simp add: key_rotation_statement_v2_signable_bytes_def)
  show thesis by (rule that [OF b d]) (simp add: key_rotation_statement_v2_digest_def b d)
qed

end
