(* ===== verification/V2_Wire_Facts.thy ===== *)
theory V2_Wire_Facts
  imports V2_Rotation_Facts
begin

text \<open>
  What the verification of a v2 proof bundle establishes, that the signers of certificates, bundles and
  status objects only return what verifies, and what the issuer's checks promise about the paths of a
  certificate.
\<close>

section \<open>Chains\<close>

definition cert_ref :: "delegation_cert_v2 \<Rightarrow> string \<times> string" where
  "cert_ref c = (d2_issuer_id c, d2_cert_id c)"

text \<open>Each certificate was issued by the subject of the next one.\<close>

definition linked_to :: "delegation_cert_v2 \<Rightarrow> delegation_cert_v2 \<Rightarrow> bool" where
  "linked_to c parent \<longleftrightarrow> d2_issuer_id c = d2_subject_id parent \<and> d2_issuer_pub_key c = d2_subject_pub_key parent"

fun linked_chain :: "delegation_cert_v2 list \<Rightarrow> bool" where
  "linked_chain (c # parent # cs) \<longleftrightarrow> linked_to c parent \<and> linked_chain (parent # cs)"
| "linked_chain _ \<longleftrightarrow> True"

lemma linked_chain_nth: "linked_chain cs \<longleftrightarrow> (\<forall>i. Suc i < length cs \<longrightarrow> linked_to (cs ! i) (cs ! Suc i))"
proof (induction cs rule: linked_chain.induct)
  case (1 c parent cs)
  show ?case by (auto simp: 1 nth_Cons split: nat.splits)
qed simp_all

lemma keys_eq: "equal_keys a b \<longleftrightarrow> a = b"
  by (cases a; cases b) (simp add: equal_keys_def)

lemma linked_chain_Cons:
  "linked_chain (c # cs) \<longleftrightarrow> (case cs of [] \<Rightarrow> True | parent # _ \<Rightarrow> linked_to c parent) \<and> linked_chain cs"
  by (cases cs) simp_all

lemma check_links_Ok:
  "check_links i seen cs = Ok () \<longleftrightarrow>
     distinct (map cert_ref cs) \<and> set seen \<inter> set (map cert_ref cs) = {} \<and> linked_chain cs"
proof (induction cs arbitrary: i seen)
  case (Cons c cs)
  have "check_links i seen (c # cs) = Ok () \<longleftrightarrow> cert_ref c \<notin> set seen
      \<and> (case cs of [] \<Rightarrow> True | parent # _ \<Rightarrow> linked_to c parent) \<and> check_links (Suc i) (seen @ [cert_ref c]) cs = Ok ()"
    unfolding check_links.simps cert_ref_def linked_to_def keys_eq
    by (cases cs) (auto simp del: check_links.simps split: if_splits)
  then show ?case unfolding Cons.IH linked_chain_Cons by auto
qed simp

section \<open>Bundles\<close>

text \<open>The rules of a chain position, and of the presentation.\<close>

definition cert_authentic :: "v2_prims \<Rightarrow> delegation_cert_v2 \<Rightarrow> bool" where
  "cert_authentic V c \<longleftrightarrow> validate_delegation_cert_v2 V c = Ok ()
     \<and> (\<exists>body. delegation_cert_v2_signable_bytes V c = Ok body
          \<and> verify_v2_statement V DelegationCertificate body (d2_signature c) (d2_issuer_pub_key c) = Ok ())"

definition bundle_well_formed :: "v2_prims \<Rightarrow> proof_bundle_v2 \<Rightarrow> bool" where
  "bundle_well_formed V b \<longleftrightarrow> b2_version b = 2 \<and> length (b2_delegations b) \<le> MAX_DELEGATION_CHAIN_DEPTH
     \<and> length (b2_challenge b) = 32 \<and> length (b2_delegation_digest b) = 48
     \<and> (\<forall>n. b2_stream_seq b = Some n \<longrightarrow> n \<le> MAX_SAFE) \<and> (\<forall>c. b2_session_context b = Some c \<longrightarrow> length c = 32)
     \<and> check_stream_pair b \<and> valid_v2_id (b2_agent_id b) \<and> valid_v2_id (b2_verifier_id b)"

definition bundle_authentic :: "v2_prims \<Rightarrow> proof_bundle_v2 \<Rightarrow> bool" where
  "bundle_authentic V b \<longleftrightarrow> bundle_well_formed V b
     \<and> key_id_v2 V (b2_agent_pub_key b) = Ok (b2_agent_id b)
     \<and> (\<forall>c\<in>set (b2_delegations b). cert_authentic V c)
     \<and> delegation_digest_v2 V (b2_delegations b) = Ok (b2_delegation_digest b)
     \<and> distinct (map cert_ref (b2_delegations b)) \<and> linked_chain (b2_delegations b)
     \<and> (b2_delegations b \<noteq> [] \<longrightarrow> d2_subject_id (hd (b2_delegations b)) = b2_agent_id b
          \<and> d2_subject_pub_key (hd (b2_delegations b)) = b2_agent_pub_key b)
     \<and> (\<exists>body. presentation_v2_signable_bytes V b = Ok body
          \<and> verify_v2_statement V ChallengePresentation body (b2_challenge_sig b) (b2_agent_pub_key b) = Ok ())"

lemma verify_structure_Ok:
  "verify_proof_bundle_v2_structure V b = Ok () \<longleftrightarrow> bundle_well_formed V b
     \<and> key_id_v2 V (b2_agent_pub_key b) = Ok (b2_agent_id b)
     \<and> (\<forall>c\<in>set (b2_delegations b). validate_delegation_cert_v2 V c = Ok ())
     \<and> delegation_digest_v2 V (b2_delegations b) = Ok (b2_delegation_digest b)
     \<and> distinct (map cert_ref (b2_delegations b)) \<and> linked_chain (b2_delegations b)
     \<and> (b2_delegations b \<noteq> [] \<longrightarrow> d2_subject_id (hd (b2_delegations b)) = b2_agent_id b
          \<and> d2_subject_pub_key (hd (b2_delegations b)) = b2_agent_pub_key b)"
proof -
  have leaf: "(case cs of [] \<Rightarrow> Ok () | leaf # _ \<Rightarrow>
         reject_as (d2_subject_id leaf \<noteq> i \<or> \<not> equal_keys (d2_subject_pub_key leaf) k) c m (Ok ())) = Ok () \<longleftrightarrow>
      (cs \<noteq> [] \<longrightarrow> d2_subject_id (hd cs) = i \<and> d2_subject_pub_key (hd cs) = k)" for cs i k c m
    by (cases cs) (simp_all add: reject_Ok keys_eq)
  show ?thesis
    by (simp add: verify_proof_bundle_v2_structure_def reject_Ok bind_ok_Ok map_err_Ok check_links_Ok each_ok_Ok leaf
        bundle_well_formed_def all_set_conv_all_nth not_less split: option.splits) auto
qed

lemma verify_bundle_Ok: "verify_proof_bundle_v2_signatures V b = Ok () \<longleftrightarrow> bundle_authentic V b"
  by (simp add: verify_proof_bundle_v2_signatures_def bind_ok_Ok verify_structure_Ok each_ok_Ok
      map_err_Ok bundle_authentic_def cert_authentic_def all_set_conv_all_nth) auto

section \<open>Signers\<close>

lemma signed_bundle_authentic:
  "sign_proof_bundle_v2_with_signer V ctx b signer = Ok b' \<Longrightarrow> bundle_authentic V b'"
  by (auto simp: sign_proof_bundle_v2_with_signer_def bind_ok_Ok map_err_Ok Let_def verify_bundle_Ok split: if_splits)

lemma decoded_delegation:
  "decode_delegation_cert_v2 V data = Ok c \<Longrightarrow>
     validate_delegation_cert_v2 V c = Ok () \<and> signature_lengths_ok (d2_signature c)"
  by (auto simp: decode_delegation_cert_v2_def decode_cert_inner_def bind_ok_Ok validate_signature_lengths_def reject_Ok)

end
