(* ===== verification/V2_Rotation_Journal.thy ===== *)
theory V2_Rotation_Journal
  imports V2_Rotation_Facts
begin

text \<open>
  The journals that the calls of \<open>sdks/rust/src/v2/rotation.rs\<close> reach: a key is never used twice, the
  accepted history is contiguous and linked key by key, only a statement both keys signed changes the
  journal, and a frozen journal leaves its epoch only by recovery.
\<close>

section \<open>Verification\<close>

lemma verify_both_Ok:
  "verify_both_signatures V s k body = Ok () \<longleftrightarrow>
     verify_v2_statement V KeyRotationAuthorization body (kr_old_signature s) k = Ok ()
     \<and> verify_v2_statement V KeyRotationProofOfPossession body (kr_new_signature s) (kr_new_key s) = Ok ()"
  by (simp add: verify_both_signatures_def bind_ok_Ok map_err_Ok)

text \<open>What a statement must say to extend a state.\<close>

definition extends_state :: "key_rotation_v2_state \<Rightarrow> key_rotation_statement_v2 \<Rightarrow> bool" where
  "extends_state st s \<longleftrightarrow> kr_old_key s = ks_current_key st \<and> kr_authority_id s = ks_authority_id st
     \<and> kr_recovery_epoch s = ks_recovery_epoch st \<and> kr_role s = ks_role st
     \<and> kr_sequence s = ks_sequence st + 1 \<and> kr_previous_statement_hash s = ks_head_hash st
     \<and> kr_new_key_id s \<notin> set (ks_used_key_ids st)"

lemma equal_keys_iff: "equal_keys a b \<longleftrightarrow> a = b"
  by (cases a; cases b) (simp add: equal_keys_def)

lemma i64_add_small: "- (2 ^ 62) \<le> a \<Longrightarrow> a < 2 ^ 62 \<Longrightarrow> - (2 ^ 62) \<le> b \<Longrightarrow> b < 2 ^ 62 \<Longrightarrow> i64_add a b = a + b"
  by (simp add: i64_add_def i64_wrap_id i64_range_def)

lemma verify_rotation_Ok:
  assumes "verify_key_rotation_statement_v2 V s st now skew = Ok ()"
  shows "extends_state st s"
    "\<exists>body. key_rotation_statement_v2_signable_bytes V s = Ok body
       \<and> verify_both_signatures V s (ks_current_key st) body = Ok ()"
    "kr_issued_at s \<le> now + skew" "kr_not_before s \<le> now + skew"
proof -
  note a = assms [unfolded verify_key_rotation_statement_v2_def Let_def bind_ok_Ok reject_Ok classify_result_Ok]
  have seq: "i64_add (ks_sequence st) 1 = ks_sequence st + 1"
    by (rule i64_add_small) (use a in \<open>auto simp: MAX_SAFE_def MAX_SAFE_INTEGER_def\<close>)
  have time: "i64_add now skew = now + skew"
    by (rule i64_add_small) (use a in \<open>auto simp: valid_v2_timestamp_def V2_MAX_TIMESTAMP_SECONDS_def V2_MAX_FUTURE_SKEW_SECONDS_def\<close>)
  show "extends_state st s" using a seq by (auto simp: extends_state_def equal_keys_iff)
  show "\<exists>body. key_rotation_statement_v2_signable_bytes V s = Ok body
      \<and> verify_both_signatures V s (ks_current_key st) body = Ok ()" using a by auto
  show "kr_issued_at s \<le> now + skew" "kr_not_before s \<le> now + skew" using a time by auto
qed

section \<open>Acceptance\<close>

lemma accept_cases:
  assumes "accept_key_rotation_statement_v2 V s j now skew = (j', r)"
  obtains (unchanged) "j' = j" "r \<noteq> Ok Appended"
  | (appended) digest where "j' = append_rotation s digest j" "r = Ok Appended" "\<not> kj_frozen j"
      "int (length (kj_accepted j)) = ks_sequence (kj_state j)"
      "validate_statement V s True = Ok ()"
      "verify_key_rotation_statement_v2 V s (kj_state j) now skew = Ok ()"
      "key_rotation_statement_v2_digest V s = Ok digest"
  | (fork) digest body where "j' = j\<lparr>kj_frozen := True\<rparr>" "\<not> kj_frozen j" "v2_error_class_of r = Some RotationFork"
      "validate_statement V s True = Ok ()"
      "int (length (kj_accepted j)) = ks_sequence (kj_state j)" "kr_sequence s \<le> ks_sequence (kj_state j)"
      "kr_old_key s = ka_old_key (kj_accepted j ! nat (kr_sequence s - 1))"
      "key_rotation_statement_v2_signable_bytes V s = Ok body"
      "verify_both_signatures V s (kr_old_key s) body = Ok ()"
      "statement_body_digest_v2 V 0x0004 body = Ok digest"
      "digest \<noteq> ka_body_digest (kj_accepted j ! nat (kr_sequence s - 1))"
  using assms
  by (auto simp: accept_key_rotation_statement_v2_def accept_at_accepted_def Let_def err_def v2_new_def
      v2_error_class_of_def equal_keys_iff split: sum.splits if_splits)

text \<open>Redelivery: the statement just accepted is a replay at the journal it produced.\<close>

lemma append_selectors [simp]:
  "kj_frozen (append_rotation s d j) = kj_frozen j"
  "kj_accepted (append_rotation s d j) =
     kj_accepted j @ [\<lparr>ka_sequence = kr_sequence s, ka_body_digest = d, ka_old_key = kr_old_key s\<rparr>]"
  "ks_sequence (kj_state (append_rotation s d j)) = kr_sequence s"
  "ks_authority_id (kj_state (append_rotation s d j)) = ks_authority_id (kj_state j)"
  "ks_recovery_epoch (kj_state (append_rotation s d j)) = ks_recovery_epoch (kj_state j)"
  "ks_role (kj_state (append_rotation s d j)) = ks_role (kj_state j)"
  "ks_head_hash (kj_state (append_rotation s d j)) = d"
  "ks_current_key (kj_state (append_rotation s d j)) = kr_new_key s"
  "ks_used_key_ids (kj_state (append_rotation s d j)) = ks_used_key_ids (kj_state j) @ [kr_new_key_id s]"
  by (simp_all add: append_rotation_def Let_def)

lemma accepted_then_replay:
  assumes "accept_key_rotation_statement_v2 V s j now skew = (j', Ok Appended)"
  shows "accept_key_rotation_statement_v2 V s j' now' skew' = (j', Ok Replay)"
  using assms
proof (cases rule: accept_cases)
  case (appended digest)
  let ?st = "kj_state j"
  have ext: "extends_state ?st s" by (rule verify_rotation_Ok(1) [OF appended(6)])
  obtain body where body: "key_rotation_statement_v2_signable_bytes V s = Ok body"
    "verify_both_signatures V s (ks_current_key ?st) body = Ok ()"
    using verify_rotation_Ok(2) [OF appended(6)] by blast
  have d: "statement_body_digest_v2 V 0x0004 body = Ok digest"
    using appended(7) body(1) by (simp add: key_rotation_statement_v2_digest_def)
  have len: "nat (kr_sequence s - 1) = length (kj_accepted j)"
    using appended(4) ext by (simp add: extends_state_def)
  have acc: "kj_accepted j' ! nat (kr_sequence s - 1) =
      \<lparr>ka_sequence = kr_sequence s, ka_body_digest = digest, ka_old_key = kr_old_key s\<rparr>"
    by (simp only: appended(1) append_selectors len nth_append_length)
  have "verify_both_signatures V s (kr_old_key s) body = Ok ()"
    using body(2) ext by (simp add: extends_state_def)
  then have "accept_at_accepted V s j' = (j', Ok Replay)"
    unfolding accept_at_accepted_def acc using body(1) d by (simp add: equal_keys_iff)
  moreover have "int (length (kj_accepted j')) = ks_sequence (kj_state j')"
    using appended(4) ext by (simp add: appended(1) extends_state_def)
  ultimately show ?thesis
    using appended(3,5) ext
    by (simp add: accept_key_rotation_statement_v2_def appended(1) Let_def extends_state_def)
qed (simp_all add: v2_error_class_of_def)

section \<open>Reachable journals\<close>

inductive rotation_step :: "v2_prims \<Rightarrow> key_rotation_v2_journal \<Rightarrow> key_rotation_v2_journal \<Rightarrow> bool" for V where
  accept: "rotation_step V j (fst (accept_key_rotation_statement_v2 V s j now skew))"
| recover: "recover_key_rotation_v2 V j epoch key = Ok j' \<Longrightarrow> rotation_step V j j'"

inductive rotation_run :: "v2_prims \<Rightarrow> key_rotation_v2_journal \<Rightarrow> key_rotation_v2_journal \<Rightarrow> bool" for V where
  start: "rotation_run V j j"
| step: "rotation_run V j k \<Longrightarrow> rotation_step V k l \<Longrightarrow> rotation_run V j l"

definition rotation_journal_ok :: "v2_prims \<Rightarrow> key_rotation_v2_journal \<Rightarrow> bool" where
  "rotation_journal_ok V j \<longleftrightarrow>
     (let st = kj_state j; used = ks_used_key_ids st; n = length (kj_accepted j) in
      distinct used \<and> n < length used \<and> ks_sequence st = int n
      \<and> 0 < ks_recovery_epoch st \<and> ks_recovery_epoch st \<le> MAX_SAFE \<and> valid_role (ks_role st)
      \<and> length (ks_authority_id st) = 32 \<and> lower_hex (ks_authority_id st)
      \<and> key_id_v2 V (ks_current_key st) = Ok (last used)
      \<and> (\<forall>i<n. ka_sequence (kj_accepted j ! i) = int i + 1
           \<and> key_id_v2 V (ka_old_key (kj_accepted j ! i)) = Ok (used ! (length used - n - 1 + i)))
      \<and> ks_head_hash st = (if n = 0 then replicate 48 0 else ka_body_digest (last (kj_accepted j))))"

lemma recover_Ok:
  assumes "recover_key_rotation_v2 V j epoch key = Ok j'"
  obtains new_id where "key_id_v2 V key = Ok new_id" "new_id \<notin> set (ks_used_key_ids (kj_state j))"
    "ks_recovery_epoch (kj_state j) < epoch" "epoch \<le> MAX_SAFE"
    "j' = j\<lparr>kj_state := (kj_state j)\<lparr>ks_recovery_epoch := epoch, ks_sequence := 0, ks_head_hash := replicate 48 0,
             ks_current_key := key, ks_used_key_ids := ks_used_key_ids (kj_state j) @ [new_id]\<rparr>,
           kj_accepted := [], kj_frozen := False\<rparr>"
  using assms by (auto simp: recover_key_rotation_v2_def bind_ok_Ok map_err_Ok reject_Ok Let_def)

lemma new_journal_ok:
  assumes "new_key_rotation_v2_journal V authority_id epoch role key = Ok j"
  shows "rotation_journal_ok V j"
  using assms
  by (auto simp: new_key_rotation_v2_journal_def bind_ok_Ok map_err_Ok reject_Ok rotation_journal_ok_def Let_def)

lemma append_journal_ok:
  assumes ok: "rotation_journal_ok V j" and ext: "extends_state (kj_state j) s"
    and v: "validate_statement V s True = Ok ()"
  shows "rotation_journal_ok V (append_rotation s digest j)"
proof -
  let ?u = "ks_used_key_ids (kj_state j)" and ?a = "kj_accepted j"
  note ids = validate_statement_basic(13,14) [OF v]
  have u: "length ?a < length ?u" "key_id_v2 V (ks_current_key (kj_state j)) = Ok (last ?u)"
    "ks_sequence (kj_state j) = int (length ?a)"
    "\<And>i. i < length ?a \<Longrightarrow> ka_sequence (?a ! i) = int i + 1
       \<and> key_id_v2 V (ka_old_key (?a ! i)) = Ok (?u ! (length ?u - length ?a - 1 + i))"
    using ok by (simp_all add: rotation_journal_ok_def Let_def)
  have "last ?u = ?u ! (length ?u - 1)" using u(1) by (intro last_conv_nth) auto
  then have links: "ka_sequence ((?a @ [e]) ! i) = int i + 1
      \<and> key_id_v2 V (ka_old_key ((?a @ [e]) ! i)) = Ok ((?u @ [k]) ! (length ?u - length ?a - 1 + i))"
    if "i < Suc (length ?a)" "ka_sequence e = int (length ?a) + 1" "ka_old_key e = ks_current_key (kj_state j)" for i e k
    using that u by (cases "i = length ?a") (auto simp: nth_append)
  show ?thesis
    using ok ext ids links [where e = "\<lparr>ka_sequence = kr_sequence s, ka_body_digest = digest, ka_old_key = kr_old_key s\<rparr>"]
    by (simp add: rotation_journal_ok_def Let_def extends_state_def)
qed

lemma step_journal_ok:
  assumes "rotation_step V j j'" "rotation_journal_ok V j"
  shows "rotation_journal_ok V j'"
  using assms
proof (cases rule: rotation_step.cases)
  case (accept s now skew)
  obtain r where r: "accept_key_rotation_statement_v2 V s j now skew = (j', r)"
    using accept by (metis prod.collapse)
  then show ?thesis
  proof (cases rule: accept_cases)
    case (appended digest)
    show ?thesis unfolding appended(1)
      by (rule append_journal_ok [OF assms(2) verify_rotation_Ok(1) [OF appended(6)] appended(5)])
  next
    case (fork digest body)
    show ?thesis using assms(2) unfolding fork(1) by (simp add: rotation_journal_ok_def Let_def)
  qed (use assms(2) in simp)
next
  case (recover epoch key)
  then obtain new_id where n: "key_id_v2 V key = Ok new_id" "new_id \<notin> set (ks_used_key_ids (kj_state j))"
    "ks_recovery_epoch (kj_state j) < epoch" "epoch \<le> MAX_SAFE"
    "j' = j\<lparr>kj_state := (kj_state j)\<lparr>ks_recovery_epoch := epoch, ks_sequence := 0, ks_head_hash := replicate 48 0,
             ks_current_key := key, ks_used_key_ids := ks_used_key_ids (kj_state j) @ [new_id]\<rparr>,
           kj_accepted := [], kj_frozen := False\<rparr>" by (rule recover_Ok)
  with assms(2) show ?thesis by (simp add: rotation_journal_ok_def Let_def)
qed

lemma run_journal_ok: "rotation_run V j k \<Longrightarrow> rotation_journal_ok V j \<Longrightarrow> rotation_journal_ok V k"
  by (induction rule: rotation_run.induct) (auto intro: step_journal_ok)

text \<open>What no step undoes: used keys, the epoch, the history of an epoch, and a freeze.\<close>

definition rotation_grows :: "key_rotation_v2_journal \<Rightarrow> key_rotation_v2_journal \<Rightarrow> bool" where
  "rotation_grows j k \<longleftrightarrow>
     (let a = kj_state j; b = kj_state k in
      prefix (ks_used_key_ids a) (ks_used_key_ids b) \<and> ks_recovery_epoch a \<le> ks_recovery_epoch b
      \<and> (ks_recovery_epoch a = ks_recovery_epoch b \<longrightarrow>
           prefix (kj_accepted j) (kj_accepted k) \<and> (kj_frozen j \<longrightarrow> k = j)))"

lemma step_grows:
  assumes "rotation_step V j k"
  shows "rotation_grows j k"
  using assms
proof (cases rule: rotation_step.cases)
  case (accept s now skew)
  obtain r where r: "accept_key_rotation_statement_v2 V s j now skew = (k, r)"
    using accept by (metis prod.collapse)
  then show ?thesis by (cases rule: accept_cases) (simp_all add: rotation_grows_def)
next
  case (recover epoch key)
  then show ?thesis by (rule recover_Ok) (simp add: rotation_grows_def)
qed

lemma grows_refl: "rotation_grows j j"
  by (simp add: rotation_grows_def)

lemma grows_trans: "rotation_grows j k \<Longrightarrow> rotation_grows k l \<Longrightarrow> rotation_grows j l"
  unfolding rotation_grows_def Let_def by (auto intro: prefix_order.trans)

lemma run_grows: "rotation_run V j k \<Longrightarrow> rotation_grows j k"
  by (induction rule: rotation_run.induct) (auto intro: grows_refl grows_trans step_grows)

section \<open>Signed statements are accepted\<close>

lemma verified_lengths:
  "verify_v2_statement V ty body sg pk = Ok () \<Longrightarrow> signature_lengths_ok sg"
  by (simp add: verify_v2_statement_message verify_v2_message_iff components_ok_def signature_lengths_ok_def ML_SIG_LEN_def)

lemma validate_signed:
  assumes "validate_statement V s False = Ok ()"
    and "signature_lengths_ok (kr_old_signature s)" "signature_lengths_ok (kr_new_signature s)"
  shows "validate_statement V s True = Ok ()"
  using assms
  by (auto simp: validate_statement_def Let_def reject_Ok bind_ok_Ok map_err_Ok sig_len_def)

lemma sign_rotation_Ok:
  assumes "sign_key_rotation_statement_v2_with_signers V ctx s old_signer new_signer = Ok s'"
  obtains body a b where "s' = s\<lparr>kr_old_signature := a, kr_new_signature := b\<rparr>" "validate_statement V s' True = Ok ()"
    "key_rotation_statement_v2_signable_bytes V s' = Ok body" "verify_both_signatures V s' (kr_old_key s) body = Ok ()"
proof -
  from assms obtain body a b where s: "validate_statement V s False = Ok ()"
    "sg_public_key old_signer = kr_old_key s" "sg_public_key new_signer = kr_new_key s"
    "key_rotation_statement_v2_signable_bytes V s = Ok body"
    "sign_v2_statement_with_signer V ctx KeyRotationAuthorization body old_signer (kr_old_key s) = Ok a"
    "sign_v2_statement_with_signer V ctx KeyRotationProofOfPossession body new_signer (kr_new_key s) = Ok b"
    "s' = s\<lparr>kr_old_signature := a, kr_new_signature := b\<rparr>"
    by (auto simp: sign_key_rotation_statement_v2_with_signers_def bind_ok_Ok map_err_Ok signer_public_key_Ok
        equal_keys_iff split: if_splits)
  note sigs = s(5,6) [THEN sign_v2_statement_verified]
  have v: "validate_statement V s' False = Ok ()" using s(1) by (simp add: s(7) validate_statement_signatures)
  have "validate_statement V s' True = Ok ()"
    by (rule validate_signed [OF v]) (use sigs verified_lengths in \<open>auto simp: s(7)\<close>)
  moreover have "key_rotation_statement_v2_signable_bytes V s' = Ok body"
    using s(4) by (simp add: s(7) key_rotation_statement_v2_signable_bytes_def validate_statement_signatures statement_cj_def)
  moreover have "verify_both_signatures V s' (kr_old_key s) body = Ok ()"
    using sigs by (simp add: verify_both_Ok s(7))
  ultimately show thesis using that s(7) by blast
qed

lemma used_ids_Ok:
  "used_ids_ok before ids = Ok () \<longleftrightarrow> list_all valid_v2_id ids \<and> distinct ids \<and> set before \<inter> set ids = {}"
  by (induction ids arbitrary: before) (auto simp: reject_Ok)

lemma signed_rotation_accepted:
  assumes codec: "base64_codec V"
    and sign: "sign_key_rotation_statement_v2_with_signers V ctx s old_signer new_signer = Ok s'"
    and j: "rotation_journal_ok V j" "\<not> kj_frozen j" "list_all valid_v2_id (ks_used_key_ids (kj_state j))"
    and ext: "extends_state (kj_state j) s"
    and time: "valid_v2_timestamp now" "0 \<le> skew" "skew \<le> V2_MAX_FUTURE_SKEW_SECONDS"
      "kr_issued_at s \<le> now + skew" "kr_not_before s \<le> now + skew"
  obtains digest where "accept_key_rotation_statement_v2 V s' j now skew = (append_rotation s' digest j, Ok Appended)"
proof -
  obtain body a b where s': "s' = s\<lparr>kr_old_signature := a, kr_new_signature := b\<rparr>" "validate_statement V s' True = Ok ()"
    "key_rotation_statement_v2_signable_bytes V s' = Ok body" "verify_both_signatures V s' (kr_old_key s) body = Ok ()"
    using sign by (rule sign_rotation_Ok)
  note v = validate_statement_basic [OF s'(2)]
  let ?st = "kj_state j" and ?u = "ks_used_key_ids (kj_state j)"
  have ext': "extends_state ?st s'" using ext by (simp add: s'(1) extends_state_def)
  have st: "distinct ?u" "?u \<noteq> []" "key_id_v2 V (ks_current_key ?st) = Ok (last ?u)"
    "ks_sequence ?st = int (length (kj_accepted j))" "0 < ks_recovery_epoch ?st" "ks_recovery_epoch ?st \<le> MAX_SAFE"
    using j(1) by (auto simp: rotation_journal_ok_def Let_def)
  have i64: "i64_add (ks_sequence ?st) 1 = ks_sequence ?st + 1" "i64_add now skew = now + skew"
    using v(7) ext' st(4) time
    by (auto intro!: i64_add_small simp: extends_state_def MAX_SAFE_def MAX_SAFE_INTEGER_def valid_v2_timestamp_def
        V2_MAX_TIMESTAMP_SECONDS_def V2_MAX_FUTURE_SKEW_SECONDS_def)
  have "verify_key_rotation_statement_v2 V s' ?st now skew = Ok ()"
    using st ext' v(6,7,16,17) s'(2-4) time j(3) i64
    by (auto simp: verify_key_rotation_statement_v2_def Let_def bind_ok_Ok reject_Ok map_err_Ok equal_keys_iff
        extends_state_def used_ids_Ok s'(1))
  moreover obtain digest where "key_rotation_statement_v2_digest V s' = Ok digest"
    using rotation_digest [OF codec validate_statement_unsigned [OF s'(2)]] by metis
  ultimately have "accept_key_rotation_statement_v2 V s' j now skew = (append_rotation s' digest j, Ok Appended)"
    using s'(2) st(4) j(2) ext' by (simp add: accept_key_rotation_statement_v2_def Let_def extends_state_def)
  then show thesis by (rule that)
qed

end
