(* ===== verification/V2_Wire_Properties.thy ===== *)
theory V2_Wire_Properties
  imports V2_Samples V2_Wire_Facts V2_Rotation_Journal
begin

text \<open>
  The properties of v2 proof bundles and key rotation, with their witnesses on the sample platform.
\<close>

section \<open>A sample rotation\<close>

definition sample_key_name :: "byte \<Rightarrow> string" where
  "sample_key_name b = hex_bytes (pad32 (KEY_ID_PREFIX @ replicate 32 b))"

definition sample_rotation :: key_rotation_statement_v2 where
  "sample_rotation = \<lparr>kr_version = 2, kr_authority_id = replicate 32 (CHR ''a''), kr_recovery_epoch = 1,
     kr_role = ''issuer'', kr_sequence = 1, kr_previous_statement_hash = replicate 48 0, kr_old_key = sample_pk 3,
     kr_new_key = sample_pk 4, kr_old_key_id = sample_key_name 3, kr_new_key_id = sample_key_name 4,
     kr_issued_at = 1700000000, kr_not_before = 1700000000, kr_old_signature = placeholder_signature,
     kr_new_signature = placeholder_signature\<rparr>"

definition sample_journal :: key_rotation_v2_journal where
  "sample_journal = \<lparr>kj_state = \<lparr>ks_authority_id = replicate 32 (CHR ''a''), ks_recovery_epoch = 1, ks_role = ''issuer'',
       ks_sequence = 0, ks_head_hash = replicate 48 0, ks_current_key = sample_pk 3, ks_used_key_ids = [sample_key_name 3]\<rparr>,
     kj_accepted = [], kj_frozen = False\<rparr>"

definition sample_new_signer :: signer_v2 where
  "sample_new_signer = sample_signer\<lparr>sg_public_key := sample_pk 4\<rparr>"

lemma sample_journal_new:
  "new_key_rotation_v2_journal sample_v2 (replicate 32 (CHR ''a'')) 1 ''issuer'' (sample_pk 3) = Ok sample_journal"
  by code_simp

lemma sample_rotation_valid: "validate_statement sample_v2 sample_rotation True = Ok ()"
  by code_simp

lemma sample_new_signed: "verify_v2_statement sample_v2 ty body placeholder_signature (sample_pk 4) = Ok ()"
proof -
  have "is_ok (validate_ed_public_key sample_v2 (pk_ed25519 (sample_pk 4)))"
    "is_ok (validate_ed_signature sample_v2 (sig_ed25519 placeholder_signature))" by code_simp+
  moreover have "length (pk_ed25519 (sample_pk 4)) = 32 \<and> length (pk_ml_dsa_65 (sample_pk 4)) = ML_PK_LEN"
    by (simp add: sample_pk_def ML_PK_LEN_def)
  moreover have "length (sig_ed25519 placeholder_signature) = 64 \<and> length (sig_ml_dsa_65 placeholder_signature) = ML_SIG_LEN"
    using sample_signature_lengths by (simp add: signature_lengths_ok_def ML_SIG_LEN_def)
  ultimately show ?thesis
    by (simp add: verify_v2_statement_iff components_ok_def sample_v2_accepts)
qed

lemma sample_statement_signed:
  assumes "sg_sign s False (sign_request sample_v2 ty body (sg_mode s) (sg_public_key s) i) = Ok placeholder_signature"
    and "key_id_v2 sample_v2 (sg_public_key s) = Ok i"
    and "verify_v2_statement sample_v2 ty body placeholder_signature (sg_public_key s) = Ok ()"
  shows "sign_v2_statement_with_signer sample_v2 background ty body s (sg_public_key s) = Ok placeholder_signature"
  using assms by (simp add: sign_v2_statement_with_signer_def background_def)

lemma sample_rotation_signed:
  "sign_key_rotation_statement_v2_with_signers sample_v2 background sample_rotation sample_signer sample_new_signer
     = Ok sample_rotation"
proof -
  obtain body where body: "key_rotation_statement_v2_signable_bytes sample_v2 sample_rotation = Ok body"
    by (rule rotation_digest [OF sample_v2_codec validate_statement_unsigned [OF sample_rotation_valid]])
  have ids: "key_id_v2 sample_v2 (sample_pk 3) = Ok (sample_key_name 3)" "key_id_v2 sample_v2 (sample_pk 4) = Ok (sample_key_name 4)"
    by code_simp+
  have "sign_v2_statement_with_signer sample_v2 background ty body sample_signer (sg_public_key sample_signer) = Ok placeholder_signature" for ty
    by (rule sample_statement_signed) (simp_all add: sample_signer_def ids sample_signed)
  moreover have "sign_v2_statement_with_signer sample_v2 background ty body sample_new_signer (sg_public_key sample_new_signer)
      = Ok placeholder_signature" for ty
    by (rule sample_statement_signed) (simp_all add: sample_new_signer_def sample_signer_def ids sample_new_signed)
  moreover have "signer_public_key_v2 sample_v2 sample_signer = Ok (sample_pk 3)"
    "signer_public_key_v2 sample_v2 sample_new_signer = Ok (sample_pk 4)"
    by (simp_all add: signer_public_key_Ok is_ok_def ids sample_signer_def sample_new_signer_def)
  moreover have "sg_public_key sample_signer = sample_pk 3" "sg_public_key sample_new_signer = sample_pk 4"
    by (simp_all add: sample_signer_def sample_new_signer_def)
  moreover have "kr_old_key sample_rotation = sample_pk 3" "kr_new_key sample_rotation = sample_pk 4"
    "kr_old_signature sample_rotation = placeholder_signature" "kr_new_signature sample_rotation = placeholder_signature"
    by (simp_all add: sample_rotation_def)
  ultimately show ?thesis
    using validate_statement_unsigned [OF sample_rotation_valid] body
    by (simp add: sign_key_rotation_statement_v2_with_signers_def equal_keys_iff)
qed

lemma sample_journal_facts:
  "rotation_journal_ok sample_v2 sample_journal" "\<not> kj_frozen sample_journal"
  "list_all valid_v2_id (ks_used_key_ids (kj_state sample_journal))" "extends_state (kj_state sample_journal) sample_rotation"
  "valid_v2_timestamp 1700000000" "(0 :: int) \<le> 0" "0 \<le> V2_MAX_FUTURE_SKEW_SECONDS"
  "kr_issued_at sample_rotation \<le> 1700000000 + 0" "kr_not_before sample_rotation \<le> 1700000000 + 0"
proof -
  show "rotation_journal_ok sample_v2 sample_journal" by (rule new_journal_ok [OF sample_journal_new])
  show "\<not> kj_frozen sample_journal" "list_all valid_v2_id (ks_used_key_ids (kj_state sample_journal))"
    by code_simp+
  have "sample_key_name 4 \<noteq> sample_key_name 3" by code_simp
  then show "extends_state (kj_state sample_journal) sample_rotation"
    by (simp add: extends_state_def sample_journal_def sample_rotation_def)
qed (simp_all add: valid_v2_timestamp_def V2_MAX_TIMESTAMP_SECONDS_def V2_MAX_FUTURE_SKEW_SECONDS_def sample_rotation_def)

section \<open>Proof bundles\<close>

text \<open>
  C21: A v2 proof bundle verifies exactly when it is authentic: a bounded, well-formed presentation under
  a key whose ID is the agent's, a chain of at most the allowed depth with no repeated reference in which
  every certificate is valid, signed by its issuer and issued by the subject of the next, a leaf issued to
  the presenting key, a digest over the whole chain, and a presentation signature over that digest.
\<close>

theorem bundle_accepted_exact:
  "verify_proof_bundle_v2_signatures V b = Ok () \<longleftrightarrow> bundle_authentic V b"
  by (rule verify_bundle_Ok)

section \<open>Key rotation\<close>

text \<open>
  C22: Every journal the rotation calls reach is consistent: no key is used twice over all epochs, the
  current key is the last one used, and the accepted statements of the epoch are numbered without a gap,
  each under the key the one before it introduced.
\<close>

theorem rotation_journal_consistent:
  assumes "new_key_rotation_v2_journal V authority_id epoch role key = Ok j" "rotation_run V j k"
  shows "rotation_journal_ok V k"
  by (rule run_journal_ok [OF assms(2) new_journal_ok [OF assms(1)]])

theorem rotation_journal_consistent_witness:
  "rotation_journal_ok sample_v2
     (fst (accept_key_rotation_statement_v2 sample_v2 sample_rotation sample_journal 1700000000 0))"
  by (rule rotation_journal_consistent [OF sample_journal_new])
    (rule rotation_run.step [OF rotation_run.start rotation_step.accept])

text \<open>
  C23: What a rotation journal has recorded stays recorded.  Whatever is accepted or recovered later, the
  used keys remain, the epoch never decreases, inside an epoch the accepted statements remain, and a
  journal frozen by a fork does not change before a recovery raises its epoch.
\<close>

theorem rotation_history_final:
  assumes "rotation_run V j k"
  shows "prefix (ks_used_key_ids (kj_state j)) (ks_used_key_ids (kj_state k))
     \<and> ks_recovery_epoch (kj_state j) \<le> ks_recovery_epoch (kj_state k)
     \<and> (ks_recovery_epoch (kj_state j) = ks_recovery_epoch (kj_state k) \<longrightarrow>
          prefix (kj_accepted j) (kj_accepted k) \<and> (kj_frozen j \<longrightarrow> k = j))"
  using run_grows [OF assms] by (simp add: rotation_grows_def Let_def)

theorem rotation_history_final_witness:
  "prefix [sample_key_name 3] (ks_used_key_ids (kj_state
     (fst (accept_key_rotation_statement_v2 sample_v2 sample_rotation sample_journal 1700000000 0))))"
proof -
  have "rotation_run sample_v2 sample_journal
      (fst (accept_key_rotation_statement_v2 sample_v2 sample_rotation sample_journal 1700000000 0))"
    by (rule rotation_run.step [OF rotation_run.start rotation_step.accept])
  from rotation_history_final [OF this] show ?thesis by (simp add: sample_journal_def)
qed

text \<open>
  C24: Only a statement both keys signed changes a rotation journal.  It is then appended as the next one
  of the authority, under its current key and with a key never used before, or it contradicts the
  statement accepted at its sequence under the same old key and does nothing but freeze the journal.
\<close>

theorem rotation_change_authenticated:
  assumes "accept_key_rotation_statement_v2 V s j now skew = (j', r)" "j' \<noteq> j"
  shows "\<exists>body. key_rotation_statement_v2_signable_bytes V s = Ok body
     \<and> verify_v2_statement V KeyRotationAuthorization body (kr_old_signature s) (kr_old_key s) = Ok ()
     \<and> verify_v2_statement V KeyRotationProofOfPossession body (kr_new_signature s) (kr_new_key s) = Ok ()
     \<and> (r = Ok Appended \<and> extends_state (kj_state j) s \<and> ks_current_key (kj_state j') = kr_new_key s
        \<or> v2_error_class_of r = Some RotationFork \<and> j' = j\<lparr>kj_frozen := True\<rparr>
          \<and> kr_old_key s = ka_old_key (kj_accepted j ! nat (kr_sequence s - 1))
          \<and> statement_body_digest_v2 V 0x0004 body \<noteq> Ok (ka_body_digest (kj_accepted j ! nat (kr_sequence s - 1))))"
  using assms(1)
proof (cases rule: accept_cases)
  case unchanged
  with assms(2) show ?thesis by simp
next
  case (appended digest)
  note ext = verify_rotation_Ok(1) [OF appended(6)]
  obtain body where "key_rotation_statement_v2_signable_bytes V s = Ok body"
    "verify_both_signatures V s (ks_current_key (kj_state j)) body = Ok ()"
    using verify_rotation_Ok(2) [OF appended(6)] by blast
  with ext appended(1,2) show ?thesis by (auto simp: verify_both_Ok extends_state_def)
next
  case (fork digest body)
  then show ?thesis by (auto simp: verify_both_Ok)
qed

theorem rotation_change_authenticated_witness:
  "\<exists>body. key_rotation_statement_v2_signable_bytes sample_v2 sample_rotation = Ok body
     \<and> verify_v2_statement sample_v2 KeyRotationAuthorization body placeholder_signature (sample_pk 3) = Ok ()"
proof -
  obtain digest where acc: "accept_key_rotation_statement_v2 sample_v2 sample_rotation sample_journal 1700000000 0
      = (append_rotation sample_rotation digest sample_journal, Ok Appended)"
    by (rule signed_rotation_accepted [OF sample_v2_codec sample_rotation_signed sample_journal_facts])
  have "kj_accepted (append_rotation sample_rotation digest sample_journal) \<noteq> kj_accepted sample_journal" by simp
  then have "append_rotation sample_rotation digest sample_journal \<noteq> sample_journal" by metis
  from rotation_change_authenticated [OF acc this] show ?thesis by (auto simp: sample_rotation_def)
qed

text \<open>
  C25: A rotation the two keys sign is accepted, once.  A signed statement that extends the state of a
  consistent journal that is not frozen, at a time its dates allow, is appended; delivered again, at any
  time, it is a replay that leaves the journal as it is.
\<close>

theorem signed_rotation_accepted_once:
  assumes "base64_codec V"
    and "sign_key_rotation_statement_v2_with_signers V ctx s old_signer new_signer = Ok s'"
    and "rotation_journal_ok V j" "\<not> kj_frozen j" "list_all valid_v2_id (ks_used_key_ids (kj_state j))"
    and "extends_state (kj_state j) s"
    and "valid_v2_timestamp now" "0 \<le> skew" "skew \<le> V2_MAX_FUTURE_SKEW_SECONDS"
      "kr_issued_at s \<le> now + skew" "kr_not_before s \<le> now + skew"
  shows "\<exists>j'. accept_key_rotation_statement_v2 V s' j now skew = (j', Ok Appended)
     \<and> ks_current_key (kj_state j') = kr_new_key s
     \<and> (\<forall>now' skew'. accept_key_rotation_statement_v2 V s' j' now' skew' = (j', Ok Replay))"
proof -
  obtain digest where acc: "accept_key_rotation_statement_v2 V s' j now skew = (append_rotation s' digest j, Ok Appended)"
    by (rule signed_rotation_accepted [OF assms])
  moreover have "kr_new_key s' = kr_new_key s" by (rule sign_rotation_Ok [OF assms(2)]) simp
  ultimately show ?thesis using accepted_then_replay [OF acc] by (intro exI [of _ "append_rotation s' digest j"]) simp
qed

theorem signed_rotation_accepted_once_witness:
  "\<exists>j'. accept_key_rotation_statement_v2 sample_v2 sample_rotation sample_journal 1700000000 0 = (j', Ok Appended)
     \<and> ks_current_key (kj_state j') = sample_pk 4"
  using signed_rotation_accepted_once [OF sample_v2_codec sample_rotation_signed sample_journal_facts]
  by (auto simp: sample_rotation_def)

end
