(* ===== verification/Spec2Isabelle.thy ===== *)
theory Spec2Isabelle
  imports V1_Properties V2_Properties V2_Store_Properties V2_Store_Liveness V2_Wire_Properties
begin

text \<open>
  \<^bold>\<open>The Ratify protocol, Rust core (\<open>src/sdks/rust/src/\<close>).\<close>

  Humans and organisations delegate authority to agents with signed certificates; an agent presents a
  chain of them with a signed challenge, and a verifier decides.  Protocol v1 (the crate root) is a
  stateless verifier with a challenge store and a constraint language beside it.  Protocol v2
  (\<open>v2/\<close>) adds classified errors, a strict JSON wire form, typed signing transcripts, a claim store that
  evaluates every challenge at most once, a receipt log, and release of decisions after their receipt has
  been published and acknowledged.

  \<^bold>\<open>Conventions.\<close>  A Rust struct is a record, an enum a datatype, \<open>Result\<close> a sum with \<open>Err = Inl\<close> and
  \<open>Ok = Inr\<close>, bytes are \<open>8 word list\<close>, and text is the list of its UTF-8 bytes.  \<open>i64\<close> is \<open>int\<close> with the
  wrap of a release build written out (\<open>i64_add\<close>, \<open>i64_sub\<close>); \<open>f64\<close> is its 64-bit pattern (\<open>Float64\<close>).
  Interior mutability is a state passed and returned.  Third-party crates (base64, hex, SHA-2, SHAKE, HMAC,
  Ed25519, ML-DSA-65, the time zone data, the printer of floats) are the fields of \<open>prims\<close>
  (\<open>Ratify_Platform\<close>) and \<open>v2_prims\<close> (\<open>V2_Platform\<close>); what a theorem needs of them is a named hypothesis
  (\<open>base64_codec\<close>, \<open>base64_injective\<close>, \<open>sha384_sized\<close>, \<open>hybrid_key_pair\<close>, ...), and \<open>Ratify_Samples\<close> and
  \<open>V2_Samples\<close> give platforms on which all of them hold, which the witnesses evaluate.

  \<^bold>\<open>Protocol v1.\<close>
  \<^item> \<open>V1_Types\<close> (types.rs), \<open>V1_Scope\<close> (scope.rs), \<open>V1_Resource_Path\<close> (resource\_path.rs), \<open>V1_Constraints\<close>
    (constraints.rs): data, scope algebra, path matching, the evaluation of every constraint kind.
    \<open>V1_Issuance\<close> shows that issued path sets can be satisfied.
  \<^item> \<open>V1_Canonical\<close> (canonical.rs), \<open>V1_Crypto\<close> (crypto.rs), \<open>V1_Receipts\<close> (receipts.rs), \<open>V1_Wire\<close> (wire.rs),
    \<open>V1_Operation_Context\<close> (operation\_context.rs): the signed byte strings, hybrid signatures, tokens, receipts
    and verdicts, decoders.  \<open>V1_Canonical_Unique\<close> and \<open>V1_Signing\<close> show that the signed bytes determine
    what was signed and that what is signed verifies.
  \<^item> \<open>V1_Challenge_Store\<close> (challenge\_store.rs), \<open>V1_Verify\<close>, \<open>V1_Streamed\<close>, \<open>V1_Transaction\<close> (verify.rs): the
    store, the verifier section by section, streamed turns, transaction receipts.  \<open>V1_Verify_Spec\<close> states
    what a valid presentation is without the control flow; \<open>V1_Verify_Store\<close> runs the verifier over the store.

  \<^bold>\<open>Protocol v2.\<close>
  \<^item> \<open>V2_Errors\<close> (errors.rs, limits.rs, stream\_sequence.rs), \<open>V2_Crypto\<close> (crypto.rs, crypto\_v2.rs),
    \<open>V2_Signer\<close> (signer.rs): classes, bounds, transcripts, both verifiers, external signers.
  \<^item> \<open>V2_Json\<close> (json.rs): parser, byte and null rules, object access, writer.  \<open>V2_Json_Facts\<close>,
    \<open>V2_Json_Codec\<close> and \<open>V2_Json_Read\<close> show that the parser reads back what the writer prints, that what it
    accepts is well typed, and that its loops end.
  \<^item> \<open>V2_Log\<close>, \<open>V2_Witness\<close> (witness.rs, the statement digest of rotation.rs), \<open>V2_Receipt\<close> (receipt.rs with the
    scope rules of wire.rs and the evaluator references of evaluator.rs), \<open>V2_Checkpoint_Ack\<close>
    (checkpoint\_ack.rs), \<open>V2_Operation_Context\<close> (operation\_context.rs): log heads, witness entries, receipts,
    acknowledgements, contexts and claim identifiers.  \<open>V2_Receipt_Facts\<close>, \<open>V2_Receipt_Log\<close>,
    \<open>V2_Receipt_Rules\<close>: round trips, signing at a head, what a validated receipt may claim.
  \<^item> \<open>V2_Claim\<close> (claim\_store.rs, evaluation\_progress.rs): claims, payload checks, progress, the interrupted result.
  \<^item> \<open>V2_Release\<close> (release.rs): the ten steps of release over any store, clock and checkpoint.
  \<^item> \<open>V2_Reference_Store\<close> (reference/store.rs): the whole store as one state with one function per operation.
  \<^item> \<open>V2_Drivers\<close> (claim\_store.rs, evaluation\_progress.rs): finalization under a capability, progress,
    recovery, resumption over any claim store.

  \<^bold>\<open>The reference store.\<close>  \<open>V2_Store_Changes\<close> reduces every operation to a run of an inductive relation
  \<open>store_change\<close>, whatever the anchor answers.  \<open>V2_Store_Invariants\<close> proves the invariant \<open>store_inv\<close> of
  every reachable state, \<open>V2_Store_History\<close> what no run undoes (\<open>store_later\<close>), \<open>V2_Store_Calls\<close> the sequences of
  calls with their anchors, streams and rates, \<open>V2_Store_Log\<close> the log as an independent verifier sees it and what a
  release over the store rests on, \<open>V2_Store_Liveness\<close> what does get done.  \<open>V2_Store_Samples\<close> is a run from a
  claim over its recovery and publication to its release.

  \<^bold>\<open>Interfaces.\<close>  \<open>challenge_store_laws\<close> (the verifier over a challenge store; interpreted on the in-memory
  store), \<open>signer\<close> (what is signed verifies; on the hybrid scheme), \<open>release_ledger\<close> (release over a store that
  never changes a release record; on the reference store), \<open>claim_ledger\<close> (the drivers over a store that never
  changes a committed result; on the reference store).

  \<^bold>\<open>Properties.\<close>  \<open>V1_Properties\<close>, \<open>V2_Properties\<close> and \<open>V2_Store_Properties\<close> state them, each with a witness on
  the samples where it has hypotheses.

  \<^bold>\<open>Bounds and fuel.\<close>  The recursion of the parser is structural in the nesting limit of the code
  (\<open>MAX_JSON_NESTING_DEPTH\<close>).  Its loops over array elements and members get one round more than there are
  characters left; \<open>array_loop_terminates\<close> shows the bound is never what ends them.  All other recursions are
  structural or have a measure.

  \<^bold>\<open>Not modelled.\<close>  Key generation, the generic JSON of serde and the tree of cancellation contexts (a context is
  the sequence of its readings); of v2 the delegation certificates, bundles and preflight (wire.rs, preflight.rs,
  verify.rs, authorization.rs), status lists and their publication (status*.rs), rotation statements, journals
  (journal*.rs), evaluators and the time zone tables, archival and the offline device of reference/.  The C, FFI and
  Python bindings only convert arguments and are left out, as are the ports to other languages, test vectors and
  examples.
\<close>

end
